(* ===== verification/Py_Prelude.thy ===== *)
theory Py_Prelude
  imports Main "HOL-Library.AList" "HOL-Library.Sublist"
begin

text \<open>
  Shared vocabulary of the development: the Python values, exceptions and string operations
  that the binding generator uses, and the state-and-exception monad in which the stateful
  code is written.  Statements of the source become monadic actions: an action receives the
  state, returns either an exception (\<open>Inl\<close>) or a value (\<open>Inr\<close>), and always returns the state
  as it was left, so that mutations made before an exception stay visible, as in Python.
\<close>

named_theorems monad_defs \<open>definitions of the state-and-exception monad\<close>
named_theorems emit_defs \<open>definitions of the primitive emission statements\<close>

section \<open>Exceptions and dynamic values\<close>

datatype py_error =
    ValueError string
  | TypeError string
  | KeyError string
  | IndexError
  | AttributeError string
  | NameError string
  | AssertionError
  | RuntimeError string
  | NotImplementedError
  | StopIteration
  | NotSupportedError string
  | CodeGenerationError string
  | TypeLookupError "string list"
  | TypeConfigurationError string
  | SkipWrapper
  | IOError string

text \<open>The dynamically typed values that reach the generator as default values and flags.\<close>

datatype pyval = PyNone | PyBool bool | PyInt int | PyStr string

fun truthy :: "pyval \<Rightarrow> bool" where
  "truthy PyNone = False"
| "truthy (PyBool b) = b"
| "truthy (PyInt n) = (n \<noteq> 0)"
| "truthy (PyStr s) = (s \<noteq> [])"

type_synonym 'a res = "py_error + 'a"

definition bind_res :: "'a res \<Rightarrow> ('a \<Rightarrow> 'b res) \<Rightarrow> 'b res" where
  "bind_res r f = (case r of Inl e \<Rightarrow> Inl e | Inr a \<Rightarrow> f a)"

lemma bind_res_simps [simp]:
  "bind_res (Inl e) f = Inl e"
  "bind_res (Inr a) f = f a"
  by (simp_all add: bind_res_def)

lemma bind_res_Inr: "bind_res r f = Inr b \<longleftrightarrow> (\<exists>a. r = Inr a \<and> f a = Inr b)"
  by (cases r) auto

text \<open>Computations that may also fail to return: \<open>None\<close>.\<close>

definition bind_div :: "'a res option \<Rightarrow> ('a \<Rightarrow> 'b res option) \<Rightarrow> 'b res option" where
  "bind_div r f = (case r of None \<Rightarrow> None | Some (Inl e) \<Rightarrow> Some (Inl e) | Some (Inr a) \<Rightarrow> f a)"

lemma bind_div_simps [simp]:
  "bind_div None f = None"
  "bind_div (Some (Inl e)) f = Some (Inl e)"
  "bind_div (Some (Inr a)) f = f a"
  by (simp_all add: bind_div_def)

lemma bind_div_Inr: "bind_div r f = Some (Inr b) \<longleftrightarrow> (\<exists>a. r = Some (Inr a) \<and> f a = Some (Inr b))"
  by (auto simp: bind_div_def split: option.splits sum.splits)

section \<open>Statements: state and exceptions\<close>

type_synonym ('s, 'a) py = "'s \<Rightarrow> 'a res \<times> 's"

definition ret :: "'a \<Rightarrow> ('s, 'a) py" where [monad_defs]:
  "ret a = (\<lambda>s. (Inr a, s))"

definition bnd :: "('s, 'a) py \<Rightarrow> ('a \<Rightarrow> ('s, 'b) py) \<Rightarrow> ('s, 'b) py" where [monad_defs]:
  "bnd m f = (\<lambda>s. case m s of (Inl e, s') \<Rightarrow> (Inl e, s') | (Inr a, s') \<Rightarrow> f a s')"

definition raise_py :: "py_error \<Rightarrow> ('s, 'a) py" where [monad_defs]:
  "raise_py e = (\<lambda>s. (Inl e, s))"

definition lift_res :: "'a res \<Rightarrow> ('s, 'a) py" where [monad_defs]:
  "lift_res r = (\<lambda>s. (r, s))"

definition upd :: "('s \<Rightarrow> 's) \<Rightarrow> ('s, unit) py" where [monad_defs]:
  "upd f = (\<lambda>s. (Inr (), f s))"

definition gets :: "('s \<Rightarrow> 'a) \<Rightarrow> ('s, 'a) py" where [monad_defs]:
  "gets f = (\<lambda>s. (Inr (f s), s))"

definition assert_py :: "bool \<Rightarrow> ('s, unit) py" where [monad_defs]:
  "assert_py b = (if b then ret () else raise_py AssertionError)"

text \<open>A block of statements, executed in order.\<close>

primrec seqs :: "('s, unit) py list \<Rightarrow> ('s, unit) py" where
  "seqs [] = ret ()"
| "seqs (m # ms) = bnd m (\<lambda>_. seqs ms)"

text \<open>\<open>if c: m\<close> without an else branch.\<close>

definition when_py :: "bool \<Rightarrow> ('s, unit) py \<Rightarrow> ('s, unit) py" where [monad_defs]:
  "when_py c m = (if c then m else ret ())"

text \<open>\<open>for x in xs: f(x)\<close>.\<close>

primrec for_each :: "('a \<Rightarrow> ('s, unit) py) \<Rightarrow> 'a list \<Rightarrow> ('s, unit) py" where
  "for_each f [] = ret ()"
| "for_each f (x # xs) = bnd (f x) (\<lambda>_. for_each f xs)"

text \<open>\<open>try: m except ...: h(e)\<close>; the handler sees the state as the body left it.\<close>

definition try_except :: "('s, 'a) py \<Rightarrow> (py_error \<Rightarrow> ('s, 'a) py) \<Rightarrow> ('s, 'a) py" where [monad_defs]:
  "try_except m h = (\<lambda>s. case m s of (Inl e, s') \<Rightarrow> h e s' | (Inr a, s') \<Rightarrow> (Inr a, s'))"

text \<open>\<open>try: m finally: f\<close>; an exception of the body is re-raised after the final block.\<close>

definition try_finally :: "('s, 'a) py \<Rightarrow> ('s, unit) py \<Rightarrow> ('s, 'a) py" where [monad_defs]:
  "try_finally m f = (\<lambda>s. case m s of (r, s') \<Rightarrow>
     (case f s' of (Inl e, s'') \<Rightarrow> (Inl e, s'') | (Inr _, s'') \<Rightarrow> (r, s'')))"

lemma ret_run [simp]: "ret a s = (Inr a, s)"
  by (simp add: ret_def)

lemma raise_run [simp]: "raise_py e s = (Inl e, s)"
  by (simp add: raise_py_def)

lemma upd_run [simp]: "upd f s = (Inr (), f s)"
  by (simp add: upd_def)

lemma gets_run [simp]: "gets f s = (Inr (f s), s)"
  by (simp add: gets_def)

lemma lift_run [simp]: "lift_res r s = (r, s)"
  by (simp add: lift_res_def)

lemma bnd_run_Inr [simp]: "m s = (Inr a, s') \<Longrightarrow> bnd m f s = f a s'"
  by (simp add: bnd_def)

lemma bnd_run_Inl [simp]: "m s = (Inl e, s') \<Longrightarrow> bnd m f s = (Inl e, s')"
  by (simp add: bnd_def)

lemma bnd_ret [simp]: "bnd (ret a) f = f a"
  by (simp add: fun_eq_iff bnd_def)

lemma bnd_upd [simp]: "bnd (upd g) f s = f () (g s)"
  by (simp add: bnd_def)

lemma bnd_gets [simp]: "bnd (gets g) f s = f (g s) s"
  by (simp add: bnd_def)

lemma bnd_lift [simp]:
  "bnd (lift_res (Inr a)) f = f a"
  "bnd (lift_res (Inl e)) f = raise_py e"
  by (simp_all add: fun_eq_iff bnd_def)

lemma bnd_assoc: "bnd (bnd m f) g = bnd m (\<lambda>x. bnd (f x) g)"
  by (auto simp: fun_eq_iff bnd_def split: prod.splits sum.splits)

lemma assert_py_simps [simp]:
  "assert_py True = ret ()"
  "assert_py False = raise_py AssertionError"
  by (simp_all add: assert_py_def)

lemma bnd_raise [simp]: "bnd (raise_py e) f = raise_py e"
  by (simp add: fun_eq_iff bnd_def)

lemma when_py_simps [simp]:
  "when_py True m = m"
  "when_py False m = ret ()"
  by (simp_all add: when_py_def)

lemma bnd_eq_InrE:
  assumes "bnd m f s = (Inr b, s'')"
  obtains a s' where "m s = (Inr a, s')" "f a s' = (Inr b, s'')"
  using assms by (auto simp: bnd_def split: prod.splits sum.splits)

lemma for_each_append: "for_each f (xs @ ys) = bnd (for_each f xs) (\<lambda>_. for_each f ys)"
  by (induction xs) (simp_all add: bnd_assoc)

end
