(* ===== verification/Py_String.thy ===== *)
theory Py_String
  imports Py_Prelude
begin

text \<open>
  Python 2 string operations as the generator uses them: \<open>split\<close>, \<open>join\<close>, \<open>rstrip\<close>, \<open>replace\<close>,
  \<open>startswith\<close>, \<open>find\<close>, indexing and slicing with Python's treatment of negative positions, and
  the decimal formatting of \<open>%i\<close>.  A string is a list of characters.
\<close>

section \<open>Characters\<close>

definition nl :: string where
  "nl = ''\<newline>''"

definition dq :: string where
  "dq = [CHR 0x22]"

definition isspace_char :: "char \<Rightarrow> bool" where
  "isspace_char c \<longleftrightarrow>
     c = CHR '' '' \<or> c = CHR 0x09 \<or> c = CHR 0x0A \<or> c = CHR 0x0B \<or> c = CHR 0x0C \<or> c = CHR 0x0D"

definition digit_chars :: string where
  "digit_chars = ''0123456789''"

definition isdigit_char :: "char \<Rightarrow> bool" where
  "isdigit_char c \<longleftrightarrow> c \<in> set digit_chars"

definition islower_char :: "char \<Rightarrow> bool" where
  "islower_char c \<longleftrightarrow> c \<in> set ''abcdefghijklmnopqrstuvwxyz''"

definition upper_char :: "char \<Rightarrow> char" where
  "upper_char c = (case map_of (zip ''abcdefghijklmnopqrstuvwxyz'' ''ABCDEFGHIJKLMNOPQRSTUVWXYZ'') c of
     None \<Rightarrow> c | Some d \<Rightarrow> d)"

definition lower_char :: "char \<Rightarrow> char" where
  "lower_char c = (case map_of (zip ''ABCDEFGHIJKLMNOPQRSTUVWXYZ'' ''abcdefghijklmnopqrstuvwxyz'') c of
     None \<Rightarrow> c | Some d \<Rightarrow> d)"

section \<open>Splitting and joining\<close>

fun split_on :: "char \<Rightarrow> string \<Rightarrow> string list" where
  "split_on c [] = [[]]"
| "split_on c (x # xs) =
     (if x = c then [] # split_on c xs
      else (case split_on c xs of [] \<Rightarrow> [[x]] | y # ys \<Rightarrow> (x # y) # ys))"

fun join :: "string \<Rightarrow> string list \<Rightarrow> string" where
  "join sep [] = []"
| "join sep [x] = x"
| "join sep (x # y # ys) = x @ sep @ join sep (y # ys)"

lemma split_on_neq_Nil [simp]: "split_on c s \<noteq> []"
  by (cases s) (auto split: list.splits)

lemma join_Cons_neq: "ys \<noteq> [] \<Longrightarrow> join sep (x # ys) = x @ sep @ join sep ys"
  by (cases ys) simp_all

lemma join_split_on [simp]: "join [c] (split_on c s) = s"
proof (induction s)
  case (Cons x xs)
  show ?case
  proof (cases "x = c")
    case True
    with Cons show ?thesis by (simp add: join_Cons_neq)
  next
    case False
    obtain y ys where "split_on c xs = y # ys"
      by (cases "split_on c xs") auto
    with False Cons show ?thesis by (cases ys) auto
  qed
qed simp

lemma split_on_free: "x \<in> set (split_on c s) \<Longrightarrow> c \<notin> set x"
  by (induction s arbitrary: x) (auto split: list.splits if_splits)

lemma split_on_single: "c \<notin> set s \<Longrightarrow> split_on c s = [s]"
  by (induction s) auto

lemma split_on_append:
  "c \<notin> set s \<Longrightarrow> split_on c (s @ c # t) = s # split_on c t"
  by (induction s) auto

lemma split_on_join:
  "xs \<noteq> [] \<Longrightarrow> (\<And>x. x \<in> set xs \<Longrightarrow> c \<notin> set x) \<Longrightarrow> split_on c (join [c] xs) = xs"
proof (induction xs)
  case (Cons x xs)
  show ?case
  proof (cases "xs = []")
    case True
    with Cons.prems show ?thesis by (simp add: split_on_single)
  next
    case False
    with Cons show ?thesis by (simp add: join_Cons_neq split_on_append)
  qed
qed simp

lemma join_append:
  "xs \<noteq> [] \<Longrightarrow> ys \<noteq> [] \<Longrightarrow> join sep (xs @ ys) = join sep xs @ sep @ join sep ys"
proof (induction xs)
  case (Cons x xs)
  then show ?case by (cases "xs = []") (simp_all add: join_Cons_neq)
qed simp

text \<open>\<open>s.split(sep)\<close> for a separator of any positive length; \<open>acc\<close> is the reversed current field.\<close>

fun split_str_from :: "string \<Rightarrow> nat \<Rightarrow> string \<Rightarrow> string \<Rightarrow> string list" where
  "split_str_from sep _ acc [] = [rev acc]"
| "split_str_from sep (Suc n) acc (c # s) = split_str_from sep n acc s"
| "split_str_from sep 0 acc (c # s) =
     (if take (length sep) (c # s) = sep then rev acc # split_str_from sep (length sep - 1) [] s
      else split_str_from sep 0 (c # acc) s)"

definition split_str :: "string \<Rightarrow> string \<Rightarrow> string list" where
  "split_str sep s = split_str_from sep 0 [] s"

lemma split_str_from_neq_Nil [simp]: "split_str_from sep n acc s \<noteq> []"
  by (induction sep n acc s rule: split_str_from.induct) simp_all

lemma split_str_neq_Nil [simp]: "split_str sep s \<noteq> []"
  by (simp add: split_str_def)

section \<open>Stripping, replacing, prefixes\<close>

definition rstrip :: "string \<Rightarrow> string" where
  "rstrip s = rev (dropWhile isspace_char (rev s))"

definition lstrip :: "string \<Rightarrow> string" where
  "lstrip s = dropWhile isspace_char s"

definition replace_char :: "char \<Rightarrow> string \<Rightarrow> string \<Rightarrow> string" where
  "replace_char c r s = concat (map (\<lambda>x. if x = c then r else [x]) s)"

definition startswith :: "string \<Rightarrow> string \<Rightarrow> bool" where
  "startswith s p \<longleftrightarrow> take (length p) s = p"

definition endswith :: "string \<Rightarrow> string \<Rightarrow> bool" where
  "endswith s p \<longleftrightarrow> length p \<le> length s \<and> drop (length s - length p) s = p"

text \<open>Whether one string occurs in another.\<close>

fun occurs_in :: "string \<Rightarrow> string \<Rightarrow> bool" where
  "occurs_in t [] = (t = [])"
| "occurs_in t (c # cs) = (take (length t) (c # cs) = t \<or> occurs_in t cs)"

lemma rstrip_idem [simp]: "rstrip (rstrip s) = rstrip s"
proof -
  have "dropWhile isspace_char (dropWhile isspace_char xs) = dropWhile isspace_char xs" for xs
    by (induction xs) auto
  then show ?thesis by (simp add: rstrip_def)
qed

lemma rstrip_prefix: "\<exists>t. s = rstrip s @ t \<and> list_all isspace_char t"
proof -
  have "rev s = takeWhile isspace_char (rev s) @ dropWhile isspace_char (rev s)" by simp
  then have "s = rstrip s @ rev (takeWhile isspace_char (rev s))"
    unfolding rstrip_def by (metis rev_append rev_rev_ident)
  moreover have "list_all isspace_char (rev (takeWhile isspace_char (rev s)))"
    by (auto simp: list_all_iff dest: set_takeWhileD)
  ultimately show ?thesis by blast
qed

lemma set_rstrip: "set (rstrip s) \<subseteq> set s"
  by (auto simp: rstrip_def dest: set_dropWhileD)

lemma replace_char_append [simp]: "replace_char c r (s @ t) = replace_char c r s @ replace_char c r t"
  by (simp add: replace_char_def)

lemma replace_char_simps [simp]:
  "replace_char c r [] = []"
  "replace_char c r (x # xs) = (if x = c then r else [x]) @ replace_char c r xs"
  by (simp_all add: replace_char_def)

lemma replace_char_id: "c \<notin> set s \<Longrightarrow> replace_char c r s = s"
  by (induction s) auto

lemma startswith_prefix: "startswith s p \<longleftrightarrow> prefix p s"
  by (metis append_eq_conv_conj prefix_def startswith_def append_take_drop_id)

lemma startswith_Nil [simp]: "startswith s []"
  by (simp add: startswith_def)

lemma dropWhile_prefix:
  "list_all P xs \<Longrightarrow> dropWhile P (xs @ ys) = dropWhile P ys"
  "list_all P xs \<Longrightarrow> takeWhile P (xs @ ys) = xs @ takeWhile P ys"
  by (induction xs) auto

section \<open>Positions, slices and searching\<close>

text \<open>\<open>s[i]\<close>: negative positions count from the end, others out of range raise IndexError.\<close>

definition py_index :: "'a list \<Rightarrow> int \<Rightarrow> 'a res" where
  "py_index s i =
     (let n = int (length s); j = (if i < 0 then n + i else i)
      in if 0 \<le> j \<and> j < n then Inr (s ! nat j) else Inl IndexError)"

text \<open>A slice bound: negative positions count from the end, then the bound is clamped.\<close>

definition slice_bound :: "'a list \<Rightarrow> int \<Rightarrow> nat" where
  "slice_bound s i =
     (let n = int (length s); j = (if i < 0 then n + i else i)
      in nat (max 0 (min n j)))"

definition py_slice :: "'a list \<Rightarrow> int \<Rightarrow> int \<Rightarrow> 'a list" where
  "py_slice s i j = take (slice_bound s j - slice_bound s i) (drop (slice_bound s i) s)"

fun find_from :: "string \<Rightarrow> string \<Rightarrow> nat \<Rightarrow> int" where
  "find_from pat [] k = (if pat = [] then int k else -1)"
| "find_from pat (x # xs) k =
     (if startswith (x # xs) pat then int k else find_from pat xs (Suc k))"

text \<open>\<open>s.find(pat, i)\<close>: the least position from \<open>i\<close> on, or -1.\<close>

definition py_find :: "string \<Rightarrow> string \<Rightarrow> int \<Rightarrow> int" where
  "py_find s pat i =
     (let k = (if i < 0 then nat (max 0 (int (length s) + i)) else nat i)
      in if k > length s then -1 else find_from pat (drop k s) k)"

lemma py_index_nat: "0 \<le> i \<Longrightarrow> i < int (length s) \<Longrightarrow> py_index s i = Inr (s ! nat i)"
  by (simp add: py_index_def)

lemma py_index_out: "int (length s) \<le> i \<Longrightarrow> py_index s i = Inl IndexError"
  by (simp add: py_index_def)

lemma slice_bound_nat: "0 \<le> i \<Longrightarrow> i \<le> int (length s) \<Longrightarrow> slice_bound s i = nat i"
  by (simp add: slice_bound_def)

lemma py_slice_nat:
  "0 \<le> i \<Longrightarrow> i \<le> j \<Longrightarrow> j \<le> int (length s) \<Longrightarrow>
   py_slice s i j = take (nat j - nat i) (drop (nat i) s)"
  by (simp add: py_slice_def slice_bound_nat)

lemma find_from_range:
  "find_from pat s k = -1 \<or> (int k \<le> find_from pat s k \<and> find_from pat s k \<le> int (k + length s))"
  by (induction pat s k rule: find_from.induct) (auto)

section \<open>Decimal formatting\<close>

fun str_of_nat :: "nat \<Rightarrow> string" where
  "str_of_nat n =
     (if n < 10 then [digit_chars ! n] else str_of_nat (n div 10) @ [digit_chars ! (n mod 10)])"

declare str_of_nat.simps [simp del]

definition str_of_int :: "int \<Rightarrow> string" where
  "str_of_int i = (if i < 0 then CHR ''-'' # str_of_nat (nat (- i)) else str_of_nat (nat i))"

fun nat_of_digits :: "nat \<Rightarrow> string \<Rightarrow> nat" where
  "nat_of_digits acc [] = acc"
| "nat_of_digits acc (c # cs) = nat_of_digits (10 * acc + (of_char c - 48)) cs"

lemma nat_of_digits_append:
  "nat_of_digits acc (s @ t) = nat_of_digits (nat_of_digits acc s) t"
  by (induction s arbitrary: acc) simp_all

lemma digit_cases: "d < 10 \<Longrightarrow> d \<in> {0, 1, 2, 3, 4, 5, 6, 7, 8, 9::nat}"
  by auto

lemma of_char_digit: "d < 10 \<Longrightarrow> (of_char (digit_chars ! d) :: nat) = 48 + d"
  using digit_cases [of d] by (auto simp: digit_chars_def)

lemma isdigit_digit: "d < 10 \<Longrightarrow> isdigit_char (digit_chars ! d)"
  unfolding isdigit_char_def by (rule nth_mem) (simp add: digit_chars_def)

lemma nat_of_str_of_nat: "nat_of_digits 0 (str_of_nat n) = n"
proof (induction n rule: str_of_nat.induct)
  case (1 n)
  show ?case
  proof (cases "n < 10")
    case True
    then show ?thesis by (simp add: str_of_nat.simps [of n] of_char_digit)
  next
    case False
    with 1 show ?thesis
      by (simp add: str_of_nat.simps [of n] nat_of_digits_append of_char_digit)
  qed
qed

lemma str_of_nat_inj: "str_of_nat m = str_of_nat n \<longleftrightarrow> m = n"
  by (metis nat_of_str_of_nat)

lemma str_of_nat_digits: "list_all isdigit_char (str_of_nat n)"
proof (induction n rule: str_of_nat.induct)
  case (1 n)
  then show ?case
    by (cases "n < 10") (simp_all add: str_of_nat.simps [of n] isdigit_digit)
qed

lemma str_of_nat_neq_Nil [simp]: "str_of_nat n \<noteq> []" "[] \<noteq> str_of_nat n"
  by (subst str_of_nat.simps, simp)+

end
