(* ===== verification/Tokenizer.thy ===== *)
theory Tokenizer
  imports Py_String
begin

text \<open>
  \<open>pybindgen/typehandlers/ctypeparser/tokenizer.py\<close>: the C++ tokenizer.  Positions are Python
  integers, so a failed \<open>find\<close> is \<open>-1\<close> and flows on as it does in the source; reading past the
  end raises IndexError.  Loops that need not end are partial functions: the value \<open>None\<close>
  means that the loop does not return.
\<close>

section \<open>Tokens\<close>

datatype token_type = UNKNOWN | SYNTAX | CONSTANT | NAME | PREPROCESSOR

record token =
  tok_type :: token_type
  tok_name :: string
  tok_start :: "int option"
  tok_end :: "int option"

definition Token :: "token_type \<Rightarrow> string \<Rightarrow> int option \<Rightarrow> int option \<Rightarrow> token" where
  "Token t n s e = \<lparr>tok_type = t, tok_name = n, tok_start = s, tok_end = e\<rparr>"

lemma Token_sel [simp]:
  "tok_type (Token t n s e) = t"
  "tok_name (Token t n s e) = n"
  "tok_start (Token t n s e) = s"
  "tok_end (Token t n s e) = e"
  by (simp_all add: Token_def)

section \<open>Character classes\<close>

definition valid_identifier_chars :: string where
  "valid_identifier_chars =
     ''abcdefghijklmnopqrstuvwxyzABCDEFGHIJKLMNOPQRSTUVWXYZ_0123456789$''"

definition hex_digits :: string where
  "hex_digits = ''0123456789abcdefABCDEF''"

definition int_or_float_digits :: string where
  "int_or_float_digits = ''01234567890eE-+''"

definition int_or_float_digits2 :: string where
  "int_or_float_digits2 = int_or_float_digits @ ''.''"

definition str_prefixes :: "string list" where
  "str_prefixes = [''R'', ''u8'', ''u8R'', ''u'', ''uR'', ''U'', ''UR'', ''L'', ''LR'']"

definition syntax_chars2 :: string where
  "syntax_chars2 = '':+-<>&|*=''"

definition syntax_chars1 :: string where
  "syntax_chars1 = ''()[]{}~!?^%;/.,''"

section \<open>String and character constants\<close>

text \<open>The inner loop of \<open>_GetString\<close>: how many backslashes end at position \<open>j\<close>.\<close>

partial_function (option) count_backslashes :: "string \<Rightarrow> int \<Rightarrow> int \<Rightarrow> int res option" where
  "count_backslashes source j n =
     (case py_index source j of
        Inl e \<Rightarrow> Some (Inl e)
      | Inr c \<Rightarrow> if c = CHR 0x5C then count_backslashes source (j - 1) (n + 1) else Some (Inr n))"

partial_function (option) GetString_loop :: "string \<Rightarrow> int \<Rightarrow> int res option" where
  "GetString_loop source i =
     (case py_index source (i - 1) of
        Inl e \<Rightarrow> Some (Inl e)
      | Inr c \<Rightarrow>
         if c \<noteq> CHR 0x5C then Some (Inr i)
         else Option.bind (count_backslashes source (i - 2) 1) (\<lambda>r.
           (case r of
              Inl e \<Rightarrow> Some (Inl e)
            | Inr n \<Rightarrow> if n mod 2 = 0 then Some (Inr i)
                       else GetString_loop source (py_find source [CHR 0x22] (i + 1)))))"

definition GetString :: "string \<Rightarrow> int \<Rightarrow> int \<Rightarrow> int res option" where
  "GetString source start i =
     map_option (map_sum (\<lambda>e. e) (\<lambda>j. j + 1)) (GetString_loop source (py_find source [CHR 0x22] (i + 1)))"

partial_function (option) GetChar_loop :: "string \<Rightarrow> int \<Rightarrow> int \<Rightarrow> int res option" where
  "GetChar_loop source start i =
     (case py_index source (i - 1) of
        Inl e \<Rightarrow> Some (Inl e)
      | Inr c \<Rightarrow>
         if c \<noteq> CHR 0x5C then Some (Inr i)
         else (case (if i - 2 > start then py_index source (i - 2) else Inr (CHR '' '')) of
                 Inl e \<Rightarrow> Some (Inl e)
               | Inr c2 \<Rightarrow> if i - 2 > start \<and> c2 = CHR 0x5C then Some (Inr i)
                           else GetChar_loop source start (py_find source [CHR 0x27] (i + 1))))"

definition GetChar :: "string \<Rightarrow> int \<Rightarrow> int \<Rightarrow> int res option" where
  "GetChar source start i =
     map_option (map_sum (\<lambda>e. e) (\<lambda>j. if j < 0 then start + 1 else j + 1))
       (GetChar_loop source start (py_find source [CHR 0x27] (i + 1)))"

section \<open>Scanning loops\<close>

lemma py_index_InrD: "py_index s i = Inr c \<Longrightarrow> i < int (length s)"
  by (auto simp: py_index_def Let_def split: if_splits)

text \<open>\<open>while i < end and source[i].isspace(): i += 1\<close>, on non-negative positions.\<close>

function skip_space :: "string \<Rightarrow> int \<Rightarrow> int" where
  "skip_space source i =
     (if i < int (length source) \<and>
         (case py_index source i of Inr c \<Rightarrow> isspace_char c | Inl _ \<Rightarrow> False)
      then skip_space source (i + 1) else i)"
  by pat_completeness auto
termination
  by (relation "measure (\<lambda>(s, i). nat (int (length s) - i))") auto

text \<open>\<open>while source[i] in chars: i += 1\<close>.\<close>

function scan_while :: "string \<Rightarrow> string \<Rightarrow> int \<Rightarrow> int res" where
  "scan_while chars source i =
     (case py_index source i of
        Inl e \<Rightarrow> Inl e
      | Inr c \<Rightarrow> if c \<in> set chars then scan_while chars source (i + 1) else Inr i)"
  by pat_completeness auto
termination
  by (relation "measure (\<lambda>(cs, s, i). nat (int (length s) - i))") (auto dest: py_index_InrD)

text \<open>The loop over an identifier; \<open>::\<close> is part of a name.\<close>

function scan_name :: "string \<Rightarrow> int \<Rightarrow> int res" where
  "scan_name source i =
     (case py_index source i of
        Inl e \<Rightarrow> Inl e
      | Inr c1 \<Rightarrow>
         if c1 = CHR '':'' \<and> i < int (length source) - 1 \<and> py_index source (i + 1) = Inr (CHR '':'')
         then scan_name source (i + 2)
         else if c1 \<notin> set valid_identifier_chars then Inr i
         else scan_name source (i + 1))"
  by pat_completeness auto
termination
  by (relation "measure (\<lambda>(s, i). nat (int (length s) - i))") (auto dest: py_index_InrD)

declare skip_space.simps [simp del] scan_while.simps [simp del] scan_name.simps [simp del]

text \<open>The first suffix of the list that follows at position \<open>i\<close> (case-insensitively) is skipped.\<close>

fun skip_suffix :: "string list \<Rightarrow> string \<Rightarrow> int \<Rightarrow> int" where
  "skip_suffix [] source i = i"
| "skip_suffix (sfx # rest) source i =
     (if sfx = map lower_char (py_slice source i (i + int (length sfx)))
      then i + int (length sfx) else skip_suffix rest source i)"

section \<open>Preprocessor lines\<close>

definition min_found :: "int list \<Rightarrow> int \<Rightarrow> int" where
  "min_found xs d = foldr (\<lambda>x m. if x \<noteq> -1 then min x m else m) xs d"

text \<open>The loop over a preprocessor line; the result is the end position and the new \<open>ignore_errors\<close>.\<close>

partial_function (option) scan_preprocessor ::
  "string \<Rightarrow> int \<Rightarrow> bool \<Rightarrow> bool \<Rightarrow> int \<Rightarrow> (int \<times> bool) res option" where
  "scan_preprocessor source start got_if ignore_errors i0 =
     (let i1 = py_find source nl i0;
          i2 = py_find source ''//'' i0;
          i3 = py_find source ''/*'' i0;
          i4 = py_find source [CHR 0x22] i0;
          i = min_found [i1, i2, i3, i4] (int (length source))
      in case py_index source i of
           Inl e \<Rightarrow> Some (Inl e)
         | Inr c \<Rightarrow>
            if c = CHR 0x22 then
              (let j = py_find source [CHR 0x22] (i + 1) + 1
               in if j > 0 then scan_preprocessor source start got_if ignore_errors j
                  else Some (Inl AssertionError))
            else
              (case (if i = i1 then py_index source (i - 1) else Inr (CHR '' '')) of
                 Inl e \<Rightarrow> Some (Inl e)
               | Inr p \<Rightarrow>
                   if \<not> (i = i1 \<and> p = CHR 0x5C) then
                     (let condition = lstrip (py_slice source (start + 4) i)
                      in Some (Inr (i, ignore_errors \<or>
                           (got_if \<and> (startswith condition ''0'' \<or> startswith condition ''(0)'')))))
                   else scan_preprocessor source start got_if ignore_errors (i + 1)))"

section \<open>The tokenizer\<close>

record tstate =
  ts_i :: int
  ts_ignore_errors :: bool
  ts_count_ifs :: int

datatype step =
    Stop
  | Fail py_error
  | Skip tstate
  | Emit token_type int tstate

text \<open>
  \<open>Emit t start st\<close>: the branch set \<open>token_type\<close> to \<open>t\<close> and \<open>i\<close> to the position in \<open>st\<close>; the code
  after the branches then yields the token \<open>source[start:i]\<close>.  \<open>Skip\<close> is \<open>continue\<close>.
\<close>

definition emit_res :: "tstate \<Rightarrow> token_type \<Rightarrow> int \<Rightarrow> int res \<Rightarrow> step" where
  "emit_res st t start r = (case r of Inl e \<Rightarrow> Fail e | Inr j \<Rightarrow> Emit t start (st\<lparr>ts_i := j\<rparr>))"

definition name_step :: "string \<Rightarrow> tstate \<Rightarrow> int \<Rightarrow> step option" where
  "name_step source st start =
     (case scan_name source start of
        Inl e \<Rightarrow> Some (Fail e)
      | Inr i \<Rightarrow>
         (case py_index source i of
            Inl e \<Rightarrow> Some (Fail e)
          | Inr c \<Rightarrow>
             if c = CHR 0x27 \<and> i - start = 1 \<and> py_slice source start i \<in> {''u'', ''U'', ''L''}
             then map_option (emit_res st CONSTANT start) (GetChar source start i)
             else if c = CHR 0x27 \<and> py_slice source start i \<in> set str_prefixes
             then map_option (emit_res st CONSTANT start) (GetString source start i)
             else Some (Emit NAME start (st\<lparr>ts_i := i\<rparr>))))"

definition slash_comment_step :: "string \<Rightarrow> tstate \<Rightarrow> int \<Rightarrow> step" where
  "slash_comment_step source st i =
     (let j = py_find source nl i
      in Skip (st\<lparr>ts_i := (if j = -1 then int (length source) else j)\<rparr>))"

definition star_comment_step :: "string \<Rightarrow> tstate \<Rightarrow> int \<Rightarrow> step" where
  "star_comment_step source st i = Skip (st\<lparr>ts_i := py_find source ''*/'' i + 2\<rparr>)"

definition syntax2_step :: "string \<Rightarrow> tstate \<Rightarrow> char \<Rightarrow> int \<Rightarrow> step" where
  "syntax2_step source st c i =
     (case py_index source (i + 1) of
        Inl e \<Rightarrow> Fail e
      | Inr new_ch \<Rightarrow>
          Emit SYNTAX i (st\<lparr>ts_i :=
            (if new_ch = c then i + 2
             else if c = CHR ''-'' \<and> new_ch = CHR ''>'' then i + 2
             else if new_ch = CHR ''='' then i + 2
             else i + 1)\<rparr>))"

definition syntax1_step :: "string \<Rightarrow> tstate \<Rightarrow> char \<Rightarrow> int \<Rightarrow> step" where
  "syntax1_step source st c i =
     (if c \<noteq> CHR ''.'' then Emit SYNTAX i (st\<lparr>ts_i := i + 1\<rparr>)
      else (case py_index source (i + 1) of
              Inl e \<Rightarrow> Fail e
            | Inr d \<Rightarrow>
               if isdigit_char d
               then emit_res st CONSTANT i
                      (map_sum (\<lambda>e. e) (skip_suffix [''l'', ''f''] source)
                         (scan_while int_or_float_digits source (i + 2)))
               else Emit SYNTAX i (st\<lparr>ts_i := i + 1\<rparr>)))"

definition number_step :: "string \<Rightarrow> tstate \<Rightarrow> char \<Rightarrow> int \<Rightarrow> step" where
  "number_step source st c i =
     (let sfx = map_sum (\<lambda>e. e) (skip_suffix [''ull'', ''ll'', ''ul'', ''l'', ''f'', ''u''] source);
          dec = emit_res st CONSTANT i (sfx (scan_while int_or_float_digits2 source i))
      in if c = CHR ''0'' then
           (case py_index source (i + 1) of
              Inl e \<Rightarrow> Fail e
            | Inr x \<Rightarrow> if x \<in> set ''xX''
                        then emit_res st CONSTANT i (sfx (scan_while hex_digits source (i + 2)))
                        else dec)
         else dec)"

definition preprocessor_step :: "string \<Rightarrow> tstate \<Rightarrow> int \<Rightarrow> step option" where
  "preprocessor_step source st i =
     (let ws = py_slice source (i + 3) (i + 4);
          got_if = (py_slice source i (i + 3) = ''#if'' \<and> ws \<noteq> [] \<and> list_all isspace_char ws);
          got_endif = (\<not> got_if \<and> py_slice source i (i + 6) = ''#endif'');
          count = (if got_if then ts_count_ifs st + 1
                   else if got_endif then ts_count_ifs st - 1 else ts_count_ifs st);
          ign = (if got_endif \<and> count = 0 then False else ts_ignore_errors st)
      in map_option (\<lambda>r. case r of
             Inl e \<Rightarrow> Fail e
           | Inr (j, ign') \<Rightarrow>
               Emit PREPROCESSOR i \<lparr>ts_i = j, ts_ignore_errors = ign', ts_count_ifs = count\<rparr>)
           (scan_preprocessor source i got_if ign i))"

text \<open>One iteration of the main loop, at a position that is not white space.\<close>

definition dispatch_step :: "string \<Rightarrow> tstate \<Rightarrow> char \<Rightarrow> int \<Rightarrow> step option" where
  "dispatch_step source st c i =
     (if (c \<in> set valid_identifier_chars \<and> \<not> isdigit_char c) \<or>
         (c = CHR '':'' \<and> i < int (length source) - 1 \<and> py_index source (i + 1) = Inr (CHR '':''))
      then name_step source st i
      else if c = CHR ''/'' \<and> i + 1 \<ge> int (length source) then Some (Fail IndexError)
      else if c = CHR ''/'' \<and> py_index source (i + 1) = Inr (CHR ''/'')
      then Some (slash_comment_step source st i)
      else if c = CHR ''/'' \<and> py_index source (i + 1) = Inr (CHR ''*'')
      then Some (star_comment_step source st i)
      else if c \<in> set syntax_chars2 then Some (syntax2_step source st c i)
      else if c \<in> set syntax_chars1 then Some (syntax1_step source st c i)
      else if isdigit_char c then Some (number_step source st c i)
      else if c = CHR 0x22 then map_option (emit_res st CONSTANT i) (GetString source i i)
      else if c = CHR 0x27 then map_option (emit_res st CONSTANT i) (GetChar source i i)
      else if c = CHR ''#'' then preprocessor_step source st i
      else if c = CHR 0x5C then Some (Skip (st\<lparr>ts_i := i + 1\<rparr>))
      else if ts_ignore_errors st then Some (Emit UNKNOWN i (st\<lparr>ts_i := i + 1\<rparr>))
      else Some (Fail (RuntimeError ''unexpected token'')))"

definition tok_step :: "string \<Rightarrow> tstate \<Rightarrow> step option" where
  "tok_step source st =
     (if ts_i st \<ge> int (length source) then Some Stop
      else let i = skip_space source (ts_i st)
           in if i \<ge> int (length source) then Some Stop
              else (case py_index source i of
                      Inl e \<Rightarrow> Some (Fail e)
                    | Inr c \<Rightarrow> dispatch_step source st c i))"

partial_function (option) tok_loop :: "string \<Rightarrow> tstate \<Rightarrow> token list \<Rightarrow> token list res option" where
  "tok_loop source st acc =
     Option.bind (tok_step source st) (\<lambda>r.
       (case r of
          Stop \<Rightarrow> Some (Inr (rev acc))
        | Fail e \<Rightarrow> Some (Inl e)
        | Skip st' \<Rightarrow> tok_loop source st' acc
        | Emit t start st' \<Rightarrow>
            if ts_i st' \<le> 0 then Some (Inr (rev acc))
            else tok_loop source st'
                   (Token t (py_slice source start (ts_i st')) (Some start) (Some (ts_i st')) # acc)))"

declare count_backslashes.simps [code] GetString_loop.simps [code] GetChar_loop.simps [code]
  scan_preprocessor.simps [code] tok_loop.simps [code]

definition GetTokens :: "string \<Rightarrow> token list res option" where
  "GetTokens source = tok_loop source \<lparr>ts_i = 0, ts_ignore_errors = False, ts_count_ifs = 0\<rparr> []"

section \<open>Type expressions tokenize\<close>

text \<open>
  The characters of C++ type expressions: no quotes, comments, preprocessor lines or
  continuation backslashes.  \<open>parse_type\<close> appends a line break to the type string before it
  tokenizes; that line break is what keeps the scanning loops inside the source.
\<close>

definition plain_char :: "char \<Rightarrow> bool" where
  "plain_char c \<longleftrightarrow> c \<in> set valid_identifier_chars \<or> isspace_char c \<or>
     c \<in> set syntax_chars2 \<or> (c \<in> set syntax_chars1 \<and> c \<noteq> CHR ''/'')"

text \<open>A run of non-blank characters inside the source, up to but not including position \<open>m\<close>.\<close>

definition seg :: "string \<Rightarrow> int \<Rightarrow> int \<Rightarrow> bool" where
  "seg source k m \<longleftrightarrow> 0 \<le> k \<and> k \<le> m \<and> m < int (length source) \<and>
     (\<forall>j. k \<le> j \<and> j < m \<longrightarrow> \<not> isspace_char (source ! nat j))"

lemma seg_refl: "0 \<le> k \<Longrightarrow> k < int (length s) \<Longrightarrow> seg s k k"
  unfolding seg_def by auto

lemma seg_trans: "seg s k m \<Longrightarrow> seg s m n \<Longrightarrow> seg s k n"
  unfolding seg_def by (meson linorder_not_le order_trans)

lemma seg_Suc:
  assumes "seg s (k + 1) m" and "0 \<le> k" and "\<not> isspace_char (s ! nat k)"
  shows "seg s k m"
proof -
  have "\<not> isspace_char (s ! nat j)" if "k \<le> j" "j < m" for j
    using that assms by (cases "j = k") (auto simp: seg_def)
  with assms show ?thesis by (auto simp: seg_def)
qed

lemma seg_one:
  assumes "0 \<le> k" and "k + 1 < int (length s)" and "\<not> isspace_char (s ! nat k)"
  shows "seg s k (k + 1)"
  using assms by (intro seg_Suc [OF seg_refl]) auto

lemma nonspace_class:
  "c \<in> set valid_identifier_chars \<Longrightarrow> \<not> isspace_char c"
  "c \<in> set hex_digits \<Longrightarrow> \<not> isspace_char c"
  "c \<in> set int_or_float_digits \<Longrightarrow> \<not> isspace_char c"
  "c \<in> set int_or_float_digits2 \<Longrightarrow> \<not> isspace_char c"
  "c \<in> set syntax_chars2 \<Longrightarrow> \<not> isspace_char c"
  "c \<in> set syntax_chars1 \<Longrightarrow> \<not> isspace_char c"
  "isdigit_char c \<Longrightarrow> \<not> isspace_char c"
  by (auto simp: isspace_char_def valid_identifier_chars_def hex_digits_def int_or_float_digits_def
      int_or_float_digits2_def syntax_chars2_def syntax_chars1_def isdigit_char_def digit_chars_def)

text \<open>A source that ends in a line break: a non-blank position is followed by another position.\<close>

definition terminated :: "string \<Rightarrow> bool" where
  "terminated s \<longleftrightarrow> s \<noteq> [] \<and> last s = CHR 0x0A"

lemma terminated_Suc:
  assumes "terminated s" and "0 \<le> k" and "k < int (length s)" and "\<not> isspace_char (s ! nat k)"
  shows "k + 1 < int (length s)"
proof (rule ccontr)
  assume "\<not> ?thesis"
  with assms(2,3) have "nat k = length s - 1" by simp
  with assms(1) have "s ! nat k = CHR 0x0A" by (metis terminated_def last_conv_nth)
  with assms(4) show False by (simp add: isspace_char_def)
qed

lemma terminated_seg_one:
  assumes "terminated s" and "0 \<le> k" and "k < int (length s)" and "\<not> isspace_char (s ! nat k)"
  shows "seg s k (k + 1)"
  using assms terminated_Suc [OF assms] by (intro seg_one) auto

lemma scan_while_seg:
  assumes "terminated s" and "\<And>c. c \<in> set chars \<Longrightarrow> \<not> isspace_char c"
    and "0 \<le> k" and "k < int (length s)"
  shows "\<exists>m. scan_while chars s k = Inr m \<and> seg s k m"
  using assms
proof (induction chars s k rule: scan_while.induct)
  case (1 chars s k)
  have idx: "py_index s k = Inr (s ! nat k)"
    using 1 by (simp add: py_index_nat)
  show ?case
  proof (cases "s ! nat k \<in> set chars")
    case True
    then have "\<not> isspace_char (s ! nat k)" using 1 by blast
    then have seg1: "seg s k (k + 1)" using 1 by (intro terminated_seg_one) auto
    then obtain m where "scan_while chars s (k + 1) = Inr m" "seg s (k + 1) m"
      using 1 idx True by (force simp: seg_def)
    with seg1 idx True show ?thesis
      by (auto simp: scan_while.simps [of chars s k] intro: seg_trans)
  next
    case False
    then show ?thesis
      using 1 idx by (auto simp: scan_while.simps [of chars s k] intro: seg_refl)
  qed
qed

lemma scan_name_seg:
  assumes "terminated s" and "0 \<le> k" and "k < int (length s)"
  shows "\<exists>m. scan_name s k = Inr m \<and> seg s k m"
  using assms
proof (induction s k rule: scan_name.induct)
  case (1 s k)
  have idx: "py_index s k = Inr (s ! nat k)"
    using 1 by (simp add: py_index_nat)
  let ?colons = "s ! nat k = CHR '':'' \<and> k < int (length s) - 1 \<and> py_index s (k + 1) = Inr (CHR '':'')"
  show ?case
  proof (cases ?colons)
    case True
    then have "s ! nat (k + 1) = CHR '':''"
      using 1 by (auto simp: py_index_nat)
    then have "seg s (k + 1) ((k + 1) + 1)"
      using True 1 by (intro terminated_seg_one) (auto simp: isspace_char_def)
    moreover have "seg s k (k + 1)"
      using True 1 by (intro terminated_seg_one) (auto simp: isspace_char_def)
    ultimately have seg2: "seg s k (k + 2)"
      using seg_trans by (fastforce simp: add.assoc)
    then obtain m where "scan_name s (k + 2) = Inr m" "seg s (k + 2) m"
      using 1 idx True by (force simp: seg_def)
    with seg2 idx True show ?thesis
      by (auto simp: scan_name.simps [of s k] intro: seg_trans)
  next
    case no_colons: False
    show ?thesis
    proof (cases "s ! nat k \<in> set valid_identifier_chars")
      case True
      then have seg1: "seg s k (k + 1)"
        using 1 by (intro terminated_seg_one nonspace_class(1)) auto
      then obtain m where "scan_name s (k + 1) = Inr m" "seg s (k + 1) m"
        using 1 idx True no_colons by (force simp: seg_def)
      with seg1 idx True no_colons show ?thesis
        by (auto simp: scan_name.simps [of s k] intro: seg_trans)
    next
      case False
      with no_colons 1 idx show ?thesis
        by (auto simp: scan_name.simps [of s k] intro: seg_refl)
    qed
  qed
qed

text \<open>A recognised suffix is a run of letters.\<close>

lemma lower_char_nonspace: "\<not> isspace_char (lower_char c) \<Longrightarrow> \<not> isspace_char c"
  by (auto simp: isspace_char_def lower_char_def split: option.splits)

lemma seg_slice:
  assumes "terminated s" and "0 \<le> k" and "k < int (length s)"
    and sfx: "sfx = map lower_char (py_slice s k (k + int (length sfx)))"
    and "list_all (\<lambda>c. \<not> isspace_char c) sfx"
  shows "seg s k (k + int (length sfx))"
proof -
  let ?n = "length sfx"
  have len: "length (py_slice s k (k + int ?n)) = ?n"
    using sfx by (metis length_map)
  have le: "k + int ?n \<le> int (length s)"
  proof (rule ccontr)
    assume "\<not> ?thesis"
    then have "slice_bound s (k + int ?n) = length s" "slice_bound s k = nat k"
      using assms(2,3) by (auto simp: slice_bound_def)
    with len \<open>\<not> ?thesis\<close> assms(2,3) show False by (simp add: py_slice_def)
  qed
  have ns: "\<not> isspace_char (s ! nat j)" if "k \<le> j" "j < k + int ?n" for j
  proof -
    have "sfx ! nat (j - k) = lower_char (s ! nat j)"
    proof -
      have "sfx ! nat (j - k) = map lower_char (py_slice s k (k + int ?n)) ! nat (j - k)"
        using sfx by simp
      also have "\<dots> = lower_char (s ! nat j)"
        using that le assms(2) len by (auto simp: py_slice_nat nat_diff_distrib)
      finally show ?thesis .
    qed
    moreover have "nat (j - k) < ?n" using that by linarith
    ultimately show ?thesis
      using assms(5) lower_char_nonspace by (metis list_all_length)
  qed
  show ?thesis
  proof (cases "?n = 0")
    case True
    with assms show ?thesis by (simp add: seg_refl)
  next
    case False
    then have pos: "0 < int ?n" by linarith
    have pos': "0 \<le> k + int ?n - 1" using pos assms(2) by linarith
    have ns': "\<not> isspace_char (s ! nat (k + int ?n - 1))"
      by (rule ns) (use pos in linarith)+
    have "k + int ?n - 1 + 1 < int (length s)"
      using pos' ns' le by (intro terminated_Suc [OF assms(1)]) linarith+
    with ns assms(2) show ?thesis by (auto simp: seg_def)
  qed
qed

lemma skip_suffix_seg:
  assumes "terminated s" and "seg s k m"
    and "\<And>sfx. sfx \<in> set sfxs \<Longrightarrow> list_all (\<lambda>c. \<not> isspace_char c) sfx"
  shows "seg s k (skip_suffix sfxs s m)"
  using assms(3)
proof (induction sfxs)
  case Nil
  with assms(2) show ?case by simp
next
  case (Cons sfx sfxs)
  from assms(2) have "0 \<le> m" "m < int (length s)" by (auto simp: seg_def)
  with Cons show ?case
    using seg_trans [OF assms(2) seg_slice [OF assms(1), of m sfx]] by auto
qed

lemma suffixes_nonspace:
  "sfx \<in> set [''ull'', ''ll'', ''ul'', ''l'', ''f'', ''u''] \<Longrightarrow> list_all (\<lambda>c. \<not> isspace_char c) sfx"
  "sfx \<in> set [''l'', ''f''] \<Longrightarrow> list_all (\<lambda>c. \<not> isspace_char c) sfx"
  by (auto simp: isspace_char_def)

text \<open>One step on a plain source: a non-empty run of non-blank characters is emitted.\<close>

definition good_emit :: "string \<Rightarrow> tstate \<Rightarrow> int \<Rightarrow> step \<Rightarrow> bool" where
  "good_emit s st i r \<longleftrightarrow> (\<exists>t m. r = Emit t i (st\<lparr>ts_i := m\<rparr>) \<and> i < m \<and> seg s i m)"

lemma good_emitI: "seg s i m \<Longrightarrow> i < m \<Longrightarrow> good_emit s st i (Emit t i (st\<lparr>ts_i := m\<rparr>))"
  by (auto simp: good_emit_def)

lemma seg_step_less: "seg s (i + 1) m \<Longrightarrow> i < m"
  by (auto simp: seg_def)

lemma number_scan:
  assumes "terminated s" and "\<And>c. c \<in> set chars \<Longrightarrow> \<not> isspace_char c"
    and "seg s i k" and "\<And>sfx. sfx \<in> set sfxs \<Longrightarrow> list_all (\<lambda>c. \<not> isspace_char c) sfx"
  shows "\<exists>m. map_sum (\<lambda>e. e) (skip_suffix sfxs s) (scan_while chars s k) = Inr m \<and> seg s i m \<and> k \<le> m"
proof -
  from assms(3) have k: "0 \<le> k" "k < int (length s)" by (auto simp: seg_def)
  obtain m where m: "scan_while chars s k = Inr m" "seg s k m"
    using scan_while_seg [OF assms(1,2) k] by blast
  have "seg s k (skip_suffix sfxs s m)"
    using assms(1) m(2) assms(4) by (rule skip_suffix_seg)
  with seg_trans [OF assms(3) this] m(1) show ?thesis by (simp add: seg_def)
qed

lemma scan_name_progress:
  assumes "terminated s" and "0 \<le> i" and "i < int (length s)"
    and "s ! nat i \<in> set valid_identifier_chars \<or>
         (s ! nat i = CHR '':'' \<and> i < int (length s) - 1 \<and> py_index s (i + 1) = Inr (CHR '':''))"
  shows "\<exists>m. scan_name s i = Inr m \<and> i < m \<and> seg s i m"
proof -
  obtain m where m: "scan_name s i = Inr m" "seg s i m"
    using scan_name_seg [OF assms(1-3)] by blast
  have "m \<noteq> i"
  proof
    assume "m = i"
    have idx: "py_index s i = Inr (s ! nat i)" using assms by (simp add: py_index_nat)
    from assms(4) show False
    proof
      assume v: "s ! nat i \<in> set valid_identifier_chars"
      then have "s ! nat i \<noteq> CHR '':''" by (auto simp: valid_identifier_chars_def)
      with v have "scan_name s i = scan_name s (i + 1)"
        using idx by (simp add: scan_name.simps [of s i])
      moreover have "i + 1 < int (length s)"
        using terminated_Suc [OF assms(1-3) nonspace_class(1) [OF v]] .
      ultimately show False
        using scan_name_seg [OF assms(1), of "i + 1"] m(1) \<open>m = i\<close> assms(2) by (auto simp: seg_def)
    next
      assume c: "s ! nat i = CHR '':'' \<and> i < int (length s) - 1 \<and> py_index s (i + 1) = Inr (CHR '':'')"
      then have "scan_name s i = scan_name s (i + 2)"
        using idx by (simp add: scan_name.simps [of s i])
      moreover have "i + 1 + 1 < int (length s)"
        using c assms(2) by (intro terminated_Suc [OF assms(1)]) (auto simp: py_index_nat isspace_char_def)
      ultimately show False
        using scan_name_seg [OF assms(1), of "i + 2"] m(1) \<open>m = i\<close> assms(2) by (auto simp: seg_def)
    qed
  qed
  with m show ?thesis by (auto simp: seg_def)
qed

lemma seg_two:
  assumes "terminated s" and "0 \<le> i" and "i < int (length s)" and "\<not> isspace_char (s ! nat i)"
    and "\<not> isspace_char (s ! nat (i + 1))"
  shows "seg s i (i + 2)"
proof -
  have "i + 1 < int (length s)" using terminated_Suc [OF assms(1-4)] .
  then have "seg s (i + 1) (i + 1 + 1)"
    using assms by (intro terminated_seg_one) auto
  from seg_trans [OF terminated_seg_one [OF assms(1-4)] this] show ?thesis
    by (simp add: add.assoc)
qed

lemma name_step_plain:
  assumes "terminated s" and "0 \<le> i" and "i < int (length s)" and "CHR 0x27 \<notin> set s"
    and "s ! nat i \<in> set valid_identifier_chars \<or>
         (s ! nat i = CHR '':'' \<and> i < int (length s) - 1 \<and> py_index s (i + 1) = Inr (CHR '':''))"
  shows "\<exists>r. name_step s st i = Some r \<and> good_emit s st i r"
proof -
  obtain m where m: "scan_name s i = Inr m" "i < m" "seg s i m"
    using scan_name_progress [OF assms(1-3,5)] by blast
  then have idx: "py_index s m = Inr (s ! nat m)" and "nat m < length s"
    by (auto simp: seg_def py_index_nat)
  then have q: "s ! nat m \<noteq> CHR 0x27"
    using assms(4) by (metis nth_mem)
  have "name_step s st i = Some (Emit NAME i (st\<lparr>ts_i := m\<rparr>))"
    using m(1) idx q by (simp add: name_step_def)
  with m show ?thesis by (blast intro: good_emitI)
qed

lemma syntax2_step_plain:
  assumes "terminated s" and "0 \<le> i" and "i < int (length s)" and "\<not> isspace_char (s ! nat i)"
  shows "good_emit s st i (syntax2_step s st (s ! nat i) i)"
proof -
  have i1: "i + 1 < int (length s)" using terminated_Suc [OF assms] .
  let ?d = "s ! nat (i + 1)"
  have idx: "py_index s (i + 1) = Inr ?d"
    using assms i1 by (simp add: py_index_nat)
  show ?thesis
  proof (cases "?d = s ! nat i \<or> (s ! nat i = CHR ''-'' \<and> ?d = CHR ''>'') \<or> ?d = CHR ''=''")
    case True
    with assms(4) have "\<not> isspace_char ?d" by (auto simp: isspace_char_def)
    from seg_two [OF assms this] have "good_emit s st i (Emit SYNTAX i (st\<lparr>ts_i := i + 2\<rparr>))"
      by (intro good_emitI) auto
    with True show ?thesis by (auto simp: syntax2_step_def idx)
  next
    case False
    have "good_emit s st i (Emit SYNTAX i (st\<lparr>ts_i := i + 1\<rparr>))"
      using terminated_seg_one [OF assms] by (intro good_emitI) auto
    with False show ?thesis by (auto simp: syntax2_step_def idx)
  qed
qed

lemma syntax1_step_plain:
  assumes "terminated s" and "0 \<le> i" and "i < int (length s)" and "\<not> isspace_char (s ! nat i)"
  shows "good_emit s st i (syntax1_step s st (s ! nat i) i)"
proof -
  have i1: "i + 1 < int (length s)" using terminated_Suc [OF assms] .
  let ?d = "s ! nat (i + 1)"
  have idx: "py_index s (i + 1) = Inr ?d"
    using assms i1 by (simp add: py_index_nat)
  show ?thesis
  proof (cases "s ! nat i = CHR ''.'' \<and> isdigit_char ?d")
    case True
    then have "seg s i (i + 2)" using seg_two [OF assms] nonspace_class(7) by blast
    then obtain m where "map_sum (\<lambda>e. e) (skip_suffix [''l'', ''f''] s)
        (scan_while int_or_float_digits s (i + 2)) = Inr m" "seg s i m" "i + 2 \<le> m"
      using number_scan [OF assms(1) nonspace_class(3) _ suffixes_nonspace(2)] by blast
    with True show ?thesis by (simp add: syntax1_step_def idx emit_res_def good_emitI)
  next
    case False
    have "good_emit s st i (Emit SYNTAX i (st\<lparr>ts_i := i + 1\<rparr>))"
      using terminated_seg_one [OF assms] by (intro good_emitI) auto
    with False show ?thesis by (auto simp: syntax1_step_def idx)
  qed
qed

lemma number_step_plain:
  assumes "terminated s" and "0 \<le> i" and "i < int (length s)" and d: "isdigit_char (s ! nat i)"
  shows "good_emit s st i (number_step s st (s ! nat i) i)"
proof -
  let ?sfx = "[''ull'', ''ll'', ''ul'', ''l'', ''f'', ''u'']"
  have ns: "\<not> isspace_char (s ! nat i)" using d by (rule nonspace_class)
  have i1: "i + 1 < int (length s)" using terminated_Suc [OF assms(1-3) ns] .
  have idx: "py_index s (i + 1) = Inr (s ! nat (i + 1))"
    using assms i1 by (simp add: py_index_nat)
  have "s ! nat i \<in> set int_or_float_digits2"
    using d by (auto simp: isdigit_char_def digit_chars_def int_or_float_digits2_def int_or_float_digits_def)
  then have "scan_while int_or_float_digits2 s i = scan_while int_or_float_digits2 s (i + 1)"
    using assms by (subst scan_while.simps) (simp add: py_index_nat)
  then obtain m where m: "map_sum (\<lambda>e. e) (skip_suffix ?sfx s) (scan_while int_or_float_digits2 s i) = Inr m"
      "seg s i m" "i + 1 \<le> m"
    using number_scan [OF assms(1) nonspace_class(4) terminated_seg_one [OF assms(1-3) ns] suffixes_nonspace(1)]
    by metis
  show ?thesis
  proof (cases "s ! nat i = CHR ''0'' \<and> s ! nat (i + 1) \<in> set ''xX''")
    case True
    then have "seg s i (i + 2)"
      using seg_two [OF assms(1-3) ns] by (auto simp: isspace_char_def)
    then obtain k where "map_sum (\<lambda>e. e) (skip_suffix ?sfx s) (scan_while hex_digits s (i + 2)) = Inr k"
        "seg s i k" "i + 2 \<le> k"
      using number_scan [OF assms(1) nonspace_class(2) _ suffixes_nonspace(1)] by blast
    with True show ?thesis
      unfolding number_step_def Let_def by (simp add: idx emit_res_def good_emitI)
  next
    case False
    then have "number_step s st (s ! nat i) i = emit_res st CONSTANT i (Inr m)"
      unfolding number_step_def Let_def m(1) by (auto simp: idx)
    with m show ?thesis by (simp add: emit_res_def good_emitI)
  qed
qed

lemma dispatch_plain:
  assumes t: "terminated s" and i: "0 \<le> i" "i < int (length s)"
    and plain: "\<And>c. c \<in> set s \<Longrightarrow> plain_char c" and ns: "\<not> isspace_char (s ! nat i)"
  shows "\<exists>r. dispatch_step s st (s ! nat i) i = Some r \<and> good_emit s st i r"
proof -
  let ?c = "s ! nat i"
  have pc: "plain_char ?c" using plain i by simp
  have "plain_char c \<Longrightarrow> c \<noteq> CHR 0x27" for c
    by (auto simp: plain_char_def isspace_char_def valid_identifier_chars_def syntax_chars2_def syntax_chars1_def)
  then have no_quote: "CHR 0x27 \<notin> set s" using plain by blast
  have no_slash: "?c \<noteq> CHR ''/''"
    using pc by (auto simp: plain_char_def isspace_char_def valid_identifier_chars_def syntax_chars2_def)
  let ?name = "(?c \<in> set valid_identifier_chars \<and> \<not> isdigit_char ?c) \<or>
     (?c = CHR '':'' \<and> i < int (length s) - 1 \<and> py_index s (i + 1) = Inr (CHR '':''))"
  consider (name) ?name | (s2) "\<not> ?name" "?c \<in> set syntax_chars2"
    | (s1) "\<not> ?name" "?c \<notin> set syntax_chars2" "?c \<in> set syntax_chars1"
    | (dig) "\<not> ?name" "?c \<notin> set syntax_chars2" "?c \<notin> set syntax_chars1" "isdigit_char ?c"
    using pc ns unfolding plain_char_def by blast
  then show ?thesis
  proof cases
    case name
    then have "dispatch_step s st ?c i = name_step s st i"
      unfolding dispatch_step_def by (rule if_P)
    with name name_step_plain [OF t i no_quote] show ?thesis by auto
  next
    case s2
    then have "dispatch_step s st ?c i = Some (syntax2_step s st ?c i)"
      using no_slash unfolding dispatch_step_def by (simp only: if_False if_True simp_thms)
    with syntax2_step_plain [OF t i ns] show ?thesis by blast
  next
    case s1
    then have "dispatch_step s st ?c i = Some (syntax1_step s st ?c i)"
      using no_slash unfolding dispatch_step_def by (simp only: if_False if_True simp_thms)
    with syntax1_step_plain [OF t i ns] show ?thesis by blast
  next
    case dig
    then have "dispatch_step s st ?c i = Some (number_step s st ?c i)"
      using no_slash unfolding dispatch_step_def by (simp only: if_False if_True simp_thms)
    with number_step_plain [OF t i dig(4)] show ?thesis by blast
  qed
qed

section \<open>The whole source\<close>

definition nonspace :: "string \<Rightarrow> string" where
  "nonspace s = filter (\<lambda>c. \<not> isspace_char c) s"

lemma nonspace_append [simp]: "nonspace (s @ t) = nonspace s @ nonspace t"
  by (simp add: nonspace_def)

lemma skip_space_props:
  assumes "0 \<le> i" and "i \<le> int (length s)"
  shows "i \<le> skip_space s i \<and> skip_space s i \<le> int (length s) \<and>
    nonspace (drop (nat (skip_space s i)) s) = nonspace (drop (nat i) s) \<and>
    (skip_space s i < int (length s) \<longrightarrow> \<not> isspace_char (s ! nat (skip_space s i)))"
  using assms
proof (induction s i rule: skip_space.induct)
  case (1 s i)
  show ?case
  proof (cases "i < int (length s) \<and> isspace_char (s ! nat i)")
    case True
    then have eq: "skip_space s i = skip_space s (i + 1)"
      using 1 by (simp add: skip_space.simps [of s i] py_index_nat)
    have "nat i < length s" using True "1.prems" by linarith
    then have "drop (nat i) s = s ! nat i # drop (nat (i + 1)) s"
      using "1.prems" Cons_nth_drop_Suc [of "nat i" s] by (simp add: nat_add_distrib)
    with True have "nonspace (drop (nat i) s) = nonspace (drop (nat (i + 1)) s)"
      by (simp add: nonspace_def)
    with True eq 1 show ?thesis by (auto simp: py_index_nat)
  next
    case False
    then have "skip_space s i = i"
      using 1 by (auto simp: skip_space.simps [of s i] py_index_nat)
    with False 1 show ?thesis by auto
  qed
qed

lemma seg_nonspace:
  assumes "seg s k m"
  shows "nonspace (py_slice s k m) = py_slice s k m"
  unfolding nonspace_def filter_id_conv
proof
  from assms have b: "0 \<le> k" "k \<le> m" "m < int (length s)" by (auto simp: seg_def)
  fix c assume "c \<in> set (py_slice s k m)"
  then obtain j where j: "j < nat m - nat k" "c = s ! (nat k + j)"
    using b by (auto simp: py_slice_nat in_set_conv_nth)
  then have "nat k + j = nat (k + int j)" "k \<le> k + int j" "k + int j < m"
    using b by auto
  with assms j show "\<not> isspace_char c" by (auto simp: seg_def)
qed

lemma seg_drop:
  assumes "seg s k m"
  shows "nonspace (drop (nat k) s) = py_slice s k m @ nonspace (drop (nat m) s)"
proof -
  from assms have b: "0 \<le> k" "k \<le> m" "m < int (length s)" by (auto simp: seg_def)
  then have "nat m = nat k + (nat m - nat k)" by simp
  then have "drop (nat k) s = py_slice s k m @ drop (nat m) s"
    using b by (metis append_take_drop_id drop_drop add.commute less_imp_le py_slice_nat)
  with seg_nonspace [OF assms] show ?thesis by simp
qed

lemma tok_step_plain:
  assumes "terminated s" and "\<And>c. c \<in> set s \<Longrightarrow> plain_char c"
    and "0 \<le> ts_i st" and "ts_i st \<le> int (length s)"
  shows "(tok_step s st = Some Stop \<and> nonspace (drop (nat (ts_i st)) s) = []) \<or>
    (\<exists>t k m. tok_step s st = Some (Emit t k (st\<lparr>ts_i := m\<rparr>)) \<and> ts_i st \<le> k \<and> k < m \<and> seg s k m \<and>
       nonspace (drop (nat (ts_i st)) s) = nonspace (drop (nat k) s))"
proof -
  let ?k = "skip_space s (ts_i st)"
  note sk = skip_space_props [OF assms(3,4)]
  show ?thesis
  proof (cases "?k < int (length s)")
    case True
    then have "\<not> isspace_char (s ! nat ?k)" "0 \<le> ?k" using sk assms(3) by auto
    from dispatch_plain [OF assms(1) this(2) True assms(2) this(1), of st]
    show ?thesis using True sk \<open>0 \<le> ?k\<close>
      by (auto simp: tok_step_def Let_def py_index_nat good_emit_def)
  next
    case False
    then have "nonspace (drop (nat (ts_i st)) s) = []"
      using sk by (simp add: nonspace_def)
    with False show ?thesis by (auto simp: tok_step_def Let_def)
  qed
qed

lemma tok_loop_plain:
  assumes "terminated s" and "\<And>c. c \<in> set s \<Longrightarrow> plain_char c"
    and "0 \<le> ts_i st" and "ts_i st \<le> int (length s)"
  shows "\<exists>toks. tok_loop s st acc = Some (Inr (rev acc @ toks)) \<and>
    concat (map tok_name toks) = nonspace (drop (nat (ts_i st)) s) \<and>
    list_all (\<lambda>t. tok_name t \<noteq> [] \<and> nonspace (tok_name t) = tok_name t) toks"
  using assms(3,4)
proof (induction "nat (int (length s) - ts_i st)" arbitrary: st acc rule: less_induct)
  case less
  from tok_step_plain [OF assms(1,2) less.prems] show ?case
  proof
    assume "tok_step s st = Some Stop \<and> nonspace (drop (nat (ts_i st)) s) = []"
    then show ?thesis by (subst tok_loop.simps) simp
  next
    assume "\<exists>t k m. tok_step s st = Some (Emit t k (st\<lparr>ts_i := m\<rparr>)) \<and> ts_i st \<le> k \<and> k < m \<and> seg s k m \<and>
       nonspace (drop (nat (ts_i st)) s) = nonspace (drop (nat k) s)"
    then obtain t k m where step: "tok_step s st = Some (Emit t k (st\<lparr>ts_i := m\<rparr>))"
      and km: "ts_i st \<le> k" "k < m" and seg: "seg s k m"
      and eq: "nonspace (drop (nat (ts_i st)) s) = nonspace (drop (nat k) s)" by blast
    let ?tok = "Token t (py_slice s k m) (Some k) (Some m)"
    from seg km less.prems have m: "0 < m" "m < int (length s)" by (auto simp: seg_def)
    then obtain toks where toks: "tok_loop s (st\<lparr>ts_i := m\<rparr>) (?tok # acc) = Some (Inr (rev (?tok # acc) @ toks))"
      "concat (map tok_name toks) = nonspace (drop (nat m) s)"
      "list_all (\<lambda>t. tok_name t \<noteq> [] \<and> nonspace (tok_name t) = tok_name t) toks"
      using less.hyps [of "st\<lparr>ts_i := m\<rparr>" "?tok # acc"] km less.prems by auto
    have loop: "tok_loop s st acc = Some (Inr (rev acc @ ?tok # toks))"
      using step m toks(1) by (subst tok_loop.simps) simp
    have "length (py_slice s k m) = nat m - nat k"
      using seg by (auto simp: seg_def py_slice_nat)
    then have "py_slice s k m \<noteq> []" using km less.prems by auto
    then show ?thesis
      using loop toks seg_drop [OF seg] seg_nonspace [OF seg] eq by (intro exI [of _ "?tok # toks"]) simp
  qed
qed

text \<open>
  C28. Tokenizing a C++ type expression always returns, raises nothing and loses nothing.  For a source of
  identifier characters, white space and punctuation, without quotes, \<open>#\<close>, slashes, backslashes, \<open>@\<close> and backquotes, the
  tokens are non-empty, contain no white space, and joined together give back the source
  without its white space.
\<close>

theorem GetTokens_plain:
  assumes "list_all plain_char s"
  shows "\<exists>toks. GetTokens (s @ nl) = Some (Inr toks) \<and> concat (map tok_name toks) = nonspace s \<and>
    list_all (\<lambda>t. tok_name t \<noteq> [] \<and> nonspace (tok_name t) = tok_name t) toks"
proof -
  have "terminated (s @ nl)" by (simp add: terminated_def nl_def)
  moreover have "plain_char (CHR 0x0A)"
    by (simp add: plain_char_def isspace_char_def)
  then have "plain_char c" if "c \<in> set (s @ nl)" for c
    using that assms by (auto simp: list_all_iff nl_def)
  moreover have "nonspace nl = []" by (simp add: nonspace_def nl_def isspace_char_def)
  ultimately show ?thesis
    using tok_loop_plain [of "s @ nl" "\<lparr>ts_i = 0, ts_ignore_errors = False, ts_count_ifs = 0\<rparr>" "[]"]
    by (simp add: GetTokens_def)
qed

theorem GetTokens_plain_witness:
  "list_all plain_char ''const A*'' \<and>
   (\<exists>toks. GetTokens (''const A*'' @ nl) = Some (Inr toks) \<and> concat (map tok_name toks) = ''constA*'')"
proof -
  have h: "list_all plain_char ''const A*''"
    by code_simp
  moreover have "nonspace ''const A*'' = ''constA*''"
    by code_simp
  ultimately show ?thesis using GetTokens_plain [OF h] by auto
qed

text \<open>
  An unterminated comment after other text makes the tokenizer run for ever: the failed
  search for the end of the comment moves the position back to 1, from where the loop reaches
  the same comment again.
\<close>

theorem unterminated_comment_diverges:
  "GetTokens (''x /* y'' @ nl) = None"
proof -
  let ?src = "''x /* y'' @ nl"
  let ?st = "\<lambda>i. \<lparr>ts_i = i, ts_ignore_errors = False, ts_count_ifs = 0\<rparr>"
  have first: "tok_step ?src (?st 0) = Some (Emit NAME 0 (?st 1))"
    by code_simp
  have again: "tok_step ?src (?st 1) = Some (Skip (?st 1))"
    by code_simp
  have no_result: False if "tok_loop ?src (?st 1) acc = Some r" for acc r
  proof -
    have "\<not> (s = ?src \<and> st = ?st 1)" if "tok_loop s st acc = Some r" for s st acc r
      using that
    proof (rule tok_loop.raw_induct [where P = "\<lambda>s st acc r. \<not> (s = ?src \<and> st = ?st 1)", rotated])
      fix f s st acc r
      assume IH: "\<And>s st acc r. f s st acc = Some r \<Longrightarrow> \<not> (s = ?src \<and> st = ?st 1)"
        and eq: "Option.bind (tok_step s st) (\<lambda>r. case r of Stop \<Rightarrow> Some (Inr (rev acc)) | Fail e \<Rightarrow> Some (Inl e)
           | Skip st' \<Rightarrow> f s st' acc
           | Emit t start st' \<Rightarrow> if ts_i st' \<le> 0 then Some (Inr (rev acc))
               else f s st' (Token t (py_slice s start (ts_i st')) (Some start) (Some (ts_i st')) # acc)) = Some r"
      show "\<not> (s = ?src \<and> st = ?st 1)"
      proof
        assume "s = ?src \<and> st = ?st 1"
        with eq again have "f ?src (?st 1) acc = Some r" by simp
        with IH show False by blast
      qed
    qed
    with that show False by blast
  qed
  have "tok_loop ?src (?st 0) [] =
      tok_loop ?src (?st 1) [Token NAME (py_slice ?src 0 1) (Some 0) (Some 1)]"
    using first by (subst tok_loop.simps) simp
  also have "\<dots> = None" using no_result by (metis option.exhaust)
  finally show ?thesis by (simp add: GetTokens_def)
qed

end
