(* ===== verification/C_Type.thy ===== *)
theory C_Type
  imports Tokenizer "HOL-Library.Multiset"
begin

text \<open>
  \<open>pybindgen/typehandlers/ctypeparser/__init__.py\<close>: C types as lists of tokens and nested types,
  their canonical form and the traits that the type handlers ask for.  A \<open>CType\<close> object is its
  list of items.  The source compares tokens by identity; tokens made by the tokenizer differ in
  their positions, so equality of the records stands for it.
\<close>

section \<open>C types\<close>

datatype citem = Tok token | Sub "citem list"

type_synonym ctype = "citem list"

definition MODIFIERS :: "string list" where
  "MODIFIERS = [''const'', ''volatile'']"

fun item_named :: "string \<Rightarrow> citem \<Rightarrow> bool" where
  "item_named n (Tok t) = (tok_name t = n)"
| "item_named n (Sub c) = False"

definition is_ptr_ref :: "citem \<Rightarrow> bool" where
  "is_ptr_ref x \<longleftrightarrow> item_named ''*'' x \<or> item_named ''&'' x"

subsection \<open>Reordering modifiers\<close>

text \<open>The inner loop: insert before the next pointer or reference mark, or append.\<close>

fun place :: "citem \<Rightarrow> ctype \<Rightarrow> ctype" where
  "place t [] = [t]"
| "place t (x # xs) = (if is_ptr_ref x then t # x # xs else x # place t xs)"

definition unmoved :: "string \<Rightarrow> citem list \<Rightarrow> citem \<Rightarrow> bool" where
  "unmoved m moved x \<longleftrightarrow> item_named m x \<and> x \<notin> set moved"

text \<open>The outer \<open>for\<close>: the first occurrence of the modifier that was not moved yet.\<close>

fun split_unmoved :: "string \<Rightarrow> citem list \<Rightarrow> ctype \<Rightarrow> (ctype \<times> citem \<times> ctype) option" where
  "split_unmoved m moved [] = None"
| "split_unmoved m moved (x # xs) =
     (if unmoved m moved x then Some ([], x, xs)
      else map_option (\<lambda>(pre, t, post). (x # pre, t, post)) (split_unmoved m moved xs))"

lemma split_unmoved_Some:
  "split_unmoved m moved xs = Some (pre, t, post) \<Longrightarrow>
     xs = pre @ t # post \<and> unmoved m moved t \<and> (\<forall>x \<in> set pre. \<not> unmoved m moved x)"
  by (induction xs arbitrary: pre) (auto split: if_splits)

lemma split_unmoved_None:
  "split_unmoved m moved xs = None \<longleftrightarrow> (\<forall>x \<in> set xs. \<not> unmoved m moved x)"
  by (induction xs) auto

lemma mset_place [simp]: "mset (place t xs) = add_mset t (mset xs)"
  by (induction xs) auto

lemma set_place [simp]: "set (place t xs) = insert t (set xs)"
  by (induction xs) auto

lemma length_filter_mono:
  "(\<And>x. P x \<Longrightarrow> Q x) \<Longrightarrow> length (filter P xs) \<le> length (filter Q xs)"
  by (induction xs) (auto simp: le_Suc_eq)

lemma length_filter_place [simp]: "length (filter P (place t xs)) = length (filter P (t # xs))"
  by (induction xs) auto

function reorder_loop :: "string \<Rightarrow> citem list \<Rightarrow> ctype \<Rightarrow> ctype" where
  "reorder_loop m moved xs =
     (case split_unmoved m moved xs of
        None \<Rightarrow> xs
      | Some (pre, t, post) \<Rightarrow> reorder_loop m (moved @ [t]) (pre @ place t post))"
  by pat_completeness auto
termination
proof (relation "measure (\<lambda>(m, moved, xs). length (filter (unmoved m moved) xs))", goal_cases)
  case (2 m moved xs a pre b t post)
  then have xs: "xs = pre @ t # post" and t: "unmoved m moved t"
    by (auto dest: split_unmoved_Some)
  have "length (filter (unmoved m (moved @ [t])) ys) \<le> length (filter (unmoved m moved) ys)" for ys
    by (rule length_filter_mono) (simp add: unmoved_def)
  from this [of pre] this [of post] t show ?case
    by (simp add: xs) (simp add: unmoved_def)
qed simp

declare reorder_loop.simps [simp del]

definition reorder_modifiers :: "ctype \<Rightarrow> ctype" where
  "reorder_modifiers xs = fold (\<lambda>m. reorder_loop m []) MODIFIERS xs"

subsection \<open>Removing modifiers\<close>

fun remove_first :: "('a \<Rightarrow> bool) \<Rightarrow> 'a list \<Rightarrow> 'a list" where
  "remove_first P [] = []"
| "remove_first P (x # xs) = (if P x then xs else x # remove_first P xs)"

lemma length_remove_first: "\<exists>x \<in> set xs. P x \<Longrightarrow> length (remove_first P xs) < length xs"
  by (induction xs) auto

text \<open>\<open>_remove_modifier\<close>: delete the first occurrence until none is left; was one removed?\<close>

function remove_loop :: "string \<Rightarrow> bool \<Rightarrow> ctype \<Rightarrow> ctype \<times> bool" where
  "remove_loop m removed xs =
     (if \<exists>x \<in> set xs. item_named m x then remove_loop m True (remove_first (item_named m) xs)
      else (xs, removed))"
  by pat_completeness auto
termination
  by (relation "measure (\<lambda>(m, removed, xs). length xs)") (auto intro: length_remove_first)

declare remove_loop.simps [simp del]

definition remove_modifiers :: "ctype \<Rightarrow> ctype \<times> string list" where
  "remove_modifiers xs =
     fold (\<lambda>m (ys, removed). case remove_loop m False ys of
             (zs, b) \<Rightarrow> (zs, if b then removed @ [m] else removed)) MODIFIERS (xs, [])"

text \<open>\<open>remove_outer_modifier\<close>: delete the last occurrence; did it exist?\<close>

definition remove_outer_modifier :: "string \<Rightarrow> ctype \<Rightarrow> ctype \<times> bool" where
  "remove_outer_modifier m xs =
     (rev (remove_first (item_named m) (rev xs)), \<exists>x \<in> set xs. item_named m x)"

subsection \<open>Printing\<close>

definition no_space_before :: "string \<Rightarrow> bool" where
  "no_space_before n \<longleftrightarrow> n \<in> {[], ''<'', '','', ''<,''}"

fun ctype_str_items :: "bool \<Rightarrow> citem list \<Rightarrow> string" where
  "ctype_str_items first [] = []"
| "ctype_str_items first (Tok t # xs) =
     (if no_space_before (tok_name t) then tok_name t
      else if first then tok_name t else CHR '' '' # tok_name t) @ ctype_str_items False xs"
| "ctype_str_items first (Sub c # xs) =
     (if first then ctype_str_items True c else CHR '' '' # ctype_str_items True c) @
     ctype_str_items False xs"

definition ctype_str :: "ctype \<Rightarrow> string" where
  "ctype_str c = ctype_str_items True c"

section \<open>Parsing\<close>

text \<open>A leading \<open>::\<close> is dropped from the token's name.\<close>

definition strip_scope :: "token \<Rightarrow> token" where
  "strip_scope t = (if startswith (tok_name t) ''::'' then t\<lparr>tok_name := drop 2 (tok_name t)\<rparr> else t)"

text \<open>
  \<open>parse_items acc toks\<close> is the \<open>while tokens\<close> loop with \<open>ctype.tokens = acc\<close>; \<open>parse_args\<close> is the inner
  \<open>while 1\<close> over the arguments of a template or a parameter list.  The remaining tokens are
  returned, since the source pops them from a shared list.  When the tokens end inside an
  argument list the source reads the name of \<open>None\<close>.
\<close>

function (sequential) parse_items :: "ctype \<Rightarrow> token list \<Rightarrow> (ctype \<times> token option \<times> token list) res"
  and parse_args :: "ctype \<Rightarrow> token list \<Rightarrow> (ctype \<times> token option \<times> token list) res" where
  "parse_items acc [] = Inr (reorder_modifiers acc, None, [])"
| "parse_items acc (tok # toks) =
     (let token = strip_scope tok in
      if tok_type token = SYNTAX then
        if tok_name token \<in> {'','', ''>'', '')''} then Inr (reorder_modifiers acc, Some token, toks)
        else if tok_name token \<in> {''<'', ''(''} then parse_args (acc @ [Tok token]) toks
        else parse_items (acc @ [Tok token]) toks
      else parse_items (acc @ [Tok token]) toks)"
| "parse_args acc toks =
     (case parse_items [] toks of
        Inl e \<Rightarrow> Inl e
      | Inr (nested, None, rest) \<Rightarrow> Inl (AttributeError ''name'')
      | Inr (nested, Some last_token, rest) \<Rightarrow>
          if tok_name last_token = '','' then parse_args (acc @ [Sub nested, Tok last_token]) rest
          else if tok_name last_token \<in> {''>'', '')''}
          then parse_items (acc @ [Sub nested, Tok last_token]) rest
          else Inl AssertionError)"
  by pat_completeness auto

lemma parse_consumes:
  "parse_items_parse_args_dom (Inl (acc, toks)) \<Longrightarrow> parse_items acc toks = Inr (c, Some t, rest) \<Longrightarrow>
     length rest < length toks"
  "parse_items_parse_args_dom (Inr (acc, toks)) \<Longrightarrow> parse_args acc toks = Inr (c, Some t, rest) \<Longrightarrow>
     length rest < length toks"
proof (induction acc toks and acc toks arbitrary: c t rest and c t rest rule: parse_items_parse_args.pinduct)
  case (1 acc)
  then show ?case by (simp add: parse_items.psimps)
next
  case (2 acc tok toks)
  then show ?case
    by (auto simp: parse_items.psimps Let_def less_Suc_eq split: if_splits)
next
  case (3 acc toks)
  from 3(1) 3(5) obtain nested l rest' where n: "parse_items [] toks = Inr (nested, Some l, rest')"
    and r: "parse_args (acc @ [Sub nested, Tok l]) rest' = Inr (c, Some t, rest) \<and> tok_name l = '','' \<or>
      parse_items (acc @ [Sub nested, Tok l]) rest' = Inr (c, Some t, rest) \<and>
        tok_name l \<noteq> '','' \<and> tok_name l \<in> {''>'', '')''}"
    by (auto simp: parse_args.psimps split: sum.splits option.splits if_splits prod.splits)
  have "length rest' < length toks" using 3(2) n by blast
  moreover have "length rest < length rest'"
    using r 3(3) [OF n refl refl refl] 3(4) [OF n refl refl refl] by auto
  ultimately show ?case by simp
qed

termination parse_items
  by (relation "measure (\<lambda>x. case x of Inl (acc, toks) \<Rightarrow> 2 * length toks | Inr (acc, toks) \<Rightarrow> 2 * length toks + 1)")
    (auto dest!: parse_consumes(1))

declare parse_args.simps [simp del]

lemma parse_args_InrE:
  assumes "parse_args acc toks = Inr (c, l, rest)"
  obtains nested t rest' where "parse_items [] toks = Inr (nested, Some t, rest')"
    and "parse_args (acc @ [Sub nested, Tok t]) rest' = Inr (c, l, rest) \<and> tok_name t = '','' \<or>
      parse_items (acc @ [Sub nested, Tok t]) rest' = Inr (c, l, rest) \<and>
        tok_name t \<noteq> '','' \<and> tok_name t \<in> {''>'', '')''}"
  using assms unfolding parse_args.simps [of acc toks]
  by (auto split: sum.splits option.splits if_splits prod.splits)

text \<open>\<open>None\<close>: the tokenizer does not return.\<close>

definition parse_type :: "string \<Rightarrow> ctype res option" where
  "parse_type type_string =
     map_option (\<lambda>r. bind_res r (\<lambda>toks. bind_res (parse_items [] toks) (\<lambda>(ctype, last_token, rest).
        if last_token = None then Inr ctype else Inl AssertionError)))
       (GetTokens (type_string @ nl))"

definition normalize_type_string :: "string \<Rightarrow> string res option" where
  "normalize_type_string type_string =
     map_option (\<lambda>r. bind_res r (\<lambda>ctype. Inr (ctype_str ctype))) (parse_type type_string)"

section \<open>Type traits\<close>

record type_traits =
  tt_ctype :: ctype
  tt_ctype_no_modifiers :: ctype
  tt_ctype_no_const :: ctype
  tt_is_const :: bool
  tt_is_reference :: bool
  tt_is_pointer :: bool
  tt_target_is_const :: bool
  tt_target :: "ctype option"

record traits_scan =
  tc_level :: nat
  tc_target_pos :: "nat option"
  tc_no_const :: ctype
  tc_is_const :: bool
  tc_is_reference :: bool
  tc_is_pointer :: bool
  tc_target_is_const :: bool

text \<open>The loop over the items from right to left.\<close>

fun traits_step :: "nat \<Rightarrow> citem \<Rightarrow> traits_scan \<Rightarrow> traits_scan res" where
  "traits_step pos (Sub c) st = Inr st"
| "traits_step pos (Tok t) st =
     (if tok_name t = ''const'' then
        if tc_level st = 0 then
          (case remove_outer_modifier ''const'' (tc_no_const st) of (xs, const_removed) \<Rightarrow>
             if const_removed then Inr (st\<lparr>tc_is_const := True, tc_no_const := xs\<rparr>)
             else Inl AssertionError)
        else if tc_level st = 1 then Inr (st\<lparr>tc_target_is_const := True\<rparr>)
        else Inr st
      else if tok_name t = ''*'' then
        Inr ((if tc_level st = 0 then st\<lparr>tc_is_pointer := True, tc_target_pos := Some (pos + 1)\<rparr> else st)
              \<lparr>tc_level := tc_level st + 1\<rparr>)
      else if tok_name t = ''&'' then
        Inr ((if tc_level st = 0 then st\<lparr>tc_is_reference := True, tc_target_pos := Some (pos + 1)\<rparr> else st)
              \<lparr>tc_level := tc_level st + 1\<rparr>)
      else Inr st)"

fun traits_loop :: "nat \<Rightarrow> citem list \<Rightarrow> traits_scan \<Rightarrow> traits_scan res" where
  "traits_loop pos [] st = Inr st"
| "traits_loop pos (x # xs) st = bind_res (traits_step pos x st) (traits_loop (Suc pos) xs)"

definition traits_of_ctype :: "ctype \<Rightarrow> type_traits res" where
  "traits_of_ctype ctype =
     bind_res (traits_loop 0 (rev ctype)
       \<lparr>tc_level = 0, tc_target_pos = None, tc_no_const = ctype, tc_is_const = False,
        tc_is_reference = False, tc_is_pointer = False, tc_target_is_const = False\<rparr>)
     (\<lambda>st. Inr
       \<lparr>tt_ctype = ctype, tt_ctype_no_modifiers = fst (remove_modifiers ctype),
        tt_ctype_no_const = tc_no_const st, tt_is_const = tc_is_const st,
        tt_is_reference = tc_is_reference st, tt_is_pointer = tc_is_pointer st,
        tt_target_is_const = tc_target_is_const st,
        tt_target = map_option (\<lambda>p. fst (remove_modifiers (rev (drop p (rev ctype))))) (tc_target_pos st)\<rparr>)"

definition TypeTraits :: "string \<Rightarrow> type_traits res option" where
  "TypeTraits ctype = map_option (\<lambda>r. bind_res r traits_of_ctype) (parse_type ctype)"

definition const_token :: citem where
  "const_token = Tok (Token NAME ''const'' None None)"

definition make_const :: "type_traits \<Rightarrow> type_traits" where
  "make_const tt =
     (if tt_is_const tt then tt
      else tt\<lparr>tt_is_const := True, tt_ctype := tt_ctype tt @ [const_token]\<rparr>)"

text \<open>Insert before the last pointer or reference mark, if there is one.\<close>

fun insert_before_first :: "('a \<Rightarrow> bool) \<Rightarrow> 'a \<Rightarrow> 'a list \<Rightarrow> 'a list" where
  "insert_before_first P t [] = []"
| "insert_before_first P t (x # xs) = (if P x then x # t # xs else x # insert_before_first P t xs)"

definition insert_const_at_target :: "ctype \<Rightarrow> ctype" where
  "insert_const_at_target xs = rev (insert_before_first is_ptr_ref const_token (rev xs))"

definition make_target_const :: "type_traits \<Rightarrow> type_traits res" where
  "make_target_const tt =
     (if \<not> (tt_is_pointer tt \<or> tt_is_reference tt) then Inl AssertionError
      else if tt_target_is_const tt then Inr tt
      else Inr (tt\<lparr>tt_target_is_const := True,
                   tt_ctype := insert_const_at_target (tt_ctype tt),
                   tt_ctype_no_const := insert_const_at_target (tt_ctype_no_const tt)\<rparr>))"

section \<open>What reordering computes\<close>

text \<open>
  The reference: one pass that carries the modifiers met so far and puts them down, in their
  order, before the next pointer or reference mark or at the end.
\<close>

fun gather :: "(citem \<Rightarrow> bool) \<Rightarrow> ctype \<Rightarrow> ctype \<Rightarrow> ctype" where
  "gather P pend [] = pend"
| "gather P pend (x # xs) =
     (if P x then gather P (pend @ [x]) xs
      else if is_ptr_ref x then pend @ x # gather P [] xs
      else x # gather P pend xs)"

lemma named_not_ptr: "item_named m x \<Longrightarrow> m \<notin> {''*'', ''&''} \<Longrightarrow> \<not> is_ptr_ref x"
  by (cases x) (auto simp: is_ptr_ref_def)

lemma unmoved_snoc: "unmoved m (moved @ [t]) x \<longleftrightarrow> unmoved m moved x \<and> x \<noteq> t"
  by (auto simp: unmoved_def)

lemma unmoved_named: "unmoved m moved x \<Longrightarrow> item_named m x"
  by (simp add: unmoved_def)

lemma unmoved_Nil: "unmoved m [] = item_named m"
  by (simp add: fun_eq_iff unmoved_def)

lemma gather_cong: "(\<And>x. x \<in> set xs \<Longrightarrow> P x = Q x) \<Longrightarrow> gather P pend xs = gather Q pend xs"
  by (induction xs arbitrary: pend) auto

lemma gather_skip: "\<forall>x \<in> set pre. \<not> P x \<Longrightarrow> gather P [] (pre @ ys) = pre @ gather P [] ys"
  by (induction pre) auto

lemma gather_none: "\<forall>x \<in> set xs. \<not> P x \<Longrightarrow> gather P [] xs = xs"
  using gather_skip [of xs P "[]"] by simp

lemma gather_place:
  assumes "m \<notin> {''*'', ''&''}" and "item_named m t" and "t \<notin> set xs"
  shows "gather (unmoved m moved) (t # pend) xs = gather (unmoved m (moved @ [t])) pend (place t xs)"
  using assms(3)
proof (induction xs arbitrary: pend)
  case Nil
  then show ?case using named_not_ptr [OF assms(2,1)] by (simp add: unmoved_def)
next
  case (Cons x xs)
  have eq: "gather (unmoved m moved) [] xs = gather (unmoved m (moved @ [t])) [] xs"
    using Cons.prems by (intro gather_cong) (auto simp: unmoved_snoc)
  have t: "\<not> is_ptr_ref t"
    using named_not_ptr [OF assms(2,1)] .
  have x: "is_ptr_ref x \<Longrightarrow> \<not> unmoved m moved x"
    using named_not_ptr [OF unmoved_named assms(1)] by blast
  show ?case
    using Cons t x eq by (auto simp: unmoved_snoc [of m moved t x] unmoved_snoc [of m moved t t])
qed

lemma reorder_loop_gather:
  assumes "m \<notin> {''*'', ''&''}" and "distinct (filter (item_named m) xs)"
  shows "reorder_loop m moved xs = gather (unmoved m moved) [] xs"
  using assms
proof (induction m moved xs rule: reorder_loop.induct)
  case (1 m moved xs)
  show ?case
  proof (cases "split_unmoved m moved xs")
    case None
    then have "reorder_loop m moved xs = xs"
      by (simp add: reorder_loop.simps [of m moved xs])
    with None show ?thesis by (simp add: split_unmoved_None gather_none)
  next
    case (Some r)
    then obtain pre t post where r: "split_unmoved m moved xs = Some (pre, t, post)" by (cases r) auto
    then have xs: "xs = pre @ t # post" and t: "unmoved m moved t" and pre: "\<forall>x \<in> set pre. \<not> unmoved m moved x"
      by (auto dest: split_unmoved_Some)
    have named: "item_named m t" using t by (simp add: unmoved_def)
    then have notin: "t \<notin> set post" "t \<notin> set pre"
      using "1.prems" by (auto simp: xs)
    have "mset (filter (item_named m) (pre @ place t post)) = mset (filter (item_named m) xs)"
      by (simp add: xs)
    then have "distinct (filter (item_named m) (pre @ place t post))"
      using "1.prems" by (metis mset_eq_imp_distinct_iff)
    then have "reorder_loop m moved xs = gather (unmoved m (moved @ [t])) [] (pre @ place t post)"
      using "1.IH" [OF r refl refl "1.prems"(1)] r by (simp add: reorder_loop.simps [of m moved xs])
    also have "\<dots> = pre @ gather (unmoved m (moved @ [t])) [] (place t post)"
      using pre by (intro gather_skip) (auto simp: unmoved_def)
    also have "\<dots> = pre @ gather (unmoved m moved) [t] post"
      using gather_place [OF "1.prems"(1) named, of post moved "[]"] notin by simp
    also have "\<dots> = gather (unmoved m moved) [] xs"
      using gather_skip [OF pre] t by (simp add: xs)
    finally show ?thesis .
  qed
qed

text \<open>
  C29. The search-and-reinsert loop of \<open>_reorder_modifier\<close> ends and computes the one-pass
  reference: every occurrence of the modifier moves right to just before the next pointer or
  reference mark (or to the end), and the occurrences keep their order.
\<close>

theorem reorder_modifier_spec:
  assumes "m \<in> set MODIFIERS" and "distinct (filter (item_named m) xs)"
  shows "reorder_loop m [] xs = gather (item_named m) [] xs"
proof -
  have "m \<notin> {''*'', ''&''}" using assms(1) by (auto simp: MODIFIERS_def)
  from reorder_loop_gather [OF this assms(2), of "[]"] show ?thesis
    by (simp only: unmoved_Nil)
qed

theorem reorder_modifier_spec_witness:
  "let xs = [Tok (Token NAME ''const'' (Some 0) (Some 5)), Tok (Token NAME ''A'' (Some 6) (Some 7)),
             Tok (Token SYNTAX ''*'' (Some 7) (Some 8))] in
   ''const'' \<in> set MODIFIERS \<and> distinct (filter (item_named ''const'') xs) \<and>
   ctype_str (reorder_loop ''const'' [] xs) = ''A const *''"
proof -
  let ?xs = "[Tok (Token NAME ''const'' (Some 0) (Some 5)), Tok (Token NAME ''A'' (Some 6) (Some 7)),
             Tok (Token SYNTAX ''*'' (Some 7) (Some 8))]"
  have h: "''const'' \<in> set MODIFIERS" "distinct (filter (item_named ''const'') ?xs)"
    by (simp_all add: MODIFIERS_def)
  show ?thesis
    unfolding Let_def reorder_modifier_spec [OF h]
    using h by (simp add: is_ptr_ref_def ctype_str_def no_space_before_def)
qed

lemma mset_reorder_loop [simp]: "mset (reorder_loop m moved xs) = mset xs"
proof (induction m moved xs rule: reorder_loop.induct)
  case (1 m moved xs)
  then show ?case
    by (auto simp: reorder_loop.simps [of m moved xs] dest!: split_unmoved_Some split: option.splits)
qed

lemma mset_reorder_modifiers [simp]: "mset (reorder_modifiers xs) = mset xs"
  by (simp add: reorder_modifiers_def MODIFIERS_def)

section \<open>What removing computes\<close>

lemma filter_remove_first: "filter (\<lambda>x. \<not> P x) (remove_first P xs) = filter (\<lambda>x. \<not> P x) xs"
  by (induction xs) auto

lemma remove_loop_filter:
  "remove_loop m removed xs =
     (filter (\<lambda>x. \<not> item_named m x) xs, removed \<or> (\<exists>x \<in> set xs. item_named m x))"
proof (induction m removed xs rule: remove_loop.induct)
  case (1 m removed xs)
  show ?case
  proof (cases "\<exists>x \<in> set xs. item_named m x")
    case True
    with 1 show ?thesis
      by (simp add: remove_loop.simps [of m removed xs] filter_remove_first)
  next
    case False
    then have "filter (\<lambda>x. \<not> item_named m x) xs = xs" by (simp add: filter_id_conv)
    with False show ?thesis by (simp add: remove_loop.simps [of m removed xs])
  qed
qed

definition is_modifier :: "citem \<Rightarrow> bool" where
  "is_modifier x \<longleftrightarrow> (\<exists>m \<in> set MODIFIERS. item_named m x)"

lemma remove_modifiers_filter:
  "fst (remove_modifiers xs) = filter (\<lambda>x. \<not> is_modifier x) xs"
  by (simp add: remove_modifiers_def MODIFIERS_def remove_loop_filter is_modifier_def conj_commute)

section \<open>What the traits say\<close>

text \<open>The part of a type after its last pointer or reference mark, from right to left.\<close>

definition outer_part :: "ctype \<Rightarrow> ctype" where
  "outer_part xs = takeWhile (\<lambda>x. \<not> is_ptr_ref x) (rev xs)"

abbreviation "is_const_item \<equiv> item_named ''const''"

lemma remove_first_append:
  "\<forall>x \<in> set xs. \<not> P x \<Longrightarrow> remove_first P (xs @ ys) = xs @ remove_first P ys"
  by (induction xs) auto

lemma traits_step_inner:
  assumes "tc_level st \<noteq> 0"
  shows "\<exists>st1. traits_step pos x st = Inr st1 \<and> tc_level st1 \<noteq> 0 \<and> tc_no_const st1 = tc_no_const st \<and>
     tc_is_const st1 = tc_is_const st \<and> tc_is_pointer st1 = tc_is_pointer st \<and>
     tc_is_reference st1 = tc_is_reference st \<and> tc_target_pos st1 = tc_target_pos st"
proof (cases x)
  case (Tok t)
  consider "tok_name t = ''const''" "tc_level st = 1" | "tok_name t = ''const''" "tc_level st \<noteq> 1"
    | "tok_name t = ''*''" | "tok_name t = ''&''" | "tok_name t \<notin> {''const'', ''*'', ''&''}" by blast
  then show ?thesis using assms Tok by cases simp_all
qed (use assms in simp)

lemma traits_loop_inner:
  "tc_level st \<noteq> 0 \<Longrightarrow> \<exists>st'. traits_loop pos xs st = Inr st' \<and> tc_no_const st' = tc_no_const st \<and>
     tc_is_const st' = tc_is_const st \<and> tc_is_pointer st' = tc_is_pointer st \<and>
     tc_is_reference st' = tc_is_reference st \<and> tc_target_pos st' = tc_target_pos st"
proof (induction xs arbitrary: pos st)
  case (Cons x xs)
  from traits_step_inner [OF Cons.prems, of pos x] obtain st1 where st1:
     "traits_step pos x st = Inr st1" "tc_level st1 \<noteq> 0" "tc_no_const st1 = tc_no_const st"
     "tc_is_const st1 = tc_is_const st" "tc_is_pointer st1 = tc_is_pointer st"
     "tc_is_reference st1 = tc_is_reference st" "tc_target_pos st1 = tc_target_pos st" by blast
  from Cons.IH [OF st1(2), of "Suc pos"] st1 show ?case by simp
qed simp

lemma traits_loop_outer:
  assumes "tc_level st = 0" and "rev (tc_no_const st) = pre @ xs" and "\<forall>x \<in> set pre. \<not> is_const_item x"
    and "\<not> tc_is_pointer st" "\<not> tc_is_reference st" "tc_target_pos st = None"
  shows "\<exists>st'. traits_loop pos xs st = Inr st' \<and>
     rev (tc_no_const st') = pre @ filter (\<lambda>x. \<not> is_const_item x) (takeWhile (\<lambda>x. \<not> is_ptr_ref x) xs) @
        dropWhile (\<lambda>x. \<not> is_ptr_ref x) xs \<and>
     tc_is_const st' = (tc_is_const st \<or> (\<exists>x \<in> set (takeWhile (\<lambda>x. \<not> is_ptr_ref x) xs). is_const_item x)) \<and>
     tc_is_pointer st' = (case dropWhile (\<lambda>x. \<not> is_ptr_ref x) xs of [] \<Rightarrow> False | y # _ \<Rightarrow> item_named ''*'' y) \<and>
     tc_is_reference st' = (case dropWhile (\<lambda>x. \<not> is_ptr_ref x) xs of [] \<Rightarrow> False | y # _ \<Rightarrow> item_named ''&'' y) \<and>
     tc_target_pos st' = (if dropWhile (\<lambda>x. \<not> is_ptr_ref x) xs = [] then None
        else Some (pos + length (takeWhile (\<lambda>x. \<not> is_ptr_ref x) xs) + 1))"
  using assms
proof (induction xs arbitrary: pos st pre)
  case (Cons x xs)
  consider (ptr) "is_ptr_ref x" | (const) "\<not> is_ptr_ref x" "is_const_item x"
    | (other) "\<not> is_ptr_ref x" "\<not> is_const_item x" by blast
  then show ?case
  proof cases
    case ptr
    then obtain t where t: "x = Tok t" "tok_name t = ''*'' \<or> tok_name t = ''&''"
      by (cases x) (auto simp: is_ptr_ref_def)
    then obtain st1 where st1: "traits_step pos x st = Inr st1" "tc_level st1 \<noteq> 0" "tc_no_const st1 = tc_no_const st"
       "tc_is_const st1 = tc_is_const st" "tc_is_pointer st1 = (tok_name t = ''*'')"
       "tc_is_reference st1 = (tok_name t = ''&'')" "tc_target_pos st1 = Some (pos + 1)"
      using Cons.prems by auto
    from traits_loop_inner [OF st1(2), of "Suc pos" xs] st1 ptr t Cons.prems show ?thesis by auto
  next
    case const
    then obtain t where t: "x = Tok t" "tok_name t = ''const''" by (cases x) auto
    let ?ys = "rev (pre @ xs)"
    have "remove_outer_modifier ''const'' (tc_no_const st) = (?ys, True)"
      using Cons.prems(2,3) const
      by (auto simp: remove_outer_modifier_def remove_first_append)
        (metis in_set_conv_decomp set_rev)
    then have "traits_step pos x st = Inr (st\<lparr>tc_is_const := True, tc_no_const := ?ys\<rparr>)"
      using t Cons.prems(1) by simp
    with Cons.IH [of "st\<lparr>tc_is_const := True, tc_no_const := ?ys\<rparr>" pre "Suc pos"] Cons.prems const
    show ?thesis by auto
  next
    case other
    then have "traits_step pos x st = Inr st"
      by (cases x) (auto simp: is_ptr_ref_def)
    with Cons.IH [of st "pre @ [x]" "Suc pos"] Cons.prems other show ?thesis by auto
  qed
qed auto

text \<open>
  C15. Collecting the traits of a type never fails, and the traits are what their names say:
  a type is const when a \<open>const\<close> follows its last pointer or reference mark; \<open>ctype_no_const\<close>
  removes exactly those \<open>const\<close>s; the last mark decides between pointer and reference; the
  target is what precedes it, without its modifiers.
\<close>

theorem traits_of_ctype_spec:
  "\<exists>tt. traits_of_ctype xs = Inr tt \<and> tt_ctype tt = xs \<and>
     tt_ctype_no_modifiers tt = filter (\<lambda>x. \<not> is_modifier x) xs \<and>
     tt_is_const tt = (\<exists>x \<in> set (outer_part xs). is_const_item x) \<and>
     rev (tt_ctype_no_const tt) =
       filter (\<lambda>x. \<not> is_const_item x) (outer_part xs) @ drop (length (outer_part xs)) (rev xs) \<and>
     (case drop (length (outer_part xs)) (rev xs) of
        [] \<Rightarrow> \<not> tt_is_pointer tt \<and> \<not> tt_is_reference tt \<and> tt_target tt = None
      | mark # target \<Rightarrow> tt_is_pointer tt = item_named ''*'' mark \<and> tt_is_reference tt = item_named ''&'' mark \<and>
          tt_target tt = Some (filter (\<lambda>x. \<not> is_modifier x) (rev target)))"
proof -
  let ?st = "\<lparr>tc_level = 0, tc_target_pos = None, tc_no_const = xs, tc_is_const = False,
        tc_is_reference = False, tc_is_pointer = False, tc_target_is_const = False\<rparr>"
  have drop: "dropWhile (\<lambda>x. \<not> is_ptr_ref x) (rev xs) = drop (length (outer_part xs)) (rev xs)"
    by (simp add: outer_part_def dropWhile_eq_drop)
  have "\<exists>st. traits_loop 0 (rev xs) ?st = Inr st \<and>
    rev (tc_no_const st) = filter (\<lambda>x. \<not> is_const_item x) (outer_part xs) @ drop (length (outer_part xs)) (rev xs) \<and>
    tc_is_const st = (\<exists>x \<in> set (outer_part xs). is_const_item x) \<and>
    tc_is_pointer st = (case drop (length (outer_part xs)) (rev xs) of [] \<Rightarrow> False | y # _ \<Rightarrow> item_named ''*'' y) \<and>
    tc_is_reference st = (case drop (length (outer_part xs)) (rev xs) of [] \<Rightarrow> False | y # _ \<Rightarrow> item_named ''&'' y) \<and>
    tc_target_pos st = (if drop (length (outer_part xs)) (rev xs) = [] then None
        else Some (length (outer_part xs) + 1))"
    using traits_loop_outer [of ?st "[]" "rev xs" 0]
    unfolding drop outer_part_def [symmetric] add_0_left by (simp split del: if_split)
  then obtain st where st: "traits_loop 0 (rev xs) ?st = Inr st"
    "rev (tc_no_const st) = filter (\<lambda>x. \<not> is_const_item x) (outer_part xs) @ drop (length (outer_part xs)) (rev xs)"
    "tc_is_const st = (\<exists>x \<in> set (outer_part xs). is_const_item x)"
    "tc_is_pointer st = (case drop (length (outer_part xs)) (rev xs) of [] \<Rightarrow> False | y # _ \<Rightarrow> item_named ''*'' y)"
    "tc_is_reference st = (case drop (length (outer_part xs)) (rev xs) of [] \<Rightarrow> False | y # _ \<Rightarrow> item_named ''&'' y)"
    "tc_target_pos st = (if drop (length (outer_part xs)) (rev xs) = [] then None
        else Some (length (outer_part xs) + 1))" by blast
  have "drop (length (outer_part xs) + 1) (rev xs) = tl (drop (length (outer_part xs)) (rev xs))"
    by (simp add: tl_drop [symmetric] drop_Suc)
  with st show ?thesis
    by (auto simp: traits_of_ctype_def remove_modifiers_filter split: list.splits)
qed

text \<open>The tokens of a parsed type, nested types included.\<close>

fun item_tokens :: "citem \<Rightarrow> token list" where
  "item_tokens (Tok t) = [t]"
| "item_tokens (Sub c) = concat (map item_tokens c)"

abbreviation "ctype_tokens c \<equiv> concat (map item_tokens c)"

lemma mset_ctype_tokens: "mset (ctype_tokens xs) = (\<Sum>x \<in># mset xs. mset (item_tokens x))"
  by (induction xs) auto

lemma mset_ctype_tokens_reorder [simp]:
  "mset (ctype_tokens (reorder_modifiers xs)) = mset (ctype_tokens xs)"
  by (simp add: mset_ctype_tokens)

lemma parse_conserves:
  "parse_items acc toks = Inr (c, l, rest) \<Longrightarrow>
     mset (ctype_tokens c) + mset (case l of None \<Rightarrow> [] | Some t \<Rightarrow> [t]) + mset (map strip_scope rest) =
     mset (ctype_tokens acc) + mset (map strip_scope toks) \<and> (l = None \<longrightarrow> rest = [])"
  "parse_args acc toks = Inr (c, l, rest) \<Longrightarrow>
     mset (ctype_tokens c) + mset (case l of None \<Rightarrow> [] | Some t \<Rightarrow> [t]) + mset (map strip_scope rest) =
     mset (ctype_tokens acc) + mset (map strip_scope toks) \<and> (l = None \<longrightarrow> rest = [])"
proof (induction acc toks and acc toks arbitrary: c l rest and c l rest rule: parse_items_parse_args.induct)
  case (2 acc tok toks)
  then show ?case by (auto simp: Let_def split: if_splits)
next
  case (3 acc toks)
  from parse_args_InrE [OF 3(4)] obtain nested t rest' where n: "parse_items [] toks = Inr (nested, Some t, rest')"
    and r: "parse_args (acc @ [Sub nested, Tok t]) rest' = Inr (c, l, rest) \<and> tok_name t = '','' \<or>
      parse_items (acc @ [Sub nested, Tok t]) rest' = Inr (c, l, rest) \<and>
        tok_name t \<noteq> '','' \<and> tok_name t \<in> {''>'', '')''}" .
  let ?tail = "\<lambda>l rest. mset (case l of None \<Rightarrow> [] | Some t \<Rightarrow> [t]) + mset (map strip_scope rest)"
  have inner: "mset (ctype_tokens nested) + ?tail (Some t) rest' = mset (map strip_scope toks)"
    using 3(1) [OF n] by (simp add: add.assoc)
  have "mset (ctype_tokens c) + ?tail l rest =
      mset (ctype_tokens (acc @ [Sub nested, Tok t])) + mset (map strip_scope rest') \<and> (l = None \<longrightarrow> rest = [])"
    using r 3(2) [OF n refl refl refl, of c l rest] 3(3) [OF n refl refl refl, of c l rest]
    unfolding add.assoc [symmetric] by blast
  moreover have "mset (ctype_tokens (acc @ [Sub nested, Tok t])) + mset (map strip_scope rest') =
      mset (ctype_tokens acc) + (mset (ctype_tokens nested) + ?tail (Some t) rest')"
    by simp
  ultimately show ?case using inner by (simp only: add.assoc) blast
qed auto

text \<open>
  C16. The parser loses no token: the tokens of the parsed type, nested ones included, are the
  given tokens with a leading \<open>::\<close> dropped (modifiers may have changed places).
\<close>

theorem parse_items_conserves:
  assumes "parse_items [] toks = Inr (c, None, rest)"
  shows "mset (ctype_tokens c) = mset (map strip_scope toks)"
  using parse_conserves(1) [OF assms] by auto

theorem parse_items_conserves_witness:
  "let toks = [Token NAME ''A'' (Some 0) (Some 1), Token SYNTAX ''<'' (Some 1) (Some 2),
               Token NAME ''B'' (Some 2) (Some 3), Token SYNTAX ''>'' (Some 3) (Some 4)] in
   \<exists>c. parse_items [] toks = Inr (c, None, []) \<and> mset (ctype_tokens c) = mset toks"
proof -
  let ?toks = "[Token NAME ''A'' (Some 0) (Some 1), Token SYNTAX ''<'' (Some 1) (Some 2),
               Token NAME ''B'' (Some 2) (Some 3), Token SYNTAX ''>'' (Some 3) (Some 4)]"
  let ?c = "[Tok (Token NAME ''A'' (Some 0) (Some 1)), Tok (Token SYNTAX ''<'' (Some 1) (Some 2)),
             Sub [Tok (Token NAME ''B'' (Some 2) (Some 3))], Tok (Token SYNTAX ''>'' (Some 3) (Some 4))]"
  have h: "parse_items [] ?toks = Inr (?c, None, [])"
    by (simp add: parse_args.simps strip_scope_def startswith_def reorder_modifiers_def MODIFIERS_def
        reorder_loop.simps unmoved_def)
  have "mset (ctype_tokens ?c) = mset (map strip_scope ?toks)"
    by (rule parse_items_conserves [OF h])
  with h show ?thesis
    by (simp add: strip_scope_def startswith_def)
qed

text \<open>A pointer to a pointer written without a space is one token for the tokenizer, so the
  type is not recognised as a pointer and a leading \<open>const\<close> moves past both marks, which changes
  the type's meaning; with a space it is handled.\<close>

theorem double_pointer_misread:
  "normalize_type_string ''const A**'' = Some (Inr ''A ** const'') \<and>
   normalize_type_string ''const A* *'' = Some (Inr ''A const * *'')"
  by (rule conjI; code_simp)

text \<open>Adjacent closing brackets are one token too: a template of a template is an error.\<close>

theorem nested_template_rejected:
  "normalize_type_string ''A<B<C>>'' = Some (Inl (AttributeError ''name'')) \<and>
   normalize_type_string ''A<B<C> >'' = Some (Inr ''A< B< C > >'')"
  by (rule conjI; code_simp)

end
