(* ===== verification/Type_Matcher.thy ===== *)
theory Type_Matcher
  imports C_Type
begin

text \<open>
  \<open>TypeMatcher\<close> of \<open>pybindgen/typehandlers/base.py\<close>: the table from C type names to the classes
  that handle them, with type aliases and type transformations.  The handler classes and the
  transformation objects are parameters (\<open>'h\<close>, \<open>'t\<close>); of a transformation only its method
  \<open>get_untransformed_name\<close> is called here.  Dictionaries are association lists.
\<close>

section \<open>State and operations\<close>

record ('h, 't) type_matcher =
  tm_types :: "(string \<times> 'h) list"
  tm_transformations :: "'t list"
  tm_aliases :: "(string \<times> string) list"
  tm_aliases_rev :: "(string \<times> string) list"

definition TypeMatcher_init :: "('h, 't) type_matcher" where
  "TypeMatcher_init = \<lparr>tm_types = [], tm_transformations = [], tm_aliases = [], tm_aliases_rev = []\<rparr>"

definition register_transformation :: "'t \<Rightarrow> ('h, 't) type_matcher \<Rightarrow> ('h, 't) type_matcher" where
  "register_transformation transformation tm =
     tm\<lparr>tm_transformations := tm_transformations tm @ [transformation]\<rparr>"

text \<open>The part of \<open>register\<close> after the name is normalised.\<close>

definition register_normalized :: "string \<Rightarrow> 'h \<Rightarrow> (('h, 't) type_matcher, unit) py" where
  "register_normalized name handler =
     bnd (gets tm_types) (\<lambda>types.
       if map_of types name \<noteq> None
       then raise_py (ValueError (''return type '' @ name @ '' already registered''))
       else upd (\<lambda>tm. tm\<lparr>tm_types := AList.update name handler (tm_types tm)\<rparr>))"

definition register :: "string \<Rightarrow> 'h \<Rightarrow> ('h, 't) type_matcher \<Rightarrow> (unit res \<times> ('h, 't) type_matcher) option" where
  "register name handler tm =
     map_option (\<lambda>r. case r of Inl e \<Rightarrow> (Inl e, tm) | Inr name \<Rightarrow> register_normalized name handler tm)
       (normalize_type_string name)"

definition aliases_to_try :: "('h, 't) type_matcher \<Rightarrow> string \<Rightarrow> string list" where
  "aliases_to_try tm name =
     (case map_of (tm_aliases tm) name of None \<Rightarrow> [] | Some a \<Rightarrow> [a]) @
     (case map_of (tm_aliases_rev tm) name of None \<Rightarrow> [] | Some a \<Rightarrow> [a])"

text \<open>\<open>for alias in aliases_to_try\<close> returns at the first alias that was not tried before.\<close>

definition first_untried :: "string list \<Rightarrow> string list \<Rightarrow> string option" where
  "first_untried aliases already_tried = find (\<lambda>a. a \<notin> set already_tried) aliases"

lemma first_untried_Some:
  "first_untried aliases tried = Some a \<Longrightarrow> a \<in> set aliases \<and> a \<notin> set tried"
  by (auto simp: first_untried_def find_Some_iff)

lemma aliases_to_try_dom:
  "a \<in> set (aliases_to_try tm name) \<Longrightarrow> name \<in> fst ` set (tm_aliases tm @ tm_aliases_rev tm)"
  using map_of_eq_None_iff [of "tm_aliases tm" name] map_of_eq_None_iff [of "tm_aliases_rev tm" name]
  by (auto simp: aliases_to_try_def image_Un split: option.splits)

abbreviation alias_names :: "('h, 't) type_matcher \<Rightarrow> string set" where
  "alias_names tm \<equiv> fst ` set (tm_aliases tm @ tm_aliases_rev tm)"

function raw_lookup :: "('h, 't) type_matcher \<Rightarrow> string \<Rightarrow> string list \<Rightarrow> 'h res" where
  "raw_lookup tm name already_tried =
     (case map_of (tm_types tm) name of
        Some h \<Rightarrow> Inr h
      | None \<Rightarrow>
          (case first_untried (aliases_to_try tm name) already_tried of
             None \<Rightarrow> Inl (KeyError [])
           | Some alias \<Rightarrow> raw_lookup tm alias (already_tried @ [name])))"
  by pat_completeness auto
termination raw_lookup
proof (relation "measures [\<lambda>(tm, name, tried). card (alias_names tm - set tried),
    \<lambda>(tm, name, tried). if name \<in> set tried then 1 else 0]", simp)
  fix tm :: "('h, 't) type_matcher" and name tried nxt
  assume "first_untried (aliases_to_try tm name) tried = Some nxt"
  then have a: "nxt \<in> set (aliases_to_try tm name)" "nxt \<notin> set tried"
    by (simp_all add: first_untried_Some)
  let ?A = "alias_names tm"
  have in_dom: "name \<in> ?A" using a(1) by (rule aliases_to_try_dom)
  show "((tm, nxt, tried @ [name]), tm, name, tried)
    \<in> measures [\<lambda>(tm, name, tried). card (alias_names tm - set tried),
        \<lambda>(tm, name, tried). if name \<in> set tried then 1 else 0]"
  proof (cases "name \<in> set tried")
    case True
    then have "set (tried @ [name]) = set tried" "nxt \<noteq> name" using a(2) by auto
    with a(2) True show ?thesis by simp
  next
    case False
    then have "?A - set (tried @ [name]) \<subset> ?A - set tried" using in_dom by auto
    then have "card (?A - set (tried @ [name])) < card (?A - set tried)"
      by (intro psubset_card_mono) auto
    then show ?thesis by simp
  qed
qed

declare raw_lookup.simps [simp del]

definition raw_lookup_with_alias_support :: "('h, 't) type_matcher \<Rightarrow> string \<Rightarrow> 'h res" where
  "raw_lookup_with_alias_support tm name = raw_lookup tm name []"

text \<open>The loop over the transformations, after the direct lookup failed.\<close>

fun try_transformations ::
  "('t \<Rightarrow> string \<Rightarrow> string option res) \<Rightarrow> ('h, 't) type_matcher \<Rightarrow> string \<Rightarrow> 't list \<Rightarrow> string list
     \<Rightarrow> ('h \<times> 't option \<times> type_traits) res option" where
  "try_transformations get_untransformed_name tm name [] tried_names = Some (Inl (TypeLookupError tried_names))"
| "try_transformations get_untransformed_name tm name (transf # transfs) tried_names =
     bind_div (Some (get_untransformed_name transf name)) (\<lambda>u.
       case u of
         None \<Rightarrow> try_transformations get_untransformed_name tm name transfs tried_names
       | Some untransformed_name \<Rightarrow>
           bind_div (TypeTraits untransformed_name) (\<lambda>traits.
             let untransformed = ctype_str (tt_ctype_no_modifiers traits) in
             case raw_lookup_with_alias_support tm untransformed of
               Inr h \<Rightarrow> Some (Inr (h, Some transf, traits))
             | Inl e \<Rightarrow> try_transformations get_untransformed_name tm name transfs (tried_names @ [untransformed])))"

definition lookup ::
  "('t \<Rightarrow> string \<Rightarrow> string option res) \<Rightarrow> ('h, 't) type_matcher \<Rightarrow> string
     \<Rightarrow> ('h \<times> 't option \<times> type_traits) res option" where
  "lookup get_untransformed_name tm name =
     bind_div (TypeTraits name) (\<lambda>given_type_traits.
       let noconst_name = ctype_str (tt_ctype_no_modifiers given_type_traits) in
       case raw_lookup_with_alias_support tm noconst_name of
         Inr h \<Rightarrow> Some (Inr (h, None, given_type_traits))
       | Inl e \<Rightarrow> try_transformations get_untransformed_name tm name (tm_transformations tm) [noconst_name])"

definition tm_items :: "('h, 't) type_matcher \<Rightarrow> (string \<times> 'h) list" where
  "tm_items tm = tm_types tm"

definition add_alias_normalized :: "string \<Rightarrow> string \<Rightarrow> ('h, 't) type_matcher \<Rightarrow> ('h, 't) type_matcher" where
  "add_alias_normalized from_name to_name tm =
     tm\<lparr>tm_aliases := AList.update to_name from_name (tm_aliases tm),
        tm_aliases_rev := AList.update from_name to_name (tm_aliases_rev tm)\<rparr>"

definition add_type_alias ::
  "string \<Rightarrow> string \<Rightarrow> ('h, 't) type_matcher \<Rightarrow> (unit res \<times> ('h, 't) type_matcher) option" where
  "add_type_alias from_type_name to_type_name tm =
     map_option (\<lambda>r. case r of Inl e \<Rightarrow> (Inl e, tm) | Inr tm' \<Rightarrow> (Inr (), tm'))
       (bind_div (TypeTraits from_type_name) (\<lambda>f.
        bind_div (TypeTraits to_type_name) (\<lambda>t.
          Some (Inr (add_alias_normalized (ctype_str (tt_ctype f)) (ctype_str (tt_ctype t)) tm)))))"

section \<open>The interface of a table that refuses to overwrite\<close>

text \<open>
  What the metaclass of the type handlers relies on when it registers every name of \<open>CTYPES\<close>:
  a new name is entered and nothing else changes; a known name raises ValueError and changes nothing.
\<close>

locale name_table =
  fixes get :: "'s \<Rightarrow> 'k \<Rightarrow> 'h option"
    and put :: "'k \<Rightarrow> 'h \<Rightarrow> 's \<Rightarrow> unit res \<times> 's"
  assumes put_new: "get s k = None \<Longrightarrow> \<exists>s'. put k h s = (Inr (), s') \<and> get s' = (get s)(k \<mapsto> h)"
    and put_known: "get s k \<noteq> None \<Longrightarrow> \<exists>msg. put k h s = (Inl (ValueError msg), s)"
begin

definition put_all :: "'k list \<Rightarrow> 'h \<Rightarrow> 's \<Rightarrow> unit res \<times> 's" where
  "put_all ks h = for_each (\<lambda>k. put k h) ks"

lemma put_all_fresh:
  "distinct ks \<Longrightarrow> \<forall>k \<in> set ks. get s k = None \<Longrightarrow>
     \<exists>s'. put_all ks h s = (Inr (), s') \<and> get s' = (\<lambda>k. if k \<in> set ks then Some h else get s k)"
proof (induction ks arbitrary: s)
  case Nil
  then show ?case by (simp add: put_all_def)
next
  case (Cons k ks)
  obtain s1 where s1: "put k h s = (Inr (), s1)" "get s1 = (get s)(k \<mapsto> h)"
    using put_new [of s k h] Cons.prems by auto
  with Cons.prems have "\<forall>k \<in> set ks. get s1 k = None" by auto
  with Cons.IH [of s1] Cons.prems(1) s1 show ?case by (auto simp: put_all_def fun_eq_iff)
qed

lemma put_all_never_overwrites:
  "put_all ks h s = (r, s') \<Longrightarrow> get s k = Some h' \<Longrightarrow> get s' k = Some h'"
proof (induction ks arbitrary: s)
  case (Cons k0 ks)
  show ?case
  proof (cases "get s k0")
    case None
    then obtain s1 where "put k0 h s = (Inr (), s1)" "get s1 = (get s)(k0 \<mapsto> h)"
      using put_new [of s k0 h] by auto
    moreover from this None Cons.prems(2) have "get s1 k = Some h'" by auto
    ultimately show ?thesis using Cons by (simp add: put_all_def)
  next
    case (Some h0)
    then obtain msg where "put k0 h s = (Inl (ValueError msg), s)" using put_known [of s k0 h] by auto
    with Cons.prems show ?thesis by (simp add: put_all_def)
  qed
qed (simp add: put_all_def)

end

interpretation types: name_table "\<lambda>tm. map_of (tm_types tm)" register_normalized
  by unfold_locales (auto simp: register_normalized_def update_conv' fun_eq_iff)

section \<open>Following aliases\<close>

definition alias_edges :: "('h, 't) type_matcher \<Rightarrow> (string \<times> string) set" where
  "alias_edges tm = {(a, b). b \<in> set (aliases_to_try tm a)}"

lemma raw_lookup_Inr:
  "raw_lookup tm name tried = Inr h \<Longrightarrow>
     \<exists>n. (name, n) \<in> (alias_edges tm)\<^sup>* \<and> map_of (tm_types tm) n = Some h"
proof (induction tm name tried rule: raw_lookup.induct)
  case (1 tm name tried)
  show ?case
  proof (cases "map_of (tm_types tm) name")
    case None
    with 1(2) obtain a where a: "first_untried (aliases_to_try tm name) tried = Some a"
        "raw_lookup tm a (tried @ [name]) = Inr h"
      by (auto simp: raw_lookup.simps [of tm name] split: option.splits)
    have "(name, a) \<in> alias_edges tm" using first_untried_Some [OF a(1)] by (simp add: alias_edges_def)
    with 1(1) [OF None a] show ?thesis by (meson converse_rtrancl_into_rtrancl)
  next
    case (Some h')
    with 1(2) show ?thesis by (auto simp: raw_lookup.simps [of tm name])
  qed
qed

lemma raw_lookup_direct: "map_of (tm_types tm) name = Some h \<Longrightarrow> raw_lookup tm name tried = Inr h"
  by (simp add: raw_lookup.simps)

lemma try_transformations_Inr:
  "try_transformations g tm name ts tried = Some (Inr (h, t, traits)) \<Longrightarrow>
     (\<exists>transf u. t = Some transf \<and> transf \<in> set ts \<and> g transf name = Inr (Some u) \<and>
        TypeTraits u = Some (Inr traits)) \<and>
     raw_lookup_with_alias_support tm (ctype_str (tt_ctype_no_modifiers traits)) = Inr h"
proof (induction ts arbitrary: tried)
  case (Cons transf ts)
  from Cons.prems obtain r where r: "g transf name = Inr r" by (cases "g transf name") auto
  show ?case
  proof (cases r)
    case None
    with Cons.prems r have "try_transformations g tm name ts tried = Some (Inr (h, t, traits))" by simp
    from Cons.IH [OF this] show ?thesis by auto
  next
    case (Some u)
    with Cons.prems r obtain tr where tr: "TypeTraits u = Some (Inr tr)" by (auto simp: bind_div_Inr)
    show ?thesis
    proof (cases "raw_lookup_with_alias_support tm (ctype_str (tt_ctype_no_modifiers tr))")
      case (Inl e)
      with Cons.prems r Some tr have "\<exists>tried'. try_transformations g tm name ts tried' = Some (Inr (h, t, traits))"
        by (auto simp: Let_def)
      then obtain tried' where "try_transformations g tm name ts tried' = Some (Inr (h, t, traits))" ..
      from Cons.IH [OF this] show ?thesis by auto
    next
      case (Inr h')
      with Cons.prems r Some tr show ?thesis by (auto simp: Let_def)
    qed
  qed
qed simp

section \<open>Properties\<close>

text \<open>The traits of two concrete types, and a matcher with one handler.\<close>

definition const_int_traits :: type_traits where
  "const_int_traits =
     (let i = Tok (Token NAME ''int'' (Some 6) (Some 9)); c = Tok (Token NAME ''const'' (Some 0) (Some 5)) in
      \<lparr>tt_ctype = [i, c], tt_ctype_no_modifiers = [i], tt_ctype_no_const = [i], tt_is_const = True,
       tt_is_reference = False, tt_is_pointer = False, tt_target_is_const = False, tt_target = None\<rparr>)"

definition plain_traits :: "string \<Rightarrow> type_traits" where
  "plain_traits name =
     (let i = Tok (Token NAME name (Some 0) (Some (int (length name)))) in
      \<lparr>tt_ctype = [i], tt_ctype_no_modifiers = [i], tt_ctype_no_const = [i], tt_is_const = False,
       tt_is_reference = False, tt_is_pointer = False, tt_target_is_const = False, tt_target = None\<rparr>)"

definition int_matcher :: "(string, unit) type_matcher" where
  "int_matcher = TypeMatcher_init\<lparr>tm_types := [(''int'', ''IntParam'')]\<rparr>"

lemma TypeTraits_concrete:
  "TypeTraits ''const int'' = Some (Inr const_int_traits)"
  "TypeTraits ''int'' = Some (Inr (plain_traits ''int''))"
  "TypeTraits ''myint'' = Some (Inr (plain_traits ''myint''))"
  by code_simp+

text \<open>
  C14. A handler class returned by \<open>lookup\<close> is registered under a name that aliases connect to the
  name of the type, taken without modifiers, that was asked for, or under one connected to the
  untransformed name given by the transformation that is returned with it.
\<close>

theorem lookup_sound:
  assumes "lookup g tm name = Some (Inr (h, t, traits))"
  shows "(case t of None \<Rightarrow> TypeTraits name = Some (Inr traits)
          | Some transf \<Rightarrow> transf \<in> set (tm_transformations tm) \<and>
              (\<exists>u. g transf name = Inr (Some u) \<and> TypeTraits u = Some (Inr traits))) \<and>
         (\<exists>n. (ctype_str (tt_ctype_no_modifiers traits), n) \<in> (alias_edges tm)\<^sup>* \<and> map_of (tm_types tm) n = Some h)"
proof -
  have "(case t of None \<Rightarrow> TypeTraits name = Some (Inr traits)
          | Some transf \<Rightarrow> transf \<in> set (tm_transformations tm) \<and>
              (\<exists>u. g transf name = Inr (Some u) \<and> TypeTraits u = Some (Inr traits))) \<and>
        raw_lookup_with_alias_support tm (ctype_str (tt_ctype_no_modifiers traits)) = Inr h"
  proof -
    from assms obtain a where a: "TypeTraits name = Some (Inr a)" by (auto simp: lookup_def bind_div_Inr)
    show ?thesis
    proof (cases "raw_lookup_with_alias_support tm (ctype_str (tt_ctype_no_modifiers a))")
      case (Inl e)
      with assms a show ?thesis by (auto simp: lookup_def Let_def dest!: try_transformations_Inr)
    next
      case (Inr h')
      with assms a show ?thesis by (auto simp: lookup_def Let_def)
    qed
  qed
  then show ?thesis by (auto simp: raw_lookup_with_alias_support_def dest!: raw_lookup_Inr)
qed

theorem lookup_sound_witness:
  "lookup (\<lambda>t n. Inr None) int_matcher ''const int'' = Some (Inr (''IntParam'', None, const_int_traits)) \<and>
   (\<exists>n. (''int'', n) \<in> (alias_edges int_matcher)\<^sup>* \<and> map_of (tm_types int_matcher) n = Some ''IntParam'')"
proof -
  have str: "ctype_str (tt_ctype_no_modifiers const_int_traits) = ''int''" by code_simp
  have "raw_lookup_with_alias_support int_matcher ''int'' = Inr ''IntParam''"
    unfolding raw_lookup_with_alias_support_def by (rule raw_lookup_direct) (simp add: int_matcher_def)
  then have "lookup (\<lambda>t n. Inr None) int_matcher ''const int'' = Some (Inr (''IntParam'', None, const_int_traits))"
    by (simp add: lookup_def TypeTraits_concrete str)
  with lookup_sound [OF this] str show ?thesis by simp
qed

text \<open>
  An alias works: after \<open>add_type_alias(f, t)\<close> a lookup of \<open>t\<close> finds the handler registered for
  \<open>f\<close>, provided \<open>t\<close> carries no modifiers and has no handler of its own.
\<close>

theorem alias_lookup_roundtrip:
  assumes "TypeTraits f = Some (Inr F)" and "TypeTraits t = Some (Inr U)"
    and "add_type_alias f t tm = Some (Inr (), tm')"
    and "map_of (tm_types tm) (ctype_str (tt_ctype F)) = Some h"
    and "map_of (tm_types tm) (ctype_str (tt_ctype U)) = None"
    and "tt_ctype_no_modifiers U = tt_ctype U"
  shows "lookup g tm' t = Some (Inr (h, None, U))"
proof -
  have tm': "tm' = add_alias_normalized (ctype_str (tt_ctype F)) (ctype_str (tt_ctype U)) tm"
    using assms(1-3) by (simp add: add_type_alias_def)
  have "first_untried (aliases_to_try tm' (ctype_str (tt_ctype U))) [] = Some (ctype_str (tt_ctype F))"
    by (simp add: tm' first_untried_def aliases_to_try_def add_alias_normalized_def update_conv')
  then have "raw_lookup tm' (ctype_str (tt_ctype U)) [] = Inr h"
    using assms(4,5) by (subst raw_lookup.simps) (simp add: tm' add_alias_normalized_def raw_lookup_direct)
  with assms(2,6) show ?thesis by (simp add: lookup_def raw_lookup_with_alias_support_def)
qed

theorem alias_lookup_roundtrip_witness:
  "\<exists>tm'. add_type_alias ''int'' ''myint'' int_matcher = Some (Inr (), tm') \<and>
     lookup (\<lambda>t n. Inr None) tm' ''myint'' = Some (Inr (''IntParam'', None, plain_traits ''myint''))"
proof -
  have str: "ctype_str (tt_ctype (plain_traits n)) = n" for n
    by (simp add: plain_traits_def ctype_str_def Let_def)
  have add: "add_type_alias ''int'' ''myint'' int_matcher = Some (Inr (), add_alias_normalized ''int'' ''myint'' int_matcher)"
    by (simp add: add_type_alias_def TypeTraits_concrete str)
  have "tt_ctype_no_modifiers (plain_traits n) = tt_ctype (plain_traits n)" for n
    by (simp add: plain_traits_def Let_def)
  with alias_lookup_roundtrip [OF TypeTraits_concrete(2,3) add] add show ?thesis
    by (simp add: str int_matcher_def)
qed

text \<open>
  Aliases are not followed completely: of several aliases of a name only the first untried one
  is explored.  Here \<open>n\<close> is an alias of \<open>x\<close>, and \<open>y\<close> is an alias of \<open>n\<close>; \<open>y\<close> has a handler, the alias
  edges lead from \<open>n\<close> to \<open>y\<close>, and still the lookup of \<open>n\<close> fails with KeyError.
\<close>

theorem alias_lookup_incomplete:
  "(let tm = add_alias_normalized ''n'' ''y'' (add_alias_normalized ''x'' ''n''
       (TypeMatcher_init\<lparr>tm_types := [(''y'', ''YHandler'')]\<rparr>)) in
    (''n'', ''y'') \<in> alias_edges tm \<and> map_of (tm_types tm) ''y'' = Some ''YHandler'' \<and>
    raw_lookup_with_alias_support tm ''n'' = Inl (KeyError []))"
  by (simp add: alias_edges_def aliases_to_try_def add_alias_normalized_def TypeMatcher_init_def
      raw_lookup_with_alias_support_def raw_lookup.simps first_untried_def)

end
