(* ===== verification/Code_Sink.thy ===== *)
theory Code_Sink
  imports Py_String
begin

text \<open>
  \<open>pybindgen/typehandlers/codesink.py\<close>: the objects that receive generated lines, re-indent
  them and keep them in memory, write them to a file, or drop them.  The common state is the
  current indentation and the stack of the previous ones.  The interface that the generator
  relies on is the locale \<open>code_sink\<close>; it is interpreted for each of the three sinks.
\<close>

section \<open>State\<close>

record sink_state =
  indent_level :: int
  indent_stack :: "int list"

record memory_sink = sink_state +
  sink_lines :: "string list"

record file_sink = sink_state +
  sink_file :: string

definition CodeSink_init :: sink_state where
  "CodeSink_init = \<lparr>indent_level = 0, indent_stack = []\<rparr>"

definition MemoryCodeSink_init :: memory_sink where
  "MemoryCodeSink_init = \<lparr>indent_level = 0, indent_stack = [], sink_lines = []\<rparr>"

definition FileCodeSink_init :: "string \<Rightarrow> file_sink" where
  "FileCodeSink_init f = \<lparr>indent_level = 0, indent_stack = [], sink_file = f\<rparr>"

definition NullCodeSink_init :: sink_state where
  "NullCodeSink_init = CodeSink_init"

section \<open>Operations\<close>

text \<open>\<open>' ' * n\<close> is empty for \<open>n \<le> 0\<close>.\<close>

definition spaces :: "int \<Rightarrow> string" where
  "spaces n = replicate (nat n) (CHR '' '')"

definition format_code :: "int \<Rightarrow> string \<Rightarrow> string list" where
  "format_code level code = map (\<lambda>line. spaces level @ line) (split_on (CHR 0x0A) code)"

definition sink_indent :: "int \<Rightarrow> ('a sink_state_scheme) \<Rightarrow> 'a sink_state_scheme" where
  "sink_indent level s =
     s\<lparr>indent_stack := indent_stack s @ [indent_level s], indent_level := indent_level s + level\<rparr>"

definition sink_unindent :: "('a sink_state_scheme) \<Rightarrow> 'a sink_state_scheme res" where
  "sink_unindent s =
     (if indent_stack s = [] then Inl IndexError
      else Inr (s\<lparr>indent_level := last (indent_stack s), indent_stack := butlast (indent_stack s)\<rparr>))"

definition mem_writeln :: "string \<Rightarrow> memory_sink \<Rightarrow> memory_sink" where
  "mem_writeln line s = s\<lparr>sink_lines := sink_lines s @ format_code (indent_level s) line\<rparr>"

definition file_writeln :: "string \<Rightarrow> file_sink \<Rightarrow> file_sink" where
  "file_writeln line s =
     s\<lparr>sink_file := sink_file s @ join nl (format_code (indent_level s) line) @ nl\<rparr>"

definition null_writeln :: "string \<Rightarrow> sink_state \<Rightarrow> sink_state" where
  "null_writeln line s = s"

text \<open>\<open>flush_to\<close> is written once for every kind of target: the target's \<open>writeln\<close> is an argument.\<close>

definition mem_flush_to :: "(string \<Rightarrow> 't \<Rightarrow> 't) \<Rightarrow> memory_sink \<Rightarrow> 't \<Rightarrow> memory_sink \<times> 't" where
  "mem_flush_to writeln s sink =
     (s\<lparr>sink_lines := []\<rparr>, fold (\<lambda>line. writeln (rstrip line)) (sink_lines s) sink)"

definition mem_flush :: "memory_sink \<Rightarrow> string \<times> memory_sink" where
  "mem_flush s =
     (join nl (concat (map (format_code (indent_level s)) (sink_lines s))) @ nl,
      s\<lparr>sink_lines := []\<rparr>)"

definition null_flush_to :: "sink_state \<Rightarrow> 't \<Rightarrow> (sink_state \<times> 't) res" where
  "null_flush_to s sink = Inl (TypeError ''Cannot flush a NullCodeSink; it has no content!'')"

definition null_flush :: "sink_state \<Rightarrow> (string \<times> sink_state) res" where
  "null_flush s = Inl (TypeError ''Cannot flush a NullCodeSink; it has no content!'')"

section \<open>Invariant: no stored line contains a line break\<close>

definition mem_wf :: "memory_sink \<Rightarrow> bool" where
  "mem_wf s \<longleftrightarrow> list_all (\<lambda>l. CHR 0x0A \<notin> set l) (sink_lines s)"

lemma spaces_no_nl [simp]: "CHR 0x0A \<notin> set (spaces n)"
  by (simp add: spaces_def)

lemma spaces_0 [simp]: "spaces 0 = []"
  by (simp add: spaces_def)

lemma format_code_no_nl: "l \<in> set (format_code n code) \<Longrightarrow> CHR 0x0A \<notin> set l"
  by (auto simp: format_code_def dest: split_on_free)

lemma format_code_neq_Nil [simp]: "format_code n code \<noteq> []"
  by (simp add: format_code_def)

lemma format_code_line: "CHR 0x0A \<notin> set l \<Longrightarrow> format_code n l = [spaces n @ l]"
  by (simp add: format_code_def split_on_single)

lemma concat_format_lines:
  "(\<And>l. l \<in> set ls \<Longrightarrow> CHR 0x0A \<notin> set l) \<Longrightarrow>
   concat (map (format_code n) ls) = map (\<lambda>l. spaces n @ l) ls"
  by (induction ls) (simp_all add: format_code_line)

lemma mem_wf_init [simp]: "mem_wf MemoryCodeSink_init"
  by (simp add: mem_wf_def MemoryCodeSink_init_def)

lemma mem_wf_writeln [simp]: "mem_wf s \<Longrightarrow> mem_wf (mem_writeln line s)"
  by (auto simp: mem_wf_def mem_writeln_def list_all_iff dest: format_code_no_nl)

lemma mem_wf_indent [simp]: "mem_wf (sink_indent n s) = mem_wf s"
  by (simp add: mem_wf_def sink_indent_def)

lemma mem_wf_unindent: "sink_unindent s = Inr s' \<Longrightarrow> mem_wf s' = mem_wf s"
  by (auto simp: mem_wf_def sink_unindent_def split: if_splits)

section \<open>The interface of a sink\<close>

text \<open>
  \<open>text_of\<close> is the text that a list of finished lines stands for.  What the generator relies on:
  \<open>view\<close> is the text received so far; writing appends the lines of the argument, each indented
  by the current level; \<open>unindent\<close> undoes the latest \<open>indent\<close> and raises IndexError when there is
  none.  A sink may drop what it receives (\<open>keep\<close>).
\<close>

definition text_of :: "string list \<Rightarrow> string" where
  "text_of ls = concat (map (\<lambda>l. l @ nl) ls)"

lemma text_of_simps [simp]:
  "text_of [] = []"
  "text_of (l # ls) = l @ nl @ text_of ls"
  "text_of (ls @ ms) = text_of ls @ text_of ms"
  by (simp_all add: text_of_def)

lemma join_nl_text: "ls \<noteq> [] \<Longrightarrow> join nl ls @ nl = text_of ls"
  by (induction nl ls rule: join.induct) simp_all

locale code_sink =
  fixes writeln :: "string \<Rightarrow> 't \<Rightarrow> 't"
    and indent :: "int \<Rightarrow> 't \<Rightarrow> 't"
    and unindent :: "'t \<Rightarrow> 't res"
    and view :: "'t \<Rightarrow> string"
    and level :: "'t \<Rightarrow> int"
    and stack :: "'t \<Rightarrow> int list"
    and keep :: "string \<Rightarrow> string"
  assumes view_writeln: "view (writeln line t) = view t @ keep (text_of (format_code (level t) line))"
    and level_writeln: "level (writeln line t) = level t"
    and stack_writeln: "stack (writeln line t) = stack t"
    and view_indent: "view (indent n t) = view t"
    and level_indent: "level (indent n t) = level t + n"
    and stack_indent: "stack (indent n t) = stack t @ [level t]"
    and unindent_ok: "stack t \<noteq> [] \<Longrightarrow>
      \<exists>t'. unindent t = Inr t' \<and> view t' = view t \<and> level t' = last (stack t) \<and> stack t' = butlast (stack t)"
    and unindent_empty: "stack t = [] \<Longrightarrow> unindent t = Inl IndexError"
    and keep_append: "keep (x @ y) = keep x @ keep y"
begin

definition writes :: "string list \<Rightarrow> 't \<Rightarrow> 't" where
  "writes ls t = fold writeln ls t"

lemma writes_simps [simp]:
  "writes [] t = t"
  "writes (l # ls) t = writes ls (writeln l t)"
  by (simp_all add: writes_def)

lemma keep_Nil: "keep [] = []"
  using keep_append [of "[]" "[]"] by simp

lemma level_writes: "level (writes ls t) = level t"
  by (induction ls arbitrary: t) (simp_all add: level_writeln)

lemma stack_writes: "stack (writes ls t) = stack t"
  by (induction ls arbitrary: t) (simp_all add: stack_writeln)

lemma view_writes:
  "view (writes ls t) = view t @ keep (text_of (concat (map (format_code (level t)) ls)))"
  by (induction ls arbitrary: t) (simp_all add: view_writeln level_writeln keep_append keep_Nil)

text \<open>An indented block: the level is back where it was, and every line is indented by \<open>n\<close> more.\<close>

lemma indented_block:
  "\<exists>t'. unindent (writes ls (indent n t)) = Inr t' \<and> level t' = level t \<and> stack t' = stack t \<and>
     view t' = view t @ keep (text_of (concat (map (format_code (level t + n)) ls)))"
  using unindent_ok [of "writes ls (indent n t)"]
  by (auto simp: stack_writes stack_indent view_writes level_indent view_indent)

text \<open>Flushing a memory sink into this one: right-stripped lines, indented by the target's level.\<close>

lemma view_flush_to:
  assumes "mem_wf s"
  shows "view (snd (mem_flush_to writeln s t)) =
    view t @ keep (text_of (map (\<lambda>l. spaces (level t) @ rstrip l) (sink_lines s)))"
proof -
  have wf: "CHR 0x0A \<notin> set (rstrip l)" if "l \<in> set (sink_lines s)" for l
    using that assms set_rstrip [of l] by (auto simp: mem_wf_def list_all_iff)
  have "fold (\<lambda>line. writeln (rstrip line)) ls t = writes (map rstrip ls) t" for ls
    by (induction ls arbitrary: t) simp_all
  moreover have "concat (map (format_code n) (map rstrip (sink_lines s))) =
      map (\<lambda>l. spaces n @ l) (map rstrip (sink_lines s))" for n
    by (rule concat_format_lines) (auto dest: wf)
  ultimately show ?thesis
    by (simp add: mem_flush_to_def view_writes o_def)
qed

end

section \<open>The three sinks implement the interface\<close>

lemma sink_indent_sel [simp]:
  "indent_level (sink_indent n s) = indent_level s + n"
  "indent_stack (sink_indent n s) = indent_stack s @ [indent_level s]"
  by (simp_all add: sink_indent_def)

lemma sink_unindent_ok: "indent_stack s \<noteq> [] \<Longrightarrow>
   sink_unindent s = Inr (s\<lparr>indent_level := last (indent_stack s), indent_stack := butlast (indent_stack s)\<rparr>)"
  by (simp add: sink_unindent_def)

lemma sink_unindent_indent [simp]: "sink_unindent (sink_indent n s) = Inr s"
  by (simp add: sink_unindent_def sink_indent_def)

interpretation mem_sink: code_sink mem_writeln sink_indent sink_unindent
  "\<lambda>s. text_of (sink_lines s)" indent_level indent_stack "\<lambda>x. x"
  by unfold_locales
    (auto simp: mem_writeln_def sink_indent_def sink_unindent_def)

interpretation fil_sink: code_sink file_writeln sink_indent sink_unindent
  sink_file indent_level indent_stack "\<lambda>x. x"
  by unfold_locales
    (auto simp: file_writeln_def sink_indent_def sink_unindent_def join_nl_text)

interpretation nul_sink: code_sink null_writeln sink_indent sink_unindent
  "\<lambda>s. []" indent_level indent_stack "\<lambda>x. []"
  by unfold_locales (auto simp: null_writeln_def sink_indent_def sink_unindent_def)

section \<open>Properties\<close>

lemma rstrip_spaces_append:
  "rstrip (spaces n @ l) = (if rstrip l = [] then [] else spaces n @ rstrip l)"
proof -
  have sp: "dropWhile isspace_char (rev (spaces n)) = []"
    by (auto simp: spaces_def isspace_char_def dropWhile_eq_Nil_conv)
  show ?thesis
  proof (cases "rstrip l = []")
    case True
    then have "\<forall>x \<in> set (rev l). isspace_char x"
      by (simp add: rstrip_def dropWhile_eq_Nil_conv)
    with True sp show ?thesis by (auto simp: rstrip_def dropWhile_eq_Nil_conv)
  next
    case False
    then obtain x where "x \<in> set (rev l)" "\<not> isspace_char x"
      by (auto simp: rstrip_def dropWhile_eq_Nil_conv)
    with False show ?thesis by (auto simp: rstrip_def dropWhile_append1)
  qed
qed

text \<open>
  C27. What a memory sink holds reaches the file unchanged but for the right-stripping and for the
  target's indentation, in order, and the memory sink is left empty.
\<close>

theorem flush_to_file:
  assumes "mem_wf s"
  shows "sink_file (snd (mem_flush_to file_writeln s f)) =
      sink_file f @ text_of (map (\<lambda>l. spaces (indent_level f) @ rstrip l) (sink_lines s)) \<and>
    sink_lines (fst (mem_flush_to file_writeln s f)) = []"
  using fil_sink.view_flush_to [OF assms, of f] by (simp add: mem_flush_to_def)

theorem flush_to_file_witness:
  "let s = mem_writeln ''a;'' MemoryCodeSink_init; f = FileCodeSink_init ''x'' in
   mem_wf s \<and> sink_file (snd (mem_flush_to file_writeln s f)) = ''x'' @ ''a;'' @ nl"
proof -
  have "mem_wf (mem_writeln ''a;'' MemoryCodeSink_init)" by simp
  from flush_to_file [OF this, of "FileCodeSink_init ''x''"] this show ?thesis
    by (simp add: Let_def FileCodeSink_init_def mem_writeln_def MemoryCodeSink_init_def
        format_code_def rstrip_def isspace_char_def)
qed

text \<open>
  Round trip: code written to a fresh memory sink is returned by \<open>flush\<close> as it was given,
  with one line break at the end.
\<close>

theorem writeln_flush_roundtrip:
  "fst (mem_flush (mem_writeln code MemoryCodeSink_init)) = code @ nl"
proof -
  have "concat (map (format_code 0) (split_on (CHR 0x0A) code)) =
      map (\<lambda>l. spaces 0 @ l) (split_on (CHR 0x0A) code)"
    by (rule concat_format_lines) (auto dest: split_on_free)
  then show ?thesis
    by (simp add: mem_flush_def mem_writeln_def MemoryCodeSink_init_def format_code_def [of 0 code] nl_def)
qed

text \<open>
  Two stages add their indentations: flushing through a memory sink at level \<open>n\<close> and then to
  a file at level \<open>m\<close> indents every non-blank line by \<open>n + m\<close>; blank lines come out at \<open>m\<close> only.
\<close>

theorem flush_two_stages:
  assumes "mem_wf s" and "0 \<le> n" and "0 \<le> indent_level f"
  shows "sink_file (snd (mem_flush_to file_writeln
           (snd (mem_flush_to mem_writeln s (sink_indent n MemoryCodeSink_init))) f)) =
    sink_file f @ text_of (map (\<lambda>l. if rstrip l = [] then spaces (indent_level f)
                                    else spaces (indent_level f + n) @ rstrip l) (sink_lines s))"
proof -
  let ?t = "snd (mem_flush_to mem_writeln s (sink_indent n MemoryCodeSink_init))"
  have no_nl: "CHR 0x0A \<notin> set (rstrip l)" if "l \<in> set (sink_lines s)" for l
    using that assms(1) set_rstrip [of l] by (auto simp: mem_wf_def list_all_iff)
  have fold: "fold (\<lambda>line. mem_writeln (rstrip line)) ls t =
      t\<lparr>sink_lines := sink_lines t @ map (\<lambda>l. spaces (indent_level t) @ rstrip l) ls\<rparr>"
    if "\<forall>l \<in> set ls. CHR 0x0A \<notin> set (rstrip l)" for ls and t :: memory_sink
    using that
    by (induction ls arbitrary: t) (simp_all add: mem_writeln_def format_code_line)
  then have t: "sink_lines ?t = map (\<lambda>l. spaces n @ rstrip l) (sink_lines s)"
    using no_nl by (simp add: mem_flush_to_def sink_indent_def MemoryCodeSink_init_def)
  then have "mem_wf ?t"
    using no_nl by (auto simp: mem_wf_def list_all_iff)
  note out = fil_sink.view_flush_to [OF this, of f]
  have add: "spaces (indent_level f + n) = spaces (indent_level f) @ spaces n"
    using assms(2,3) by (simp add: spaces_def nat_add_distrib replicate_add)
  show ?thesis
    unfolding out t add
    by (simp add: o_def rstrip_spaces_append if_distrib [of "(@) (spaces (indent_level f))"] cong: if_cong)
qed

theorem flush_two_stages_witness:
  "let s = mem_writeln ''a;'' MemoryCodeSink_init; f = sink_indent 2 (FileCodeSink_init []) in
   mem_wf s \<and> (0::int) \<le> 4 \<and> 0 \<le> indent_level f \<and>
   sink_file (snd (mem_flush_to file_writeln
     (snd (mem_flush_to mem_writeln s (sink_indent 4 MemoryCodeSink_init))) f)) = ''      a;'' @ nl"
proof -
  have h: "mem_wf (mem_writeln ''a;'' MemoryCodeSink_init)" "(0::int) \<le> 4"
    "0 \<le> indent_level (sink_indent 2 (FileCodeSink_init []))"
    by (simp_all add: FileCodeSink_init_def)
  from flush_two_stages [OF h] h show ?thesis
    by (simp add: Let_def FileCodeSink_init_def mem_writeln_def MemoryCodeSink_init_def
        format_code_def rstrip_def isspace_char_def sink_indent_def spaces_def eval_nat_numeral)
qed

end
