(* ===== verification/Code_Block.thy ===== *)
theory Code_Block
  imports Code_Sink
begin

text \<open>
  The first half of \<open>pybindgen/typehandlers/base.py\<close>: joining a C type and a name,
  \<open>CodeBlock\<close> with its cleanup actions, and \<open>DeclarationsScope\<close>, which makes variable names
  unique.  A block's predecessor is a shared object in the source; here the chain of
  predecessors, nearest first, is an argument of the operations that read it.
\<close>

section \<open>Joining a C type and a variable name\<close>

definition join_ctype_and_name :: "string \<Rightarrow> string \<Rightarrow> string res" where
  "join_ctype_and_name ctype name =
     (if ctype = [] then Inl IndexError
      else if last ctype = CHR ''*'' then
        (let stars = takeWhile (\<lambda>c. c = CHR ''*'') (rev ctype);
             base = rev (dropWhile (\<lambda>c. c = CHR ''*'') (rev ctype))
         in if base = [] then Inl (ValueError ctype)
            else if last base = CHR '' '' then Inr (ctype @ name)
            else Inr (base @ '' '' @ stars @ name))
      else Inr (ctype @ '' '' @ name))"

lemma join_ctype_and_name_InrI:
  "ctype \<noteq> [] \<Longrightarrow> last ctype \<noteq> CHR ''*'' \<Longrightarrow> join_ctype_and_name ctype name = Inr (ctype @ '' '' @ name)"
  by (simp add: join_ctype_and_name_def)

lemma join_ctype_and_name_total:
  assumes "c \<in> set ctype" and "c \<noteq> CHR ''*''"
  shows "\<exists>d. join_ctype_and_name ctype name = Inr d"
proof -
  have "ctype \<noteq> []" "dropWhile (\<lambda>c. c = CHR ''*'') (rev ctype) \<noteq> []"
    using assms by (auto simp: dropWhile_eq_Nil_conv)
  then show ?thesis by (simp add: join_ctype_and_name_def Let_def)
qed

section \<open>Declarations\<close>

record scope =
  sc_sink :: memory_sink
  sc_vars :: "string \<Rightarrow> nat option"

definition DeclarationsScope_init :: scope where
  "DeclarationsScope_init = \<lparr>sc_sink = MemoryCodeSink_init, sc_vars = Map.empty\<rparr>"

definition scope_clear :: "scope \<Rightarrow> scope" where
  "scope_clear sc = sc\<lparr>sc_sink := MemoryCodeSink_init, sc_vars := Map.empty\<rparr>"

definition var_name :: "string \<Rightarrow> nat \<Rightarrow> string" where
  "var_name name num = (if num = 1 then name else name @ str_of_nat num)"

definition next_num :: "scope \<Rightarrow> string \<Rightarrow> nat" where
  "next_num sc name = (case sc_vars sc name of None \<Rightarrow> 0 | Some n \<Rightarrow> n) + 1"

definition reserve_variable :: "string \<Rightarrow> scope \<Rightarrow> string \<times> scope" where
  "reserve_variable name sc =
     (let num = next_num sc name
      in (var_name name num, sc\<lparr>sc_vars := (sc_vars sc)(name \<mapsto> num)\<rparr>))"

text \<open>\<open>decl + array\<close> and \<open>decl + ' = ' + initializer\<close>; only strings can be added to a string.\<close>

definition add_initializer :: "string \<Rightarrow> pyval \<Rightarrow> string res" where
  "add_initializer decl init =
     (case init of PyNone \<Rightarrow> Inr decl | PyStr v \<Rightarrow> Inr (decl @ '' = '' @ v)
      | _ \<Rightarrow> Inl (TypeError ''cannot concatenate''))"

definition declare_variable ::
  "string \<Rightarrow> string \<Rightarrow> pyval \<Rightarrow> string option \<Rightarrow> (scope, string) py" where
  "declare_variable ctype name init array =
     bnd (gets (\<lambda>sc. var_name name (next_num sc name))) (\<lambda>varname.
     bnd (upd (\<lambda>sc. sc\<lparr>sc_vars := (sc_vars sc)(name \<mapsto> next_num sc name)\<rparr>)) (\<lambda>_.
     bnd (lift_res (join_ctype_and_name ctype varname)) (\<lambda>decl.
     bnd (lift_res (add_initializer (decl @ (case array of None \<Rightarrow> [] | Some a \<Rightarrow> a)) init)) (\<lambda>decl2.
     bnd (upd (\<lambda>sc. sc\<lparr>sc_sink := mem_writeln (decl2 @ '';'') (sc_sink sc)\<rparr>)) (\<lambda>_.
     ret varname)))))"

subsection \<open>Names are unique\<close>

text \<open>
  The names handed out so far, and the invariant that ties them to the counters.
\<close>

definition handed_out :: "scope \<Rightarrow> string set" where
  "handed_out sc = {var_name b n | b n m. sc_vars sc b = Some m \<and> 1 \<le> n \<and> n \<le> m}"

definition plain_base :: "string \<Rightarrow> bool" where
  "plain_base b \<longleftrightarrow> b = [] \<or> \<not> isdigit_char (last b)"

definition plain_scope :: "scope \<Rightarrow> bool" where
  "plain_scope sc \<longleftrightarrow> (\<forall>b \<in> dom (sc_vars sc). plain_base b)"

lemma plain_base_strip:
  assumes "plain_base b" and "list_all isdigit_char ds"
  shows "dropWhile isdigit_char (rev (b @ ds)) = rev b \<and> takeWhile isdigit_char (rev (b @ ds)) = rev ds"
proof -
  have "list_all isdigit_char (rev ds)" using assms(2) by (simp add: list_all_iff)
  moreover have "dropWhile isdigit_char (rev b) = rev b \<and> takeWhile isdigit_char (rev b) = []"
    using assms(1) by (cases b rule: rev_cases) (auto simp: plain_base_def)
  ultimately show ?thesis by (simp add: dropWhile_prefix)
qed

lemma var_name_inj:
  assumes "plain_base a" and "plain_base b" and "1 \<le> m" and "1 \<le> n"
    and eq: "var_name a m = var_name b n"
  shows "a = b \<and> m = n"
proof -
  define sfx where "sfx k = (if k = 1 then [] else str_of_nat k)" for k :: nat
  have digits: "list_all isdigit_char (sfx k)" for k
    by (simp add: sfx_def str_of_nat_digits)
  have inj: "sfx m = sfx n \<Longrightarrow> m = n"
    by (auto simp: sfx_def str_of_nat_inj split: if_splits)
  have "a @ sfx m = b @ sfx n"
    using eq by (simp add: var_name_def sfx_def split: if_splits)
  then have "rev a = rev b \<and> rev (sfx m) = rev (sfx n)"
    using plain_base_strip [OF assms(1) digits [of m]] plain_base_strip [OF assms(2) digits [of n]] by simp
  with inj show ?thesis by simp
qed

lemma reserve_variable_fresh:
  assumes "plain_scope sc" and "plain_base name" and "reserve_variable name sc = (v, sc')"
  shows "v \<notin> handed_out sc \<and> handed_out sc' = insert v (handed_out sc) \<and> plain_scope sc'"
proof -
  let ?n = "next_num sc name"
  have v: "v = var_name name ?n" and sc': "sc_vars sc' = (sc_vars sc)(name \<mapsto> ?n)"
    using assms(3) by (auto simp: reserve_variable_def Let_def)
  have "v \<notin> handed_out sc"
  proof
    assume "v \<in> handed_out sc"
    then obtain b k m where b: "v = var_name b k" "sc_vars sc b = Some m" "1 \<le> k" "k \<le> m"
      by (auto simp: handed_out_def)
    have pb: "plain_base b" using assms(1) b(2) by (auto simp: plain_scope_def)
    have "1 \<le> ?n" by (simp add: next_num_def)
    from var_name_inj [OF assms(2) pb this b(3)] have "name = b \<and> ?n = k" using b(1) v by metis
    with b show False by (auto simp: next_num_def)
  qed
  moreover have "handed_out sc' = insert v (handed_out sc)"
  proof -
    have "1 \<le> k \<and> k \<le> ?n \<longleftrightarrow> k = ?n \<or> (\<exists>m. sc_vars sc name = Some m \<and> 1 \<le> k \<and> k \<le> m)" for k
      by (auto simp: next_num_def split: option.splits)
    then show ?thesis
      unfolding handed_out_def sc' v by (auto split: if_splits) metis
  qed
  moreover have "plain_scope sc'"
    using assms(1,2) by (auto simp: plain_scope_def sc')
  ultimately show ?thesis by simp
qed

lemma declare_variable_vars:
  "sc_vars (snd (declare_variable ctype name init array sc)) = (sc_vars sc)(name \<mapsto> next_num sc name)"
  by (cases "join_ctype_and_name ctype (var_name name (next_num sc name))")
     (auto simp: declare_variable_def add_initializer_def split: pyval.splits)

lemma declare_variable_value:
  "fst (declare_variable ctype name init array sc) = Inr v \<Longrightarrow> v = var_name name (next_num sc name)"
  by (cases "join_ctype_and_name ctype (var_name name (next_num sc name))")
     (auto simp: declare_variable_def add_initializer_def split: pyval.splits)

text \<open>A run of declarations, as the type handlers make them one after the other.\<close>

type_synonym var_decl = "string \<times> string \<times> pyval \<times> string option"

fun declare_all :: "var_decl list \<Rightarrow> (scope, string list) py" where
  "declare_all [] = ret []"
| "declare_all ((ctype, name, init, array) # ds) =
     bnd (declare_variable ctype name init array) (\<lambda>v. bnd (declare_all ds) (\<lambda>vs. ret (v # vs)))"

lemma declare_variable_fresh:
  assumes "plain_scope sc" and "plain_base name" and "declare_variable ctype name init array sc = (Inr v, sc')"
  shows "v \<notin> handed_out sc \<and> handed_out sc' = insert v (handed_out sc) \<and> plain_scope sc'"
proof -
  let ?r = "snd (reserve_variable name sc)"
  have v: "v = var_name name (next_num sc name)" using declare_variable_value assms(3) by (metis fst_conv)
  have "sc_vars sc' = sc_vars ?r"
    using declare_variable_vars [of ctype name init array sc] assms(3)
    by (simp add: reserve_variable_def Let_def)
  then have "handed_out sc' = handed_out ?r" "plain_scope sc' = plain_scope ?r"
    by (simp_all add: handed_out_def plain_scope_def)
  with reserve_variable_fresh [OF assms(1,2), of v ?r] v show ?thesis
    by (simp add: reserve_variable_def Let_def)
qed

lemma declare_all_fresh:
  "declare_all ds sc = (Inr vs, sc') \<Longrightarrow> plain_scope sc \<Longrightarrow>
   list_all (\<lambda>(ctype, name, init, array). plain_base name) ds \<Longrightarrow>
   distinct vs \<and> set vs \<inter> handed_out sc = {} \<and> handed_out sc' = handed_out sc \<union> set vs \<and> plain_scope sc'"
proof (induction ds arbitrary: sc vs rule: declare_all.induct)
  case (2 ctype name init array ds)
  from 2(2) obtain v sc1 ws where d: "declare_variable ctype name init array sc = (Inr v, sc1)"
      "declare_all ds sc1 = (Inr ws, sc')" "vs = v # ws"
    by (auto elim!: bnd_eq_InrE)
  from declare_variable_fresh [OF 2(3) _ d(1)] 2(4)
  have one: "v \<notin> handed_out sc" "handed_out sc1 = insert v (handed_out sc)" "plain_scope sc1" by auto
  from 2(1) [OF d(2) one(3)] 2(4) one d(3) show ?case by auto
qed simp

section \<open>Code blocks\<close>

record code_block =
  cb_sink :: memory_sink
  cb_cleanup :: "(nat \<times> string) list"
  cb_last :: nat
  cb_error_return :: string

definition CodeBlock_init :: "string \<Rightarrow> code_block" where
  "CodeBlock_init error_return =
     \<lparr>cb_sink = MemoryCodeSink_init, cb_cleanup = [], cb_last = 0, cb_error_return = error_return\<rparr>"

definition cb_clear :: "(code_block, unit) py" where
  "cb_clear = upd (\<lambda>cb. cb\<lparr>cb_cleanup := [], cb_last := 0, cb_sink := MemoryCodeSink_init\<rparr>)"

text \<open>\<open>CodeBlock.declare_variable\<close> works on the scope that the block shares with its siblings.\<close>

definition cb_declare_variable ::
  "string \<Rightarrow> string \<Rightarrow> pyval \<Rightarrow> string option \<Rightarrow> (scope, string) py" where
  "cb_declare_variable ctype name init array =
     (if CHR '':'' \<in> set name then raise_py (ValueError (''invalid variable name: '' @ name @ '' ''))
      else declare_variable ctype name init array)"

definition cb_write_code :: "string \<Rightarrow> (code_block, unit) py" where
  "cb_write_code code = upd (\<lambda>cb. cb\<lparr>cb_sink := mem_writeln code (cb_sink cb)\<rparr>)"

definition cb_indent :: "int \<Rightarrow> (code_block, unit) py" where
  "cb_indent level = upd (\<lambda>cb. cb\<lparr>cb_sink := sink_indent level (cb_sink cb)\<rparr>)"

definition cb_unindent :: "(code_block, unit) py" where
  "cb_unindent =
     bnd (gets (\<lambda>cb. sink_unindent (cb_sink cb))) (\<lambda>r.
     bnd (lift_res r) (\<lambda>snk. upd (\<lambda>cb. cb\<lparr>cb_sink := snk\<rparr>)))"

text \<open>A handle is the position of the action in the dictionary of its block.\<close>

definition add_cleanup_code :: "string \<Rightarrow> (code_block, nat) py" where
  "add_cleanup_code code =
     bnd (upd (\<lambda>cb. cb\<lparr>cb_last := cb_last cb + 1\<rparr>)) (\<lambda>_.
     bnd (gets cb_last) (\<lambda>pos.
     bnd (upd (\<lambda>cb. cb\<lparr>cb_cleanup := AList.update pos code (cb_cleanup cb)\<rparr>)) (\<lambda>_.
     ret pos)))"

definition remove_cleanup_code :: "nat \<Rightarrow> (code_block, unit) py" where
  "remove_cleanup_code handle =
     bnd (gets cb_cleanup) (\<lambda>actions.
       if map_of actions handle = None then raise_py (KeyError (str_of_nat handle))
       else upd (\<lambda>cb. cb\<lparr>cb_cleanup := AList.delete handle actions\<rparr>))"

definition block_cleanup :: "code_block \<Rightarrow> string list" where
  "block_cleanup cb = rev (map snd (sort_key fst (cb_cleanup cb)))"

text \<open>The list is the block followed by its chain of predecessors, nearest first.\<close>

primrec get_cleanup_code :: "code_block list \<Rightarrow> string list" where
  "get_cleanup_code [] = []"
| "get_cleanup_code (cb # preds) = block_cleanup cb @ get_cleanup_code preds"

definition write_cleanup :: "code_block list \<Rightarrow> (code_block, unit) py" where
  "write_cleanup preds =
     bnd (gets (\<lambda>cb. get_cleanup_code (cb # preds))) (\<lambda>actions. for_each cb_write_code actions)"

definition write_error_return :: "code_block list \<Rightarrow> (code_block, unit) py" where
  "write_error_return preds =
     bnd (write_cleanup preds) (\<lambda>_. bnd (gets cb_error_return) cb_write_code)"

definition write_error_check :: "code_block list \<Rightarrow> string \<Rightarrow> string option \<Rightarrow> (code_block, unit) py" where
  "write_error_check preds failure_expression failure_cleanup = seqs [
     cb_write_code (''if ('' @ failure_expression @ '') {''),
     cb_indent 4,
     (case failure_cleanup of None \<Rightarrow> ret () | Some code \<Rightarrow> cb_write_code code),
     write_error_return preds,
     cb_unindent,
     cb_write_code ''}'']"

lemma cb_write_code_run [simp]:
  "cb_write_code code cb = (Inr (), cb\<lparr>cb_sink := mem_writeln code (cb_sink cb)\<rparr>)"
  by (simp add: cb_write_code_def)

lemma cb_indent_run [simp]:
  "cb_indent n cb = (Inr (), cb\<lparr>cb_sink := sink_indent n (cb_sink cb)\<rparr>)"
  by (simp add: cb_indent_def)

lemma for_each_write_code:
  "for_each cb_write_code ls cb = (Inr (), cb\<lparr>cb_sink := mem_sink.writes ls (cb_sink cb)\<rparr>)"
  by (induction ls arbitrary: cb) simp_all

lemma write_cleanup_run [simp]:
  "write_cleanup preds cb =
     (Inr (), cb\<lparr>cb_sink := mem_sink.writes (get_cleanup_code (cb # preds)) (cb_sink cb)\<rparr>)"
  by (simp add: write_cleanup_def for_each_write_code)

lemma writes_snoc: "mem_writeln l (mem_sink.writes ls s) = mem_sink.writes (ls @ [l]) s"
  by (simp add: mem_sink.writes_def)

lemma write_error_return_run [simp]:
  "write_error_return preds cb =
     (Inr (), cb\<lparr>cb_sink := mem_sink.writes (get_cleanup_code (cb # preds) @ [cb_error_return cb]) (cb_sink cb)\<rparr>)"
  by (simp add: write_error_return_def writes_snoc)

lemma block_cleanup_sink [simp]: "block_cleanup (cb\<lparr>cb_sink := s\<rparr>) = block_cleanup cb"
  by (simp add: block_cleanup_def)

lemma writes_lines:
  "mem_sink.writes ls s = s\<lparr>sink_lines := sink_lines s @ concat (map (format_code (indent_level s)) ls)\<rparr>"
  by (induction ls arbitrary: s) (simp_all add: mem_writeln_def)

text \<open>The lines that an error check adds to a block.\<close>

definition error_check_lines :: "int \<Rightarrow> string \<Rightarrow> string option \<Rightarrow> string list \<Rightarrow> string \<Rightarrow> string list" where
  "error_check_lines n expr failure cleanup error_return =
     format_code n (''if ('' @ expr @ '') {'') @
     concat (map (format_code (n + 4)) ((case failure of None \<Rightarrow> [] | Some c \<Rightarrow> [c]) @ cleanup @ [error_return])) @
     format_code n ''}''"

lemma write_error_check_run:
  "write_error_check preds expr failure cb =
     (Inr (), cb\<lparr>cb_sink := (cb_sink cb)\<lparr>sink_lines := sink_lines (cb_sink cb) @
        error_check_lines (indent_level (cb_sink cb)) expr failure
          (get_cleanup_code (cb # preds)) (cb_error_return cb)\<rparr>\<rparr>)"
  by (cases failure)
     (simp_all add: write_error_check_def cb_unindent_def writes_lines mem_writeln_def sink_indent_def
        sink_unindent_def error_check_lines_def)

section \<open>The cleanup actions as a stack\<close>

text \<open>
  What the type handlers rely on: an action is pending from its registration until it is cancelled
  through its handle; a new handle is never one that is still pending; the pending actions are
  listed newest first; cancelling a handle that is not pending raises KeyError and changes nothing.
\<close>

locale cleanup_stack =
  fixes add :: "string \<Rightarrow> 's \<Rightarrow> nat res \<times> 's"
    and cancel :: "nat \<Rightarrow> 's \<Rightarrow> unit res \<times> 's"
    and pending :: "'s \<Rightarrow> (nat \<times> string) list"
    and inv :: "'s \<Rightarrow> bool"
  assumes add_ok: "inv s \<Longrightarrow> \<exists>h s'. add code s = (Inr h, s') \<and> inv s' \<and>
      pending s' = (h, code) # pending s \<and> h \<notin> fst ` set (pending s)"
    and cancel_ok: "inv s \<Longrightarrow> h \<in> fst ` set (pending s) \<Longrightarrow>
      \<exists>s'. cancel h s = (Inr (), s') \<and> inv s' \<and> pending s' = filter (\<lambda>(k, _). k \<noteq> h) (pending s)"
    and cancel_missing: "inv s \<Longrightarrow> h \<notin> fst ` set (pending s) \<Longrightarrow>
      \<exists>msg. cancel h s = (Inl (KeyError msg), s)"
begin

lemma add_cancel:
  assumes "inv s"
  shows "\<exists>h s1 s2. add code s = (Inr h, s1) \<and> cancel h s1 = (Inr (), s2) \<and> inv s2 \<and> pending s2 = pending s"
proof -
  obtain h s1 where a: "add code s = (Inr h, s1)" "inv s1" "pending s1 = (h, code) # pending s"
      "h \<notin> fst ` set (pending s)"
    using add_ok [OF assms] by blast
  then obtain s2 where c: "cancel h s1 = (Inr (), s2)" "inv s2"
      "pending s2 = filter (\<lambda>(k, _). k \<noteq> h) (pending s1)"
    using cancel_ok [of s1 h] by auto
  have "filter (\<lambda>(k, _). k \<noteq> h) (pending s) = pending s"
    using a(4) by (auto simp: filter_id_conv image_iff)
  with a c show ?thesis by auto
qed

lemma double_cancel:
  assumes "inv s" and "cancel h s = (Inr (), s1)"
  shows "\<exists>msg. cancel h s1 = (Inl (KeyError msg), s1)"
proof -
  have "h \<in> fst ` set (pending s)" using cancel_missing [OF assms(1)] assms(2) by fastforce
  from cancel_ok [OF assms(1) this] assms(2) have "inv s1" "h \<notin> fst ` set (pending s1)" by auto
  then show ?thesis by (rule cancel_missing)
qed

text \<open>Registering a sequence of actions lists them in reverse.\<close>

lemma add_seq:
  assumes "inv s"
  shows "\<exists>s'. for_each (\<lambda>c. bnd (add c) (\<lambda>_. ret ())) cs s = (Inr (), s') \<and> inv s' \<and>
     map snd (pending s') = rev cs @ map snd (pending s)"
  using assms
proof (induction cs arbitrary: s)
  case (Cons c cs)
  obtain h s1 where "add c s = (Inr h, s1)" "inv s1" "pending s1 = (h, c) # pending s"
    using add_ok [OF Cons.prems] by blast
  with Cons.IH [of s1] show ?case by simp
qed simp

end

definition cb_pending :: "code_block \<Rightarrow> (nat \<times> string) list" where
  "cb_pending cb = rev (sort_key fst (cb_cleanup cb))"

definition cb_inv :: "code_block \<Rightarrow> bool" where
  "cb_inv cb \<longleftrightarrow> distinct (map fst (cb_cleanup cb)) \<and> list_all (\<lambda>(k, _). k \<le> cb_last cb) (cb_cleanup cb)"

lemma block_cleanup_pending: "block_cleanup cb = map snd (cb_pending cb)"
  by (simp add: block_cleanup_def cb_pending_def rev_map)

lemma set_cb_pending [simp]: "set (cb_pending cb) = set (cb_cleanup cb)"
  by (simp add: cb_pending_def)

lemma update_new: "k \<notin> fst ` set al \<Longrightarrow> AList.update k v al = al @ [(k, v)]"
  by (induction al) auto

lemma delete_filter: "AList.delete k al = filter (\<lambda>(k', _). k' \<noteq> k) al"
  by (induction al) auto

lemma insort_key_snoc: "f a \<le> f x \<Longrightarrow> insort_key f a (xs @ [x]) = insort_key f a xs @ [x]"
  by (induction xs) auto

lemma sort_key_snoc_max:
  "(\<And>y. y \<in> set xs \<Longrightarrow> f y \<le> f x) \<Longrightarrow> sort_key f (xs @ [x]) = sort_key f xs @ [x]"
  by (induction xs) (simp_all add: insort_key_snoc)

lemma cb_inv_init [simp]: "cb_inv (CodeBlock_init e)"
  by (simp add: cb_inv_def CodeBlock_init_def)

lemma block_cleanup_init: "block_cleanup (CodeBlock_init e) = []"
  by (simp add: block_cleanup_def CodeBlock_init_def)

lemma cb_inv_new: "cb_inv cb \<Longrightarrow> k \<in> fst ` set (cb_cleanup cb) \<Longrightarrow> k \<le> cb_last cb"
  by (auto simp: cb_inv_def list_all_iff)

lemma add_cleanup_code_run:
  assumes "cb_inv cb"
  shows "add_cleanup_code code cb =
     (Inr (cb_last cb + 1), cb\<lparr>cb_last := cb_last cb + 1, cb_cleanup := cb_cleanup cb @ [(cb_last cb + 1, code)]\<rparr>)"
proof -
  have "cb_last cb + 1 \<notin> fst ` set (cb_cleanup cb)" using cb_inv_new [OF assms] by fastforce
  then show ?thesis by (simp add: add_cleanup_code_def update_new)
qed

interpretation cb: cleanup_stack add_cleanup_code remove_cleanup_code cb_pending cb_inv
proof unfold_locales
  fix code :: string and s :: code_block
  assume i: "cb_inv s"
  let ?h = "cb_last s + 1"
  have new: "?h \<notin> fst ` set (cb_cleanup s)" using cb_inv_new [OF i] by fastforce
  have "sort_key fst (cb_cleanup s @ [(?h, code)]) = sort_key fst (cb_cleanup s) @ [(?h, code)]"
    using cb_inv_new [OF i] by (intro sort_key_snoc_max) fastforce
  moreover have "cb_inv (s\<lparr>cb_last := ?h, cb_cleanup := cb_cleanup s @ [(?h, code)]\<rparr>)"
    using i new by (auto simp: cb_inv_def list_all_iff)
  ultimately show "\<exists>h s'. add_cleanup_code code s = (Inr h, s') \<and> cb_inv s' \<and>
      cb_pending s' = (h, code) # cb_pending s \<and> h \<notin> fst ` set (cb_pending s)"
    using i new by (simp add: add_cleanup_code_run cb_pending_def)
next
  fix h and s :: code_block
  assume i: "cb_inv s" and h: "h \<in> fst ` set (cb_pending s)"
  have "cb_inv (s\<lparr>cb_cleanup := AList.delete h (cb_cleanup s)\<rparr>)"
    using i by (auto simp: cb_inv_def list_all_iff delete_filter distinct_map inj_on_def)
  with h show "\<exists>s'. remove_cleanup_code h s = (Inr (), s') \<and> cb_inv s' \<and>
      cb_pending s' = filter (\<lambda>(k, _). k \<noteq> h) (cb_pending s)"
    by (simp add: remove_cleanup_code_def map_of_eq_None_iff cb_pending_def delete_filter filter_sort [symmetric] rev_filter)
next
  fix h and s :: code_block
  assume "cb_inv s" and "h \<notin> fst ` set (cb_pending s)"
  then show "\<exists>msg. remove_cleanup_code h s = (Inl (KeyError msg), s)"
    by (simp add: remove_cleanup_code_def map_of_eq_None_iff)
qed

section \<open>Properties\<close>

text \<open>
  C30. Variables declared one after the other in a scope all get different names, different from
  every name handed out before, provided no base name ends in a digit.  The base names of the
  built-in type handlers satisfy this; the names of C parameters need not.
\<close>

theorem declared_names_distinct:
  assumes "declare_all ds sc = (Inr vs, sc')"
    and "plain_scope sc" and "list_all (\<lambda>(ctype, name, init, array). plain_base name) ds"
  shows "distinct vs \<and> set vs \<inter> handed_out sc = {} \<and> handed_out sc' = handed_out sc \<union> set vs"
  using declare_all_fresh [OF assms] by simp

theorem declared_names_distinct_witness:
  "distinct [''foo'', ''bar'', ''foo2''] \<and>
   set [''foo'', ''bar'', ''foo2''] \<inter> handed_out DeclarationsScope_init = {}"
proof -
  let ?ds = "[(''int'', ''foo'', PyNone, None), (''char*'', ''bar'', PyNone, None), (''int'', ''foo'', PyNone, None)]"
  have "fst (declare_all ?ds DeclarationsScope_init) = Inr [''foo'', ''bar'', ''foo2'']"
    by (simp add: declare_variable_def DeclarationsScope_init_def next_num_def var_name_def bnd_def
        add_initializer_def join_ctype_and_name_def str_of_nat.simps digit_chars_def)
  then have "declare_all ?ds DeclarationsScope_init =
      (Inr [''foo'', ''bar'', ''foo2''], snd (declare_all ?ds DeclarationsScope_init))"
    by (metis prod.collapse)
  from declared_names_distinct [OF this] show ?thesis
    by (simp add: plain_scope_def DeclarationsScope_init_def plain_base_def isdigit_char_def digit_chars_def)
qed

text \<open>
  Without that proviso the uniqueness promised by \<open>declare_variable\<close> fails: after two
  declarations of \<open>foo\<close>, the base name \<open>foo2\<close> is handed out a second time, and the scope holds two
  declarations of the same variable.
\<close>

theorem declared_names_clash:
  "(case declare_all [(''int'', ''foo'', PyNone, None), (''int'', ''foo'', PyNone, None),
      (''int'', ''foo2'', PyNone, None)] DeclarationsScope_init of
      (r, sc) \<Rightarrow> r = Inr [''foo'', ''foo2'', ''foo2''] \<and>
        sink_lines (sc_sink sc) = [''int foo;'', ''int foo2;'', ''int foo2;''])"
  by (simp add: declare_variable_def DeclarationsScope_init_def next_num_def var_name_def bnd_def
      add_initializer_def join_ctype_and_name_def str_of_nat.simps digit_chars_def mem_writeln_def MemoryCodeSink_init_def
      format_code_def)

text \<open>
  C31. The cleanup code of a block behaves as a stack with cancellation: the cleanup code is that of the pending actions,
  newest first, followed by that of the predecessors; pending actions have different handles; registering an action puts it
  in front, under a new handle; cancelling any pending handle, in whatever position, removes its action and leaves the
  others in their order; cancelling any other handle raises KeyError and changes nothing.
\<close>

theorem cleanup_actions_stack:
  assumes "cb_inv cb"
  shows "get_cleanup_code (cb # preds) = map snd (cb_pending cb) @ get_cleanup_code preds \<and> distinct (map fst (cb_pending cb)) \<and>
    (\<exists>h cb'. add_cleanup_code code cb = (Inr h, cb') \<and> cb_inv cb' \<and> h \<notin> fst ` set (cb_pending cb) \<and>
       cb_pending cb' = (h, code) # cb_pending cb) \<and>
    (\<forall>h. if h \<in> fst ` set (cb_pending cb)
       then \<exists>cb'. remove_cleanup_code h cb = (Inr (), cb') \<and> cb_inv cb' \<and> cb_pending cb' = filter (\<lambda>(k, _). k \<noteq> h) (cb_pending cb)
       else \<exists>msg. remove_cleanup_code h cb = (Inl (KeyError msg), cb))"
proof (intro conjI allI)
  show "get_cleanup_code (cb # preds) = map snd (cb_pending cb) @ get_cleanup_code preds" by (simp add: block_cleanup_pending)
  show "distinct (map fst (cb_pending cb))"
    using assms by (simp add: cb_pending_def cb_inv_def distinct_map)
  show "\<exists>h cb'. add_cleanup_code code cb = (Inr h, cb') \<and> cb_inv cb' \<and> h \<notin> fst ` set (cb_pending cb) \<and> cb_pending cb' = (h, code) # cb_pending cb"
    using cb.add_ok [OF assms] by blast
  fix h
  show "if h \<in> fst ` set (cb_pending cb)
       then \<exists>cb'. remove_cleanup_code h cb = (Inr (), cb') \<and> cb_inv cb' \<and> cb_pending cb' = filter (\<lambda>(k, _). k \<noteq> h) (cb_pending cb)
       else \<exists>msg. remove_cleanup_code h cb = (Inl (KeyError msg), cb)"
    using cb.cancel_ok [OF assms] cb.cancel_missing [OF assms] by simp
qed
theorem cleanup_actions_stack_witness:
  "\<exists>cb cb'. snd (for_each (\<lambda>c. bnd (add_cleanup_code c) (\<lambda>_. ret ())) [''a();'', ''b();'', ''c();''] (CodeBlock_init [])) = cb \<and>
     remove_cleanup_code 2 cb = (Inr (), cb') \<and> get_cleanup_code [cb'] = [''c();'', ''a();'']"
proof -
  let ?cb = "snd (for_each (\<lambda>c. bnd (add_cleanup_code c) (\<lambda>_. ret ())) [''a();'', ''b();'', ''c();''] (CodeBlock_init []))"
  have cb: "cb_inv ?cb" "cb_pending ?cb = [(3, ''c();''), (2, ''b();''), (1, ''a();'')]" by code_simp+
  note stack = cleanup_actions_stack [OF cb(1), of "[]", THEN conjunct2, THEN conjunct2, THEN conjunct2, THEN spec, of 2]
  then obtain cb' where cb': "remove_cleanup_code 2 ?cb = (Inr (), cb')" "cb_inv cb'" "cb_pending cb' = [(3, ''c();''), (1, ''a();'')]"
    unfolding cb(2) by auto
  have "get_cleanup_code [cb'] = [''c();'', ''a();'']"
    using cleanup_actions_stack [OF cb'(2), of "[]", THEN conjunct1] cb'(3) by simp
  then show ?thesis using cb'(1) by blast
qed

text \<open>
  C20. An error check writes exactly: the test, then, indented by four more columns, the optional
  failure code, all pending cleanup code of the block and of its predecessors, newest first, and the
  error return, then the closing brace.  The indentation is back where it was and nothing else of
  the block changes.
\<close>

theorem write_error_check_text:
  "write_error_check preds expr failure cb =
     (Inr (), cb\<lparr>cb_sink := (cb_sink cb)\<lparr>sink_lines := sink_lines (cb_sink cb) @
        error_check_lines (indent_level (cb_sink cb)) expr failure
          (map snd (cb_pending cb) @ get_cleanup_code preds) (cb_error_return cb)\<rparr>\<rparr>)"
  by (simp add: write_error_check_run block_cleanup_pending)

end
