(* ===== verification/Params.thy ===== *)
theory Params
  imports Py_String
begin

text \<open>
  \<open>ParseTupleParameters\<close> and \<open>BuildValueParameters\<close> of \<open>pybindgen/typehandlers/base.py\<close>: the
  arguments of the PyArg_ParseTuple and Py_BuildValue calls of a wrapper, collected item by item.
\<close>

section \<open>ParseTupleParameters\<close>

record parse_item =
  pi_template :: string
  pi_values :: "string list"
  pi_name :: "string option"
  pi_optional :: bool

type_synonym parse_params = "parse_item list"

definition pt_add_parameter ::
  "string \<Rightarrow> string list \<Rightarrow> string option \<Rightarrow> bool \<Rightarrow> bool \<Rightarrow> (parse_params, nat) py" where
  "pt_add_parameter template values name prepend optional =
     (let item = \<lparr>pi_template = template, pi_values = values, pi_name = name, pi_optional = optional\<rparr> in
      bnd (upd (\<lambda>items. if prepend then item # items else items @ [item])) (\<lambda>_.
      gets length))"

text \<open>The loop over the items, with its flag \<open>last_was_optional\<close>.\<close>

fun template_loop :: "bool \<Rightarrow> parse_params \<Rightarrow> string res" where
  "template_loop last_was_optional [] = Inr []"
| "template_loop last_was_optional (it # its) =
     (if last_was_optional \<and> \<not> pi_optional it
      then Inl (ValueError ''Error: optional parameter followed by a non-optional one'')
      else if \<not> last_was_optional \<and> pi_optional it
      then bind_res (template_loop True its) (\<lambda>t. Inr (''|'' @ pi_template it @ t))
      else bind_res (template_loop last_was_optional its) (\<lambda>t. Inr (pi_template it @ t)))"

definition pt_get_parameters :: "parse_params \<Rightarrow> string list res" where
  "pt_get_parameters items =
     bind_res (template_loop False items) (\<lambda>t. Inr ((dq @ t @ dq) # concat (map pi_values items)))"

definition pt_is_empty :: "parse_params \<Rightarrow> bool res" where
  "pt_is_empty items = bind_res (pt_get_parameters items) (\<lambda>ps. Inr (ps = [dq @ dq]))"

fun keywords_loop :: "string list \<Rightarrow> parse_params \<Rightarrow> string list res" where
  "keywords_loop keywords [] = Inr keywords"
| "keywords_loop keywords (it # its) =
     (case pi_name it of
        None \<Rightarrow> if keywords \<noteq> [] then Inl (ValueError ''mixing parameters with and without keywords'')
                else keywords_loop keywords its
      | Some name \<Rightarrow> keywords_loop (keywords @ [name]) its)"

definition pt_get_keywords :: "parse_params \<Rightarrow> string list option res" where
  "pt_get_keywords items =
     bind_res (keywords_loop [] items) (\<lambda>keywords.
       if keywords \<noteq> [] then
         if length keywords \<noteq> length items then Inl (ValueError ''mixing parameters with and without keywords'')
         else Inr (Some keywords)
       else Inr None)"

section \<open>BuildValueParameters\<close>

record build_item =
  bi_template :: string
  bi_values :: "string list"
  bi_cleanup :: "nat option"

type_synonym build_params = "build_item list"

definition bv_add_parameter :: "string \<Rightarrow> string list \<Rightarrow> bool \<Rightarrow> nat option \<Rightarrow> (build_params, unit) py" where
  "bv_add_parameter template values prepend cancels_cleanup =
     (let item = \<lparr>bi_template = template, bi_values = values, bi_cleanup = cancels_cleanup\<rparr> in
      upd (\<lambda>items. if prepend then item # items else items @ [item]))"

definition bv_get_parameters :: "bool \<Rightarrow> build_params \<Rightarrow> string list" where
  "bv_get_parameters force_tuple_creation items =
     (dq @ (if force_tuple_creation then ''('' else []) @ concat (map bi_template items) @
        (if force_tuple_creation then '')'' else []) @ dq)
     # concat (map bi_values items)"

definition bv_get_cleanups :: "build_params \<Rightarrow> nat option list" where
  "bv_get_cleanups items = map bi_cleanup items"

section \<open>Reading a format string\<close>

text \<open>
  How many C arguments a format string asks for, by the documented format units of
  PyArg_ParseTuple and Py_BuildValue that the generator uses: \<open>s#\<close>, \<open>et\<close>, \<open>O!\<close> and \<open>O&\<close> take two
  arguments, \<open>|\<close> and parentheses none, a single letter one.  \<open>None\<close> is a malformed format.
\<close>

definition unit_letters :: string where
  "unit_letters = ''szbBhHiIlkLKnfdcuON''"

definition two_arg_units :: "string list" where
  "two_arg_units = [''s#'', ''et'', ''O!'', ''O&'']"

fun fmt_arity :: "string \<Rightarrow> nat option" where
  "fmt_arity [] = Some 0"
| "fmt_arity [c] =
     (if c \<in> set ''|()'' then Some 0 else if c \<in> set unit_letters then Some 1 else None)"
| "fmt_arity (c # d # r) =
     (if c \<in> set ''|()'' then fmt_arity (d # r)
      else if [c, d] \<in> set two_arg_units then map_option (\<lambda>n. n + 2) (fmt_arity r)
      else if c \<in> set unit_letters then map_option Suc (fmt_arity (d # r))
      else None)"

definition unit_arity :: "string \<Rightarrow> nat option" where
  "unit_arity u =
     (if u = [] then Some 0 else if u \<in> set two_arg_units then Some 2
      else if length u = 1 \<and> hd u \<in> set unit_letters then Some 1 else None)"

definition parse_item_ok :: "parse_item \<Rightarrow> bool" where
  "parse_item_ok it \<longleftrightarrow> unit_arity (pi_template it) = Some (length (pi_values it))"

definition build_item_ok :: "build_item \<Rightarrow> bool" where
  "build_item_ok it \<longleftrightarrow> unit_arity (bi_template it) = Some (length (bi_values it))"

lemma fmt_arity_mark [simp]: "c \<in> set ''|()'' \<Longrightarrow> fmt_arity (c # r) = fmt_arity r"
  by (cases r) auto

text \<open>A continuation of a unit starts with none of the characters that could extend the unit.\<close>

definition closed_start :: "string \<Rightarrow> bool" where
  "closed_start r \<longleftrightarrow> r = [] \<or> hd r \<notin> set ''#t!&''"

lemma fmt_arity_unit:
  assumes "unit_arity u = Some n" and "closed_start r"
  shows "fmt_arity (u @ r) = map_option ((+) n) (fmt_arity r)"
proof (cases "u = []")
  case True
  with assms(1) show ?thesis by (cases "fmt_arity r") (simp_all add: unit_arity_def)
next
  case False
  consider c where "u = [c]" "c \<in> set unit_letters" "n = 1"
    | "u \<in> set two_arg_units" "n = 2"
    using assms(1) False by (auto simp: unit_arity_def length_Suc_conv split: if_splits)
  then show ?thesis
  proof cases
    case 1
    have "[c, hd r] \<notin> set two_arg_units" if "r \<noteq> []"
      using that assms(2) by (auto simp: closed_start_def two_arg_units_def)
    moreover have "c \<notin> set ''|()''" using 1(2) by (auto simp: unit_letters_def)
    ultimately show ?thesis using 1
      by (cases r) (auto simp: option.map_comp intro!: arg_cong [where f = "\<lambda>f. map_option f _"])
  next
    case 2
    then obtain c d where "u = [c, d]" "c \<notin> set ''|()''" by (auto simp: two_arg_units_def)
    with 2 show ?thesis by (simp add: add.commute [of _ 2] cong: option.map_cong)
  qed
qed

lemma unit_arity_first:
  "unit_arity u = Some n \<Longrightarrow> u \<noteq> [] \<Longrightarrow> hd u \<notin> set ''#t!&''"
  by (auto simp: unit_arity_def two_arg_units_def unit_letters_def length_Suc_conv split: if_splits)

lemma closed_start_append:
  "unit_arity u = Some n \<Longrightarrow> closed_start r \<Longrightarrow> closed_start (u @ r)"
  using unit_arity_first [of u n] by (cases u) (auto simp: closed_start_def)

lemma closed_start_units:
  "list_all (\<lambda>u. unit_arity u \<noteq> None) us \<Longrightarrow> closed_start r \<Longrightarrow> closed_start (concat us @ r)"
  by (induction us) (auto intro: closed_start_append)

lemma fmt_arity_units:
  assumes "closed_start r"
  shows "list_all (\<lambda>(u, vs). unit_arity u = Some (length vs)) us \<Longrightarrow>
    fmt_arity (concat (map fst us) @ r) = map_option ((+) (length (concat (map snd us)))) (fmt_arity r)"
proof (induction us)
  case Nil
  then show ?case by (cases "fmt_arity r") simp_all
next
  case (Cons uv us)
  obtain u vs where uv: "uv = (u, vs)" by force
  have "list_all (\<lambda>u. unit_arity u \<noteq> None) (map fst us)"
    using Cons.prems by (auto simp: list_all_iff)
  then have "closed_start (concat (map fst us) @ r)" using assms by (rule closed_start_units)
  from fmt_arity_unit [OF _ this, of u "length vs"] Cons uv show ?case
    by (cases "fmt_arity r") simp_all
qed

section \<open>The template of PyArg_ParseTuple\<close>

abbreviation required_items :: "parse_params \<Rightarrow> parse_params" where
  "required_items items \<equiv> takeWhile (\<lambda>it. \<not> pi_optional it) items"

abbreviation optional_items :: "parse_params \<Rightarrow> parse_params" where
  "optional_items items \<equiv> dropWhile (\<lambda>it. \<not> pi_optional it) items"

lemma template_loop_True:
  "template_loop True items =
     (if list_all pi_optional items then Inr (concat (map pi_template items))
      else Inl (ValueError ''Error: optional parameter followed by a non-optional one''))"
  by (induction items) auto

lemma template_loop_False:
  "template_loop False items =
     (if list_all pi_optional (optional_items items)
      then Inr (concat (map pi_template (required_items items)) @
        (if optional_items items = [] then [] else ''|'' @ concat (map pi_template (optional_items items))))
      else Inl (ValueError ''Error: optional parameter followed by a non-optional one''))"
  by (induction items) (auto simp: template_loop_True)

lemma keywords_loop_Inr:
  "kws \<noteq> [] \<Longrightarrow> keywords_loop kws items =
     (if list_all (\<lambda>it. pi_name it \<noteq> None) items then Inr (kws @ map (the \<circ> pi_name) items)
      else Inl (ValueError ''mixing parameters with and without keywords''))"
  by (induction items arbitrary: kws) (auto split: option.splits)

lemma keywords_loop_Nil:
  "keywords_loop [] items =
     keywords_loop [] (dropWhile (\<lambda>it. pi_name it = None) items)"
  by (induction items) auto

lemma parse_format_matches:
  assumes "list_all parse_item_ok items" and "pt_get_parameters items = Inr (template # args)"
  shows "\<exists>fmt. template = dq @ fmt @ dq \<and> fmt_arity fmt = Some (length args)"
proof -
  let ?p = "\<lambda>its. map (\<lambda>it. (pi_template it, pi_values it)) its"
  let ?req = "required_items items" and ?opt = "optional_items items"
  have sub: "list_all (\<lambda>(u, vs). unit_arity u = Some (length vs)) (?p its)" if "set its \<subseteq> set items" for its
    using assms(1) that by (auto simp: list_all_iff parse_item_ok_def)
  have req: "list_all (\<lambda>(u, vs). unit_arity u = Some (length vs)) (?p ?req)"
    by (rule sub) (auto dest: set_takeWhileD)
  have opt: "list_all (\<lambda>(u, vs). unit_arity u = Some (length vs)) (?p ?opt)"
    by (rule sub) (auto dest: set_dropWhileD)
  define tail where "tail = (if ?opt = [] then [] else ''|'' @ concat (map pi_template ?opt))"
  have "fmt_arity (concat (map pi_template ?opt)) = Some (length (concat (map pi_values ?opt)))"
    using fmt_arity_units [of "[]", OF _ opt] by (simp add: closed_start_def o_def)
  then have tail: "fmt_arity tail = Some (length (concat (map pi_values ?opt)))"
    by (cases "?opt") (simp_all add: tail_def del: dropWhile_eq_Nil_conv)
  have "closed_start tail" by (simp add: tail_def closed_start_def)
  from fmt_arity_units [OF this req] tail
  have fmt: "fmt_arity (concat (map pi_template ?req) @ tail) =
      Some (length (concat (map pi_values ?req) @ concat (map pi_values ?opt)))"
    by (simp add: o_def)
  have vals: "concat (map pi_values ?req) @ concat (map pi_values ?opt) = concat (map pi_values items)"
    by (metis concat_append map_append takeWhile_dropWhile_id)
  have "template = dq @ (concat (map pi_template ?req) @ tail) @ dq" "args = concat (map pi_values items)"
    using assms(2) unfolding pt_get_parameters_def template_loop_False tail_def [symmetric]
    by (simp_all split: if_splits)
  with fmt vals show ?thesis by metis
qed

lemma build_format_matches:
  assumes "list_all build_item_ok items"
  shows "\<exists>fmt args. bv_get_parameters False items = (dq @ fmt @ dq) # args \<and> fmt_arity fmt = Some (length args)"
proof -
  have "list_all (\<lambda>(u, vs). unit_arity u = Some (length vs)) (map (\<lambda>it. (bi_template it, bi_values it)) items)"
    using assms by (auto simp: list_all_iff build_item_ok_def)
  from fmt_arity_units [OF _ this, of "[]"] show ?thesis
    by (simp add: bv_get_parameters_def closed_start_def o_def)
qed

lemma keywords_spec:
  "pt_get_keywords items =
     (if list_all (\<lambda>it. pi_name it = None) items then Inr None
      else if list_all (\<lambda>it. pi_name it \<noteq> None) items then Inr (Some (map (the \<circ> pi_name) items))
      else Inl (ValueError ''mixing parameters with and without keywords''))"
proof (cases "dropWhile (\<lambda>it. pi_name it = None) items")
  case Nil
  have "keywords_loop [] items = Inr []" by (subst keywords_loop_Nil) (simp add: Nil)
  with Nil show ?thesis
    by (simp add: pt_get_keywords_def list_all_iff dropWhile_eq_Nil_conv)
next
  case (Cons it its)
  let ?none = "takeWhile (\<lambda>it. pi_name it = None) items"
  have items: "items = ?none @ it # its" by (metis Cons takeWhile_dropWhile_id)
  have named: "pi_name it \<noteq> None" using hd_dropWhile [of "\<lambda>it. pi_name it = None" items] by (simp add: Cons)
  have none: "?none \<noteq> [] \<Longrightarrow> \<not> list_all (\<lambda>it. pi_name it \<noteq> None) items"
    by (cases items) (auto split: if_splits)
  have "keywords_loop [] items = keywords_loop [the (pi_name it)] its"
    using named by (subst keywords_loop_Nil) (auto simp: Cons)
  moreover have "\<not> list_all (\<lambda>it. pi_name it = None) items" using named by (subst items) simp
  moreover have "?none = [] \<Longrightarrow> items = it # its" using items by simp
  moreover have "?none \<noteq> [] \<Longrightarrow> length items \<noteq> Suc (length its)" by (subst items) simp
  ultimately show ?thesis
    using named none by (cases "?none = []") (auto simp: pt_get_keywords_def keywords_loop_Inr)
qed

lemma all_named_keywords:
  "list_all (\<lambda>it. pi_name it \<noteq> None) items \<Longrightarrow>
     pt_get_keywords items = Inr (if items = [] then None else Some (map (the \<circ> pi_name) items))"
  by (cases items) (auto simp: keywords_spec)

section \<open>Properties\<close>

text \<open>
  C13. The format string of a PyArg_ParseTuple call: it fails with ValueError exactly when a required
  parameter follows an optional one; otherwise it lists the templates of the required parameters,
  a bar, and the templates of the optional ones, and the values follow in the same order.
\<close>

theorem pt_get_parameters_spec:
  "pt_get_parameters items =
     (if list_all pi_optional (optional_items items)
      then Inr ((dq @ concat (map pi_template (required_items items)) @
         (if optional_items items = [] then [] else ''|'' @ concat (map pi_template (optional_items items))) @ dq)
         # concat (map pi_values items))
      else Inl (ValueError ''Error: optional parameter followed by a non-optional one''))"
  by (simp add: pt_get_parameters_def template_loop_False)

text \<open>
  C32. Keywords: all parameters named gives their names in order, none named gives None, and any
  mixture is refused with ValueError.
\<close>

theorem pt_get_keywords_spec:
  "pt_get_keywords items =
     (if list_all (\<lambda>it. pi_name it = None) items then Inr None
      else if list_all (\<lambda>it. pi_name it \<noteq> None) items then Inr (Some (map (the \<circ> pi_name) items))
      else Inl (ValueError ''mixing parameters with and without keywords''))"
  by (rule keywords_spec)

end
