(* ===== verification/Wrapper.thy ===== *)
theory Wrapper
  imports Code_Block Params
begin

text \<open>
  \<open>ForwardWrapperBase\<close> and \<open>ReverseWrapperBase\<close> of \<open>pybindgen/typehandlers/base.py\<close>.  A wrapper
  object is the record \<open>wrapper\<close>: the declarations, the code blocks and the argument lists that the
  type handlers fill.  The handlers and the methods that subclasses override are records of actions
  (\<open>param_obj\<close>, \<open>ret_obj\<close>, \<open>forward_class\<close>), so that dynamic dispatch is application of a field.
\<close>

section \<open>The state that type handlers work on\<close>

text \<open>
  \<open>w_py_names\<close> holds the attribute \<open>py_name\<close> of the handlers of the wrapper: key \<open>n > 0\<close> for the
  \<open>n\<close>-th parameter, \<open>-1\<close> for the return value.  It survives a reset of the wrapper.
\<close>

datatype wrapper_kind = Forward | Reverse

record wrapper =
  w_kind :: wrapper_kind
  w_declarations :: scope
  w_before_parse :: code_block
  w_before_call :: code_block
  w_after_call :: code_block
  w_build_params :: build_params
  w_parse_params :: parse_params
  w_call_params :: "string list"
  w_meth_flags :: "string list"
  w_py_names :: "(int \<times> string) list"

datatype block_id = Before_Parse | Before_Call | After_Call

fun get_block :: "block_id \<Rightarrow> wrapper \<Rightarrow> code_block" where
  "get_block Before_Parse w = w_before_parse w"
| "get_block Before_Call w = w_before_call w"
| "get_block After_Call w = w_after_call w"

fun set_block :: "block_id \<Rightarrow> code_block \<Rightarrow> wrapper \<Rightarrow> wrapper" where
  "set_block Before_Parse cb w = w\<lparr>w_before_parse := cb\<rparr>"
| "set_block Before_Call cb w = w\<lparr>w_before_call := cb\<rparr>"
| "set_block After_Call cb w = w\<lparr>w_after_call := cb\<rparr>"

text \<open>
  The chains of predecessors built by the two constructors; a reverse wrapper has no
  \<open>before_parse\<close> block and no \<open>call_params\<close>.
\<close>

fun predecessors :: "block_id \<Rightarrow> wrapper \<Rightarrow> code_block list" where
  "predecessors Before_Parse w = []"
| "predecessors Before_Call w = (if w_kind w = Forward then [w_before_parse w] else [])"
| "predecessors After_Call w =
     w_before_call w # (if w_kind w = Forward then [w_before_parse w] else [])"

definition on_block :: "block_id \<Rightarrow> (code_block list \<Rightarrow> (code_block, 'a) py) \<Rightarrow> (wrapper, 'a) py" where
  "on_block b m = (\<lambda>w.
     if b = Before_Parse \<and> w_kind w = Reverse then (Inl (AttributeError ''before_parse''), w)
     else (case m (predecessors b w) (get_block b w) of (r, cb) \<Rightarrow> (r, set_block b cb w)))"

definition on_scope :: "(scope, 'a) py \<Rightarrow> (wrapper, 'a) py" where
  "on_scope m = (\<lambda>w. case m (w_declarations w) of (r, sc) \<Rightarrow> (r, w\<lparr>w_declarations := sc\<rparr>))"

definition w_declare :: "string \<Rightarrow> string \<Rightarrow> pyval \<Rightarrow> string option \<Rightarrow> (wrapper, string) py" where
  "w_declare ctype name init array = on_scope (declare_variable ctype name init array)"

definition w_reserve :: "string \<Rightarrow> (wrapper, string) py" where
  "w_reserve name = on_scope (\<lambda>sc. case reserve_variable name sc of (v, sc') \<Rightarrow> (Inr v, sc'))"

definition w_write :: "block_id \<Rightarrow> string \<Rightarrow> (wrapper, unit) py" where
  "w_write b code = on_block b (\<lambda>_. cb_write_code code)"

definition w_error_check :: "block_id \<Rightarrow> string \<Rightarrow> string option \<Rightarrow> (wrapper, unit) py" where
  "w_error_check b expr failure = on_block b (\<lambda>preds. write_error_check preds expr failure)"

definition w_indent :: "block_id \<Rightarrow> (wrapper, unit) py" where
  "w_indent b = on_block b (\<lambda>_. cb_indent 4)"

definition w_unindent :: "block_id \<Rightarrow> (wrapper, unit) py" where
  "w_unindent b = on_block b (\<lambda>_. cb_unindent)"

text \<open>\<open>block.indent(); m; block.unindent()\<close>.\<close>

definition indented :: "block_id \<Rightarrow> (wrapper, unit) py \<Rightarrow> (wrapper, unit) py" where
  "indented b m = bnd (w_indent b) (\<lambda>_. bnd m (\<lambda>_. w_unindent b))"

definition w_add_cleanup :: "block_id \<Rightarrow> string \<Rightarrow> (wrapper, nat) py" where
  "w_add_cleanup b code = on_block b (\<lambda>_. add_cleanup_code code)"

definition w_write_cleanup :: "block_id \<Rightarrow> (wrapper, unit) py" where
  "w_write_cleanup b = on_block b write_cleanup"

definition w_parse_add ::
  "string \<Rightarrow> string list \<Rightarrow> string option \<Rightarrow> bool \<Rightarrow> bool \<Rightarrow> (wrapper, unit) py" where
  "w_parse_add template vals name prepend optional =
     (\<lambda>w. (Inr (), w\<lparr>w_parse_params :=
        snd (pt_add_parameter template vals name prepend optional (w_parse_params w))\<rparr>))"

definition w_build_add :: "string \<Rightarrow> string list \<Rightarrow> bool \<Rightarrow> (wrapper, unit) py" where
  "w_build_add template vals prepend =
     (\<lambda>w. (Inr (), w\<lparr>w_build_params := snd (bv_add_parameter template vals prepend None (w_build_params w))\<rparr>))"

definition w_call_append :: "string \<Rightarrow> (wrapper, unit) py" where
  "w_call_append expr = (\<lambda>w.
     if w_kind w = Reverse then (Inl (AttributeError ''call_params''), w)
     else (Inr (), w\<lparr>w_call_params := w_call_params w @ [expr]\<rparr>))"

definition w_set_py_name :: "int \<Rightarrow> string \<Rightarrow> (wrapper, unit) py" where
  "w_set_py_name num name = upd (\<lambda>w. w\<lparr>w_py_names := AList.update num name (w_py_names w)\<rparr>)"

section \<open>Type handlers and subclass methods, as seen by the wrappers\<close>

record param_obj =
  po_ctype :: string
  po_name :: string
  po_convert_python_to_c :: "(wrapper, unit) py"
  po_convert_c_to_python :: "(wrapper, unit) py"

record ret_obj =
  ro_ctype :: string
  ro_ctype_no_const :: string
  ro_requires_assignment_constructor :: bool
  ro_get_c_error_return :: "string res"
  ro_convert_python_to_c :: "(wrapper, unit) py"
  ro_convert_c_to_python :: "(wrapper, unit) py"

record forward_class =
  fc_return_value :: "ret_obj option"
  fc_parameters :: "param_obj list"
  fc_parse_error_return :: string
  fc_error_return :: string
  fc_force_parse :: "int option"
  fc_no_c_retval :: bool
  fc_unblock_threads :: bool
  fc_deprecated :: pyval
  fc_have_return_value :: bool
  fc_before_call_hook :: "(wrapper, unit) py"
  fc_generate_call :: "(wrapper, unit) py"
  fc_before_return_hook :: "(wrapper, unit) py"

definition PARSE_TUPLE :: int where "PARSE_TUPLE = 1"
definition PARSE_TUPLE_AND_KEYWORDS :: int where "PARSE_TUPLE_AND_KEYWORDS = 2"

section \<open>Reverse wrappers\<close>

record reverse_class =
  rc_return_value :: ret_obj
  rc_parameters :: "param_obj list"
  rc_error_return :: "string option"
  rc_no_gil_locking :: bool
  rc_generate_python_call :: "(wrapper, unit) py"

definition generate_gil_code :: "bool \<Rightarrow> (wrapper, unit) py" where
  "generate_gil_code no_gil_locking =
     (if no_gil_locking then ret ()
      else bnd (w_declare ''PyGILState_STATE'' ''__py_gil_state'' PyNone None) (\<lambda>gil_state_var.
        seqs [
          w_write Before_Call (gil_state_var @
            '' = (PyEval_ThreadsInitialized() ? PyGILState_Ensure() : (PyGILState_STATE) 0);''),
          bnd (w_add_cleanup Before_Call
            (''if (PyEval_ThreadsInitialized())'' @ nl @ ''    PyGILState_Release('' @ gil_state_var @ '');''))
            (\<lambda>_. ret ())]))"

definition empty_wrapper :: "wrapper_kind \<Rightarrow> string \<Rightarrow> string \<Rightarrow> wrapper" where
  "empty_wrapper kind parse_error_return error_return =
     \<lparr>w_kind = kind, w_declarations = DeclarationsScope_init,
      w_before_parse = CodeBlock_init parse_error_return, w_before_call = CodeBlock_init parse_error_return,
      w_after_call = CodeBlock_init error_return, w_build_params = [], w_parse_params = [],
      w_call_params = [], w_meth_flags = [], w_py_names = []\<rparr>"

definition ReverseWrapperBase_init :: "reverse_class \<Rightarrow> wrapper res" where
  "ReverseWrapperBase_init rc =
     bind_res (case rc_error_return rc of None \<Rightarrow> ro_get_c_error_return (rc_return_value rc) | Some e \<Rightarrow> Inr e)
       (\<lambda>error_return.
          case generate_gil_code (rc_no_gil_locking rc) (empty_wrapper Reverse error_return error_return) of
            (Inl e, w) \<Rightarrow> Inl e | (Inr _, w) \<Rightarrow> Inr w)"

definition rw_set_error_return :: "string \<Rightarrow> (wrapper, unit) py" where
  "rw_set_error_return error_return =
     upd (\<lambda>w. w\<lparr>w_before_call := (w_before_call w)\<lparr>cb_error_return := error_return\<rparr>,
                 w_after_call := (w_after_call w)\<lparr>cb_error_return := error_return\<rparr>\<rparr>)"

definition clear_common :: "(wrapper, unit) py" where
  "clear_common = seqs [
     upd (\<lambda>w. w\<lparr>w_declarations := scope_clear (w_declarations w)\<rparr>),
     on_block Before_Call (\<lambda>_. cb_clear),
     on_block After_Call (\<lambda>_. cb_clear),
     upd (\<lambda>w. w\<lparr>w_build_params := [], w_parse_params := []\<rparr>)]"

definition rw_reset_code_generation_state :: "reverse_class \<Rightarrow> (wrapper, unit) py" where
  "rw_reset_code_generation_state rc = seqs [clear_common, generate_gil_code (rc_no_gil_locking rc)]"

text \<open>\<open>l[0] = '(char *) ' + l[0]\<close>.\<close>

definition char_cast_first :: "string list \<Rightarrow> string list" where
  "char_cast_first ps = (case ps of [] \<Rightarrow> [] | p # ps \<Rightarrow> (''(char *) '' @ p) # ps)"

definition rw_parse_return :: "(wrapper, unit) py" where
  "rw_parse_return =
     bnd (gets w_parse_params) (\<lambda>items. bnd (lift_res (pt_is_empty items)) (\<lambda>empty.
       if empty then
         w_error_check Before_Call ''py_retval != Py_None''
           (Some (''PyErr_SetString(PyExc_TypeError, '' @ dq @ ''function/method should return None'' @ dq @ '');''))
       else
         bnd (w_write Before_Call (''py_retval = Py_BuildValue((char*) '' @ dq @ ''(N)'' @ dq @ '', py_retval);'')) (\<lambda>_.
         bnd (lift_res (pt_get_parameters items)) (\<lambda>parse_params.
         w_error_check Before_Call
           (''!PyArg_ParseTuple('' @ join '', '' (''py_retval'' # char_cast_first parse_params) @ '')'')
           (Some ''PyErr_Print();'')))))"

definition rw_fill :: "reverse_class \<Rightarrow> (wrapper, unit) py" where
  "rw_fill rc = seqs [
     bnd (w_declare ''PyObject*'' ''py_retval'' PyNone None) (\<lambda>_. ret ()),
     when_py (ro_ctype (rc_return_value rc) \<noteq> ''void'' \<and>
              \<not> ro_requires_assignment_constructor (rc_return_value rc))
       (bnd (w_declare (ro_ctype (rc_return_value rc)) ''retval'' PyNone None) (\<lambda>_. ret ())),
     for_each po_convert_c_to_python (rc_parameters rc),
     rc_generate_python_call rc,
     ro_convert_python_to_c (rc_return_value rc),
     rw_parse_return,
     w_write_cleanup After_Call,
     (if ro_ctype (rc_return_value rc) = ''void'' then w_write After_Call ''return;''
      else w_write After_Call ''return retval;'')]"

text \<open>
  Writing out: the sink is the second component of the state.  \<open>writeln\<close>, \<open>indent\<close> and \<open>unindent\<close>
  are the methods of the sink that is passed in.
\<close>

record 't sink_class =
  s_writeln :: "string \<Rightarrow> 't \<Rightarrow> 't"
  s_indent :: "int \<Rightarrow> 't \<Rightarrow> 't"
  s_unindent :: "'t \<Rightarrow> 't res"

definition on_wrapper :: "(wrapper, 'a) py \<Rightarrow> (wrapper \<times> 't, 'a) py" where
  "on_wrapper m = (\<lambda>(w, t). case m w of (r, w') \<Rightarrow> (r, (w', t)))"

definition emit :: "('t sink_class) \<Rightarrow> string \<Rightarrow> (wrapper \<times> 't, unit) py" where
  "emit sk line = upd (\<lambda>(w, t). (w, s_writeln sk line t))"

definition emit_indent :: "('t sink_class) \<Rightarrow> (wrapper \<times> 't, unit) py" where
  "emit_indent sk = upd (\<lambda>(w, t). (w, s_indent sk 4 t))"

definition emit_unindent :: "('t sink_class) \<Rightarrow> (wrapper \<times> 't, unit) py" where
  "emit_unindent sk = (\<lambda>(w, t). case s_unindent sk t of Inl e \<Rightarrow> (Inl e, (w, t)) | Inr t' \<Rightarrow> (Inr (), (w, t')))"

definition flush_declarations :: "('t sink_class) \<Rightarrow> (wrapper \<times> 't, unit) py" where
  "flush_declarations sk = upd (\<lambda>(w, t).
     case mem_flush_to (s_writeln sk) (sc_sink (w_declarations w)) t of
       (s, t') \<Rightarrow> (w\<lparr>w_declarations := (w_declarations w)\<lparr>sc_sink := s\<rparr>\<rparr>, t'))"

definition flush_block :: "('t sink_class) \<Rightarrow> block_id \<Rightarrow> (wrapper \<times> 't, unit) py" where
  "flush_block sk b = upd (\<lambda>(w, t).
     case mem_flush_to (s_writeln sk) (cb_sink (get_block b w)) t of
       (s, t') \<Rightarrow> (set_block b ((get_block b w)\<lparr>cb_sink := s\<rparr>) w, t'))"

text \<open>\<open>[f(x) for x in xs]\<close> where \<open>f\<close> may raise.\<close>

primrec map_res :: "('a \<Rightarrow> 'b res) \<Rightarrow> 'a list \<Rightarrow> 'b list res" where
  "map_res f [] = Inr []"
| "map_res f (x # xs) = bind_res (f x) (\<lambda>y. bind_res (map_res f xs) (\<lambda>ys. Inr (y # ys)))"

definition rw_generate ::
  "('t sink_class) \<Rightarrow> reverse_class \<Rightarrow> string \<Rightarrow> string list \<Rightarrow> string list \<Rightarrow> (wrapper \<times> 't, unit) py" where
  "rw_generate sk rc wrapper_name decl_modifiers decl_post_modifiers = seqs [
     on_wrapper (rw_fill rc),
     emit sk (join '' '' (decl_modifiers @ [ro_ctype (rc_return_value rc)])),
     bnd (lift_res (map_res (\<lambda>p. join_ctype_and_name (po_ctype p) (po_name p)) (rc_parameters rc)))
       (\<lambda>params_list. emit sk (wrapper_name @ ''('' @ join '', '' params_list @ '')'' @
          join '' '' ([] # decl_post_modifiers))),
     emit sk ''{'',
     emit_indent sk,
     flush_declarations sk,
     emit sk [],
     flush_block sk Before_Call,
     flush_block sk After_Call,
     emit_unindent sk,
     emit sk ''}'']"

section \<open>Forward wrappers\<close>

definition init_code_generation_state :: "forward_class \<Rightarrow> (wrapper, unit) py" where
  "init_code_generation_state fc = seqs [
     when_py (fc_return_value fc \<noteq> None \<or> fc_have_return_value fc)
       (bnd (w_declare ''PyObject*'' ''py_retval'' PyNone None) (\<lambda>_. ret ())),
     (if \<not> fc_no_c_retval fc \<and> (fc_return_value fc \<noteq> None \<or> fc_have_return_value fc) then
        (case fc_return_value fc of
           None \<Rightarrow> raise_py (AttributeError ''ctype'')
         | Some rv \<Rightarrow>
             when_py (ro_ctype rv \<noteq> ''void'' \<and> \<not> ro_requires_assignment_constructor rv)
               (bnd (w_declare (ro_ctype_no_const rv) ''retval'' PyNone None) (\<lambda>_. ret ())))
      else ret ()),
     bnd (w_reserve ''args'') (\<lambda>_. ret ()),
     bnd (w_reserve ''kwargs'') (\<lambda>_. ret ())]"

definition ForwardWrapperBase_init :: "forward_class \<Rightarrow> wrapper res" where
  "ForwardWrapperBase_init fc =
     (case init_code_generation_state fc
        (empty_wrapper Forward (fc_parse_error_return fc) (fc_error_return fc)) of
        (Inl e, w) \<Rightarrow> Inl e | (Inr _, w) \<Rightarrow> Inr w)"

definition reset_code_generation_state :: "forward_class \<Rightarrow> (wrapper, unit) py" where
  "reset_code_generation_state fc = seqs [
     upd (\<lambda>w. w\<lparr>w_declarations := scope_clear (w_declarations w)\<rparr>),
     on_block Before_Parse (\<lambda>_. cb_clear),
     on_block Before_Call (\<lambda>_. cb_clear),
     on_block After_Call (\<lambda>_. cb_clear),
     upd (\<lambda>w. w\<lparr>w_build_params := [], w_parse_params := [], w_call_params := [], w_meth_flags := []\<rparr>),
     init_code_generation_state fc]"

definition set_parse_error_return :: "string \<Rightarrow> (wrapper, unit) py" where
  "set_parse_error_return parse_error_return =
     upd (\<lambda>w. w\<lparr>w_before_parse := (w_before_parse w)\<lparr>cb_error_return := parse_error_return\<rparr>,
                 w_before_call := (w_before_call w)\<lparr>cb_error_return := parse_error_return\<rparr>\<rparr>)"

definition add_meth_flag :: "string \<Rightarrow> (wrapper, unit) py" where
  "add_meth_flag flag = upd (\<lambda>w. w\<lparr>w_meth_flags := w_meth_flags w @ [flag]\<rparr>)"

definition convert_parameter :: "param_obj \<Rightarrow> (wrapper, unit) py" where
  "convert_parameter p =
     try_except (po_convert_python_to_c p) (\<lambda>e.
       if e = NotImplementedError
       then raise_py (CodeGenerationError (''convert_python_to_c method of parameter '' @ po_ctype p @ '' not implemented''))
       else raise_py e)"

definition write_deprecation :: "pyval \<Rightarrow> (wrapper, unit) py" where
  "write_deprecation deprecated =
     when_py (truthy deprecated)
       (w_error_check Before_Call
          (''PyErr_Warn(PyExc_DeprecationWarning, (char *) '' @ dq @
             (case deprecated of PyStr msg \<Rightarrow> msg | _ \<Rightarrow> ''Deprecated'') @ dq @ '')'') None)"

definition write_parse_call :: "forward_class \<Rightarrow> (wrapper, unit) py" where
  "write_parse_call fc =
     bnd (gets w_parse_params) (\<lambda>items.
     bnd (lift_res (pt_get_parameters items)) (\<lambda>params.
     bnd (lift_res (pt_get_keywords items)) (\<lambda>kws.
       if params \<noteq> [dq @ dq] \<or> fc_force_parse fc \<noteq> None then
         bnd (add_meth_flag ''METH_VARARGS'') (\<lambda>_.
         if kws = None \<and> fc_force_parse fc \<noteq> Some PARSE_TUPLE_AND_KEYWORDS then
           w_error_check Before_Parse
             (''!PyArg_ParseTuple('' @ join '', '' (''args'' # char_cast_first params) @ '')'') None
         else
           bnd (w_declare ''const char *'' ''keywords''
              (PyStr (''{'' @ join '', '' (map (\<lambda>kw. dq @ kw @ dq) (case kws of None \<Rightarrow> [] | Some ks \<Rightarrow> ks) @ [''NULL'']) @ ''}''))
              (Some ''[]'')) (\<lambda>keywords_var.
           seqs [
             w_error_check Before_Parse
               (''!PyArg_ParseTupleAndKeywords('' @
                  join '', '' ([''args'', ''kwargs'', hd (char_cast_first params), ''(char **) '' @ keywords_var] @ tl params) @
                  '')'') None,
             add_meth_flag ''METH_KEYWORDS'']))
       else add_meth_flag ''METH_NOARGS'')))"

definition build_return_value :: "(wrapper, unit) py" where
  "build_return_value =
     bnd (gets (\<lambda>w. bv_get_parameters False (w_build_params w))) (\<lambda>params.
       if params = [dq @ dq] then
         seqs [w_write After_Call ''Py_INCREF(Py_None);'', w_write After_Call ''py_retval = Py_None;'']
       else w_write After_Call (''py_retval = Py_BuildValue('' @ join '', '' (char_cast_first params) @ '');''))"

definition write_return :: "forward_class \<Rightarrow> (wrapper, unit) py" where
  "write_return fc =
     (if fc_return_value fc = None \<and> \<not> fc_have_return_value fc then seqs [
        bnd (gets (\<lambda>w. bv_get_parameters False (w_build_params w))) (\<lambda>params. assert_py (params = [dq @ dq])),
        fc_before_return_hook fc,
        w_write_cleanup After_Call]
      else seqs [
        (case fc_return_value fc of
           None \<Rightarrow> ret ()
         | Some rv \<Rightarrow> try_except (ro_convert_c_to_python rv) (\<lambda>e.
             if e = NotImplementedError
             then raise_py (CodeGenerationError (''convert_c_to_python method of return value '' @ ro_ctype rv @ '' not implemented''))
             else raise_py e)),
        fc_before_return_hook fc,
        build_return_value,
        w_write_cleanup After_Call,
        w_write After_Call ''return py_retval;''])"

definition fill_body :: "forward_class \<Rightarrow> (wrapper, unit) py" where
  "fill_body fc =
     bnd (if fc_unblock_threads fc then
            bnd (w_declare ''PyThreadState*'' ''py_thread_state'' (PyStr ''NULL'') None) (\<lambda>v.
            bnd (w_write After_Call (nl @ ''if ('' @ v @ '')'' @ nl @ ''     PyEval_RestoreThread('' @ v @ '');'' @ nl))
              (\<lambda>_. ret v))
          else ret []) (\<lambda>py_thread_state.
     seqs [
       for_each convert_parameter (fc_parameters fc),
       write_deprecation (fc_deprecated fc),
       fc_before_call_hook fc,
       when_py (fc_unblock_threads fc)
         (w_write Before_Call (nl @ ''if (PyEval_ThreadsInitialized ())'' @ nl @ ''     '' @ py_thread_state @
            '' = PyEval_SaveThread();'' @ nl)),
       fc_generate_call fc,
       write_parse_call fc,
       write_return fc])"

definition write_body :: "('t sink_class) \<Rightarrow> (wrapper \<times> 't, unit) py" where
  "write_body sk = seqs [
     flush_declarations sk,
     emit sk [],
     flush_block sk Before_Parse,
     flush_block sk Before_Call,
     flush_block sk After_Call]"

definition generate_body :: "('t sink_class) \<Rightarrow> forward_class \<Rightarrow> (wrapper \<times> 't, unit) py" where
  "generate_body sk fc = seqs [on_wrapper (fill_body fc), write_body sk]"

text \<open>The prototype of the C function: set by the subclass before \<open>write_open_wrapper\<close>.\<close>

definition write_open_wrapper ::
  "('t sink_class) \<Rightarrow> string option \<Rightarrow> string option \<Rightarrow> string list option \<Rightarrow> bool \<Rightarrow> (wrapper \<times> 't, unit) py" where
  "write_open_wrapper sk wrapper_actual_name wrapper_return wrapper_args add_static =
     (case (wrapper_actual_name, wrapper_return, wrapper_args) of
        (Some name, Some return, Some args) \<Rightarrow> seqs [
          (if add_static then emit sk (''static '' @ return) else emit sk return),
          emit sk (name @ ''('' @ join '', '' args @ '')''),
          emit sk ''{'',
          emit_indent sk]
      | _ \<Rightarrow> raise_py AssertionError)"

definition write_close_wrapper :: "('t sink_class) \<Rightarrow> (wrapper \<times> 't, unit) py" where
  "write_close_wrapper sk = seqs [emit_unindent sk, emit sk ''}'']"

definition memory_class :: "memory_sink sink_class" where
  "memory_class = \<lparr>s_writeln = mem_writeln, s_indent = sink_indent, s_unindent = sink_unindent\<rparr>"

definition null_class :: "sink_state sink_class" where
  "null_class = \<lparr>s_writeln = null_writeln, s_indent = sink_indent, s_unindent = sink_unindent\<rparr>"

text \<open>\<open>list(set(flags))\<close>: the order is unspecified in the source; here the first occurrences.\<close>

definition flag_set :: "string list \<Rightarrow> string list" where
  "flag_set flags = remdups flags"

definition get_py_method_def_flags :: "forward_class \<Rightarrow> (wrapper, string list) py" where
  "get_py_method_def_flags fc =
     bnd (gets w_meth_flags) (\<lambda>flags.
       if flags \<noteq> [] then ret (flag_set flags)
       else try_finally
         (\<lambda>w. case generate_body null_class fc (w, NullCodeSink_init) of
            (Inl e, (w', _)) \<Rightarrow> (Inl e, w')
          | (Inr _, (w', _)) \<Rightarrow> (Inr (flag_set (w_meth_flags w')), w'))
         (reset_code_generation_state fc))"

end
