(* ===== verification/Wrapper_Laws.thy ===== *)
theory Wrapper_Laws
  imports Wrapper
begin

text \<open>
  How actions on a wrapper are reasoned about.  \<open>step_relation\<close> collects what holds of every
  action whose primitive steps respect a preorder on states; \<open>step_count\<close> does the same for
  quantities that primitive steps increase by a fixed amount.  Both are interpreted on the wrapper
  state: code only grows and stays balanced, arguments keep matching their formats, and the lists
  of call, parse and build arguments have known lengths.
\<close>

section \<open>Actions that respect a preorder\<close>

named_theorems keeps_intros \<open>rules for actions that respect a relation\<close>
named_theorems count_intros \<open>rules for actions that increase a quantity\<close>

definition keeps :: "('s \<Rightarrow> 's \<Rightarrow> bool) \<Rightarrow> ('s, 'a) py \<Rightarrow> bool" where
  "keeps R m \<longleftrightarrow> (\<forall>s a s'. m s = (Inr a, s') \<longrightarrow> R s s')"

lemma keepsI: "(\<And>s a s'. m s = (Inr a, s') \<Longrightarrow> R s s') \<Longrightarrow> keeps R m"
  by (simp add: keeps_def)

lemma keepsD: "keeps R m \<Longrightarrow> m s = (Inr a, s') \<Longrightarrow> R s s'"
  by (simp add: keeps_def)

lemma keeps_option:
  "keeps R m \<Longrightarrow> (\<And>a. keeps R (f a)) \<Longrightarrow> keeps R (case x of None \<Rightarrow> m | Some a \<Rightarrow> f a)"
  by (cases x) auto

locale step_relation =
  fixes R :: "'s \<Rightarrow> 's \<Rightarrow> bool"
  assumes refl: "R s s"
    and trans: "R s t \<Longrightarrow> R t u \<Longrightarrow> R s u"
begin

lemma keeps_ret: "keeps R (ret a)"
  by (simp add: keeps_def refl)

lemma keeps_raise: "keeps R (raise_py e)"
  by (simp add: keeps_def)

lemma keeps_gets: "keeps R (gets f)"
  by (simp add: keeps_def refl)

lemma keeps_lift: "keeps R (lift_res r)"
  by (simp add: keeps_def refl)

lemma keeps_assert: "keeps R (assert_py b)"
  by (simp add: keeps_def assert_py_def refl)

lemma keeps_bnd: "keeps R m \<Longrightarrow> (\<And>a. keeps R (f a)) \<Longrightarrow> keeps R (bnd m f)"
  by (rule keepsI, erule bnd_eq_InrE) (blast dest: keepsD intro: trans)

lemma keeps_seqs: "list_all (keeps R) ms \<Longrightarrow> keeps R (seqs ms)"
  by (induction ms) (simp_all add: keeps_ret keeps_bnd)

lemma keeps_when: "(c \<Longrightarrow> keeps R m) \<Longrightarrow> keeps R (when_py c m)"
  by (simp add: when_py_def keeps_ret)

lemma keeps_if: "(c \<Longrightarrow> keeps R m) \<Longrightarrow> (\<not> c \<Longrightarrow> keeps R n) \<Longrightarrow> keeps R (if c then m else n)"
  by simp

lemma keeps_for_each: "(\<And>x. x \<in> set xs \<Longrightarrow> keeps R (f x)) \<Longrightarrow> keeps R (for_each f xs)"
  by (induction xs) (simp_all add: keeps_ret keeps_bnd)

lemma keeps_reraise: "keeps R m \<Longrightarrow> keeps R (try_except m (\<lambda>e. if P e then raise_py (g e) else raise_py e))"
  by (auto simp: keeps_def try_except_def split: sum.splits prod.splits if_splits)

lemmas keeps_rules = keeps_option keeps_ret keeps_raise keeps_gets keeps_lift keeps_assert keeps_bnd keeps_when keeps_if

end

section \<open>Actions that add to a quantity\<close>

definition adds :: "('s \<Rightarrow> nat) \<Rightarrow> nat \<Rightarrow> ('s, 'a) py \<Rightarrow> bool" where
  "adds q n m \<longleftrightarrow> (\<forall>s a s'. m s = (Inr a, s') \<longrightarrow> q s' = q s + n)"

lemma addsI: "(\<And>s a s'. m s = (Inr a, s') \<Longrightarrow> q s' = q s + n) \<Longrightarrow> adds q n m"
  by (simp add: adds_def)

lemma addsD: "adds q n m \<Longrightarrow> m s = (Inr a, s') \<Longrightarrow> q s' = q s + n"
  by (simp add: adds_def)

lemma adds_ret: "adds q 0 (ret a)"
  by (simp add: adds_def)

lemma adds_raise: "adds q n (raise_py e)"
  by (simp add: adds_def)

lemma adds_assert: "adds q 0 (assert_py b)"
  by (simp add: adds_def assert_py_def)

lemma adds_lift: "adds q 0 (lift_res r)"
  by (simp add: adds_def)

lemma adds_bnd: "adds q i m \<Longrightarrow> (\<And>a. adds q j (f a)) \<Longrightarrow> adds q (i + j) (bnd m f)"
  by (rule addsI, erule bnd_eq_InrE) (fastforce dest: addsD)

lemma adds_when: "adds q n m \<Longrightarrow> adds q (if c then n else 0) (when_py c m)"
  by (simp add: adds_ret)

lemma adds_if: "adds q i m \<Longrightarrow> adds q j n \<Longrightarrow> adds q (if c then i else j) (if c then m else n)"
  by simp

lemma adds_option:
  "adds q i m \<Longrightarrow> (\<And>a. adds q j (f a)) \<Longrightarrow>
     adds q (case x of None \<Rightarrow> i | Some _ \<Rightarrow> j) (case x of None \<Rightarrow> m | Some a \<Rightarrow> f a)"
  by (cases x) auto

lemma adds_eq: "adds q i m \<Longrightarrow> i = j \<Longrightarrow> adds q j m"
  by simp

lemma adds_seqs: "list_all2 (adds q) ns ms \<Longrightarrow> adds q (sum_list ns) (seqs ms)"
  by (induction ns ms rule: list_all2_induct) (simp_all add: adds_ret adds_bnd del: ret_run)

lemma adds_for_each: "(\<And>x. x \<in> set xs \<Longrightarrow> adds q (c x) (f x)) \<Longrightarrow> adds q (sum_list (map c xs)) (for_each f xs)"
  by (induction xs) (simp_all add: adds_ret adds_bnd)

lemma adds_reraise: "adds q n m \<Longrightarrow> adds q n (try_except m (\<lambda>e. if P e then raise_py (g e) else raise_py e))"
  by (auto simp: adds_def try_except_def split: sum.splits prod.splits if_splits)

lemmas adds_rules = adds_option adds_ret adds_raise adds_assert adds_lift adds_when adds_if adds_bnd

section \<open>What the primitive steps do\<close>

lemma on_block_Inr:
  assumes "on_block b m w = (Inr a, w')"
  obtains cb where "m (predecessors b w) (get_block b w) = (Inr a, cb)" "w' = set_block b cb w"
  using assms by (auto simp: on_block_def split: if_splits prod.splits)

lemma on_scope_Inr:
  assumes "on_scope m w = (Inr a, w')"
  obtains sc where "m (w_declarations w) = (Inr a, sc)" "w' = w\<lparr>w_declarations := sc\<rparr>"
  using assms by (auto simp: on_scope_def split: prod.splits)

lemma get_set_block [simp]: "get_block b' (set_block b cb w) = (if b' = b then cb else get_block b' w)"
  by (cases b; cases b') auto

lemma set_block_sel [simp]:
  "w_kind (set_block b cb w) = w_kind w"
  "w_declarations (set_block b cb w) = w_declarations w"
  "w_build_params (set_block b cb w) = w_build_params w"
  "w_parse_params (set_block b cb w) = w_parse_params w"
  "w_call_params (set_block b cb w) = w_call_params w"
  "w_meth_flags (set_block b cb w) = w_meth_flags w"
  by (cases b; simp)+

lemma get_block_upd [simp]:
  "get_block b (w\<lparr>w_declarations := sc\<rparr>) = get_block b w"
  "get_block b (w\<lparr>w_build_params := bs\<rparr>) = get_block b w"
  "get_block b (w\<lparr>w_parse_params := ps\<rparr>) = get_block b w"
  "get_block b (w\<lparr>w_call_params := cs\<rparr>) = get_block b w"
  "get_block b (w\<lparr>w_meth_flags := fs\<rparr>) = get_block b w"
  "get_block b (w\<lparr>w_py_names := ns\<rparr>) = get_block b w"
  by (cases b; simp)+

section \<open>Generated code only grows and stays balanced\<close>

definition block_grows :: "code_block \<Rightarrow> code_block \<Rightarrow> bool" where
  "block_grows cb cb' \<longleftrightarrow>
     prefix (sink_lines (cb_sink cb)) (sink_lines (cb_sink cb')) \<and>
     indent_level (cb_sink cb') = indent_level (cb_sink cb) \<and>
     indent_stack (cb_sink cb') = indent_stack (cb_sink cb) \<and>
     cb_last cb \<le> cb_last cb' \<and> cb_error_return cb' = cb_error_return cb"

definition scope_grows :: "scope \<Rightarrow> scope \<Rightarrow> bool" where
  "scope_grows sc sc' \<longleftrightarrow>
     prefix (sink_lines (sc_sink sc)) (sink_lines (sc_sink sc')) \<and>
     indent_level (sc_sink sc') = indent_level (sc_sink sc) \<and>
     indent_stack (sc_sink sc') = indent_stack (sc_sink sc) \<and>
     handed_out sc \<subseteq> handed_out sc'"

definition wrapper_grows :: "wrapper \<Rightarrow> wrapper \<Rightarrow> bool" where
  "wrapper_grows w w' \<longleftrightarrow>
     w_kind w' = w_kind w \<and>
     (\<forall>b. block_grows (get_block b w) (get_block b w')) \<and>
     scope_grows (w_declarations w) (w_declarations w') \<and>
     prefix (w_call_params w) (w_call_params w') \<and>
     w_meth_flags w' = w_meth_flags w \<and>
     (list_all parse_item_ok (w_parse_params w) \<longrightarrow> list_all parse_item_ok (w_parse_params w')) \<and>
     (list_all build_item_ok (w_build_params w) \<longrightarrow> list_all build_item_ok (w_build_params w'))"

lemma block_grows_refl [simp]: "block_grows cb cb"
  by (simp add: block_grows_def)

lemma scope_grows_refl [simp]: "scope_grows sc sc"
  by (simp add: scope_grows_def)

lemma block_grows_trans: "block_grows a b \<Longrightarrow> block_grows b c \<Longrightarrow> block_grows a c"
  by (auto simp: block_grows_def intro: prefix_order.trans)

lemma scope_grows_trans: "scope_grows a b \<Longrightarrow> scope_grows b c \<Longrightarrow> scope_grows a c"
  by (auto simp: scope_grows_def intro: prefix_order.trans)

interpretation grows: step_relation wrapper_grows
proof unfold_locales
  show "wrapper_grows s s" for s by (simp add: wrapper_grows_def)
  show "wrapper_grows s u" if "wrapper_grows s t" "wrapper_grows t u" for s t u
    using that unfolding wrapper_grows_def
    by (intro conjI allI) (elim conjE; simp; blast intro: block_grows_trans scope_grows_trans prefix_order.trans)+
qed

lemma wrapper_grows_block:
  "block_grows (get_block b w) cb \<Longrightarrow> wrapper_grows w (set_block b cb w)"
  by (auto simp: wrapper_grows_def)

lemma wrapper_grows_scope:
  "scope_grows (w_declarations w) sc \<Longrightarrow> wrapper_grows w (w\<lparr>w_declarations := sc\<rparr>)"
  by (simp add: wrapper_grows_def)

lemma handed_out_grows:
  "sc_vars sc' = (sc_vars sc)(name \<mapsto> next_num sc name) \<Longrightarrow> handed_out sc \<subseteq> handed_out sc'"
proof
  fix x
  assume vars: "sc_vars sc' = (sc_vars sc)(name \<mapsto> next_num sc name)" and "x \<in> handed_out sc"
  then obtain b n m where x: "x = var_name b n" "sc_vars sc b = Some m" "1 \<le> n" "n \<le> m"
    by (auto simp: handed_out_def)
  then have "\<exists>m'. sc_vars sc' b = Some m' \<and> n \<le> m'" by (auto simp: vars next_num_def)
  with x show "x \<in> handed_out sc'" by (auto simp: handed_out_def)
qed

lemma declare_variable_grows:
  assumes "declare_variable ctype name init array sc = (Inr v, sc')"
  shows "scope_grows sc sc'"
proof -
  have "handed_out sc \<subseteq> handed_out sc'"
    using declare_variable_vars [of ctype name init array sc] assms by (intro handed_out_grows) simp
  with assms show ?thesis
    by (auto simp: scope_grows_def declare_variable_def mem_writeln_def elim!: bnd_eq_InrE)
qed

lemma keeps_declare: "keeps wrapper_grows (w_declare ctype name init array)"
  unfolding w_declare_def
  by (rule keepsI, erule on_scope_Inr) (simp add: wrapper_grows_scope declare_variable_grows)

lemma keeps_reserve: "keeps wrapper_grows (w_reserve name)"
  unfolding w_reserve_def
proof (rule keepsI, erule on_scope_Inr)
  fix s s' :: wrapper and a sc
  assume "(case reserve_variable name (w_declarations s) of (v, sc') \<Rightarrow> (Inr v, sc')) = (Inr a, sc)"
    and s': "s' = s\<lparr>w_declarations := sc\<rparr>"
  then have sc: "sc = (w_declarations s)\<lparr>sc_vars := (sc_vars (w_declarations s))(name \<mapsto> next_num (w_declarations s) name)\<rparr>"
    by (simp add: reserve_variable_def Let_def)
  have "scope_grows (w_declarations s) sc"
    using handed_out_grows [of sc "w_declarations s" name] by (simp add: scope_grows_def sc)
  then show "wrapper_grows s s'" by (simp add: s' wrapper_grows_scope)
qed

lemma keeps_write: "keeps wrapper_grows (w_write b code)"
  unfolding w_write_def
  by (rule keepsI, erule on_block_Inr)
     (auto intro!: wrapper_grows_block simp: block_grows_def mem_writeln_def)

lemma keeps_error_check: "keeps wrapper_grows (w_error_check b expr failure)"
  unfolding w_error_check_def
  by (rule keepsI, erule on_block_Inr)
     (auto intro!: wrapper_grows_block simp: block_grows_def write_error_check_run)

lemma keeps_write_cleanup: "keeps wrapper_grows (w_write_cleanup b)"
  unfolding w_write_cleanup_def
  by (rule keepsI, erule on_block_Inr)
     (auto intro!: wrapper_grows_block simp: block_grows_def writes_lines)

lemma keeps_add_cleanup: "keeps wrapper_grows (w_add_cleanup b code)"
  unfolding w_add_cleanup_def
  by (rule keepsI, erule on_block_Inr)
     (auto intro!: wrapper_grows_block simp: block_grows_def add_cleanup_code_def Let_def)

lemma keeps_set_py_name: "keeps wrapper_grows (w_set_py_name num name)"
  by (rule keepsI) (auto simp: w_set_py_name_def wrapper_grows_def)

lemma keeps_parse_add:
  "unit_arity template = Some (length vals) \<Longrightarrow> keeps wrapper_grows (w_parse_add template vals name prepend optional)"
  by (rule keepsI)
     (auto simp: w_parse_add_def wrapper_grows_def pt_add_parameter_def Let_def parse_item_ok_def)

lemma keeps_build_add:
  "unit_arity template = Some (length vals) \<Longrightarrow> keeps wrapper_grows (w_build_add template vals prepend)"
  by (rule keepsI)
     (auto simp: w_build_add_def wrapper_grows_def bv_add_parameter_def Let_def build_item_ok_def)

lemma keeps_call_append: "keeps wrapper_grows (w_call_append expr)"
  by (rule keepsI) (auto simp: w_call_append_def wrapper_grows_def split: if_splits)

lemma keeps_indented:
  assumes "keeps wrapper_grows m"
  shows "keeps wrapper_grows (indented b m)"
proof (rule keepsI)
  fix w a w'
  assume "indented b m w = (Inr a, w')"
  then obtain w1 w2 where i: "w_indent b w = (Inr (), w1)" and m: "m w1 = (Inr (), w2)"
    and u: "w_unindent b w2 = (Inr (), w')"
    by (auto simp: indented_def elim!: bnd_eq_InrE)
  from i have w1: "w1 = set_block b ((get_block b w)\<lparr>cb_sink := sink_indent 4 (cb_sink (get_block b w))\<rparr>) w"
    unfolding w_indent_def by (auto elim!: on_block_Inr)
  have g: "wrapper_grows w1 w2" using assms m by (rule keepsD)
  from u obtain snk where w': "w' = set_block b ((get_block b w2)\<lparr>cb_sink := snk\<rparr>) w2"
    and snk: "sink_unindent (cb_sink (get_block b w2)) = Inr snk"
    unfolding w_unindent_def cb_unindent_def
    by (cases "sink_unindent (cb_sink (get_block b w2))") (auto elim!: on_block_Inr)
  have gb: "block_grows (get_block b w1) (get_block b w2)" using g by (simp add: wrapper_grows_def)
  then have "block_grows (get_block b w) ((get_block b w2)\<lparr>cb_sink := snk\<rparr>)"
    using snk by (auto simp: block_grows_def w1 sink_unindent_def sink_indent_def split: if_splits)
  moreover have "block_grows (get_block b' w) (get_block b' w2)" if "b' \<noteq> b" for b'
    using g that by (auto simp: wrapper_grows_def w1 split: if_splits)
  ultimately show "wrapper_grows w w'"
    using g by (auto simp: wrapper_grows_def w' w1)
qed

lemmas grows_prims =
  keeps_declare keeps_reserve keeps_write keeps_error_check keeps_write_cleanup keeps_call_append
  keeps_add_cleanup keeps_set_py_name keeps_indented

lemmas grows_intros = grows.keeps_rules grows_prims keeps_parse_add keeps_build_add

section \<open>How many call, parse and build arguments an action adds\<close>

abbreviation n_calls :: "wrapper \<Rightarrow> nat" where "n_calls w \<equiv> length (w_call_params w)"
abbreviation n_parses :: "wrapper \<Rightarrow> nat" where "n_parses w \<equiv> length (w_parse_params w)"
abbreviation n_builds :: "wrapper \<Rightarrow> nat" where "n_builds w \<equiv> length (w_build_params w)"

text \<open>A quantity that depends only on the three argument lists.\<close>

locale args_count =
  fixes q :: "wrapper \<Rightarrow> nat"
  assumes q_block: "q (set_block b cb w) = q w"
    and q_scope: "q (w\<lparr>w_declarations := sc\<rparr>) = q w"
    and q_py_names: "q (w\<lparr>w_py_names := ns\<rparr>) = q w"
begin

lemma adds_declare: "adds q 0 (w_declare ctype name init array)"
  unfolding w_declare_def by (rule addsI, erule on_scope_Inr) (simp add: q_scope)

lemma adds_block: "adds q 0 (on_block b m)"
  by (rule addsI, erule on_block_Inr) (simp add: q_block)

lemma adds_write: "adds q 0 (w_write b code)"
  unfolding w_write_def by (rule adds_block)

lemma adds_error_check: "adds q 0 (w_error_check b expr failure)"
  unfolding w_error_check_def by (rule adds_block)

lemma adds_indented: "adds q n m \<Longrightarrow> adds q n (indented b m)"
  unfolding indented_def w_indent_def w_unindent_def
  by (rule adds_eq, rule adds_bnd [OF adds_block], rule adds_bnd, assumption, rule adds_block) simp

lemma adds_set_py_name: "adds q 0 (w_set_py_name num name)"
  by (rule addsI) (auto simp: w_set_py_name_def q_py_names)

lemma adds_add_cleanup: "adds q 0 (w_add_cleanup b code)"
  unfolding w_add_cleanup_def by (rule adds_block)

lemmas adds_code = adds_declare adds_write adds_error_check adds_set_py_name adds_add_cleanup adds_indented

end

interpretation calls: args_count n_calls by unfold_locales simp_all
interpretation parses: args_count n_parses by unfold_locales simp_all
interpretation builds: args_count n_builds by unfold_locales simp_all

lemma adds_call_append:
  "adds n_calls 1 (w_call_append expr)" "adds n_parses 0 (w_call_append expr)" "adds n_builds 0 (w_call_append expr)"
  by (auto simp: adds_def w_call_append_def)

lemma adds_parse_add:
  "adds n_calls 0 (w_parse_add t v n p opt)" "adds n_parses 1 (w_parse_add t v n p opt)"
  "adds n_builds 0 (w_parse_add t v n p opt)"
  by (auto simp: adds_def w_parse_add_def pt_add_parameter_def Let_def)

lemma adds_build_add:
  "adds n_calls 0 (w_build_add t v p)" "adds n_parses 0 (w_build_add t v p)" "adds n_builds 1 (w_build_add t v p)"
  by (auto simp: adds_def w_build_add_def bv_add_parameter_def Let_def)

lemmas adds_prims = calls.adds_code parses.adds_code builds.adds_code adds_call_append adds_parse_add adds_build_add

section \<open>Named arguments\<close>

text \<open>The action appends parse items that all carry a name (so that keywords can be generated).\<close>

definition appends_named :: "wrapper \<Rightarrow> wrapper \<Rightarrow> bool" where
  "appends_named w w' \<longleftrightarrow>
     (\<exists>new. w_parse_params w' = w_parse_params w @ new \<and> list_all (\<lambda>it. pi_name it \<noteq> None) new)"

interpretation named: step_relation appends_named
  by unfold_locales (auto simp: appends_named_def)

lemma named_block: "keeps appends_named (on_block b m)"
  by (rule keepsI, erule on_block_Inr) (simp add: appends_named_def)

lemma named_code:
  "keeps appends_named (w_declare ctype name init array)"
  "keeps appends_named (w_write b code)"
  "keeps appends_named (w_error_check b expr failure)"
  "keeps appends_named (w_call_append expr)"
  "keeps appends_named (w_build_add t v p)"
  "keeps appends_named (w_parse_add t v (Some name) False opt)"
  unfolding w_write_def w_error_check_def w_declare_def
  by (auto simp: named_block)
     (auto intro!: keepsI elim!: on_scope_Inr simp: appends_named_def w_call_append_def w_build_add_def
        w_parse_add_def pt_add_parameter_def Let_def split: if_splits)

lemma named_indented: "keeps appends_named m \<Longrightarrow> keeps appends_named (indented b m)"
  unfolding indented_def w_indent_def w_unindent_def by (intro named.keeps_bnd named_block)

lemma named_set_py_name: "keeps appends_named (w_set_py_name num name)"
  by (rule keepsI) (auto simp: w_set_py_name_def appends_named_def)

lemma named_add_cleanup: "keeps appends_named (w_add_cleanup b code)"
  unfolding w_add_cleanup_def by (rule named_block)

lemmas named_intros = named.keeps_rules named_code named_set_py_name named_add_cleanup named_indented

section \<open>Actions that succeed on a forward wrapper\<close>

definition runs :: "(wrapper, 'a) py \<Rightarrow> bool" where
  "runs m \<longleftrightarrow> (\<forall>w. w_kind w = Forward \<longrightarrow> (\<exists>a w'. m w = (Inr a, w') \<and> w_kind w' = Forward))"

lemma runsE:
  assumes "runs m" "w_kind w = Forward"
  obtains a w' where "m w = (Inr a, w')" "w_kind w' = Forward"
  using assms by (auto simp: runs_def)

lemma runs_ret: "runs (ret a)"
  by (simp add: runs_def)

lemma runs_gets: "runs (gets f)"
  by (simp add: runs_def)

lemma runs_lift: "r = Inr a \<Longrightarrow> runs (lift_res r)"
  by (simp add: runs_def)

lemma runs_assert: "b \<Longrightarrow> runs (assert_py b)"
  by (simp add: runs_def)

lemma runs_bnd: "runs m \<Longrightarrow> (\<And>a. runs (f a)) \<Longrightarrow> runs (bnd m f)"
  unfolding runs_def by (metis bnd_run_Inr)

lemma runs_when: "(c \<Longrightarrow> runs m) \<Longrightarrow> runs (when_py c m)"
  by (simp add: when_py_def runs_ret del: ret_run)

lemma runs_if: "(c \<Longrightarrow> runs m) \<Longrightarrow> (\<not> c \<Longrightarrow> runs n) \<Longrightarrow> runs (if c then m else n)"
  by simp

lemma runs_option: "runs m \<Longrightarrow> (\<And>a. runs (f a)) \<Longrightarrow> runs (case x of None \<Rightarrow> m | Some a \<Rightarrow> f a)"
  by (cases x) auto

lemma runs_write: "runs (w_write b code)"
  by (simp add: runs_def w_write_def on_block_def)

lemma runs_error_check: "runs (w_error_check b expr failure)"
  by (simp add: runs_def w_error_check_def on_block_def write_error_check_run)

lemma runs_args:
  "runs (w_call_append expr)" "runs (w_parse_add t v n pre opt)" "runs (w_build_add t v pre)"
  by (simp_all add: runs_def w_call_append_def w_parse_add_def w_build_add_def)

text \<open>A type name with a character that is not a star, and an initializer that is text or missing.\<close>

definition declarable :: "string \<Rightarrow> bool" where
  "declarable ctype \<longleftrightarrow> list_ex (\<lambda>c. c \<noteq> CHR ''*'') ctype"

definition text_or_none :: "pyval \<Rightarrow> bool" where
  "text_or_none v \<longleftrightarrow> (case v of PyNone \<Rightarrow> True | PyStr _ \<Rightarrow> True | _ \<Rightarrow> False)"

lemma runs_declare: "declarable ctype \<Longrightarrow> text_or_none init \<Longrightarrow> runs (w_declare ctype name init array)"
  unfolding runs_def w_declare_def on_scope_def declare_variable_def
proof (intro allI impI)
  fix w :: wrapper
  assume ct: "declarable ctype" and init: "text_or_none init" and k: "w_kind w = Forward"
  obtain c where c: "c \<in> set ctype" "c \<noteq> CHR ''*''" using ct by (auto simp: declarable_def list_ex_iff)
  obtain d where d: "join_ctype_and_name ctype (var_name name (next_num (w_declarations w) name)) = Inr d"
    using join_ctype_and_name_total [OF c] by blast
  obtain d2 where "add_initializer (d @ (case array of None \<Rightarrow> [] | Some a \<Rightarrow> a)) init = Inr d2"
    using init by (cases init) (auto simp: add_initializer_def text_or_none_def)
  with d k show "\<exists>a w'. (case bnd (gets (\<lambda>sc. var_name name (next_num sc name)))
      (\<lambda>varname. bnd (upd (\<lambda>sc. sc\<lparr>sc_vars := (sc_vars sc)(name \<mapsto> next_num sc name)\<rparr>)) (\<lambda>_.
         bnd (lift_res (join_ctype_and_name ctype varname)) (\<lambda>decl.
         bnd (lift_res (add_initializer (decl @ (case array of None \<Rightarrow> [] | Some a \<Rightarrow> a)) init)) (\<lambda>decl2.
         bnd (upd (\<lambda>sc. sc\<lparr>sc_sink := mem_writeln (decl2 @ '';'') (sc_sink sc)\<rparr>)) (\<lambda>_. ret varname)))))
      (w_declarations w) of (r, sc) \<Rightarrow> (r, w\<lparr>w_declarations := sc\<rparr>)) = (Inr a, w') \<and> w_kind w' = Forward"
    by simp
qed

lemma runs_indented:
  assumes "runs m" and "keeps wrapper_grows m"
  shows "runs (indented b m)"
  unfolding runs_def
proof (intro allI impI)
  fix w :: wrapper
  assume k: "w_kind w = Forward"
  let ?w1 = "set_block b ((get_block b w)\<lparr>cb_sink := sink_indent 4 (cb_sink (get_block b w))\<rparr>) w"
  have i: "w_indent b w = (Inr (), ?w1)" using k by (simp add: w_indent_def on_block_def)
  obtain w2 where m: "m ?w1 = (Inr (), w2)" "w_kind w2 = Forward"
    using assms(1) k by (metis runsE set_block_sel(1) unit.exhaust)
  have "block_grows (get_block b ?w1) (get_block b w2)"
    using keepsD [OF assms(2) m(1)] unfolding wrapper_grows_def by blast
  then have "indent_stack (cb_sink (get_block b w2)) \<noteq> []" by (simp add: block_grows_def)
  then have "\<exists>w3. w_unindent b w2 = (Inr (), w3) \<and> w_kind w3 = Forward"
    using m(2) by (simp add: w_unindent_def on_block_def cb_unindent_def sink_unindent_ok)
  with i m show "\<exists>a w'. indented b m w = (Inr a, w') \<and> w_kind w' = Forward"
    by (simp add: indented_def)
qed

lemmas runs_rules = runs_option runs_ret runs_gets runs_assert runs_bnd runs_when runs_if runs_write
  runs_error_check runs_args

section \<open>The contract of a parameter handler\<close>

text \<open>
  What \<open>generate_body\<close> relies on when it calls \<open>convert_python_to_c\<close>: code only grows, the parse
  items are named and match their formats, and exactly one argument is added to the C call.
\<close>

definition forward_param_ok :: "param_obj \<Rightarrow> bool" where
  "forward_param_ok p \<longleftrightarrow>
     keeps wrapper_grows (po_convert_python_to_c p) \<and>
     keeps appends_named (po_convert_python_to_c p) \<and>
     adds n_calls 1 (po_convert_python_to_c p)"

lemma convert_parameter_ok:
  assumes "forward_param_ok p"
  shows "keeps wrapper_grows (convert_parameter p)" "keeps appends_named (convert_parameter p)"
    "adds n_calls 1 (convert_parameter p)"
  using assms unfolding forward_param_ok_def convert_parameter_def
  by (auto intro!: grows.keeps_reraise named.keeps_reraise adds_reraise)

lemma convert_parameters_ok:
  assumes "list_all forward_param_ok ps"
  shows "keeps wrapper_grows (for_each convert_parameter ps)" "keeps appends_named (for_each convert_parameter ps)"
    "adds n_calls (length ps) (for_each convert_parameter ps)"
proof -
  have ok: "forward_param_ok p" if "p \<in> set ps" for p using assms that by (simp add: list_all_iff)
  show "keeps wrapper_grows (for_each convert_parameter ps)" "keeps appends_named (for_each convert_parameter ps)"
    by (auto intro!: grows.keeps_for_each named.keeps_for_each convert_parameter_ok ok)
  have "adds n_calls (sum_list (map (\<lambda>_. 1) ps)) (for_each convert_parameter ps)"
    by (rule adds_for_each) (rule convert_parameter_ok [OF ok])
  then show "adds n_calls (length ps) (for_each convert_parameter ps)" by (simp add: sum_list_const_mult sum_list_triv)
qed

definition scope_only :: "wrapper \<Rightarrow> wrapper \<Rightarrow> bool" where
  "scope_only w w' \<longleftrightarrow> (\<exists>sc. w' = w\<lparr>w_declarations := sc\<rparr>)"

interpretation scoped: step_relation scope_only
proof unfold_locales
  show "scope_only s s" for s by (auto simp: scope_only_def intro: exI [of _ "w_declarations s"])
qed (auto simp: scope_only_def)

lemma scoped_prims: "keeps scope_only (w_declare ctype name init array)" "keeps scope_only (w_reserve name)"
  unfolding w_declare_def w_reserve_def by (auto intro!: keepsI elim!: on_scope_Inr simp: scope_only_def)

lemma init_state_scope_only: "keeps scope_only (init_code_generation_state fc)"
  unfolding init_code_generation_state_def
  by (cases "fc_return_value fc") (auto intro!: scoped.keeps_seqs scoped.keeps_rules scoped_prims simp del: ret_run)

lemma fresh_wrapper:
  assumes "ForwardWrapperBase_init fc = Inr w"
  shows "\<exists>sc. w = (empty_wrapper Forward (fc_parse_error_return fc) (fc_error_return fc))\<lparr>w_declarations := sc\<rparr>"
proof -
  from assms have "init_code_generation_state fc
      (empty_wrapper Forward (fc_parse_error_return fc) (fc_error_return fc)) = (Inr (), w)"
    by (auto simp: ForwardWrapperBase_init_def split: prod.splits sum.splits)
  from keepsD [OF init_state_scope_only this] show ?thesis by (simp add: scope_only_def)
qed

section \<open>The whole body\<close>

definition forward_class_ok :: "forward_class \<Rightarrow> bool" where
  "forward_class_ok fc \<longleftrightarrow>
     list_all forward_param_ok (fc_parameters fc) \<and>
     keeps wrapper_grows (fc_before_call_hook fc) \<and> keeps wrapper_grows (fc_generate_call fc) \<and>
     keeps wrapper_grows (fc_before_return_hook fc) \<and>
     (case fc_return_value fc of None \<Rightarrow> True | Some rv \<Rightarrow> keeps wrapper_grows (ro_convert_c_to_python rv))"

text \<open>Everything before the PyArg_ParseTuple call is decided.\<close>

definition fill_before_parse :: "forward_class \<Rightarrow> (wrapper, unit) py" where
  "fill_before_parse fc =
     bnd (if fc_unblock_threads fc then
            bnd (w_declare ''PyThreadState*'' ''py_thread_state'' (PyStr ''NULL'') None) (\<lambda>v.
            bnd (w_write After_Call (nl @ ''if ('' @ v @ '')'' @ nl @ ''     PyEval_RestoreThread('' @ v @ '');'' @ nl))
              (\<lambda>_. ret v))
          else ret []) (\<lambda>py_thread_state.
     seqs [
       for_each convert_parameter (fc_parameters fc),
       write_deprecation (fc_deprecated fc),
       fc_before_call_hook fc,
       when_py (fc_unblock_threads fc)
         (w_write Before_Call (nl @ ''if (PyEval_ThreadsInitialized ())'' @ nl @ ''     '' @ py_thread_state @
            '' = PyEval_SaveThread();'' @ nl)),
       fc_generate_call fc])"

lemma fill_body_split:
  "fill_body fc = bnd (fill_before_parse fc) (\<lambda>_. bnd (write_parse_call fc) (\<lambda>_. write_return fc))"
proof -
  have "bnd m (\<lambda>_. ret ()) = m" for m :: "(wrapper, unit) py"
    by (auto simp: fun_eq_iff bnd_def split: prod.splits sum.splits)
  then show ?thesis
    by (simp add: fill_body_def fill_before_parse_def bnd_assoc del: ret_run)
qed

lemma keeps_write_deprecation: "keeps wrapper_grows (write_deprecation d)"
  unfolding write_deprecation_def by (intro grows_intros)

lemma keeps_fill_before_parse:
  assumes "forward_class_ok fc"
  shows "keeps wrapper_grows (fill_before_parse fc)"
  using assms unfolding fill_before_parse_def forward_class_ok_def
  by (auto intro!: grows_intros grows.keeps_seqs convert_parameters_ok(1) keeps_write_deprecation simp del: ret_run)

lemma keeps_build_return_value: "keeps wrapper_grows build_return_value"
  unfolding build_return_value_def by (auto intro!: grows_intros grows.keeps_seqs simp del: ret_run)

lemma keeps_write_return:
  assumes "forward_class_ok fc"
  shows "keeps wrapper_grows (write_return fc)"
  using assms unfolding write_return_def forward_class_ok_def
  by (cases "fc_return_value fc")
     (auto intro!: grows_intros grows.keeps_seqs grows.keeps_reraise keeps_build_return_value simp del: ret_run)

definition same_frame :: "wrapper \<Rightarrow> wrapper \<Rightarrow> bool" where
  "same_frame w w' \<longleftrightarrow> w_kind w' = w_kind w \<and>
     (\<forall>b. cb_error_return (get_block b w') = cb_error_return (get_block b w))"

interpretation framed: step_relation same_frame
  by unfold_locales (simp_all add: same_frame_def)

lemma grows_frame: "keeps wrapper_grows m \<Longrightarrow> keeps same_frame m"
  by (auto simp: keeps_def wrapper_grows_def same_frame_def block_grows_def)

lemma framed_flag: "keeps same_frame (add_meth_flag flag)"
  by (auto simp: keeps_def add_meth_flag_def same_frame_def)

text \<open>The flags that describe the calling convention, from the parsed arguments.\<close>

definition expected_flags :: "forward_class \<Rightarrow> parse_params \<Rightarrow> string list" where
  "expected_flags fc items =
     (if pt_get_parameters items = Inr [dq @ dq] \<and> fc_force_parse fc = None then [''METH_NOARGS'']
      else if pt_get_keywords items = Inr None \<and> fc_force_parse fc \<noteq> Some PARSE_TUPLE_AND_KEYWORDS
      then [''METH_VARARGS''] else [''METH_VARARGS'', ''METH_KEYWORDS''])"

lemma expected_flags_cases:
  "remdups (expected_flags fc items) \<in> {[''METH_NOARGS''], [''METH_VARARGS''], [''METH_VARARGS'', ''METH_KEYWORDS'']}"
  by (simp add: expected_flags_def)

lemma flags_block: "on_block b m w = (Inr a, w') \<Longrightarrow> w_meth_flags w' = w_meth_flags w"
  by (erule on_block_Inr) simp

lemma flags_scope: "on_scope m w = (Inr a, w') \<Longrightarrow> w_meth_flags w' = w_meth_flags w"
  by (erule on_scope_Inr) simp

lemma write_parse_call_flags:
  assumes "write_parse_call fc w = (Inr (), w')"
  shows "w_meth_flags w' = w_meth_flags w @ expected_flags fc (w_parse_params w) \<and> same_frame w w'"
proof -
  from assms obtain params where ps: "pt_get_parameters (w_parse_params w) = Inr params"
    by (cases "pt_get_parameters (w_parse_params w)") (auto simp: write_parse_call_def)
  with assms obtain kws where ks: "pt_get_keywords (w_parse_params w) = Inr kws"
    by (cases "pt_get_keywords (w_parse_params w)") (auto simp: write_parse_call_def)
  have "keeps same_frame (write_parse_call fc)"
    unfolding write_parse_call_def
    by (auto intro!: framed.keeps_rules framed.keeps_seqs framed_flag
        grows_frame [OF keeps_error_check] grows_frame [OF keeps_declare] simp del: ret_run)
  moreover have "w_meth_flags w' = w_meth_flags w @ expected_flags fc (w_parse_params w)"
    using assms ps ks
    by (auto simp: write_parse_call_def expected_flags_def add_meth_flag_def w_error_check_def w_declare_def
        split: if_splits elim!: bnd_eq_InrE dest!: flags_block flags_scope)
  ultimately show ?thesis using assms by (blast dest: keepsD)
qed

lemma fill_body_frame:
  assumes "forward_class_ok fc" and "fill_body fc w = (Inr (), w')"
  shows "same_frame w w' \<and> (\<exists>items. w_meth_flags w' = w_meth_flags w @ expected_flags fc items)"
proof -
  from assms(2) obtain w1 w2 where "fill_before_parse fc w = (Inr (), w1)"
      "write_parse_call fc w1 = (Inr (), w2)" "write_return fc w2 = (Inr (), w')"
    by (auto simp: fill_body_split elim!: bnd_eq_InrE)
  with keepsD [OF keeps_fill_before_parse [OF assms(1)]] keepsD [OF keeps_write_return [OF assms(1)]]
    write_parse_call_flags [of fc w1 w2]
  have "wrapper_grows w w1" "wrapper_grows w2 w'" "same_frame w1 w2"
      "w_meth_flags w2 = w_meth_flags w1 @ expected_flags fc (w_parse_params w1)" by blast+
  then show ?thesis
    by (auto simp: same_frame_def wrapper_grows_def block_grows_def)
qed

section \<open>Writing the body out\<close>

definition emptied :: "wrapper \<Rightarrow> wrapper" where
  "emptied w = w\<lparr>
     w_declarations := (w_declarations w)\<lparr>sc_sink := (sc_sink (w_declarations w))\<lparr>sink_lines := []\<rparr>\<rparr>,
     w_before_parse := (w_before_parse w)\<lparr>cb_sink := (cb_sink (w_before_parse w))\<lparr>sink_lines := []\<rparr>\<rparr>,
     w_before_call := (w_before_call w)\<lparr>cb_sink := (cb_sink (w_before_call w))\<lparr>sink_lines := []\<rparr>\<rparr>,
     w_after_call := (w_after_call w)\<lparr>cb_sink := (cb_sink (w_after_call w))\<lparr>sink_lines := []\<rparr>\<rparr>\<rparr>"

text \<open>The lines of the body, in the order in which they are written out.\<close>

definition body_lines :: "wrapper \<Rightarrow> string list" where
  "body_lines w =
     map rstrip (sink_lines (sc_sink (w_declarations w))) @ [[]] @
     map rstrip (sink_lines (cb_sink (w_before_parse w))) @
     map rstrip (sink_lines (cb_sink (w_before_call w))) @
     map rstrip (sink_lines (cb_sink (w_after_call w)))"

lemma write_body_run:
  "write_body sk (w, t) = (Inr (), (emptied w, fold (s_writeln sk) (body_lines w) t))"
  by (simp add: write_body_def flush_declarations_def flush_block_def emit_def mem_flush_to_def emptied_def
      body_lines_def fold_map o_def)

lemma generate_body_run:
  "generate_body sk fc (w, t) =
     (case fill_body fc w of
        (Inl e, w') \<Rightarrow> (Inl e, (w', t))
      | (Inr _, w') \<Rightarrow> (Inr (), (emptied w', fold (s_writeln sk) (body_lines w') t)))"
  by (auto simp: generate_body_def on_wrapper_def bnd_def write_body_run split: prod.splits sum.splits)

lemma emptied_frame: "same_frame w (emptied w)" "w_meth_flags (emptied w) = w_meth_flags w"
proof -
  show "same_frame w (emptied w)"
    unfolding same_frame_def
  proof (intro conjI allI)
    fix b
    show "cb_error_return (get_block b (emptied w)) = cb_error_return (get_block b w)"
      by (cases b) (simp_all add: emptied_def)
  qed (simp_all add: emptied_def)
qed (simp add: emptied_def)

text \<open>Setting up the declarations does not look at the names kept by the handlers.\<close>

definition ignores_py_names :: "(wrapper, 'a) py \<Rightarrow> bool" where
  "ignores_py_names m \<longleftrightarrow> (\<forall>w p. m (w\<lparr>w_py_names := p\<rparr>) = (fst (m w), (snd (m w))\<lparr>w_py_names := p\<rparr>))"

lemma ignores_py_names_rules:
  "ignores_py_names (ret a)" "ignores_py_names (raise_py e)"
  "ignores_py_names (w_declare ctype name init array)" "ignores_py_names (w_reserve name)"
  by (auto simp: ignores_py_names_def w_declare_def w_reserve_def on_scope_def split: prod.splits)

lemma ignores_py_names_bnd:
  assumes m: "ignores_py_names m" and f: "\<And>a. ignores_py_names (f a)"
  shows "ignores_py_names (bnd m f)"
  unfolding ignores_py_names_def
proof (intro allI)
  fix w p
  obtain r w1 where run: "m w = (r, w1)" by force
  then have "m (w\<lparr>w_py_names := p\<rparr>) = (r, w1\<lparr>w_py_names := p\<rparr>)" using m by (simp add: ignores_py_names_def)
  with run f show "bnd m f (w\<lparr>w_py_names := p\<rparr>) = (fst (bnd m f w), (snd (bnd m f w))\<lparr>w_py_names := p\<rparr>)"
    by (cases r) (simp_all add: bnd_def ignores_py_names_def)
qed

lemma init_ignores_py_names: "ignores_py_names (init_code_generation_state fc)"
  unfolding init_code_generation_state_def
  by (cases "fc_return_value fc")
     (auto intro!: ignores_py_names_bnd ignores_py_names_rules simp: when_py_def simp del: ret_run)

text \<open>Resetting gives the state that the constructor gives, whatever was generated before.\<close>

lemma reset_is_init:
  assumes "w_kind w = Forward"
    and "\<And>b. cb_error_return (get_block b w) = (if b = After_Call then e else pe)"
    and "init_code_generation_state fc (empty_wrapper Forward pe e) = (r, w0)"
  shows "reset_code_generation_state fc w = (r, w0\<lparr>w_py_names := w_py_names w\<rparr>)"
proof -
  have "cb_error_return (w_before_parse w) = pe" "cb_error_return (w_before_call w) = pe"
      "cb_error_return (w_after_call w) = e"
    using assms(2) [of Before_Parse] assms(2) [of Before_Call] assms(2) [of After_Call] by simp_all
  moreover have "bnd (init_code_generation_state fc) (\<lambda>_. ret ()) = init_code_generation_state fc"
    by (auto simp: fun_eq_iff bnd_def split: prod.splits sum.splits)
  ultimately have "reset_code_generation_state fc w =
      init_code_generation_state fc ((empty_wrapper Forward pe e)\<lparr>w_py_names := w_py_names w\<rparr>)"
    using assms(1)
    by (simp add: reset_code_generation_state_def on_block_def cb_clear_def empty_wrapper_def
        CodeBlock_init_def scope_clear_def DeclarationsScope_init_def del: ret_run)
       (rule arg_cong [where f = "init_code_generation_state fc"],
        auto intro!: wrapper.equality code_block.equality scope.equality)
  then show ?thesis using init_ignores_py_names [of fc] assms(3) by (simp add: ignores_py_names_def)
qed

lemma method_def_flags_Inr:
  assumes "w_meth_flags w = []" and "get_py_method_def_flags fc w = (Inr flags, w')"
  shows "\<exists>w1. fill_body fc w = (Inr (), w1) \<and> flags = flag_set (w_meth_flags w1) \<and>
    reset_code_generation_state fc (emptied w1) = (Inr (), w')"
proof -
  obtain r w1 where fill: "fill_body fc w = (r, w1)" by force
  show ?thesis
  proof (cases r)
    case (Inl e)
    obtain r2 w2 where "reset_code_generation_state fc w1 = (r2, w2)" by force
    with assms fill Inl show ?thesis
      by (cases r2) (simp_all add: get_py_method_def_flags_def try_finally_def generate_body_run)
  next
    case (Inr u)
    obtain r2 w2 where "reset_code_generation_state fc (emptied w1) = (r2, w2)" by force
    with assms fill Inr show ?thesis
      by (cases r2)
         (simp_all add: get_py_method_def_flags_def try_finally_def generate_body_run emptied_frame(2))
  qed
qed

section \<open>Properties\<close>

text \<open>
  C12. The dry run of \<open>get_py_method_def_flags\<close> leaves no trace: called on a wrapper as the constructor
  made it, it generates the whole body into a null sink, and afterwards the wrapper is again exactly
  as the constructor made it, except for the variable names that handlers remember.  The flags returned are METH_NOARGS alone, METH_VARARGS alone, or
  METH_VARARGS with METH_KEYWORDS.
\<close>

theorem method_def_flags_no_trace:
  assumes "ForwardWrapperBase_init fc = Inr w" and "forward_class_ok fc"
    and "get_py_method_def_flags fc w = (Inr flags, w')"
  shows "w' = w\<lparr>w_py_names := w_py_names w'\<rparr> \<and> flags \<in> {[''METH_NOARGS''], [''METH_VARARGS''], [''METH_VARARGS'', ''METH_KEYWORDS'']}"
proof -
  let ?e = "empty_wrapper Forward (fc_parse_error_return fc) (fc_error_return fc)"
  obtain sc where w: "w = ?e\<lparr>w_declarations := sc\<rparr>" using fresh_wrapper [OF assms(1)] by blast
  have init: "init_code_generation_state fc ?e = (Inr (), w)"
    using assms(1) by (auto simp: ForwardWrapperBase_init_def split: prod.splits sum.splits)
  have no_flags: "w_meth_flags w = []" by (simp add: w empty_wrapper_def)
  obtain w1 where fill: "fill_body fc w = (Inr (), w1)"
      and flags: "flags = flag_set (w_meth_flags w1)"
      and reset: "reset_code_generation_state fc (emptied w1) = (Inr (), w')"
    using method_def_flags_Inr [OF no_flags assms(3)] by blast
  have "same_frame w w1" and fl: "\<exists>items. w_meth_flags w1 = expected_flags fc items"
    using fill_body_frame [OF assms(2) fill] no_flags by auto
  then have fr: "same_frame w (emptied w1)" using framed.trans emptied_frame(1) by blast
  have "w_kind (emptied w1) = Forward"
    using fr by (simp add: same_frame_def w empty_wrapper_def)
  moreover have "cb_error_return (get_block b (emptied w1)) =
      (if b = After_Call then fc_error_return fc else fc_parse_error_return fc)" for b
  proof -
    have "cb_error_return (get_block b (emptied w1)) = cb_error_return (get_block b w)"
      using fr by (simp add: same_frame_def)
    then show ?thesis by (cases b) (simp_all add: w empty_wrapper_def CodeBlock_init_def)
  qed
  ultimately have "reset_code_generation_state fc (emptied w1) = (Inr (), w\<lparr>w_py_names := w_py_names (emptied w1)\<rparr>)"
    using init by (rule reset_is_init)
  then have "w' = w\<lparr>w_py_names := w_py_names w'\<rparr>" using reset by simp
  moreover have "flags \<in> {[''METH_NOARGS''], [''METH_VARARGS''], [''METH_VARARGS'', ''METH_KEYWORDS'']}"
    using fl expected_flags_cases unfolding flags flag_set_def by metis
  ultimately show ?thesis ..
qed

definition sample_class :: forward_class where
  "sample_class = \<lparr>fc_return_value = None, fc_parameters = [], fc_parse_error_return = ''return NULL;'',
     fc_error_return = ''return NULL;'', fc_force_parse = None, fc_no_c_retval = False, fc_unblock_threads = False,
     fc_deprecated = PyBool False, fc_have_return_value = False, fc_before_call_hook = ret (),
     fc_generate_call = w_write Before_Call ''f();'', fc_before_return_hook = ret ()\<rparr>"

theorem method_def_flags_no_trace_witness:
  "\<exists>w. ForwardWrapperBase_init sample_class = Inr w \<and>
     (\<exists>w'. get_py_method_def_flags sample_class w = (Inr [''METH_NOARGS''], w') \<and> w' = w\<lparr>w_py_names := w_py_names w'\<rparr>)"
proof -
  have run: "case ForwardWrapperBase_init sample_class of Inl e \<Rightarrow> False
      | Inr w \<Rightarrow> fst (get_py_method_def_flags sample_class w) = Inr [''METH_NOARGS'']"
    by code_simp
  then obtain w where w: "ForwardWrapperBase_init sample_class = Inr w"
      "fst (get_py_method_def_flags sample_class w) = Inr [''METH_NOARGS'']"
    by (auto split: sum.splits)
  then have "get_py_method_def_flags sample_class w =
      (Inr [''METH_NOARGS''], snd (get_py_method_def_flags sample_class w))" by (metis prod.collapse)
  moreover have "forward_class_ok sample_class"
    by (simp add: forward_class_ok_def sample_class_def grows_intros del: ret_run)
  ultimately show ?thesis using method_def_flags_no_trace [OF w(1)] w(1) by metis
qed

lemma body_lines_emptied: "body_lines (emptied w) = [[]]"
  by (simp add: body_lines_def emptied_def)

definition file_class :: "file_sink sink_class" where
  "file_class = \<lparr>s_writeln = file_writeln, s_indent = sink_indent, s_unindent = sink_unindent\<rparr>"

text \<open>
  C11. Writing a body to a file is all or nothing.  When generation fails, the exception reaches the
  caller and the file has not been touched.  When it succeeds, the file receives, at its current
  indentation, all variable declarations, an empty line, and then the code before parsing, before
  the call and after the call (no statement comes before a declaration); its indentation is
  unchanged and the wrapper's blocks are left empty.
\<close>

theorem generate_body_file:
  "(case generate_body file_class fc (w, t) of
      (r, w', t') \<Rightarrow>
        (case fill_body fc w of
           (Inl e, w1) \<Rightarrow> r = Inl e \<and> t' = t
         | (Inr _, w1) \<Rightarrow> r = Inr () \<and> body_lines w' = [[]] \<and>
             indent_level t' = indent_level t \<and> indent_stack t' = indent_stack t \<and>
             sink_file t' = sink_file t @ text_of (concat (map (format_code (indent_level t)) (body_lines w1)))))"
  using fil_sink.view_writes [of _ t] fil_sink.level_writes [of _ t] fil_sink.stack_writes [of _ t]
  by (auto simp: generate_body_run file_class_def fil_sink.writes_def [symmetric] body_lines_emptied
      split: prod.splits sum.splits)

end
