(* ===== verification/Type_Handler.thy ===== *)
theory Type_Handler
  imports Type_Matcher Wrapper_Laws
begin

text \<open>
  \<open>TypeHandler\<close>, \<open>ReturnValue\<close>, \<open>Parameter\<close> and the pointer variants of
  \<open>pybindgen/typehandlers/base.py\<close>: construction, directions, and the factory \<open>new\<close>; and the
  statements from which the built-in type handlers are put together.
\<close>

named_theorems class_defs \<open>class records of the built-in handlers\<close>
named_theorems method_defs \<open>methods of the built-in handlers\<close>
named_theorems init_defs \<open>constructors of the built-in handlers\<close>

section \<open>TypeHandler\<close>

text \<open>\<open>th_transformation\<close> is \<open>None\<close> for the null transformation, else the transformation's name.\<close>

record type_handler =
  th_ctype :: "string option"
  th_untransformed_ctype :: "string option"
  th_type_traits :: "type_traits option"
  th_transformation :: "string option"

datatype ctype_arg = No_Ctype | Traits_Arg type_traits | String_Arg string | Other_Arg

definition apply_is_const :: "bool \<Rightarrow> type_traits \<Rightarrow> type_traits res" where
  "apply_is_const is_const traits =
     (if is_const then
        if tt_is_pointer traits \<or> tt_is_reference traits then make_target_const traits
        else Inr (make_const traits)
      else Inr traits)"

definition handler_traits :: "ctype_arg \<Rightarrow> bool \<Rightarrow> type_traits option res option" where
  "handler_traits ctype is_const =
     (case ctype of
        No_Ctype \<Rightarrow> Some (Inr None)
      | Traits_Arg traits \<Rightarrow> Some (bind_res (apply_is_const is_const traits) (\<lambda>t. Inr (Some t)))
      | String_Arg s \<Rightarrow>
          bind_div (TypeTraits (if is_const then ''const '' @ s else s)) (\<lambda>t. Some (Inr (Some t)))
      | Other_Arg \<Rightarrow> Some (Inl (TypeError [])))"

definition TypeHandler_init :: "ctype_arg \<Rightarrow> bool \<Rightarrow> type_handler res option" where
  "TypeHandler_init ctype is_const =
     bind_div (handler_traits ctype is_const) (\<lambda>traits.
       let c = map_option (\<lambda>t. ctype_str (tt_ctype t)) traits in
       Some (Inr \<lparr>th_ctype = c, th_untransformed_ctype = c, th_type_traits = traits, th_transformation = None\<rparr>))"

definition ctype_no_const :: "('a type_handler_scheme) \<Rightarrow> string res" where
  "ctype_no_const th =
     (case th_type_traits th of None \<Rightarrow> Inl (AttributeError ''ctype_no_const'')
      | Some t \<Rightarrow> Inr (ctype_str (tt_ctype_no_const t)))"

text \<open>\<open>str(self.type_traits.target)\<close>; the target of a type that is no pointer or reference is None.\<close>

definition target_str :: "('a type_handler_scheme) \<Rightarrow> string res" where
  "target_str th =
     (case th_type_traits th of None \<Rightarrow> Inl (AttributeError ''target'')
      | Some t \<Rightarrow> Inr (case tt_target t of None \<Rightarrow> ''None'' | Some c \<Rightarrow> ctype_str c))"

definition set_transformation ::
  "bool \<Rightarrow> string \<Rightarrow> string \<Rightarrow> ('a type_handler_scheme) \<Rightarrow> ('a type_handler_scheme) res" where
  "set_transformation supports_transformations transformation untransformed_ctype th =
     (if Some untransformed_ctype = th_ctype th \<or> th_transformation th \<noteq> None \<or> \<not> supports_transformations
      then Inl AssertionError
      else Inr (th\<lparr>th_transformation := Some transformation, th_untransformed_ctype := Some untransformed_ctype\<rparr>))"

section \<open>Return values and parameters\<close>

record retval = type_handler +
  r_value :: string
  r_caller_owns_return :: pyval

record param = type_handler +
  p_name :: string
  p_direction :: int
  p_value :: string
  p_default_value :: pyval
  p_transfer_ownership :: pyval
  p_array_length :: "int option"

definition DIRECTION_IN :: int where "DIRECTION_IN = 1"
definition DIRECTION_OUT :: int where "DIRECTION_OUT = 2"
definition DIRECTION_INOUT :: int where "DIRECTION_INOUT = 3"

definition direction_value_to_name :: "int \<Rightarrow> string" where
  "direction_value_to_name v =
     (if v = DIRECTION_IN then ''DIRECTION_IN'' else if v = DIRECTION_OUT then ''DIRECTION_OUT''
      else if v = DIRECTION_INOUT then ''DIRECTION_INOUT'' else ''(invalid '' @ str_of_int v @ '')'')"

text \<open>\<open>self.direction & bits\<close> as a truth value.\<close>

definition has_direction :: "int \<Rightarrow> int \<Rightarrow> bool" where
  "has_direction direction bits \<longleftrightarrow> and direction bits \<noteq> 0"

abbreviation dir_in :: "param \<Rightarrow> bool" where
  "dir_in p \<equiv> has_direction (p_direction p) DIRECTION_IN"

abbreviation dir_out :: "param \<Rightarrow> bool" where
  "dir_out p \<equiv> has_direction (p_direction p) DIRECTION_OUT"

definition ReturnValue_init :: "ctype_arg \<Rightarrow> bool \<Rightarrow> retval res option" where
  "ReturnValue_init ctype is_const =
     bind_div (TypeHandler_init ctype is_const) (\<lambda>th.
       Some (Inr \<lparr>th_ctype = th_ctype th, th_untransformed_ctype = th_untransformed_ctype th,
         th_type_traits = th_type_traits th, th_transformation = th_transformation th,
         r_value = ''retval'', r_caller_owns_return = PyNone\<rparr>))"

definition PointerReturnValue_init :: "ctype_arg \<Rightarrow> bool \<Rightarrow> pyval \<Rightarrow> retval res option" where
  "PointerReturnValue_init ctype is_const caller_owns_return =
     bind_div (ReturnValue_init ctype is_const) (\<lambda>r. Some (Inr (r\<lparr>r_caller_owns_return := caller_owns_return\<rparr>)))"

definition Parameter_init ::
  "int list \<Rightarrow> ctype_arg \<Rightarrow> string \<Rightarrow> int \<Rightarrow> bool \<Rightarrow> pyval \<Rightarrow> param res option" where
  "Parameter_init DIRECTIONS ctype name direction is_const default_value =
     bind_div (TypeHandler_init ctype is_const) (\<lambda>th.
       if direction \<notin> set DIRECTIONS then Some (Inl AssertionError)
       else Some (Inr \<lparr>th_ctype = th_ctype th, th_untransformed_ctype = th_untransformed_ctype th,
         th_type_traits = th_type_traits th, th_transformation = th_transformation th,
         p_name = name, p_direction = direction, p_value = name, p_default_value = default_value,
         p_transfer_ownership = PyBool False, p_array_length = None\<rparr>))"

definition PointerParameter_init ::
  "int list \<Rightarrow> ctype_arg \<Rightarrow> string \<Rightarrow> int \<Rightarrow> bool \<Rightarrow> pyval \<Rightarrow> pyval \<Rightarrow> param res option" where
  "PointerParameter_init DIRECTIONS ctype name direction is_const default_value transfer_ownership =
     bind_div (Parameter_init DIRECTIONS ctype name direction is_const default_value) (\<lambda>p.
       Some (Inr (p\<lparr>p_transfer_ownership := transfer_ownership\<rparr>)))"

text \<open>
  \<open>ReturnValue.new\<close>: look the class up and construct it with the type traits in place of the type
  name, or let the transformation create the handler.  The constructors are parameters.
\<close>

definition ReturnValue_new ::
  "('t \<Rightarrow> string \<Rightarrow> string option res) \<Rightarrow> ('h, 't) type_matcher \<Rightarrow>
   ('h \<Rightarrow> type_traits \<Rightarrow> retval res option) \<Rightarrow> ('t \<Rightarrow> 'h \<Rightarrow> string \<Rightarrow> retval res option) \<Rightarrow>
   string \<Rightarrow> retval res option" where
  "ReturnValue_new untransformed_name tm construct create_type_handler ctype =
     bind_div (lookup untransformed_name tm ctype) (\<lambda>(handler_class, transformation, type_traits).
       case transformation of None \<Rightarrow> construct handler_class type_traits
       | Some t \<Rightarrow> create_type_handler t handler_class ctype)"

definition Parameter_new ::
  "('t \<Rightarrow> string \<Rightarrow> string option res) \<Rightarrow> ('h, 't) type_matcher \<Rightarrow>
   ('h \<Rightarrow> type_traits \<Rightarrow> param res option) \<Rightarrow> ('t \<Rightarrow> 'h \<Rightarrow> string \<Rightarrow> param res option) \<Rightarrow>
   string \<Rightarrow> param res option" where
  "Parameter_new untransformed_name tm construct create_type_handler ctype =
     bind_div (lookup untransformed_name tm ctype) (\<lambda>(handler_class, transformation, type_traits).
       case transformation of None \<Rightarrow> construct handler_class type_traits
       | Some t \<Rightarrow> create_type_handler t handler_class ctype)"

section \<open>Classes of handlers\<close>

record param_class =
  pc_name :: string
  pc_directions :: "int list"
  pc_ctypes :: "string list"
  pc_convert_c_to_python :: "param \<Rightarrow> (wrapper, unit) py"
  pc_convert_python_to_c :: "param \<Rightarrow> (wrapper, unit) py"

record retval_class =
  rvc_name :: string
  rvc_ctypes :: "string list"
  rvc_get_c_error_return :: string
  rvc_convert_python_to_c :: "retval \<Rightarrow> (wrapper, unit) py"
  rvc_convert_c_to_python :: "retval \<Rightarrow> (wrapper, unit) py"

text \<open>
  The metaclasses register a class under each of its \<open>CTYPES\<close> when the class statement is executed;
  \<open>register_classes\<close> runs a sequence of class statements.
\<close>

primrec register_ctypes ::
  "string list \<Rightarrow> 'h \<Rightarrow> ('h, 't) type_matcher \<Rightarrow> (unit res \<times> ('h, 't) type_matcher) option" where
  "register_ctypes [] handler tm = Some (Inr (), tm)"
| "register_ctypes (ctype # ctypes) handler tm =
     (case register ctype handler tm of
        None \<Rightarrow> None
      | Some (Inl e, tm') \<Rightarrow> Some (Inl e, tm')
      | Some (Inr _, tm') \<Rightarrow> register_ctypes ctypes handler tm')"

fun register_classes ::
  "('h \<times> string list) list \<Rightarrow> ('h, 't) type_matcher \<Rightarrow> (unit res \<times> ('h, 't) type_matcher) option" where
  "register_classes [] tm = Some (Inr (), tm)"
| "register_classes ((handler, ctypes) # classes) tm =
     (case register_ctypes ctypes handler tm of
        None \<Rightarrow> None
      | Some (Inl e, tm') \<Rightarrow> Some (Inl e, tm')
      | Some (Inr _, tm') \<Rightarrow> register_classes classes tm')"

section \<open>Statements of the type handlers\<close>

definition sq :: string where "sq = [CHR 0x27]"

text \<open>\<open>assert isinstance(wrapper, ...)\<close>.\<close>

definition assert_kind :: "wrapper_kind \<Rightarrow> (wrapper, unit) py" where
  "assert_kind k = bnd (gets w_kind) (\<lambda>k'. assert_py (k' = k))"

abbreviation declare_var :: "string \<Rightarrow> string \<Rightarrow> (wrapper, string) py" where
  "declare_var ctype name \<equiv> w_declare ctype name PyNone None"

abbreviation declare_init :: "string \<Rightarrow> string \<Rightarrow> pyval \<Rightarrow> (wrapper, string) py" where
  "declare_init ctype name init \<equiv> w_declare ctype name init None"

text \<open>A parse item with a name and one without, at the end or in front; a build item.\<close>

abbreviation parse_arg :: "string \<Rightarrow> string list \<Rightarrow> string \<Rightarrow> bool \<Rightarrow> (wrapper, unit) py" where
  "parse_arg template vals name optional \<equiv> w_parse_add template vals (Some name) False optional"

abbreviation parse_ret :: "string \<Rightarrow> string list \<Rightarrow> bool \<Rightarrow> (wrapper, unit) py" where
  "parse_ret template vals prepend \<equiv> w_parse_add template vals None prepend False"

text \<open>\<open>str(v)\<close> of a default value, as the \<open>%s\<close> of a template prints it.\<close>

fun py_str :: "pyval \<Rightarrow> string" where
  "py_str PyNone = ''None''"
| "py_str (PyBool b) = (if b then ''True'' else ''False'')"
| "py_str (PyInt n) = str_of_int n"
| "py_str (PyStr s) = s"

subsection \<open>Range checks in the generated code\<close>

text \<open>
  The range checks are disjunctions of comparisons of a variable with a literal; \<open>check_text\<close> is the
  C expression, \<open>check_holds\<close> its meaning for a value of the variable.
\<close>

datatype ccmp = Gt | Lt

type_synonym range_check = "(ccmp \<times> string) list"

definition check_text :: "string \<Rightarrow> range_check \<Rightarrow> string" where
  "check_text x cs = join '' || '' (map (\<lambda>(c, l). x @ (case c of Gt \<Rightarrow> '' > '' | Lt \<Rightarrow> '' < '') @ l) cs)"

definition hex_digit :: "char \<Rightarrow> nat" where
  "hex_digit c = (if isdigit_char c then of_char c - 48 else of_char (lower_char c) - 87)"

definition c_literal :: "string \<Rightarrow> int" where
  "c_literal s =
     (if startswith s ''0x'' then int (foldl (\<lambda>n c. 16 * n + hex_digit c) 0 (drop 2 s))
      else if startswith s ''-'' then - int (nat_of_digits 0 (drop 1 s))
      else int (nat_of_digits 0 s))"

definition check_holds :: "range_check \<Rightarrow> int \<Rightarrow> bool" where
  "check_holds cs v = list_ex (\<lambda>(c, l). case c of Gt \<Rightarrow> v > c_literal l | Lt \<Rightarrow> v < c_literal l) cs"

section \<open>What the statements keep\<close>

lemma keeps_assert_kind:
  "keeps wrapper_grows (assert_kind k)" "keeps appends_named (assert_kind k)"
  unfolding assert_kind_def by (intro grows_intros named_intros)+

lemma adds_assert_kind: "adds q 0 (assert_kind k)"
  by (auto simp: adds_def assert_kind_def assert_py_def)

lemma has_direction_values [simp]:
  "has_direction 1 DIRECTION_IN" "\<not> has_direction 1 DIRECTION_OUT"
  "\<not> has_direction 2 DIRECTION_IN" "has_direction 2 DIRECTION_OUT"
  "has_direction 3 DIRECTION_IN" "has_direction 3 DIRECTION_OUT"
  by (simp_all add: has_direction_def DIRECTION_IN_def DIRECTION_OUT_def)

section \<open>Registration\<close>

lemma register_Inr:
  assumes "register c h tm = Some (Inr u, tm')"
  shows "\<exists>n. normalize_type_string c = Some (Inr n) \<and> map_of (tm_types tm) n = None \<and>
    map_of (tm_types tm') = (map_of (tm_types tm))(n \<mapsto> h)"
proof -
  from assms obtain n where n: "normalize_type_string c = Some (Inr n)"
      and r: "register_normalized n h tm = (Inr u, tm')"
    by (cases "the (normalize_type_string c)") (auto simp: register_def)
  moreover have "map_of (tm_types tm) n = None"
    using types.put_known [of tm n h] r by fastforce
  ultimately show ?thesis using types.put_new [of tm n h] by fastforce
qed

lemma register_ctypes_Inr:
  "register_ctypes ctypes h tm = Some (Inr (), tm') \<Longrightarrow>
     (\<forall>c \<in> set ctypes. \<exists>n. normalize_type_string c = Some (Inr n) \<and> map_of (tm_types tm') n = Some h) \<and>
     map_of (tm_types tm) \<subseteq>\<^sub>m map_of (tm_types tm')"
proof (induction ctypes arbitrary: tm)
  case (Cons c ctypes)
  then obtain tm1 where r: "register c h tm = Some (Inr (), tm1)"
      and rest: "register_ctypes ctypes h tm1 = Some (Inr (), tm')"
    by (auto split: option.splits sum.splits prod.splits)
  obtain n where n: "normalize_type_string c = Some (Inr n)" "map_of (tm_types tm) n = None"
      "map_of (tm_types tm1) = (map_of (tm_types tm))(n \<mapsto> h)"
    using register_Inr [OF r] by blast
  have le: "map_of (tm_types tm1) \<subseteq>\<^sub>m map_of (tm_types tm')" using Cons.IH [OF rest] by blast
  then have "map_of (tm_types tm') n = Some h" using n(3) by (metis domI fun_upd_same map_le_def)
  moreover have "map_of (tm_types tm) \<subseteq>\<^sub>m map_of (tm_types tm')"
    using le n(2,3) by (metis map_le_imp_upd_le map_le_trans upd_None_map_le fun_upd_triv)
  ultimately show ?case using Cons.IH [OF rest] n(1) by auto
qed simp

text \<open>
  C36. When the class statement of a handler succeeds, the class is in the table of handlers under every
  name of its \<open>CTYPES\<close>, and no name registered before has changed its handler.
\<close>

theorem class_registration:
  assumes "register_ctypes ctypes h tm = Some (Inr (), tm')" and "c \<in> set ctypes"
    and "normalize_type_string c = Some (Inr n)"
  shows "map_of (tm_types tm') n = Some h \<and>
    (map_of (tm_types tm) m = Some h' \<longrightarrow> map_of (tm_types tm') m = Some h')"
  using register_ctypes_Inr [OF assms(1)] assms(2,3) by (auto simp: map_le_def dom_def)

theorem class_registration_witness:
  "\<exists>tm'. register_ctypes [''double'', ''long  int''] ''H'' int_matcher = Some (Inr (), tm') \<and>
     map_of (tm_types tm') ''long int'' = Some ''H'' \<and> map_of (tm_types tm') ''int'' = Some ''IntParam''"
proof -
  have run: "case register_ctypes [''double'', ''long  int''] ''H'' int_matcher of Some (Inr _, tm) \<Rightarrow> True | _ \<Rightarrow> False"
    by code_simp
  then obtain tm' where r: "register_ctypes [''double'', ''long  int''] ''H'' int_matcher = Some (Inr (), tm')"
    by (auto split: option.splits sum.splits prod.splits)
  have n: "normalize_type_string ''long  int'' = Some (Inr ''long int'')" by code_simp
  from class_registration [OF r _ n, of "''int''" "''IntParam''"] r show ?thesis
    by (auto simp: int_matcher_def)
qed

end
