(* ===== verification/Utils.thy ===== *)
theory Utils
  imports Type_Handler
begin

text \<open>
  \<open>pybindgen/utils.py\<close> and the global \<open>pybindgen/settings.py\<close>: name mangling, the error handling
  that wraps every step of the generation, parameter and return value specifications with delayed
  lookup, and the preamble of a generated file.  A custom error handler is code of the user: it is
  an argument, a function from the wrapper and the exception to its decision (or an exception).
\<close>

section \<open>Settings\<close>

record settings =
  st_name_prefix :: string
  st_automatic_type_narrowing :: bool
  st_allow_subclassing :: bool
  st_unblock_threads :: bool
  st_min_python_version :: "int list"
  st_deprecated_virtuals :: "bool option"
  st_gcc_rtti_abi_complete :: bool

definition default_settings :: settings where
  "default_settings = \<lparr>st_name_prefix = [], st_automatic_type_narrowing = False, st_allow_subclassing = False,
     st_unblock_threads = False, st_min_python_version = [2, 3], st_deprecated_virtuals = None,
     st_gcc_rtti_abi_complete = True\<rparr>"

definition get_deprecated_virtuals :: "settings \<Rightarrow> bool" where
  "get_deprecated_virtuals st = (case st_deprecated_virtuals st of None \<Rightarrow> False | Some b \<Rightarrow> b)"

type_synonym 'w error_handler = "'w \<Rightarrow> py_error \<Rightarrow> bool res"

text \<open>The method of the base class \<open>ErrorHandler\<close>.\<close>

definition ErrorHandler_handle_error :: "'w error_handler" where
  "ErrorHandler_handle_error w ex = Inl NotImplementedError"

section \<open>Writing to sinks\<close>

text \<open>The calls on a sink, as data: what a method writes is a list of them.\<close>

datatype sink_cmd = Writeln string | Indent | Unindent

fun run_cmd :: "'t sink_class \<Rightarrow> sink_cmd \<Rightarrow> ('t, unit) py" where
  "run_cmd sk (Writeln line) = upd (s_writeln sk line)"
| "run_cmd sk Indent = upd (s_indent sk 4)"
| "run_cmd sk Unindent = (\<lambda>t. case s_unindent sk t of Inl e \<Rightarrow> (Inl e, t) | Inr t' \<Rightarrow> (Inr (), t'))"

definition on_sink :: "('t, 'a) py \<Rightarrow> ('s \<times> 't, 'a) py" where
  "on_sink m = (\<lambda>(s, t). case m t of (r, t') \<Rightarrow> (r, (s, t')))"

definition opt_str :: "string option \<Rightarrow> string" where
  "opt_str v = (case v of None \<Rightarrow> ''None'' | Some s \<Rightarrow> s)"

section \<open>Mangling\<close>

definition mangle_name :: "string \<Rightarrow> string" where
  "mangle_name name =
     (let s = replace_char (CHR '','') ''_'' (replace_char (CHR ''>'') ''__gt__'' (replace_char (CHR ''<'') ''__lt__'' name));
          s = replace_char (CHR ''*'') ''__star__'' (replace_char (CHR ''&'') ''__amp__'' (replace_char (CHR '' '') ''_'' s));
          s = replace_char (CHR '':'') ''_'' s
      in replace_char (CHR '')'') ''_rp_'' (replace_char (CHR ''('') ''_lp_'' s))"

definition get_mangled_name :: "string \<Rightarrow> string list \<Rightarrow> string" where
  "get_mangled_name base_name template_args =
     (if template_args \<noteq> [] then
        mangle_name base_name @ ''__lt__'' @ join ''_'' (map mangle_name template_args) @ ''__gt__''
      else mangle_name base_name)"

section \<open>Error handling\<close>

text \<open>
  The handler receives a reference to the wrapper, and so sees it in the state in which the failed
  step left it: \<open>wrapper\<close> reads it from that state.
\<close>

text \<open>\<open>isinstance(ex, exceptions_to_handle)\<close> for the two tuples of classes that the generator uses.\<close>

fun generation_error :: "py_error \<Rightarrow> bool" where
  "generation_error (TypeConfigurationError _) = True"
| "generation_error (CodeGenerationError _) = True"
| "generation_error (NotSupportedError _) = True"
| "generation_error _ = False"

fun spec_error :: "py_error \<Rightarrow> bool" where
  "spec_error (TypeConfigurationError _) = True"
| "spec_error (NotSupportedError _) = True"
| "spec_error (TypeLookupError _) = True"
| "spec_error _ = False"

definition call_with_error_handling ::
  "'w error_handler option \<Rightarrow> ('s, 'a) py \<Rightarrow> ('s \<Rightarrow> 'w) \<Rightarrow> (py_error \<Rightarrow> bool) \<Rightarrow> ('s, 'a) py" where
  "call_with_error_handling error_handler callback wrapper exceptions_to_handle =
     (case error_handler of
        None \<Rightarrow> callback
      | Some handle_error \<Rightarrow> try_except callback (\<lambda>ex.
          if exceptions_to_handle ex then
            bnd (\<lambda>s. (handle_error (wrapper s) ex, s)) (\<lambda>handled.
              if handled then raise_py SkipWrapper else raise_py ex)
          else raise_py ex))"

section \<open>Specifications with delayed lookup\<close>

text \<open>A value given to \<open>ascii\<close>: a unicode object is the list of its code points.\<close>

datatype text_value = Py_Value pyval | Unicode "nat list"

definition ascii :: "text_value \<Rightarrow> string option res" where
  "ascii v =
     (case v of
        Py_Value PyNone \<Rightarrow> Inr None
      | Py_Value (PyStr s) \<Rightarrow> Inr (Some s)
      | Unicode cs \<Rightarrow>
          if list_all (\<lambda>c. c < 128) cs then Inr (Some (map char_of cs)) else Inl (ValueError ''UnicodeEncodeError'')
      | _ \<Rightarrow> Inl (TypeError ''value must be str or ascii string contained in a unicode object''))"

datatype spec_item = Pos_Arg pyval | Kw_Dict "(string \<times> pyval) list"

text \<open>What the caller may give as a parameter or a return value; \<open>Handler_Obj\<close> is a constructed handler.\<close>

datatype 'h spec = Handler_Obj 'h | Spec_Tuple "spec_item list" | Spec_Str string | Spec_Other pyval

type_synonym call_args = "spec_item list \<times> (string \<times> pyval) list"

definition param_spec :: "spec_item list \<Rightarrow> (string \<times> pyval) list \<Rightarrow> 'h spec" where
  "param_spec args kwargs = Spec_Tuple (args @ [Kw_Dict kwargs])"

definition retval_spec :: "spec_item list \<Rightarrow> (string \<times> pyval) list \<Rightarrow> 'h spec" where
  "retval_spec args kwargs = Spec_Tuple (args @ [Kw_Dict kwargs])"

text \<open>The branch that both parsers share: a dictionary in last position holds the keyword arguments.\<close>

definition split_spec :: "spec_item list \<Rightarrow> call_args" where
  "split_spec items = (case last items of Kw_Dict kwargs \<Rightarrow> (butlast items, kwargs) | Pos_Arg _ \<Rightarrow> (items, []))"

definition parse_param_spec :: "'h spec \<Rightarrow> call_args res" where
  "parse_param_spec spec =
     (case spec of
        Spec_Tuple items \<Rightarrow> if length items \<ge> 2 then Inr (split_spec items) else Inl AssertionError
      | _ \<Rightarrow> Inl (TypeError ''Could not parse as a Parameter''))"

definition parse_retval_spec :: "'h spec \<Rightarrow> call_args res" where
  "parse_retval_spec spec =
     (case spec of
        Spec_Tuple items \<Rightarrow> if length items \<ge> 1 then Inr (split_spec items) else Inl AssertionError
      | Spec_Str s \<Rightarrow> Inr ([Pos_Arg (PyStr s)], [])
      | _ \<Rightarrow> Inl (TypeError ''Could not parse as a ReturnValue''))"

text \<open>
  \<open>new\<close> stands for \<open>Parameter.new\<close> and \<open>ReturnValue.new\<close> on unpacked arguments; \<open>None\<close>: the lookup
  does not return.
\<close>

definition eval_spec ::
  "('h spec \<Rightarrow> call_args res) \<Rightarrow> 'w error_handler option \<Rightarrow> (call_args \<Rightarrow> 'h res option) \<Rightarrow> 'w \<Rightarrow> 'h spec \<Rightarrow> 'h res option" where
  "eval_spec parse error_handler new wrapper spec =
     (case spec of
        Handler_Obj h \<Rightarrow> Some (Inr h)
      | _ \<Rightarrow> bind_div (Some (parse spec)) (\<lambda>args.
          map_option (\<lambda>r. fst (call_with_error_handling error_handler (lift_res r) (\<lambda>_. wrapper) spec_error ())) (new args)))"

definition eval_param ::
  "'w error_handler option \<Rightarrow> (call_args \<Rightarrow> 'h res option) \<Rightarrow> 'w \<Rightarrow> 'h spec \<Rightarrow> 'h res option" where
  "eval_param = eval_spec parse_param_spec"

definition eval_retval ::
  "'w error_handler option \<Rightarrow> (call_args \<Rightarrow> 'h res option) \<Rightarrow> 'w \<Rightarrow> 'h spec \<Rightarrow> 'h res option" where
  "eval_retval = eval_spec parse_retval_spec"

section \<open>The preamble\<close>

definition tab :: string where "tab = [CHR 0x09]"
definition bslash :: string where "bslash = [CHR 0x5C]"

definition pybindgen_version :: "int list" where
  "pybindgen_version = [0, 16, 0]"

definition preamble_head :: "string \<Rightarrow> string" where
  "preamble_head version = join nl [
     ''/* This file was generated by PyBindGen '' @ version @ '' */'',
     ''#define PY_SSIZE_T_CLEAN'',
     ''#include <Python.h>'',
     ''#include <stddef.h>'',
     []]"

definition preamble_python23 :: string where
  "preamble_python23 = join nl [
     [],
     ''#if PY_VERSION_HEX < 0x020400F0'',
     [],
     ''#define PyEval_ThreadsInitialized() 1'',
     [],
     ''#define Py_CLEAR(op)'' @ tab @ tab @ tab @ tab @ bslash,
     ''        do {                            '' @ tab @ bslash,
     ''                if (op) {'' @ tab @ tab @ tab @ bslash,
     ''                        PyObject *tmp = (PyObject *)(op);'' @ tab @ bslash,
     ''                        (op) = NULL;'' @ tab @ tab @ bslash,
     ''                        Py_DECREF(tmp);'' @ tab @ tab @ bslash,
     ''                }'' @ tab @ tab @ tab @ tab @ bslash,
     ''        } while (0)'',
     [],
     [],
     ''#define Py_VISIT(op)'' @ tab @ tab @ tab @ tab @ tab @ tab @ tab @ bslash,
     ''        do { '' @ tab @ tab @ tab @ tab @ tab @ tab @ tab @ tab @ bslash,
     ''                if (op) {'' @ tab @ tab @ tab @ tab @ tab @ tab @ bslash,
     ''                        int vret = visit((PyObject *)(op), arg);'' @ tab @ bslash,
     ''                        if (vret)'' @ tab @ tab @ tab @ tab @ tab @ bslash,
     ''                                return vret;'' @ tab @ tab @ tab @ tab @ bslash,
     ''                }'' @ tab @ tab @ tab @ tab @ tab @ tab @ tab @ bslash,
     ''        } while (0)'',
     [],
     ''#endif'',
     [],
     []]"

definition preamble_python24 :: string where
  "preamble_python24 = join nl [
     [],
     ''#if PY_VERSION_HEX < 0x020500F0'',
     [],
     ''typedef int Py_ssize_t;'',
     ''# define PY_SSIZE_T_MAX INT_MAX'',
     ''# define PY_SSIZE_T_MIN INT_MIN'',
     ''typedef inquiry lenfunc;'',
     ''typedef intargfunc ssizeargfunc;'',
     ''typedef intobjargproc ssizeobjargproc;'',
     [],
     ''#endif'',
     []]"

definition preamble_flags :: string where
  "preamble_flags = join nl [
     [],
     ''#if     __GNUC__ > 2'',
     ''# define PYBINDGEN_UNUSED(param) param __attribute__((__unused__))'',
     ''#elif     __GNUC__ > 2 || (__GNUC__ == 2 && __GNUC_MINOR__ > 4)'',
     ''# define PYBINDGEN_UNUSED(param) __attribute__((__unused__)) param'',
     ''#else'',
     ''# define PYBINDGEN_UNUSED(param) param'',
     ''#endif  /* !__GNUC__ */'',
     [],
     ''typedef enum _PyBindGenWrapperFlags {'',
     ''   PYBINDGEN_WRAPPER_FLAG_NONE = 0,'',
     ''   PYBINDGEN_WRAPPER_FLAG_OBJECT_NOT_OWNED = (1<<0),'',
     ''} PyBindGenWrapperFlags;'',
     [],
     []]"
text \<open>\<open><\<close> on tuples of integers.\<close>

fun tuple_less :: "int list \<Rightarrow> int list \<Rightarrow> bool" where
  "tuple_less _ [] = False"
| "tuple_less [] (_ # _) = True"
| "tuple_less (x # xs) (y # ys) = (x < y \<or> x = y \<and> tuple_less xs ys)"

text \<open>
  The state is the sink with its attribute \<open>have_written_preamble\<close>; a second call only warns.
\<close>

definition write_preamble ::
  "'t sink_class \<Rightarrow> settings \<Rightarrow> int list option \<Rightarrow> (bool \<times> 't, unit) py" where
  "write_preamble sk st min_python_version =
     (let version = (case min_python_version of None \<Rightarrow> st_min_python_version st | Some v \<Rightarrow> v);
          writeln = (\<lambda>text. upd (\<lambda>(f, t). (f, s_writeln sk text t)))
      in bnd (gets fst) (\<lambda>have_written_preamble.
        if have_written_preamble then ret ()
        else seqs [
          upd (\<lambda>(_, t). (True, t)),
          writeln (preamble_head (join ''.'' (map str_of_int pybindgen_version))),
          when_py (tuple_less version [2, 4]) (writeln preamble_python23),
          when_py (tuple_less version [2, 5]) (writeln preamble_python24),
          writeln preamble_flags]))"

section \<open>Properties of mangling\<close>

definition ident_char :: "char \<Rightarrow> bool" where
  "ident_char c \<longleftrightarrow> isdigit_char c \<or> islower_char (lower_char c) \<or> c = CHR ''_''"

text \<open>The characters that occur in C++ type names besides those of identifiers.\<close>

definition type_punctuation :: string where
  "type_punctuation = ''<>, &*:()''"

text \<open>The chain of replacements as one pass over the name.\<close>

definition mangle_char :: "char \<Rightarrow> string" where
  "mangle_char c =
     (if c = CHR ''<'' then ''__lt__'' else if c = CHR ''>'' then ''__gt__'' else if c = CHR '','' then ''_''
      else if c = CHR '' '' then ''_'' else if c = CHR ''&'' then ''__amp__'' else if c = CHR ''*'' then ''__star__''
      else if c = CHR '':'' then ''_'' else if c = CHR ''('' then ''_lp_'' else if c = CHR '')'' then ''_rp_'' else [c])"

lemma mangle_name_Nil [simp]: "mangle_name [] = []"
  by (simp add: mangle_name_def Let_def)

lemma mangle_name_Cons: "mangle_name (c # s) = mangle_char c @ mangle_name s"
  by (simp add: mangle_name_def Let_def mangle_char_def replace_char_def)

lemma mangle_name_append [simp]: "mangle_name (s @ t) = mangle_name s @ mangle_name t"
  by (induction s) (simp_all add: mangle_name_Cons)

lemma ident_letters [simp]:
  "ident_char (CHR ''_'')" "ident_char (CHR ''l'')" "ident_char (CHR ''t'')" "ident_char (CHR ''g'')"
  "ident_char (CHR ''a'')" "ident_char (CHR ''m'')" "ident_char (CHR ''p'')" "ident_char (CHR ''s'')"
  "ident_char (CHR ''r'')"
  by code_simp+

lemma mangle_char_ident:
  "ident_char c \<or> c \<in> set type_punctuation \<Longrightarrow> list_all ident_char (mangle_char c)"
  by (auto simp: mangle_char_def type_punctuation_def)

lemma mangle_name_ident:
  "list_all (\<lambda>c. ident_char c \<or> c \<in> set type_punctuation) s \<Longrightarrow> list_all ident_char (mangle_name s)"
  by (induction s) (simp_all add: mangle_name_Cons mangle_char_ident)

lemma list_all_join: "list_all P sep \<Longrightarrow> list_all (list_all P) xs \<Longrightarrow> list_all P (join sep xs)"
  by (induction sep xs rule: join.induct) simp_all

text \<open>C identifiers: letters, digits and underscores, not starting with a digit.\<close>

definition c_identifier :: "string \<Rightarrow> bool" where
  "c_identifier s \<longleftrightarrow> s \<noteq> [] \<and> \<not> isdigit_char (hd s) \<and> list_all ident_char s"

lemma mangle_name_pass: "mangle_name s = concat (map mangle_char s)"
  by (induction s) (simp_all add: mangle_name_Cons)

lemma mangle_char_start: "mangle_char c \<noteq> [] \<and> (\<not> isdigit_char c \<longrightarrow> \<not> isdigit_char (hd (mangle_char c)))"
proof -
  have "\<not> isdigit_char (CHR ''_'')" by code_simp
  then show ?thesis by (simp add: mangle_char_def)
qed

lemma mangle_char_word: "ident_char c \<Longrightarrow> mangle_char c = [c]"
proof -
  have "\<not> list_ex ident_char type_punctuation" by code_simp
  then show "ident_char c \<Longrightarrow> mangle_char c = [c]" by (auto simp: type_punctuation_def mangle_char_def)
qed

lemma mangle_name_word: "list_all ident_char s \<Longrightarrow> mangle_name s = s"
  by (induction s) (simp_all add: mangle_name_Cons mangle_char_word)

lemma mangle_name_identifier:
  assumes "list_all (\<lambda>c. ident_char c \<or> c \<in> set type_punctuation) s" "s \<noteq> []" "\<not> isdigit_char (hd s)"
  shows "c_identifier (mangle_name s)"
proof (cases s)
  case (Cons c cs)
  then show ?thesis
    using mangle_name_ident [OF assms(1)] assms(3) mangle_char_start [of c] by (simp add: c_identifier_def mangle_name_Cons)
qed (use assms in simp)

text \<open>
  C24. Mangling makes C identifiers: when the class name and its template arguments consist of
  identifier characters and the punctuation of C++ type names, and the class name is not empty and does not start with a
  digit, the mangled name is an identifier, that is, not empty, made of identifier characters, and not starting with a
  digit.  It is obtained in a single pass over the characters of the name and of each argument; a name that is an
  identifier, without template arguments, is left as it is.
\<close>

theorem mangled_name_is_identifier:
  assumes "list_all (\<lambda>c. ident_char c \<or> c \<in> set type_punctuation) base_name"
    and "base_name \<noteq> []" and "\<not> isdigit_char (hd base_name)"
    and "list_all (list_all (\<lambda>c. ident_char c \<or> c \<in> set type_punctuation)) template_args"
  shows "c_identifier (get_mangled_name base_name template_args) \<and>
    get_mangled_name base_name template_args = concat (map mangle_char base_name) @
      (if template_args = [] then []
       else ''__lt__'' @ join ''_'' (map (\<lambda>arg. concat (map mangle_char arg)) template_args) @ ''__gt__'') \<and>
    (c_identifier base_name \<and> template_args = [] \<longrightarrow> get_mangled_name base_name template_args = base_name)"
proof -
  have args: "list_all (list_all ident_char) (map mangle_name template_args)"
    using assms(4) by (induction template_args) (simp_all add: mangle_name_ident)
  have "c_identifier (get_mangled_name base_name template_args)"
    using mangle_name_identifier [OF assms(1-3)] list_all_join [OF _ args, of "''_''"]
    by (simp add: get_mangled_name_def c_identifier_def)
  moreover have "c_identifier base_name \<and> template_args = [] \<longrightarrow> get_mangled_name base_name template_args = base_name"
    by (simp add: get_mangled_name_def c_identifier_def mangle_name_word)
  ultimately show ?thesis by (simp add: get_mangled_name_def mangle_name_pass [abs_def])
qed

theorem mangled_name_is_identifier_witness:
  "c_identifier (get_mangled_name ''std::map'' [''int'', ''char const *''])"
  by (rule mangled_name_is_identifier [THEN conjunct1]) code_simp+

text \<open>Mangling is not injective.\<close>

lemma mangle_name_collides:
  "mangle_name ''A::B'' = mangle_name ''A__B'' \<and> mangle_name ''P<int,char>'' = mangle_name ''P<int char>''"
  by (simp add: mangle_name_Cons mangle_char_def)

section \<open>Specifications as tuples\<close>

text \<open>What \<open>param\<close> and \<open>retval\<close> pack is what the parsers unpack.\<close>

lemma spec_roundtrip:
  "parse_param_spec (param_spec (a # args) kwargs :: 'h spec) = Inr (a # args, kwargs) \<and>
   parse_retval_spec (retval_spec args kwargs :: 'h spec) = Inr (args, kwargs)"
  by (simp add: parse_param_spec_def parse_retval_spec_def param_spec_def retval_spec_def split_spec_def)

end
