(* ===== verification/Wrapper_Registry.thy ===== *)
theory Wrapper_Registry
  imports Utils
begin

text \<open>
  \<open>pybindgen/wrapper_registry.py\<close>: the code that keeps track of the Python wrappers of C++ objects.
  The statements it writes are those of \<open>registry_stmt\<close>.
\<close>

section \<open>The registries\<close>

datatype registry = NullWrapperRegistry string | StdMapWrapperRegistry string

fun map_name :: "registry \<Rightarrow> string" where
  "map_name (NullWrapperRegistry base_name) = []"
| "map_name (StdMapWrapperRegistry base_name) = base_name @ ''_wrapper_registry''"

text \<open>The include directives added to the module, and the lines written.\<close>

fun registry_forward_declarations :: "registry \<Rightarrow> bool \<Rightarrow> string list \<times> sink_cmd list" where
  "registry_forward_declarations (NullWrapperRegistry _) import_from_module = ([], [])"
| "registry_forward_declarations (StdMapWrapperRegistry b) import_from_module =
     (let m = map_name (StdMapWrapperRegistry b) in
      ([''<map>'', ''<iostream>''],
       if import_from_module then
         [Writeln (''extern std::map<void*, PyObject*> *_'' @ m @ '';''),
          Writeln (''#define '' @ m @ '' (*_'' @ m @ '')'')]
       else [Writeln (''extern std::map<void*, PyObject*> '' @ m @ '';'')]))"

text \<open>The lines written and the code added to the initialisation of the module.\<close>

fun registry_generate :: "registry \<Rightarrow> sink_cmd list \<times> string list" where
  "registry_generate (NullWrapperRegistry _) = ([], [])"
| "registry_generate (StdMapWrapperRegistry b) =
     (let m = map_name (StdMapWrapperRegistry b) in
      ([Writeln (''std::map<void*, PyObject*> '' @ m @ '';'')],
       [''PyModule_AddObject(m, (char *) '' @ dq @ ''_'' @ m @ dq @ '', PyCObject_FromVoidPtr(&'' @ m @ '', NULL));'']))"

fun registry_generate_import :: "registry \<Rightarrow> string \<Rightarrow> sink_cmd list \<times> string list" where
  "registry_generate_import (NullWrapperRegistry _) module_pyobj_var = ([], [])"
| "registry_generate_import (StdMapWrapperRegistry b) module_pyobj_var =
     (let m = map_name (StdMapWrapperRegistry b) in
      ([Writeln (''std::map<void*, PyObject*> *_'' @ m @ '';'')],
       [''PyObject *_cobj = PyObject_GetAttrString('' @ module_pyobj_var @ '', (char*) '' @ dq @ ''_'' @ m @ dq @ '');'',
        join nl [
          ''if (_cobj == NULL) {'',
          ''    _'' @ m @ '' = NULL;'',
          ''    PyErr_Clear();'',
          ''} else {'',
          ''    _'' @ m @ '' = reinterpret_cast< std::map<void*, PyObject*> *> (PyCObject_AsVoidPtr (_cobj));'',
          ''    Py_DECREF(_cobj);'',
          ''}'']]))"

section \<open>The statements\<close>

datatype registry_stmt =
    Register string string
  | Find string string
  | Take_Or_Null string string string
  | Erase string string

text \<open>
  \<open>Register wrapper object\<close>, \<open>Find iterator object\<close>, \<open>Take_Or_Null iterator wrapper type\<close> and
  \<open>Erase iterator wrapper\<close>: the C++ text of the statements, for the name of the map.
\<close>

fun registry_text :: "string \<Rightarrow> registry_stmt \<Rightarrow> string" where
  "registry_text m (Register wrapper_lvalue object_rvalue) =
     m @ ''[(void *) '' @ object_rvalue @ ''] = (PyObject *) '' @ wrapper_lvalue @ '';''"
| "registry_text m (Find iterator object_rvalue) = iterator @ '' = '' @ m @ ''.find((void *) '' @ object_rvalue @ '');''"
| "registry_text m (Take_Or_Null iterator wrapper_lvalue wrapper_type) = join nl [
     ''if ('' @ iterator @ '' == '' @ m @ ''.end()) {'',
     ''    '' @ wrapper_lvalue @ '' = NULL;'',
     ''} else {'',
     ''    '' @ wrapper_lvalue @ '' = ('' @ wrapper_type @ '' *) '' @ iterator @ ''->second;'',
     ''    Py_INCREF('' @ wrapper_lvalue @ '');'',
     ''}'', []]"
| "registry_text m (Erase iterator wrapper_lvalue) = join nl [
     iterator @ '' = '' @ m @ ''.find((void *) '' @ wrapper_lvalue @ ''->obj);'',
     ''if ('' @ iterator @ '' != '' @ m @ ''.end()) {'',
     ''    '' @ m @ ''.erase('' @ iterator @ '');'',
     ''}'', []]"

text \<open>The statements that each operation of \<open>StdMapWrapperRegistry\<close> writes, in their order.\<close>

definition register_code :: "string \<Rightarrow> string \<Rightarrow> registry_stmt list" where [simp]:
  "register_code wrapper_lvalue object_rvalue = [Register wrapper_lvalue object_rvalue]"

definition lookup_code :: "string \<Rightarrow> string \<Rightarrow> string \<Rightarrow> string \<Rightarrow> registry_stmt list" where [simp]:
  "lookup_code iterator wrapper_type wrapper_lvalue object_rvalue =
     [Find iterator object_rvalue, Take_Or_Null iterator wrapper_lvalue wrapper_type]"

definition unregister_code :: "string \<Rightarrow> string \<Rightarrow> registry_stmt list" where [simp]:
  "unregister_code iterator wrapper_lvalue = [Erase iterator wrapper_lvalue]"

definition write_stmts :: "registry \<Rightarrow> block_id \<Rightarrow> registry_stmt list \<Rightarrow> (wrapper, unit) py" where [simp]:
  "write_stmts reg block stmts = seqs (map (\<lambda>s. w_write block (registry_text (map_name reg) s)) stmts)"

fun write_register_new_wrapper :: "registry \<Rightarrow> block_id \<Rightarrow> string \<Rightarrow> string \<Rightarrow> (wrapper, unit) py" where
  "write_register_new_wrapper (NullWrapperRegistry _) block wrapper_lvalue object_rvalue = ret ()"
| "write_register_new_wrapper (StdMapWrapperRegistry b) block wrapper_lvalue object_rvalue =
     write_stmts (StdMapWrapperRegistry b) block (register_code wrapper_lvalue object_rvalue)"

fun write_lookup_wrapper :: "registry \<Rightarrow> block_id \<Rightarrow> string \<Rightarrow> string \<Rightarrow> string \<Rightarrow> (wrapper, unit) py" where
  "write_lookup_wrapper (NullWrapperRegistry _) block wrapper_type wrapper_lvalue object_rvalue =
     raise_py (NotSupportedError [])"
| "write_lookup_wrapper (StdMapWrapperRegistry b) block wrapper_type wrapper_lvalue object_rvalue =
     bnd (w_declare ''std::map<void*, PyObject*>::const_iterator'' ''wrapper_lookup_iter'' PyNone None) (\<lambda>iterator.
       write_stmts (StdMapWrapperRegistry b) block (lookup_code iterator wrapper_type wrapper_lvalue object_rvalue))"

fun write_unregister_wrapper :: "registry \<Rightarrow> block_id \<Rightarrow> string \<Rightarrow> string \<Rightarrow> (wrapper, unit) py" where
  "write_unregister_wrapper (NullWrapperRegistry _) block wrapper_lvalue object_rvalue = ret ()"
| "write_unregister_wrapper (StdMapWrapperRegistry b) block wrapper_lvalue object_rvalue =
     bnd (w_declare ''std::map<void*, PyObject*>::iterator'' ''wrapper_lookup_iter'' PyNone None) (\<lambda>iterator.
       write_stmts (StdMapWrapperRegistry b) block (unregister_code iterator wrapper_lvalue))"

end
