(* ===== verification/Cpp_Class.thy ===== *)
theory Cpp_Class
  imports Wrapper_Registry "HOL-Library.Multiset"
begin

text \<open>
  \<open>pybindgen/cppclass.py\<close>, the description of a C++ class: memory policies, construction with what is
  inherited from the bases, operators, method resolution order, instance creation, and names.  Class
  objects refer to each other: they live in a store and are named by numbers in the order of their
  creation.
\<close>

section \<open>Memory policies\<close>

datatype memory_policy =
    ReferenceCountingMethodsPolicy string string "string option"
  | ReferenceCountingFunctionsPolicy string string "string option"
  | FreeFunctionPolicy string

text \<open>\<open>isinstance(policy, ReferenceCountingPolicy)\<close>.\<close>

fun is_reference_counting :: "memory_policy option \<Rightarrow> bool" where
  "is_reference_counting (Some (ReferenceCountingMethodsPolicy _ _ _)) = True"
| "is_reference_counting (Some (ReferenceCountingFunctionsPolicy _ _ _)) = True"
| "is_reference_counting _ = False"

fun write_incref :: "memory_policy \<Rightarrow> block_id \<Rightarrow> string \<Rightarrow> (wrapper, unit) py" where
  "write_incref (ReferenceCountingMethodsPolicy incref decref peekref) block obj_expr =
     w_write block (obj_expr @ ''->'' @ incref @ ''();'')"
| "write_incref (ReferenceCountingFunctionsPolicy incref decref peekref) block obj_expr =
     w_write block (incref @ ''('' @ obj_expr @ '');'')"
| "write_incref (FreeFunctionPolicy f) block obj_expr = raise_py (AttributeError ''write_incref'')"

fun write_decref :: "memory_policy \<Rightarrow> block_id \<Rightarrow> string \<Rightarrow> (wrapper, unit) py" where
  "write_decref (ReferenceCountingMethodsPolicy incref decref peekref) block obj_expr =
     w_write block (obj_expr @ ''->'' @ decref @ ''();'')"
| "write_decref (ReferenceCountingFunctionsPolicy incref decref peekref) block obj_expr =
     w_write block (decref @ ''('' @ obj_expr @ '');'')"
| "write_decref (FreeFunctionPolicy f) block obj_expr = raise_py (AttributeError ''write_decref'')"

fun get_free_code :: "memory_policy \<Rightarrow> string \<Rightarrow> string" where
  "get_free_code (ReferenceCountingMethodsPolicy incref decref peekref) obj_expr = obj_expr @ ''->'' @ decref @ ''();''"
| "get_free_code (ReferenceCountingFunctionsPolicy incref decref peekref) obj_expr = decref @ ''('' @ obj_expr @ '');''"
| "get_free_code (FreeFunctionPolicy free_function) obj_expr = free_function @ ''('' @ obj_expr @ '');''"

section \<open>Class objects\<close>

text \<open>
  What the class needs of a method object; \<open>mo_is_cppmethod\<close> is \<open>isinstance(method, CppMethod)\<close>.
\<close>

record method_obj =
  mo_mangled_name :: string
  mo_param_ctypes :: "string list"
  mo_is_const :: bool
  mo_is_virtual :: bool
  mo_is_pure_virtual :: bool
  mo_is_cppmethod :: bool

text \<open>An instance creation function: block, lvalue, parameters, type name.\<close>

type_synonym creation_function = "block_id \<Rightarrow> string \<Rightarrow> string \<Rightarrow> string \<Rightarrow> (wrapper, unit) py"

text \<open>The right operand of a numeric operator: a class, or a parameter handler named by its type.\<close>

datatype operand = Class_Operand nat | Param_Operand string

record cpp_class =
  cc_name :: string
  cc_full_name :: string
  cc_mangled_name :: string
  cc_mangled_full_name :: string
  cc_template_parameters :: "string list"
  cc_bases :: "nat list"
  cc_parent :: "nat option"
  cc_outer_class :: "nat option"
  cc_foreign_cpp_namespace :: string
  cc_custom_name :: "string option"
  cc_incomplete_type :: bool
  cc_is_singleton :: bool
  cc_import_from_module :: "string option"
  cc_destructor_visibility :: string
  cc_memory_policy :: "memory_policy option"
  cc_automatic_type_narrowing :: bool
  cc_allow_subclassing :: bool
  cc_cannot_be_constructed :: string
  cc_has_trivial_constructor :: bool
  cc_has_copy_constructor :: bool
  cc_have_pure_virtual_methods :: "bool option"
  cc_methods :: "(string \<times> method_obj list) list"
  cc_nonpublic_methods :: "method_obj list"
  cc_dummy_methods :: "method_obj list"
  cc_helper_class :: "string option"
  cc_helper_class_disabled :: bool
  cc_implicitly_converts_from :: "nat list"
  cc_binary_comparison_operators :: "string list"
  cc_binary_numeric_operators :: "(string \<times> (nat \<times> nat \<times> operand) list) list"
  cc_inplace_numeric_operators :: "(string \<times> (nat \<times> nat \<times> operand) list) list"
  cc_unary_numeric_operators :: "(string \<times> (nat \<times> nat) list) list"
  cc_instance_creation_function :: "creation_function option"
  cc_post_instance_creation_function :: "creation_function option"
  cc_pystruct :: "string option"
  cc_metaclass_name :: string
  cc_pytypestruct :: string
  cc_typeid_map_name :: "string option"
  cc_wrapper_registry :: "registry option"

type_synonym class_store = "nat \<Rightarrow> cpp_class"

section \<open>Construction\<close>

text \<open>The arguments of the constructor that decide something; a deprecated name wins over the newer one.\<close>

record class_args =
  ca_name :: string
  ca_bases :: "nat list option"
  ca_incref_method :: "string option"
  ca_decref_method :: string
  ca_peekref_method :: "string option"
  ca_incref_function :: "string option"
  ca_decref_function :: string
  ca_free_function :: "string option"
  ca_memory_policy :: "memory_policy option"
  ca_automatic_type_narrowing :: "bool option"
  ca_allow_subclassing :: "bool option"
  ca_is_singleton :: bool
  ca_outer_class :: "nat option"
  ca_template_parameters :: "string list"
  ca_custom_template_class_name :: "string option"
  ca_python_name :: "string option"
  ca_custom_name :: "string option"
  ca_incomplete_type :: bool
  ca_foreign_cpp_namespace :: string
  ca_import_from_module :: "string option"
  ca_destructor_visibility :: string

text \<open>\<open>parent\<close>: missing, or a class or a list of classes (an empty list raises IndexError).\<close>

definition class_parent :: "nat list option \<Rightarrow> nat option res" where
  "class_parent bases = (case bases of None \<Rightarrow> Inr None | Some [] \<Rightarrow> Inl IndexError | Some (b # _) \<Rightarrow> Inr (Some b))"

text \<open>An option counts as given when it is true: not \<open>None\<close>, and not empty.\<close>

definition given_text :: "string option \<Rightarrow> string option" where
  "given_text v = (if v = Some [] then None else v)"

text \<open>The policy that the deprecated options stand for.\<close>

definition policy_option :: "class_args \<Rightarrow> memory_policy option res" where
  "policy_option a =
     (let given = (\<lambda>p. if ca_memory_policy a = None then Inr (Some p) else Inl AssertionError) in
      case (given_text (ca_free_function a), given_text (ca_incref_method a), given_text (ca_incref_function a)) of
        (Some f, _, _) \<Rightarrow> given (FreeFunctionPolicy f)
      | (None, Some i, _) \<Rightarrow> given (ReferenceCountingMethodsPolicy i (ca_decref_method a) (ca_peekref_method a))
      | (None, None, Some i) \<Rightarrow> given (ReferenceCountingFunctionsPolicy i (ca_decref_function a) None)
      | _ \<Rightarrow> Inr (ca_memory_policy a))"

text \<open>The first base with a policy decides; a class may not change it.\<close>

definition inherit_policy :: "class_store \<Rightarrow> nat list \<Rightarrow> memory_policy option \<Rightarrow> memory_policy option res" where
  "inherit_policy classes bases memory_policy =
     (case find (\<lambda>b. cc_memory_policy (classes b) \<noteq> None) bases of
        None \<Rightarrow> Inr memory_policy
      | Some b \<Rightarrow> if memory_policy = None then Inr (cc_memory_policy (classes b)) else Inl AssertionError)"

definition inherit_allow_subclassing ::
  "settings \<Rightarrow> class_store \<Rightarrow> nat option \<Rightarrow> nat list \<Rightarrow> bool option \<Rightarrow> bool res" where
  "inherit_allow_subclassing st classes parent bases allow_subclassing =
     (case allow_subclassing of
        None \<Rightarrow> Inr (case parent of None \<Rightarrow> st_allow_subclassing st | Some p \<Rightarrow> cc_allow_subclassing (classes p))
      | Some b \<Rightarrow>
          if list_ex (\<lambda>p. cc_allow_subclassing (classes p)) bases \<and> \<not> b
          then Inl (ValueError ''Cannot disable subclassing if a parent class allows it'')
          else Inr b)"

definition nameless :: string where "nameless = ''***GIVE ME A NAME***''"

definition CppClass_init :: "settings \<Rightarrow> class_store \<Rightarrow> class_args \<Rightarrow> cpp_class res" where
  "CppClass_init st classes a =
     (let bases = (case ca_bases a of None \<Rightarrow> [] | Some bs \<Rightarrow> bs) in
      if ca_destructor_visibility a \<notin> {''public'', ''private'', ''protected''} then Inl AssertionError
      else bind_res (class_parent (ca_bases a)) (\<lambda>parent.
        bind_res (policy_option a) (\<lambda>policy.
        bind_res (inherit_policy classes bases policy) (\<lambda>memory_policy.
        bind_res (inherit_allow_subclassing st classes parent bases (ca_allow_subclassing a)) (\<lambda>allow_subclassing.
        Inr \<lparr>cc_name = ca_name a, cc_full_name = ''None'', cc_mangled_name = [], cc_mangled_full_name = [],
          cc_template_parameters = ca_template_parameters a, cc_bases = bases, cc_parent = parent,
          cc_outer_class = ca_outer_class a, cc_foreign_cpp_namespace = ca_foreign_cpp_namespace a,
          cc_custom_name = (case ca_python_name a of Some n \<Rightarrow> Some n
            | None \<Rightarrow> (case ca_custom_template_class_name a of Some n \<Rightarrow> Some n | None \<Rightarrow> ca_custom_name a)),
          cc_incomplete_type = ca_incomplete_type a, cc_is_singleton = ca_is_singleton a,
          cc_import_from_module = ca_import_from_module a, cc_destructor_visibility = ca_destructor_visibility a,
          cc_memory_policy = memory_policy,
          cc_automatic_type_narrowing = (case ca_automatic_type_narrowing a of Some b \<Rightarrow> b
            | None \<Rightarrow> (case parent of None \<Rightarrow> st_automatic_type_narrowing st | Some p \<Rightarrow> cc_automatic_type_narrowing (classes p))),
          cc_allow_subclassing = (allow_subclassing \<and> ca_destructor_visibility a \<in> {''public'', ''protected''}),
          cc_cannot_be_constructed = [], cc_has_trivial_constructor = False, cc_has_copy_constructor = False,
          cc_have_pure_virtual_methods = None, cc_methods = [], cc_nonpublic_methods = [], cc_dummy_methods = [],
          cc_helper_class = None, cc_helper_class_disabled = False, cc_implicitly_converts_from = [],
          cc_binary_comparison_operators = [], cc_binary_numeric_operators = [], cc_inplace_numeric_operators = [],
          cc_unary_numeric_operators = [], cc_instance_creation_function = None, cc_post_instance_creation_function = None,
          cc_pystruct = None, cc_metaclass_name = nameless, cc_pytypestruct = nameless, cc_typeid_map_name = None,
          cc_wrapper_registry = None\<rparr>)))))"

section \<open>Operators\<close>

definition add_binary_comparison_operator :: "string \<Rightarrow> (cpp_class, unit) py" where
  "add_binary_comparison_operator operator =
     (if operator \<notin> {''=='', ''!='', ''<'', ''<='', ''>'', ''>=''}
      then raise_py (ValueError ''The operator is invalid or not yet supported by PyBindGen'')
      else upd (\<lambda>c. c\<lparr>cc_binary_comparison_operators := List.insert operator (cc_binary_comparison_operators c)\<rparr>))"

definition op_list :: "(string \<times> 'a list) list \<Rightarrow> string \<Rightarrow> 'a list" where
  "op_list ops operator = (case map_of ops operator of None \<Rightarrow> [] | Some l \<Rightarrow> l)"

text \<open>
  \<open>self\<close> is the number of the class.  \<open>right\<close> is the operand after \<open>eval_param\<close>: \<open>Inl SkipWrapper\<close>
  when the type is not supported and the error is handled; the empty list of the operator stays.
\<close>

definition add_binary_numeric_operator ::
  "nat \<Rightarrow> string \<Rightarrow> nat option \<Rightarrow> nat option \<Rightarrow> operand res option \<Rightarrow> (cpp_class, unit) py" where
  "add_binary_numeric_operator self operator result_cppclass left_cppclass right =
     (if operator \<notin> {''+'', ''-'', ''*'', ''/''}
      then raise_py (ValueError ''The operator is invalid or not yet supported by PyBindGen'')
      else bnd (gets (\<lambda>c. op_list (cc_binary_numeric_operators c) operator)) (\<lambda>l.
        let put = (\<lambda>l'. upd (\<lambda>c. c\<lparr>cc_binary_numeric_operators := AList.update operator l' (cc_binary_numeric_operators c)\<rparr>)) in
        bnd (put l) (\<lambda>_.
        case (case right of None \<Rightarrow> Inr (Class_Operand self) | Some r \<Rightarrow> r) of
          Inl e \<Rightarrow> if e = SkipWrapper then ret () else raise_py e
        | Inr r \<Rightarrow>
            let op = (case result_cppclass of None \<Rightarrow> self | Some c \<Rightarrow> c, case left_cppclass of None \<Rightarrow> self | Some c \<Rightarrow> c, r)
            in when_py (op \<notin> set l) (put (l @ [op])))))"

text \<open>
  \<open>right not in l\<close> compares the operand with triples and is always true.
\<close>

definition add_inplace_numeric_operator :: "nat \<Rightarrow> string \<Rightarrow> operand res option \<Rightarrow> (cpp_class, unit) py" where
  "add_inplace_numeric_operator self operator right =
     (if operator \<notin> {''+='', ''-='', ''*='', ''/=''}
      then raise_py (ValueError ''The operator is invalid or not yet supported by PyBindGen'')
      else bnd (gets (\<lambda>c. op_list (cc_inplace_numeric_operators c) operator)) (\<lambda>l.
        let put = (\<lambda>l'. upd (\<lambda>c. c\<lparr>cc_inplace_numeric_operators := AList.update operator l' (cc_inplace_numeric_operators c)\<rparr>)) in
        bnd (put l) (\<lambda>_.
        case (case right of None \<Rightarrow> Inr (Class_Operand self) | Some r \<Rightarrow> r) of
          Inl e \<Rightarrow> if e = SkipWrapper then ret () else raise_py e
        | Inr r \<Rightarrow> put (l @ [(self, self, r)]))))"

definition add_unary_numeric_operator :: "nat \<Rightarrow> string \<Rightarrow> nat option \<Rightarrow> nat option \<Rightarrow> (cpp_class, unit) py" where
  "add_unary_numeric_operator self operator result_cppclass left_cppclass =
     (if operator \<noteq> ''-''
      then raise_py (ValueError ''The operator is invalid or not yet supported by PyBindGen'')
      else upd (\<lambda>c.
        let l = op_list (cc_unary_numeric_operators c) operator;
            op = (case result_cppclass of None \<Rightarrow> self | Some c \<Rightarrow> c, case left_cppclass of None \<Rightarrow> self | Some c \<Rightarrow> c)
        in c\<lparr>cc_unary_numeric_operators := AList.update operator (if op \<in> set l then l else l @ [op]) (cc_unary_numeric_operators c)\<rparr>))"

section \<open>Method resolution order\<close>

text \<open>
  The loop of \<open>get_mro\<close>; the list of what the generator yields, \<open>None\<close> if it never ends.
\<close>

partial_function (option) mro_loop :: "(nat \<Rightarrow> nat list) \<Rightarrow> nat list \<Rightarrow> nat list \<Rightarrow> nat list option" where
  "mro_loop bases to_visit visited =
     (case to_visit of
        [] \<Rightarrow> Some []
      | cls # rest \<Rightarrow>
          Option.bind (mro_loop bases (rest @ filter (\<lambda>b. b \<notin> set (cls # visited)) (bases cls)) (cls # visited))
            (\<lambda>l. Some (cls # l)))"

definition get_mro :: "class_store \<Rightarrow> nat \<Rightarrow> nat list option" where
  "get_mro classes self = mro_loop (\<lambda>c. cc_bases (classes c)) [self] []"

definition is_subclass :: "class_store \<Rightarrow> nat \<Rightarrow> nat \<Rightarrow> bool option" where
  "is_subclass classes self other = map_option (\<lambda>mro. other \<in> set mro) (get_mro classes self)"

definition get_all_methods :: "cpp_class \<Rightarrow> method_obj list" where
  "get_all_methods c = concat (map snd (cc_methods c)) @ cc_nonpublic_methods c"

definition matches_signature :: "method_obj \<Rightarrow> method_obj \<Rightarrow> bool" where
  "matches_signature self other \<longleftrightarrow>
     mo_mangled_name self = mo_mangled_name other \<and> mo_param_ctypes self = mo_param_ctypes other \<and>
     mo_is_const self = mo_is_const other"

definition declared_methods :: "cpp_class \<Rightarrow> method_obj list" where
  "declared_methods c = get_all_methods c @ cc_dummy_methods c"

text \<open>
  The inner loops of \<open>get_have_pure_virtual_methods\<close>: in each derived class the first virtual method
  with the signature decides whether that class implements the method.
\<close>

definition class_implements :: "cpp_class \<Rightarrow> method_obj \<Rightarrow> bool" where
  "class_implements child method =
     (case find (\<lambda>m. mo_is_cppmethod m \<and> mo_is_virtual m \<and> matches_signature m method) (declared_methods child) of
        None \<Rightarrow> False | Some m \<Rightarrow> \<not> mo_is_pure_virtual m)"

fun unimplemented :: "class_store \<Rightarrow> nat list \<Rightarrow> bool" where
  "unimplemented classes [] = False"
| "unimplemented classes (cls # derived) =
     (list_ex (\<lambda>m. mo_is_cppmethod m \<and> mo_is_pure_virtual m \<and>
        \<not> list_ex (\<lambda>child. class_implements (classes child) m) derived) (declared_methods (classes cls)) \<or>
      unimplemented classes derived)"

text \<open>The answer is cached in the class; the store is the state.\<close>

definition get_have_pure_virtual_methods :: "nat \<Rightarrow> class_store \<Rightarrow> (bool \<times> class_store) option" where
  "get_have_pure_virtual_methods self classes =
     (case cc_have_pure_virtual_methods (classes self) of
        Some b \<Rightarrow> Some (b, classes)
      | None \<Rightarrow> map_option (\<lambda>mro.
          let b = unimplemented classes (rev mro)
          in (b, classes(self := (classes self)\<lparr>cc_have_pure_virtual_methods := Some b\<rparr>))) (get_mro classes self))"

section \<open>Instance creation\<close>

definition default_instance_creation_function :: "cpp_class \<Rightarrow> creation_function" where
  "default_instance_creation_function cpp_class block lvalue parameters construct_type_name = seqs [
     assert_py (lvalue \<noteq> []),
     assert_py (\<not> startswith lvalue ''None''),
     (if cc_incomplete_type cpp_class
      then raise_py (CodeGenerationError (cc_full_name cpp_class @ '' cannot be constructed (incomplete type)''))
      else w_write block (lvalue @ '' = new '' @ construct_type_name @ ''('' @ parameters @ '');''))]"

text \<open>The first class of the resolution order that has one; \<open>None\<close> outside: the order never ends.\<close>

definition first_in_mro :: "class_store \<Rightarrow> nat \<Rightarrow> (cpp_class \<Rightarrow> 'a option) \<Rightarrow> 'a option option" where
  "first_in_mro classes self sel =
     map_option (\<lambda>mro. case find (\<lambda>c. sel (classes c) \<noteq> None) mro of None \<Rightarrow> None | Some c \<Rightarrow> sel (classes c))
       (get_mro classes self)"

definition get_instance_creation_function :: "class_store \<Rightarrow> nat \<Rightarrow> creation_function option" where
  "get_instance_creation_function classes self =
     map_option (\<lambda>f. case f of None \<Rightarrow> default_instance_creation_function (classes self) | Some f \<Rightarrow> f)
       (first_in_mro classes self cc_instance_creation_function)"

definition get_post_instance_creation_function :: "class_store \<Rightarrow> nat \<Rightarrow> creation_function option option" where
  "get_post_instance_creation_function classes self = first_in_mro classes self cc_post_instance_creation_function"

definition get_construct_name :: "nat \<Rightarrow> class_store \<Rightarrow> string res option" where
  "get_construct_name self classes =
     (let c = classes self in
      if cc_cannot_be_constructed c \<noteq> []
      then Some (Inl (CodeGenerationError (cc_full_name c @ '' cannot be constructed ('' @ cc_cannot_be_constructed c @ '')'')))
      else map_option (\<lambda>(pure_virtual, _).
        if pure_virtual
        then Inl (CodeGenerationError (cc_full_name c @ '' cannot be constructed (class has pure virtual methods)''))
        else Inr (cc_full_name c)) (get_have_pure_virtual_methods self classes))"

section \<open>Names\<close>

definition capitalize :: "string \<Rightarrow> string" where
  "capitalize s = (case s of [] \<Rightarrow> [] | c # cs \<Rightarrow> upper_char c # map lower_char cs)"

definition make_upper :: "string \<Rightarrow> string" where
  "make_upper s = (case s of [] \<Rightarrow> [] | c # cs \<Rightarrow> if islower_char c then upper_char c # cs else s)"

definition flatten :: "string \<Rightarrow> string" where
  "flatten name = concat (map (\<lambda>s. make_upper (mangle_name s)) (split_str ''::'' name))"

text \<open>The qualified name, for the namespace prefix of the module and the full name of the outer class.\<close>

definition qualified_name :: "string \<Rightarrow> string option \<Rightarrow> string \<Rightarrow> string \<Rightarrow> string res" where
  "qualified_name cpp_namespace_prefix outer_full_name foreign_cpp_namespace name =
     (case outer_full_name of
        None \<Rightarrow>
          Inr (if foreign_cpp_namespace \<noteq> [] then foreign_cpp_namespace @ ''::'' @ name
               else if cpp_namespace_prefix = [] then name
               else if cpp_namespace_prefix = ''::'' then ''::'' @ name
               else cpp_namespace_prefix @ ''::'' @ name)
      | Some outer \<Rightarrow> if foreign_cpp_namespace \<noteq> [] then Inl AssertionError else Inr (outer @ ''::'' @ name))"

text \<open>
  \<open>while root.parent ...\<close>: the search goes up the single inheritance chain.
\<close>

partial_function (option) narrowing_root :: "class_store \<Rightarrow> nat \<Rightarrow> nat option" where
  "narrowing_root classes root =
     (case cc_parent (classes root) of
        None \<Rightarrow> Some root
      | Some p \<Rightarrow> if cc_automatic_type_narrowing (classes p) then narrowing_root classes p else Some root)"

definition get_type_narrowing_root :: "class_store \<Rightarrow> nat \<Rightarrow> nat option option" where
  "get_type_narrowing_root classes self =
     (if \<not> cc_automatic_type_narrowing (classes self) then Some None
      else map_option Some (narrowing_root classes self))"

text \<open>The names part of \<open>_update_names\<close>; the registration of the aliases follows in \<open>register_alias\<close>.\<close>

definition update_names :: "settings \<Rightarrow> string \<Rightarrow> nat \<Rightarrow> class_store \<Rightarrow> cpp_class res option" where
  "update_names st cpp_namespace_prefix self classes =
     (let c = classes self; prefix = capitalize (st_name_prefix st) in
      bind_div (Some (qualified_name cpp_namespace_prefix (map_option (\<lambda>outer. cc_full_name (classes outer)) (cc_outer_class c))
          (cc_foreign_cpp_namespace c) (cc_name c))) (\<lambda>full_name.
      let tp = cc_template_parameters c;
          mangled_template_params = (if tp = [] then [] else ''__'' @ join ''_'' (map flatten tp));
          mangled_full_name = flatten full_name @ mangled_template_params;
          pystruct = ''Py'' @ prefix @ mangled_full_name
      in map_option (\<lambda>root. Inr (c\<lparr>
           cc_full_name := full_name @ (if tp = [] then [] else ''< '' @ join '', '' tp @ '' >''),
           cc_mangled_name := flatten (cc_name c) @ mangled_template_params,
           cc_mangled_full_name := mangled_full_name,
           cc_pystruct := Some pystruct,
           cc_metaclass_name := mangled_full_name @ ''Meta'',
           cc_pytypestruct := ''Py'' @ prefix @ mangled_full_name @ ''_Type'',
           cc_typeid_map_name := (if root = Some self then Some (pystruct @ ''__typeid_map'') else None)\<rparr>))
         (get_type_narrowing_root classes self)))"

text \<open>The handler classes that a class object creates for itself.\<close>

datatype this_class_handler =
    ThisClassParameter nat | ThisClassRefParameter nat | ThisClassPtrParameter nat
  | ThisClassReturn nat | ThisClassRefReturn nat | ThisClassPtrReturn nat

text \<open>
  The matchers of parameters and of return values hold the handlers of every kind of type; \<open>inject\<close> embeds
  those of classes.
\<close>

type_synonym ('h, 't) matchers = "('h, 't) type_matcher \<times> ('h, 't) type_matcher"

text \<open>\<open>try: matcher.register(...) except ValueError: pass\<close>; the pair is the parameter and the return matcher.\<close>

definition register_or_pass :: "string \<Rightarrow> 'h \<Rightarrow> ('h, 't) type_matcher \<Rightarrow> (unit res \<times> ('h, 't) type_matcher) option" where
  "register_or_pass name handler tm =
     map_option (\<lambda>(r, tm'). (case r of Inl (ValueError _) \<Rightarrow> Inr () | _ \<Rightarrow> r, tm')) (register name handler tm)"

fun register_all_or_pass :: "(string \<times> 'h) list \<Rightarrow> ('h, 't) type_matcher \<Rightarrow> (unit res \<times> ('h, 't) type_matcher) option" where
  "register_all_or_pass [] tm = Some (Inr (), tm)"
| "register_all_or_pass ((name, handler) # rest) tm =
     (case register_or_pass name handler tm of
        None \<Rightarrow> None
      | Some (Inl e, tm') \<Rightarrow> Some (Inl e, tm')
      | Some (Inr _, tm') \<Rightarrow> register_all_or_pass rest tm')"

definition class_param_names :: "nat \<Rightarrow> string \<Rightarrow> (string \<times> this_class_handler) list" where
  "class_param_names self alias_name =
     [(alias_name, ThisClassParameter self), (alias_name @ ''&'', ThisClassRefParameter self),
      (alias_name @ ''*'', ThisClassPtrParameter self)]"

definition class_return_names :: "nat \<Rightarrow> string \<Rightarrow> (string \<times> this_class_handler) list" where
  "class_return_names self alias_name =
     [(alias_name, ThisClassReturn self), (alias_name @ ''*'', ThisClassPtrReturn self),
      (alias_name @ ''&'', ThisClassRefReturn self)]"

text \<open>
  \<open>register_alias\<close> on the two matchers, which are independent of each other; the constructor
  registers the plain name in the same way.
\<close>

definition register_alias ::
  "(this_class_handler \<Rightarrow> 'h) \<Rightarrow> nat \<Rightarrow> string \<Rightarrow> ('h, 't) matchers \<Rightarrow> (unit res \<times> ('h, 't) matchers) option" where
  "register_alias inject self alias_name = (\<lambda>(params, returns).
     case register_all_or_pass (map (apsnd inject) (class_param_names self alias_name)) params of
       None \<Rightarrow> None
     | Some (Inl e, params') \<Rightarrow> Some (Inl e, (params', returns))
     | Some (Inr _, params') \<Rightarrow>
         map_option (\<lambda>(r, returns'). (r, (params', returns'))) 
           (register_all_or_pass (map (apsnd inject) (class_return_names self alias_name)) returns))"

section \<open>Flags and conversions\<close>

definition implicitly_converts_to :: "nat \<Rightarrow> nat \<Rightarrow> class_store \<Rightarrow> class_store" where
  "implicitly_converts_to self other classes =
     classes(other := (classes other)\<lparr>cc_implicitly_converts_from := cc_implicitly_converts_from (classes other) @ [self]\<rparr>)"

definition get_all_implicit_conversions :: "class_store \<Rightarrow> nat \<Rightarrow> nat list" where
  "get_all_implicit_conversions classes self = cc_implicitly_converts_from (classes self)"

definition set_helper_class_disabled :: "bool \<Rightarrow> cpp_class \<Rightarrow> cpp_class" where
  "set_helper_class_disabled flag c =
     (let c = c\<lparr>cc_helper_class_disabled := flag\<rparr> in if flag then c\<lparr>cc_helper_class := None\<rparr> else c)"

definition set_cannot_be_constructed :: "string \<Rightarrow> cpp_class \<Rightarrow> cpp_class" where
  "set_cannot_be_constructed reason c = c\<lparr>cc_cannot_be_constructed := reason\<rparr>"

definition get_helper_class :: "nat \<Rightarrow> class_store \<Rightarrow> (string option \<times> class_store) option" where
  "get_helper_class self classes =
     map_option (\<lambda>mro.
       if list_ex (\<lambda>c. cc_helper_class_disabled (classes c)) mro \<or> \<not> cc_allow_subclassing (classes self) then (None, classes)
       else case cc_helper_class (classes self) of
         Some h \<Rightarrow> (Some h, classes)
       | None \<Rightarrow>
           if cc_is_singleton (classes self) then (None, classes)
           else let h = opt_str (cc_pystruct (classes self)) @ ''__PythonHelper''
                in (Some h, classes(self := (classes self)\<lparr>cc_helper_class := Some h\<rparr>)))
       (get_mro classes self)"

text \<open>One registry per root class; \<open>new_registry\<close> is \<open>settings.wrapper_registry\<close>.\<close>

partial_function (option) get_wrapper_registry ::
  "(string \<Rightarrow> registry) \<Rightarrow> nat \<Rightarrow> class_store \<Rightarrow> (registry res \<times> class_store) option" where
  "get_wrapper_registry new_registry self classes =
     (case cc_parent (classes self) of
        Some p \<Rightarrow> get_wrapper_registry new_registry p classes
      | None \<Rightarrow>
          (case cc_wrapper_registry (classes self) of
             Some r \<Rightarrow> Some (Inr r, classes)
           | None \<Rightarrow>
               (case cc_pystruct (classes self) of
                  None \<Rightarrow> Some (Inl (ValueError []), classes)
                | Some s \<Rightarrow> Some (Inr (new_registry s),
                    classes(self := (classes self)\<lparr>cc_wrapper_registry := Some (new_registry s)\<rparr>)))))"

section \<open>The resolution order visits exactly the ancestors\<close>

text \<open>Bases exist before the class that names them.\<close>

definition bases_first :: "(nat \<Rightarrow> nat list) \<Rightarrow> bool" where
  "bases_first bases \<longleftrightarrow> (\<forall>c. \<forall>b \<in> set (bases c). b < c)"

definition ancestors :: "(nat \<Rightarrow> nat list) \<Rightarrow> nat \<Rightarrow> nat set" where
  "ancestors bases c = {a. (\<lambda>x y. y \<in> set (bases x))\<^sup>*\<^sup>* c a}"

lemma mro_loop_Nil [simp]: "mro_loop bases [] visited = Some []"
  by (simp add: mro_loop.simps)

lemma mro_loop_Cons:
  "mro_loop bases (cls # rest) visited =
     map_option (Cons cls) (mro_loop bases (rest @ filter (\<lambda>b. b \<notin> set (cls # visited)) (bases cls)) (cls # visited))"
  by (subst mro_loop.simps) (simp add: map_option_case bind_eq_Some_conv split: bind_split option.split)

lemma mro_step_smaller:
  assumes "bases_first bases"
  shows "(mset (rest @ filter P (bases cls)), mset (cls # rest)) \<in> mult less_than"
proof -
  have "(mset rest + mset (filter P (bases cls)), mset rest + {#cls#}) \<in> mult less_than"
    by (rule one_step_implies_mult) (use assms in \<open>auto simp: bases_first_def\<close>)
  then show ?thesis by simp
qed

lemma mro_loop_terminates:
  assumes "bases_first bases"
  shows "\<exists>l. mro_loop bases to_visit visited = Some l"
proof (induction "mset to_visit" arbitrary: to_visit visited rule: wf_induct_rule [OF wf_mult [OF wf_less_than]])
  case 1
  show ?case
  proof (cases to_visit)
    case Nil
    then show ?thesis by simp
  next
    case (Cons cls rest)
    have "(mset (rest @ filter (\<lambda>b. b \<notin> set (cls # visited)) (bases cls)), mset to_visit) \<in> mult less_than"
      using mro_step_smaller [OF assms] Cons by simp
    from 1 [OF this] obtain l where
      "mro_loop bases (rest @ filter (\<lambda>b. b \<notin> set (cls # visited)) (bases cls)) (cls # visited) = Some l" by blast
    with Cons show ?thesis by (simp add: mro_loop_Cons)
  qed
qed

lemma mro_loop_visits:
  assumes "bases_first bases"
  shows "mro_loop bases to_visit visited = Some l \<Longrightarrow>
    (\<forall>v \<in> set visited. set (bases v) \<subseteq> set visited \<union> set to_visit) \<Longrightarrow>
    set to_visit \<subseteq> set l \<and> (\<forall>v \<in> set l \<union> set visited. set (bases v) \<subseteq> set l \<union> set visited) \<and>
    set l \<subseteq> (\<Union>c \<in> set to_visit. ancestors bases c) \<and> take 1 l = take 1 to_visit"
proof (induction "mset to_visit" arbitrary: to_visit visited l rule: wf_induct_rule [OF wf_mult [OF wf_less_than]])
  case 1
  show ?case
  proof (cases to_visit)
    case Nil
    with 1 show ?thesis by auto
  next
    case (Cons cls rest)
    let ?new = "filter (\<lambda>b. b \<notin> set (cls # visited)) (bases cls)"
    obtain l' where l': "mro_loop bases (rest @ ?new) (cls # visited) = Some l'" "l = cls # l'"
      using 1(2) Cons by (auto simp: mro_loop_Cons)
    have less: "(mset (rest @ ?new), mset to_visit) \<in> mult less_than"
      using mro_step_smaller [OF assms] Cons by simp
    have "\<forall>v \<in> set (cls # visited). set (bases v) \<subseteq> set (cls # visited) \<union> set (rest @ ?new)"
      using 1(3) Cons by auto
    note IH = 1(1) [OF less l'(1) this]
    have "(\<Union>c \<in> set (rest @ ?new). ancestors bases c) \<subseteq> (\<Union>c \<in> set to_visit. ancestors bases c)"
      using Cons by (auto simp: ancestors_def intro: converse_rtranclp_into_rtranclp)
    then have "set l' \<subseteq> (\<Union>c \<in> set to_visit. ancestors bases c)" using IH by blast
    moreover have "cls \<in> ancestors bases cls" by (simp add: ancestors_def)
    moreover have "set to_visit \<subseteq> set l \<and> (\<forall>v \<in> set l \<union> set visited. set (bases v) \<subseteq> set l \<union> set visited)"
      using IH l'(2) Cons by auto
    ultimately show ?thesis using l'(2) Cons by auto
  qed
qed

lemma closed_ancestors:
  assumes "c \<in> S" and closed: "\<forall>v \<in> S. set (bases v) \<subseteq> S"
  shows "ancestors bases c \<subseteq> S"
proof
  fix a
  assume "a \<in> ancestors bases c"
  then have "(\<lambda>x y. y \<in> set (bases x))\<^sup>*\<^sup>* c a" by (simp add: ancestors_def)
  then show "a \<in> S" by (induction rule: rtranclp_induct) (use assms in auto)
qed

text \<open>
  C21. The search for the method resolution order ends for every class whose bases were created before
  it, starts with the class itself and yields exactly its ancestors; so \<open>is_subclass\<close> decides the
  inheritance relation.
\<close>

theorem get_mro_ancestors:
  assumes "bases_first (\<lambda>c. cc_bases (classes c))"
  shows "\<exists>mro. get_mro classes self = Some mro \<and> hd mro = self \<and>
    set mro = ancestors (\<lambda>c. cc_bases (classes c)) self \<and>
    is_subclass classes self other = Some (other \<in> ancestors (\<lambda>c. cc_bases (classes c)) self)"
proof -
  let ?b = "\<lambda>c. cc_bases (classes c)"
  obtain mro where mro: "mro_loop ?b [self] [] = Some mro" using mro_loop_terminates [OF assms] by blast
  note v = mro_loop_visits [OF assms mro]
  have "set mro = ancestors ?b self"
    using v closed_ancestors [of self "set mro" ?b] by auto
  moreover have "hd mro = self" using v by (cases mro) auto
  ultimately show ?thesis using mro by (simp add: get_mro_def is_subclass_def)
qed

definition sample_args :: "string \<Rightarrow> nat list option \<Rightarrow> class_args" where
  "sample_args name bases = \<lparr>ca_name = name, ca_bases = bases, ca_incref_method = None, ca_decref_method = [],
     ca_peekref_method = None, ca_incref_function = None, ca_decref_function = [], ca_free_function = None,
     ca_memory_policy = None, ca_automatic_type_narrowing = None, ca_allow_subclassing = None, ca_is_singleton = False,
     ca_outer_class = None, ca_template_parameters = [], ca_custom_template_class_name = None, ca_python_name = None,
     ca_custom_name = None, ca_incomplete_type = False, ca_foreign_cpp_namespace = [], ca_import_from_module = None,
     ca_destructor_visibility = ''public''\<rparr>"

definition sample_root :: cpp_class where
  "sample_root = (case CppClass_init default_settings (\<lambda>_. undefined) (sample_args ''A'' None) of Inr c \<Rightarrow> c)"

text \<open>A diamond: class 3 derives from 1 and 2, which both derive from 0.\<close>

definition diamond :: class_store where
  "diamond c = sample_root\<lparr>cc_bases := (if c = 3 then [1, 2] else if c = 1 \<or> c = 2 then [0] else [])\<rparr>"

theorem get_mro_ancestors_witness:
  "\<exists>mro. get_mro diamond 3 = Some mro \<and> hd mro = 3 \<and> set mro = ancestors (\<lambda>c. cc_bases (diamond c)) 3"
proof -
  have "bases_first (\<lambda>c. cc_bases (diamond c))" by (simp add: bases_first_def diamond_def)
  from get_mro_ancestors [OF this, of 3 0] show ?thesis by blast
qed

text \<open>The common base of a diamond is yielded twice.\<close>

lemma diamond_mro: "get_mro diamond 3 = Some [3, 1, 2, 0, 0]"
  by (simp add: get_mro_def mro_loop_Cons diamond_def)

end
