(* ===== verification/Cpp_Handlers.thy ===== *)
theory Cpp_Handlers
  imports Cpp_Class
begin

text \<open>
  \<open>pybindgen/cppclass_typehandlers.py\<close>: the handlers of parameters and return values whose type is a
  wrapped C++ class, and the custodians and wards.  A handler reads its class through \<open>class_info\<close>,
  the attributes and the results of the methods that it uses; a handler object carries its own
  attributes in \<open>cls_param\<close> or \<open>cls_ret\<close>.
\<close>

named_theorems cls_defs \<open>methods of the class handlers\<close>

section \<open>What the handlers see of a class\<close>

record class_info =
  ci_name :: string
  ci_full_name :: string
  ci_pystruct :: string
  ci_pytypestruct :: string
  ci_allow_subclassing :: bool
  ci_automatic_type_narrowing :: bool
  ci_memory_policy :: "memory_policy option"
  ci_has_copy_constructor :: bool
  ci_helper_class :: "string option"
  ci_wrapper_registry :: registry
  ci_typeid_map_name :: string
  ci_construct_name :: "string res"
  ci_creation_function :: creation_function
  ci_post_creation_function :: "creation_function option"
  ci_implicit_conversions :: "(string \<times> string \<times> string) list"

text \<open>The attributes of class number \<open>self\<close>; an implicit conversion source is its name, struct and type struct.\<close>

definition class_info_of :: "(string \<Rightarrow> registry) \<Rightarrow> class_store \<Rightarrow> nat \<Rightarrow> class_info res option" where
  "class_info_of new_registry classes self =
     (case (get_wrapper_registry new_registry self classes, get_type_narrowing_root classes self, get_construct_name self classes,
            get_instance_creation_function classes self, get_post_instance_creation_function classes self) of
        (Some (registry, _), Some root, Some construct_name, Some create, Some post_create) \<Rightarrow>
          Some (case (cc_pystruct (classes self), registry) of
            (Some pystruct, Inr reg) \<Rightarrow>
              let c = classes self in
              Inr \<lparr>ci_name = cc_name c, ci_full_name = cc_full_name c, ci_pystruct = pystruct,
                ci_pytypestruct = cc_pytypestruct c, ci_allow_subclassing = cc_allow_subclassing c,
                ci_automatic_type_narrowing = cc_automatic_type_narrowing c, ci_memory_policy = cc_memory_policy c,
                ci_has_copy_constructor = cc_has_copy_constructor c, ci_helper_class = cc_helper_class c,
                ci_wrapper_registry = reg,
                ci_typeid_map_name = (case root of None \<Rightarrow> [] | Some r \<Rightarrow> opt_str (cc_typeid_map_name (classes r))),
                ci_construct_name = construct_name, ci_creation_function = create, ci_post_creation_function = post_create,
                ci_implicit_conversions = map (\<lambda>s. (cc_name (classes s), opt_str (cc_pystruct (classes s)), cc_pytypestruct (classes s)))
                  (get_all_implicit_conversions classes self)\<rparr>
          | _ \<Rightarrow> Inl (ValueError []))
      | _ \<Rightarrow> None)"

definition write_create_instance :: "class_info \<Rightarrow> block_id \<Rightarrow> string \<Rightarrow> string \<Rightarrow> (wrapper, unit) py" where
  "write_create_instance ci block lvalue parameters =
     bnd (lift_res (ci_construct_name ci)) (\<lambda>construct_type_name.
       ci_creation_function ci block lvalue parameters construct_type_name)"

definition write_post_instance_creation_code :: "class_info \<Rightarrow> block_id \<Rightarrow> string \<Rightarrow> string \<Rightarrow> (wrapper, unit) py" where
  "write_post_instance_creation_code ci block lvalue parameters =
     (case ci_post_creation_function ci of
        None \<Rightarrow> ret ()
      | Some post_instance_creation_func \<Rightarrow>
          bnd (lift_res (ci_construct_name ci)) (\<lambda>construct_type_name.
            post_instance_creation_func block lvalue parameters construct_type_name))"

section \<open>Creating and sharing wrappers\<close>

definition new_func :: "class_info \<Rightarrow> string" where
  "new_func ci = (if ci_allow_subclassing ci then ''PyObject_GC_New'' else ''PyObject_New'')"

definition write_new_pyobject :: "class_info \<Rightarrow> block_id \<Rightarrow> string \<Rightarrow> string \<Rightarrow> (wrapper, unit) py" where
  "write_new_pyobject ci block py_name wrapper_type =
     w_write block (py_name @ '' = '' @ new_func ci @ ''('' @ ci_pystruct ci @ '', '' @ wrapper_type @ '');'')"

definition write_clear_inst_dict :: "class_info \<Rightarrow> block_id \<Rightarrow> string \<Rightarrow> (wrapper, unit) py" where
  "write_clear_inst_dict ci block py_name =
     when_py (ci_allow_subclassing ci) (w_write block (py_name @ ''->inst_dict = NULL;''))"

definition write_flags_none :: "block_id \<Rightarrow> string \<Rightarrow> (wrapper, unit) py" where
  "write_flags_none block py_name = w_write block (py_name @ ''->flags = PYBINDGEN_WRAPPER_FLAG_NONE;'')"

text \<open>The policy of a class for which \<open>isinstance(..., ReferenceCountingPolicy)\<close> was tested.\<close>

definition policy_action :: "class_info \<Rightarrow> (memory_policy \<Rightarrow> (wrapper, unit) py) \<Rightarrow> (wrapper, unit) py" where
  "policy_action ci f = (case ci_memory_policy ci of None \<Rightarrow> raise_py (AttributeError ''write_incref'') | Some p \<Rightarrow> f p)"

abbreviation refcounting :: "class_info \<Rightarrow> bool" where
  "refcounting ci \<equiv> is_reference_counting (ci_memory_policy ci)"

text \<open>The choice of the wrapper type under automatic type narrowing; the result is the C expression.\<close>

definition narrowed_wrapper_type :: "class_info \<Rightarrow> block_id \<Rightarrow> bool \<Rightarrow> string \<Rightarrow> (wrapper, string) py" where
  "narrowed_wrapper_type ci block owned value_value =
     (if ci_automatic_type_narrowing ci \<and> (owned \<or> refcounting ci) then
        bnd (declare_init ''PyTypeObject*'' ''wrapper_type'' (PyStr ''0'')) (\<lambda>wrapper_type.
        bnd (w_write block (wrapper_type @ '' = '' @ ci_typeid_map_name ci @ ''.lookup_wrapper(typeid('' @ value_value @
          ''), &'' @ ci_pytypestruct ci @ '');'')) (\<lambda>_. ret wrapper_type))
      else ret (''&'' @ ci_pytypestruct ci))"

text \<open>\<open>py->obj = value;\<close>, with a cast when the target of the value is const; \<open>cast\<close> is the C cast.\<close>

definition write_assign_obj :: "block_id \<Rightarrow> string \<Rightarrow> bool \<Rightarrow> string \<Rightarrow> string \<Rightarrow> (wrapper, unit) py" where
  "write_assign_obj block py_name target_is_const cast value_ptr =
     w_write block (py_name @ ''->obj = '' @ (if target_is_const then ''('' @ cast @ '') ('' @ value_ptr @ '')'' else value_ptr) @ '';'')"

definition write_create_new_wrapper ::
  "class_info \<Rightarrow> block_id \<Rightarrow> string \<Rightarrow> string \<Rightarrow> string \<Rightarrow> bool \<Rightarrow> bool \<Rightarrow> bool \<Rightarrow> (wrapper, unit) py" where
  "write_create_new_wrapper ci block py_name value_value value_ptr target_is_const caller_owns_return reference_existing_object =
     bnd (narrowed_wrapper_type ci block caller_owns_return value_value) (\<lambda>wrapper_type. seqs [
       write_new_pyobject ci block py_name wrapper_type,
       write_clear_inst_dict ci block py_name,
       (if caller_owns_return then seqs [
          write_assign_obj block py_name target_is_const (ci_full_name ci @ '' *'') value_ptr,
          write_flags_none block py_name]
        else if \<not> refcounting ci then
          if reference_existing_object then seqs [
            write_assign_obj block py_name target_is_const (ci_full_name ci @ '' *'') value_ptr,
            w_write block (py_name @ ''->flags = PYBINDGEN_WRAPPER_FLAG_OBJECT_NOT_OWNED;'')]
          else seqs [
            write_create_instance ci block (py_name @ ''->obj'') value_value,
            write_flags_none block py_name,
            write_post_instance_creation_code ci block (py_name @ ''->obj'') value_value]
        else seqs [
          write_flags_none block py_name,
          policy_action ci (\<lambda>p. write_incref p block value_ptr),
          write_assign_obj block py_name target_is_const (ci_full_name ci @ ''*'') value_ptr])])"

text \<open>\<open>try: m except NotSupportedError: h else: k\<close>.\<close>

definition try_else :: "('s, unit) py \<Rightarrow> ('s, unit) py \<Rightarrow> ('s, unit) py \<Rightarrow> ('s, unit) py" where
  "try_else m h k = (\<lambda>s. case m s of
     (Inr _, s') \<Rightarrow> k s'
   | (Inl e, s') \<Rightarrow> (case e of NotSupportedError _ \<Rightarrow> h s' | _ \<Rightarrow> (Inl e, s')))"

text \<open>Look the wrapper up, and create and register a new one when there is none.\<close>

definition write_lookup_or_create ::
  "class_info \<Rightarrow> block_id \<Rightarrow> string \<Rightarrow> string \<Rightarrow> string \<Rightarrow> (wrapper, unit) py \<Rightarrow> (wrapper, unit) py \<Rightarrow> (wrapper, unit) py" where
  "write_lookup_or_create ci block py_name value_ptr open_if create closing =
     (let create_and_register = seqs [create,
            write_register_new_wrapper (ci_wrapper_registry ci) block py_name (py_name @ ''->obj'')] in
      try_else (write_lookup_wrapper (ci_wrapper_registry ci) block (ci_pystruct ci) py_name value_ptr)
        create_and_register
        (seqs [w_write block (''if ('' @ py_name @ '' == NULL)'' @ open_if), indented block create_and_register, closing]))"

definition common_shared_object_return ::
  "string \<Rightarrow> string \<Rightarrow> class_info \<Rightarrow> block_id \<Rightarrow> bool \<Rightarrow> bool \<Rightarrow> bool \<Rightarrow> bool \<Rightarrow> (wrapper, unit) py" where
  "common_shared_object_return value py_name ci block target_is_const caller_owns_return reference_existing_object type_is_pointer =
     (let value_value = (if type_is_pointer then ''(*'' @ value @ '')'' else value);
          value_ptr = (if type_is_pointer then value else ''(&'' @ value @ '')'');
          drop_reference = policy_action ci (\<lambda>p. write_decref p block value_ptr);
          lookup_or_create = write_lookup_or_create ci block py_name value_ptr '' {''
            (write_create_new_wrapper ci block py_name value_value value_ptr target_is_const caller_owns_return reference_existing_object)
            (if caller_owns_return \<and> refcounting ci then seqs [
               w_write block ''} else {'', indented block drop_reference, w_write block ''}'']
             else w_write block ''}'')
      in case ci_helper_class ci of
           None \<Rightarrow> lookup_or_create
         | Some helper_name \<Rightarrow>
             let const_cast_value = (if target_is_const then ''const_cast<'' @ ci_full_name ci @ '' *>('' @ value_ptr @ '') '' else value_ptr)
             in seqs [
               w_write block (''if (typeid('' @ value_value @ '').name() == typeid('' @ helper_name @ '').name())'' @ nl @ ''{''),
               indented block (seqs [
                 w_write block (py_name @ '' = reinterpret_cast< '' @ ci_pystruct ci @ ''* >(reinterpret_cast< '' @ helper_name @
                   ''* >('' @ const_cast_value @ '')->m_pyself);''),
                 w_write block (py_name @ ''->obj = '' @ const_cast_value @ '';''),
                 when_py (caller_owns_return \<and> refcounting ci) drop_reference,
                 w_write block (''Py_INCREF('' @ py_name @ '');'')]),
               w_write block ''} else {'',
               indented block lookup_or_create,
               w_write block ''}''])"

section \<open>Parameters\<close>

record cls_param =
  cp_class :: class_info
  cp_num :: int
  cp_param :: param
  cp_take_value_from_python_self :: bool
  cp_transfer_ownership :: bool
  cp_custodian :: "int option"
  cp_null_ok :: bool
  cp_default_value_type :: "string option"
  cp_transform :: "block_id \<Rightarrow> string \<Rightarrow> (wrapper, string) py"
  cp_untransform :: "block_id \<Rightarrow> string \<Rightarrow> (wrapper, string) py"

text \<open>\<open>NullTypeTransformation\<close>.\<close>

definition null_transform :: "block_id \<Rightarrow> string \<Rightarrow> (wrapper, string) py" where
  "null_transform block expression = ret expression"

definition target_is_const :: "('a type_handler_scheme) \<Rightarrow> bool res" where
  "target_is_const th = (case th_type_traits th of None \<Rightarrow> Inl (AttributeError ''target_is_const'') | Some t \<Rightarrow> Inr (tt_target_is_const t))"

text \<open>\<open>if ctype == self.cpp_class.name: ctype = self.cpp_class.full_name\<close>.\<close>

definition class_ctype :: "class_info \<Rightarrow> ctype_arg \<Rightarrow> ctype_arg" where
  "class_ctype ci ctype = (if ctype = String_Arg (ci_name ci) then String_Arg (ci_full_name ci) else ctype)"

definition CppClassParameterBase_init ::
  "class_info \<Rightarrow> int list \<Rightarrow> int \<Rightarrow> ctype_arg \<Rightarrow> string \<Rightarrow> int \<Rightarrow> bool \<Rightarrow> pyval \<Rightarrow> cls_param res option" where
  "CppClassParameterBase_init ci DIRECTIONS num ctype name direction is_const default_value =
     bind_div (Parameter_init DIRECTIONS (class_ctype ci ctype) name direction is_const default_value) (\<lambda>p.
       Some (Inr \<lparr>cp_class = ci, cp_num = num, cp_param = p, cp_take_value_from_python_self = False,
         cp_transfer_ownership = False, cp_custodian = None, cp_null_ok = False, cp_default_value_type = None,
         cp_transform = null_transform, cp_untransform = null_transform\<rparr>))"

text \<open>\<open>self.py_name = wrapper.declarations.declare_variable(...)\<close>.\<close>

definition declare_py_name :: "int \<Rightarrow> string \<Rightarrow> string \<Rightarrow> pyval \<Rightarrow> (wrapper, string) py" where
  "declare_py_name num ctype name init =
     bnd (declare_init ctype name init) (\<lambda>py_name. bnd (w_set_py_name num py_name) (\<lambda>_. ret py_name))"

text \<open>The value of a parameter that is the \<open>self\<close> of a method.\<close>

definition call_with_self :: "cls_param \<Rightarrow> (wrapper, unit) py" where
  "call_with_self p = seqs [
     w_set_py_name (cp_num p) ''self'',
     w_call_append (''*(('' @ ci_pystruct (cp_class p) @ '' *) self)->obj'')]"

text \<open>The chain of type tests for classes that other classes convert to; ends in a TypeError.\<close>

definition instance_test :: "string \<Rightarrow> string \<Rightarrow> string \<Rightarrow> string \<Rightarrow> string" where
  "instance_test py_name pytypestruct tmp_value_variable pystruct =
     ''if (PyObject_IsInstance('' @ py_name @ '', (PyObject*) &'' @ pytypestruct @ '')) {'' @ nl @
     ''    '' @ tmp_value_variable @ '' = *(('' @ pystruct @ '' *) '' @ py_name @ '')->obj;''"

definition write_implicit_conversions :: "class_info \<Rightarrow> string \<Rightarrow> string \<Rightarrow> (wrapper, unit) py" where
  "write_implicit_conversions ci py_name tmp_value_variable = seqs [
     for_each (\<lambda>(_, pystruct, pytypestruct).
       w_write Before_Call (''} else '' @ instance_test py_name pytypestruct tmp_value_variable pystruct)) (ci_implicit_conversions ci),
     w_write Before_Call (''} else {'' @ nl),
     indented Before_Call (seqs [
       w_write Before_Call (''PyErr_Format(PyExc_TypeError, '' @ dq @ ''parameter must an instance of one of the types ('' @
         join '', '' (ci_name ci # map fst (ci_implicit_conversions ci)) @ ''), not %s'' @ dq @ '', '' @ py_name @ ''->ob_type->tp_name);''),
       on_block Before_Call write_error_return]),
     w_write Before_Call ''}'',
     w_call_append tmp_value_variable]"

text \<open>\<open>O!\<close> parsing of an instance of exactly this class.\<close>

definition parse_instance :: "cls_param \<Rightarrow> string \<Rightarrow> bool \<Rightarrow> (wrapper, unit) py" where
  "parse_instance p py_name optional =
     parse_arg ''O!'' [''&'' @ ci_pytypestruct (cp_class p), ''&'' @ py_name] (p_name (cp_param p)) optional"

definition or_default :: "cls_param \<Rightarrow> string \<Rightarrow> string \<Rightarrow> string" where
  "or_default p py_name dflt =
     ''('' @ py_name @ '' ? (*(('' @ ci_pystruct (cp_class p) @ '' *) '' @ py_name @ '')->obj) : '' @ dflt @ '')''"

definition CppClassParameter_convert_python_to_c :: "cls_param \<Rightarrow> (wrapper, unit) py" where [cls_defs]:
  "CppClassParameter_convert_python_to_c p =
     (let ci = cp_class p; name = p_name (cp_param p); dflt = p_default_value (cp_param p) in
      bnd (assert_kind Forward) (\<lambda>_.
      if cp_take_value_from_python_self p then call_with_self p
      else if ci_implicit_conversions ci = [] then
        if dflt \<noteq> PyNone then
          bnd (lift_res (ci_construct_name ci)) (\<lambda>_.
          bnd (declare_py_name (cp_num p) (ci_pystruct ci @ ''*'') name (PyStr ''NULL'')) (\<lambda>py_name. seqs [
            parse_instance p py_name True,
            w_call_append (or_default p py_name (py_str dflt))]))
        else
          bnd (declare_py_name (cp_num p) (ci_pystruct ci @ ''*'') name PyNone) (\<lambda>py_name. seqs [
            parse_instance p py_name False,
            w_call_append (''*(('' @ ci_pystruct ci @ '' *) '' @ py_name @ '')->obj'')])
      else
        bnd (declare_py_name (cp_num p) ''PyObject*'' name (if dflt = PyNone then PyNone else PyStr ''NULL'')) (\<lambda>py_name.
        bnd (declare_var (ci_full_name ci) name) (\<lambda>tmp_value_variable. seqs [
          parse_arg ''O'' [''&'' @ py_name] name (dflt \<noteq> PyNone),
          (if dflt = PyNone then
             w_write Before_Call (instance_test py_name (ci_pytypestruct ci) tmp_value_variable (ci_pystruct ci))
           else seqs [
             w_write Before_Call (''if ('' @ py_name @ '' == NULL) {'' @ nl @ ''    '' @ tmp_value_variable @ '' = '' @ py_str dflt @ '';''),
             w_write Before_Call (''} else '' @ instance_test py_name (ci_pytypestruct ci) tmp_value_variable (ci_pystruct ci))]),
          write_implicit_conversions ci py_name tmp_value_variable]))))"

text \<open>A new wrapper with its own copy of a value, in one block: the part that several methods share.\<close>

definition write_copy_instance :: "class_info \<Rightarrow> block_id \<Rightarrow> string \<Rightarrow> string \<Rightarrow> (wrapper, unit) py" where
  "write_copy_instance ci block py_name value = seqs [
     write_create_instance ci block (py_name @ ''->obj'') value,
     write_register_new_wrapper (ci_wrapper_registry ci) block py_name (py_name @ ''->obj''),
     write_post_instance_creation_code ci block (py_name @ ''->obj'') value]"

definition write_new_object :: "class_info \<Rightarrow> block_id \<Rightarrow> string \<Rightarrow> (wrapper, unit) py" where
  "write_new_object ci block py_name = seqs [
     write_new_pyobject ci block py_name (''&'' @ ci_pytypestruct ci),
     write_clear_inst_dict ci block py_name,
     write_flags_none block py_name]"

definition CppClassParameter_convert_c_to_python :: "cls_param \<Rightarrow> (wrapper, unit) py" where [cls_defs]:
  "CppClassParameter_convert_c_to_python p =
     (let ci = cp_class p in
      bnd (assert_kind Reverse) (\<lambda>_.
      bnd (declare_py_name (cp_num p) (ci_pystruct ci @ ''*'') (''py_'' @ ci_name ci) PyNone) (\<lambda>py_name. seqs [
        write_new_object ci Before_Call py_name,
        write_copy_instance ci Before_Call py_name (p_value (cp_param p)),
        w_build_add ''N'' [py_name] False])))"

subsection \<open>References\<close>

definition CppClassRefParameter_init ::
  "class_info \<Rightarrow> int \<Rightarrow> ctype_arg \<Rightarrow> string \<Rightarrow> int \<Rightarrow> bool \<Rightarrow> pyval \<Rightarrow> string option \<Rightarrow> cls_param res option" where
  "CppClassRefParameter_init ci num ctype name direction is_const default_value default_value_type =
     bind_div (CppClassParameterBase_init ci [DIRECTION_IN, DIRECTION_OUT, DIRECTION_INOUT] num ctype name direction is_const default_value)
       (\<lambda>p. Some (Inr (p\<lparr>cp_default_value_type := default_value_type\<rparr>)))"

definition ref_direction_in :: "cls_param \<Rightarrow> (wrapper, unit) py" where [cls_defs]:
  "ref_direction_in p =
     (let ci = cp_class p; name = p_name (cp_param p); dflt = p_default_value (cp_param p) in
      if cp_take_value_from_python_self p then call_with_self p
      else bnd (if ci_implicit_conversions ci = [] then ret False else lift_res (target_is_const (cp_param p))) (\<lambda>implicit.
        if \<not> implicit then
          if dflt \<noteq> PyNone then
            bnd (declare_py_name (cp_num p) (ci_pystruct ci @ ''*'') name (PyStr ''NULL'')) (\<lambda>py_name. seqs [
              parse_instance p py_name True,
              (case cp_default_value_type p of
                 Some default_value_type \<Rightarrow>
                   bnd (declare_init default_value_type (name @ ''_default'') dflt) (\<lambda>default_value_name.
                     w_call_append (or_default p py_name default_value_name))
               | None \<Rightarrow>
                   bnd (lift_res (ci_construct_name ci)) (\<lambda>_. w_call_append (or_default p py_name (py_str dflt))))])
          else
            bnd (declare_py_name (cp_num p) (ci_pystruct ci @ ''*'') name PyNone) (\<lambda>py_name. seqs [
              parse_instance p py_name False,
              w_call_append (''*(('' @ ci_pystruct ci @ '' *) '' @ py_name @ '')->obj'')])
        else
          bnd (declare_py_name (cp_num p) ''PyObject*'' name PyNone) (\<lambda>py_name.
          bnd (declare_var (ci_full_name ci) name) (\<lambda>tmp_value_variable. seqs [
            parse_arg ''O'' [''&'' @ py_name] name False,
            w_write Before_Call (instance_test py_name (ci_pytypestruct ci) tmp_value_variable (ci_pystruct ci)),
            write_implicit_conversions ci py_name tmp_value_variable]))))"

definition ref_direction_out :: "cls_param \<Rightarrow> (wrapper, unit) py" where [cls_defs]:
  "ref_direction_out p =
     (let ci = cp_class p in
      bnd (assert_py (\<not> cp_take_value_from_python_self p)) (\<lambda>_.
      bnd (declare_py_name (cp_num p) (ci_pystruct ci @ ''*'') (p_name (cp_param p)) PyNone) (\<lambda>py_name. seqs [
        write_new_pyobject ci Before_Call py_name (''&'' @ ci_pytypestruct ci),
        write_clear_inst_dict ci After_Call py_name,
        write_flags_none After_Call py_name,
        write_copy_instance ci Before_Call py_name [],
        w_call_append (''*'' @ py_name @ ''->obj''),
        w_build_add ''N'' [py_name] False])))"

definition ref_direction_inout :: "cls_param \<Rightarrow> (wrapper, unit) py" where [cls_defs]:
  "ref_direction_inout p =
     bnd (assert_py (\<not> cp_take_value_from_python_self p)) (\<lambda>_.
     bnd (declare_py_name (cp_num p) (ci_pystruct (cp_class p) @ ''*'') (p_name (cp_param p)) PyNone) (\<lambda>py_name. seqs [
       parse_instance p py_name False,
       w_call_append (''*'' @ py_name @ ''->obj'')]))"

definition CppClassRefParameter_convert_python_to_c :: "cls_param \<Rightarrow> (wrapper, unit) py" where [cls_defs]:
  "CppClassRefParameter_convert_python_to_c p =
     bnd (assert_kind Forward) (\<lambda>_.
       if p_direction (cp_param p) = DIRECTION_IN then ref_direction_in p
       else if p_direction (cp_param p) = DIRECTION_OUT then ref_direction_out p
       else if p_direction (cp_param p) = DIRECTION_INOUT then ref_direction_inout p
       else ret ())"

text \<open>
  The end of a temporary wrapper: if the callee kept it, it gets a copy of the object; \<open>brace\<close> is the
  text that opens the else branch, \<open>copy\<close> writes the copy.
\<close>

definition write_drop_temporary :: "class_info \<Rightarrow> string \<Rightarrow> string \<Rightarrow> (wrapper, unit) py \<Rightarrow> (wrapper, unit) py" where
  "write_drop_temporary ci py_name brace copy =
     (if ci_has_copy_constructor ci then seqs [
        w_write After_Call (''if ('' @ py_name @ ''->ob_refcnt == 1)'' @ nl @ ''    '' @ py_name @ ''->obj = NULL;'' @ nl @ brace @ nl),
        indented After_Call copy,
        w_write After_Call ''}'']
      else w_write After_Call (py_name @ ''->obj = NULL;''))"

text \<open>\<open>add_cleanup_code\<close> as a statement.\<close>

definition w_cleanup :: "block_id \<Rightarrow> string \<Rightarrow> (wrapper, unit) py" where
  "w_cleanup block code = bnd (w_add_cleanup block code) (\<lambda>_. ret ())"

definition CppClassRefParameter_convert_c_to_python :: "cls_param \<Rightarrow> (wrapper, unit) py" where [cls_defs]:
  "CppClassRefParameter_convert_c_to_python p =
     (let ci = cp_class p; v = p_value (cp_param p) in
      bnd (assert_kind Reverse) (\<lambda>_.
      bnd (declare_py_name (cp_num p) (ci_pystruct ci @ ''*'') (''py_'' @ ci_name ci) PyNone) (\<lambda>py_name. seqs [
        write_new_object ci Before_Call py_name,
        (if p_direction (cp_param p) = DIRECTION_IN then seqs [
           write_copy_instance ci Before_Call py_name v,
           w_build_add ''N'' [py_name] False]
         else
           bnd (lift_res (target_is_const (cp_param p))) (\<lambda>const. seqs [
             w_write Before_Call (py_name @ ''->obj = '' @
               (if const then ''('' @ ci_full_name ci @ ''*) (&('' @ v @ ''))'' else ''&('' @ v @ '')'') @ '';''),
             w_build_add ''O'' [py_name] False,
             w_cleanup Before_Call (''Py_DECREF('' @ py_name @ '');''),
             write_drop_temporary ci py_name ''else{'' (write_copy_instance ci After_Call py_name v)]))])))"

subsection \<open>Pointers\<close>

text \<open>
  The constructor: a missing \<open>transfer_ownership\<close> is False for pointers to const objects and an error
  for others.
\<close>

definition CppClassPtrParameter_init ::
  "class_info \<Rightarrow> int \<Rightarrow> ctype_arg \<Rightarrow> string \<Rightarrow> int \<Rightarrow> bool option \<Rightarrow> int option \<Rightarrow> bool \<Rightarrow> bool \<Rightarrow> pyval \<Rightarrow> cls_param res option" where
  "CppClassPtrParameter_init ci num ctype name direction transfer_ownership custodian is_const null_ok default_value =
     bind_div (CppClassParameterBase_init ci [DIRECTION_IN, DIRECTION_OUT, DIRECTION_INOUT] num ctype name direction is_const default_value)
       (\<lambda>p. Some (case transfer_ownership of
          Some b \<Rightarrow> Inr (p\<lparr>cp_custodian := custodian, cp_transfer_ownership := b, cp_null_ok := null_ok\<rparr>)
        | None \<Rightarrow> bind_res (target_is_const (cp_param p)) (\<lambda>const.
            if const then Inr (p\<lparr>cp_custodian := custodian, cp_transfer_ownership := False, cp_null_ok := null_ok\<rparr>)
            else Inl (TypeConfigurationError ''Missing transfer_ownership option''))))"

text \<open>The branch that parses the object; \<open>num\<close> in the message is the position that \<open>add_parameter\<close> returned.\<close>

definition ptr_parse :: "cls_param \<Rightarrow> (wrapper, string \<times> string) py" where [cls_defs]:
  "ptr_parse p =
     (let ci = cp_class p; name = p_name (cp_param p); optional = truthy (p_default_value (cp_param p)) in
      bnd (declare_py_name (cp_num p) (ci_pystruct ci @ ''*'') name (if optional then PyStr ''NULL'' else PyNone)) (\<lambda>py_name.
      bnd (declare_var (ci_full_name ci @ ''*'') (name @ ''_ptr'')) (\<lambda>value_ptr.
      bnd (if cp_null_ok p then
          bnd (parse_arg ''O'' [''&'' @ py_name] name optional) (\<lambda>_.
          bnd (gets (\<lambda>w. length (w_parse_params w))) (\<lambda>num. seqs [
            w_error_check Before_Call
              (py_name @ '' && ((PyObject *) '' @ py_name @ '' != Py_None) && !PyObject_IsInstance((PyObject *) '' @ py_name @
                 '', (PyObject *) &'' @ ci_pytypestruct ci @ '')'')
              (Some (''PyErr_SetString(PyExc_TypeError, '' @ dq @ ''Parameter '' @ str_of_nat num @ '' must be of type '' @ ci_name ci @ dq @ '');'')),
            w_write Before_Call (join nl [
              ''if ('' @ py_name @ '') {'',
              ''    if ((PyObject *) '' @ py_name @ '' == Py_None)'',
              ''        '' @ value_ptr @ '' = NULL;'',
              ''    else'',
              ''        '' @ value_ptr @ '' = '' @ py_name @ ''->obj;'',
              ''} else {'',
              ''    '' @ value_ptr @ '' = NULL;'',
              ''}''])]))
        else seqs [
          parse_instance p py_name optional,
          w_write Before_Call (value_ptr @ '' = ('' @ py_name @ '' ? '' @ py_name @ ''->obj : NULL);'')])
        (\<lambda>_. ret (py_name, value_ptr)))))"

definition write_transfer_ownership :: "cls_param \<Rightarrow> string \<Rightarrow> (wrapper, unit) py" where [cls_defs]:
  "write_transfer_ownership p py_name =
     (let ci = cp_class p in
      when_py (cp_transfer_ownership p)
        (if \<not> refcounting ci then seqs [
           w_write After_Call (''if ('' @ py_name @ '') {''),
           indented After_Call (seqs [
             write_unregister_wrapper (ci_wrapper_registry ci) After_Call py_name (py_name @ ''->obj''),
             w_write After_Call (py_name @ ''->obj = NULL;'')]),
           w_write After_Call ''}'']
         else seqs [
           w_write Before_Call (''if ('' @ py_name @ '') {''),
           indented Before_Call (policy_action ci (\<lambda>pol. write_incref pol Before_Call (py_name @ ''->obj''))),
           w_write Before_Call ''}'']))"

definition CppClassPtrParameter_convert_python_to_c :: "cls_param \<Rightarrow> (wrapper, unit) py" where [cls_defs]:
  "CppClassPtrParameter_convert_python_to_c p =
     bnd (assert_kind Forward) (\<lambda>_.
     bnd (if cp_take_value_from_python_self p
          then bnd (w_set_py_name (cp_num p) ''self'') (\<lambda>_. ret (''self'', ''self->obj''))
          else ptr_parse p) (\<lambda>(py_name, value_ptr).
     bnd (cp_transform p Before_Call value_ptr) (\<lambda>value. seqs [
       w_call_append value,
       write_transfer_ownership p py_name])))"

text \<open>
  The wrapper of a pointer given to Python.  In the out and inout case the build argument is added
  here, and once more by the caller.
\<close>

definition ptr_create_new_wrapper :: "cls_param \<Rightarrow> string \<Rightarrow> string \<Rightarrow> (wrapper, unit) py" where [cls_defs]:
  "ptr_create_new_wrapper p py_name value =
     (let ci = cp_class p; self_value = p_value (cp_param p) in
      bnd (narrowed_wrapper_type ci Before_Call (cp_transfer_ownership p) (''*'' @ value)) (\<lambda>wrapper_type. seqs [
        write_new_pyobject ci Before_Call py_name wrapper_type,
        write_clear_inst_dict ci Before_Call py_name,
        write_flags_none Before_Call py_name,
        (if cp_transfer_ownership p then w_write Before_Call (py_name @ ''->obj = '' @ value @ '';'')
         else if \<not> refcounting ci then
           if p_direction (cp_param p) = DIRECTION_IN then seqs [
             write_create_instance ci Before_Call (py_name @ ''->obj'') (''*'' @ self_value),
             write_post_instance_creation_code ci Before_Call (py_name @ ''->obj'') (''*'' @ self_value)]
           else bnd (lift_res (target_is_const (cp_param p))) (\<lambda>const. seqs [
             write_assign_obj Before_Call py_name const (ci_full_name ci @ ''*'') value,
             w_build_add ''O'' [py_name] False,
             w_cleanup Before_Call (''Py_DECREF('' @ py_name @ '');''),
             write_drop_temporary ci py_name ''else {'' (seqs [
               write_create_instance ci After_Call (py_name @ ''->obj'') (''*'' @ value),
               write_post_instance_creation_code ci After_Call (py_name @ ''->obj'') (''*'' @ value)])])
         else seqs [
           policy_action ci (\<lambda>pol. write_incref pol Before_Call value),
           bnd (lift_res (target_is_const (cp_param p))) (\<lambda>const.
             write_assign_obj Before_Call py_name const (ci_full_name ci @ ''*'') value)])]))"

definition CppClassPtrParameter_convert_c_to_python :: "cls_param \<Rightarrow> (wrapper, unit) py" where [cls_defs]:
  "CppClassPtrParameter_convert_c_to_python p =
     (let ci = cp_class p in
      bnd (cp_untransform p After_Call (p_value (cp_param p))) (\<lambda>value.
      bnd (declare_py_name (cp_num p) (ci_pystruct ci @ ''*'') (''py_'' @ ci_name ci) PyNone) (\<lambda>py_name.
      let lookup_or_create = write_lookup_or_create ci Before_Call py_name value (nl @ ''{'')
            (ptr_create_new_wrapper p py_name value) (w_write Before_Call ''}'')
      in case ci_helper_class ci of
           None \<Rightarrow> seqs [lookup_or_create, w_build_add ''N'' [py_name] False]
         | Some helper_name \<Rightarrow> seqs [
             w_write Before_Call (''if (typeid(*('' @ value @ '')).name() == typeid('' @ helper_name @ '').name())'' @ nl @ ''{''),
             indented Before_Call (seqs [
               bnd (lift_res (target_is_const (cp_param p))) (\<lambda>const.
                 if const then seqs [
                   w_write Before_Call (py_name @ '' = ('' @ ci_pystruct ci @ ''*) ((('' @ helper_name @ ''*) (('' @ ci_full_name ci @ ''*) '' @
                     value @ ''))->m_pyself);''),
                   w_write Before_Call (py_name @ ''->obj =  ('' @ ci_full_name ci @ ''*) ('' @ value @ '');'')]
                 else seqs [
                   w_write Before_Call (py_name @ '' = ('' @ ci_pystruct ci @ ''*) ((('' @ helper_name @ ''*) '' @ value @ '')->m_pyself);''),
                   w_write Before_Call (py_name @ ''->obj = '' @ value @ '';'')]),
               w_write Before_Call (''Py_INCREF('' @ py_name @ '');'')]),
             w_write Before_Call ''} else {'',
             indented Before_Call lookup_or_create,
             w_write Before_Call ''}'',
             w_build_add ''N'' [py_name] False])))"

section \<open>Return values\<close>

record cls_ret =
  cr_class :: class_info
  cr_ret :: retval
  cr_requires_assignment_constructor :: bool
  cr_caller_owns_return :: bool
  cr_reference_existing_object :: bool
  cr_return_internal_reference :: bool
  cr_custodian :: "int option"
  cr_transform :: "block_id \<Rightarrow> string \<Rightarrow> (wrapper, string) py"
  cr_untransform :: "block_id \<Rightarrow> string \<Rightarrow> (wrapper, string) py"

definition CppClassReturnValueBase_init ::
  "class_info \<Rightarrow> bool \<Rightarrow> ctype_arg \<Rightarrow> bool \<Rightarrow> cls_ret res option" where
  "CppClassReturnValueBase_init ci requires_assignment_constructor ctype is_const =
     bind_div (ReturnValue_init (class_ctype ci ctype) is_const) (\<lambda>r.
       Some (Inr \<lparr>cr_class = ci, cr_ret = r, cr_requires_assignment_constructor = requires_assignment_constructor,
         cr_caller_owns_return = False, cr_reference_existing_object = False, cr_return_internal_reference = False,
         cr_custodian = None, cr_transform = null_transform, cr_untransform = null_transform\<rparr>))"

definition type_is_reference :: "('a type_handler_scheme) \<Rightarrow> bool res" where
  "type_is_reference th = (case th_type_traits th of None \<Rightarrow> Inl (AttributeError ''type_is_reference'') | Some t \<Rightarrow> Inr (tt_is_reference t))"

definition CppClassReturnValue_get_c_error_return :: "cls_ret \<Rightarrow> string res" where
  "CppClassReturnValue_get_c_error_return r =
     bind_res (type_is_reference (cr_ret r)) (\<lambda>ref.
       if ref then Inl (NotSupportedError []) else Inr (''return '' @ ci_full_name (cr_class r) @ ''();''))"

definition declare_ret_py_name :: "cls_ret \<Rightarrow> (wrapper, string) py" where
  "declare_ret_py_name r = declare_py_name (- 1) (ci_pystruct (cr_class r) @ ''*'') (''py_'' @ ci_name (cr_class r)) PyNone"

definition return_copy :: "cls_ret \<Rightarrow> string \<Rightarrow> (wrapper, unit) py" where [cls_defs]:
  "return_copy r py_name = seqs [
     write_new_object (cr_class r) After_Call py_name,
     write_copy_instance (cr_class r) After_Call py_name (r_value (cr_ret r))]"

definition CppClassReturnValue_convert_c_to_python :: "cls_ret \<Rightarrow> (wrapper, unit) py" where [cls_defs]:
  "CppClassReturnValue_convert_c_to_python r =
     bnd (declare_ret_py_name r) (\<lambda>py_name. seqs [
       return_copy r py_name,
       w_build_add ''N'' [py_name] True])"

definition CppClassReturnValue_convert_python_to_c :: "cls_ret \<Rightarrow> (wrapper, unit) py" where [cls_defs]:
  "CppClassReturnValue_convert_python_to_c r =
     (let ci = cr_class r; v = r_value (cr_ret r) in
      bnd (lift_res (type_is_reference (cr_ret r))) (\<lambda>ref.
      if ref then raise_py (NotSupportedError [])
      else bnd (declare_var (ci_pystruct ci @ ''*'') (''tmp_'' @ ci_name ci)) (\<lambda>name. seqs [
        parse_ret ''O!'' [''&'' @ ci_pytypestruct ci, ''&'' @ name] False,
        w_write After_Call ((if cr_requires_assignment_constructor r then ci_full_name ci @ '' '' else []) @ v @ '' = *'' @ name @ ''->obj;'')])))"

definition CppClassRefReturnValue_init ::
  "class_info \<Rightarrow> ctype_arg \<Rightarrow> bool \<Rightarrow> bool \<Rightarrow> bool option \<Rightarrow> bool \<Rightarrow> cls_ret res option" where
  "CppClassRefReturnValue_init ci ctype is_const caller_owns_return reference_existing_object return_internal_reference =
     bind_div (CppClassReturnValueBase_init ci True ctype is_const) (\<lambda>r.
       if return_internal_reference \<and> reference_existing_object \<noteq> None then Some (Inl AssertionError)
       else Some (Inr (r\<lparr>cr_reference_existing_object := (return_internal_reference \<or> reference_existing_object = Some True),
         cr_return_internal_reference := return_internal_reference, cr_caller_owns_return := caller_owns_return\<rparr>)))"

definition CppClassRefReturnValue_convert_c_to_python :: "cls_ret \<Rightarrow> (wrapper, unit) py" where [cls_defs]:
  "CppClassRefReturnValue_convert_c_to_python r =
     bnd (declare_ret_py_name r) (\<lambda>py_name. seqs [
       (if cr_reference_existing_object r \<or> cr_caller_owns_return r then
          bnd (lift_res (target_is_const (cr_ret r))) (\<lambda>const.
            common_shared_object_return (r_value (cr_ret r)) py_name (cr_class r) After_Call const
              (cr_caller_owns_return r) (cr_reference_existing_object r) False)
        else return_copy r py_name),
       w_build_add ''N'' [py_name] True])"

definition CppClassPtrReturnValue_init ::
  "class_info \<Rightarrow> ctype_arg \<Rightarrow> bool option \<Rightarrow> int option \<Rightarrow> bool \<Rightarrow> bool option \<Rightarrow> bool \<Rightarrow> cls_ret res option" where
  "CppClassPtrReturnValue_init ci ctype caller_owns_return custodian is_const reference_existing_object return_internal_reference =
     bind_div (CppClassReturnValueBase_init ci False ctype is_const) (\<lambda>r.
     bind_div (Some (if caller_owns_return = None then bind_res (target_is_const (cr_ret r)) (\<lambda>const. Inr (if const then Some False else None))
                     else Inr caller_owns_return)) (\<lambda>owns.
       if return_internal_reference \<and> reference_existing_object \<noteq> None then Some (Inl AssertionError)
       else let existing = (if return_internal_reference then Some True else reference_existing_object)
            in Some (if owns = None \<and> existing = None
              then Inl (TypeConfigurationError ''Either caller_owns_return or self.reference_existing_object must be given'')
              else Inr (r\<lparr>cr_caller_owns_return := (owns = Some True), cr_reference_existing_object := (existing = Some True),
                cr_return_internal_reference := return_internal_reference, cr_custodian := custodian\<rparr>))))"

definition CppClassPtrReturnValue_get_c_error_return :: string where
  "CppClassPtrReturnValue_get_c_error_return = ''return NULL;''"

definition CppClassPtrReturnValue_convert_c_to_python :: "cls_ret \<Rightarrow> (wrapper, unit) py" where [cls_defs]:
  "CppClassPtrReturnValue_convert_c_to_python r =
     bnd (cr_untransform r After_Call (r_value (cr_ret r))) (\<lambda>value.
     bnd (w_write After_Call (join nl [
       ''if (!('' @ value @ '')) {'',
       ''    Py_INCREF(Py_None);'',
       ''    return Py_None;'',
       ''}''])) (\<lambda>_.
     bnd (declare_ret_py_name r) (\<lambda>py_name. seqs [
       bnd (lift_res (target_is_const (cr_ret r))) (\<lambda>const.
         common_shared_object_return value py_name (cr_class r) After_Call const
           (cr_caller_owns_return r) (cr_reference_existing_object r) True),
       w_build_add ''N'' [py_name] True])))"

text \<open>
  \<open>CodeGenerationError\<close> is not imported by the module: the exception that the handler is meant to
  catch turns into a NameError, and the branch without a copy is never taken.
\<close>

definition CppClassPtrReturnValue_convert_python_to_c :: "cls_ret \<Rightarrow> (wrapper, unit) py" where [cls_defs]:
  "CppClassPtrReturnValue_convert_python_to_c r =
     (let ci = cr_class r; v = r_value (cr_ret r) in
      bnd (declare_var (ci_pystruct ci @ ''*'') (''tmp_'' @ ci_name ci)) (\<lambda>name.
      bnd (parse_ret ''O!'' [''&'' @ ci_pytypestruct ci, ''&'' @ name] False) (\<lambda>_.
      bnd (cr_transform r After_Call (name @ ''->obj'')) (\<lambda>value.
        if cr_caller_owns_return r then
          if \<not> refcounting ci then seqs [
            try_except (write_create_instance ci After_Call v (''*'' @ value)) (\<lambda>_. raise_py (NameError ''CodeGenerationError'')),
            write_post_instance_creation_code ci After_Call v (''*'' @ value)]
          else seqs [
            policy_action ci (\<lambda>pol. write_incref pol After_Call value),
            bnd (lift_res (target_is_const (cr_ret r))) (\<lambda>const.
              w_write After_Call (v @ '' = '' @ (if const then ''const_cast< '' @ ci_full_name ci @ ''* >('' @ value @ '')'' else value) @ '';''))]
        else w_write After_Call (''// dangerous!'' @ nl @ v @ '' = '' @ value @ '';'')))))"

section \<open>Custodians and wards\<close>

type_synonym custody = "int \<times> int \<times> bool"

text \<open>\<open>Function.add_custodian_and_ward\<close>: \<open>TypeConfigurationError\<close> is not imported in \<open>function.py\<close>.\<close>

definition add_custodian_and_ward :: "py_error \<Rightarrow> int \<Rightarrow> int \<Rightarrow> bool option \<Rightarrow> (custody list, unit) py" where
  "add_custodian_and_ward not_postcall_error custodian ward postcall =
     (if custodian = - 1 \<or> ward = - 1 then
        case postcall of
          Some False \<Rightarrow> raise_py not_postcall_error
        | _ \<Rightarrow> upd (\<lambda>l. l @ [(custodian, ward, True)])
      else upd (\<lambda>l. l @ [(custodian, ward, postcall = Some True)]))"

text \<open>The custodians given to the parameters and to the return value of a wrapper.\<close>

definition scan_custodians_and_wards ::
  "py_error \<Rightarrow> int option list \<Rightarrow> int option \<Rightarrow> bool \<Rightarrow> (custody list, unit) py" where
  "scan_custodians_and_wards err param_custodians return_custodian return_internal_reference = seqs [
     for_each (\<lambda>(num, custodian). case custodian of None \<Rightarrow> ret ()
       | Some c \<Rightarrow> add_custodian_and_ward err c (int num + 1) None) (enumerate 0 param_custodians),
     (case return_custodian of None \<Rightarrow> ret () | Some c \<Rightarrow> add_custodian_and_ward err c (- 1) None),
     when_py return_internal_reference (add_custodian_and_ward err (- 1) 0 None)]"

definition add_ward :: "block_id \<Rightarrow> string \<Rightarrow> string \<Rightarrow> (wrapper, unit) py" where
  "add_ward block custodian ward =
     bnd (declare_var ''PyObject*'' ''wards'') (\<lambda>wards. seqs [
       w_write block (wards @ '' = PyObject_GetAttrString('' @ custodian @ '', (char *) '' @ dq @ ''__wards__'' @ dq @ '');''),
       w_write block (join nl [
         ''if ('' @ wards @ '' == NULL) {'',
         ''    PyErr_Clear();'',
         ''    '' @ wards @ '' = PyList_New(0);'',
         ''    PyObject_SetAttrString('' @ custodian @ '', (char *) '' @ dq @ ''__wards__'' @ dq @ '', '' @ wards @ '');'',
         ''}'']),
       w_write block (''if ('' @ ward @ '' && !PySequence_Contains('' @ wards @ '', '' @ ward @ ''))'' @ nl @
         ''    PyList_Append('' @ wards @ '', '' @ ward @ '');''),
       w_cleanup block (''Py_DECREF('' @ wards @ '');'')])"

definition get_custodian_or_ward :: "int \<Rightarrow> (wrapper, string) py" where
  "get_custodian_or_ward num =
     (if num = 0 then ret ''((PyObject *) self)''
      else bnd (gets (\<lambda>w. map_of (w_py_names w) num)) (\<lambda>py_name.
        case py_name of None \<Rightarrow> raise_py AssertionError | Some n \<Rightarrow> ret (''((PyObject *) '' @ n @ '')'')))"

definition implement_custodians :: "block_id \<Rightarrow> bool \<Rightarrow> custody list \<Rightarrow> (wrapper, unit) py" where
  "implement_custodians block post custodies =
     for_each (\<lambda>(custodian, ward, postcall). when_py (postcall = post)
       (bnd (get_custodian_or_ward custodian) (\<lambda>c. bnd (get_custodian_or_ward ward) (\<lambda>w. add_ward block c w)))) custodies"

definition implement_parameter_custodians_precall :: "custody list \<Rightarrow> (wrapper, unit) py" where
  "implement_parameter_custodians_precall = implement_custodians Before_Call False"

definition implement_parameter_custodians_postcall :: "custody list \<Rightarrow> (wrapper, unit) py" where
  "implement_parameter_custodians_postcall = implement_custodians After_Call True"

end
