(* ===== verification/Int_Types.thy ===== *)
theory Int_Types
  imports Type_Handler
begin

text \<open>
  \<open>pybindgen/typehandlers/inttype.py\<close>: the handlers of the integer types.  A class is a record of
  its directions, its C type names and its methods; a subclass that overrides one method is the
  record with that method replaced.
\<close>


definition IntParam_convert_c_to_python :: "param \<Rightarrow> (wrapper, unit) py" where [method_defs]:
  "IntParam_convert_c_to_python p = seqs [
     assert_kind Reverse,
     w_build_add ''i'' [p_value p] False]"

definition IntParam_convert_python_to_c :: "param \<Rightarrow> (wrapper, unit) py" where [method_defs]:
  "IntParam_convert_python_to_c p = seqs [
     assert_kind Forward,
     bnd (lift_res (ctype_no_const p)) (\<lambda>ct.
     bnd (declare_init ct (p_name p) (p_default_value p)) (\<lambda>name.
     seqs [
     parse_arg ''i'' [''&'' @ name] (p_name p) (truthy (p_default_value p)),
     w_call_append name]))]"

definition IntParam :: "param_class" where [class_defs]:
  "IntParam = \<lparr>pc_name = ''IntParam'',
     pc_directions = [DIRECTION_IN], pc_ctypes = [''int'', ''int32_t''],
     pc_convert_c_to_python = IntParam_convert_c_to_python, pc_convert_python_to_c = IntParam_convert_python_to_c\<rparr>"

definition UnsignedIntParam_convert_c_to_python :: "param \<Rightarrow> (wrapper, unit) py" where [method_defs]:
  "UnsignedIntParam_convert_c_to_python p = seqs [
     assert_kind Reverse,
     w_build_add ''N'' [''PyLong_FromUnsignedLong('' @ p_value p @ '')''] False]"

definition UnsignedIntParam_convert_python_to_c :: "param \<Rightarrow> (wrapper, unit) py" where [method_defs]:
  "UnsignedIntParam_convert_python_to_c p = seqs [
     assert_kind Forward,
     bnd (declare_init ''unsigned int'' (p_name p) (p_default_value p)) (\<lambda>name.
     seqs [
     parse_arg ''I'' [''&'' @ name] (p_name p) (truthy (p_default_value p)),
     w_call_append name])]"

definition UnsignedIntParam :: "param_class" where [class_defs]:
  "UnsignedIntParam = \<lparr>pc_name = ''UnsignedIntParam'',
     pc_directions = [DIRECTION_IN], pc_ctypes = [''unsigned int'', ''uint32_t''],
     pc_convert_c_to_python = UnsignedIntParam_convert_c_to_python, pc_convert_python_to_c = UnsignedIntParam_convert_python_to_c\<rparr>"

definition UnsignedIntPtrParam_init :: "ctype_arg \<Rightarrow> string \<Rightarrow> string \<Rightarrow> int \<Rightarrow> bool \<Rightarrow> pyval \<Rightarrow> pyval \<Rightarrow> int option \<Rightarrow> param res option" where [init_defs]:
  "UnsignedIntPtrParam_init ctype ctype_repr name direction is_const default_value transfer_ownership array_length =
     bind_div (PointerParameter_init [DIRECTION_IN, DIRECTION_OUT, DIRECTION_INOUT] ctype name direction is_const
         default_value transfer_ownership) (\<lambda>p.
       if truthy transfer_ownership
       then Some (Inl (NotSupportedError (ctype_repr @ '': transfer_ownership=True not yet implemented.'')))
       else Some (Inr (p\<lparr>p_array_length := array_length\<rparr>)))"

text \<open>
  The array branches.  The second error check of the input branch is not formatted in the source:
  its expression contains the placeholder \<open>%(elem)s\<close> itself.
\<close>

definition UnsignedIntPtrParam_array_in :: "param \<Rightarrow> int \<Rightarrow> string \<Rightarrow> string \<Rightarrow> string \<Rightarrow> (wrapper, unit) py" where [method_defs]:
  "UnsignedIntPtrParam_array_in p n name py_list idx =
     bnd (declare_var ''PyObject*'' ''element'') (\<lambda>elem. seqs [
       parse_arg ''O!'' [''&PyList_Type'', ''&'' @ py_list] (p_name p) False,
       w_error_check Before_Call (''PyList_Size('' @ py_list @ '') != '' @ str_of_int n)
         (Some (''PyErr_SetString(PyExc_TypeError, '' @ dq @ ''Parameter `'' @ p_name p @ sq @ '' must be a list of '' @ str_of_int n @ '' ints/longs'' @ dq @ '');'')),
       w_write Before_Call (''for ('' @ idx @ '' = 0; '' @ idx @ '' < '' @ str_of_int n @ ''; '' @ idx @ ''++) {''),
       indented Before_Call (seqs [
         w_write Before_Call (elem @ '' = PyList_GET_ITEM('' @ py_list @ '', '' @ idx @ '');''),
         w_error_check Before_Call ''!(PyInt_Check(%(elem)s) || PyLong_Check(%(elem)s))''
           (Some (''PyErr_SetString(PyExc_TypeError, '' @ dq @ ''Parameter `'' @ p_name p @ sq @ '' must be a list of '' @ str_of_int n @ '' ints / longs'' @ dq @ '');'')),
         w_write Before_Call (name @ ''['' @ idx @ ''] = PyLong_AsUnsignedInt('' @ elem @ '');'')]),
       w_write Before_Call ''}''])"

definition UnsignedIntPtrParam_array_out :: "int \<Rightarrow> string \<Rightarrow> string \<Rightarrow> string \<Rightarrow> (wrapper, unit) py" where [method_defs]:
  "UnsignedIntPtrParam_array_out n name py_list idx = seqs [
       w_write After_Call (py_list @ '' = PyList_New('' @ str_of_int n @ '');''),
       w_write After_Call (''for ('' @ idx @ '' = 0; '' @ idx @ '' < '' @ str_of_int n @ ''; '' @ idx @ ''++) {''),
       indented After_Call (w_write After_Call
         (''PyList_SET_ITEM('' @ py_list @ '', '' @ idx @ '', PyLong_FromUnsignedLong('' @ name @ ''['' @ idx @ '']));'')),
       w_write After_Call ''}'',
       w_build_add ''N'' [py_list] False]"

definition UnsignedIntPtrParam_convert_c_to_python :: "param \<Rightarrow> (wrapper, unit) py" where [method_defs]:
  "UnsignedIntPtrParam_convert_c_to_python p = seqs [
     when_py (dir_in p) (w_build_add ''I'' [''*'' @ p_value p] False),
     when_py (dir_out p) (parse_arg ''I'' [p_value p] (p_name p) False)]"

definition UnsignedIntPtrParam_convert_python_to_c :: "param \<Rightarrow> (wrapper, unit) py" where [method_defs]:
  "UnsignedIntPtrParam_convert_python_to_c p = bnd (lift_res (target_str p)) (\<lambda>target.
     case p_array_length p of
         None \<Rightarrow> bnd (declare_var target (p_name p)) (\<lambda>name.
     seqs [
     w_call_append (''&'' @ name),
     when_py (dir_in p) (parse_arg ''I'' [''&'' @ name] (p_name p) False),
     when_py (dir_out p) (w_build_add ''I'' [name] False)])
       | Some n \<Rightarrow> bnd (w_declare target (p_name p) PyNone (Some (''['' @ str_of_int n @ '']''))) (\<lambda>name.
           bnd (declare_var ''PyObject*'' ''py_list'') (\<lambda>py_list.
           bnd (declare_var ''int'' ''idx'') (\<lambda>idx. seqs [
             w_call_append name,
             when_py (dir_in p) (UnsignedIntPtrParam_array_in p n name py_list idx),
             when_py (dir_out p) (UnsignedIntPtrParam_array_out n name py_list idx)]))))"

definition UnsignedIntPtrParam :: "param_class" where [class_defs]:
  "UnsignedIntPtrParam = \<lparr>pc_name = ''UnsignedIntPtrParam'',
     pc_directions = [DIRECTION_IN, DIRECTION_OUT, DIRECTION_INOUT], pc_ctypes = [''unsigned int*'', ''uint32_t*''],
     pc_convert_c_to_python = UnsignedIntPtrParam_convert_c_to_python, pc_convert_python_to_c = UnsignedIntPtrParam_convert_python_to_c\<rparr>"

definition IntReturn_get_c_error_return :: "string" where [method_defs]:
  "IntReturn_get_c_error_return = ''return INT_MIN;''"

definition IntReturn_convert_python_to_c :: "retval \<Rightarrow> (wrapper, unit) py" where [method_defs]:
  "IntReturn_convert_python_to_c r = parse_ret ''i'' [''&'' @ r_value r] True"

definition IntReturn_convert_c_to_python :: "retval \<Rightarrow> (wrapper, unit) py" where [method_defs]:
  "IntReturn_convert_c_to_python r = w_build_add ''i'' [r_value r] True"

definition IntReturn :: "retval_class" where [class_defs]:
  "IntReturn = \<lparr>rvc_name = ''IntReturn'', rvc_ctypes = [''int'', ''int32_t''],
     rvc_get_c_error_return = IntReturn_get_c_error_return,
     rvc_convert_python_to_c = IntReturn_convert_python_to_c,
     rvc_convert_c_to_python = IntReturn_convert_c_to_python\<rparr>"

definition UnsignedIntReturn_get_c_error_return :: "string" where [method_defs]:
  "UnsignedIntReturn_get_c_error_return = ''return 0;''"

definition UnsignedIntReturn_convert_python_to_c :: "retval \<Rightarrow> (wrapper, unit) py" where [method_defs]:
  "UnsignedIntReturn_convert_python_to_c r = parse_ret ''I'' [''&'' @ r_value r] True"

definition UnsignedIntReturn_convert_c_to_python :: "retval \<Rightarrow> (wrapper, unit) py" where [method_defs]:
  "UnsignedIntReturn_convert_c_to_python r = w_build_add ''N'' [''PyLong_FromUnsignedLong('' @ r_value r @ '')''] True"

definition UnsignedIntReturn :: "retval_class" where [class_defs]:
  "UnsignedIntReturn = \<lparr>rvc_name = ''UnsignedIntReturn'', rvc_ctypes = [''unsigned int'', ''uint32_t''],
     rvc_get_c_error_return = UnsignedIntReturn_get_c_error_return,
     rvc_convert_python_to_c = UnsignedIntReturn_convert_python_to_c,
     rvc_convert_c_to_python = UnsignedIntReturn_convert_c_to_python\<rparr>"

definition IntPtrParam_init :: "ctype_arg \<Rightarrow> string \<Rightarrow> int option \<Rightarrow> bool \<Rightarrow> pyval \<Rightarrow> param res option" where [init_defs]:
  "IntPtrParam_init ctype name direction is_const transfer_ownership =
     bind_div (case direction of
         None \<Rightarrow> if is_const then Some (Inr DIRECTION_IN)
                 else Some (Inl (TypeConfigurationError ''direction not given''))
       | Some dir \<Rightarrow> Some (Inr dir)) (\<lambda>dir.
     PointerParameter_init [DIRECTION_IN, DIRECTION_OUT, DIRECTION_INOUT] ctype name dir is_const
       transfer_ownership (PyBool False))"

definition IntPtrParam_convert_c_to_python :: "param \<Rightarrow> (wrapper, unit) py" where [method_defs]:
  "IntPtrParam_convert_c_to_python p = seqs [
     when_py (dir_in p) (w_build_add ''i'' [''*'' @ p_value p] False),
     when_py (dir_out p) (parse_arg ''i'' [p_value p] (p_name p) False)]"

definition IntPtrParam_convert_python_to_c :: "param \<Rightarrow> (wrapper, unit) py" where [method_defs]:
  "IntPtrParam_convert_python_to_c p = bnd (lift_res (ctype_no_const p)) (\<lambda>ct.
     bnd (declare_var (butlast ct) (p_name p)) (\<lambda>name.
     seqs [
     w_call_append (''&'' @ name),
     when_py (dir_in p) (parse_arg ''i'' [''&'' @ name] (p_name p) False),
     when_py (dir_out p) (w_build_add ''i'' [name] False)]))"

definition IntPtrParam :: "param_class" where [class_defs]:
  "IntPtrParam = \<lparr>pc_name = ''IntPtrParam'',
     pc_directions = [DIRECTION_IN, DIRECTION_OUT, DIRECTION_INOUT], pc_ctypes = [''int*''],
     pc_convert_c_to_python = IntPtrParam_convert_c_to_python, pc_convert_python_to_c = IntPtrParam_convert_python_to_c\<rparr>"

definition IntRefParam_convert_c_to_python :: "param \<Rightarrow> (wrapper, unit) py" where [method_defs]:
  "IntRefParam_convert_c_to_python p = seqs [
     when_py (dir_in p) (w_build_add ''i'' [p_value p] False),
     when_py (dir_out p) (parse_arg ''i'' [p_value p] (p_name p) False)]"

definition IntRefParam_convert_python_to_c :: "param \<Rightarrow> (wrapper, unit) py" where [method_defs]:
  "IntRefParam_convert_python_to_c p = bnd (lift_res (ctype_no_const p)) (\<lambda>ct.
     bnd (declare_var (butlast ct) (p_name p)) (\<lambda>name.
     seqs [
     w_call_append name,
     when_py (dir_in p) (parse_arg ''i'' [''&'' @ name] (p_name p) False),
     when_py (dir_out p) (w_build_add ''i'' [name] False)]))"

definition IntRefParam :: "param_class" where [class_defs]:
  "IntRefParam = \<lparr>pc_name = ''IntRefParam'',
     pc_directions = [DIRECTION_IN, DIRECTION_OUT, DIRECTION_INOUT], pc_ctypes = [''int&''],
     pc_convert_c_to_python = IntRefParam_convert_c_to_python, pc_convert_python_to_c = IntRefParam_convert_python_to_c\<rparr>"

definition UnsignedIntRefParam_convert_c_to_python :: "param \<Rightarrow> (wrapper, unit) py" where [method_defs]:
  "UnsignedIntRefParam_convert_c_to_python p = seqs [
     when_py (dir_in p) (w_build_add ''I'' [p_value p] False),
     when_py (dir_out p) (parse_arg ''I'' [p_value p] (p_name p) False)]"

definition UnsignedIntRefParam_convert_python_to_c :: "param \<Rightarrow> (wrapper, unit) py" where [method_defs]:
  "UnsignedIntRefParam_convert_python_to_c p = bnd (lift_res (ctype_no_const p)) (\<lambda>ct.
     bnd (declare_var (butlast ct) (p_name p)) (\<lambda>name.
     seqs [
     w_call_append name,
     when_py (dir_in p) (parse_arg ''I'' [''&'' @ name] (p_name p) False),
     when_py (dir_out p) (w_build_add ''I'' [name] False)]))"

definition UnsignedIntRefParam :: "param_class" where [class_defs]:
  "UnsignedIntRefParam = \<lparr>pc_name = ''UnsignedIntRefParam'',
     pc_directions = [DIRECTION_IN, DIRECTION_OUT, DIRECTION_INOUT], pc_ctypes = [''unsigned int&'', ''unsigned &''],
     pc_convert_c_to_python = UnsignedIntRefParam_convert_c_to_python, pc_convert_python_to_c = UnsignedIntRefParam_convert_python_to_c\<rparr>"

definition UInt16Return_check :: range_check where
  "UInt16Return_check = [(Gt, ''0xffff'')]"

definition UInt16Return_get_c_error_return :: "string" where [method_defs]:
  "UInt16Return_get_c_error_return = ''return 0;''"

definition UInt16Return_convert_python_to_c :: "retval \<Rightarrow> (wrapper, unit) py" where [method_defs]:
  "UInt16Return_convert_python_to_c r = bnd (declare_var ''int'' ''tmp'') (\<lambda>tmp_var.
     seqs [
     parse_ret ''i'' [''&'' @ tmp_var] True,
     w_error_check After_Call (check_text tmp_var UInt16Return_check)
       (Some (''PyErr_SetString(PyExc_ValueError, '' @ dq @ ''Out of range'' @ dq @ '');'')),
     w_write After_Call (r_value r @ '' = '' @ tmp_var @ '';'')])"

definition UInt16Return_convert_c_to_python :: "retval \<Rightarrow> (wrapper, unit) py" where [method_defs]:
  "UInt16Return_convert_c_to_python r = w_build_add ''i'' [r_value r] True"

definition UInt16Return :: "retval_class" where [class_defs]:
  "UInt16Return = \<lparr>rvc_name = ''UInt16Return'', rvc_ctypes = [''uint16_t'', ''unsigned short'', ''unsigned short int'', ''short unsigned int''],
     rvc_get_c_error_return = UInt16Return_get_c_error_return,
     rvc_convert_python_to_c = UInt16Return_convert_python_to_c,
     rvc_convert_c_to_python = UInt16Return_convert_c_to_python\<rparr>"

definition Int16Return_check :: range_check where
  "Int16Return_check = [(Gt, ''32767''), (Lt, ''-32768'')]"

definition Int16Return_get_c_error_return :: "string" where [method_defs]:
  "Int16Return_get_c_error_return = ''return 0;''"

definition Int16Return_convert_python_to_c :: "retval \<Rightarrow> (wrapper, unit) py" where [method_defs]:
  "Int16Return_convert_python_to_c r = bnd (declare_var ''int'' ''tmp'') (\<lambda>tmp_var.
     seqs [
     parse_ret ''i'' [''&'' @ tmp_var] True,
     w_error_check After_Call (check_text tmp_var Int16Return_check)
       (Some (''PyErr_SetString(PyExc_ValueError, '' @ dq @ ''Out of range'' @ dq @ '');'')),
     w_write After_Call (r_value r @ '' = '' @ tmp_var @ '';'')])"

definition Int16Return_convert_c_to_python :: "retval \<Rightarrow> (wrapper, unit) py" where [method_defs]:
  "Int16Return_convert_c_to_python r = w_build_add ''i'' [r_value r] True"

definition Int16Return :: "retval_class" where [class_defs]:
  "Int16Return = \<lparr>rvc_name = ''Int16Return'', rvc_ctypes = [''int16_t'', ''short'', ''short int''],
     rvc_get_c_error_return = Int16Return_get_c_error_return,
     rvc_convert_python_to_c = Int16Return_convert_python_to_c,
     rvc_convert_c_to_python = Int16Return_convert_c_to_python\<rparr>"

definition UInt16Param_check :: range_check where
  "UInt16Param_check = [(Gt, ''0xffff'')]"

definition UInt16Param_convert_c_to_python :: "param \<Rightarrow> (wrapper, unit) py" where [method_defs]:
  "UInt16Param_convert_c_to_python p = seqs [
     assert_kind Reverse,
     w_build_add ''i'' [''(int) '' @ p_value p] False]"

definition UInt16Param_convert_python_to_c :: "param \<Rightarrow> (wrapper, unit) py" where [method_defs]:
  "UInt16Param_convert_python_to_c p = seqs [
     assert_kind Forward,
     bnd (declare_init ''int'' (p_name p) (p_default_value p)) (\<lambda>name.
     seqs [
     parse_arg ''i'' [''&'' @ name] (p_name p) (truthy (p_default_value p)),
     w_error_check Before_Call (check_text name UInt16Param_check)
       (Some (''PyErr_SetString(PyExc_ValueError, '' @ dq @ ''Out of range'' @ dq @ '');'')),
     w_call_append name])]"

definition UInt16Param :: "param_class" where [class_defs]:
  "UInt16Param = \<lparr>pc_name = ''UInt16Param'',
     pc_directions = [DIRECTION_IN], pc_ctypes = [''uint16_t'', ''unsigned short'', ''unsigned short int''],
     pc_convert_c_to_python = UInt16Param_convert_c_to_python, pc_convert_python_to_c = UInt16Param_convert_python_to_c\<rparr>"

definition UInt16RefParam_convert_c_to_python :: "param \<Rightarrow> (wrapper, unit) py" where [method_defs]:
  "UInt16RefParam_convert_c_to_python p = seqs [
     assert_kind Reverse,
     when_py (dir_in p) (w_build_add ''H'' [p_value p] False),
     when_py (dir_out p) (parse_arg ''H'' [p_value p] (p_name p) False)]"

definition UInt16RefParam_convert_python_to_c :: "param \<Rightarrow> (wrapper, unit) py" where [method_defs]:
  "UInt16RefParam_convert_python_to_c p = bnd (lift_res (ctype_no_const p)) (\<lambda>ct.
     bnd (declare_var (butlast ct) (p_name p)) (\<lambda>name.
     seqs [
     w_call_append name,
     when_py (dir_in p) (parse_arg ''H'' [''&'' @ name] (p_name p) False),
     when_py (dir_out p) (w_build_add ''H'' [name] False)]))"

definition UInt16RefParam :: "param_class" where [class_defs]:
  "UInt16RefParam = \<lparr>pc_name = ''UInt16RefParam'',
     pc_directions = [DIRECTION_IN, DIRECTION_INOUT, DIRECTION_OUT], pc_ctypes = [''uint16_t&'', ''unsigned short&'', ''unsigned short int&'', ''short unsigned&'', ''short unsigned int&''],
     pc_convert_c_to_python = UInt16RefParam_convert_c_to_python, pc_convert_python_to_c = UInt16RefParam_convert_python_to_c\<rparr>"

definition Int16Param_check :: range_check where
  "Int16Param_check = [(Gt, ''0x7fff'')]"

definition Int16Param_convert_c_to_python :: "param \<Rightarrow> (wrapper, unit) py" where [method_defs]:
  "Int16Param_convert_c_to_python p = seqs [
     assert_kind Reverse,
     w_build_add ''i'' [''(int) '' @ p_value p] False]"

definition Int16Param_convert_python_to_c :: "param \<Rightarrow> (wrapper, unit) py" where [method_defs]:
  "Int16Param_convert_python_to_c p = seqs [
     assert_kind Forward,
     bnd (declare_init ''int'' (p_name p) (p_default_value p)) (\<lambda>name.
     seqs [
     parse_arg ''i'' [''&'' @ name] (p_name p) (truthy (p_default_value p)),
     w_error_check Before_Call (check_text name Int16Param_check)
       (Some (''PyErr_SetString(PyExc_ValueError, '' @ dq @ ''Out of range'' @ dq @ '');'')),
     w_call_append name])]"

definition Int16Param :: "param_class" where [class_defs]:
  "Int16Param = \<lparr>pc_name = ''Int16Param'',
     pc_directions = [DIRECTION_IN], pc_ctypes = [''int16_t'', ''short'', ''short int''],
     pc_convert_c_to_python = Int16Param_convert_c_to_python, pc_convert_python_to_c = Int16Param_convert_python_to_c\<rparr>"

definition Int16RefParam_convert_c_to_python :: "param \<Rightarrow> (wrapper, unit) py" where [method_defs]:
  "Int16RefParam_convert_c_to_python p = seqs [
     assert_kind Reverse,
     when_py (dir_in p) (w_build_add ''h'' [p_value p] False),
     when_py (dir_out p) (parse_arg ''h'' [p_value p] (p_name p) False)]"

definition Int16RefParam_convert_python_to_c :: "param \<Rightarrow> (wrapper, unit) py" where [method_defs]:
  "Int16RefParam_convert_python_to_c p = bnd (lift_res (ctype_no_const p)) (\<lambda>ct.
     bnd (declare_var (butlast ct) (p_name p)) (\<lambda>name.
     seqs [
     w_call_append name,
     when_py (dir_in p) (parse_arg ''h'' [''&'' @ name] (p_name p) False),
     when_py (dir_out p) (w_build_add ''h'' [name] False)]))"

definition Int16RefParam :: "param_class" where [class_defs]:
  "Int16RefParam = \<lparr>pc_name = ''Int16RefParam'',
     pc_directions = [DIRECTION_IN, DIRECTION_INOUT, DIRECTION_OUT], pc_ctypes = [''int16_t&'', ''short&'', ''short int&''],
     pc_convert_c_to_python = Int16RefParam_convert_c_to_python, pc_convert_python_to_c = Int16RefParam_convert_python_to_c\<rparr>"

definition UInt8Param_check :: range_check where
  "UInt8Param_check = [(Gt, ''0xff'')]"

definition UInt8Param_convert_c_to_python :: "param \<Rightarrow> (wrapper, unit) py" where [method_defs]:
  "UInt8Param_convert_c_to_python p = seqs [
     assert_kind Reverse,
     w_build_add ''i'' [''(int) '' @ p_value p] False]"

definition UInt8Param_convert_python_to_c :: "param \<Rightarrow> (wrapper, unit) py" where [method_defs]:
  "UInt8Param_convert_python_to_c p = seqs [
     assert_kind Forward,
     bnd (declare_init ''int'' (p_name p) (p_default_value p)) (\<lambda>name.
     seqs [
     parse_arg ''i'' [''&'' @ name] (p_name p) (truthy (p_default_value p)),
     w_error_check Before_Call (check_text name UInt8Param_check)
       (Some (''PyErr_SetString(PyExc_ValueError, '' @ dq @ ''Out of range'' @ dq @ '');'')),
     w_call_append name])]"

definition UInt8Param :: "param_class" where [class_defs]:
  "UInt8Param = \<lparr>pc_name = ''UInt8Param'',
     pc_directions = [DIRECTION_IN], pc_ctypes = [''uint8_t'', ''unsigned char'', ''char unsigned''],
     pc_convert_c_to_python = UInt8Param_convert_c_to_python, pc_convert_python_to_c = UInt8Param_convert_python_to_c\<rparr>"

definition UInt8RefParam_convert_c_to_python :: "param \<Rightarrow> (wrapper, unit) py" where [method_defs]:
  "UInt8RefParam_convert_c_to_python p = seqs [
     assert_kind Reverse,
     when_py (dir_in p) (w_build_add ''B'' [p_value p] False),
     when_py (dir_out p) (parse_arg ''B'' [p_value p] (p_name p) False)]"

definition UInt8RefParam_convert_python_to_c :: "param \<Rightarrow> (wrapper, unit) py" where [method_defs]:
  "UInt8RefParam_convert_python_to_c p = bnd (lift_res (ctype_no_const p)) (\<lambda>ct.
     bnd (declare_var (butlast ct) (p_name p)) (\<lambda>name.
     seqs [
     w_call_append name,
     when_py (dir_in p) (parse_arg ''B'' [''&'' @ name] (p_name p) False),
     when_py (dir_out p) (w_build_add ''B'' [name] False)]))"

definition UInt8RefParam :: "param_class" where [class_defs]:
  "UInt8RefParam = \<lparr>pc_name = ''UInt8RefParam'',
     pc_directions = [DIRECTION_IN, DIRECTION_INOUT, DIRECTION_OUT], pc_ctypes = [''uint8_t&'', ''unsigned char&'', ''char unsigned&''],
     pc_convert_c_to_python = UInt8RefParam_convert_c_to_python, pc_convert_python_to_c = UInt8RefParam_convert_python_to_c\<rparr>"

definition UInt8Return_check :: range_check where
  "UInt8Return_check = [(Gt, ''0xff'')]"

definition UInt8Return_get_c_error_return :: "string" where [method_defs]:
  "UInt8Return_get_c_error_return = ''return 0;''"

definition UInt8Return_convert_python_to_c :: "retval \<Rightarrow> (wrapper, unit) py" where [method_defs]:
  "UInt8Return_convert_python_to_c r = bnd (declare_var ''int'' ''tmp'') (\<lambda>tmp_var.
     seqs [
     parse_ret ''i'' [''&'' @ tmp_var] True,
     w_error_check After_Call (check_text tmp_var UInt8Return_check)
       (Some (''PyErr_SetString(PyExc_ValueError, '' @ dq @ ''Out of range'' @ dq @ '');'')),
     w_write After_Call (r_value r @ '' = '' @ tmp_var @ '';'')])"

definition UInt8Return_convert_c_to_python :: "retval \<Rightarrow> (wrapper, unit) py" where [method_defs]:
  "UInt8Return_convert_c_to_python r = w_build_add ''i'' [''(int)'' @ r_value r] True"

definition UInt8Return :: "retval_class" where [class_defs]:
  "UInt8Return = \<lparr>rvc_name = ''UInt8Return'', rvc_ctypes = [''uint8_t'', ''unsigned char'', ''char unsigned''],
     rvc_get_c_error_return = UInt8Return_get_c_error_return,
     rvc_convert_python_to_c = UInt8Return_convert_python_to_c,
     rvc_convert_c_to_python = UInt8Return_convert_c_to_python\<rparr>"

definition Int8Param_check :: range_check where
  "Int8Param_check = [(Gt, ''0x7f'')]"

definition Int8Param_convert_c_to_python :: "param \<Rightarrow> (wrapper, unit) py" where [method_defs]:
  "Int8Param_convert_c_to_python p = seqs [
     assert_kind Reverse,
     w_build_add ''i'' [''(int) '' @ p_value p] False]"

definition Int8Param_convert_python_to_c :: "param \<Rightarrow> (wrapper, unit) py" where [method_defs]:
  "Int8Param_convert_python_to_c p = seqs [
     assert_kind Forward,
     bnd (declare_init ''int'' (p_name p) (p_default_value p)) (\<lambda>name.
     seqs [
     parse_arg ''i'' [''&'' @ name] (p_name p) (truthy (p_default_value p)),
     w_error_check Before_Call (check_text name Int8Param_check)
       (Some (''PyErr_SetString(PyExc_ValueError, '' @ dq @ ''Out of range'' @ dq @ '');'')),
     w_call_append name])]"

definition Int8Param :: "param_class" where [class_defs]:
  "Int8Param = \<lparr>pc_name = ''Int8Param'',
     pc_directions = [DIRECTION_IN], pc_ctypes = [''int8_t'', ''signed char'', ''char signed''],
     pc_convert_c_to_python = Int8Param_convert_c_to_python, pc_convert_python_to_c = Int8Param_convert_python_to_c\<rparr>"

definition Int8RefParam_convert_c_to_python :: "param \<Rightarrow> (wrapper, unit) py" where [method_defs]:
  "Int8RefParam_convert_c_to_python p = seqs [
     assert_kind Reverse,
     when_py (dir_in p) (w_build_add ''b'' [p_value p] False),
     when_py (dir_out p) (parse_arg ''b'' [p_value p] (p_name p) False)]"

definition Int8RefParam_convert_python_to_c :: "param \<Rightarrow> (wrapper, unit) py" where [method_defs]:
  "Int8RefParam_convert_python_to_c p = bnd (lift_res (ctype_no_const p)) (\<lambda>ct.
     bnd (declare_var (butlast ct) (p_name p)) (\<lambda>name.
     seqs [
     w_call_append name,
     when_py (dir_in p) (parse_arg ''b'' [''&'' @ name] (p_name p) False),
     when_py (dir_out p) (w_build_add ''b'' [name] False)]))"

definition Int8RefParam :: "param_class" where [class_defs]:
  "Int8RefParam = \<lparr>pc_name = ''Int8RefParam'',
     pc_directions = [DIRECTION_IN, DIRECTION_INOUT, DIRECTION_OUT], pc_ctypes = [''int8_t&'', ''signed char &'', ''char signed&''],
     pc_convert_c_to_python = Int8RefParam_convert_c_to_python, pc_convert_python_to_c = Int8RefParam_convert_python_to_c\<rparr>"

definition Int8Return_check :: range_check where
  "Int8Return_check = [(Gt, ''128''), (Lt, ''-127'')]"

definition Int8Return_get_c_error_return :: "string" where [method_defs]:
  "Int8Return_get_c_error_return = ''return 0;''"

definition Int8Return_convert_python_to_c :: "retval \<Rightarrow> (wrapper, unit) py" where [method_defs]:
  "Int8Return_convert_python_to_c r = bnd (declare_var ''int'' ''tmp'') (\<lambda>tmp_var.
     seqs [
     parse_ret ''i'' [''&'' @ tmp_var] True,
     w_error_check After_Call (check_text tmp_var Int8Return_check)
       (Some (''PyErr_SetString(PyExc_ValueError, '' @ dq @ ''Out of range'' @ dq @ '');'')),
     w_write After_Call (r_value r @ '' = '' @ tmp_var @ '';'')])"

definition Int8Return_convert_c_to_python :: "retval \<Rightarrow> (wrapper, unit) py" where [method_defs]:
  "Int8Return_convert_c_to_python r = w_build_add ''i'' [r_value r] True"

definition Int8Return :: "retval_class" where [class_defs]:
  "Int8Return = \<lparr>rvc_name = ''Int8Return'', rvc_ctypes = [''int8_t'', ''signed char''],
     rvc_get_c_error_return = Int8Return_get_c_error_return,
     rvc_convert_python_to_c = Int8Return_convert_python_to_c,
     rvc_convert_c_to_python = Int8Return_convert_c_to_python\<rparr>"

definition UnsignedLongLongParam_get_ctype_without_ref :: "param \<Rightarrow> string res" where [method_defs]:
  "UnsignedLongLongParam_get_ctype_without_ref p = ctype_no_const p"

definition UnsignedLongLongParam_convert_python_to_c :: "(param \<Rightarrow> string res) \<Rightarrow> param \<Rightarrow> (wrapper, unit) py" where [method_defs]:
  "UnsignedLongLongParam_convert_python_to_c get_ctype_without_ref p = seqs [
     assert_kind Forward,
     bnd (lift_res (get_ctype_without_ref p)) (\<lambda>ct.
     bnd (declare_init ct (p_name p) (p_default_value p)) (\<lambda>name.
     seqs [
     parse_arg ''K'' [''&'' @ name] (p_name p) (truthy (p_default_value p)),
     w_call_append name]))]"

definition UnsignedLongLongParam_convert_c_to_python :: "param \<Rightarrow> (wrapper, unit) py" where [method_defs]:
  "UnsignedLongLongParam_convert_c_to_python p = seqs [
     assert_kind Reverse,
     w_build_add ''K'' [p_value p] False]"

definition UnsignedLongLongParam :: "param_class" where [class_defs]:
  "UnsignedLongLongParam = \<lparr>pc_name = ''UnsignedLongLongParam'',
     pc_directions = [DIRECTION_IN], pc_ctypes = [''unsigned long long'', ''uint64_t'', ''unsigned long long int'', ''long long unsigned int'', ''long long unsigned''],
     pc_convert_c_to_python = UnsignedLongLongParam_convert_c_to_python, pc_convert_python_to_c = UnsignedLongLongParam_convert_python_to_c UnsignedLongLongParam_get_ctype_without_ref\<rparr>"

definition UnsignedLongLongRefParam_get_ctype_without_ref :: "param \<Rightarrow> string res" where [method_defs]:
  "UnsignedLongLongRefParam_get_ctype_without_ref p =
     (case th_type_traits p of None \<Rightarrow> Inl (AttributeError ''target'')
      | Some t \<Rightarrow> if tt_target t = None then Inl AssertionError else target_str p)"

definition UnsignedLongLongRefParam :: "param_class" where [class_defs]:
  "UnsignedLongLongRefParam = \<lparr>pc_name = ''UnsignedLongLongRefParam'',
     pc_directions = [DIRECTION_IN], pc_ctypes = [''unsigned long long&'', ''uint64_t&'', ''long long unsigned int&''],
     pc_convert_c_to_python = UnsignedLongLongParam_convert_c_to_python, pc_convert_python_to_c = UnsignedLongLongParam_convert_python_to_c UnsignedLongLongRefParam_get_ctype_without_ref\<rparr>"

definition UnsignedLongLongReturn_get_c_error_return :: "string" where [method_defs]:
  "UnsignedLongLongReturn_get_c_error_return = ''return 0;''"

definition UnsignedLongLongReturn_convert_python_to_c :: "retval \<Rightarrow> (wrapper, unit) py" where [method_defs]:
  "UnsignedLongLongReturn_convert_python_to_c r = parse_ret ''K'' [''&'' @ r_value r] True"

definition UnsignedLongLongReturn_convert_c_to_python :: "retval \<Rightarrow> (wrapper, unit) py" where [method_defs]:
  "UnsignedLongLongReturn_convert_c_to_python r = w_build_add ''K'' [r_value r] True"

definition UnsignedLongLongReturn :: "retval_class" where [class_defs]:
  "UnsignedLongLongReturn = \<lparr>rvc_name = ''UnsignedLongLongReturn'', rvc_ctypes = [''unsigned long long'', ''uint64_t'', ''long long unsigned int''],
     rvc_get_c_error_return = UnsignedLongLongReturn_get_c_error_return,
     rvc_convert_python_to_c = UnsignedLongLongReturn_convert_python_to_c,
     rvc_convert_c_to_python = UnsignedLongLongReturn_convert_c_to_python\<rparr>"

definition UnsignedLongParam_get_ctype_without_ref :: "param \<Rightarrow> string res" where [method_defs]:
  "UnsignedLongParam_get_ctype_without_ref p = ctype_no_const p"

definition UnsignedLongParam_convert_python_to_c :: "(param \<Rightarrow> string res) \<Rightarrow> param \<Rightarrow> (wrapper, unit) py" where [method_defs]:
  "UnsignedLongParam_convert_python_to_c get_ctype_without_ref p = seqs [
     assert_kind Forward,
     bnd (lift_res (get_ctype_without_ref p)) (\<lambda>ct.
     bnd (declare_init ct (p_name p) (p_default_value p)) (\<lambda>name.
     seqs [
     parse_arg ''k'' [''&'' @ name] (p_name p) (truthy (p_default_value p)),
     w_call_append name]))]"

definition UnsignedLongParam_convert_c_to_python :: "param \<Rightarrow> (wrapper, unit) py" where [method_defs]:
  "UnsignedLongParam_convert_c_to_python p = seqs [
     assert_kind Reverse,
     w_build_add ''k'' [p_value p] False]"

definition UnsignedLongParam :: "param_class" where [class_defs]:
  "UnsignedLongParam = \<lparr>pc_name = ''UnsignedLongParam'',
     pc_directions = [DIRECTION_IN], pc_ctypes = [''unsigned long'', ''unsigned long int'', ''long unsigned'', ''long unsigned int''],
     pc_convert_c_to_python = UnsignedLongParam_convert_c_to_python, pc_convert_python_to_c = UnsignedLongParam_convert_python_to_c UnsignedLongParam_get_ctype_without_ref\<rparr>"

definition UnsignedLongRefParam_get_ctype_without_ref :: "param \<Rightarrow> string res" where [method_defs]:
  "UnsignedLongRefParam_get_ctype_without_ref p =
     (case th_type_traits p of None \<Rightarrow> Inl (AttributeError ''target'')
      | Some t \<Rightarrow> if tt_target t = None then Inl AssertionError else target_str p)"

definition UnsignedLongRefParam :: "param_class" where [class_defs]:
  "UnsignedLongRefParam = \<lparr>pc_name = ''UnsignedLongRefParam'',
     pc_directions = [DIRECTION_IN], pc_ctypes = [''unsigned long&'', ''long unsigned&'', ''long unsigned int&'', ''unsigned long int&''],
     pc_convert_c_to_python = UnsignedLongParam_convert_c_to_python, pc_convert_python_to_c = UnsignedLongParam_convert_python_to_c UnsignedLongRefParam_get_ctype_without_ref\<rparr>"

definition UnsignedLongReturn_get_c_error_return :: "string" where [method_defs]:
  "UnsignedLongReturn_get_c_error_return = ''return 0;''"

definition UnsignedLongReturn_convert_python_to_c :: "retval \<Rightarrow> (wrapper, unit) py" where [method_defs]:
  "UnsignedLongReturn_convert_python_to_c r = parse_ret ''k'' [''&'' @ r_value r] True"

definition UnsignedLongReturn_convert_c_to_python :: "retval \<Rightarrow> (wrapper, unit) py" where [method_defs]:
  "UnsignedLongReturn_convert_c_to_python r = w_build_add ''k'' [r_value r] True"

definition UnsignedLongReturn :: "retval_class" where [class_defs]:
  "UnsignedLongReturn = \<lparr>rvc_name = ''UnsignedLongReturn'', rvc_ctypes = [''unsigned long'', ''long unsigned int''],
     rvc_get_c_error_return = UnsignedLongReturn_get_c_error_return,
     rvc_convert_python_to_c = UnsignedLongReturn_convert_python_to_c,
     rvc_convert_c_to_python = UnsignedLongReturn_convert_c_to_python\<rparr>"

definition LongParam_get_ctype_without_ref :: "param \<Rightarrow> string res" where [method_defs]:
  "LongParam_get_ctype_without_ref p = ctype_no_const p"

definition LongParam_convert_python_to_c :: "(param \<Rightarrow> string res) \<Rightarrow> param \<Rightarrow> (wrapper, unit) py" where [method_defs]:
  "LongParam_convert_python_to_c get_ctype_without_ref p = seqs [
     assert_kind Forward,
     bnd (lift_res (get_ctype_without_ref p)) (\<lambda>ct.
     bnd (declare_init ct (p_name p) (p_default_value p)) (\<lambda>name.
     seqs [
     parse_arg ''l'' [''&'' @ name] (p_name p) (truthy (p_default_value p)),
     w_call_append name]))]"

definition LongParam_convert_c_to_python :: "param \<Rightarrow> (wrapper, unit) py" where [method_defs]:
  "LongParam_convert_c_to_python p = seqs [
     assert_kind Reverse,
     w_build_add ''l'' [p_value p] False]"

definition LongParam :: "param_class" where [class_defs]:
  "LongParam = \<lparr>pc_name = ''LongParam'',
     pc_directions = [DIRECTION_IN], pc_ctypes = [''signed long'', ''signed long int'', ''long'', ''long int'', ''long signed'', ''long signed int''],
     pc_convert_c_to_python = LongParam_convert_c_to_python, pc_convert_python_to_c = LongParam_convert_python_to_c LongParam_get_ctype_without_ref\<rparr>"

definition LongRefParam_get_ctype_without_ref :: "param \<Rightarrow> string res" where [method_defs]:
  "LongRefParam_get_ctype_without_ref p =
     (case th_type_traits p of None \<Rightarrow> Inl (AttributeError ''target'')
      | Some t \<Rightarrow> if tt_target t = None then Inl AssertionError else target_str p)"

definition LongRefParam :: "param_class" where [class_defs]:
  "LongRefParam = \<lparr>pc_name = ''LongRefParam'',
     pc_directions = [DIRECTION_IN], pc_ctypes = [''signed long&'', ''long signed&'', ''long&'', ''long int&'', ''long signed int&'', ''signed long int&''],
     pc_convert_c_to_python = LongParam_convert_c_to_python, pc_convert_python_to_c = LongParam_convert_python_to_c LongRefParam_get_ctype_without_ref\<rparr>"

definition LongReturn_get_c_error_return :: "string" where [method_defs]:
  "LongReturn_get_c_error_return = ''return 0;''"

definition LongReturn_convert_python_to_c :: "retval \<Rightarrow> (wrapper, unit) py" where [method_defs]:
  "LongReturn_convert_python_to_c r = parse_ret ''l'' [''&'' @ r_value r] True"

definition LongReturn_convert_c_to_python :: "retval \<Rightarrow> (wrapper, unit) py" where [method_defs]:
  "LongReturn_convert_c_to_python r = w_build_add ''l'' [r_value r] True"

definition LongReturn :: "retval_class" where [class_defs]:
  "LongReturn = \<lparr>rvc_name = ''LongReturn'', rvc_ctypes = [''signed long'', ''long signed int'', ''long'', ''long int''],
     rvc_get_c_error_return = LongReturn_get_c_error_return,
     rvc_convert_python_to_c = LongReturn_convert_python_to_c,
     rvc_convert_c_to_python = LongReturn_convert_c_to_python\<rparr>"

definition SizeTReturn_get_c_error_return :: "string" where [method_defs]:
  "SizeTReturn_get_c_error_return = ''return 0;''"

definition SizeTReturn_convert_python_to_c :: "retval \<Rightarrow> (wrapper, unit) py" where [method_defs]:
  "SizeTReturn_convert_python_to_c r = bnd (declare_init ''unsigned PY_LONG_LONG'' ''retval_tmp'' (PyStr (r_value r))) (\<lambda>name.
     seqs [
     parse_ret ''K'' [''&'' @ name] True,
     w_write After_Call (''retval = '' @ name @ '';'')])"

definition SizeTReturn_convert_c_to_python :: "retval \<Rightarrow> (wrapper, unit) py" where [method_defs]:
  "SizeTReturn_convert_c_to_python r = w_build_add ''K'' [''((unsigned PY_LONG_LONG) '' @ r_value r @ '')''] True"

definition SizeTReturn :: "retval_class" where [class_defs]:
  "SizeTReturn = \<lparr>rvc_name = ''SizeTReturn'', rvc_ctypes = [''size_t'', ''std::size_t''],
     rvc_get_c_error_return = SizeTReturn_get_c_error_return,
     rvc_convert_python_to_c = SizeTReturn_convert_python_to_c,
     rvc_convert_c_to_python = SizeTReturn_convert_c_to_python\<rparr>"

definition SizeTParam_get_ctype_without_ref :: "param \<Rightarrow> string res" where [method_defs]:
  "SizeTParam_get_ctype_without_ref p = ctype_no_const p"

definition SizeTParam_convert_c_to_python :: "param \<Rightarrow> (wrapper, unit) py" where [method_defs]:
  "SizeTParam_convert_c_to_python p = seqs [
     assert_kind Reverse,
     w_build_add ''K'' [''((unsigned PY_LONG_LONG) '' @ p_value p @ '')''] False]"

definition SizeTParam_convert_python_to_c :: "param \<Rightarrow> (wrapper, unit) py" where [method_defs]:
  "SizeTParam_convert_python_to_c p = seqs [
     assert_kind Forward,
     bnd (declare_init ''unsigned PY_LONG_LONG'' (p_name p) (p_default_value p)) (\<lambda>name.
     seqs [
     parse_arg ''K'' [''&'' @ name] (p_name p) (truthy (p_default_value p)),
     w_call_append name])]"

definition SizeTParam :: "param_class" where [class_defs]:
  "SizeTParam = \<lparr>pc_name = ''SizeTParam'',
     pc_directions = [DIRECTION_IN], pc_ctypes = [''size_t'', ''std::size_t''],
     pc_convert_c_to_python = SizeTParam_convert_c_to_python, pc_convert_python_to_c = SizeTParam_convert_python_to_c\<rparr>"

definition LongLongParam_get_ctype_without_ref :: "param \<Rightarrow> string res" where [method_defs]:
  "LongLongParam_get_ctype_without_ref p = ctype_no_const p"

definition LongLongParam_convert_python_to_c :: "(param \<Rightarrow> string res) \<Rightarrow> param \<Rightarrow> (wrapper, unit) py" where [method_defs]:
  "LongLongParam_convert_python_to_c get_ctype_without_ref p = seqs [
     assert_kind Forward,
     bnd (lift_res (get_ctype_without_ref p)) (\<lambda>ct.
     bnd (declare_init ct (p_name p) (p_default_value p)) (\<lambda>name.
     seqs [
     parse_arg ''L'' [''&'' @ name] (p_name p) (truthy (p_default_value p)),
     w_call_append name]))]"

definition LongLongParam_convert_c_to_python :: "param \<Rightarrow> (wrapper, unit) py" where [method_defs]:
  "LongLongParam_convert_c_to_python p = seqs [
     assert_kind Reverse,
     w_build_add ''L'' [p_value p] False]"

definition LongLongParam :: "param_class" where [class_defs]:
  "LongLongParam = \<lparr>pc_name = ''LongLongParam'',
     pc_directions = [DIRECTION_IN], pc_ctypes = [''long long'', ''int64_t'', ''long long int''],
     pc_convert_c_to_python = LongLongParam_convert_c_to_python, pc_convert_python_to_c = LongLongParam_convert_python_to_c LongLongParam_get_ctype_without_ref\<rparr>"

definition LongLongRefParam_get_ctype_without_ref :: "param \<Rightarrow> string res" where [method_defs]:
  "LongLongRefParam_get_ctype_without_ref p =
     (case th_type_traits p of None \<Rightarrow> Inl (AttributeError ''target'')
      | Some t \<Rightarrow> if tt_target t = None then Inl AssertionError else target_str p)"

definition LongLongRefParam :: "param_class" where [class_defs]:
  "LongLongRefParam = \<lparr>pc_name = ''LongLongRefParam'',
     pc_directions = [DIRECTION_IN], pc_ctypes = [''long long&'', ''int64_t&'', ''long long int&''],
     pc_convert_c_to_python = LongLongParam_convert_c_to_python, pc_convert_python_to_c = LongLongParam_convert_python_to_c LongLongRefParam_get_ctype_without_ref\<rparr>"

definition LongLongReturn_get_c_error_return :: "string" where [method_defs]:
  "LongLongReturn_get_c_error_return = ''return 0;''"

definition LongLongReturn_convert_python_to_c :: "retval \<Rightarrow> (wrapper, unit) py" where [method_defs]:
  "LongLongReturn_convert_python_to_c r = parse_ret ''L'' [''&'' @ r_value r] True"

definition LongLongReturn_convert_c_to_python :: "retval \<Rightarrow> (wrapper, unit) py" where [method_defs]:
  "LongLongReturn_convert_c_to_python r = w_build_add ''L'' [r_value r] True"

definition LongLongReturn :: "retval_class" where [class_defs]:
  "LongLongReturn = \<lparr>rvc_name = ''LongLongReturn'', rvc_ctypes = [''long long'', ''int64_t'', ''long long int''],
     rvc_get_c_error_return = LongLongReturn_get_c_error_return,
     rvc_convert_python_to_c = LongLongReturn_convert_python_to_c,
     rvc_convert_c_to_python = LongLongReturn_convert_c_to_python\<rparr>"

definition Int8PtrParam_init :: "ctype_arg \<Rightarrow> string \<Rightarrow> int option \<Rightarrow> bool \<Rightarrow> pyval \<Rightarrow> pyval \<Rightarrow> param res option" where [init_defs]:
  "Int8PtrParam_init ctype name direction is_const default_value transfer_ownership =
     bind_div (case direction of
         None \<Rightarrow> if is_const then Some (Inr DIRECTION_IN)
                 else Some (Inl (TypeConfigurationError ''direction not given''))
       | Some dir \<Rightarrow> Some (Inr dir)) (\<lambda>dir.
     PointerParameter_init [DIRECTION_IN, DIRECTION_OUT, DIRECTION_INOUT] ctype name dir is_const
       default_value transfer_ownership)"

definition Int8PtrParam_convert_c_to_python :: "param \<Rightarrow> (wrapper, unit) py" where [method_defs]:
  "Int8PtrParam_convert_c_to_python p = seqs [
     when_py (dir_in p) (w_build_add ''b'' [''*'' @ p_value p] False),
     when_py (dir_out p) (parse_arg ''b'' [p_value p] (p_name p) False)]"

definition Int8PtrParam_convert_python_to_c :: "param \<Rightarrow> (wrapper, unit) py" where [method_defs]:
  "Int8PtrParam_convert_python_to_c p = bnd (declare_var ''int8_t'' (p_name p)) (\<lambda>name.
     seqs [
     w_call_append (''&'' @ name),
     when_py (dir_in p) (parse_arg ''b'' [''&'' @ name] (p_name p) False),
     when_py (dir_out p) (w_build_add ''b'' [name] False)])"

definition Int8PtrParam :: "param_class" where [class_defs]:
  "Int8PtrParam = \<lparr>pc_name = ''Int8PtrParam'',
     pc_directions = [DIRECTION_IN, DIRECTION_OUT, DIRECTION_INOUT], pc_ctypes = [''int8_t*''],
     pc_convert_c_to_python = Int8PtrParam_convert_c_to_python, pc_convert_python_to_c = Int8PtrParam_convert_python_to_c\<rparr>"

definition UInt8PtrParam_init :: "ctype_arg \<Rightarrow> string \<Rightarrow> int option \<Rightarrow> bool \<Rightarrow> pyval \<Rightarrow> pyval \<Rightarrow> param res option" where [init_defs]:
  "UInt8PtrParam_init ctype name direction is_const default_value transfer_ownership =
     bind_div (case direction of
         None \<Rightarrow> if is_const then Some (Inr DIRECTION_IN)
                 else Some (Inl (TypeConfigurationError ''direction not given''))
       | Some dir \<Rightarrow> Some (Inr dir)) (\<lambda>dir.
     PointerParameter_init [DIRECTION_IN, DIRECTION_OUT, DIRECTION_INOUT] ctype name dir is_const
       default_value transfer_ownership)"

definition UInt8PtrParam_convert_c_to_python :: "param \<Rightarrow> (wrapper, unit) py" where [method_defs]:
  "UInt8PtrParam_convert_c_to_python p = seqs [
     when_py (dir_in p) (w_build_add ''B'' [''*'' @ p_value p] False),
     when_py (dir_out p) (parse_arg ''B'' [p_value p] (p_name p) False)]"

definition UInt8PtrParam_convert_python_to_c :: "param \<Rightarrow> (wrapper, unit) py" where [method_defs]:
  "UInt8PtrParam_convert_python_to_c p = bnd (declare_var ''uint8_t'' (p_name p)) (\<lambda>name.
     seqs [
     w_call_append (''&'' @ name),
     when_py (dir_in p) (parse_arg ''B'' [''&'' @ name] (p_name p) False),
     when_py (dir_out p) (w_build_add ''B'' [name] False)])"

definition UInt8PtrParam :: "param_class" where [class_defs]:
  "UInt8PtrParam = \<lparr>pc_name = ''UInt8PtrParam'',
     pc_directions = [DIRECTION_IN, DIRECTION_OUT, DIRECTION_INOUT], pc_ctypes = [''uint8_t*''],
     pc_convert_c_to_python = UInt8PtrParam_convert_c_to_python, pc_convert_python_to_c = UInt8PtrParam_convert_python_to_c\<rparr>"

definition UnsignedInt16PtrParam_init :: "ctype_arg \<Rightarrow> string \<Rightarrow> string \<Rightarrow> int \<Rightarrow> bool \<Rightarrow> pyval \<Rightarrow> pyval \<Rightarrow> param res option" where [init_defs]:
  "UnsignedInt16PtrParam_init ctype ctype_repr name direction is_const default_value transfer_ownership =
     bind_div (PointerParameter_init [DIRECTION_IN, DIRECTION_OUT, DIRECTION_INOUT] ctype name direction is_const
         default_value transfer_ownership) (\<lambda>p.
       if truthy transfer_ownership
       then Some (Inl (NotSupportedError (ctype_repr @ '': transfer_ownership=True not yet implemented.'')))
       else Some (Inr p))"

definition UnsignedInt16PtrParam_convert_c_to_python :: "param \<Rightarrow> (wrapper, unit) py" where [method_defs]:
  "UnsignedInt16PtrParam_convert_c_to_python p = seqs [
     when_py (dir_in p) (w_build_add ''H'' [''*'' @ p_value p] False),
     when_py (dir_out p) (parse_arg ''H'' [p_value p] (p_name p) False)]"

definition UnsignedInt16PtrParam_convert_python_to_c :: "param \<Rightarrow> (wrapper, unit) py" where [method_defs]:
  "UnsignedInt16PtrParam_convert_python_to_c p = bnd (lift_res (target_str p)) (\<lambda>target.
     bnd (declare_var target (p_name p)) (\<lambda>name.
     seqs [
     w_call_append (''&'' @ name),
     when_py (dir_in p) (parse_arg ''H'' [''&'' @ name] (p_name p) False),
     when_py (dir_out p) (w_build_add ''H'' [name] False)]))"

definition UnsignedInt16PtrParam :: "param_class" where [class_defs]:
  "UnsignedInt16PtrParam = \<lparr>pc_name = ''UnsignedInt16PtrParam'',
     pc_directions = [DIRECTION_IN, DIRECTION_OUT, DIRECTION_INOUT], pc_ctypes = [''unsigned short int*'', ''uint16_t*''],
     pc_convert_c_to_python = UnsignedInt16PtrParam_convert_c_to_python, pc_convert_python_to_c = UnsignedInt16PtrParam_convert_python_to_c\<rparr>"

definition int_param_classes :: "param_class list" where
  "int_param_classes = [IntParam, UnsignedIntParam, UnsignedIntPtrParam, IntPtrParam, IntRefParam, UnsignedIntRefParam, UInt16Param, UInt16RefParam, Int16Param, Int16RefParam, UInt8Param, UInt8RefParam, Int8Param, Int8RefParam, UnsignedLongLongParam, UnsignedLongLongRefParam, UnsignedLongParam, UnsignedLongRefParam, LongParam, LongRefParam, SizeTParam, LongLongParam, LongLongRefParam, Int8PtrParam, UInt8PtrParam, UnsignedInt16PtrParam]"

definition int_retval_classes :: "retval_class list" where
  "int_retval_classes = [IntReturn, UnsignedIntReturn, UInt16Return, Int16Return, UInt8Return, Int8Return, UnsignedLongLongReturn, UnsignedLongReturn, LongReturn, SizeTReturn, LongLongReturn]"

end
