(* ===== verification/String_Types.thy ===== *)
theory String_Types
  imports Type_Handler
begin

text \<open>
  \<open>pybindgen/typehandlers/stringtype.py\<close>: C strings, characters, \<open>std::string\<close> and \<open>Glib::ustring\<close>,
  by value, by reference and by pointer.
\<close>


definition CStringParam_convert_c_to_python :: "param \<Rightarrow> (wrapper, unit) py" where [method_defs]:
  "CStringParam_convert_c_to_python p = seqs [
     assert_kind Reverse,
     w_build_add ''s'' [p_value p] False]"

definition CStringParam_convert_python_to_c :: "param \<Rightarrow> (wrapper, unit) py" where [method_defs]:
  "CStringParam_convert_python_to_c p = seqs [
     assert_kind Forward,
     bnd (lift_res (ctype_no_const p)) (\<lambda>ct.
     if p_default_value p = PyNone then
       bnd (declare_var ct (p_name p)) (\<lambda>name. seqs [
         parse_arg ''s'' [''&'' @ name] (p_value p) False,
         w_call_append name])
     else
       bnd (declare_init ct (p_name p) (p_default_value p)) (\<lambda>name. seqs [
         parse_arg ''s'' [''&'' @ name] (p_value p) True,
         w_call_append name]))]"

definition CStringParam :: "param_class" where [class_defs]:
  "CStringParam = \<lparr>pc_name = ''CStringParam'',
     pc_directions = [DIRECTION_IN], pc_ctypes = [''char*''],
     pc_convert_c_to_python = CStringParam_convert_c_to_python, pc_convert_python_to_c = CStringParam_convert_python_to_c\<rparr>"

definition CharParam_convert_c_to_python :: "param \<Rightarrow> (wrapper, unit) py" where [method_defs]:
  "CharParam_convert_c_to_python p = seqs [
     assert_kind Reverse,
     w_build_add ''c'' [p_value p] False]"

definition CharParam_convert_python_to_c :: "param \<Rightarrow> (wrapper, unit) py" where [method_defs]:
  "CharParam_convert_python_to_c p = seqs [
     assert_kind Forward,
     bnd (lift_res (ctype_no_const p)) (\<lambda>ct.
     bnd (declare_var ct (p_name p)) (\<lambda>name.
     seqs [
     parse_arg ''c'' [''&'' @ name] (p_value p) False,
     w_call_append name]))]"

definition CharParam :: "param_class" where [class_defs]:
  "CharParam = \<lparr>pc_name = ''CharParam'',
     pc_directions = [DIRECTION_IN], pc_ctypes = [''char''],
     pc_convert_c_to_python = CharParam_convert_c_to_python, pc_convert_python_to_c = CharParam_convert_python_to_c\<rparr>"

definition StdStringParam_convert_c_to_python :: "param \<Rightarrow> (wrapper, unit) py" where [method_defs]:
  "StdStringParam_convert_c_to_python p = seqs [
     assert_kind Reverse,
     bnd (declare_var ''const char *'' (p_name p @ ''_ptr'')) (\<lambda>ptr.
       bnd (declare_var ''Py_ssize_t'' (p_name p @ ''_len'')) (\<lambda>lenv. seqs [
         w_write Before_Call (ptr @ '' = '' @ ''('' @ p_value p @ '').c_str();''),
         w_write Before_Call (lenv @ '' = '' @ ''('' @ p_value p @ '').size();''),
         w_build_add ''s#'' [ptr, lenv] False]))]"

definition StdStringParam_convert_python_to_c :: "param \<Rightarrow> (wrapper, unit) py" where [method_defs]:
  "StdStringParam_convert_python_to_c p = seqs [
     assert_kind Forward,
     if p_default_value p = PyNone then
       bnd (declare_var ''const char *'' (p_name p)) (\<lambda>name.
       bnd (declare_var ''Py_ssize_t'' (p_name p @ ''_len'')) (\<lambda>name_len. seqs [
         parse_arg ''s#'' [''&'' @ name, ''&'' @ name_len] (p_value p) False,
         w_call_append (''std::string('' @ name @ '', '' @ name_len @ '')'')]))
     else
       bnd (declare_init ''const char *'' (p_name p) (PyStr ''NULL'')) (\<lambda>name.
       bnd (declare_var ''Py_ssize_t'' (p_name p @ ''_len'')) (\<lambda>name_len. seqs [
         parse_arg ''s#'' [''&'' @ name, ''&'' @ name_len] (p_value p) True,
         w_call_append (''('' @ name @ '' ? std::string('' @ name @ '', '' @ name_len @ '') : '' @ py_str (p_default_value p) @ '')'')]))]"

definition StdStringParam :: "param_class" where [class_defs]:
  "StdStringParam = \<lparr>pc_name = ''StdStringParam'',
     pc_directions = [DIRECTION_IN], pc_ctypes = [''std::string''],
     pc_convert_c_to_python = StdStringParam_convert_c_to_python, pc_convert_python_to_c = StdStringParam_convert_python_to_c\<rparr>"

definition StdStringRefParam_convert_c_to_python :: "param \<Rightarrow> (wrapper, unit) py" where [method_defs]:
  "StdStringRefParam_convert_c_to_python p = seqs [
     assert_kind Reverse,
     (if dir_in p then
       bnd (declare_var ''const char *'' (p_name p @ ''_ptr'')) (\<lambda>ptr.
       bnd (declare_var ''Py_ssize_t'' (p_name p @ ''_len'')) (\<lambda>lenv. seqs [
         w_write Before_Call (ptr @ '' = '' @ ''('' @ p_value p @ '').c_str();''),
         w_write Before_Call (lenv @ '' = '' @ ''('' @ p_value p @ '').size();''),
         w_build_add ''s#'' [ptr, lenv] False,
         when_py (dir_out p) (seqs [
         parse_arg ''s#'' [''&'' @ ptr, ''&'' @ lenv] (p_value p) False,
         w_write After_Call (p_value p @ '' = std::string('' @ ptr @ '', '' @ lenv @ '');'')])]))
     else when_py (dir_out p) (
       bnd (declare_var ''const char *'' (p_name p @ ''_ptr'')) (\<lambda>ptr.
       bnd (declare_var ''Py_ssize_t'' (p_name p @ ''_len'')) (\<lambda>lenv. seqs [
         parse_arg ''s#'' [''&'' @ ptr, ''&'' @ lenv] (p_value p) False,
         w_write After_Call (p_value p @ '' = std::string('' @ ptr @ '', '' @ lenv @ '');'')]))))]"

definition StdStringRefParam_convert_python_to_c :: "param \<Rightarrow> (wrapper, unit) py" where [method_defs]:
  "StdStringRefParam_convert_python_to_c p = seqs [
     assert_kind Forward,
     bnd (declare_var ''const char *'' (p_name p)) (\<lambda>name.
       bnd (declare_var ''Py_ssize_t'' (p_name p @ ''_len'')) (\<lambda>name_len.
       bnd (declare_var ''std::string'' (p_name p @ ''_std'')) (\<lambda>name_std_value. seqs [
         w_call_append name_std_value,
         when_py (dir_in p) (seqs [
           parse_arg ''s#'' [''&'' @ name, ''&'' @ name_len] (p_value p) False,
           w_write Before_Call (name_std_value @ '' = std::string('' @ name @ '', '' @ name_len @ '');'')]),
         when_py (dir_out p) (w_build_add ''s#''
           [''('' @ name_std_value @ '').c_str()'', ''('' @ name_std_value @ '').size()''] False)])))]"

definition StdStringRefParam :: "param_class" where [class_defs]:
  "StdStringRefParam = \<lparr>pc_name = ''StdStringRefParam'',
     pc_directions = [DIRECTION_IN, DIRECTION_OUT, DIRECTION_INOUT], pc_ctypes = [''std::string&''],
     pc_convert_c_to_python = StdStringRefParam_convert_c_to_python, pc_convert_python_to_c = StdStringRefParam_convert_python_to_c\<rparr>"

definition StdStringPtrParam_convert_c_to_python :: "param \<Rightarrow> (wrapper, unit) py" where [method_defs]:
  "StdStringPtrParam_convert_c_to_python p = seqs [
     assert_kind Reverse,
     (if dir_in p then
       bnd (declare_var ''const char *'' (p_name p @ ''_ptr'')) (\<lambda>ptr.
       bnd (declare_var ''Py_ssize_t'' (p_name p @ ''_len'')) (\<lambda>lenv. seqs [
         w_write Before_Call (ptr @ '' = '' @ p_value p @ ''->c_str();''),
         w_write Before_Call (lenv @ '' = '' @ p_value p @ ''->size();''),
         w_build_add ''s#'' [ptr, lenv] False,
         when_py (dir_out p) (seqs [
         parse_arg ''s#'' [''&'' @ ptr, ''&'' @ lenv] (p_value p) False,
         w_write After_Call (''*'' @ p_value p @ '' = std::string('' @ ptr @ '', '' @ lenv @ '');'')])]))
     else when_py (dir_out p) (
       bnd (declare_var ''const char *'' (p_name p @ ''_ptr'')) (\<lambda>ptr.
       bnd (declare_var ''Py_ssize_t'' (p_name p @ ''_len'')) (\<lambda>lenv. seqs [
         parse_arg ''s#'' [''&'' @ ptr, ''&'' @ lenv] (p_value p) False,
         w_write After_Call (''*'' @ p_value p @ '' = std::string('' @ ptr @ '', '' @ lenv @ '');'')])))),
     when_py (truthy (p_transfer_ownership p)) (w_write After_Call (''delete '' @ p_value p @ '';''))]"

definition StdStringPtrParam_convert_python_to_c :: "param \<Rightarrow> (wrapper, unit) py" where [method_defs]:
  "StdStringPtrParam_convert_python_to_c p = seqs [
     assert_kind Forward,
     assert_py (p_default_value p = PyNone),
     bnd (declare_var ''const char *'' (p_name p)) (\<lambda>name.
       bnd (declare_var ''Py_ssize_t'' (p_name p @ ''_len'')) (\<lambda>name_len.
       bnd (if truthy (p_transfer_ownership p) then
              bnd (declare_init ''std::string*'' (p_name p @ ''_std'') (PyStr ''new std::string'')) (\<lambda>name_std.
              bnd (w_call_append name_std) (\<lambda>_. ret (''*'' @ name_std)))
            else
              bnd (declare_var ''std::string'' (p_name p @ ''_std'')) (\<lambda>name_std.
              bnd (w_call_append (''&'' @ name_std)) (\<lambda>_. ret name_std))) (\<lambda>name_std_value. seqs [
         when_py (dir_in p) (seqs [
           parse_arg ''s#'' [''&'' @ name, ''&'' @ name_len] (p_value p) False,
           w_write Before_Call (name_std_value @ '' = std::string('' @ name @ '', '' @ name_len @ '');'')]),
         when_py (dir_out p) (w_build_add ''s#''
           [''('' @ name_std_value @ '').c_str()'', ''('' @ name_std_value @ '').size()''] False)])))]"

definition StdStringPtrParam :: "param_class" where [class_defs]:
  "StdStringPtrParam = \<lparr>pc_name = ''StdStringPtrParam'',
     pc_directions = [DIRECTION_IN, DIRECTION_OUT, DIRECTION_INOUT], pc_ctypes = [''std::string*''],
     pc_convert_c_to_python = StdStringPtrParam_convert_c_to_python, pc_convert_python_to_c = StdStringPtrParam_convert_python_to_c\<rparr>"

definition CharReturn_get_c_error_return :: "string" where [method_defs]:
  "CharReturn_get_c_error_return = ''return '' @ sq @ [CHR 0x5C] @ ''0'' @ sq @ '';''"

definition CharReturn_convert_python_to_c :: "retval \<Rightarrow> (wrapper, unit) py" where [method_defs]:
  "CharReturn_convert_python_to_c r = parse_ret ''c'' [''&'' @ r_value r] True"

definition CharReturn_convert_c_to_python :: "retval \<Rightarrow> (wrapper, unit) py" where [method_defs]:
  "CharReturn_convert_c_to_python r = w_build_add ''c'' [''(int) '' @ r_value r] False"

definition CharReturn :: "retval_class" where [class_defs]:
  "CharReturn = \<lparr>rvc_name = ''CharReturn'', rvc_ctypes = [''char''],
     rvc_get_c_error_return = CharReturn_get_c_error_return,
     rvc_convert_python_to_c = CharReturn_convert_python_to_c,
     rvc_convert_c_to_python = CharReturn_convert_c_to_python\<rparr>"

definition CStringReturn_get_c_error_return :: "string" where [method_defs]:
  "CStringReturn_get_c_error_return = ''return NULL;''"

definition CStringReturn_convert_python_to_c :: "retval \<Rightarrow> (wrapper, unit) py" where [method_defs]:
  "CStringReturn_convert_python_to_c r = parse_ret ''s'' [''&'' @ r_value r] False"

definition CStringReturn_convert_c_to_python :: "retval \<Rightarrow> (wrapper, unit) py" where [method_defs]:
  "CStringReturn_convert_c_to_python r = w_build_add ''s'' [r_value r] False"

definition CStringReturn :: "retval_class" where [class_defs]:
  "CStringReturn = \<lparr>rvc_name = ''CStringReturn'', rvc_ctypes = [''char*''],
     rvc_get_c_error_return = CStringReturn_get_c_error_return,
     rvc_convert_python_to_c = CStringReturn_convert_python_to_c,
     rvc_convert_c_to_python = CStringReturn_convert_c_to_python\<rparr>"

definition StdStringReturn_get_c_error_return :: "string" where [method_defs]:
  "StdStringReturn_get_c_error_return = ''return std::string();''"

definition StdStringReturn_convert_python_to_c :: "retval \<Rightarrow> (wrapper, unit) py" where [method_defs]:
  "StdStringReturn_convert_python_to_c r = bnd (declare_var ''const char *'' ''retval_ptr'') (\<lambda>ptr.
     bnd (declare_var ''Py_ssize_t'' ''retval_len'') (\<lambda>lenv. seqs [
       parse_ret ''s#'' [''&'' @ ptr, ''&'' @ lenv] False,
       w_write After_Call (r_value r @ '' = std::string('' @ ptr @ '', '' @ lenv @ '');'')]))"

definition StdStringReturn_convert_c_to_python :: "retval \<Rightarrow> (wrapper, unit) py" where [method_defs]:
  "StdStringReturn_convert_c_to_python r = w_build_add ''s#'' [''('' @ r_value r @ '').c_str()'', ''('' @ r_value r @ '').size()''] True"

definition StdStringReturn :: "retval_class" where [class_defs]:
  "StdStringReturn = \<lparr>rvc_name = ''StdStringReturn'', rvc_ctypes = [''std::string''],
     rvc_get_c_error_return = StdStringReturn_get_c_error_return,
     rvc_convert_python_to_c = StdStringReturn_convert_python_to_c,
     rvc_convert_c_to_python = StdStringReturn_convert_c_to_python\<rparr>"

definition GlibStringParam_convert_c_to_python :: "param \<Rightarrow> (wrapper, unit) py" where [method_defs]:
  "GlibStringParam_convert_c_to_python p = seqs [
     assert_kind Reverse,
     bnd (declare_var ''const char *'' (p_name p @ ''_ptr'')) (\<lambda>ptr.
       bnd (declare_var ''Py_ssize_t'' (p_name p @ ''_len'')) (\<lambda>lenv. seqs [
         w_write Before_Call (ptr @ '' = '' @ ''('' @ p_value p @ '').c_str();''),
         w_write Before_Call (lenv @ '' = '' @ ''('' @ p_value p @ '').bytes();''),
         w_build_add ''s#'' [ptr, lenv] False]))]"

definition GlibStringParam_convert_python_to_c :: "param \<Rightarrow> (wrapper, unit) py" where [method_defs]:
  "GlibStringParam_convert_python_to_c p = seqs [
     assert_kind Forward,
     if p_default_value p = PyNone then
       bnd (declare_var ''const char *'' (p_name p)) (\<lambda>name. seqs [
         parse_arg ''et'' [dq @ ''utf-8'' @ dq, ''&'' @ name] (p_value p) False,
         w_call_append (''Glib::ustring('' @ name @ '')'')])
     else
       bnd (declare_init ''const char *'' (p_name p) (PyStr ''NULL'')) (\<lambda>name. seqs [
         parse_arg ''et'' [dq @ ''utf-8'' @ dq, ''&'' @ name] (p_value p) True,
         w_call_append (''('' @ name @ '' ? Glib::ustring('' @ name @ '') : '' @ py_str (p_default_value p) @ '')'')])]"

definition GlibStringParam :: "param_class" where [class_defs]:
  "GlibStringParam = \<lparr>pc_name = ''GlibStringParam'',
     pc_directions = [DIRECTION_IN], pc_ctypes = [''Glib::ustring''],
     pc_convert_c_to_python = GlibStringParam_convert_c_to_python, pc_convert_python_to_c = GlibStringParam_convert_python_to_c\<rparr>"

definition GlibStringRefParam_convert_c_to_python :: "param \<Rightarrow> (wrapper, unit) py" where [method_defs]:
  "GlibStringRefParam_convert_c_to_python p = seqs [
     assert_kind Reverse,
     (if dir_in p then
       bnd (declare_var ''const char *'' (p_name p @ ''_ptr'')) (\<lambda>ptr.
       bnd (declare_var ''Py_ssize_t'' (p_name p @ ''_len'')) (\<lambda>lenv. seqs [
         w_write Before_Call (ptr @ '' = '' @ ''('' @ p_value p @ '').c_str();''),
         w_write Before_Call (lenv @ '' = '' @ ''('' @ p_value p @ '').bytes();''),
         w_build_add ''s#'' [ptr, lenv] False,
         when_py (dir_out p) (seqs [
         parse_arg ''et'' [dq @ ''utf-8'' @ dq, ''&'' @ ptr] (p_value p) False,
         w_write After_Call (p_value p @ '' = Glib::ustring('' @ ptr @ '');'')])]))
     else when_py (dir_out p) (
       bnd (declare_var ''const char *'' (p_name p @ ''_ptr'')) (\<lambda>ptr.
       seqs [
         parse_arg ''et'' [dq @ ''utf-8'' @ dq, ''&'' @ ptr] (p_value p) False,
         w_write After_Call (p_value p @ '' = Glib::ustring('' @ ptr @ '');'')])))]"

definition GlibStringRefParam_convert_python_to_c :: "param \<Rightarrow> (wrapper, unit) py" where [method_defs]:
  "GlibStringRefParam_convert_python_to_c p = seqs [
     assert_kind Forward,
     bnd (declare_var ''const char *'' (p_name p)) (\<lambda>name.
       bnd (declare_var ''Glib::ustring'' (p_name p @ ''_std'')) (\<lambda>name_std_value. seqs [
         w_call_append name_std_value,
         when_py (dir_in p) (seqs [
           parse_arg ''et'' [dq @ ''utf-8'' @ dq, ''&'' @ name] (p_value p) False,
           w_write Before_Call (name_std_value @ '' = Glib::ustring('' @ name @ '');'')]),
         when_py (dir_out p) (w_build_add ''s#''
           [''('' @ name_std_value @ '').c_str()'', ''('' @ name_std_value @ '').bytes()''] False)]))]"

definition GlibStringRefParam :: "param_class" where [class_defs]:
  "GlibStringRefParam = \<lparr>pc_name = ''GlibStringRefParam'',
     pc_directions = [DIRECTION_IN, DIRECTION_OUT, DIRECTION_INOUT], pc_ctypes = [''Glib::ustring&''],
     pc_convert_c_to_python = GlibStringRefParam_convert_c_to_python, pc_convert_python_to_c = GlibStringRefParam_convert_python_to_c\<rparr>"

definition GlibStringPtrParam_convert_c_to_python :: "param \<Rightarrow> (wrapper, unit) py" where [method_defs]:
  "GlibStringPtrParam_convert_c_to_python p = seqs [
     assert_kind Reverse,
     (if dir_in p then
       bnd (declare_var ''const char *'' (p_name p @ ''_ptr'')) (\<lambda>ptr.
       bnd (declare_var ''Py_ssize_t'' (p_name p @ ''_len'')) (\<lambda>lenv. seqs [
         w_write Before_Call (ptr @ '' = '' @ p_value p @ ''->c_str();''),
         w_write Before_Call (lenv @ '' = '' @ p_value p @ ''->bytes();''),
         w_build_add ''s#'' [ptr, lenv] False,
         when_py (dir_out p) (seqs [
         parse_arg ''et'' [dq @ ''utf-8'' @ dq, ''&'' @ ptr] (p_value p) False,
         w_write After_Call (''*'' @ p_value p @ '' = Glib::ustring('' @ ptr @ '');'')])]))
     else when_py (dir_out p) (
       bnd (declare_var ''const char *'' (p_name p @ ''_ptr'')) (\<lambda>ptr.
       seqs [
         parse_arg ''et'' [dq @ ''utf-8'' @ dq, ''&'' @ ptr] (p_value p) False,
         w_write After_Call (''*'' @ p_value p @ '' = Glib::ustring('' @ ptr @ '');'')]))),
     when_py (truthy (p_transfer_ownership p)) (w_write After_Call (''delete '' @ p_value p @ '';''))]"

definition GlibStringPtrParam_convert_python_to_c :: "param \<Rightarrow> (wrapper, unit) py" where [method_defs]:
  "GlibStringPtrParam_convert_python_to_c p = seqs [
     assert_kind Forward,
     assert_py (p_default_value p = PyNone),
     bnd (declare_var ''const char *'' (p_name p)) (\<lambda>name.
       bnd (if truthy (p_transfer_ownership p) then
              bnd (declare_init ''Glib::ustring*'' (p_name p @ ''_std'') (PyStr ''new Glib::ustring'')) (\<lambda>name_std.
              bnd (w_call_append name_std) (\<lambda>_. ret (''*'' @ name_std)))
            else
              bnd (declare_var ''Glib::ustring'' (p_name p @ ''_std'')) (\<lambda>name_std.
              bnd (w_call_append (''&'' @ name_std)) (\<lambda>_. ret name_std))) (\<lambda>name_std_value. seqs [
         when_py (dir_in p) (seqs [
           parse_arg ''et'' [dq @ ''utf-8'' @ dq, ''&'' @ name] (p_value p) False,
           w_write Before_Call (name_std_value @ '' = Glib::ustring('' @ name @ '');'')]),
         when_py (dir_out p) (w_build_add ''s#''
           [''('' @ name_std_value @ '').c_str()'', ''('' @ name_std_value @ '').bytes()''] False)]))]"

definition GlibStringPtrParam :: "param_class" where [class_defs]:
  "GlibStringPtrParam = \<lparr>pc_name = ''GlibStringPtrParam'',
     pc_directions = [DIRECTION_IN, DIRECTION_OUT, DIRECTION_INOUT], pc_ctypes = [''Glib::ustring*''],
     pc_convert_c_to_python = GlibStringPtrParam_convert_c_to_python, pc_convert_python_to_c = GlibStringPtrParam_convert_python_to_c\<rparr>"

definition GlibStringReturn_get_c_error_return :: "string" where [method_defs]:
  "GlibStringReturn_get_c_error_return = ''return Glib::ustring();''"

definition GlibStringReturn_convert_python_to_c :: "retval \<Rightarrow> (wrapper, unit) py" where [method_defs]:
  "GlibStringReturn_convert_python_to_c r = bnd (declare_var ''const char *'' ''retval_ptr'') (\<lambda>ptr. seqs [
       parse_ret ''et'' [dq @ ''utf-8'' @ dq, ''&'' @ ptr] False,
       w_write After_Call (r_value r @ '' = Glib::ustring('' @ ptr @ '');'')])"

definition GlibStringReturn_convert_c_to_python :: "retval \<Rightarrow> (wrapper, unit) py" where [method_defs]:
  "GlibStringReturn_convert_c_to_python r = w_build_add ''s#'' [''('' @ r_value r @ '').c_str()'', ''('' @ r_value r @ '').bytes()''] True"

definition GlibStringReturn :: "retval_class" where [class_defs]:
  "GlibStringReturn = \<lparr>rvc_name = ''GlibStringReturn'', rvc_ctypes = [''Glib::ustring''],
     rvc_get_c_error_return = GlibStringReturn_get_c_error_return,
     rvc_convert_python_to_c = GlibStringReturn_convert_python_to_c,
     rvc_convert_c_to_python = GlibStringReturn_convert_c_to_python\<rparr>"

definition string_param_classes :: "param_class list" where
  "string_param_classes = [CStringParam, CharParam, StdStringParam, StdStringRefParam, StdStringPtrParam, GlibStringParam, GlibStringRefParam, GlibStringPtrParam]"

definition string_retval_classes :: "retval_class list" where
  "string_retval_classes = [CharReturn, CStringReturn, StdStringReturn, GlibStringReturn]"

end
