(* ===== verification/Simple_Types.thy ===== *)
theory Simple_Types
  imports Type_Handler
begin

text \<open>
  \<open>booltype.py\<close>, \<open>floattype.py\<close>, \<open>doubletype.py\<close>, \<open>pyobjecttype.py\<close> and \<open>voidtype.py\<close> of
  \<open>pybindgen/typehandlers\<close>.
\<close>


definition BoolParam_convert_c_to_python :: "param \<Rightarrow> (wrapper, unit) py" where [method_defs]:
  "BoolParam_convert_c_to_python p = seqs [
     assert_kind Reverse,
     w_build_add ''N'' [''PyBool_FromLong('' @ p_value p @ '')''] False]"

definition BoolParam_convert_python_to_c :: "param \<Rightarrow> (wrapper, unit) py" where [method_defs]:
  "BoolParam_convert_python_to_c p = seqs [
     assert_kind Forward,
     bnd (lift_res (ctype_no_const p)) (\<lambda>ct.
     bnd (declare_var ct (p_name p)) (\<lambda>name.
     bnd (if p_default_value p = PyNone then declare_var ''PyObject *'' (''py_'' @ p_name p)
          else declare_init ''PyObject *'' (''py_'' @ p_name p) (PyStr ''NULL'')) (\<lambda>py_name. seqs [
       parse_arg ''O'' [''&'' @ py_name] (p_value p) (p_default_value p \<noteq> PyNone),
       (if truthy (p_default_value p) then
          w_write Before_Call (name @ '' = '' @ py_name @ ''? (bool) PyObject_IsTrue('' @ py_name @ '') : '' @
            py_str (p_default_value p) @ '';'')
        else w_write Before_Call (name @ '' = (bool) PyObject_IsTrue('' @ py_name @ '');'')),
       w_call_append name])))]"

definition BoolParam :: "param_class" where [class_defs]:
  "BoolParam = \<lparr>pc_name = ''BoolParam'',
     pc_directions = [DIRECTION_IN], pc_ctypes = [''bool''],
     pc_convert_c_to_python = BoolParam_convert_c_to_python, pc_convert_python_to_c = BoolParam_convert_python_to_c\<rparr>"

definition BoolReturn_get_c_error_return :: "string" where [method_defs]:
  "BoolReturn_get_c_error_return = ''return false;''"

definition BoolReturn_convert_python_to_c :: "retval \<Rightarrow> (wrapper, unit) py" where [method_defs]:
  "BoolReturn_convert_python_to_c r = bnd (declare_var ''PyObject *'' ''py_boolretval'') (\<lambda>py_name.
     seqs [
     parse_ret ''O'' [''&'' @ py_name] True,
     w_write After_Call (r_value r @ '' = PyObject_IsTrue('' @ py_name @ '');'')])"

definition BoolReturn_convert_c_to_python :: "retval \<Rightarrow> (wrapper, unit) py" where [method_defs]:
  "BoolReturn_convert_c_to_python r = w_build_add ''N'' [''PyBool_FromLong('' @ r_value r @ '')''] True"

definition BoolReturn :: "retval_class" where [class_defs]:
  "BoolReturn = \<lparr>rvc_name = ''BoolReturn'', rvc_ctypes = [''bool''],
     rvc_get_c_error_return = BoolReturn_get_c_error_return,
     rvc_convert_python_to_c = BoolReturn_convert_python_to_c,
     rvc_convert_c_to_python = BoolReturn_convert_c_to_python\<rparr>"

definition BoolPtrParam_convert_c_to_python :: "param \<Rightarrow> (wrapper, unit) py" where [method_defs]:
  "BoolPtrParam_convert_c_to_python p = seqs [
     when_py (dir_in p) (w_build_add ''N'' [''PyBool_FromLong(*'' @ p_value p @ '')''] False),
     when_py (dir_out p) (bnd (declare_var ''PyObject *'' (''py_'' @ p_name p)) (\<lambda>py_name. seqs [
       parse_arg ''O'' [''&'' @ py_name] (p_value p) False,
       w_write After_Call (''*'' @ p_value p @ '' = PyObject_IsTrue('' @ py_name @ '');'')]))]"

definition BoolPtrParam_convert_python_to_c :: "param \<Rightarrow> (wrapper, unit) py" where [method_defs]:
  "BoolPtrParam_convert_python_to_c p = bnd (lift_res (ctype_no_const p)) (\<lambda>ct.
     bnd (declare_var (butlast ct) (p_name p)) (\<lambda>name.
     seqs [
     w_call_append (''&'' @ name),
     when_py (dir_in p) (bnd (declare_var ''PyObject*'' (''py_'' @ p_name p)) (\<lambda>py_name. seqs [
       parse_arg ''O'' [''&'' @ py_name] (p_value p) False,
       w_write Before_Call (name @ '' = PyObject_IsTrue('' @ py_name @ '');'')])),
     when_py (dir_out p) (w_build_add ''N'' [''PyBool_FromLong('' @ name @ '')''] False)]))"

definition BoolPtrParam :: "param_class" where [class_defs]:
  "BoolPtrParam = \<lparr>pc_name = ''BoolPtrParam'',
     pc_directions = [DIRECTION_IN, DIRECTION_OUT, DIRECTION_INOUT], pc_ctypes = [''bool*''],
     pc_convert_c_to_python = BoolPtrParam_convert_c_to_python, pc_convert_python_to_c = BoolPtrParam_convert_python_to_c\<rparr>"

definition BoolRefParam_convert_c_to_python :: "param \<Rightarrow> (wrapper, unit) py" where [method_defs]:
  "BoolRefParam_convert_c_to_python p = seqs [
     when_py (dir_in p) (w_build_add ''N'' [''PyBool_FromLong('' @ p_value p @ '')''] False),
     when_py (dir_out p) (bnd (declare_var ''PyObject *'' (''py_'' @ p_name p)) (\<lambda>py_name. seqs [
       parse_arg ''O'' [''&'' @ py_name] (p_name p) False,
       w_write After_Call (p_value p @ '' = PyObject_IsTrue('' @ py_name @ '');'')]))]"

definition BoolRefParam_convert_python_to_c :: "param \<Rightarrow> (wrapper, unit) py" where [method_defs]:
  "BoolRefParam_convert_python_to_c p = bnd (lift_res (ctype_no_const p)) (\<lambda>ct.
     bnd (declare_var (butlast ct) (p_name p)) (\<lambda>name.
     seqs [
     w_call_append name,
     when_py (dir_in p) (bnd (declare_var ''PyObject*'' (''py_'' @ p_name p)) (\<lambda>py_name. seqs [
       parse_arg ''O'' [''&'' @ py_name] (p_value p) False,
       w_write Before_Call (name @ '' = PyObject_IsTrue('' @ py_name @ '');'')])),
     when_py (dir_out p) (w_build_add ''N'' [''PyBool_FromLong('' @ name @ '')''] False)]))"

definition BoolRefParam :: "param_class" where [class_defs]:
  "BoolRefParam = \<lparr>pc_name = ''BoolRefParam'',
     pc_directions = [DIRECTION_IN, DIRECTION_OUT, DIRECTION_INOUT], pc_ctypes = [''bool&''],
     pc_convert_c_to_python = BoolRefParam_convert_c_to_python, pc_convert_python_to_c = BoolRefParam_convert_python_to_c\<rparr>"

definition FloatParam_convert_c_to_python :: "param \<Rightarrow> (wrapper, unit) py" where [method_defs]:
  "FloatParam_convert_c_to_python p = seqs [
     assert_kind Reverse,
     w_build_add ''f'' [p_value p] False]"

definition FloatParam_convert_python_to_c :: "param \<Rightarrow> (wrapper, unit) py" where [method_defs]:
  "FloatParam_convert_python_to_c p = seqs [
     assert_kind Forward,
     bnd (lift_res (ctype_no_const p)) (\<lambda>ct.
     bnd (declare_var ct (p_name p)) (\<lambda>name.
     seqs [
     parse_arg ''f'' [''&'' @ name] (p_value p) False,
     w_call_append name]))]"

definition FloatParam :: "param_class" where [class_defs]:
  "FloatParam = \<lparr>pc_name = ''FloatParam'',
     pc_directions = [DIRECTION_IN], pc_ctypes = [''float''],
     pc_convert_c_to_python = FloatParam_convert_c_to_python, pc_convert_python_to_c = FloatParam_convert_python_to_c\<rparr>"

definition FloatReturn_get_c_error_return :: "string" where [method_defs]:
  "FloatReturn_get_c_error_return = ''return 0;''"

definition FloatReturn_convert_python_to_c :: "retval \<Rightarrow> (wrapper, unit) py" where [method_defs]:
  "FloatReturn_convert_python_to_c r = parse_ret ''f'' [''&'' @ r_value r] True"

definition FloatReturn_convert_c_to_python :: "retval \<Rightarrow> (wrapper, unit) py" where [method_defs]:
  "FloatReturn_convert_c_to_python r = w_build_add ''f'' [r_value r] True"

definition FloatReturn :: "retval_class" where [class_defs]:
  "FloatReturn = \<lparr>rvc_name = ''FloatReturn'', rvc_ctypes = [''float''],
     rvc_get_c_error_return = FloatReturn_get_c_error_return,
     rvc_convert_python_to_c = FloatReturn_convert_python_to_c,
     rvc_convert_c_to_python = FloatReturn_convert_c_to_python\<rparr>"

definition FloatPtrParam_init :: "ctype_arg \<Rightarrow> string \<Rightarrow> int \<Rightarrow> bool \<Rightarrow> pyval \<Rightarrow> int option \<Rightarrow> param res option" where [init_defs]:
  "FloatPtrParam_init ctype name direction is_const default_value array_length =
     bind_div (Parameter_init [DIRECTION_IN, DIRECTION_OUT, DIRECTION_INOUT] ctype name direction is_const default_value)
       (\<lambda>p. Some (Inr (p\<lparr>p_array_length := array_length\<rparr>)))"

definition FloatPtrParam_array_in :: "param \<Rightarrow> int \<Rightarrow> string \<Rightarrow> string \<Rightarrow> string \<Rightarrow> (wrapper, unit) py" where [method_defs]:
  "FloatPtrParam_array_in p n name py_list idx =
     bnd (declare_var ''PyObject*'' ''element'') (\<lambda>elem. seqs [
       parse_arg ''O!'' [''&PyList_Type'', ''&'' @ py_list] (p_name p) False,
       w_error_check Before_Call (''PyList_Size('' @ py_list @ '') != '' @ str_of_int n)
         (Some (''PyErr_SetString(PyExc_TypeError, '' @ dq @ ''Parameter `'' @ p_name p @ sq @ '' must be a list of '' @ str_of_int n @ '' floats'' @ dq @ '');'')),
       w_write Before_Call (''for ('' @ idx @ '' = 0; '' @ idx @ '' < '' @ str_of_int n @ ''; '' @ idx @ ''++) {''),
       indented Before_Call (seqs [
         w_write Before_Call (elem @ '' = PyList_GET_ITEM('' @ py_list @ '', '' @ idx @ '');''),
         w_error_check Before_Call ''!PyFloat_Check(element)''
           (Some (''PyErr_SetString(PyExc_TypeError, '' @ dq @ ''Parameter `'' @ p_name p @ sq @ '' must be a list of '' @ str_of_int n @ '' floats'' @ dq @ '');'')),
         w_write Before_Call (name @ ''['' @ idx @ ''] = (float) PyFloat_AsDouble('' @ elem @ '');'')]),
       w_write Before_Call ''}''])"

definition FloatPtrParam_array_out :: "int \<Rightarrow> string \<Rightarrow> string \<Rightarrow> string \<Rightarrow> (wrapper, unit) py" where [method_defs]:
  "FloatPtrParam_array_out n name py_list idx = seqs [
       w_write After_Call (py_list @ '' = PyList_New('' @ str_of_int n @ '');''),
       w_write After_Call (''for ('' @ idx @ '' = 0; '' @ idx @ '' < '' @ str_of_int n @ ''; '' @ idx @ ''++) {''),
       indented After_Call (w_write After_Call
         (''PyList_SET_ITEM('' @ py_list @ '', '' @ idx @ '', PyFloat_FromDouble('' @ name @ ''['' @ idx @ '']));'')),
       w_write After_Call ''}'',
       w_build_add ''N'' [py_list] False]"

definition FloatPtrParam_convert_c_to_python :: "param \<Rightarrow> (wrapper, unit) py" where [method_defs]:
  "FloatPtrParam_convert_c_to_python p = seqs [
     when_py (dir_in p) (w_build_add ''f'' [''*'' @ p_value p] False),
     when_py (dir_out p) (parse_arg ''f'' [p_value p] (p_name p) False)]"

definition FloatPtrParam_convert_python_to_c :: "param \<Rightarrow> (wrapper, unit) py" where [method_defs]:
  "FloatPtrParam_convert_python_to_c p = bnd (lift_res (ctype_no_const p)) (\<lambda>ct.
     case p_array_length p of
         None \<Rightarrow> bnd (declare_var (butlast ct) (p_name p)) (\<lambda>name.
     seqs [
     w_call_append (''&'' @ name),
     when_py (dir_in p) (parse_arg ''f'' [''&'' @ name] (p_name p) False),
     when_py (dir_out p) (w_build_add ''f'' [name] False)])
       | Some n \<Rightarrow> bnd (w_declare (butlast ct) (p_name p) PyNone (Some (''['' @ str_of_int n @ '']''))) (\<lambda>name.
           bnd (declare_var ''PyObject*'' ''py_list'') (\<lambda>py_list.
           bnd (declare_var ''int'' ''idx'') (\<lambda>idx. seqs [
             w_call_append name,
             when_py (dir_in p) (FloatPtrParam_array_in p n name py_list idx),
             when_py (dir_out p) (FloatPtrParam_array_out n name py_list idx)]))))"

definition FloatPtrParam :: "param_class" where [class_defs]:
  "FloatPtrParam = \<lparr>pc_name = ''FloatPtrParam'',
     pc_directions = [DIRECTION_IN, DIRECTION_OUT, DIRECTION_INOUT], pc_ctypes = [''float*''],
     pc_convert_c_to_python = FloatPtrParam_convert_c_to_python, pc_convert_python_to_c = FloatPtrParam_convert_python_to_c\<rparr>"

definition FloatRefParam_convert_c_to_python :: "param \<Rightarrow> (wrapper, unit) py" where [method_defs]:
  "FloatRefParam_convert_c_to_python p = seqs [
     when_py (dir_in p) (w_build_add ''f'' [p_value p] False),
     when_py (dir_out p) (parse_arg ''f'' [p_value p] (p_name p) False)]"

definition FloatRefParam_convert_python_to_c :: "param \<Rightarrow> (wrapper, unit) py" where [method_defs]:
  "FloatRefParam_convert_python_to_c p = bnd (lift_res (ctype_no_const p)) (\<lambda>ct.
     bnd (declare_var (butlast ct) (p_name p)) (\<lambda>name.
     seqs [
     w_call_append name,
     when_py (dir_in p) (parse_arg ''f'' [''&'' @ name] (p_name p) False),
     when_py (dir_out p) (w_build_add ''f'' [name] False)]))"

definition FloatRefParam :: "param_class" where [class_defs]:
  "FloatRefParam = \<lparr>pc_name = ''FloatRefParam'',
     pc_directions = [DIRECTION_IN, DIRECTION_OUT, DIRECTION_INOUT], pc_ctypes = [''float&''],
     pc_convert_c_to_python = FloatRefParam_convert_c_to_python, pc_convert_python_to_c = FloatRefParam_convert_python_to_c\<rparr>"

definition DoubleParam_convert_c_to_python :: "param \<Rightarrow> (wrapper, unit) py" where [method_defs]:
  "DoubleParam_convert_c_to_python p = seqs [
     assert_kind Reverse,
     w_build_add ''d'' [p_value p] False]"

definition DoubleParam_convert_python_to_c :: "param \<Rightarrow> (wrapper, unit) py" where [method_defs]:
  "DoubleParam_convert_python_to_c p = seqs [
     assert_kind Forward,
     bnd (lift_res (ctype_no_const p)) (\<lambda>ct.
     bnd (declare_init ct (p_name p) (p_default_value p)) (\<lambda>name.
     seqs [
     parse_arg ''d'' [''&'' @ name] (p_value p) (truthy (p_default_value p)),
     w_call_append name]))]"

definition DoubleParam :: "param_class" where [class_defs]:
  "DoubleParam = \<lparr>pc_name = ''DoubleParam'',
     pc_directions = [DIRECTION_IN], pc_ctypes = [''double''],
     pc_convert_c_to_python = DoubleParam_convert_c_to_python, pc_convert_python_to_c = DoubleParam_convert_python_to_c\<rparr>"

definition DoubleReturn_get_c_error_return :: "string" where [method_defs]:
  "DoubleReturn_get_c_error_return = ''return 0;''"

definition DoubleReturn_convert_python_to_c :: "retval \<Rightarrow> (wrapper, unit) py" where [method_defs]:
  "DoubleReturn_convert_python_to_c r = parse_ret ''d'' [''&'' @ r_value r] True"

definition DoubleReturn_convert_c_to_python :: "retval \<Rightarrow> (wrapper, unit) py" where [method_defs]:
  "DoubleReturn_convert_c_to_python r = w_build_add ''d'' [r_value r] True"

definition DoubleReturn :: "retval_class" where [class_defs]:
  "DoubleReturn = \<lparr>rvc_name = ''DoubleReturn'', rvc_ctypes = [''double''],
     rvc_get_c_error_return = DoubleReturn_get_c_error_return,
     rvc_convert_python_to_c = DoubleReturn_convert_python_to_c,
     rvc_convert_c_to_python = DoubleReturn_convert_c_to_python\<rparr>"

definition DoublePtrParam_convert_c_to_python :: "param \<Rightarrow> (wrapper, unit) py" where [method_defs]:
  "DoublePtrParam_convert_c_to_python p = seqs [
     when_py (dir_in p) (w_build_add ''d'' [''*'' @ p_value p] False),
     when_py (dir_out p) (parse_arg ''d'' [p_value p] (p_name p) False)]"

definition DoublePtrParam_convert_python_to_c :: "param \<Rightarrow> (wrapper, unit) py" where [method_defs]:
  "DoublePtrParam_convert_python_to_c p = bnd (lift_res (ctype_no_const p)) (\<lambda>ct.
     bnd (declare_var (butlast ct) (p_name p)) (\<lambda>name.
     seqs [
     w_call_append (''&'' @ name),
     when_py (dir_in p) (parse_arg ''d'' [''&'' @ name] (p_name p) False),
     when_py (dir_out p) (w_build_add ''d'' [name] False)]))"

definition DoublePtrParam :: "param_class" where [class_defs]:
  "DoublePtrParam = \<lparr>pc_name = ''DoublePtrParam'',
     pc_directions = [DIRECTION_IN, DIRECTION_OUT, DIRECTION_INOUT], pc_ctypes = [''double*''],
     pc_convert_c_to_python = DoublePtrParam_convert_c_to_python, pc_convert_python_to_c = DoublePtrParam_convert_python_to_c\<rparr>"

definition DoubleRefParam_convert_c_to_python :: "param \<Rightarrow> (wrapper, unit) py" where [method_defs]:
  "DoubleRefParam_convert_c_to_python p = seqs [
     when_py (dir_in p) (w_build_add ''d'' [p_value p] False),
     when_py (dir_out p) (parse_arg ''d'' [p_value p] (p_name p) False)]"

definition DoubleRefParam_convert_python_to_c :: "param \<Rightarrow> (wrapper, unit) py" where [method_defs]:
  "DoubleRefParam_convert_python_to_c p = bnd (declare_var ''double'' (p_name p)) (\<lambda>name.
     seqs [
     w_call_append name,
     when_py (dir_in p) (parse_arg ''d'' [''&'' @ name] (p_name p) False),
     when_py (dir_out p) (w_build_add ''d'' [name] False)])"

definition DoubleRefParam :: "param_class" where [class_defs]:
  "DoubleRefParam = \<lparr>pc_name = ''DoubleRefParam'',
     pc_directions = [DIRECTION_IN, DIRECTION_OUT, DIRECTION_INOUT], pc_ctypes = [''double&''],
     pc_convert_c_to_python = DoubleRefParam_convert_c_to_python, pc_convert_python_to_c = DoubleRefParam_convert_python_to_c\<rparr>"

definition PyObjectParam_init :: "ctype_arg \<Rightarrow> string \<Rightarrow> pyval \<Rightarrow> bool \<Rightarrow> param res option" where [init_defs]:
  "PyObjectParam_init ctype name transfer_ownership is_const =
     bind_div (Parameter_init [DIRECTION_IN] ctype name DIRECTION_IN is_const PyNone)
       (\<lambda>p. Some (Inr (p\<lparr>p_transfer_ownership := transfer_ownership\<rparr>)))"

definition PyObjectParam_convert_c_to_python :: "param \<Rightarrow> (wrapper, unit) py" where [method_defs]:
  "PyObjectParam_convert_c_to_python p = seqs [
     assert_kind Reverse,
     (if truthy (p_transfer_ownership p) then w_build_add ''N'' [p_value p] False else w_build_add ''O'' [p_value p] False)]"

definition PyObjectParam_convert_python_to_c :: "param \<Rightarrow> (wrapper, unit) py" where [method_defs]:
  "PyObjectParam_convert_python_to_c p = seqs [
     assert_kind Forward,
     bnd (lift_res (ctype_no_const p)) (\<lambda>ct.
     bnd (declare_var ct (p_name p)) (\<lambda>name.
     seqs [
     parse_arg ''O'' [''&'' @ name] (p_name p) False,
     w_call_append name,
     when_py (truthy (p_transfer_ownership p)) (w_write Before_Call (''Py_INCREF((PyObject*) '' @ name @ '');''))]))]"

definition PyObjectParam :: "param_class" where [class_defs]:
  "PyObjectParam = \<lparr>pc_name = ''PyObjectParam'',
     pc_directions = [DIRECTION_IN], pc_ctypes = [''PyObject*''],
     pc_convert_c_to_python = PyObjectParam_convert_c_to_python, pc_convert_python_to_c = PyObjectParam_convert_python_to_c\<rparr>"

definition PyObjectReturnValue_init :: "ctype_arg \<Rightarrow> pyval \<Rightarrow> bool \<Rightarrow> retval res option" where [init_defs]:
  "PyObjectReturnValue_init ctype caller_owns_return is_const =
     bind_div (ReturnValue_init ctype is_const) (\<lambda>r. Some (Inr (r\<lparr>r_caller_owns_return := caller_owns_return\<rparr>)))"

definition PyObjectReturnValue_get_c_error_return :: "string" where [method_defs]:
  "PyObjectReturnValue_get_c_error_return = ''return NULL;''"

definition PyObjectReturnValue_convert_python_to_c :: "retval \<Rightarrow> (wrapper, unit) py" where [method_defs]:
  "PyObjectReturnValue_convert_python_to_c r = seqs [
     parse_ret ''O'' [''&'' @ r_value r] True,
     when_py (truthy (r_caller_owns_return r)) (w_write After_Call (''Py_INCREF((PyObject*) '' @ r_value r @ '');''))]"

definition PyObjectReturnValue_convert_c_to_python :: "retval \<Rightarrow> (wrapper, unit) py" where [method_defs]:
  "PyObjectReturnValue_convert_c_to_python r = w_build_add (if truthy (r_caller_owns_return r) then ''N'' else ''O'') [r_value r] True"

definition PyObjectReturnValue :: "retval_class" where [class_defs]:
  "PyObjectReturnValue = \<lparr>rvc_name = ''PyObjectReturnValue'', rvc_ctypes = [''PyObject*''],
     rvc_get_c_error_return = PyObjectReturnValue_get_c_error_return,
     rvc_convert_python_to_c = PyObjectReturnValue_convert_python_to_c,
     rvc_convert_c_to_python = PyObjectReturnValue_convert_c_to_python\<rparr>"

definition VoidReturn_get_c_error_return :: "string" where [method_defs]:
  "VoidReturn_get_c_error_return = ''return;''"

definition VoidReturn_convert_python_to_c :: "retval \<Rightarrow> (wrapper, unit) py" where [method_defs]:
  "VoidReturn_convert_python_to_c r = parse_ret [] [] True"

definition VoidReturn_convert_c_to_python :: "retval \<Rightarrow> (wrapper, unit) py" where [method_defs]:
  "VoidReturn_convert_c_to_python r = ret ()"

definition VoidReturn :: "retval_class" where [class_defs]:
  "VoidReturn = \<lparr>rvc_name = ''VoidReturn'', rvc_ctypes = [''void''],
     rvc_get_c_error_return = VoidReturn_get_c_error_return,
     rvc_convert_python_to_c = VoidReturn_convert_python_to_c,
     rvc_convert_c_to_python = VoidReturn_convert_c_to_python\<rparr>"

definition simple_param_classes :: "param_class list" where
  "simple_param_classes = [BoolParam, BoolPtrParam, BoolRefParam, FloatParam, FloatPtrParam, FloatRefParam, DoubleParam, DoublePtrParam, DoubleRefParam, PyObjectParam]"

definition simple_retval_classes :: "retval_class list" where
  "simple_retval_classes = [BoolReturn, FloatReturn, DoubleReturn, PyObjectReturnValue, VoidReturn]"

end
