(* ===== verification/Handlers.thy ===== *)
theory Handlers
  imports Int_Types String_Types Simple_Types "HOL-Library.Word"
begin

text \<open>
  The built-in type handlers together: the contract of a parameter class and of a return value
  class, and the proof that every class of \<open>inttype.py\<close>, \<open>stringtype.py\<close>, \<open>booltype.py\<close>,
  \<open>floattype.py\<close>, \<open>doubletype.py\<close>, \<open>pyobjecttype.py\<close> and \<open>voidtype.py\<close> meets it.
\<close>

definition builtin_param_classes :: "param_class list" where
  "builtin_param_classes = int_param_classes @ string_param_classes @ simple_param_classes"

definition builtin_retval_classes :: "retval_class list" where
  "builtin_retval_classes = int_retval_classes @ string_retval_classes @ simple_retval_classes"

section \<open>Every method keeps the code balanced and the formats matched\<close>

lemma unit_arity_cases:
  "c \<in> set unit_letters \<Longrightarrow> unit_arity [c] = Some 1"
  "unit_arity ''s#'' = Some 2" "unit_arity ''et'' = Some 2" "unit_arity ''O!'' = Some 2" "unit_arity [] = Some 0"
  by (auto simp: unit_arity_def two_arg_units_def)

lemma keeps_parse_letter: "c \<in> set unit_letters \<Longrightarrow> keeps wrapper_grows (w_parse_add [c] [v] n pre opt)"
  by (rule keeps_parse_add) (simp add: unit_arity_cases)

lemma keeps_build_letter: "c \<in> set unit_letters \<Longrightarrow> keeps wrapper_grows (w_build_add [c] [v] pre)"
  by (rule keeps_build_add) (simp add: unit_arity_cases)

lemma keeps_build_choice:
  "c \<in> set unit_letters \<Longrightarrow> d \<in> set unit_letters \<Longrightarrow> keeps wrapper_grows (w_build_add (if b then [c] else [d]) [v] pre)"
  by (simp add: keeps_build_letter)

lemma keeps_parse_two:
  "keeps wrapper_grows (w_parse_add ''s#'' [u, v] n pre opt)"
  "keeps wrapper_grows (w_parse_add ''et'' [u, v] n pre opt)"
  "keeps wrapper_grows (w_parse_add ''O!'' [u, v] n pre opt)"
  "keeps wrapper_grows (w_parse_add [] [] n pre opt)"
  by (rule keeps_parse_add, simp add: unit_arity_cases)+

lemma keeps_build_two: "keeps wrapper_grows (w_build_add ''s#'' [u, v] pre)"
  by (rule keeps_build_add) (simp add: unit_arity_cases)

lemmas handler_grows =
  grows.keeps_rules grows_prims keeps_assert_kind(1)
  keeps_parse_letter keeps_build_letter keeps_build_choice keeps_parse_two keeps_build_two

lemmas handler_named = named_intros keeps_assert_kind(2)

lemmas handler_counts = adds_rules adds_prims adds_assert_kind

lemmas builtin_params =
  builtin_param_classes_def int_param_classes_def string_param_classes_def simple_param_classes_def
  append.simps list.set insert_iff empty_iff

lemmas builtin_retvals =
  builtin_retval_classes_def int_retval_classes_def string_retval_classes_def simple_retval_classes_def
  append.simps list.set insert_iff empty_iff

lemmas method_simps = class_defs param_class.simps retval_class.simps method_defs seqs.simps

text \<open>Parameters, from Python to C.\<close>

lemma forward_grows:
  "pc \<in> set builtin_param_classes \<Longrightarrow> keeps wrapper_grows (pc_convert_python_to_c pc p)"
  unfolding builtin_params
  by (elim disjE; simp only: method_simps; (intro handler_grows; simp add: unit_letters_def)?)

lemma forward_named:
  "pc \<in> set builtin_param_classes \<Longrightarrow> keeps appends_named (pc_convert_python_to_c pc p)"
  unfolding builtin_params
  by (elim disjE; simp only: method_simps; (intro handler_named)?)

lemma forward_calls:
  "pc \<in> set builtin_param_classes \<Longrightarrow> adds n_calls 1 (pc_convert_python_to_c pc p)"
  unfolding builtin_params
  by (elim disjE; simp only: method_simps; (rule adds_eq, (rule handler_counts)+, simp split: option.splits)?)

lemma in_only: "direction \<in> set [DIRECTION_IN] \<Longrightarrow>
    has_direction direction DIRECTION_IN \<and> \<not> has_direction direction DIRECTION_OUT"
  by (simp add: has_direction_def DIRECTION_IN_def DIRECTION_OUT_def)

lemma forward_parses:
  "pc \<in> set builtin_param_classes \<Longrightarrow> p_direction p \<in> set (pc_directions pc) \<Longrightarrow>
     adds n_parses (if dir_in p then 1 else 0) (pc_convert_python_to_c pc p)"
  unfolding builtin_params
  by (elim disjE; simp only: method_simps; (drule in_only)?;
      (rule adds_eq, (rule handler_counts)+, simp split: option.splits)?)

lemma forward_builds:
  "pc \<in> set builtin_param_classes \<Longrightarrow> p_direction p \<in> set (pc_directions pc) \<Longrightarrow>
     adds n_builds (if dir_out p then 1 else 0) (pc_convert_python_to_c pc p)"
  unfolding builtin_params
  by (elim disjE; simp only: method_simps; (drule in_only)?;
      (rule adds_eq, (rule handler_counts)+, simp split: option.splits)?)

text \<open>Parameters, from C to Python.\<close>

lemma reverse_grows:
  "pc \<in> set builtin_param_classes \<Longrightarrow> keeps wrapper_grows (pc_convert_c_to_python pc p)"
  unfolding builtin_params
  by (elim disjE; simp only: method_simps; (intro handler_grows; simp add: unit_letters_def)?)

lemma reverse_builds:
  "pc \<in> set builtin_param_classes \<Longrightarrow> p_direction p \<in> set (pc_directions pc) \<Longrightarrow>
     adds n_builds (if dir_in p then 1 else 0) (pc_convert_c_to_python pc p)"
  unfolding builtin_params
  by (elim disjE; simp only: method_simps; (drule in_only)?;
      (rule adds_eq, (rule handler_counts)+, simp split: option.splits)?)

lemma reverse_parses:
  "pc \<in> set builtin_param_classes \<Longrightarrow> p_direction p \<in> set (pc_directions pc) \<Longrightarrow>
     adds n_parses (if dir_out p then 1 else 0) (pc_convert_c_to_python pc p)"
  unfolding builtin_params
  by (elim disjE; simp only: method_simps; (drule in_only)?;
      (rule adds_eq, (rule handler_counts)+, simp split: option.splits)?)

text \<open>Return values.\<close>

lemma retval_grows:
  "rc \<in> set builtin_retval_classes \<Longrightarrow> keeps wrapper_grows (rvc_convert_python_to_c rc r)"
  "rc \<in> set builtin_retval_classes \<Longrightarrow> keeps wrapper_grows (rvc_convert_c_to_python rc r)"
  unfolding builtin_retvals
  by (elim disjE; simp only: method_simps; (intro handler_grows; simp add: unit_letters_def)?)+

lemma retval_parses:
  "rc \<in> set builtin_retval_classes \<Longrightarrow> adds n_parses 1 (rvc_convert_python_to_c rc r)"
  unfolding builtin_retvals
  by (elim disjE; simp only: method_simps; (rule adds_eq, (rule handler_counts)+, simp)?)

lemma retval_builds:
  "rc \<in> set builtin_retval_classes \<Longrightarrow>
     adds n_builds (if rvc_ctypes rc = [''void''] then 0 else 1) (rvc_convert_c_to_python rc r)"
  unfolding builtin_retvals
  by (elim disjE; simp only: method_simps; (rule adds_eq, (rule handler_counts)+, simp)?)

section \<open>Converting a built-in parameter succeeds\<close>












section \<open>Handler objects\<close>

text \<open>An instance of a class, as the wrappers see it: method calls dispatch on the class.\<close>

definition param_object :: "param_class \<Rightarrow> param \<Rightarrow> param_obj" where
  "param_object pc p = \<lparr>po_ctype = (case th_ctype p of None \<Rightarrow> ''None'' | Some c \<Rightarrow> c), po_name = p_name p,
     po_convert_python_to_c = pc_convert_python_to_c pc p,
     po_convert_c_to_python = pc_convert_c_to_python pc p\<rparr>"

definition retval_object :: "retval_class \<Rightarrow> retval \<Rightarrow> ret_obj" where
  "retval_object rc r = \<lparr>ro_ctype = (case th_ctype r of None \<Rightarrow> ''None'' | Some c \<Rightarrow> c),
     ro_ctype_no_const = (case ctype_no_const r of Inl _ \<Rightarrow> [] | Inr c \<Rightarrow> c),
     ro_requires_assignment_constructor = False, ro_get_c_error_return = Inr (rvc_get_c_error_return rc),
     ro_convert_python_to_c = rvc_convert_python_to_c rc r,
     ro_convert_c_to_python = rvc_convert_c_to_python rc r\<rparr>"

text \<open>An instance that the constructor can have made: its direction is one that the class supports.\<close>

definition builtin_param :: "param_class \<times> param \<Rightarrow> bool" where
  "builtin_param cp \<longleftrightarrow> fst cp \<in> set builtin_param_classes \<and> p_direction (snd cp) \<in> set (pc_directions (fst cp))"

abbreviation objects :: "(param_class \<times> param) list \<Rightarrow> param_obj list" where
  "objects cps \<equiv> map (\<lambda>(pc, p). param_object pc p) cps"

lemma builtin_forward_ok: "builtin_param cp \<Longrightarrow> forward_param_ok (case cp of (pc, p) \<Rightarrow> param_object pc p)"
  by (cases cp) (simp add: builtin_param_def forward_param_ok_def param_object_def forward_grows forward_named
      forward_calls del: One_nat_def)

lemma builtin_objects_ok: "list_all builtin_param cps \<Longrightarrow> list_all forward_param_ok (objects cps)"
  by (induction cps) (simp_all add: builtin_forward_ok)

lemma convert_parameter_counts:
  assumes "builtin_param (pc, p)"
  shows "adds n_parses (if dir_in p then 1 else 0) (convert_parameter (param_object pc p))"
    "adds n_builds (if dir_out p then 1 else 0) (convert_parameter (param_object pc p))"
proof -
  from assms have b: "pc \<in> set builtin_param_classes" "p_direction p \<in> set (pc_directions pc)"
    by (simp_all add: builtin_param_def)
  have "po_convert_python_to_c (param_object pc p) = pc_convert_python_to_c pc p" by (simp add: param_object_def)
  then show "adds n_parses (if dir_in p then 1 else 0) (convert_parameter (param_object pc p))"
    "adds n_builds (if dir_out p then 1 else 0) (convert_parameter (param_object pc p))"
    unfolding convert_parameter_def
    by (simp_all only: adds_reraise [OF forward_parses [OF b]] adds_reraise [OF forward_builds [OF b]])
qed

lemma sum_list_if_count: "sum_list (map (\<lambda>x. if P x then 1 else 0) xs) = length (filter P xs)"
  by (induction xs) simp_all

lemma convert_parameters_counts:
  assumes "list_all builtin_param cps"
  shows "adds n_parses (length (filter (\<lambda>(pc, p). dir_in p) cps)) (for_each convert_parameter (objects cps))"
    "adds n_builds (length (filter (\<lambda>(pc, p). dir_out p) cps)) (for_each convert_parameter (objects cps))"
proof -
  have "for_each convert_parameter (objects cps) = for_each (\<lambda>cp. convert_parameter (param_object (fst cp) (snd cp))) cps"
    by (induction cps) auto
  moreover have ok: "builtin_param (fst cp, snd cp)" if "cp \<in> set cps" for cp
    using assms that by (simp add: list_all_iff)
  have "adds n_parses (sum_list (map (\<lambda>cp. if dir_in (snd cp) then 1 else 0) cps))
      (for_each (\<lambda>cp. convert_parameter (param_object (fst cp) (snd cp))) cps)"
    "adds n_builds (sum_list (map (\<lambda>cp. if dir_out (snd cp) then 1 else 0) cps))
      (for_each (\<lambda>cp. convert_parameter (param_object (fst cp) (snd cp))) cps)"
    by (rule adds_for_each, rule convert_parameter_counts [OF ok], assumption)+
  ultimately show "adds n_parses (length (filter (\<lambda>(pc, p). dir_in p) cps)) (for_each convert_parameter (objects cps))"
    "adds n_builds (length (filter (\<lambda>(pc, p). dir_out p) cps)) (for_each convert_parameter (objects cps))"
    by (simp_all only: sum_list_if_count case_prod_unfold)
qed

section \<open>Properties\<close>

text \<open>
  C1. Whatever built-in parameters a wrapper has, in whatever directions they support, converting
  them all (when it succeeds) leaves a consistent wrapper: the C call gets exactly one argument per
  parameter; one Python argument is parsed per input parameter and one value is returned per output
  parameter; every keyword is known; and the PyArg_ParseTuple and Py_BuildValue calls pass exactly
  the C arguments that their format strings ask for.
\<close>

theorem builtin_arguments_consistent:
  assumes "list_all builtin_param cps" and "ForwardWrapperBase_init fc = Inr w0"
    and "for_each convert_parameter (objects cps) w0 = (Inr (), w)"
  shows "length (w_call_params w) = length cps \<and>
    length (w_parse_params w) = length (filter (\<lambda>(pc, p). dir_in p) cps) \<and>
    length (w_build_params w) = length (filter (\<lambda>(pc, p). dir_out p) cps) \<and>
    pt_get_keywords (w_parse_params w) =
      Inr (if w_parse_params w = [] then None else Some (map (the \<circ> pi_name) (w_parse_params w))) \<and>
    (\<forall>template args. pt_get_parameters (w_parse_params w) = Inr (template # args) \<longrightarrow>
      (\<exists>fmt. template = dq @ fmt @ dq \<and> fmt_arity fmt = Some (length args))) \<and>
    (\<exists>fmt args. bv_get_parameters False (w_build_params w) = (dq @ fmt @ dq) # args \<and>
      fmt_arity fmt = Some (length args))"
proof -
  obtain sc where w0: "w0 = (empty_wrapper Forward (fc_parse_error_return fc) (fc_error_return fc))\<lparr>w_declarations := sc\<rparr>"
    using fresh_wrapper [OF assms(2)] by blast
  have e: "w_call_params w0 = []" "w_parse_params w0 = []" "w_build_params w0 = []"
    by (simp_all add: w0 empty_wrapper_def)
  note ok = builtin_objects_ok [OF assms(1)]
  have g: "wrapper_grows w0 w" and n: "appends_named w0 w" and c: "n_calls w = length cps"
    using keepsD [OF convert_parameters_ok(1) [OF ok] assms(3)] keepsD [OF convert_parameters_ok(2) [OF ok] assms(3)]
      addsD [OF convert_parameters_ok(3) [OF ok] assms(3)] e by simp_all
  have p: "n_parses w = length (filter (\<lambda>(pc, p). dir_in p) cps)"
    "n_builds w = length (filter (\<lambda>(pc, p). dir_out p) cps)"
    using addsD [OF convert_parameters_counts(1) [OF assms(1)] assms(3)]
      addsD [OF convert_parameters_counts(2) [OF assms(1)] assms(3)] e by simp_all
  have pk: "list_all parse_item_ok (w_parse_params w)" and bk: "list_all build_item_ok (w_build_params w)"
    using g e by (simp_all add: wrapper_grows_def)
  have nm: "list_all (\<lambda>it. pi_name it \<noteq> None) (w_parse_params w)" using n e by (simp add: appends_named_def)
  have k: "pt_get_keywords (w_parse_params w) =
      Inr (if w_parse_params w = [] then None else Some (map (the \<circ> pi_name) (w_parse_params w)))"
    using nm by (rule all_named_keywords)
  show ?thesis
    using c p k parse_format_matches [OF pk] build_format_matches [OF bk] by blast
qed


subsection \<open>A sample parameter list\<close>

definition sample_param :: "string \<Rightarrow> type_traits \<Rightarrow> int \<Rightarrow> param" where
  "sample_param name traits direction =
     \<lparr>th_ctype = Some (ctype_str (tt_ctype traits)), th_untransformed_ctype = Some (ctype_str (tt_ctype traits)),
      th_type_traits = Some traits, th_transformation = None, p_name = name, p_direction = direction,
      p_value = name, p_default_value = PyNone, p_transfer_ownership = PyBool False, p_array_length = None\<rparr>"

definition sample_params :: "(param_class \<times> param) list" where
  "sample_params = [(IntParam, sample_param ''x'' (plain_traits ''int'') 1),
     (DoubleRefParam, sample_param ''y'' (plain_traits ''double'') 2)]"

lemma sample_params_builtin: "list_all builtin_param sample_params"
proof -
  have "IntParam \<in> set builtin_param_classes" "DoubleRefParam \<in> set builtin_param_classes"
    by (simp_all add: builtin_param_classes_def int_param_classes_def simple_param_classes_def)
  then show ?thesis
    by (simp add: sample_params_def builtin_param_def sample_param_def IntParam_def DoubleRefParam_def
        DIRECTION_IN_def DIRECTION_OUT_def)
qed

lemma sample_run:
  "case ForwardWrapperBase_init sample_class of Inl e \<Rightarrow> False
   | Inr w \<Rightarrow> (case for_each convert_parameter (objects sample_params) w of
       (r, w') \<Rightarrow> r = Inr () \<and> w_call_params w' = [''x'', ''y'']
         \<and> pt_get_parameters (w_parse_params w') = Inr [dq @ ''i'' @ dq, ''&x''])"
  by code_simp

theorem builtin_arguments_consistent_witness:
  "\<exists>w0 w. ForwardWrapperBase_init sample_class = Inr w0 \<and>
     for_each convert_parameter (objects sample_params) w0 = (Inr (), w) \<and>
     length (w_call_params w) = 2 \<and> length (w_parse_params w) = 1 \<and> length (w_build_params w) = 1"
proof -
  obtain w0 where w0: "ForwardWrapperBase_init sample_class = Inr w0"
    using sample_run by (auto split: sum.splits)
  then obtain w where w: "for_each convert_parameter (objects sample_params) w0 = (Inr (), w)"
    using sample_run by (auto split: prod.splits)
  from builtin_arguments_consistent [OF sample_params_builtin w0 w]
  have "length (w_call_params w) = 2 \<and> length (w_parse_params w) = 1 \<and> length (w_build_params w) = 1"
    by (simp add: sample_params_def sample_param_def)
  with w0 w show ?thesis by blast
qed


subsection \<open>Range checks of the narrow integer types\<close>

lemma literals:
  "c_literal ''0xffff'' = 65535" "c_literal ''0x7fff'' = 32767" "c_literal ''0xff'' = 255" "c_literal ''0x7f'' = 127"
  "c_literal ''32767'' = 32767" "c_literal ''-32768'' = -32768" "c_literal ''128'' = 128" "c_literal ''-127'' = -127"
  by (simp_all add: c_literal_def startswith_def hex_digit_def isdigit_char_def digit_chars_def lower_char_def)

lemma narrow_ranges:
  "sint (word_of_int v :: 16 word) = v \<longleftrightarrow> - 32768 \<le> v \<and> v \<le> 32767" "sint (word_of_int v :: 8 word) = v \<longleftrightarrow> - 128 \<le> v \<and> v \<le> 127"
  "uint (word_of_int v :: 16 word) = v \<longleftrightarrow> 0 \<le> v \<and> v \<le> 65535" "uint (word_of_int v :: 8 word) = v \<longleftrightarrow> 0 \<le> v \<and> v \<le> 255"
  by (auto simp: sint_sbintrunc' signed_take_bit_int_eq_self_iff uint_word_of_int_eq take_bit_int_eq_self_iff)

lemma narrow_checks:
  "check_holds UInt16Param_check v \<longleftrightarrow> 65535 < v" "check_holds UInt16Return_check v \<longleftrightarrow> 65535 < v"
  "check_holds UInt8Param_check v \<longleftrightarrow> 255 < v" "check_holds UInt8Return_check v \<longleftrightarrow> 255 < v"
  "check_holds Int16Param_check v \<longleftrightarrow> 32767 < v" "check_holds Int8Param_check v \<longleftrightarrow> 127 < v"
  "check_holds Int8Return_check v \<longleftrightarrow> 128 < v \<or> v < - 127"
  by (simp_all add: check_holds_def UInt16Param_check_def UInt8Param_check_def UInt16Return_check_def
      UInt8Return_check_def Int16Param_check_def Int8Param_check_def Int8Return_check_def literals)

text \<open>
  C34. The check generated for a returned 16-bit integer is exact: a value of C type int passes it
  if and only if storing it in an int16_t keeps its value.
\<close>

theorem int16_return_check_exact:
  "\<not> check_holds Int16Return_check v \<longleftrightarrow> sint (word_of_int v :: 16 word) = v"
proof -
  have "sint (word_of_int v :: 16 word) = v \<longleftrightarrow> - (2 ^ 15) \<le> v \<and> v < 2 ^ 15"
    by (simp add: sint_sbintrunc' signed_take_bit_int_eq_self_iff)
  then show ?thesis by (auto simp: check_holds_def Int16Return_check_def literals)
qed

text \<open>
  C35. Which values of C type int pass the other checks of narrow types.  The checks of unsigned types and of the 8- and
  16-bit parameters let pass exactly the values that the conversion to the C type keeps, and besides all
  values below the range of the type, which the conversion changes; the check of a returned int8_t lets pass
  exactly those values except -128, and besides 128, which the conversion changes.
\<close>

theorem narrow_checks_inexact:
  "(\<not> check_holds UInt16Param_check v \<longleftrightarrow> uint (word_of_int v :: 16 word) = v \<or> v < 0) \<and>
   (\<not> check_holds UInt16Return_check v \<longleftrightarrow> uint (word_of_int v :: 16 word) = v \<or> v < 0) \<and>
   (\<not> check_holds UInt8Param_check v \<longleftrightarrow> uint (word_of_int v :: 8 word) = v \<or> v < 0) \<and>
   (\<not> check_holds UInt8Return_check v \<longleftrightarrow> uint (word_of_int v :: 8 word) = v \<or> v < 0) \<and>
   (\<not> check_holds Int16Param_check v \<longleftrightarrow> sint (word_of_int v :: 16 word) = v \<or> v < - (2 ^ 15)) \<and>
   (\<not> check_holds Int8Param_check v \<longleftrightarrow> sint (word_of_int v :: 8 word) = v \<or> v < - (2 ^ 7)) \<and>
   (\<not> check_holds Int8Return_check v \<longleftrightarrow> sint (word_of_int v :: 8 word) = v \<and> v \<noteq> - (2 ^ 7) \<or> v = 2 ^ 7)"
  unfolding narrow_ranges narrow_checks by auto

end
