(* ===== verification/Cpp_Laws.thy ===== *)
theory Cpp_Laws
  imports Cpp_Handlers Handlers
begin

text \<open>
  The handlers of C++ classes meet the contract of the wrappers.  Most of what they write is plain
  code: it adds no argument to any of the three argument lists.
\<close>

section \<open>Plain code\<close>

definition plain_code :: "(wrapper, 'a) py \<Rightarrow> bool" where
  "plain_code m \<longleftrightarrow> keeps wrapper_grows m \<and> keeps appends_named m \<and>
     adds n_calls 0 m \<and> adds n_parses 0 m \<and> adds n_builds 0 m"

lemma plainD:
  assumes "plain_code m"
  shows "keeps wrapper_grows m" "keeps appends_named m" "adds n_calls 0 m" "adds n_parses 0 m" "adds n_builds 0 m"
  using assms by (simp_all add: plain_code_def)

lemma plain_prims:
  "plain_code (ret a)" "plain_code (raise_py e)" "plain_code (lift_res r)" "plain_code (assert_py c)"
  "plain_code (w_declare ctype name init array)" "plain_code (w_write b code)" "plain_code (w_error_check b expr failure)"
  "plain_code (w_set_py_name num name)" "plain_code (w_add_cleanup b code)" "plain_code (assert_kind k)"
  by (simp_all only: plain_code_def grows.keeps_rules grows_prims named_intros adds_rules adds_prims
      keeps_assert_kind adds_assert_kind simp_thms)

lemma plain_gets: "plain_code (gets f)"
  by (auto simp: plain_code_def adds_def intro: grows.keeps_gets named.keeps_gets)

lemma plain_bnd: "plain_code m \<Longrightarrow> (\<And>a. plain_code (f a)) \<Longrightarrow> plain_code (bnd m f)"
  unfolding plain_code_def
  by (intro conjI; (intro grows.keeps_bnd named.keeps_bnd)?; (rule adds_eq, rule adds_bnd)?) auto

lemma plain_seqs: "list_all plain_code ms \<Longrightarrow> plain_code (seqs ms)"
  by (induction ms) (simp_all add: plain_prims plain_bnd del: ret_run)

lemma plain_for_each: "(\<And>x. x \<in> set xs \<Longrightarrow> plain_code (f x)) \<Longrightarrow> plain_code (for_each f xs)"
  by (induction xs) (simp_all add: plain_prims plain_bnd del: ret_run)

lemma plain_when: "(c \<Longrightarrow> plain_code m) \<Longrightarrow> plain_code (when_py c m)"
  by (cases c) (simp_all add: plain_prims del: ret_run)

lemma plain_if: "(c \<Longrightarrow> plain_code m) \<Longrightarrow> (\<not> c \<Longrightarrow> plain_code n) \<Longrightarrow> plain_code (if c then m else n)"
  by simp

lemma plain_option: "plain_code m \<Longrightarrow> (\<And>a. plain_code (f a)) \<Longrightarrow> plain_code (case x of None \<Rightarrow> m | Some a \<Rightarrow> f a)"
  by (cases x) simp_all

lemma plain_prod: "(\<And>a b. plain_code (f a b)) \<Longrightarrow> plain_code (case x of (a, b) \<Rightarrow> f a b)"
  by (cases x) simp

lemma plain_indented: "plain_code m \<Longrightarrow> plain_code (indented b m)"
  by (simp add: plain_code_def keeps_indented named_indented calls.adds_indented parses.adds_indented builds.adds_indented)

lemma plain_reraise: "plain_code m \<Longrightarrow> plain_code (try_except m (\<lambda>e. raise_py (g e)))"
  by (auto simp: plain_code_def keeps_def adds_def try_except_def split: prod.splits sum.splits)

lemma plain_error_return: "plain_code (on_block b write_error_return)"
  unfolding plain_code_def
  by (intro conjI named_block calls.adds_block parses.adds_block builds.adds_block keepsI)
     (erule on_block_Inr, auto intro!: wrapper_grows_block simp: block_grows_def writes_lines)

lemmas plain_rules = plain_prims plain_gets plain_bnd plain_seqs plain_for_each plain_when plain_if plain_option plain_prod
  plain_indented plain_reraise plain_error_return

section \<open>What the handlers rely on in a class\<close>

text \<open>
  The creation functions and the transformations may be code of the user; they write plain code.
\<close>

definition class_info_ok :: "class_info \<Rightarrow> bool" where
  "class_info_ok ci \<longleftrightarrow>
     (\<forall>b lvalue params name. plain_code (ci_creation_function ci b lvalue params name)) \<and>
     (case ci_post_creation_function ci of None \<Rightarrow> True
      | Some f \<Rightarrow> \<forall>b lvalue params name. plain_code (f b lvalue params name))"

lemma default_creation_plain: "plain_code (default_instance_creation_function c b lvalue params name)"
  unfolding default_instance_creation_function_def
  by (simp add: plain_rules del: ret_run assert_py_simps)

lemma plain_registry:
  "plain_code (write_register_new_wrapper reg b w obj)" "plain_code (write_unregister_wrapper reg b w obj)"
  by (cases reg; simp add: plain_rules del: ret_run)+

lemma plain_policy: "plain_code (policy_action ci (\<lambda>p. write_incref p b obj))" "plain_code (policy_action ci (\<lambda>p. write_decref p b obj))"
  unfolding policy_action_def
  by (intro plain_option plain_prims; (rename_tac p, case_tac p; simp add: plain_prims))+

lemma plain_create:
  assumes "class_info_ok ci"
  shows "plain_code (write_create_instance ci b lvalue params)"
    "plain_code (write_post_instance_creation_code ci b lvalue params)"
proof -
  have "plain_code (ci_creation_function ci b lvalue params name)" for name using assms by (simp add: class_info_ok_def)
  then show "plain_code (write_create_instance ci b lvalue params)"
    unfolding write_create_instance_def by (intro plain_rules)
  show "plain_code (write_post_instance_creation_code ci b lvalue params)"
    using assms unfolding write_post_instance_creation_code_def class_info_ok_def
    by (cases "ci_post_creation_function ci") (auto intro!: plain_rules simp del: ret_run)
qed

lemma iterator_declared:
  "\<exists>w' v. w_declare ''std::map<void*, PyObject*>::const_iterator'' ''wrapper_lookup_iter'' PyNone None w = (Inr v, w')"
  by (simp add: w_declare_def on_scope_def declare_variable_def join_ctype_and_name_def add_initializer_def)

lemma lookup_supported:
  "write_lookup_wrapper (StdMapWrapperRegistry base) b ty w obj s = (Inl e, s') \<Longrightarrow> e \<noteq> NotSupportedError msg"
  using iterator_declared [of s]
  by (auto simp: w_write_def on_block_def bnd_def split: prod.splits sum.splits if_splits)

lemma try_else_bnd:
  assumes "\<And>s e s' msg. m s = (Inl e, s') \<Longrightarrow> e \<noteq> NotSupportedError msg"
  shows "try_else m h k = bnd m (\<lambda>_. k)"
proof
  fix s
  obtain r s' where r: "m s = (r, s')" by force
  then show "try_else m h k s = bnd m (\<lambda>_. k) s"
    using assms [of s] by (cases r) (auto simp: try_else_def split: py_error.splits)
qed

lemma plain_lookup_or_create:
  assumes "plain_code create" "plain_code closing"
  shows "plain_code (write_lookup_or_create ci b py_name value_ptr open_if create closing)"
proof (cases "ci_wrapper_registry ci")
  case (NullWrapperRegistry base)
  then have "write_lookup_or_create ci b py_name value_ptr open_if create closing =
      seqs [create, write_register_new_wrapper (ci_wrapper_registry ci) b py_name (py_name @ ''->obj'')]"
    by (simp add: write_lookup_or_create_def try_else_def Let_def fun_eq_iff)
  with assms show ?thesis by (simp add: plain_rules plain_registry del: ret_run)
next
  case (StdMapWrapperRegistry base)
  have "plain_code (write_lookup_wrapper (StdMapWrapperRegistry base) b (ci_pystruct ci) py_name value_ptr)"
    by (simp add: plain_rules del: ret_run)
  moreover have "try_else (write_lookup_wrapper (StdMapWrapperRegistry base) b ty w obj) h k =
      bnd (write_lookup_wrapper (StdMapWrapperRegistry base) b ty w obj) (\<lambda>_. k)" for ty w obj h k
    by (rule try_else_bnd) (erule lookup_supported)
  ultimately show ?thesis using assms
    unfolding write_lookup_or_create_def Let_def StdMapWrapperRegistry
    by (simp add: plain_rules plain_registry del: ret_run write_lookup_wrapper.simps write_register_new_wrapper.simps)
qed

lemma plain_pieces:
  "plain_code (write_new_pyobject ci b py_name ty)" "plain_code (write_clear_inst_dict ci b py_name)"
  "plain_code (write_flags_none b py_name)" "plain_code (write_assign_obj b py_name c cast v)"
  "plain_code (declare_py_name num ctype name init)" "plain_code (w_cleanup b code)"
  "plain_code (narrowed_wrapper_type ci b owned v)" "plain_code (declare_ret_py_name r)"
  "plain_code (write_new_object ci b py_name)"
  unfolding write_new_pyobject_def write_clear_inst_dict_def write_flags_none_def write_assign_obj_def declare_py_name_def
    w_cleanup_def narrowed_wrapper_type_def declare_ret_py_name_def write_new_object_def
  by (simp_all add: plain_rules del: ret_run)

lemma plain_copies:
  assumes "class_info_ok ci"
  shows "plain_code (write_create_new_wrapper ci b py_name v ptr c owns existing)"
    "plain_code (write_copy_instance ci b py_name v)"
    "plain_code copy \<Longrightarrow> plain_code (write_drop_temporary ci py_name brace copy)"
  using plain_create [OF assms]
  unfolding write_create_new_wrapper_def write_copy_instance_def write_drop_temporary_def
  by (auto intro!: plain_rules plain_pieces plain_policy plain_registry simp del: ret_run)

lemma plain_shared_return:
  assumes "class_info_ok ci"
  shows "plain_code (common_shared_object_return value py_name ci b c owns existing ptr)"
  using plain_copies(1) [OF assms]
  unfolding common_shared_object_return_def Let_def
  by (auto intro!: plain_rules plain_lookup_or_create plain_policy simp del: ret_run)

section \<open>Code that adds arguments\<close>

definition arg_code :: "nat \<Rightarrow> nat \<Rightarrow> nat \<Rightarrow> (wrapper, 'a) py \<Rightarrow> bool" where
  "arg_code c p b m \<longleftrightarrow> keeps wrapper_grows m \<and> keeps appends_named m \<and>
     adds n_calls c m \<and> adds n_parses p m \<and> adds n_builds b m"

lemma plain_arg: "plain_code m \<Longrightarrow> arg_code 0 0 0 m"
  by (simp add: plain_code_def arg_code_def)

lemma arg_bnd:
  "arg_code c p b m \<Longrightarrow> (\<And>a. arg_code c' p' b' (f a)) \<Longrightarrow> arg_code (c + c') (p + p') (b + b') (bnd m f)"
  by (auto simp: arg_code_def intro: grows.keeps_bnd named.keeps_bnd adds_bnd)

lemma arg_if:
  "arg_code c p b m \<Longrightarrow> arg_code c' p' b' n \<Longrightarrow>
   arg_code (if x then c else c') (if x then p else p') (if x then b else b') (if x then m else n)"
  by simp

lemma arg_prod: "(\<And>x y. arg_code c p b (f x y)) \<Longrightarrow> arg_code c p b (case v of (x, y) \<Rightarrow> f x y)"
  by (cases v) simp

lemma arg_option:
  "arg_code c p b m \<Longrightarrow> (\<And>a. arg_code c' p' b' (f a)) \<Longrightarrow>
   arg_code (if x = None then c else c') (if x = None then p else p') (if x = None then b else b')
     (case x of None \<Rightarrow> m | Some a \<Rightarrow> f a)"
  by (cases x) simp_all

lemma arg_seqs: "arg_code 0 0 0 (seqs [])" "arg_code c p b (bnd m (\<lambda>_. seqs ms)) \<Longrightarrow> arg_code c p b (seqs (m # ms))"
  by (simp_all add: plain_arg plain_prims del: ret_run)

lemma arg_prims:
  "arg_code 1 0 0 (w_call_append e)"
  "unit_arity t = Some (length vs) \<Longrightarrow> arg_code 0 1 0 (parse_arg t vs name optional)"
  "unit_arity t = Some (length vs) \<Longrightarrow> arg_code 0 0 1 (w_build_add t vs pre)"
  unfolding arg_code_def
  by (auto intro!: grows_intros named_intros adds_prims simp del: One_nat_def)

lemma arg_eq: "arg_code c p b m \<Longrightarrow> c = c' \<Longrightarrow> p = p' \<Longrightarrow> b = b' \<Longrightarrow> arg_code c' p' b' m"
  by simp

lemmas arg_rules = arg_prims plain_pieces [THEN plain_arg] plain_prims [THEN plain_arg] plain_gets [THEN plain_arg]
  arg_bnd arg_if arg_prod arg_option arg_seqs

lemma unit_arities: "unit_arity ''O'' = Some 1" "unit_arity ''O!'' = Some 2" "unit_arity ''N'' = Some 1"
  by code_simp+

section \<open>The arguments of class parameters\<close>

lemma call_with_self_args: "arg_code 1 0 0 (call_with_self p)"
  unfolding call_with_self_def by (rule arg_eq, (rule arg_rules)+) simp_all

lemma implicit_conversion_args: "arg_code 1 0 0 (write_implicit_conversions ci py_name tmp)"
proof -
  have tests: "plain_code (for_each (\<lambda>(_, pystruct, pytypestruct). w_write Before_Call (g pystruct pytypestruct)) xs)" for g xs
    by (intro plain_rules)
  have failure: "plain_code (indented Before_Call (seqs [w_write Before_Call m, on_block Before_Call write_error_return]))" for m
    by (simp add: plain_rules del: ret_run)
  show ?thesis
    unfolding write_implicit_conversions_def
    by (rule arg_eq, (rule tests [THEN plain_arg] failure [THEN plain_arg] arg_rules)+) simp_all
qed

lemma parse_instance_args: "arg_code 0 1 0 (parse_instance p py_name optional)"
  unfolding parse_instance_def by (rule arg_prims) (simp add: unit_arities)

lemmas class_arg_rules = call_with_self_args implicit_conversion_args parse_instance_args arg_rules

text \<open>Whether the value of a parameter comes from the parsed arguments.\<close>

definition parsed :: "cls_param \<Rightarrow> bool" where
  "parsed p \<longleftrightarrow> \<not> cp_take_value_from_python_self p"

lemma class_value_args:
  "arg_code 1 (if parsed p then 1 else 0) 0 (CppClassParameter_convert_python_to_c p)"
  unfolding CppClassParameter_convert_python_to_c_def Let_def parsed_def
  by (rule arg_eq, (rule class_arg_rules | simp add: unit_arities; fail)+)

lemma ref_in_args: "arg_code 1 (if parsed p then 1 else 0) 0 (ref_direction_in p)"
proof -
  have "arg_code 0 0 0 (if x then ret False else lift_res r)" for x and r :: "bool res"
    by (rule arg_eq, (rule arg_rules)+) simp_all
  note decide = arg_bnd [OF this]
  show ?thesis
    unfolding ref_direction_in_def Let_def parsed_def
    by (rule arg_eq, rule arg_if, rule class_arg_rules, rule decide [where c' = 1 and p' = 1 and b' = 0],
        rule arg_eq, (rule class_arg_rules | simp add: unit_arities; fail)+)
qed

lemma class_ref_args:
  assumes "class_info_ok (cp_class p)" "p_direction (cp_param p) \<in> {DIRECTION_IN, DIRECTION_OUT, DIRECTION_INOUT}"
  shows "arg_code 1 (if p_direction (cp_param p) = DIRECTION_IN then (if parsed p then 1 else 0)
      else if p_direction (cp_param p) = DIRECTION_OUT then 0 else 1)
    (if p_direction (cp_param p) = DIRECTION_OUT then 1 else 0) (CppClassRefParameter_convert_python_to_c p)"
proof -
  note copy = plain_copies(2) [OF assms(1), THEN plain_arg]
  have "arg_code 1 0 1 (ref_direction_out p)"
    unfolding ref_direction_out_def Let_def
    by (rule arg_eq, (rule class_arg_rules copy | simp add: unit_arities; fail)+)
  moreover have "arg_code 1 1 0 (ref_direction_inout p)"
    unfolding ref_direction_inout_def Let_def
    by (rule arg_eq, (rule class_arg_rules copy | simp add: unit_arities; fail)+)
  moreover have "arg_code c p b (bnd (assert_kind Forward) (\<lambda>_. m))" if "arg_code c p b m"
    for c p b and m :: "(wrapper, unit) py"
    using arg_bnd [OF plain_prims(10) [THEN plain_arg], of c p b "\<lambda>_. m"] that by simp
  ultimately show ?thesis
    using assms(2) ref_in_args [of p]
    by (auto simp: CppClassRefParameter_convert_python_to_c_def DIRECTION_IN_def DIRECTION_OUT_def DIRECTION_INOUT_def)
qed

lemma class_ptr_args:
  assumes "class_info_ok (cp_class p)" "\<And>b v. plain_code (cp_transform p b v)"
  shows "arg_code 1 (if parsed p then 1 else 0) 0 (CppClassPtrParameter_convert_python_to_c p)"
proof -
  have "plain_code (write_transfer_ownership p py_name)" for py_name
    unfolding write_transfer_ownership_def Let_def
    by (simp add: plain_rules plain_registry plain_policy del: ret_run)
  note transfer = this [THEN plain_arg] assms(2) [THEN plain_arg]
  have "arg_code 0 1 0 (ptr_parse p)"
    unfolding ptr_parse_def Let_def
    by (rule arg_eq, (rule class_arg_rules | simp add: unit_arities; fail)+)
  with transfer show ?thesis
    unfolding CppClassPtrParameter_convert_python_to_c_def parsed_def
    by - (rule arg_eq, (assumption | rule class_arg_rules transfer)+, simp_all)
qed

text \<open>
  A pointer parameter of a virtual method that Python implements, in a direction other than in: the
  Python argument is built twice, once with the wrapper and once more at the end.
\<close>

lemma ptr_reverse_builds_twice:
  assumes "class_info_ok (cp_class p)" "\<And>b v. plain_code (cp_untransform p b v)"
    "ci_helper_class (cp_class p) = None" "ci_wrapper_registry (cp_class p) = NullWrapperRegistry base"
    "\<not> cp_transfer_ownership p" "\<not> refcounting (cp_class p)" "p_direction (cp_param p) \<noteq> DIRECTION_IN"
  shows "arg_code 0 0 2 (CppClassPtrParameter_convert_c_to_python p)"
proof -
  note create = plain_create [OF assms(1)]
  have drop: "plain_code (write_drop_temporary ci py_name ''else {'' (seqs [write_create_instance (cp_class p) After_Call obj v,
      write_post_instance_creation_code (cp_class p) After_Call obj v]))" for ci py_name obj v
    unfolding write_drop_temporary_def using create by (simp add: plain_rules del: ret_run)
  have "write_lookup_or_create (cp_class p) b py_name v open_if m closing =
      seqs [m, write_register_new_wrapper (ci_wrapper_registry (cp_class p)) b py_name (py_name @ ''->obj'')]"
    for b py_name v open_if m closing
    using assms(4) by (simp add: write_lookup_or_create_def try_else_def Let_def fun_eq_iff)
  note pieces = this assms(3,5-7) if_False if_True Let_def option.case not_False_eq_True
  show ?thesis
    by (simp only: CppClassPtrParameter_convert_c_to_python_def ptr_create_new_wrapper_def pieces)
       (rule arg_eq, (rule arg_rules drop [THEN plain_arg] plain_registry [THEN plain_arg] assms(2) [THEN plain_arg]
        | simp add: unit_arities; fail)+)
qed

section \<open>Parameter lists with classes\<close>

datatype class_kind = Class_Value | Class_Ref | Class_Ptr

datatype any_param = Builtin param_class param | Of_Class class_kind cls_param

fun class_python_to_c :: "class_kind \<Rightarrow> cls_param \<Rightarrow> (wrapper, unit) py" where
  "class_python_to_c Class_Value = CppClassParameter_convert_python_to_c"
| "class_python_to_c Class_Ref = CppClassRefParameter_convert_python_to_c"
| "class_python_to_c Class_Ptr = CppClassPtrParameter_convert_python_to_c"

fun class_c_to_python :: "class_kind \<Rightarrow> cls_param \<Rightarrow> (wrapper, unit) py" where
  "class_c_to_python Class_Value = CppClassParameter_convert_c_to_python"
| "class_c_to_python Class_Ref = CppClassRefParameter_convert_c_to_python"
| "class_c_to_python Class_Ptr = CppClassPtrParameter_convert_c_to_python"

fun any_object :: "any_param \<Rightarrow> param_obj" where
  "any_object (Builtin pc p) = param_object pc p"
| "any_object (Of_Class k p) = \<lparr>po_ctype = opt_str (th_ctype (cp_param p)), po_name = p_name (cp_param p),
     po_convert_python_to_c = class_python_to_c k p, po_convert_c_to_python = class_c_to_python k p\<rparr>"

text \<open>Instances that the constructors can have made, of classes whose creation functions write plain code.\<close>

fun any_ok :: "any_param \<Rightarrow> bool" where
  "any_ok (Builtin pc p) = builtin_param (pc, p)"
| "any_ok (Of_Class k p) \<longleftrightarrow> class_info_ok (cp_class p) \<and> (\<forall>b v. plain_code (cp_transform p b v)) \<and>
     p_direction (cp_param p) \<in> (if k = Class_Value then {DIRECTION_IN} else {DIRECTION_IN, DIRECTION_OUT, DIRECTION_INOUT})"

text \<open>
  How many Python arguments a parameter is parsed from and how many values it returns.  A pointer
  handler parses its parameter whatever the direction.
\<close>

fun any_parses :: "any_param \<Rightarrow> nat" where
  "any_parses (Builtin pc p) = (if dir_in p then 1 else 0)"
| "any_parses (Of_Class Class_Ref p) =
     (if p_direction (cp_param p) = DIRECTION_IN then (if parsed p then 1 else 0)
      else if p_direction (cp_param p) = DIRECTION_OUT then 0 else 1)"
| "any_parses (Of_Class _ p) = (if parsed p then 1 else 0)"

fun any_builds :: "any_param \<Rightarrow> nat" where
  "any_builds (Builtin pc p) = (if dir_out p then 1 else 0)"
| "any_builds (Of_Class Class_Ref p) = (if p_direction (cp_param p) = DIRECTION_OUT then 1 else 0)"
| "any_builds (Of_Class _ p) = 0"

lemma arg_reraise:
  "arg_code c p b m \<Longrightarrow> arg_code c p b (try_except m (\<lambda>e. if P e then raise_py (g e) else raise_py e))"
  by (auto simp: arg_code_def intro: grows.keeps_reraise named.keeps_reraise adds_reraise)

lemma any_args:
  assumes "any_ok a"
  shows "arg_code 1 (any_parses a) (any_builds a) (convert_parameter (any_object a))"
proof (cases a)
  case (Builtin pc p)
  with assms builtin_forward_ok [of "(pc, p)"] convert_parameter_counts [of pc p] show ?thesis
    by (auto simp: arg_code_def convert_parameter_ok simp del: One_nat_def)
next
  case (Of_Class k p)
  with assms have "arg_code 1 (any_parses a) (any_builds a) (class_python_to_c k p)"
    by (cases k) (simp_all add: class_value_args class_ptr_args class_ref_args del: One_nat_def)
  with Of_Class show ?thesis by (simp add: convert_parameter_def arg_reraise del: One_nat_def)
qed

lemma arg_for_each:
  "(\<And>x. x \<in> set xs \<Longrightarrow> arg_code 1 (p x) (b x) (f x)) \<Longrightarrow>
   arg_code (length xs) (sum_list (map p xs)) (sum_list (map b xs)) (for_each f xs)"
proof (induction xs)
  case (Cons x xs)
  then have "arg_code (1 + length xs) (p x + sum_list (map p xs)) (b x + sum_list (map b xs)) (for_each f (x # xs))"
    unfolding for_each.simps by (intro arg_bnd) simp_all
  then show ?case by simp
qed (simp add: plain_arg plain_prims del: ret_run)

text \<open>What the counts of arguments mean for the generated calls of a fresh wrapper.\<close>

lemma arg_code_consistent:
  assumes "arg_code c p b m" and "ForwardWrapperBase_init fc = Inr w0" and "m w0 = (Inr (), w)"
  shows "length (w_call_params w) = c \<and> length (w_parse_params w) = p \<and> length (w_build_params w) = b \<and>
    pt_get_keywords (w_parse_params w) =
      Inr (if w_parse_params w = [] then None else Some (map (the \<circ> pi_name) (w_parse_params w))) \<and>
    (\<forall>template args. pt_get_parameters (w_parse_params w) = Inr (template # args) \<longrightarrow>
      (\<exists>fmt. template = dq @ fmt @ dq \<and> fmt_arity fmt = Some (length args))) \<and>
    (\<exists>fmt args. bv_get_parameters False (w_build_params w) = (dq @ fmt @ dq) # args \<and>
      fmt_arity fmt = Some (length args))"
proof -
  have e: "w_call_params w0 = []" "w_parse_params w0 = []" "w_build_params w0 = []"
    using fresh_wrapper [OF assms(2)] by (auto simp: empty_wrapper_def)
  from assms(1) e have "list_all parse_item_ok (w_parse_params w)" "list_all build_item_ok (w_build_params w)"
    "list_all (\<lambda>it. pi_name it \<noteq> None) (w_parse_params w)"
    and "n_calls w = c" "n_parses w = p" "n_builds w = b"
    using assms(3) by (auto simp: arg_code_def wrapper_grows_def appends_named_def dest!: keepsD addsD)
  then show ?thesis
    using all_named_keywords parse_format_matches build_format_matches by blast
qed

text \<open>
  The same holds when parameters of C++ classes (by value, by reference and by pointer) are mixed
  with the built-in ones: the C call gets exactly one argument per parameter, every parsed Python
  argument has its keyword, and the PyArg_ParseTuple and Py_BuildValue calls pass exactly the C
  arguments that their format strings ask for.
\<close>

theorem class_arguments_consistent:
  assumes "list_all any_ok ps" and "ForwardWrapperBase_init fc = Inr w0"
    and "for_each convert_parameter (map any_object ps) w0 = (Inr (), w)"
  shows "length (w_call_params w) = length ps \<and>
    length (w_parse_params w) = sum_list (map any_parses ps) \<and>
    length (w_build_params w) = sum_list (map any_builds ps) \<and>
    pt_get_keywords (w_parse_params w) =
      Inr (if w_parse_params w = [] then None else Some (map (the \<circ> pi_name) (w_parse_params w))) \<and>
    (\<forall>template args. pt_get_parameters (w_parse_params w) = Inr (template # args) \<longrightarrow>
      (\<exists>fmt. template = dq @ fmt @ dq \<and> fmt_arity fmt = Some (length args))) \<and>
    (\<exists>fmt args. bv_get_parameters False (w_build_params w) = (dq @ fmt @ dq) # args \<and>
      fmt_arity fmt = Some (length args))"
proof -
  have "for_each convert_parameter (map any_object ps) = for_each (\<lambda>a. convert_parameter (any_object a)) ps"
    by (induction ps) simp_all
  then have ac: "arg_code (length ps) (sum_list (map any_parses ps)) (sum_list (map any_builds ps))
      (for_each convert_parameter (map any_object ps))"
    using assms(1) by (simp add: arg_for_each any_args list_all_iff del: One_nat_def)
  show ?thesis by (rule arg_code_consistent [OF ac assms(2,3)])
qed

definition sample_class_info :: class_info where
  "sample_class_info = \<lparr>ci_name = ''Foo'', ci_full_name = ''Foo'', ci_pystruct = ''PyFoo'', ci_pytypestruct = ''PyFoo_Type'',
     ci_allow_subclassing = False, ci_automatic_type_narrowing = False, ci_memory_policy = None, ci_has_copy_constructor = True,
     ci_helper_class = None, ci_wrapper_registry = NullWrapperRegistry ''PyFoo'', ci_typeid_map_name = [],
     ci_construct_name = Inr ''Foo'', ci_creation_function = (\<lambda>b lvalue params name. w_write b (lvalue @ '' = new '' @ name @ ''('' @ params @ '');'')),
     ci_post_creation_function = None, ci_implicit_conversions = []\<rparr>"

definition sample_class_param :: "string \<Rightarrow> int \<Rightarrow> cls_param" where
  "sample_class_param name direction = \<lparr>cp_class = sample_class_info, cp_num = 1,
     cp_param = sample_param name (plain_traits ''Foo'') direction, cp_take_value_from_python_self = False,
     cp_transfer_ownership = False, cp_custodian = None, cp_null_ok = False, cp_default_value_type = None,
     cp_transform = null_transform, cp_untransform = null_transform\<rparr>"

definition sample_any_params :: "any_param list" where
  "sample_any_params = [Of_Class Class_Value (sample_class_param ''b'' 1),
     Builtin IntParam (sample_param ''x'' (plain_traits ''int'') 1)]"

lemma sample_any_ok: "list_all any_ok sample_any_params"
proof -
  have "class_info_ok sample_class_info"
    by (simp add: class_info_ok_def sample_class_info_def plain_prims)
  moreover have "builtin_param (IntParam, sample_param ''x'' (plain_traits ''int'') 1)"
    using sample_params_builtin by (simp add: sample_params_def)
  ultimately show ?thesis
    by (simp add: sample_any_params_def sample_class_param_def sample_param_def null_transform_def plain_prims
        DIRECTION_IN_def DIRECTION_OUT_def DIRECTION_INOUT_def del: ret_run)
qed

lemma sample_any_run:
  "case ForwardWrapperBase_init (sample_class :: forward_class) of Inl e \<Rightarrow> False
   | Inr w \<Rightarrow> (case for_each convert_parameter (map any_object sample_any_params) w of
       (r, w') \<Rightarrow> r = Inr () \<and> w_call_params w' = [''*((PyFoo *) b)->obj'', ''x''])"
  by code_simp

theorem class_arguments_consistent_witness:
  "\<exists>w0 w. ForwardWrapperBase_init sample_class = Inr w0 \<and>
     for_each convert_parameter (map any_object sample_any_params) w0 = (Inr (), w) \<and>
     length (w_call_params w) = 2 \<and> length (w_parse_params w) = 2 \<and> length (w_build_params w) = 0"
proof -
  obtain w0 where w0: "ForwardWrapperBase_init sample_class = Inr w0"
    using sample_any_run by (auto split: sum.splits)
  then obtain w where w: "for_each convert_parameter (map any_object sample_any_params) w0 = (Inr (), w)"
    using sample_any_run by (auto split: prod.splits)
  from class_arguments_consistent [OF sample_any_ok w0 w]
  have "length (w_call_params w) = 2 \<and> length (w_parse_params w) = 2 \<and> length (w_build_params w) = 0"
    by (simp add: sample_any_params_def sample_class_param_def sample_param_def parsed_def
        has_direction_def DIRECTION_IN_def DIRECTION_OUT_def)
  with w0 w show ?thesis by blast
qed

end
