(* ===== verification/Template.thy ===== *)
theory Template
  imports Py_String
begin

text \<open>
  Python's \<open>text % dict\<close> as the generator uses it: \<open>%(key)s\<close> is replaced by the value of the key and
  \<open>%%\<close> by a percent sign.  Every other use of a percent sign raises an error here; Python's other
  conversions (width, precision, \<open>r\<close>, \<open>d\<close>) do not occur in the templates.
\<close>

section \<open>Formatting\<close>

function percent_format :: "(string \<rightharpoonup> string) \<Rightarrow> string \<Rightarrow> string res" where
  "percent_format env [] = Inr []"
| "percent_format env (c # cs) =
     (if c \<noteq> CHR ''%'' then bind_res (percent_format env cs) (\<lambda>r. Inr (c # r))
      else if take 1 cs = ''%'' then bind_res (percent_format env (drop 1 cs)) (\<lambda>r. Inr (CHR ''%'' # r))
      else if take 1 cs = ''('' then
        let key = takeWhile (\<lambda>c. c \<noteq> CHR '')'') (drop 1 cs); rest = dropWhile (\<lambda>c. c \<noteq> CHR '')'') (drop 1 cs)
        in if rest = [] then Inl (ValueError ''incomplete format key'')
           else case env key of
             None \<Rightarrow> Inl (KeyError key)
           | Some v \<Rightarrow>
               if take 2 rest = '')s'' then bind_res (percent_format env (drop 2 rest)) (\<lambda>r. Inr (v @ r))
               else Inl (ValueError ''unsupported format character'')
      else Inl (TypeError ''not enough arguments for format string''))"
  by pat_completeness auto

termination percent_format
proof (relation "measure (length \<circ> snd)")
  fix env :: "string \<rightharpoonup> string" and c cs key rest v
  assume "rest = dropWhile (\<lambda>c. c \<noteq> CHR '')'') (drop 1 cs)"
  then have "length rest \<le> length cs" using length_dropWhile_le [of "\<lambda>c. c \<noteq> CHR '')''" "drop 1 cs"] by simp
  then show "((env, drop 2 rest), env, c # cs) \<in> measure (length \<circ> snd)" by simp
qed simp_all

section \<open>Templates\<close>

text \<open>A template in parts: literal text and slots.\<close>

datatype piece = Lit string | Slot string

fun piece_text :: "piece \<Rightarrow> string" where
  "piece_text (Lit s) = s"
| "piece_text (Slot k) = ''%('' @ k @ '')s''"

definition template :: "piece list \<Rightarrow> string" where
  "template ps = concat (map piece_text ps)"

fun piece_ok :: "piece \<Rightarrow> bool" where
  "piece_ok (Lit s) = (CHR ''%'' \<notin> set s)"
| "piece_ok (Slot k) = (CHR '')'' \<notin> set k)"

primrec fill :: "(string \<rightharpoonup> string) \<Rightarrow> piece list \<Rightarrow> string res" where
  "fill env [] = Inr []"
| "fill env (p # ps) = (case p of
     Lit s \<Rightarrow> bind_res (fill env ps) (\<lambda>r. Inr (s @ r))
   | Slot k \<Rightarrow> (case env k of None \<Rightarrow> Inl (KeyError k) | Some v \<Rightarrow> bind_res (fill env ps) (\<lambda>r. Inr (v @ r))))"

primrec slots_of :: "piece list \<Rightarrow> string list" where
  "slots_of [] = []"
| "slots_of (p # ps) = (case p of Lit _ \<Rightarrow> [] | Slot k \<Rightarrow> [k]) @ slots_of ps"

lemma percent_format_lit:
  "CHR ''%'' \<notin> set s \<Longrightarrow> percent_format env (s @ r) = bind_res (percent_format env r) (\<lambda>x. Inr (s @ x))"
proof (induction s)
  case Nil
  then show ?case by (cases "percent_format env r") simp_all
next
  case (Cons c s)
  then show ?case by (cases "percent_format env r") auto
qed

lemma percent_format_plain: "CHR ''%'' \<notin> set s \<Longrightarrow> percent_format env s = Inr s"
  using percent_format_lit [of s env "[]"] by simp

lemma percent_format_slot:
  assumes "CHR '')'' \<notin> set k"
  shows "percent_format env (''%('' @ k @ '')s'' @ r) =
    (case env k of None \<Rightarrow> Inl (KeyError k) | Some v \<Rightarrow> bind_res (percent_format env r) (\<lambda>x. Inr (v @ x)))"
proof -
  have "takeWhile (\<lambda>c. c \<noteq> CHR '')'') (k @ '')s'' @ r) = k" "dropWhile (\<lambda>c. c \<noteq> CHR '')'') (k @ '')s'' @ r) = '')s'' @ r"
    using assms by (auto simp: takeWhile_append dropWhile_append)
  then show ?thesis by (simp add: Let_def split: option.split)
qed

text \<open>Formatting a template fills its slots; the first slot without a value is the error.\<close>

theorem percent_format_template:
  "list_all piece_ok ps \<Longrightarrow> percent_format env (template ps) = fill env ps"
proof (induction ps)
  case (Cons p ps)
  then show ?case
    using percent_format_lit [of _ env "template ps"] percent_format_slot [of _ env "template ps"]
    by (cases p) (auto simp: template_def split: option.splits simp del: percent_format.simps)
qed (simp add: template_def)

lemma fill_Inr: "(\<exists>text. fill env ps = Inr text) \<longleftrightarrow> set (slots_of ps) \<subseteq> dom env"
  by (induction ps) (auto simp: bind_res_Inr split: piece.splits option.splits)

lemma fill_KeyError: "fill env ps = Inl e \<longleftrightarrow> (\<exists>k. find (\<lambda>k. k \<notin> dom env) (slots_of ps) = Some k \<and> e = KeyError k)"
proof (induction ps)
  case (Cons p ps)
  then show ?case
    by (cases p; cases "fill env ps") (auto split: option.splits)
qed simp

end
