(* ===== verification/Cpp_Exception.thy ===== *)
theory Cpp_Exception
  imports Cpp_Class Template
begin

text \<open>
  C++ exceptions that wrapped functions may throw (\<open>src/pybindgen/cppexception.py\<close>): their names, the
  code that turns a caught exception into a Python one, and the code that registers the Python class.
\<close>

record cpp_exception =
  ce_name :: string
  ce_full_name :: "string option"
  ce_parent_pytypestruct :: "string option option"
  ce_outer_class :: "cpp_class option"
  ce_custom_name :: "string option"
  ce_mangled_name :: "string option"
  ce_mangled_full_name :: "string option"
  ce_pytypestruct :: "string option"
  ce_foreign_cpp_namespace :: string
  ce_message_rvalue :: "string option"

text \<open>\<open>parent\<close> is given by its type struct: \<open>Some None\<close> is a parent that has no names yet.\<close>

definition CppException_init ::
  "string \<Rightarrow> string option option \<Rightarrow> cpp_class option \<Rightarrow> string option \<Rightarrow> string \<Rightarrow> string option \<Rightarrow> cpp_exception" where
  "CppException_init name parent outer_class custom_name foreign_cpp_namespace message_rvalue =
     \<lparr>ce_name = name, ce_full_name = None, ce_parent_pytypestruct = parent, ce_outer_class = outer_class,
      ce_custom_name = custom_name, ce_mangled_name = None, ce_mangled_full_name = None, ce_pytypestruct = None,
      ce_foreign_cpp_namespace = foreign_cpp_namespace, ce_message_rvalue = message_rvalue\<rparr>"

text \<open>The text of the statement; the message is formatted with \<open>dict(EXC=variable_name)\<close>.\<close>

definition convert_to_python_text :: "cpp_exception \<Rightarrow> string \<Rightarrow> string res" where
  "convert_to_python_text e variable_name =
     (case ce_message_rvalue e of
        None \<Rightarrow> Inr (''PyErr_SetNone((PyObject *) '' @ opt_str (ce_pytypestruct e) @ '');'')
      | Some rvalue \<Rightarrow> bind_res (percent_format [''EXC'' \<mapsto> variable_name] rvalue) (\<lambda>message.
          Inr (''PyErr_SetString((PyObject *) '' @ opt_str (ce_pytypestruct e) @ '', '' @ message @ '');'')))"

definition write_convert_to_python :: "cpp_exception \<Rightarrow> block_id \<Rightarrow> string \<Rightarrow> (wrapper, unit) py" where
  "write_convert_to_python e code_block variable_name =
     bnd (lift_res (convert_to_python_text e variable_name)) (\<lambda>text. w_write code_block text)"

text \<open>\<open>set_module\<close> and \<open>_update_names\<close>, for the namespace prefix of the module.\<close>

definition exc_update_names :: "settings \<Rightarrow> string \<Rightarrow> (cpp_exception, unit) py" where
  "exc_update_names st cpp_namespace_prefix = (\<lambda>e.
     case qualified_name cpp_namespace_prefix (map_option cc_full_name (ce_outer_class e)) (ce_foreign_cpp_namespace e) (ce_name e) of
       Inl err \<Rightarrow> (Inl err, e)
     | Inr full_name \<Rightarrow> (Inr (), e\<lparr>ce_full_name := Some full_name, ce_mangled_name := Some (flatten (ce_name e)),
         ce_mangled_full_name := Some (mangle_name full_name),
         ce_pytypestruct := Some (''Py'' @ capitalize (st_name_prefix st) @ mangle_name full_name @ ''_Type'')\<rparr>))"

definition exc_python_name :: "cpp_exception \<Rightarrow> string" where
  "exc_python_name e = (case ce_custom_name e of None \<Rightarrow> ce_name e | Some n \<Rightarrow> n)"

text \<open>\<open>outer_tp_name\<close> is the \<open>tp_name\<close> slot of the outer class.\<close>

definition exc_python_full_name :: "string list \<Rightarrow> string \<Rightarrow> cpp_exception \<Rightarrow> string" where
  "exc_python_full_name module_path outer_tp_name e =
     (case ce_outer_class e of
        None \<Rightarrow> join ''.'' (module_path @ [exc_python_name e])
      | Some _ \<Rightarrow> outer_tp_name @ ''.'' @ exc_python_name e)"

definition exc_generate_forward_declarations :: "cpp_exception \<Rightarrow> sink_cmd list" where
  "exc_generate_forward_declarations e =
     [Writeln [], Writeln (''extern PyTypeObject *'' @ opt_str (ce_pytypestruct e) @ '';''), Writeln []]"

text \<open>\<open>generate\<close>: the first component goes to the code sink, the second to the module's \<open>after_init\<close> block.\<close>

definition exc_generate ::
  "code_block list \<Rightarrow> string list \<Rightarrow> string \<Rightarrow> string option \<Rightarrow> cpp_exception \<Rightarrow> sink_cmd list \<times> (code_block, unit) py" where
  "exc_generate preds module_path outer_tp_name docstring e =
     (let pytypestruct = opt_str (ce_pytypestruct e);
          parent = (case ce_parent_pytypestruct e of None \<Rightarrow> ''NULL'' | Some p \<Rightarrow> ''(PyObject*) '' @ opt_str p)
      in ([Writeln (''PyTypeObject *'' @ pytypestruct @ '';'')],
        if (case ce_parent_pytypestruct e of Some None \<Rightarrow> True | _ \<Rightarrow> False)
        then seqs [cb_write_code (''/* Register the '' @ sq @ opt_str (ce_full_name e) @ sq @ '' exception */''),
                   raise_py (TypeError ''cannot concatenate str and NoneType objects'')]
        else seqs [
          cb_write_code (''/* Register the '' @ sq @ opt_str (ce_full_name e) @ sq @ '' exception */''),
          write_error_check preds (''('' @ pytypestruct @ '' = (PyTypeObject*) PyErr_NewException((char*)'' @ dq @
            exc_python_full_name module_path outer_tp_name e @ dq @ '', '' @ parent @ '', NULL)) == NULL'') None,
          (case docstring of
             None \<Rightarrow> ret ()
           | Some d \<Rightarrow> when_py (d \<noteq> []) (cb_write_code (pytypestruct @ ''->tp_doc = (char*)'' @ dq @ d @ dq @ '';''))),
          (case ce_outer_class e of
             None \<Rightarrow> cb_write_code (''Py_INCREF((PyObject *) '' @ pytypestruct @ '');'' @ nl @
               ''PyModule_AddObject(m, (char *) '' @ dq @ exc_python_name e @ dq @ '', (PyObject *) '' @ pytypestruct @ '');'')
           | Some outer \<Rightarrow> cb_write_code (''Py_INCREF((PyObject *) '' @ pytypestruct @ '');'' @ nl @
               ''PyDict_SetItemString((PyObject*) '' @ cc_pytypestruct outer @ ''.tp_dict, (char *) '' @ dq @ exc_python_name e @
               dq @ '', (PyObject *) '' @ pytypestruct @ '');''))]))"

text \<open>The placeholder in a message is replaced by the variable; the rest of the message is passed on as it is.\<close>

lemma message_placeholder:
  assumes "CHR ''%'' \<notin> set s" "CHR ''%'' \<notin> set t" "ce_message_rvalue e = Some (s @ ''%(EXC)s'' @ t)"
  shows "convert_to_python_text e v = Inr (''PyErr_SetString((PyObject *) '' @ opt_str (ce_pytypestruct e) @ '', '' @ s @ v @ t @ '');'')"
  using assms percent_format_template [of "[Lit s, Slot ''EXC'', Lit t]" "[''EXC'' \<mapsto> v]"]
  by (simp add: convert_to_python_text_def template_def del: percent_format.simps)

end
