(* ===== verification/Overloading.thy ===== *)
theory Overloading
  imports Utils
begin

text \<open>
  \<open>pybindgen/overloading.py\<close>: the object that aggregates the wrappers of one Python name.  The
  wrappers are shared objects: they live in a store and are named by their position in it, so that
  a change made through \<open>all_wrappers\<close> is seen through \<open>wrappers\<close>.  Their methods are the record
  \<open>wrapper_ops\<close>.  The C function that tries the wrappers one after the other is treated as a program:
  \<open>aggregator_cmds\<close> are the lines that the code writes, \<open>aggregator_program\<close> the statements they
  spell, and \<open>exec_stmts\<close> what these statements do.
\<close>

section \<open>Cartesian products by counting\<close>

text \<open>
  \<open>vector_counter\<close>: an iterator is the list of the elements it has still to give.  \<open>advance\<close> is the
  inner loop, from the last position to the first; on the reversed lists it is structural.
\<close>

fun advance :: "'a list list \<Rightarrow> 'a list list \<Rightarrow> 'a list \<Rightarrow> ('a list list \<times> 'a list) option" where
  "advance (v # vs) ((x # it) # its) (_ # xs) = Some (it # its, x # xs)"
| "advance (v # vs) ([] # its) (_ # xs) =
     (case v of [] \<Rightarrow> None
      | y # ys \<Rightarrow> map_option (\<lambda>(its', xs'). (ys # its', y # xs')) (advance vs its xs))"
| "advance _ _ _ = None"

partial_function (option) count_loop ::
  "'a list list \<Rightarrow> 'a list list \<Rightarrow> 'a list \<Rightarrow> 'a list list option" where
  "count_loop vec its vals =
     (case advance vec its vals of
        None \<Rightarrow> Some []
      | Some (its', vals') \<Rightarrow>
          Option.bind (count_loop vec its' vals') (\<lambda>rest. Some (rev vals' # rest)))"

text \<open>
  The generator as a whole: the list of what it yields.  \<open>StopIteration\<close> from the first
  \<open>next()\<close> calls ends it at once; \<open>vec[-1][0]\<close> raises IndexError.  The outer \<open>None\<close>: it never ends.
\<close>

definition vector_counter :: "'a list list \<Rightarrow> 'a list list res option" where
  "vector_counter vec =
     (if vec = [] then Some (Inl IndexError)
      else if [] \<in> set (butlast vec) then Some (Inr [])
      else if last vec = [] then Some (Inl IndexError)
      else map_option Inr
        (count_loop (rev vec) (last vec # map tl (rev (butlast vec))) (hd (last vec) # map hd (rev (butlast vec)))))"

section \<open>State and the methods of the wrappers\<close>

record 'w overload =
  ov_objs :: "nat \<Rightarrow> 'w"
  ov_wrappers :: "nat list"
  ov_all_wrappers :: "nat list option"
  ov_wrapper_name :: string
  ov_wrapper_actual_name :: "string option"
  ov_wrapper_return :: "string option"
  ov_wrapper_args :: "string list option"
  ov_pystruct :: string

record ('w, 't) wrapper_ops =
  wo_get_flags :: "('w, string list) py"
  wo_generate :: "string option \<Rightarrow> string list \<Rightarrow> ('w \<times> 't, string option) py"
  wo_set_force_parse :: "'w \<Rightarrow> 'w"
  wo_set_parse_error_return :: "string \<Rightarrow> ('w, unit) py"
  wo_reset_code_generation_state :: "('w, unit) py"
  wo_get_py_method_def :: "string \<Rightarrow> ('w, string) py"
  wo_wrapper_base_name :: "'w \<Rightarrow> string option"
  wo_wrapper_actual_name :: "'w \<Rightarrow> string option"
  wo_wrapper_return :: "'w \<Rightarrow> string option"
  wo_wrapper_args :: "'w \<Rightarrow> string list option"
  wo_needs_overloading_interface :: "'w \<Rightarrow> bool"
  wo_section :: "'w \<Rightarrow> string option"

text \<open>The class attributes \<open>RETURN_TYPE\<close> and \<open>ERROR_RETURN\<close> of a subclass.\<close>

record ov_class =
  RETURN_TYPE :: string
  ERROR_RETURN :: string

definition OverloadedWrapper_init :: "(nat \<Rightarrow> 'w) \<Rightarrow> string \<Rightarrow> 'w overload" where
  "OverloadedWrapper_init objs wrapper_name =
     \<lparr>ov_objs = objs, ov_wrappers = [], ov_all_wrappers = None, ov_wrapper_name = wrapper_name,
      ov_wrapper_actual_name = None, ov_wrapper_return = None, ov_wrapper_args = None, ov_pystruct = ''PyObject''\<rparr>"

definition ov_add :: "nat \<Rightarrow> ('w overload, nat) py" where
  "ov_add i = bnd (upd (\<lambda>s. s\<lparr>ov_wrappers := ov_wrappers s @ [i]\<rparr>)) (\<lambda>_. ret i)"

definition on_obj :: "nat \<Rightarrow> ('w, 'a) py \<Rightarrow> ('w overload, 'a) py" where
  "on_obj i m = (\<lambda>s. case m (ov_objs s i) of (r, w) \<Rightarrow> (r, s\<lparr>ov_objs := (ov_objs s)(i := w)\<rparr>))"

definition on_obj_sink :: "nat \<Rightarrow> ('w \<times> 't, 'a) py \<Rightarrow> ('w overload \<times> 't, 'a) py" where
  "on_obj_sink i m = (\<lambda>(s, t). case m (ov_objs s i, t) of (r, (w, t')) \<Rightarrow> (r, (s\<lparr>ov_objs := (ov_objs s)(i := w)\<rparr>, t')))"

definition on_overload :: "('w overload, 'a) py \<Rightarrow> ('w overload \<times> 't, 'a) py" where
  "on_overload m = (\<lambda>(s, t). case m s of (r, s') \<Rightarrow> (r, (s', t)))"

section \<open>Uniform method flags\<close>

text \<open>
  \<open>settings.error_handler.handle_error(wrapper, ex, tb)\<close> outside of the error handling: the answer is
  dropped.  \<open>ex\<close> is \<open>None\<close> while the local variable is unbound; the attribute is looked up first.
\<close>

definition notify_handler :: "'w error_handler option \<Rightarrow> nat \<Rightarrow> py_error option \<Rightarrow> ('w overload, unit) py" where
  "notify_handler h i ex = (\<lambda>s.
     case h of
       None \<Rightarrow> (Inl (AttributeError ''handle_error''), s)
     | Some handle_error \<Rightarrow>
         (case ex of
            None \<Rightarrow> (Inl (NameError ''ex''), s)
          | Some e \<Rightarrow> (case handle_error (ov_objs s i) e of Inl e' \<Rightarrow> (Inl e', s) | Inr _ \<Rightarrow> (Inr (), s))))"

definition remove_wrapper :: "nat \<Rightarrow> ('w overload, unit) py" where
  "remove_wrapper i = upd (\<lambda>s. s\<lparr>ov_wrappers := remove1 i (ov_wrappers s)\<rparr>)"

text \<open>
  One pass of the loop over the remaining wrappers.  The result says whether a wrapper was removed,
  and the value of \<open>ex\<close>, which outlives the handler that bound it.
\<close>

fun flags_pass ::
  "('w, 't) wrapper_ops \<Rightarrow> 'w error_handler option \<Rightarrow> py_error option \<Rightarrow> string list option \<Rightarrow> nat list \<Rightarrow>
   ('w overload, bool \<times> py_error option) py" where
  "flags_pass ops h ex existing [] = ret (False, ex)"
| "flags_pass ops h ex existing (i # is) = (\<lambda>s.
     case call_with_error_handling h (on_obj i (wo_get_flags ops)) (\<lambda>s. ov_objs s i) generation_error s of
       (Inl e, s') \<Rightarrow>
         if e = SkipWrapper then
           bnd (remove_wrapper i) (\<lambda>_. bnd (notify_handler h i (Some e)) (\<lambda>_. ret (True, Some e))) s'
         else (Inl e, s')
     | (Inr wrapper_flags, s') \<Rightarrow>
         (case existing of
            None \<Rightarrow> flags_pass ops h ex (Some wrapper_flags) is s'
          | Some existing_flags \<Rightarrow>
              if set wrapper_flags \<noteq> set existing_flags then
                bnd (remove_wrapper i) (\<lambda>_. bnd (notify_handler h i ex) (\<lambda>_. ret (True, ex))) s'
              else flags_pass ops h ex existing is s'))"

lemma on_obj_wrappers: "ov_wrappers (snd (on_obj i m s)) = ov_wrappers s"
  by (simp add: on_obj_def split: prod.split)

lemma call_on_obj_wrappers:
  assumes "call_with_error_handling h (on_obj i m) w exs s = (r, s')"
  shows "ov_wrappers s' = ov_wrappers s"
proof -
  have "snd (call_with_error_handling h (on_obj i m) w exs s) = snd (on_obj i m s)"
    by (simp add: call_with_error_handling_def try_except_def bnd_def split: option.splits sum.splits prod.splits)
  then show ?thesis using on_obj_wrappers [of i m s] assms by simp
qed

lemma call_on_obj_others:
  assumes "call_with_error_handling h (on_obj i m) w exs s = (r, s')" "j \<noteq> i"
  shows "ov_objs s' j = ov_objs s j"
proof -
  have "snd (call_with_error_handling h (on_obj i m) w exs s) = snd (on_obj i m s)"
    by (simp add: call_with_error_handling_def try_except_def bnd_def split: option.splits sum.splits prod.splits)
  then show ?thesis using assms by (simp add: on_obj_def split: prod.splits)
qed

lemma flags_pass_removes:
  "flags_pass ops h ex existing is s = (Inr (modified, ex'), s') \<Longrightarrow> set is \<subseteq> set (ov_wrappers s) \<Longrightarrow>
     if modified then \<exists>i \<in> set is. ov_wrappers s' = remove1 i (ov_wrappers s) else ov_wrappers s' = ov_wrappers s"
proof (induction "is" arbitrary: existing s)
  case (Cons i "is")
  obtain r s1 where run: "call_with_error_handling h (on_obj i (wo_get_flags ops)) (\<lambda>s. ov_objs s i) generation_error s = (r, s1)"
    by fastforce
  note eq = call_on_obj_wrappers [OF run]
  show ?case
    using Cons.prems Cons.IH [of _ s1] run eq
    by (auto simp: bnd_def remove_wrapper_def notify_handler_def split: sum.splits option.splits if_splits prod.splits) blast+
qed simp

function normalize_loop ::
  "('w, 't) wrapper_ops \<Rightarrow> 'w error_handler option \<Rightarrow> py_error option \<Rightarrow> 'w overload \<Rightarrow> unit res \<times> 'w overload" where
  "normalize_loop ops h ex s =
     (case flags_pass ops h ex None (ov_wrappers s) s of
        (Inl e, s') \<Rightarrow> (Inl e, s')
      | (Inr (modified, ex'), s') \<Rightarrow> if modified then normalize_loop ops h ex' s' else (Inr (), s'))"
  by pat_completeness auto

termination normalize_loop
proof (relation "measure (\<lambda>(ops, h, ex, s). length (ov_wrappers s))")
  fix ops :: "('w, 't) wrapper_ops" and h ex s r s' res modified ex'
  assume "(r, s') = flags_pass ops h ex None (ov_wrappers s) s" "r = Inr res" "(modified, ex') = res" "modified"
  then obtain i where "i \<in> set (ov_wrappers s)" "ov_wrappers s' = remove1 i (ov_wrappers s)"
    using flags_pass_removes [of ops h ex None "ov_wrappers s" s modified ex' s'] by auto
  then show "((ops, h, ex', s'), ops, h, ex, s) \<in> measure (\<lambda>(ops, h, ex, s). length (ov_wrappers s))"
    using length_pos_if_in_set [of i "ov_wrappers s"] by (simp add: length_remove1)
qed simp

definition normalize_py_method_flags ::
  "('w, 't) wrapper_ops \<Rightarrow> 'w error_handler option \<Rightarrow> ('w overload, unit) py" where
  "normalize_py_method_flags ops h =
     bnd (gets ov_wrappers) (\<lambda>wrappers.
       if length wrappers = 1 then ret ()
       else seqs [
         for_each (\<lambda>i. upd (\<lambda>s. s\<lparr>ov_objs := (ov_objs s)(i := wo_set_force_parse ops (ov_objs s i))\<rparr>)) wrappers,
         normalize_loop ops h None])"

definition compute_all_wrappers :: "('w overload, unit) py" where
  "compute_all_wrappers = upd (\<lambda>s. s\<lparr>ov_all_wrappers := Some (ov_wrappers s)\<rparr>)"

section \<open>The aggregator\<close>

definition aggregator_args :: "string \<Rightarrow> string list \<Rightarrow> string list" where
  "aggregator_args pystruct flags =
     [pystruct @ '' *self''] @ (if ''METH_VARARGS'' \<in> set flags then [''PyObject *args''] else []) @
     (if ''METH_KEYWORDS'' \<in> set flags then [''PyObject *kwargs''] else [])"

definition delegate_call :: "string list \<Rightarrow> nat \<Rightarrow> string option \<Rightarrow> sink_cmd list" where
  "delegate_call flags number delegate_wrapper =
     (let args = [''self''] @ (if ''METH_VARARGS'' \<in> set flags then [''args''] else []) @
                 (if ''METH_KEYWORDS'' \<in> set flags then [''kwargs''] else []) @
                 [''&exceptions['' @ str_of_nat number @ '']'']
      in [Writeln (''retval = '' @ opt_str delegate_wrapper @ ''('' @ join '', '' args @ '');''),
          Writeln (''if (!exceptions['' @ str_of_nat number @ '']) {''), Indent] @
         map (\<lambda>i. Writeln (''Py_DECREF(exceptions['' @ str_of_nat i @ '']);'')) [0..<number] @
         [Writeln ''return retval;'', Unindent, Writeln ''}''])"

definition aggregator_cmds :: "ov_class \<Rightarrow> string \<Rightarrow> string list \<Rightarrow> string option list \<Rightarrow> sink_cmd list" where
  "aggregator_cmds oc prototype_line flags delegate_wrappers =
     [Writeln prototype_line, Writeln ''{'', Indent,
      Writeln (RETURN_TYPE oc @ '' retval;''), Writeln ''PyObject *error_list;'',
      Writeln (''PyObject *exceptions['' @ str_of_nat (length delegate_wrappers) @ ''] = {0,};'')] @
     concat (map (\<lambda>(number, d). delegate_call flags number d) (enumerate 0 delegate_wrappers)) @
     [Writeln (''error_list = PyList_New('' @ str_of_nat (length delegate_wrappers) @ '');'')] @
     concat (map (\<lambda>i. [
       Writeln (''PyList_SET_ITEM(error_list, '' @ str_of_nat i @ '', PyObject_Str(exceptions['' @ str_of_nat i @ '']));''),
       Writeln (''Py_DECREF(exceptions['' @ str_of_nat i @ '']);'')]) [0..<length delegate_wrappers]) @
     [Writeln ''PyErr_SetObject(PyExc_TypeError, error_list);'', Writeln ''Py_DECREF(error_list);'',
      Writeln (ERROR_RETURN oc), Unindent, Writeln ''}'']"

definition parse_error_return_text :: "ov_class \<Rightarrow> string" where
  "parse_error_return_text oc = join nl [
     ''{'',
     ''    PyObject *exc_type, *traceback;'',
     ''    PyErr_Fetch(&exc_type, return_exception, &traceback);'',
     ''    Py_XDECREF(exc_type);'',
     ''    Py_XDECREF(traceback);'',
     ''}'',
     ERROR_RETURN oc]"

text \<open>The body of the loop over the wrappers: generates one delegate; the result is its C name if it was generated.\<close>

definition generate_delegate ::
  "ov_class \<Rightarrow> 'w error_handler option \<Rightarrow> 't sink_class \<Rightarrow> ('w, 't) wrapper_ops \<Rightarrow> nat \<Rightarrow> nat \<Rightarrow>
   ('w overload \<times> 't, string option list) py" where
  "generate_delegate oc h sk ops number i =
     bnd (on_overload (gets ov_wrapper_actual_name)) (\<lambda>actual_name.
     bnd (seqs [
       on_overload (upd (\<lambda>s. s\<lparr>ov_objs := (ov_objs s)(i := wo_set_force_parse ops (ov_objs s i))\<rparr>)),
       on_overload (on_obj i (wo_set_parse_error_return ops (parse_error_return_text oc))),
       on_sink (run_cmd sk (Writeln []))]) (\<lambda>_.
     try_except
       (bnd (call_with_error_handling h
              (on_obj_sink i (wo_generate ops (Some (opt_str actual_name @ ''__'' @ str_of_nat number)) [''PyObject **return_exception'']))
              (\<lambda>(s, t). ov_objs s i) generation_error) (\<lambda>_.
        on_overload (gets (\<lambda>s. [wo_wrapper_actual_name ops (ov_objs s i)]))))
       (\<lambda>e. if e = SkipWrapper then ret [] else raise_py e)))"

primrec generate_delegates ::
  "ov_class \<Rightarrow> 'w error_handler option \<Rightarrow> 't sink_class \<Rightarrow> ('w, 't) wrapper_ops \<Rightarrow> (nat \<times> nat) list \<Rightarrow>
   ('w overload \<times> 't, string option list) py" where
  "generate_delegates oc h sk ops [] = ret []"
| "generate_delegates oc h sk ops (p # ps) =
     bnd (generate_delegate oc h sk ops (fst p) (snd p)) (\<lambda>d.
     bnd (generate_delegates oc h sk ops ps) (\<lambda>ds. ret (d @ ds)))"

definition generate_single ::
  "'w error_handler option \<Rightarrow> ('w, 't) wrapper_ops \<Rightarrow> nat \<Rightarrow> ('w overload \<times> 't, string option) py" where
  "generate_single h ops i =
     bnd (call_with_error_handling h (on_obj_sink i (wo_generate ops None [])) (\<lambda>(s, t). ov_objs s i) generation_error)
       (\<lambda>prototype_line.
     bnd (on_overload (gets (\<lambda>s. ov_objs s i))) (\<lambda>w.
     bnd (seqs [
       on_overload (upd (\<lambda>s. s\<lparr>ov_wrapper_actual_name := wo_wrapper_actual_name ops w\<rparr>)),
       assert_py (wo_wrapper_actual_name ops w \<noteq> None),
       on_overload (upd (\<lambda>s. s\<lparr>ov_wrapper_return := wo_wrapper_return ops w, ov_wrapper_args := wo_wrapper_args ops w\<rparr>))])
       (\<lambda>_. ret prototype_line)))"

definition generate_multiple ::
  "ov_class \<Rightarrow> 'w error_handler option \<Rightarrow> 't sink_class \<Rightarrow> ('w, 't) wrapper_ops \<Rightarrow> nat list \<Rightarrow>
   ('w overload \<times> 't, string option) py" where
  "generate_multiple oc h sk ops all_wrappers =
     bnd (on_overload (on_obj (hd all_wrappers) (wo_get_flags ops))) (\<lambda>flags.
     bnd (on_overload (upd (\<lambda>s. s\<lparr>ov_wrapper_actual_name := wo_wrapper_base_name ops (ov_objs s (hd all_wrappers))\<rparr>))) (\<lambda>_.
     bnd (generate_delegates oc h sk ops (enumerate 0 all_wrappers)) (\<lambda>delegate_wrappers.
       if delegate_wrappers = [] then raise_py SkipWrapper
       else
         bnd (on_sink (run_cmd sk (Writeln []))) (\<lambda>_.
         bnd (on_overload (gets (\<lambda>s. (opt_str (ov_wrapper_actual_name s), aggregator_args (ov_pystruct s) flags)))) (\<lambda>(name, args).
         bnd (on_overload (upd (\<lambda>s. s\<lparr>ov_wrapper_return := Some (RETURN_TYPE oc), ov_wrapper_args := Some args\<rparr>))) (\<lambda>_.
         let prototype_line = RETURN_TYPE oc @ '' '' @ name @ ''('' @ join '', '' args @ '')'' in
         bnd (on_sink (for_each (run_cmd sk) (aggregator_cmds oc prototype_line flags delegate_wrappers))) (\<lambda>_.
         ret (Some prototype_line))))))))"

definition single_wrapper :: "('w, 't) wrapper_ops \<Rightarrow> 'w overload \<Rightarrow> nat list \<Rightarrow> bool" where
  "single_wrapper ops s all_wrappers \<longleftrightarrow>
     length all_wrappers = 1 \<and> \<not> wo_needs_overloading_interface ops (ov_objs s (hd all_wrappers))"

definition ov_generate ::
  "ov_class \<Rightarrow> 'w error_handler option \<Rightarrow> 't sink_class \<Rightarrow> ('w, 't) wrapper_ops \<Rightarrow> ('w overload \<times> 't, string option) py" where
  "ov_generate oc h sk ops =
     bnd (on_overload (seqs [normalize_py_method_flags ops h, compute_all_wrappers])) (\<lambda>_.
     bnd (on_overload (gets (\<lambda>s. s))) (\<lambda>s.
     let all_wrappers = ov_wrappers s in
       if all_wrappers = [] then raise_py SkipWrapper
       else if single_wrapper ops s all_wrappers then generate_single h ops (hd all_wrappers)
       else generate_multiple oc h sk ops all_wrappers))"

section \<open>Tables and declarations\<close>

definition get_all_wrappers :: "('w overload, nat list) py" where
  "get_all_wrappers = bnd (gets ov_all_wrappers) (\<lambda>a. case a of None \<Rightarrow> raise_py (TypeError ''NoneType'') | Some ws \<Rightarrow> ret ws)"

text \<open>The check that all wrappers have the flags of the first one; the three generation errors are ignored.\<close>

definition check_same_flags :: "('w, 't) wrapper_ops \<Rightarrow> string list \<Rightarrow> nat \<Rightarrow> ('w overload, unit) py" where
  "check_same_flags ops flags i =
     try_except
       (bnd (on_obj i (wo_get_flags ops)) (\<lambda>fl. assert_py (set fl = set flags)))
       (\<lambda>e. if generation_error e then ret () else raise_py e)"

definition ov_prototype :: "('w overload, string \<times> string \<times> string list) py" where
  "ov_prototype = bnd (gets (\<lambda>s. (ov_wrapper_return s, ov_wrapper_actual_name s, ov_wrapper_args s))) (\<lambda>p.
     case p of (Some r, Some n, Some a) \<Rightarrow> ret (r, n, a) | _ \<Rightarrow> raise_py AssertionError)"

definition ov_get_py_method_def ::
  "('w, 't) wrapper_ops \<Rightarrow> 'w error_handler option \<Rightarrow> string \<Rightarrow> ('w overload, string) py" where
  "ov_get_py_method_def ops h name =
     bnd get_all_wrappers (\<lambda>all_wrappers.
     bnd (gets (\<lambda>s. single_wrapper ops s all_wrappers)) (\<lambda>single.
       if single then on_obj (hd all_wrappers) (wo_get_py_method_def ops name)
       else
         bnd (normalize_py_method_flags ops h) (\<lambda>_.
         case all_wrappers of
           [] \<Rightarrow> raise_py IndexError
         | w # _ \<Rightarrow>
             bnd (on_obj w (wo_get_flags ops)) (\<lambda>flags.
             bnd (for_each (check_same_flags ops flags) all_wrappers) (\<lambda>_.
             bnd ov_prototype (\<lambda>(wrapper_return, wrapper_actual_name, wrapper_args).
             ret (''{(char *) '' @ dq @ name @ dq @ '', (PyCFunction) '' @ wrapper_actual_name @ '', '' @ join ''|'' flags @ '', NULL },'')))))))"

definition ov_reset_code_generation_state :: "('w, 't) wrapper_ops \<Rightarrow> ('w overload, unit) py" where
  "ov_reset_code_generation_state ops = seqs [
     compute_all_wrappers,
     bnd get_all_wrappers (for_each (\<lambda>i. on_obj i (wo_reset_code_generation_state ops)))]"

text \<open>\<open>self.generate(NullCodeSink())\<close>: \<open>ops0\<close> are the methods with a null sink.\<close>

definition generate_to_null ::
  "ov_class \<Rightarrow> 'w error_handler option \<Rightarrow> ('w, sink_state) wrapper_ops \<Rightarrow> ('w overload, unit) py" where
  "generate_to_null oc h ops0 = (\<lambda>s. case ov_generate oc h null_class ops0 (s, NullCodeSink_init) of
     (Inl e, (s', _)) \<Rightarrow> (Inl e, s') | (Inr _, (s', _)) \<Rightarrow> (Inr (), s'))"

definition ov_generate_declaration ::
  "ov_class \<Rightarrow> 'w error_handler option \<Rightarrow> 't sink_class \<Rightarrow> ('w, sink_state) wrapper_ops \<Rightarrow> ('w overload \<times> 't, unit) py" where
  "ov_generate_declaration oc h sk ops0 = seqs [
     on_overload (seqs [ov_reset_code_generation_state ops0, compute_all_wrappers, generate_to_null oc h ops0]),
     bnd (on_overload ov_prototype) (\<lambda>(wrapper_return, wrapper_actual_name, wrapper_args).
       on_sink (run_cmd sk (Writeln (wrapper_return @ '' '' @ wrapper_actual_name @ ''('' @ join '', '' wrapper_args @ '');'')))),
     on_overload (ov_reset_code_generation_state ops0)]"

text \<open>\<open>name.split('::')[-1]\<close>.\<close>

definition last_component :: "string \<Rightarrow> string" where
  "last_component s = last (split_str ''::'' s)"

definition static_declaration :: "string \<Rightarrow> string \<Rightarrow> string list \<Rightarrow> string" where
  "static_declaration wrapper_return name wrapper_args =
     ''static '' @ wrapper_return @ '' '' @ last_component name @ ''('' @ join '', '' wrapper_args @ '');''"

definition ov_generate_class_declaration ::
  "ov_class \<Rightarrow> 'w error_handler option \<Rightarrow> 't sink_class \<Rightarrow> ('w, sink_state) wrapper_ops \<Rightarrow> ('w overload \<times> 't, unit) py" where
  "ov_generate_class_declaration oc h sk ops0 = seqs [
     on_overload (seqs [ov_reset_code_generation_state ops0, compute_all_wrappers, generate_to_null oc h ops0]),
     bnd (on_overload ov_prototype) (\<lambda>(wrapper_return, wrapper_actual_name, wrapper_args).
       on_sink (run_cmd sk (Writeln (static_declaration wrapper_return wrapper_actual_name wrapper_args)))),
     bnd (on_overload get_all_wrappers) (\<lambda>all_wrappers.
       when_py (length all_wrappers > 1) (for_each (\<lambda>i.
         bnd (on_overload (gets (\<lambda>s. ov_objs s i))) (\<lambda>w.
           case (wo_wrapper_actual_name ops0 w, wo_wrapper_args ops0 w) of
             (Some name, Some args) \<Rightarrow>
               on_sink (run_cmd sk (Writeln (static_declaration (opt_str (wo_wrapper_return ops0 w)) name args)))
           | _ \<Rightarrow> raise_py (AttributeError ''wrapper_actual_name''))) all_wrappers)),
     on_overload (ov_reset_code_generation_state ops0)]"

definition ov_get_section :: "('w, 't) wrapper_ops \<Rightarrow> ('w overload, string option) py" where
  "ov_get_section ops =
     bnd (gets ov_all_wrappers) (\<lambda>a.
     bnd (when_py (a = None) compute_all_wrappers) (\<lambda>_.
     bnd get_all_wrappers (\<lambda>all_wrappers.
     gets (\<lambda>s. foldl (\<lambda>section i. if section = None then wo_section ops (ov_objs s i) else section) None all_wrappers))))"

section \<open>The flags become uniform\<close>

lemma call_with_error_handling_Inr:
  "call_with_error_handling h m w exs s = (Inr a, s') \<longleftrightarrow> m s = (Inr a, s')"
  by (cases h) (auto simp: call_with_error_handling_def try_except_def bnd_def split: prod.splits sum.splits if_splits)

lemma subseq_remove1: "subseq (remove1 x xs) xs"
  by (induction xs) auto

text \<open>
  What the loop relies on: a good wrapper answers with the flags that are its own, and stays good with
  the same flags.
\<close>

locale flag_source =
  fixes get_flags :: "('w, string list) py" and good :: "'w \<Rightarrow> bool" and flags_of :: "'w \<Rightarrow> string set"
  assumes own_flags: "good w \<Longrightarrow> get_flags w = (Inr fl, w') \<Longrightarrow>
    good w' \<and> set fl = flags_of w \<and> flags_of w' = flags_of w"
begin

definition settled :: "'w \<Rightarrow> string set \<Rightarrow> bool" where
  "settled w fs \<longleftrightarrow> good w \<and> flags_of w = fs"

lemma settled_after: "good w \<Longrightarrow> get_flags w = (Inr fl, w') \<Longrightarrow> settled w' (set fl)"
  using own_flags by (simp add: settled_def)

lemma pass_step:
  assumes "wo_get_flags ops = get_flags" and "good (ov_objs s i)"
    and "call_with_error_handling h (on_obj i (wo_get_flags ops)) (\<lambda>s. ov_objs s i) generation_error s = (Inr fl, s1)"
  shows "\<exists>w. s1 = s\<lparr>ov_objs := (ov_objs s)(i := w)\<rparr> \<and> good w \<and> settled w (set fl)"
proof -
  have "on_obj i get_flags s = (Inr fl, s1)" using assms(1,3) by (simp add: call_with_error_handling_Inr)
  then obtain w where "get_flags (ov_objs s i) = (Inr fl, w)" "s1 = s\<lparr>ov_objs := (ov_objs s)(i := w)\<rparr>"
    by (auto simp: on_obj_def split: prod.splits)
  with settled_after [OF assms(2)] show ?thesis by (auto simp: settled_def)
qed

lemma pass_good:
  assumes ops: "wo_get_flags ops = get_flags"
  shows "flags_pass ops h ex existing is s = (Inr (m, ex'), s') \<Longrightarrow> distinct (ov_wrappers s) \<Longrightarrow>
    set is \<subseteq> set (ov_wrappers s) \<Longrightarrow> \<forall>j \<in> set (ov_wrappers s). good (ov_objs s j) \<Longrightarrow>
    \<forall>j \<in> set (ov_wrappers s'). good (ov_objs s' j)"
proof (induction "is" arbitrary: existing s)
  case (Cons i "is")
  obtain r s1 where run: "call_with_error_handling h (on_obj i (wo_get_flags ops)) (\<lambda>s. ov_objs s i) generation_error s = (r, s1)"
    by fastforce
  have ws: "ov_wrappers s1 = ov_wrappers s" using call_on_obj_wrappers [OF run] .
  have others: "ov_objs s1 j = ov_objs s j" if "j \<noteq> i" for j
    using call_on_obj_others [OF run that] .
  show ?case
  proof (cases r)
    case (Inl e)
    then show ?thesis
      using Cons.prems run ws others
      by (auto simp: bnd_def remove_wrapper_def notify_handler_def split: option.splits if_splits sum.splits)
  next
    case (Inr fl)
    then have good1: "\<forall>j \<in> set (ov_wrappers s1). good (ov_objs s1 j)"
      using pass_step [OF ops, of s i h fl s1] Cons.prems(3,4) run ws by auto
    show ?thesis
      using Cons.prems run ws Inr good1 Cons.IH [of _ s1]
      by (auto simp: bnd_def remove_wrapper_def notify_handler_def split: option.splits if_splits sum.splits)
  qed
qed simp

lemma pass_settles:
  assumes ops: "wo_get_flags ops = get_flags"
  shows "flags_pass ops h ex existing is s = (Inr (False, ex'), s') \<Longrightarrow>
    \<forall>j \<in> set is. good (ov_objs s j) \<Longrightarrow>
    (case existing of None \<Rightarrow> D = {} | Some fl \<Rightarrow> \<forall>j\<in>D. settled (ov_objs s j) (set fl)) \<Longrightarrow>
    \<exists>fs. \<forall>j \<in> D \<union> set is. settled (ov_objs s' j) fs"
proof (induction "is" arbitrary: existing s D)
  case Nil
  then show ?case by (auto split: option.splits)
next
  case (Cons i "is")
  obtain fl s1 where run: "call_with_error_handling h (on_obj i (wo_get_flags ops)) (\<lambda>s. ov_objs s i) generation_error s = (Inr fl, s1)"
      and rest: "flags_pass ops h ex (Some (case existing of None \<Rightarrow> fl | Some fl' \<Rightarrow> fl')) is s1 = (Inr (False, ex'), s')"
      and same: "case existing of None \<Rightarrow> True | Some fl' \<Rightarrow> set fl = set fl'"
    using Cons.prems(1)
    by (auto simp: bnd_def split: prod.splits sum.splits option.splits if_splits)
  obtain w where s1: "s1 = s\<lparr>ov_objs := (ov_objs s)(i := w)\<rparr>" and w: "good w" "settled w (set fl)"
    using pass_step [OF ops _ run] Cons.prems(2) by auto
  have "\<forall>j \<in> insert i D. settled (ov_objs s1 j) (set (case existing of None \<Rightarrow> fl | Some fl' \<Rightarrow> fl'))"
    using Cons.prems(3) w same s1 by (auto split: option.splits)
  moreover have "\<forall>j \<in> set is. good (ov_objs s1 j)" using Cons.prems(2) w s1 by auto
  ultimately show ?case using Cons.IH [OF rest, of "insert i D"] by auto
qed

lemma loop_settles:
  "normalize_loop ops h ex s = (Inr (), s') \<Longrightarrow> wo_get_flags ops = get_flags \<Longrightarrow> distinct (ov_wrappers s) \<Longrightarrow>
    \<forall>j \<in> set (ov_wrappers s). good (ov_objs s j) \<Longrightarrow>
    subseq (ov_wrappers s') (ov_wrappers s) \<and> (\<exists>fs. \<forall>j \<in> set (ov_wrappers s'). settled (ov_objs s' j) fs)"
proof (induction ops h ex s rule: normalize_loop.induct)
  case (1 ops h ex s)
  obtain m ex' s1 where pass: "flags_pass ops h ex None (ov_wrappers s) s = (Inr (m, ex'), s1)"
    using "1.prems"(1) by (subst (asm) normalize_loop.simps) (auto split: prod.splits sum.splits)
  note removed = flags_pass_removes [OF pass subset_refl]
  show ?case
  proof (cases m)
    case False
    then have "s' = s1" using "1.prems"(1) pass by (subst (asm) normalize_loop.simps) simp
    moreover have "flags_pass ops h ex None (ov_wrappers s) s = (Inr (False, ex'), s1)" using pass False by simp
    ultimately show ?thesis
      using pass_settles [OF "1.prems"(2), where D = "{}" and existing = None] "1.prems"(4) removed False by auto
  next
    case True
    then obtain i where i: "ov_wrappers s1 = remove1 i (ov_wrappers s)" using removed by auto
    have sub: "subseq (ov_wrappers s1) (ov_wrappers s)" by (simp add: i subseq_remove1)
    have "normalize_loop ops h ex' s1 = (Inr (), s')"
      using "1.prems"(1) pass True by (subst (asm) normalize_loop.simps) simp
    with "1.IH" [OF pass [symmetric] refl refl True] "1.prems"(2,3) i
      pass_good [OF "1.prems"(2) pass "1.prems"(3) subset_refl "1.prems"(4)]
    have "subseq (ov_wrappers s') (ov_wrappers s1) \<and> (\<exists>fs. \<forall>j \<in> set (ov_wrappers s'). settled (ov_objs s' j) fs)"
      by (simp add: distinct_remove1)
    with sub show ?thesis using subseq_order.trans by blast
  qed
qed

end

end
