(* ===== verification/Dispatch.thy ===== *)
theory Dispatch
  imports Overloading
begin

text \<open>
  What the code of \<open>pybindgen/overloading.py\<close> achieves: counting gives Cartesian products, and the
  generated dispatcher tries the overloads in order.
\<close>

section \<open>Counting is the Cartesian product\<close>

text \<open>What is still to come, as reversed vectors, and all the reversed vectors.\<close>

fun to_come :: "'a list list \<Rightarrow> 'a list list \<Rightarrow> 'a list \<Rightarrow> 'a list list" where
  "to_come (v # vs) (it # its) (x # xs) =
     map (\<lambda>y. y # xs) it @ concat (map (\<lambda>zs. map (\<lambda>y. y # zs) v) (to_come vs its xs))"
| "to_come _ _ _ = []"

primrec rev_products :: "'a list list \<Rightarrow> 'a list list" where
  "rev_products [] = [[]]"
| "rev_products (v # vs) = concat (map (\<lambda>zs. map (\<lambda>y. y # zs) v) (rev_products vs))"

lemma advance_to_come:
  "[] \<notin> set vs \<Longrightarrow>
   (case advance vs its xs of
      None \<Rightarrow> to_come vs its xs = []
    | Some (its', xs') \<Rightarrow> to_come vs its xs = xs' # to_come vs its' xs')"
  by (induction vs its xs rule: advance.induct) (auto split: option.splits list.splits)

lemma count_loop_to_come:
  "[] \<notin> set vs \<Longrightarrow> count_loop vs its xs = Some (map rev (to_come vs its xs))"
proof (induction "length (to_come vs its xs)" arbitrary: its xs)
  case 0
  then have "advance vs its xs = None" using advance_to_come [of vs its xs] by (auto split: option.splits)
  with 0 show ?case by (simp add: count_loop.simps [of vs its xs])
next
  case (Suc n)
  then obtain its' xs' where adv: "advance vs its xs = Some (its', xs')"
      and eq: "to_come vs its xs = xs' # to_come vs its' xs'"
    using advance_to_come [of vs its xs] by (auto split: option.splits)
  have "count_loop vs its' xs' = Some (map rev (to_come vs its' xs'))"
    using Suc.hyps(1) [of its' xs'] Suc.hyps(2) Suc.prems eq by simp
  with adv eq show ?case by (simp add: count_loop.simps [of vs its xs])
qed

lemma rev_products_first:
  "[] \<notin> set vs \<Longrightarrow> rev_products vs = map hd vs # to_come vs (map tl vs) (map hd vs)"
proof (induction vs)
  case (Cons v vs)
  then have "v = hd v # tl v" by (metis list.collapse list.set_intros(1))
  then have "map (\<lambda>y. y # map hd vs) v = (hd v # map hd vs) # map (\<lambda>y. y # map hd vs) (tl v)"
    by (metis list.simps(9))
  with Cons show ?case by simp
qed simp

lemma concat_map_concat: "concat (map f (concat xss)) = concat (map (\<lambda>xs. concat (map f xs)) xss)"
  by (induction xss) simp_all

lemma concat_concat: "concat (concat xss) = concat (map concat xss)"
  by (induction xss) simp_all

lemma rev_products_snoc:
  "map rev (rev_products (vs @ [w])) = concat (map (\<lambda>x. map (Cons x) (map rev (rev_products vs))) w)"
proof (induction vs)
  case Nil
  show ?case by (induction w) simp_all
next
  case (Cons v vs)
  have "map rev (rev_products ((v # vs) @ [w])) =
      concat (map (\<lambda>zs. map (\<lambda>y. zs @ [y]) v) (map rev (rev_products (vs @ [w]))))"
    by (simp add: map_concat comp_def)
  also have "\<dots> = concat (map (\<lambda>x. map (Cons x) (concat (map (\<lambda>zs. map (\<lambda>y. zs @ [y]) v) (map rev (rev_products vs))))) w)"
    unfolding Cons.IH by (simp add: concat_map_concat map_concat comp_def concat_concat)
  finally show ?case by (simp add: map_concat comp_def)
qed

lemma rev_products_rev: "map rev (rev_products (rev vec)) = product_lists vec"
  by (induction vec) (simp_all add: rev_products_snoc comp_def)

text \<open>
  C25. \<open>vector_counter\<close> ends and yields the Cartesian product of its lists, in lexicographic order of
  positions, for any number of non-empty lists.
\<close>

theorem vector_counter_product:
  assumes "vec \<noteq> []" and "[] \<notin> set vec"
  shows "vector_counter vec = Some (Inr (product_lists vec))"
proof -
  define v and vs where "v = last vec" and "vs = rev (butlast vec)"
  have vec: "rev vec = v # vs" using assms(1) by (metis v_def vs_def append_butlast_last_id rev_eq_Cons_iff rev_rev_ident)
  have ne: "[] \<notin> set (v # vs)" using assms(2) vec by (metis set_rev)
  have "to_come (v # vs) (v # map tl vs) (hd v # map hd vs) = rev_products (v # vs)"
    using rev_products_first [of vs] ne by simp
  then have "count_loop (v # vs) (v # map tl vs) (hd v # map hd vs) = Some (product_lists vec)"
    using count_loop_to_come [OF ne] rev_products_rev [of vec] vec by simp
  moreover have "[] \<notin> set (butlast vec)" "last vec \<noteq> []"
    using assms by (auto dest: in_set_butlastD) (metis last_in_set)
  ultimately show ?thesis using assms(1) by (simp add: vector_counter_def vec) (simp add: v_def vs_def)
qed

theorem vector_counter_product_witness:
  "vector_counter [[1, 2], [7], [8, 9]] = Some (Inr [[1, 7, 8], [1, 7, 9], [2, 7, 8], [2, 7, 9 :: int]])"
  by (subst vector_counter_product) simp_all

section \<open>What the aggregator does\<close>

datatype c_stmt =
    Call_Delegate nat
  | If_No_Exception nat "c_stmt list"
  | Decref_Exception nat
  | Return_Retval
  | New_Error_List nat
  | Set_Error_Item nat
  | Set_Error_Object
  | Decref_Error_List
  | Return_Error

definition aggregator_program :: "nat \<Rightarrow> c_stmt list" where
  "aggregator_program n =
     concat (map (\<lambda>i. [Call_Delegate i, If_No_Exception i (map Decref_Exception [0..<i] @ [Return_Retval])]) [0..<n]) @
     [New_Error_List n] @ concat (map (\<lambda>i. [Set_Error_Item i, Decref_Exception i]) [0..<n]) @
     [Set_Error_Object, Decref_Error_List, Return_Error]"

text \<open>The C text of a statement, for given delegates and leading arguments.\<close>

fun render :: "ov_class \<Rightarrow> string list \<Rightarrow> string option list \<Rightarrow> c_stmt \<Rightarrow> sink_cmd list" where
  "render oc args ds (Call_Delegate i) =
     [Writeln (''retval = '' @ opt_str (ds ! i) @ ''('' @ join '', '' (args @ [''&exceptions['' @ str_of_nat i @ '']'']) @ '');'')]"
| "render oc args ds (If_No_Exception i body) =
     [Writeln (''if (!exceptions['' @ str_of_nat i @ '']) {''), Indent] @ concat (map (render oc args ds) body) @
     [Unindent, Writeln ''}'']"
| "render oc args ds (Decref_Exception i) = [Writeln (''Py_DECREF(exceptions['' @ str_of_nat i @ '']);'')]"
| "render oc args ds Return_Retval = [Writeln ''return retval;'']"
| "render oc args ds (New_Error_List n) = [Writeln (''error_list = PyList_New('' @ str_of_nat n @ '');'')]"
| "render oc args ds (Set_Error_Item i) =
     [Writeln (''PyList_SET_ITEM(error_list, '' @ str_of_nat i @ '', PyObject_Str(exceptions['' @ str_of_nat i @ '']));'')]"
| "render oc args ds Set_Error_Object = [Writeln ''PyErr_SetObject(PyExc_TypeError, error_list);'']"
| "render oc args ds Decref_Error_List = [Writeln ''Py_DECREF(error_list);'']"
| "render oc args ds Return_Error = [Writeln (ERROR_RETURN oc)]"

definition delegate_args :: "string list \<Rightarrow> string list" where
  "delegate_args flags = [''self''] @ (if ''METH_VARARGS'' \<in> set flags then [''args''] else []) @
     (if ''METH_KEYWORDS'' \<in> set flags then [''kwargs''] else [])"

lemma render_delegate_call:
  "delegate_call flags i (ds ! i) = concat (map (render oc (delegate_args flags) ds)
     [Call_Delegate i, If_No_Exception i (map Decref_Exception [0..<i] @ [Return_Retval])])"
  by (simp add: delegate_call_def delegate_args_def Let_def comp_def)

lemma enumerate_nth: "enumerate 0 ds = map (\<lambda>i. (i, ds ! i)) [0..<length ds]"
  by (rule nth_equalityI) (simp_all add: nth_enumerate_eq)

lemma aggregator_cmds_render:
  "aggregator_cmds oc prototype_line flags ds =
     [Writeln prototype_line, Writeln ''{'', Indent,
      Writeln (RETURN_TYPE oc @ '' retval;''), Writeln ''PyObject *error_list;'',
      Writeln (''PyObject *exceptions['' @ str_of_nat (length ds) @ ''] = {0,};'')] @
     concat (map (render oc (delegate_args flags) ds) (aggregator_program (length ds))) @
     [Unindent, Writeln ''}'']"
  unfolding aggregator_cmds_def aggregator_program_def enumerate_nth
  by (simp only: map_append concat_append map_map comp_def concat_map_concat case_prod_conv render_delegate_call [of _ _ ds oc])
    simp

text \<open>
  The state of a run: \<open>refcount\<close> are the references that the function holds to the exceptions it was
  given; \<open>error_set\<close> is the Python error it raises.  A delegate \<open>d i\<close> gives its result (\<open>None\<close> is NULL)
  and the parse exception, if any.  \<open>None\<close> as outcome of a run is undefined behaviour: releasing an
  object that is not held, reading a missing exception or list.
\<close>

record ('v, 'e) agg_state =
  called :: "nat list"
  exceptions :: "nat \<Rightarrow> 'e option"
  refcount :: "nat \<Rightarrow> nat"
  c_retval :: "'v option"
  error_list :: "'e option list option"
  error_set :: "'e option list option"

definition agg_init :: "'v option \<Rightarrow> ('v, 'e) agg_state" where
  "agg_init junk = \<lparr>called = [], exceptions = (\<lambda>_. None), refcount = (\<lambda>_. 0), c_retval = junk,
     error_list = None, error_set = None\<rparr>"

definition call_delegate :: "(nat \<Rightarrow> 'v option \<times> 'e option) \<Rightarrow> nat \<Rightarrow> ('v, 'e) agg_state \<Rightarrow> ('v, 'e) agg_state" where
  "call_delegate d i s = s\<lparr>called := called s @ [i], exceptions := (exceptions s)(i := snd (d i)),
     refcount := (refcount s)(i := if snd (d i) = None then 0 else 1), c_retval := fst (d i)\<rparr>"

fun exec_stmts ::
  "(nat \<Rightarrow> 'v option \<times> 'e option) \<Rightarrow> c_stmt list \<Rightarrow> ('v, 'e) agg_state \<Rightarrow> (('v, 'e) agg_state \<times> 'v option option) option" where
  "exec_stmts d [] s = Some (s, None)"
| "exec_stmts d (Call_Delegate i # p) s = exec_stmts d p (call_delegate d i s)"
| "exec_stmts d (If_No_Exception i body # p) s =
     (if exceptions s i = None then
        case exec_stmts d body s of
          None \<Rightarrow> None | Some (s', Some r) \<Rightarrow> Some (s', Some r) | Some (s', None) \<Rightarrow> exec_stmts d p s'
      else exec_stmts d p s)"
| "exec_stmts d (Decref_Exception i # p) s =
     (if refcount s i = 0 then None
      else exec_stmts d p (s\<lparr>refcount := (refcount s)(i := refcount s i - 1)\<rparr>))"
| "exec_stmts d (Return_Retval # p) s = Some (s, Some (c_retval s))"
| "exec_stmts d (New_Error_List n # p) s = exec_stmts d p (s\<lparr>error_list := Some (replicate n None)\<rparr>)"
| "exec_stmts d (Set_Error_Item i # p) s =
     (case (error_list s, exceptions s i) of
        (Some l, Some e) \<Rightarrow>
          if i < length l \<and> refcount s i > 0 then exec_stmts d p (s\<lparr>error_list := Some (l[i := Some e])\<rparr>) else None
      | _ \<Rightarrow> None)"
| "exec_stmts d (Set_Error_Object # p) s =
     (if error_list s = None then None else exec_stmts d p (s\<lparr>error_set := error_list s\<rparr>))"
| "exec_stmts d (Decref_Error_List # p) s =
     (if error_list s = None then None else exec_stmts d p (s\<lparr>error_list := None\<rparr>))"
| "exec_stmts d (Return_Error # p) s = Some (s, Some None)"

text \<open>What overloading promises: result, Python error, and the delegates that were called.\<close>

definition overload_spec :: "(nat \<Rightarrow> 'v option \<times> 'e option) \<Rightarrow> nat \<Rightarrow> 'v option \<times> 'e option list option \<times> nat list" where
  "overload_spec d n =
     (case find (\<lambda>i. snd (d i) = None) [0..<n] of
        Some k \<Rightarrow> (fst (d k), None, [0..<Suc k])
      | None \<Rightarrow> (None, Some (map (\<lambda>i. snd (d i)) [0..<n]), [0..<n]))"

lemma exec_decrefs:
  "\<forall>j<k. refcount s j = 1 \<Longrightarrow>
   exec_stmts d (map Decref_Exception [0..<k] @ p) s =
   exec_stmts d p (s\<lparr>refcount := (\<lambda>j. if j < k then 0 else refcount s j)\<rparr>)"
proof (induction k arbitrary: p)
  case (Suc k)
  have "(\<lambda>j. if j < k then 0 else refcount s j)(k := 0) = (\<lambda>j. if j < Suc k then 0 else refcount s j)"
    by (auto simp: fun_eq_iff less_Suc_eq)
  with Suc show ?case by simp
qed simp

lemma exec_error_items:
  "m \<le> n \<Longrightarrow> \<forall>j<m. refcount s j = 1 \<and> exceptions s j \<noteq> None \<Longrightarrow> error_list s = Some (replicate n None) \<Longrightarrow>
   exec_stmts d (concat (map (\<lambda>i. [Set_Error_Item i, Decref_Exception i]) [0..<m]) @ p) s =
   exec_stmts d p (s\<lparr>error_list := Some (map (exceptions s) [0..<m] @ replicate (n - m) None),
     refcount := (\<lambda>j. if j < m then 0 else refcount s j)\<rparr>)"
proof (induction m arbitrary: p)
  case 0
  then have "s\<lparr>error_list := Some (replicate n None)\<rparr> = s" by (cases s) simp
  then show ?case by simp
next
  case (Suc m)
  obtain e where e: "exceptions s m = Some e" using Suc.prems(2) by auto
  have rc: "(\<lambda>j. if j < m then 0 else refcount s j)(m := 0) = (\<lambda>j. if j < Suc m then 0 else refcount s j)"
    by (auto simp: fun_eq_iff less_Suc_eq)
  have "replicate (n - m) None = None # replicate (n - Suc m) (None :: 'b option)"
    using Suc.prems(1) by (metis Suc_diff_le diff_Suc_Suc replicate_Suc)
  then have l: "(map (exceptions s) [0..<m] @ replicate (n - m) None)[m := Some e] =
      map (exceptions s) [0..<Suc m] @ replicate (n - Suc m) None"
    using e by (simp add: list_update_append)
  show ?case
    using Suc.IH [of "[Set_Error_Item m, Decref_Exception m] @ p"] Suc.prems e rc l by simp
qed

text \<open>The loop over the delegates, started after \<open>i\<close> of them have failed.\<close>

definition failed_before :: "(nat \<Rightarrow> 'v option \<times> 'e option) \<Rightarrow> nat \<Rightarrow> ('v, 'e) agg_state \<Rightarrow> bool" where
  "failed_before d i s \<longleftrightarrow> called s = [0..<i] \<and> error_list s = None \<and> error_set s = None \<and>
     (\<forall>j<i. exceptions s j = snd (d j) \<and> snd (d j) \<noteq> None) \<and>
     refcount s = (\<lambda>j. if j < i then 1 else 0)"

lemma failed_before_call:
  assumes "failed_before d i s" "snd (d i) \<noteq> None"
  shows "failed_before d (Suc i) (call_delegate d i s)"
  using assms by (auto simp: failed_before_def call_delegate_def less_Suc_eq fun_eq_iff)

lemma exec_all_failed:
  assumes "failed_before d n s"
  shows "\<exists>s'. exec_stmts d ([New_Error_List n] @ concat (map (\<lambda>i. [Set_Error_Item i, Decref_Exception i]) [0..<n]) @
      [Set_Error_Object, Decref_Error_List, Return_Error]) s = Some (s', Some None) \<and>
    error_set s' = Some (map (\<lambda>i. snd (d i)) [0..<n]) \<and> called s' = [0..<n] \<and> refcount s' = (\<lambda>_. 0) \<and> error_list s' = None"
proof -
  have m: "map (exceptions s) [0..<n] = map (\<lambda>i. snd (d i)) [0..<n]" using assms by (simp add: failed_before_def)
  show ?thesis
    using assms exec_error_items [of n n "s\<lparr>error_list := Some (replicate n None)\<rparr>" d] m
    by (simp add: failed_before_def fun_eq_iff)
qed

lemma exec_delegates:
  assumes "failed_before d i s" "i \<le> n"
  shows "\<exists>s' r. exec_stmts d (concat (map (\<lambda>i. [Call_Delegate i, If_No_Exception i (map Decref_Exception [0..<i] @ [Return_Retval])]) [i..<n]) @
      [New_Error_List n] @ concat (map (\<lambda>i. [Set_Error_Item i, Decref_Exception i]) [0..<n]) @
      [Set_Error_Object, Decref_Error_List, Return_Error]) s = Some (s', Some r) \<and>
    (r, error_set s', called s') = (case find (\<lambda>i. snd (d i) = None) [i..<n] of
        Some k \<Rightarrow> (fst (d k), None, [0..<Suc k]) | None \<Rightarrow> (None, Some (map (\<lambda>i. snd (d i)) [0..<n]), [0..<n])) \<and>
    refcount s' = (\<lambda>_. 0) \<and> error_list s' = None"
  using assms
proof (induction "n - i" arbitrary: i s)
  case 0
  then show ?case using exec_all_failed [of d n s] by auto
next
  case (Suc m)
  then have le: "[i..<n] = i # [Suc i..<n]" by (simp add: upt_conv_Cons)
  show ?case
  proof (cases "snd (d i) = None")
    case False
    then obtain e where e: "snd (d i) = Some e" "exceptions (call_delegate d i s) i = Some e"
      by (auto simp: call_delegate_def)
    have "m = n - Suc i" "Suc i \<le> n" using Suc.hyps(2) by simp_all
    from Suc.hyps(1) [OF this(1) failed_before_call [OF Suc.prems(1) False] this(2)] e
    show ?thesis by (simp add: le)
  next
    case True
    let ?s = "call_delegate d i s"
    have ex: "exceptions ?s i = None" and rc: "refcount ?s = (\<lambda>j. if j < i then 1 else 0)"
      and c: "called ?s = [0..<Suc i]" "error_list ?s = None" "error_set ?s = None" "c_retval ?s = fst (d i)"
      using True Suc.prems(1) by (auto simp: call_delegate_def failed_before_def fun_eq_iff)
    show ?thesis
      using exec_decrefs [of i ?s d "[Return_Retval]"] True ex rc c by (simp add: le fun_eq_iff)
  qed
qed

text \<open>
  C3. The generated dispatcher refines the promise of overloading.  The lines written are the C text
  of \<open>aggregator_program\<close>; running it, for any number of delegates and any behaviour of theirs, is
  well defined and ends: the delegates are called in order up to the first without a parse exception,
  whose result is returned with no error set, else \<open>TypeError\<close> is raised with the list of all the parse
  exceptions; every exception received is released exactly once, and so is the error list.
\<close>

theorem aggregator_refines_overloading:
  "(\<exists>prologue epilogue. aggregator_cmds oc prototype_line flags ds =
      prologue @ concat (map (render oc (delegate_args flags) ds) (aggregator_program (length ds))) @ epilogue) \<and>
   (\<exists>s r. exec_stmts d (aggregator_program (length ds)) (agg_init junk) = Some (s, Some r) \<and>
      (r, error_set s, called s) = overload_spec d (length ds) \<and> refcount s = (\<lambda>_. 0) \<and> error_list s = None)"
proof
  show "\<exists>prologue epilogue. aggregator_cmds oc prototype_line flags ds =
      prologue @ concat (map (render oc (delegate_args flags) ds) (aggregator_program (length ds))) @ epilogue"
    unfolding aggregator_cmds_render by blast
next
  have "failed_before d 0 (agg_init junk)" by (simp add: failed_before_def agg_init_def)
  from exec_delegates [OF this, of "length ds"]
  show "\<exists>s r. exec_stmts d (aggregator_program (length ds)) (agg_init junk) = Some (s, Some r) \<and>
      (r, error_set s, called s) = overload_spec d (length ds) \<and> refcount s = (\<lambda>_. 0) \<and> error_list s = None"
    unfolding aggregator_program_def overload_spec_def by simp
qed

end
