(* ===== verification/Function.thy ===== *)
theory Function
  imports Cpp_Laws Cpp_Exception Dispatch
begin

text \<open>
  Wrappers of C functions (\<open>src/pybindgen/function.py\<close>): \<open>Function\<close>, \<open>CustomFunctionWrapper\<close> and
  \<open>OverloadedFunction\<close>.
\<close>

section \<open>State\<close>

text \<open>What a function uses of its module, and a handler with the attributes that \<open>scan_custodians_and_wards\<close> reads.\<close>

record module_info =
  mi_prefix :: string
  mi_cpp_namespace_prefix :: string

record param_handler =
  ph_object :: param_obj
  ph_custodian :: "int option"

record retval_handler =
  rh_object :: ret_obj
  rh_custodian :: "int option"
  rh_return_internal_reference :: bool

text \<open>
  \<open>Custom_Function body\<close> is a \<open>CustomFunctionWrapper\<close>.  \<open>f_section\<close> is set by the module that takes the function in.
\<close>

datatype func_class = Plain_Function | Custom_Function "string option"

record func =
  f_class :: func_class
  f_wrapper :: wrapper
  f_return_value :: retval_handler
  f_parameters :: "param_handler list"
  f_force_parse :: "int option"
  f_unblock_threads :: bool
  f_deprecated :: pyval
  f_foreign_cpp_namespace :: string
  f_module :: "module_info option"
  f_function_name :: "string option"
  f_wrapper_base_name :: "string option"
  f_wrapper_actual_name :: "string option"
  f_wrapper_args :: "string list option"
  f_wrapper_return :: "string option"
  f_docstring :: "string option"
  f_self_parameter_pystruct :: "string option"
  f_template_parameters :: "string list"
  f_custom_name :: "string option"
  f_mangled_name :: string
  f_throw :: "cpp_exception list"
  f_custodians_and_wards :: "custody list"
  f_section :: "string option"

section \<open>The call\<close>

definition call_namespace :: "func \<Rightarrow> string res" where
  "call_namespace f =
     (if f_foreign_cpp_namespace f \<noteq> [] then Inr (f_foreign_cpp_namespace f @ ''::'')
      else case f_module f of
        None \<Rightarrow> Inl (AttributeError ''cpp_namespace_prefix'')
      | Some md \<Rightarrow> Inr (if mi_cpp_namespace_prefix md \<noteq> [] then mi_cpp_namespace_prefix md @ ''::'' else []))"

definition call_statement :: "func \<Rightarrow> string \<Rightarrow> string list \<Rightarrow> string" where
  "call_statement f namespace call_params =
     (let template_params = (if f_template_parameters f \<noteq> [] then ''< '' @ join '', '' (f_template_parameters f) @ '' >'' else []);
          rv = rh_object (f_return_value f);
          call = namespace @ opt_str (f_function_name f) @ template_params @ ''('' @ join '', '' call_params @ '');''
      in if ro_ctype rv = ''void'' then call
         else if ro_requires_assignment_constructor rv then ro_ctype rv @ '' retval = '' @ call
         else ''retval = '' @ call)"

text \<open>
  A call inside a C++ \<open>try\<close> block.  The source un-indents at the start of the next handler and indents
  again after the \<open>catch\<close> line: each part is one indented block.
\<close>

definition call_in_try :: "cpp_exception list \<Rightarrow> string \<Rightarrow> (wrapper, unit) py \<Rightarrow> (wrapper, unit) py" where
  "call_in_try throw error_return call =
     (if throw = [] then call
      else seqs [
        w_write Before_Call (''try'' @ nl @ ''{''),
        indented Before_Call call,
        for_each (\<lambda>e. seqs [
          w_write Before_Call (''} catch ('' @ opt_str (ce_full_name e) @ '' const &exc) {''),
          indented Before_Call (seqs [
            w_write_cleanup Before_Call,
            write_convert_to_python e Before_Call ''exc'',
            w_write Before_Call error_return])]) throw,
        w_write Before_Call ''}''])"

definition Function_generate_call :: "func \<Rightarrow> (wrapper, unit) py" where
  "Function_generate_call f =
     bnd (lift_res (call_namespace f)) (\<lambda>namespace.
       call_in_try (f_throw f) ''return NULL;''
         (bnd (gets w_call_params) (\<lambda>call_params. w_write Before_Call (call_statement f namespace call_params))))"

text \<open>What the base class sees of a function.\<close>

definition forward_of :: "func \<Rightarrow> forward_class" where
  "forward_of f = \<lparr>fc_return_value = Some (rh_object (f_return_value f)), fc_parameters = map ph_object (f_parameters f),
     fc_parse_error_return = ''return NULL;'', fc_error_return = ''return NULL;'', fc_force_parse = f_force_parse f,
     fc_no_c_retval = False, fc_unblock_threads = f_unblock_threads f, fc_deprecated = f_deprecated f,
     fc_have_return_value = False,
     fc_before_call_hook = implement_parameter_custodians_precall (f_custodians_and_wards f),
     fc_generate_call = (case f_class f of Plain_Function \<Rightarrow> Function_generate_call f | Custom_Function _ \<Rightarrow> ret ()),
     fc_before_return_hook = implement_parameter_custodians_postcall (f_custodians_and_wards f)\<rparr>"

definition on_fw :: "(wrapper, 'a) py \<Rightarrow> (func, 'a) py" where
  "on_fw m = (\<lambda>f. case m (f_wrapper f) of (r, w) \<Rightarrow> (r, f\<lparr>f_wrapper := w\<rparr>))"

definition fn_get_flags :: "(func, string list) py" where
  "fn_get_flags = (\<lambda>f. on_fw (get_py_method_def_flags (forward_of f)) f)"

definition fn_reset_code_generation_state :: "(func, unit) py" where
  "fn_reset_code_generation_state = (\<lambda>f. on_fw (reset_code_generation_state (forward_of f)) f)"

section \<open>Construction\<close>

record func_args =
  fa_unblock_threads :: "bool option"
  fa_docstring :: "string option"
  fa_template_parameters :: "string list"
  fa_custom_name :: "string option"
  fa_deprecated :: pyval
  fa_foreign_cpp_namespace :: string
  fa_throw :: "cpp_exception list"

text \<open>The backward compatibility check: name and return value in the old order.\<close>

definition swap_old_api ::
  "text_value + retval_handler \<Rightarrow> retval_handler spec option \<Rightarrow> (text_value + retval_handler) \<times> retval_handler spec option" where
  "swap_old_api function_name return_value =
     (case (function_name, return_value) of
        (Inr handler, Some (Spec_Str s)) \<Rightarrow> (Inl (Py_Value (PyStr s)), Some (Handler_Obj handler))
      | _ \<Rightarrow> (function_name, return_value))"

definition name_ascii :: "text_value + retval_handler \<Rightarrow> string option res" where
  "name_ascii n = (case n of Inl t \<Rightarrow> ascii t | Inr _ \<Rightarrow> Inl (TypeError ''value must be str or ascii string contained in a unicode object''))"

text \<open>A list comprehension over a call that may raise or not return.\<close>

primrec map_div :: "('a \<Rightarrow> 'b res option) \<Rightarrow> 'a list \<Rightarrow> 'b list res option" where
  "map_div f [] = Some (Inr [])"
| "map_div f (x # xs) = bind_div (f x) (\<lambda>y. bind_div (map_div f xs) (\<lambda>ys. Some (Inr (y # ys))))"

text \<open>
  The attributes that the constructor sets at the end, on the state that the base class has set up.
\<close>

definition Function_attributes ::
  "func_args \<Rightarrow> bool \<Rightarrow> retval_handler \<Rightarrow> param_handler list \<Rightarrow> wrapper \<Rightarrow> string \<Rightarrow> func res" where
  "Function_attributes a unblock_threads return_value parameters w function_name =
     (case scan_custodians_and_wards (NameError ''TypeConfigurationError'') (map ph_custodian parameters)
        (rh_custodian return_value) (rh_return_internal_reference return_value) [] of
        (Inl e, _) \<Rightarrow> Inl e
      | (Inr _, custodies) \<Rightarrow>
          Inr \<lparr>f_class = Plain_Function, f_wrapper = w, f_return_value = return_value, f_parameters = parameters,
            f_force_parse = None, f_unblock_threads = unblock_threads, f_deprecated = fa_deprecated a,
            f_foreign_cpp_namespace = fa_foreign_cpp_namespace a, f_module = None, f_function_name = Some function_name,
            f_wrapper_base_name = None, f_wrapper_actual_name = None, f_wrapper_args = None, f_wrapper_return = None,
            f_docstring = fa_docstring a, f_self_parameter_pystruct = None,
            f_template_parameters = fa_template_parameters a, f_custom_name = fa_custom_name a,
            f_mangled_name = get_mangled_name function_name (fa_template_parameters a), f_throw = fa_throw a,
            f_custodians_and_wards = custodies, f_section = None\<rparr>)"

text \<open>The class attributes and hooks that the constructor of the base class reads.\<close>

definition forward_for_init :: "bool \<Rightarrow> retval_handler \<Rightarrow> param_handler list \<Rightarrow> forward_class" where
  "forward_for_init unblock_threads return_value parameters =
     \<lparr>fc_return_value = Some (rh_object return_value), fc_parameters = map ph_object parameters,
      fc_parse_error_return = ''return NULL;'', fc_error_return = ''return NULL;'', fc_force_parse = None,
      fc_no_c_retval = False, fc_unblock_threads = unblock_threads, fc_deprecated = PyBool False,
      fc_have_return_value = False, fc_before_call_hook = ret (), fc_generate_call = ret (), fc_before_return_hook = ret ()\<rparr>"

text \<open>A name that is \<open>None\<close> fails in \<open>mangle_name\<close>, which iterates over it.\<close>

definition Function_init ::
  "settings \<Rightarrow> 'w error_handler option \<Rightarrow> (call_args \<Rightarrow> param_handler res option) \<Rightarrow> (call_args \<Rightarrow> retval_handler res option) \<Rightarrow>
   'w \<Rightarrow> text_value + retval_handler \<Rightarrow> retval_handler spec option \<Rightarrow> param_handler spec list \<Rightarrow> func_args \<Rightarrow> func res option" where
  "Function_init st h new_param new_retval self function_name return_value parameters a =
     (let unblock_threads = (case fa_unblock_threads a of None \<Rightarrow> st_unblock_threads st | Some u \<Rightarrow> u)
      in case swap_old_api function_name return_value of (function_name, return_value) \<Rightarrow>
        bind_div (case return_value of None \<Rightarrow> map_option (map_sum id Handler_Obj) (new_retval ([Pos_Arg (PyStr ''void'')], []))
                  | Some r \<Rightarrow> Some (Inr r)) (\<lambda>spec.
        bind_div (eval_retval h new_retval self spec) (\<lambda>rv.
        bind_div (map_div (eval_param h new_param self) parameters) (\<lambda>ps.
        bind_div (Some (ForwardWrapperBase_init (forward_for_init unblock_threads rv ps))) (\<lambda>w.
        bind_div (Some (name_ascii function_name)) (\<lambda>name.
        Some (case name of
          None \<Rightarrow> Inl (TypeError ''mangle_name'')
        | Some n \<Rightarrow> Function_attributes a unblock_threads rv ps w n)))))))"

text \<open>
  \<open>clone\<close> passes on the name, the return value, copies of the parameters and the docstring, and copies
  five attributes; every other argument of the constructor has its default value in the clone.
\<close>

definition Function_clone :: "settings \<Rightarrow> func \<Rightarrow> func res" where
  "Function_clone st f =
     (let a = \<lparr>fa_unblock_threads = None, fa_docstring = f_docstring f, fa_template_parameters = [], fa_custom_name = None,
            fa_deprecated = PyBool False, fa_foreign_cpp_namespace = [], fa_throw = []\<rparr>
      in bind_res (ForwardWrapperBase_init (forward_for_init (st_unblock_threads st) (f_return_value f) (f_parameters f))) (\<lambda>w.
         case f_function_name f of
           None \<Rightarrow> Inl (TypeError ''mangle_name'')
         | Some n \<Rightarrow> bind_res (Function_attributes a (st_unblock_threads st) (f_return_value f) (f_parameters f) w n) (\<lambda>func.
             Inr (func\<lparr>f_module := f_module f, f_wrapper_base_name := f_wrapper_base_name f,
               f_wrapper_actual_name := f_wrapper_actual_name f, f_throw := f_throw f,
               f_custodians_and_wards := f_custodians_and_wards f\<rparr>))))"

definition Function_add_custodian_and_ward :: "int \<Rightarrow> int \<Rightarrow> bool option \<Rightarrow> (func, unit) py" where
  "Function_add_custodian_and_ward custodian ward postcall = (\<lambda>f.
     case add_custodian_and_ward (NameError ''TypeConfigurationError'') custodian ward postcall (f_custodians_and_wards f) of
       (r, l) \<Rightarrow> (r, f\<lparr>f_custodians_and_wards := l\<rparr>))"

definition Function_set_module :: "module_info \<Rightarrow> func \<Rightarrow> func" where
  "Function_set_module md f = f\<lparr>f_module := Some md,
     f_wrapper_base_name := Some (''_wrap_'' @ mi_prefix md @ ''_'' @ f_mangled_name f)\<rparr>"

section \<open>Generation\<close>

definition wrapper_args_for :: "func \<Rightarrow> string list \<Rightarrow> string list \<Rightarrow> string list" where
  "wrapper_args_for f flags extra_wrapper_params =
     (if ''METH_VARARGS'' \<in> set flags then
        [(case f_self_parameter_pystruct f of None \<Rightarrow> ''PyObject * PYBINDGEN_UNUSED(dummy)'' | Some s \<Rightarrow> s @ '' *self''),
         ''PyObject *args''] @
        (if ''METH_KEYWORDS'' \<in> set flags then [''PyObject *kwargs''] else [])
      else []) @ extra_wrapper_params"

text \<open>\<open>REQUIRES_ASSIGNMENT_CONSTRUCTOR\<close> is cleared on the return value of a function that may throw.\<close>

definition clear_assignment_constructor :: "(func, unit) py" where
  "clear_assignment_constructor =
     bnd (upd (\<lambda>f. f\<lparr>f_return_value := (f_return_value f)\<lparr>rh_object :=
            (rh_object (f_return_value f))\<lparr>ro_requires_assignment_constructor := False\<rparr>\<rparr>\<rparr>)) (\<lambda>_.
       fn_reset_code_generation_state)"

definition generate_body_to_memory :: "(func, memory_sink) py" where
  "generate_body_to_memory = (\<lambda>f.
     case generate_body memory_class (forward_of f) (f_wrapper f, MemoryCodeSink_init) of
       (Inl e, (w, _)) \<Rightarrow> (Inl e, f\<lparr>f_wrapper := w\<rparr>)
     | (Inr _, (w, tmp_sink)) \<Rightarrow> (Inr tmp_sink, f\<lparr>f_wrapper := w\<rparr>))"

definition on_func :: "(func, 'a) py \<Rightarrow> (func \<times> 't, 'a) py" where
  "on_func m = (\<lambda>(f, t). case m f of (r, f') \<Rightarrow> (r, (f', t)))"

definition on_func_wrapper :: "(wrapper \<times> 't, 'a) py \<Rightarrow> (func \<times> 't, 'a) py" where
  "on_func_wrapper m = (\<lambda>(f, t). case m (f_wrapper f, t) of (r, (w, t')) \<Rightarrow> (r, (f\<lparr>f_wrapper := w\<rparr>, t')))"

definition Function_generate :: "'t sink_class \<Rightarrow> string option \<Rightarrow> string list \<Rightarrow> (func \<times> 't, unit) py" where
  "Function_generate sk wrapper_name extra_wrapper_params = seqs [
     bnd (on_func (gets f_throw)) (\<lambda>throw. when_py (throw \<noteq> []) (on_func clear_assignment_constructor)),
     on_func (upd (\<lambda>f. f\<lparr>f_wrapper_actual_name := (case wrapper_name of None \<Rightarrow> f_wrapper_base_name f | Some n \<Rightarrow> Some n)\<rparr>)),
     bnd (on_func generate_body_to_memory) (\<lambda>tmp_sink.
     bnd (on_func fn_get_flags) (\<lambda>flags.
     bnd (on_func (upd (\<lambda>f. f\<lparr>f_wrapper_args := Some (wrapper_args_for f flags extra_wrapper_params),
        f_wrapper_return := Some ''PyObject *''\<rparr>))) (\<lambda>_.
     bnd (on_func (gets (\<lambda>f. (f_wrapper_actual_name f, f_wrapper_return f, f_wrapper_args f)))) (\<lambda>(name, return, args). seqs [
       on_func_wrapper (write_open_wrapper sk name return args False),
       upd (\<lambda>(f, t). (f, snd (mem_flush_to (s_writeln sk) tmp_sink t))),
       on_func_wrapper (write_close_wrapper sk)]))))]"

text \<open>
  \<open>CustomFunctionWrapper.generate\<close>.  Without a body it calls \<open>generate_declaration\<close>, which calls it
  again: the source runs into the recursion limit.
\<close>

definition Custom_generate :: "'t sink_class \<Rightarrow> string option \<Rightarrow> string list \<Rightarrow> (func \<times> 't, unit) py" where
  "Custom_generate sk wrapper_body extra_wrapper_params =
     bnd (assert_py (extra_wrapper_params = [''PyObject **return_exception''])) (\<lambda>_.
       case wrapper_body of
         Some body \<Rightarrow> on_sink (run_cmd sk (Writeln body))
       | None \<Rightarrow> bnd (on_func fn_reset_code_generation_state) (\<lambda>_.
           raise_py (RuntimeError ''maximum recursion depth exceeded'')))"

definition fn_generate :: "'t sink_class \<Rightarrow> string option \<Rightarrow> string list \<Rightarrow> (func \<times> 't, unit) py" where
  "fn_generate sk wrapper_name extra_wrapper_params = (\<lambda>(f, t).
     case f_class f of
       Plain_Function \<Rightarrow> Function_generate sk wrapper_name extra_wrapper_params (f, t)
     | Custom_Function body \<Rightarrow> Custom_generate sk body extra_wrapper_params (f, t))"

definition fn_generate_to_null :: "string list \<Rightarrow> (func, unit) py" where
  "fn_generate_to_null extra_wrapper_params = (\<lambda>f.
     case fn_generate null_class None extra_wrapper_params (f, NullCodeSink_init) of
       (Inl e, (f', _)) \<Rightarrow> (Inl e, f') | (Inr _, (f', _)) \<Rightarrow> (Inr (), f'))"

definition fn_prototype :: "(func, string \<times> string \<times> string list) py" where
  "fn_prototype =
     bnd (gets (\<lambda>f. (f_wrapper_return f, f_wrapper_actual_name f, f_wrapper_args f))) (\<lambda>p.
       case p of (Some return, Some name, Some args) \<Rightarrow> ret (return, name, args) | _ \<Rightarrow> raise_py AssertionError)"

definition Function_generate_declaration :: "'t sink_class \<Rightarrow> string list \<Rightarrow> (func \<times> 't, unit) py" where
  "Function_generate_declaration sk extra_wrapper_parameters = seqs [
     on_func fn_reset_code_generation_state,
     on_func (fn_generate_to_null extra_wrapper_parameters),
     bnd (on_func fn_prototype) (\<lambda>(return, name, args).
       on_sink (run_cmd sk (Writeln (return @ '' '' @ name @ ''('' @ join '', '' args @ '');'')))),
     on_func fn_reset_code_generation_state]"

definition Function_get_py_method_def :: "string \<Rightarrow> (func, string) py" where
  "Function_get_py_method_def name =
     bnd fn_get_flags (\<lambda>flags. bnd fn_prototype (\<lambda>(return, actual_name, args).
     bnd (gets f_docstring) (\<lambda>docstring.
     ret (''{(char *) '' @ dq @ name @ dq @ '', (PyCFunction) '' @ actual_name @ '', '' @ join ''|'' flags @ '', '' @
       (case docstring of None \<Rightarrow> ''NULL'' | Some d \<Rightarrow> dq @ d @ dq) @ '' },''))))"

section \<open>Custom wrappers and overloading\<close>

definition CustomFunctionWrapper_init ::
  "settings \<Rightarrow> 'w error_handler option \<Rightarrow> (call_args \<Rightarrow> retval_handler res option) \<Rightarrow> 'w \<Rightarrow> text_value \<Rightarrow> string \<Rightarrow>
   string option \<Rightarrow> string list \<Rightarrow> func res option" where
  "CustomFunctionWrapper_init st h new_retval self function_name wrapper_name wrapper_body flags =
     bind_div (new_retval ([Pos_Arg (PyStr ''void'')], [])) (\<lambda>void.
     bind_div (Function_init st h (\<lambda>_. Some (Inl AssertionError)) new_retval self (Inl function_name) (Some (Handler_Obj void)) []
       \<lparr>fa_unblock_threads = None, fa_docstring = None, fa_template_parameters = [], fa_custom_name = None,
        fa_deprecated = PyBool False, fa_foreign_cpp_namespace = [], fa_throw = []\<rparr>) (\<lambda>f.
     Some (Inr (f\<lparr>f_class := Custom_Function wrapper_body, f_wrapper_base_name := Some wrapper_name,
       f_wrapper_actual_name := Some wrapper_name, f_wrapper := (f_wrapper f)\<lparr>w_meth_flags := flags\<rparr>,
       f_wrapper_args := Some [''PyObject *args'', ''PyObject *kwargs'', ''PyObject **return_exception''],
       f_wrapper_return := Some ''PyObject *''\<rparr>))))"

definition func_ops :: "'t sink_class \<Rightarrow> (func, 't) wrapper_ops" where
  "func_ops sk = \<lparr>wo_get_flags = fn_get_flags,
     wo_generate = (\<lambda>name extra. bnd (fn_generate sk name extra) (\<lambda>_. ret None)),
     wo_set_force_parse = (\<lambda>f. f\<lparr>f_force_parse := Some PARSE_TUPLE_AND_KEYWORDS\<rparr>),
     wo_set_parse_error_return = (\<lambda>e. on_fw (set_parse_error_return e)),
     wo_reset_code_generation_state = fn_reset_code_generation_state,
     wo_get_py_method_def = Function_get_py_method_def,
     wo_wrapper_base_name = f_wrapper_base_name, wo_wrapper_actual_name = f_wrapper_actual_name,
     wo_wrapper_return = f_wrapper_return, wo_wrapper_args = f_wrapper_args,
     wo_needs_overloading_interface = (\<lambda>f. case f_class f of Plain_Function \<Rightarrow> False | Custom_Function _ \<Rightarrow> True),
     wo_section = f_section\<rparr>"

definition OverloadedFunction :: ov_class where
  "OverloadedFunction = \<lparr>RETURN_TYPE = ''PyObject *'', ERROR_RETURN = ''return NULL;''\<rparr>"

section \<open>Normalisation of overloads\<close>

lemma force_parse_all:
  assumes "\<And>i s. f i s = (Inr (), s\<lparr>ov_objs := (ov_objs s)(i := g (ov_objs s i))\<rparr>)"
  shows "for_each f xs s = (Inr (), s') \<Longrightarrow> distinct xs \<Longrightarrow>
   s' = s\<lparr>ov_objs := (\<lambda>j. if j \<in> set xs then g (ov_objs s j) else ov_objs s j)\<rparr>"
proof (induction xs arbitrary: s)
  case (Cons x xs)
  from Cons.prems(1) have "for_each f xs (s\<lparr>ov_objs := (ov_objs s)(x := g (ov_objs s x))\<rparr>) = (Inr (), s')"
    by (simp add: assms [of x s])
  from Cons.IH [OF this] Cons.prems(2) show ?case by (auto simp: fun_eq_iff)
qed simp

context flag_source
begin

lemma normalize_settles:
  assumes "normalize_py_method_flags ops h s = (Inr (), s')" "wo_get_flags ops = get_flags"
    and "length (ov_wrappers s) \<noteq> 1" "distinct (ov_wrappers s)"
    and "\<forall>j \<in> set (ov_wrappers s). good (wo_set_force_parse ops (ov_objs s j))"
  shows "subseq (ov_wrappers s') (ov_wrappers s) \<and> (\<exists>fs. \<forall>j \<in> set (ov_wrappers s'). settled (ov_objs s' j) fs)"
proof -
  from assms(1,3) obtain s1 where
      force: "for_each (\<lambda>i. upd (\<lambda>s. s\<lparr>ov_objs := (ov_objs s)(i := wo_set_force_parse ops (ov_objs s i))\<rparr>)) (ov_wrappers s) s = (Inr (), s1)"
      and loop: "normalize_loop ops h None s1 = (Inr (), s')"
    by (auto simp: normalize_py_method_flags_def simp del: normalize_loop.simps elim!: bnd_eq_InrE)
  from force_parse_all [OF _ force assms(4), of "wo_set_force_parse ops"] assms(5)
  have "ov_wrappers s1 = ov_wrappers s" "\<forall>j \<in> set (ov_wrappers s1). good (ov_objs s1 j)" by auto
  with loop_settles [OF loop assms(2)] assms(4) show ?thesis by simp
qed

end

section \<open>Functions meet the contract of the base class\<close>

lemma plain_cleanup_block: "plain_code (w_write_cleanup b)"
  unfolding w_write_cleanup_def plain_code_def
  by (intro conjI named_block calls.adds_block parses.adds_block builds.adds_block)
     (fold w_write_cleanup_def, rule keeps_write_cleanup)

lemma plain_custodians: "plain_code (implement_custodians b post custodies)"
  unfolding implement_custodians_def get_custodian_or_ward_def add_ward_def w_cleanup_def
  by (auto intro!: plain_rules simp del: ret_run)

lemma plain_call_in_try: "plain_code call \<Longrightarrow> plain_code (call_in_try throw error_return call)"
  unfolding call_in_try_def write_convert_to_python_def
  by (auto intro!: plain_rules plain_cleanup_block simp del: ret_run)

lemma plain_generate_call: "plain_code (Function_generate_call f)"
  unfolding Function_generate_call_def by (intro plain_rules plain_call_in_try)

text \<open>The handlers of a function keep the contract of the wrappers.\<close>

definition func_ok :: "func \<Rightarrow> bool" where
  "func_ok f \<longleftrightarrow> list_all (\<lambda>p. forward_param_ok (ph_object p)) (f_parameters f) \<and>
     keeps wrapper_grows (ro_convert_c_to_python (rh_object (f_return_value f)))"

lemma forward_of_ok: "func_ok f \<Longrightarrow> forward_class_ok (forward_of f)"
  unfolding func_ok_def forward_class_ok_def forward_of_def implement_parameter_custodians_precall_def
    implement_parameter_custodians_postcall_def
  by (auto simp: list.pred_map comp_def plainD plain_custodians plain_generate_call plain_prims split: func_class.split
      simp del: ret_run)

lemma reset_meth_flags:
  assumes "reset_code_generation_state fc w = (Inr (), w')"
  shows "w_meth_flags w' = []"
proof -
  from assms obtain w1 where "init_code_generation_state fc w1 = (Inr (), w')" "w_meth_flags w1 = []"
    by (auto simp: reset_code_generation_state_def elim!: bnd_eq_InrE)
  with keepsD [OF init_state_scope_only this(1)] show ?thesis by (auto simp: scope_only_def)
qed

text \<open>The flags that a wrapper with forced keyword parsing reports, and that asking for them keeps.\<close>

definition forced_flags :: "wrapper \<Rightarrow> string set" where
  "forced_flags w = (if w_meth_flags w = [] then {''METH_VARARGS'', ''METH_KEYWORDS''} else set (w_meth_flags w))"

lemma get_flags_forced:
  assumes "forward_class_ok fc" "w_meth_flags w = [] \<longrightarrow> fc_force_parse fc = Some PARSE_TUPLE_AND_KEYWORDS"
    and run: "get_py_method_def_flags fc w = (Inr fl, w')"
  shows "set fl = forced_flags w \<and> w_meth_flags w' = w_meth_flags w"
proof (cases "w_meth_flags w = []")
  case False
  with run show ?thesis by (auto simp: get_py_method_def_flags_def flag_set_def forced_flags_def)
next
  case True
  obtain w1 where fill: "fill_body fc w = (Inr (), w1)" and fl: "fl = flag_set (w_meth_flags w1)"
      and "reset_code_generation_state fc (emptied w1) = (Inr (), w')"
    using method_def_flags_Inr [OF True run] by blast
  from reset_meth_flags [OF this(3)] have "w_meth_flags w' = []" .
  moreover obtain items where "w_meth_flags w1 = expected_flags fc items"
    using fill_body_frame [OF assms(1) fill] True by auto
  ultimately show ?thesis
    using assms(2) True fl by (auto simp: forced_flags_def flag_set_def expected_flags_def PARSE_TUPLE_AND_KEYWORDS_def)
qed

definition good_func :: "func \<Rightarrow> bool" where
  "good_func f \<longleftrightarrow> func_ok f \<and> (w_meth_flags (f_wrapper f) = [] \<longrightarrow> f_force_parse f = Some PARSE_TUPLE_AND_KEYWORDS)"

definition func_flags :: "func \<Rightarrow> string set" where
  "func_flags f = forced_flags (f_wrapper f)"

interpretation fns: flag_source fn_get_flags good_func func_flags
proof
  fix f fl f'
  assume good: "good_func f" and run: "fn_get_flags f = (Inr fl, f')"
  then obtain w where w: "get_py_method_def_flags (forward_of f) (f_wrapper f) = (Inr fl, w)" and f': "f' = f\<lparr>f_wrapper := w\<rparr>"
    by (auto simp: fn_get_flags_def on_fw_def split: prod.splits)
  from get_flags_forced [OF forward_of_ok _ w] good
  have "set fl = forced_flags (f_wrapper f) \<and> w_meth_flags w = w_meth_flags (f_wrapper f)"
    by (simp add: good_func_def forward_of_def)
  with good f' show "good_func f' \<and> set fl = func_flags f \<and> func_flags f' = func_flags f"
    by (simp add: good_func_def func_ok_def func_flags_def forced_flags_def)
qed

section \<open>Properties\<close>

text \<open>
  C4. Overloads of a function end up with one calling convention.  When the flags of several wrappers
  (generated or custom) have been normalised without an error, the wrappers that are left are some of
  the given ones in their order, and every one of them reports the same set of method flags.
\<close>

theorem overloads_share_flags:
  assumes "normalize_py_method_flags (func_ops sk) h s = (Inr (), s')"
    and "length (ov_wrappers s) \<noteq> 1" and "distinct (ov_wrappers s)"
    and "\<forall>j \<in> set (ov_wrappers s). func_ok (ov_objs s j)"
  shows "subseq (ov_wrappers s') (ov_wrappers s) \<and>
    (\<exists>fs. \<forall>j \<in> set (ov_wrappers s'). \<forall>fl f. fn_get_flags (ov_objs s' j) = (Inr fl, f) \<longrightarrow> set fl = fs)"
proof -
  have "subseq (ov_wrappers s') (ov_wrappers s) \<and> (\<exists>fs. \<forall>j \<in> set (ov_wrappers s'). fns.settled (ov_objs s' j) fs)"
    using fns.normalize_settles [OF assms(1) _ assms(2,3)] assms(4) by (simp add: func_ops_def good_func_def func_ok_def)
  then show ?thesis by (metis fns.own_flags fns.settled_def)
qed

definition sample_func :: func where
  "sample_func = \<lparr>f_class = Plain_Function, f_wrapper = empty_wrapper Forward ''return NULL;'' ''return NULL;'',
     f_return_value = \<lparr>rh_object = \<lparr>ro_ctype = ''void'', ro_ctype_no_const = ''void'', ro_requires_assignment_constructor = False,
       ro_get_c_error_return = Inr ''return;'', ro_convert_python_to_c = ret (), ro_convert_c_to_python = ret ()\<rparr>,
       rh_custodian = None, rh_return_internal_reference = False\<rparr>,
     f_parameters = [], f_force_parse = None, f_unblock_threads = False, f_deprecated = PyBool False,
     f_foreign_cpp_namespace = [], f_module = Some \<lparr>mi_prefix = ''m'', mi_cpp_namespace_prefix = []\<rparr>, f_function_name = Some ''f'',
     f_wrapper_base_name = Some ''_wrap_m_f'', f_wrapper_actual_name = None, f_wrapper_args = None, f_wrapper_return = None,
     f_docstring = None, f_self_parameter_pystruct = None, f_template_parameters = [], f_custom_name = None,
     f_mangled_name = ''f'', f_throw = [], f_custodians_and_wards = [], f_section = None\<rparr>"

definition sample_overload :: "func overload" where
  "sample_overload = (OverloadedWrapper_init (\<lambda>_. sample_func) ''_wrap_m_f'')\<lparr>ov_wrappers := [0, 1]\<rparr>"

lemma sample_overload_run:
  "case normalize_py_method_flags (func_ops null_class) None sample_overload of
     (r, s) \<Rightarrow> r = Inr () \<and> ov_wrappers s = [0, 1]"
  by code_simp

theorem overloads_share_flags_witness:
  "\<exists>s fs. normalize_py_method_flags (func_ops null_class) None sample_overload = (Inr (), s) \<and> ov_wrappers s = [0, 1] \<and>
     {set fl |j fl f. j \<in> set (ov_wrappers s) \<and> fn_get_flags (ov_objs s j) = (Inr fl, f)} \<subseteq> {fs}"
proof -
  obtain s where s: "normalize_py_method_flags (func_ops null_class) None sample_overload = (Inr (), s)" "ov_wrappers s = [0, 1]"
    using sample_overload_run by (auto split: prod.splits)
  have "\<forall>j \<in> set (ov_wrappers sample_overload). func_ok (ov_objs sample_overload j)"
    "length (ov_wrappers sample_overload) \<noteq> 1" "distinct (ov_wrappers sample_overload)"
    by (simp_all add: sample_overload_def OverloadedWrapper_init_def func_ok_def sample_func_def grows.keeps_ret del: ret_run)
  with overloads_share_flags [OF s(1)] obtain fs where
      "\<forall>j \<in> set (ov_wrappers s). \<forall>fl f. fn_get_flags (ov_objs s j) = (Inr fl, f) \<longrightarrow> set fl = fs" by auto
  then have "{set fl |j fl f. j \<in> set (ov_wrappers s) \<and> fn_get_flags (ov_objs s j) = (Inr fl, f)} \<subseteq> {fs}" by blast
  with s show ?thesis by blast
qed

end
