(* ===== verification/Enumeration.thy ===== *)
theory Enumeration
  imports Cpp_Class Int_Types
begin

text \<open>
  Enumerations (\<open>src/pybindgen/enum.py\<close>): the type handlers that an enumeration registers for itself and
  the constants that it adds to a module or to the dictionary of its class.
\<close>

section \<open>State\<close>

text \<open>A value is a name, or a name with a C expression.\<close>

datatype enum_value = Value_Name string | Value_Expr string string

record enum =
  en_name :: string
  en_full_name :: "string option"
  en_values :: "enum_value list"
  en_values_prefix :: string
  en_cpp_namespace :: string
  en_outer_class :: "cpp_class option"
  en_import_from_module :: "string option"
  en_module_prefix :: "string option"

definition Enum_init ::
  "string \<Rightarrow> enum_value list \<Rightarrow> string \<Rightarrow> string \<Rightarrow> cpp_class option \<Rightarrow> string option \<Rightarrow> enum res" where
  "Enum_init name vals values_prefix cpp_namespace outer_class import_from_module =
     (if occurs_in ''::'' name then Inl AssertionError
      else Inr \<lparr>en_name = name, en_full_name = None, en_values = vals, en_values_prefix = values_prefix,
        en_cpp_namespace = cpp_namespace, en_outer_class = outer_class, en_import_from_module = import_from_module,
        en_module_prefix = None\<rparr>)"

section \<open>Type handlers\<close>

text \<open>The four classes, each with its \<open>full_type_name\<close>.\<close>

datatype enum_handler =
    ThisEnumParameter string | ThisEnumReturn string | ThisEnumRefParameter string | ThisEnumPtrParameter string

text \<open>The constructors ignore the type they are given and use \<open>full_type_name\<close>.\<close>

definition ThisEnumParameter_init :: "string \<Rightarrow> ctype_arg \<Rightarrow> string \<Rightarrow> int \<Rightarrow> bool \<Rightarrow> pyval \<Rightarrow> param res option" where
  "ThisEnumParameter_init full_type_name ctype name direction is_const default_value =
     Parameter_init (pc_directions IntParam) (String_Arg full_type_name) name direction is_const default_value"

definition ThisEnumReturn_init :: "string \<Rightarrow> ctype_arg \<Rightarrow> bool \<Rightarrow> retval res option" where
  "ThisEnumReturn_init full_type_name ctype is_const = ReturnValue_init (String_Arg full_type_name) is_const"

definition ThisEnumRefParameter_init :: "string \<Rightarrow> ctype_arg \<Rightarrow> string \<Rightarrow> int \<Rightarrow> bool \<Rightarrow> pyval \<Rightarrow> param res option" where
  "ThisEnumRefParameter_init full_type_name ctype name direction is_const default_value =
     Parameter_init (pc_directions IntRefParam) (String_Arg full_type_name) name direction is_const default_value"

definition ThisEnumPtrParameter_init :: "string \<Rightarrow> ctype_arg \<Rightarrow> string \<Rightarrow> int option \<Rightarrow> bool \<Rightarrow> pyval \<Rightarrow> param res option" where
  "ThisEnumPtrParameter_init full_type_name ctype name direction is_const transfer_ownership =
     IntPtrParam_init (String_Arg full_type_name) name direction is_const transfer_ownership"

section \<open>Registration\<close>

text \<open>
  A sequence of registrations in the matchers of parameters and of return values; \<open>inject\<close> embeds the
  handlers of enumerations into those of all types.
\<close>

datatype matcher_name = Param_Matcher | Return_Matcher

type_synonym 'h registration = "matcher_name \<times> string \<times> 'h"

type_synonym ('h, 't) registrar =
  "string \<Rightarrow> 'h \<Rightarrow> ('h, 't) type_matcher \<Rightarrow> (unit res \<times> ('h, 't) type_matcher) option"

definition register_in :: "('h, 't) registrar \<Rightarrow> 'h registration \<Rightarrow> ('h, 't) matchers \<Rightarrow> (unit res \<times> ('h, 't) matchers) option" where
  "register_in reg = (\<lambda>(which, name, handler) (params, returns).
     case which of
       Param_Matcher \<Rightarrow> map_option (\<lambda>(r, params'). (r, (params', returns))) (reg name handler params)
     | Return_Matcher \<Rightarrow> map_option (\<lambda>(r, returns'). (r, (params, returns'))) (reg name handler returns))"

fun register_each :: "('h, 't) registrar \<Rightarrow> 'h registration list \<Rightarrow> ('h, 't) matchers \<Rightarrow> (unit res \<times> ('h, 't) matchers) option" where
  "register_each reg [] ms = Some (Inr (), ms)"
| "register_each reg (g # rest) ms =
     (case register_in reg g ms of
        None \<Rightarrow> None
      | Some (Inl e, ms') \<Rightarrow> Some (Inl e, ms')
      | Some (Inr _, ms') \<Rightarrow> register_each reg rest ms')"

definition enum_registrations :: "(enum_handler \<Rightarrow> 'h) \<Rightarrow> string \<Rightarrow> string \<Rightarrow> 'h registration list" where
  "enum_registrations inject full_name name =
     [(Param_Matcher, name, inject (ThisEnumParameter full_name)),
      (Return_Matcher, name, inject (ThisEnumReturn full_name)),
      (Param_Matcher, name @ '' &'', inject (ThisEnumRefParameter (full_name @ '' &''))),
      (Param_Matcher, name @ '' *'', inject (ThisEnumPtrParameter (full_name @ '' *'')))]"

text \<open>\<open>set_module\<close>, for the namespace prefix of the module.  It can be set only once.\<close>

definition enum_full_name :: "string \<Rightarrow> enum \<Rightarrow> string" where
  "enum_full_name cpp_namespace_prefix e =
     (case en_outer_class e of
        None \<Rightarrow>
          if cpp_namespace_prefix = [] then en_name e
          else if cpp_namespace_prefix = ''::'' then ''::'' @ en_name e
          else cpp_namespace_prefix @ ''::'' @ en_name e
      | Some outer \<Rightarrow> cc_full_name outer @ ''::'' @ en_name e)"

definition enum_set_module ::
  "(enum_handler \<Rightarrow> 'h) \<Rightarrow> string \<Rightarrow> enum \<times> ('h, 't) matchers \<Rightarrow> (unit res \<times> enum \<times> ('h, 't) matchers) option" where
  "enum_set_module inject cpp_namespace_prefix = (\<lambda>(e, ms).
     if en_module_prefix e \<noteq> None then Some (Inl AssertionError, e, ms)
     else let e = e\<lparr>en_module_prefix := Some cpp_namespace_prefix\<rparr> in
       if en_name e = [] then Some (Inr (), e, ms)
       else let full_name = enum_full_name cpp_namespace_prefix e; e = e\<lparr>en_full_name := Some full_name\<rparr> in
         case register_each register (enum_registrations inject full_name full_name) ms of
           None \<Rightarrow> None
         | Some (Inl err, ms') \<Rightarrow> Some (Inl err, e, ms')
         | Some (Inr _, ms') \<Rightarrow>
             if en_name e = full_name then Some (Inr (), e, ms')
             else map_option (\<lambda>(r, ms''). (r, e, ms'')) 
               (register_each register_or_pass (enum_registrations inject full_name (en_name e)) ms'))"

section \<open>Generation\<close>

text \<open>The code that goes to the \<open>after_init\<close> block of the module.\<close>

definition module_constant :: "string list \<Rightarrow> string \<Rightarrow> enum_value \<Rightarrow> string" where
  "module_constant namespace values_prefix v = (case v of
     Value_Expr name real_value \<Rightarrow> ''PyModule_AddIntConstant(m, (char *) '' @ dq @ name @ dq @ '', '' @ real_value @ '');''
   | Value_Name name \<Rightarrow> ''PyModule_AddIntConstant(m, (char *) '' @ dq @ name @ dq @ '', '' @ join ''::'' (namespace @ [values_prefix @ name]) @ '');'')"

definition class_constant :: "cpp_class \<Rightarrow> enum_value \<Rightarrow> string" where
  "class_constant outer v =
     (case (case v of Value_Expr name expr \<Rightarrow> (name, expr) | Value_Name name \<Rightarrow> (name, cc_full_name outer @ ''::'' @ name)) of
        (value_name, value_str) \<Rightarrow> join nl [
          '' // '' @ value_str,
          ''tmp_value = PyInt_FromLong('' @ value_str @ '');'',
          ''PyDict_SetItemString((PyObject*) '' @ cc_pytypestruct outer @ ''.tp_dict, '' @ dq @ value_name @ dq @ '', tmp_value);'',
          ''Py_DECREF(tmp_value);''])"

definition Enum_generate :: "enum \<Rightarrow> (code_block, unit) py" where
  "Enum_generate e =
     (if (case en_import_from_module e of None \<Rightarrow> False | Some s \<Rightarrow> s \<noteq> []) then ret ()
      else case en_outer_class e of
        None \<Rightarrow>
          (case en_module_prefix e of
             None \<Rightarrow> raise_py (AttributeError ''cpp_namespace_prefix'')
           | Some ns \<Rightarrow>
               let namespace = (if ns \<noteq> [] then [ns] else []) @ (if en_cpp_namespace e \<noteq> [] then [en_cpp_namespace e] else [])
               in for_each (\<lambda>v. cb_write_code (module_constant namespace (en_values_prefix e) v)) (en_values e))
      | Some outer \<Rightarrow> seqs [
          cb_write_code ''{'',
          cb_indent 4,
          cb_write_code ''PyObject *tmp_value;'',
          for_each (\<lambda>v. cb_write_code (class_constant outer v)) (en_values e),
          cb_unindent,
          cb_write_code ''}''])"

section \<open>A registered enumeration is found\<close>

definition matcher_of :: "matcher_name \<Rightarrow> ('h, 't) matchers \<Rightarrow> ('h, 't) type_matcher" where
  "matcher_of which ms = (case which of Param_Matcher \<Rightarrow> fst ms | Return_Matcher \<Rightarrow> snd ms)"

lemma register_in_Inr:
  assumes "register_in register (which, name, h) ms = Some (Inr (), ms')"
  shows "\<exists>n. normalize_type_string name = Some (Inr n) \<and> map_of (tm_types (matcher_of which ms')) n = Some h"
    and "map_of (tm_types (matcher_of w ms)) \<subseteq>\<^sub>m map_of (tm_types (matcher_of w ms'))"
proof -
  have r: "register name h (matcher_of which ms) = Some (Inr (), matcher_of which ms')"
    and other: "w \<noteq> which \<Longrightarrow> matcher_of w ms' = matcher_of w ms" for w
    using assms by (cases ms; cases which; cases w; auto simp: register_in_def matcher_of_def)+
  from register_Inr [OF r] obtain n where n: "normalize_type_string name = Some (Inr n)"
      "map_of (tm_types (matcher_of which ms)) n = None"
      "map_of (tm_types (matcher_of which ms')) = (map_of (tm_types (matcher_of which ms)))(n \<mapsto> h)"
    by blast
  then show "\<exists>n. normalize_type_string name = Some (Inr n) \<and> map_of (tm_types (matcher_of which ms')) n = Some h" by auto
  show "map_of (tm_types (matcher_of w ms)) \<subseteq>\<^sub>m map_of (tm_types (matcher_of w ms'))"
    using n other [of w] by (cases "w = which") (auto simp: map_le_def)
qed

lemma register_each_keeps:
  "register_each register gs ms = Some (Inr (), ms') \<Longrightarrow>
     map_of (tm_types (matcher_of w ms)) \<subseteq>\<^sub>m map_of (tm_types (matcher_of w ms'))"
proof (induction gs arbitrary: ms)
  case (Cons g gs)
  then obtain ms1 where "register_in register g ms = Some (Inr (), ms1)" "register_each register gs ms1 = Some (Inr (), ms')"
    by (auto split: option.splits sum.splits prod.splits)
  then show ?case using Cons.IH register_in_Inr(2) [of "fst g" "fst (snd g)" "snd (snd g)" ms ms1 w] by (simp add: map_le_trans)
qed auto

lemma register_each_finds:
  "register_each register gs ms = Some (Inr (), ms') \<Longrightarrow> (which, name, h) \<in> set gs \<Longrightarrow>
     \<exists>n. normalize_type_string name = Some (Inr n) \<and> map_of (tm_types (matcher_of which ms')) n = Some h"
proof (induction gs arbitrary: ms)
  case (Cons g gs)
  then obtain ms1 where one: "register_in register g ms = Some (Inr (), ms1)"
      and rest: "register_each register gs ms1 = Some (Inr (), ms')"
    by (auto split: option.splits sum.splits prod.splits)
  show ?case
  proof (cases "g = (which, name, h)")
    case True
    with register_in_Inr(1) one register_each_keeps [OF rest, of which] show ?thesis
      by (metis (no_types, lifting) domI map_le_def)
  next
    case False
    then show ?thesis using Cons.IH [OF rest] Cons.prems(2) by auto
  qed
qed auto

text \<open>
  Once the module of an enumeration is set without an error, all four spellings of its full name are
  found, as the handlers of this enumeration; the short name never replaces the handler of another type.
\<close>

lemma register_keeps:
  "register name h tm = Some (r, tm') \<Longrightarrow> map_of (tm_types tm) \<subseteq>\<^sub>m map_of (tm_types tm')"
  by (cases "normalize_type_string name")
    (auto simp: register_def register_normalized_def map_le_def update_conv' split: sum.splits if_splits option.splits)

lemma register_or_pass_keeps:
  "register_or_pass name h tm = Some (r, tm') \<Longrightarrow> map_of (tm_types tm) \<subseteq>\<^sub>m map_of (tm_types tm')"
  by (auto simp: register_or_pass_def dest: register_keeps)

lemma register_in_or_pass_keeps:
  "register_in register_or_pass g ms = Some (r, ms') \<Longrightarrow>
     map_of (tm_types (matcher_of w ms)) \<subseteq>\<^sub>m map_of (tm_types (matcher_of w ms'))"
  by (cases ms; cases w; cases "fst g"; cases g) (auto simp: register_in_def matcher_of_def dest: register_or_pass_keeps)

lemma register_each_or_pass_keeps:
  "register_each register_or_pass gs ms = Some (r, ms') \<Longrightarrow>
     map_of (tm_types (matcher_of w ms)) \<subseteq>\<^sub>m map_of (tm_types (matcher_of w ms'))"
proof (induction gs arbitrary: ms)
  case (Cons g gs)
  then obtain r1 ms1 where one: "register_in register_or_pass g ms = Some (r1, ms1)"
      and "ms1 = ms' \<or> register_each register_or_pass gs ms1 = Some (r, ms')"
    by (auto split: option.splits sum.splits prod.splits)
  with Cons.IH [of ms1] map_le_trans [OF register_in_or_pass_keeps [OF one, of w]]
  show ?case using register_in_or_pass_keeps [OF one, of w] by blast
qed auto

lemma enum_set_module_finds:
  assumes "enum_set_module inject ns (e, ms) = Some (Inr (), e', ms')" and "en_name e \<noteq> []"
    and "(which, name, h) \<in> set (enum_registrations inject (enum_full_name ns e) (enum_full_name ns e))"
  shows "\<exists>n. normalize_type_string name = Some (Inr n) \<and> map_of (tm_types (matcher_of which ms')) n = Some h"
proof -
  have full: "enum_full_name ns (e\<lparr>en_module_prefix := m\<rparr>) = enum_full_name ns e" for m
    by (simp add: enum_full_name_def split: option.split)
  obtain ms1 where one: "register_each register (enum_registrations inject (enum_full_name ns e) (enum_full_name ns e)) ms = Some (Inr (), ms1)"
      and rest: "ms1 = ms' \<or> (\<exists>gs. register_each register_or_pass gs ms1 = Some (Inr (), ms'))"
    using assms(1,2) full
    by (auto simp: enum_set_module_def Let_def split: if_splits option.splits sum.splits prod.splits)
  have "map_of (tm_types (matcher_of which ms1)) \<subseteq>\<^sub>m map_of (tm_types (matcher_of which ms'))"
    using rest register_each_or_pass_keeps [of _ ms1 _ ms' which] map_le_refl by metis
  with register_each_finds [OF one assms(3)] show ?thesis by (metis (no_types, lifting) domI map_le_def)
qed

end
