(* ===== verification/Type_Object.thy ===== *)
theory Type_Object
  imports Template Utils
begin

text \<open>
  The structures that describe a Python type (\<open>src/pybindgen/pytypeobject.py\<close>): \<open>PyTypeObject\<close>,
  \<open>PyNumberMethods\<close> and \<open>PySequenceMethods\<close>, generated from templates and a dictionary of slots.
\<close>

section \<open>Slots\<close>

type_synonym slots = "(string \<times> string) list"

definition setdefault :: "string \<times> string \<Rightarrow> slots \<Rightarrow> slots" where
  "setdefault kv slots = (if map_of slots (fst kv) = None then slots @ [kv] else slots)"

text \<open>\<open>slots.setdefault(...)\<close> for each pair, then \<open>code_sink.writeln(TEMPLATE % slots)\<close>.\<close>

definition generate_slots :: "piece list \<Rightarrow> slots \<Rightarrow> slots \<Rightarrow> sink_cmd res" where
  "generate_slots TEMPLATE defaults slots =
     bind_res (percent_format (map_of (fold setdefault defaults slots)) (template TEMPLATE)) (\<lambda>text. Inr (Writeln text))"

section \<open>PyTypeObject\<close>

definition PyTypeObject_TEMPLATE :: "piece list" where
  "PyTypeObject_TEMPLATE = [
   Lit (''PyTypeObject ''), Slot ''typestruct'',
   Lit ('' = {'' @ nl @ ''    PyObject_HEAD_INIT(NULL)'' @ nl @ ''    0,                                 /* ob_size */'' @ nl @ ''    (char *) '' @ dq),
   Slot ''tp_name'', Lit (dq @ '',            /* tp_name */'' @ nl @ ''    ''), Slot ''tp_basicsize'',
   Lit ('',                  /* tp_basicsize */'' @ nl @ ''    0,                                 /* tp_itemsize */'' @ nl @ ''    /* methods */'' @ nl @ ''    (destructor)''),
   Slot ''tp_dealloc'',
   Lit ('',        /* tp_dealloc */'' @ nl @ ''    (printfunc)0,                      /* tp_print */'' @ nl @ ''    (getattrfunc)''),
   Slot ''tp_getattr'', Lit ('',       /* tp_getattr */'' @ nl @ ''    (setattrfunc)''), Slot ''tp_setattr'',
   Lit ('',       /* tp_setattr */'' @ nl @ ''    (cmpfunc)''), Slot ''tp_compare'',
   Lit ('',           /* tp_compare */'' @ nl @ ''    (reprfunc)''), Slot ''tp_repr'',
   Lit ('',             /* tp_repr */'' @ nl @ ''    (PyNumberMethods*)''), Slot ''tp_as_number'',
   Lit ('',     /* tp_as_number */'' @ nl @ ''    (PySequenceMethods*)''), Slot ''tp_as_sequence'',
   Lit ('', /* tp_as_sequence */'' @ nl @ ''    (PyMappingMethods*)''), Slot ''tp_as_mapping'',
   Lit ('',   /* tp_as_mapping */'' @ nl @ ''    (hashfunc)''), Slot ''tp_hash'',
   Lit ('',             /* tp_hash */'' @ nl @ ''    (ternaryfunc)''), Slot ''tp_call'',
   Lit ('',          /* tp_call */'' @ nl @ ''    (reprfunc)''), Slot ''tp_str'',
   Lit ('',              /* tp_str */'' @ nl @ ''    (getattrofunc)''), Slot ''tp_getattro'',
   Lit ('',     /* tp_getattro */'' @ nl @ ''    (setattrofunc)''), Slot ''tp_setattro'',
   Lit ('',     /* tp_setattro */'' @ nl @ ''    (PyBufferProcs*)''), Slot ''tp_as_buffer'',
   Lit ('',  /* tp_as_buffer */'' @ nl @ ''    ''), Slot ''tp_flags'',
   Lit ('',                      /* tp_flags */'' @ nl @ ''    ''), Slot ''tp_doc'',
   Lit ('',                        /* Documentation string */'' @ nl @ ''    (traverseproc)''), Slot ''tp_traverse'',
   Lit ('',     /* tp_traverse */'' @ nl @ ''    (inquiry)''), Slot ''tp_clear'',
   Lit ('',             /* tp_clear */'' @ nl @ ''    (richcmpfunc)''), Slot ''tp_richcompare'',
   Lit ('',   /* tp_richcompare */'' @ nl @ ''    ''), Slot ''tp_weaklistoffset'',
   Lit ('',             /* tp_weaklistoffset */'' @ nl @ ''    (getiterfunc)''), Slot ''tp_iter'',
   Lit ('',          /* tp_iter */'' @ nl @ ''    (iternextfunc)''), Slot ''tp_iternext'',
   Lit ('',     /* tp_iternext */'' @ nl @ ''    (struct PyMethodDef*)''), Slot ''tp_methods'',
   Lit ('', /* tp_methods */'' @ nl @ ''    (struct PyMemberDef*)0,              /* tp_members */'' @ nl @ ''    ''),
   Slot ''tp_getset'',
   Lit ('',                     /* tp_getset */'' @ nl @ ''    NULL,                              /* tp_base */'' @ nl @ ''    NULL,                              /* tp_dict */'' @ nl @ ''    (descrgetfunc)''),
   Slot ''tp_descr_get'', Lit ('',    /* tp_descr_get */'' @ nl @ ''    (descrsetfunc)''), Slot ''tp_descr_set'',
   Lit ('',    /* tp_descr_set */'' @ nl @ ''    ''), Slot ''tp_dictoffset'',
   Lit ('',                 /* tp_dictoffset */'' @ nl @ ''    (initproc)''), Slot ''tp_init'',
   Lit ('',             /* tp_init */'' @ nl @ ''    (allocfunc)''), Slot ''tp_alloc'',
   Lit ('',           /* tp_alloc */'' @ nl @ ''    (newfunc)''), Slot ''tp_new'',
   Lit ('',               /* tp_new */'' @ nl @ ''    (freefunc)''), Slot ''tp_free'',
   Lit ('',             /* tp_free */'' @ nl @ ''    (inquiry)''), Slot ''tp_is_gc'',
   Lit ('',             /* tp_is_gc */'' @ nl @ ''    NULL,                              /* tp_bases */'' @ nl @ ''    NULL,                              /* tp_mro */'' @ nl @ ''    NULL,                              /* tp_cache */'' @ nl @ ''    NULL,                              /* tp_subclasses */'' @ nl @ ''    NULL,                              /* tp_weaklist */'' @ nl @ ''    (destructor) NULL                  /* tp_del */'' @ nl @ ''};'' @ nl)]"

definition PyTypeObject_defaults :: slots where
  "PyTypeObject_defaults = [
   (''tp_dealloc'', ''NULL''), (''tp_getattr'', ''NULL''), (''tp_setattr'', ''NULL''), (''tp_compare'', ''NULL''),
   (''tp_repr'', ''NULL''), (''tp_as_number'', ''NULL''), (''tp_as_sequence'', ''NULL''), (''tp_as_mapping'', ''NULL''),
   (''tp_hash'', ''NULL''), (''tp_call'', ''NULL''), (''tp_str'', ''NULL''), (''tp_getattro'', ''NULL''),
   (''tp_setattro'', ''NULL''), (''tp_as_buffer'', ''NULL''), (''tp_flags'', ''Py_TPFLAGS_DEFAULT''), (''tp_doc'', ''NULL''),
   (''tp_traverse'', ''NULL''), (''tp_clear'', ''NULL''), (''tp_richcompare'', ''NULL''), (''tp_weaklistoffset'', ''0''),
   (''tp_iter'', ''NULL''), (''tp_iternext'', ''NULL''), (''tp_methods'', ''NULL''), (''tp_getset'', ''NULL''),
   (''tp_descr_get'', ''NULL''), (''tp_descr_set'', ''NULL''), (''tp_dictoffset'', ''0''), (''tp_init'', ''NULL''),
   (''tp_alloc'', ''PyType_GenericAlloc''), (''tp_new'', ''PyType_GenericNew''), (''tp_free'', ''0''), (''tp_is_gc'', ''NULL'')]"

definition PyTypeObject_generate :: "slots \<Rightarrow> sink_cmd res" where
  "PyTypeObject_generate = generate_slots PyTypeObject_TEMPLATE PyTypeObject_defaults"

section \<open>PyNumberMethods\<close>

definition PyNumberMethods_TEMPLATE :: "piece list" where
  "PyNumberMethods_TEMPLATE = [
   Lit (''static PyNumberMethods ''), Slot ''variable'', Lit ('' = {'' @ nl @ ''    (binaryfunc) ''), Slot ''nb_add'',
   Lit ('','' @ nl @ ''    (binaryfunc) ''), Slot ''nb_subtract'', Lit ('','' @ nl @ ''    (binaryfunc) ''),
   Slot ''nb_multiply'', Lit ('','' @ nl @ ''    (binaryfunc) ''), Slot ''nb_divide'', Lit ('','' @ nl @ ''    (binaryfunc) ''),
   Slot ''nb_remainder'', Lit ('','' @ nl @ ''    (binaryfunc) ''), Slot ''nb_divmod'',
   Lit ('','' @ nl @ ''    (ternaryfunc) ''), Slot ''nb_power'', Lit ('','' @ nl @ ''    (unaryfunc) ''), Slot ''nb_negative'',
   Lit ('','' @ nl @ ''    (unaryfunc) ''), Slot ''nb_positive'', Lit ('','' @ nl @ ''    (unaryfunc) ''), Slot ''nb_absolute'',
   Lit ('','' @ nl @ ''    (inquiry) ''), Slot ''nb_nonzero'', Lit ('','' @ nl @ ''    (unaryfunc) ''), Slot ''nb_invert'',
   Lit ('','' @ nl @ ''    (binaryfunc) ''), Slot ''nb_lshift'', Lit ('','' @ nl @ ''    (binaryfunc) ''), Slot ''nb_rshift'',
   Lit ('','' @ nl @ ''    (binaryfunc) ''), Slot ''nb_and'', Lit ('','' @ nl @ ''    (binaryfunc) ''), Slot ''nb_xor'',
   Lit ('','' @ nl @ ''    (binaryfunc) ''), Slot ''nb_or'', Lit ('','' @ nl @ ''    (coercion) ''), Slot ''nb_coerce'',
   Lit ('','' @ nl @ ''    (unaryfunc) ''), Slot ''nb_int'', Lit ('','' @ nl @ ''    (unaryfunc) ''), Slot ''nb_long'',
   Lit ('','' @ nl @ ''    (unaryfunc) ''), Slot ''nb_float'', Lit ('','' @ nl @ ''    (unaryfunc) ''), Slot ''nb_oct'',
   Lit ('','' @ nl @ ''    (unaryfunc) ''), Slot ''nb_hex'',
   Lit ('','' @ nl @ ''    /* Added in release 2.0 */'' @ nl @ ''    (binaryfunc) ''), Slot ''nb_inplace_add'',
   Lit ('','' @ nl @ ''    (binaryfunc) ''), Slot ''nb_inplace_subtract'', Lit ('','' @ nl @ ''    (binaryfunc) ''),
   Slot ''nb_inplace_multiply'', Lit ('','' @ nl @ ''    (binaryfunc) ''), Slot ''nb_inplace_divide'',
   Lit ('','' @ nl @ ''    (binaryfunc) ''), Slot ''nb_inplace_remainder'', Lit ('','' @ nl @ ''    (ternaryfunc) ''),
   Slot ''nb_inplace_power'', Lit ('','' @ nl @ ''    (binaryfunc) ''), Slot ''nb_inplace_lshift'',
   Lit ('','' @ nl @ ''    (binaryfunc) ''), Slot ''nb_inplace_rshift'', Lit ('','' @ nl @ ''    (binaryfunc) ''),
   Slot ''nb_inplace_and'', Lit ('','' @ nl @ ''    (binaryfunc) ''), Slot ''nb_inplace_xor'',
   Lit ('','' @ nl @ ''    (binaryfunc) ''), Slot ''nb_inplace_or'',
   Lit ('','' @ nl @ nl @ ''    /* Added in release 2.2 */'' @ nl @ ''    /* The following require the Py_TPFLAGS_HAVE_CLASS flag */'' @ nl @ ''    (binaryfunc) ''),
   Slot ''nb_floor_divide'', Lit ('','' @ nl @ ''    (binaryfunc) ''), Slot ''nb_true_divide'',
   Lit ('','' @ nl @ ''    (binaryfunc) ''), Slot ''nb_inplace_floor_divide'', Lit ('','' @ nl @ ''    (binaryfunc) ''),
   Slot ''nb_inplace_true_divide'',
   Lit ('','' @ nl @ nl @ ''#if PY_VERSION_HEX >= 0x020500F0'' @ nl @ ''    /* Added in release 2.5 */'' @ nl @ ''    (unaryfunc) ''),
   Slot ''nb_index'', Lit ('','' @ nl @ nl @ ''#endif'' @ nl @ ''};'' @ nl)]"

definition PyNumberMethods_defaults :: slots where
  "PyNumberMethods_defaults = [
   (''nb_add'', ''NULL''), (''nb_subtract'', ''NULL''), (''nb_multiply'', ''NULL''), (''nb_divide'', ''NULL''),
   (''nb_remainder'', ''NULL''), (''nb_divmod'', ''NULL''), (''nb_power'', ''NULL''), (''nb_negative'', ''NULL''),
   (''nb_positive'', ''NULL''), (''nb_absolute'', ''NULL''), (''nb_nonzero'', ''NULL''), (''nb_invert'', ''NULL''),
   (''nb_lshift'', ''NULL''), (''nb_rshift'', ''NULL''), (''nb_and'', ''NULL''), (''nb_xor'', ''NULL''), (''nb_or'', ''NULL''),
   (''nb_coerce'', ''NULL''), (''nb_int'', ''NULL''), (''nb_long'', ''NULL''), (''nb_float'', ''NULL''), (''nb_oct'', ''NULL''),
   (''nb_hex'', ''NULL''), (''nb_inplace_add'', ''NULL''), (''nb_inplace_subtract'', ''NULL''),
   (''nb_inplace_multiply'', ''NULL''), (''nb_inplace_divide'', ''NULL''), (''nb_inplace_remainder'', ''NULL''),
   (''nb_inplace_power'', ''NULL''), (''nb_inplace_lshift'', ''NULL''), (''nb_inplace_rshift'', ''NULL''),
   (''nb_inplace_and'', ''NULL''), (''nb_inplace_xor'', ''NULL''), (''nb_inplace_or'', ''NULL''),
   (''nb_floor_divide'', ''NULL''), (''nb_true_divide'', ''NULL''), (''nb_inplace_floor_divide'', ''NULL''),
   (''nb_inplace_true_divide'', ''NULL''), (''nb_index'', ''NULL'')]"

definition PyNumberMethods_generate :: "slots \<Rightarrow> sink_cmd res" where
  "PyNumberMethods_generate = generate_slots PyNumberMethods_TEMPLATE PyNumberMethods_defaults"

section \<open>PySequenceMethods\<close>

definition PySequenceMethods_TEMPLATE :: "piece list" where
  "PySequenceMethods_TEMPLATE = [
   Lit (nl @ ''static PySequenceMethods ''), Slot ''variable'', Lit ('' = {'' @ nl @ ''    (lenfunc) ''), Slot ''sq_length'',
   Lit ('','' @ nl @ ''    (binaryfunc) ''), Slot ''sq_concat'', Lit ('','' @ nl @ ''    (ssizeargfunc) ''), Slot ''sq_repeat'',
   Lit ('','' @ nl @ ''    (ssizeargfunc) ''), Slot ''sq_item'', Lit ('','' @ nl @ ''    (ssizessizeargfunc) ''),
   Slot ''sq_slice'', Lit ('','' @ nl @ ''    (ssizeobjargproc) ''), Slot ''sq_ass_item'',
   Lit ('','' @ nl @ ''    (ssizessizeobjargproc) ''), Slot ''sq_ass_slice'', Lit ('','' @ nl @ ''    (objobjproc) ''),
   Slot ''sq_contains'', Lit ('','' @ nl @ ''    /* Added in release 2.0 */'' @ nl @ ''    (binaryfunc) ''),
   Slot ''sq_inplace_concat'', Lit ('','' @ nl @ ''    (ssizeargfunc) ''), Slot ''sq_inplace_repeat'',
   Lit ('','' @ nl @ ''};'' @ nl @ nl)]"

definition PySequenceMethods_defaults :: slots where
  "PySequenceMethods_defaults = [
   (''sq_length'', ''NULL''), (''sq_concat'', ''NULL''), (''sq_repeat'', ''NULL''), (''sq_item'', ''NULL''),
   (''sq_slice'', ''NULL''), (''sq_ass_item'', ''NULL''), (''sq_ass_slice'', ''NULL''), (''sq_contains'', ''NULL''),
   (''sq_inplace_concat'', ''NULL''), (''sq_inplace_repeat'', ''NULL'')]"

definition PySequenceMethods_generate :: "slots \<Rightarrow> sink_cmd res" where
  "PySequenceMethods_generate = generate_slots PySequenceMethods_TEMPLATE PySequenceMethods_defaults"

text \<open>\<open>FUNCTION_TEMPLATES\<close>: the functions behind the sequence slots.\<close>

definition sq_length_template :: "piece list" where
  "sq_length_template = [
   Lit (nl @ ''static Py_ssize_t'' @ nl), Slot ''wrapper_name'', Lit ('' (''), Slot ''py_struct'',
   Lit ('' *py_self)'' @ nl @ ''{'' @ nl @ ''    PyObject *py_result;'' @ nl @ ''    Py_ssize_t result;'' @ nl @ nl @ ''    py_result = ''),
   Slot ''method_name'',
   Lit (''(py_self);'' @ nl @ ''    if (py_result == NULL) {'' @ nl @ ''        return -1;'' @ nl @ ''    }'' @ nl @ ''    result = PyInt_AsSsize_t(py_result);'' @ nl @ ''    Py_DECREF(py_result);'' @ nl @ ''    return result;'' @ nl @ ''}'' @ nl @ nl)]"

definition sq_length_ARGS_template :: "piece list" where
  "sq_length_ARGS_template = [
   Lit (nl @ ''static Py_ssize_t'' @ nl), Slot ''wrapper_name'', Lit ('' (''), Slot ''py_struct'',
   Lit ('' *py_self)'' @ nl @ ''{'' @ nl @ ''    PyObject *py_result;'' @ nl @ ''    PyObject *args;'' @ nl @ ''    Py_ssize_t result;'' @ nl @ nl @ ''    args = PyTuple_New (0);'' @ nl @ ''    py_result = ''),
   Slot ''method_name'',
   Lit (''(py_self, args, NULL);'' @ nl @ ''    Py_DECREF(args);'' @ nl @ ''    if (py_result == NULL) {'' @ nl @ ''        return -1;'' @ nl @ ''    }'' @ nl @ ''    result = PyInt_AsSsize_t(py_result);'' @ nl @ ''    Py_DECREF(py_result);'' @ nl @ ''    return result;'' @ nl @ ''}'' @ nl @ nl)]"

definition sq_item_template :: "piece list" where
  "sq_item_template = [
   Lit (nl @ ''static PyObject*'' @ nl), Slot ''wrapper_name'', Lit ('' (''), Slot ''py_struct'',
   Lit ('' *py_self, Py_ssize_t py_i)'' @ nl @ ''{'' @ nl @ ''    PyObject *result;'' @ nl @ ''    PyObject *args;'' @ nl @ nl @ ''    args = Py_BuildValue('' @ dq @ ''(i)'' @ dq @ '', py_i);'' @ nl @ ''    result = ''),
   Slot ''method_name'',
   Lit (''(py_self, args, NULL);'' @ nl @ ''    Py_DECREF(args);'' @ nl @ ''    if (PyErr_ExceptionMatches(PyExc_IndexError) ||'' @ nl @ ''        PyErr_ExceptionMatches(PyExc_StopIteration)) {'' @ nl @ ''        Py_XDECREF(result);'' @ nl @ ''        return NULL;'' @ nl @ ''    } else {'' @ nl @ ''        return result;'' @ nl @ ''    }'' @ nl @ ''}'' @ nl @ nl @ nl)]"

definition sq_ass_item_template :: "piece list" where
  "sq_ass_item_template = [
   Lit (nl @ ''static int'' @ nl), Slot ''wrapper_name'', Lit ('' (''), Slot ''py_struct'',
   Lit ('' *py_self, Py_ssize_t py_i, PyObject *py_val)'' @ nl @ ''{'' @ nl @ ''    PyObject *result;'' @ nl @ ''    PyObject *args;'' @ nl @ nl @ ''    args = Py_BuildValue('' @ dq @ ''(iO)'' @ dq @ '', py_i, py_val);'' @ nl @ ''    result = ''),
   Slot ''method_name'',
   Lit (''(py_self, args, NULL);'' @ nl @ ''    Py_DECREF(args);'' @ nl @ ''    if (result == NULL) {'' @ nl @ ''        return -1;'' @ nl @ ''    } else {'' @ nl @ ''        Py_DECREF(result);'' @ nl @ ''        return 0;'' @ nl @ ''    }'' @ nl @ ''}'' @ nl @ nl)]"


definition FUNCTION_TEMPLATES :: "string \<rightharpoonup> piece list" where
  "FUNCTION_TEMPLATES = map_of [(''sq_length'', sq_length_template), (''sq_length_ARGS'', sq_length_ARGS_template),
     (''sq_item'', sq_item_template), (''sq_ass_item'', sq_ass_item_template)]"

section \<open>Which slots are optional\<close>

text \<open>The value of a slot: the given one, else the default.\<close>

definition slot_env :: "slots \<Rightarrow> slots \<Rightarrow> string \<rightharpoonup> string" where
  "slot_env defaults slots k = (case map_of slots k of None \<Rightarrow> map_of defaults k | Some v \<Rightarrow> Some v)"

lemma map_of_setdefaults: "map_of (fold setdefault ds slots) k = slot_env ds slots k"
  by (induction ds arbitrary: slots)
     (auto simp: slot_env_def setdefault_def map_add_def map_of_append split: option.splits)

lemma templates_ok:
  "list_all piece_ok PyTypeObject_TEMPLATE" "list_all piece_ok PyNumberMethods_TEMPLATE" "list_all piece_ok PySequenceMethods_TEMPLATE"
  by code_simp+

lemma generate_slots_fill:
  assumes "list_all piece_ok T"
  shows "generate_slots T ds slots = bind_res (fill (slot_env ds slots) T) (\<lambda>text. Inr (Writeln text))"
proof -
  have "map_of (fold setdefault ds slots) = slot_env ds slots" by (simp add: fun_eq_iff map_of_setdefaults)
  then show ?thesis by (simp add: generate_slots_def percent_format_template [OF assms])
qed

text \<open>A slot must be given if it occurs in the template and has no default.\<close>

definition required_slots :: "piece list \<Rightarrow> slots \<Rightarrow> string list" where
  "required_slots T ds = filter (\<lambda>k. k \<notin> fst ` set ds) (slots_of T)"

lemma generate_slots_iff:
  assumes "list_all piece_ok T"
  shows "(\<exists>text. generate_slots T ds slots = Inr (Writeln text)) \<longleftrightarrow> set (required_slots T ds) \<subseteq> fst ` set slots"
proof -
  have "dom (slot_env ds slots) = fst ` set slots \<union> fst ` set ds"
    by (auto simp: slot_env_def dom_map_of_conv_image_fst [symmetric] split: option.splits)
  then have "set (slots_of T) \<subseteq> dom (slot_env ds slots) \<longleftrightarrow> set (required_slots T ds) \<subseteq> fst ` set slots"
    by (auto simp: required_slots_def)
  moreover have "(\<exists>text. generate_slots T ds slots = Inr (Writeln text)) \<longleftrightarrow> (\<exists>text. fill (slot_env ds slots) T = Inr text)"
    by (simp add: generate_slots_fill [OF assms] bind_res_Inr)
  ultimately show ?thesis by (simp add: fill_Inr)
qed

lemma required:
  "required_slots PyTypeObject_TEMPLATE PyTypeObject_defaults = [''typestruct'', ''tp_name'', ''tp_basicsize'']"
  "required_slots PyNumberMethods_TEMPLATE PyNumberMethods_defaults = [''variable'']"
  "required_slots PySequenceMethods_TEMPLATE PySequenceMethods_defaults = [''variable'']"
  by code_simp+

text \<open>
  C37. All slots of the generated type structures are optional except the documented ones: a
  \<open>PyTypeObject\<close> is generated exactly when \<open>typestruct\<close>, \<open>tp_name\<close> and \<open>tp_basicsize\<close> are given, a
  \<open>PyNumberMethods\<close> and a \<open>PySequenceMethods\<close> exactly when \<open>variable\<close> is given; what is written is the
  template with every slot replaced by its given value or its default.
\<close>

theorem type_structures_complete:
  "((\<exists>text. PyTypeObject_generate slots = Inr (Writeln text)) \<longleftrightarrow>
      {''typestruct'', ''tp_name'', ''tp_basicsize''} \<subseteq> fst ` set slots) \<and>
   ((\<exists>text. PyNumberMethods_generate slots = Inr (Writeln text)) \<longleftrightarrow> ''variable'' \<in> fst ` set slots) \<and>
   ((\<exists>text. PySequenceMethods_generate slots = Inr (Writeln text)) \<longleftrightarrow> ''variable'' \<in> fst ` set slots) \<and>
   PyTypeObject_generate slots =
     bind_res (fill (slot_env PyTypeObject_defaults slots) PyTypeObject_TEMPLATE) (\<lambda>text. Inr (Writeln text))"
proof -
  note ok = generate_slots_iff [OF templates_ok(1)] generate_slots_iff [OF templates_ok(2)] generate_slots_iff [OF templates_ok(3)]
  note defs = PyTypeObject_generate_def PyNumberMethods_generate_def PySequenceMethods_generate_def
  show ?thesis
    by (intro conjI; (simp only: defs ok required list.set insert_subset empty_subsetI simp_thms; fail)?)
       (simp only: defs generate_slots_fill [OF templates_ok(1)])
qed

end
