(* ===== verification/Converters.thy ===== *)
theory Converters
  imports Wrapper Utils
begin

text \<open>
  Converter functions (\<open>src/pybindgen/converter_functions.py\<close>): generated C functions that convert a
  single value from Python to C (\<open>PythonToCConverter\<close>) or from C to Python (\<open>CToPythonConverter\<close>).
\<close>

section \<open>Value types\<close>

text \<open>
  A return value handler as the converters use it.  They change its attributes \<open>value\<close> and
  \<open>REQUIRES_ASSIGNMENT_CONSTRUCTOR\<close> for one call and restore them: \<open>vh_object value requires\<close> is the
  handler with these attributes.
\<close>

record value_handler =
  vh_ctype :: "string option"
  vh_traits :: "type_traits option"
  vh_requires_assignment_constructor :: bool
  vh_value :: string
  vh_object :: "string \<Rightarrow> bool \<Rightarrow> ret_obj"

definition vh_current :: "value_handler \<Rightarrow> ret_obj" where
  "vh_current h = vh_object h (vh_value h) (vh_requires_assignment_constructor h)"

section \<open>From Python to C\<close>

text \<open>The type of the value without reference: the handler's traits are replaced by those of the target.\<close>

definition strip_reference :: "value_handler \<Rightarrow> value_handler res option" where
  "strip_reference h =
     (case vh_traits h of
        None \<Rightarrow> Some (Inl (AttributeError ''type_is_reference''))
      | Some t \<Rightarrow>
          if tt_is_reference t then
            bind_div (TypeTraits (case tt_target t of None \<Rightarrow> ''None'' | Some target \<Rightarrow> ctype_str target))
              (\<lambda>t'. Some (Inr (h\<lparr>vh_traits := Some t'\<rparr>)))
          else Some (Inr h))"

definition reverse_of :: "value_handler \<Rightarrow> reverse_class" where
  "reverse_of h = \<lparr>rc_return_value = vh_current h, rc_parameters = [], rc_error_return = Some ''return 0;'',
     rc_no_gil_locking = True, rc_generate_python_call = ret ()\<rparr>"

record py_to_c =
  pc_handler :: value_handler
  pc_function_name :: string
  pc_type_no_ref :: string
  pc_wrapper :: wrapper

definition PythonToCConverter_init :: "value_handler \<Rightarrow> string \<Rightarrow> py_to_c res option" where
  "PythonToCConverter_init value_type c_function_name =
     bind_div (strip_reference value_type) (\<lambda>h0.
     let h = h0\<lparr>vh_ctype := Some (opt_str (vh_ctype h0))\<rparr> in
     Some (case vh_traits h of
       None \<Rightarrow> Inl (AttributeError ''ctype_no_modifiers'')
     | Some t \<Rightarrow> bind_res (ReverseWrapperBase_init (reverse_of h)) (\<lambda>w.
         Inr \<lparr>pc_handler = h, pc_function_name = c_function_name, pc_type_no_ref = ctype_str (tt_ctype_no_modifiers t), pc_wrapper = w\<rparr>)))"

definition py_to_c_fill :: "value_handler \<Rightarrow> (wrapper, unit) py" where
  "py_to_c_fill h = seqs [
     bnd (w_declare ''PyObject*'' ''py_retval'' PyNone None) (\<lambda>_. ret ()),
     w_write Before_Call (''py_retval = Py_BuildValue((char *) '' @ dq @ ''(O)'' @ dq @ '', value);''),
     bnd (w_add_cleanup Before_Call ''Py_DECREF(py_retval);'') (\<lambda>_. ret ()),
     ro_convert_python_to_c (vh_object h ''*address'' False),
     bnd (gets w_parse_params) (\<lambda>items. bnd (lift_res (pt_get_parameters items)) (\<lambda>params.
       w_error_check Before_Call (''!PyArg_ParseTuple('' @ join '', '' (''py_retval'' # char_cast_first params) @ '')'') None)),
     w_write_cleanup After_Call,
     w_write After_Call ''return 1;'']"

definition py_to_c_prototype :: "string \<Rightarrow> string \<Rightarrow> string" where
  "py_to_c_prototype name type_no_ref = ''int '' @ name @ ''(PyObject *value, '' @ type_no_ref @ '' *address)''"

definition PythonToCConverter_generate :: "'t sink_class \<Rightarrow> py_to_c \<Rightarrow> string \<Rightarrow> (wrapper \<times> 't, unit) py" where
  "PythonToCConverter_generate sk c wrapper_name = seqs [
     on_wrapper (py_to_c_fill (pc_handler c)),
     emit sk (py_to_c_prototype wrapper_name (pc_type_no_ref c)),
     emit sk ''{'',
     emit_indent sk,
     flush_declarations sk,
     emit sk [],
     flush_block sk Before_Call,
     flush_block sk After_Call,
     emit_unindent sk,
     emit sk ''}'']"

definition PythonToCConverter_get_prototype :: "py_to_c \<Rightarrow> string" where
  "PythonToCConverter_get_prototype c = py_to_c_prototype (pc_function_name c) (pc_type_no_ref c)"

section \<open>From C to Python\<close>

definition forward_of_value :: "value_handler \<Rightarrow> forward_class" where
  "forward_of_value h = \<lparr>fc_return_value = Some (vh_current h), fc_parameters = [], fc_parse_error_return = ''return 0;'',
     fc_error_return = ''return 0;'', fc_force_parse = None, fc_no_c_retval = True, fc_unblock_threads = False,
     fc_deprecated = PyBool False, fc_have_return_value = False, fc_before_call_hook = ret (), fc_generate_call = ret (),
     fc_before_return_hook = ret ()\<rparr>"

record c_to_py =
  cp_handler :: value_handler
  cp_function_name :: string
  cp_wrapper :: wrapper

definition CToPythonConverter_init :: "value_handler \<Rightarrow> string \<Rightarrow> c_to_py res" where
  "CToPythonConverter_init value_type c_function_name =
     bind_res (ForwardWrapperBase_init (forward_of_value value_type)) (\<lambda>w.
       Inr \<lparr>cp_handler = value_type, cp_function_name = c_function_name, cp_wrapper = w\<rparr>)"

definition CToPythonConverter_get_prototype :: "c_to_py \<Rightarrow> string" where
  "CToPythonConverter_get_prototype c =
     ''PyObject* '' @ cp_function_name c @ ''('' @ opt_str (vh_ctype (cp_handler c)) @ '' *cvalue)''"

definition CToPythonConverter_generate :: "'t sink_class \<Rightarrow> c_to_py \<Rightarrow> (wrapper \<times> 't, unit) py" where
  "CToPythonConverter_generate sk c = seqs [
     on_wrapper (ro_convert_c_to_python (vh_object (cp_handler c) ''*cvalue'' (vh_requires_assignment_constructor (cp_handler c)))),
     emit sk (CToPythonConverter_get_prototype c),
     emit sk ''{'',
     emit_indent sk,
     on_wrapper build_return_value,
     on_wrapper (w_write_cleanup After_Call),
     on_wrapper (w_write After_Call ''return py_retval;''),
     flush_declarations sk,
     emit sk [],
     flush_block sk Before_Parse,
     flush_block sk Before_Call,
     flush_block sk After_Call,
     emit_unindent sk,
     emit sk ''}'']"

section \<open>The converters of a module\<close>

text \<open>
  The part of a root module (\<open>src/pybindgen/module.py\<close>) that all its submodules share: the header and body
  sinks, the names of the definitions that may be generated only once, the include directives and the
  code that follows the forward declarations.
\<close>

record root_data =
  rd_header :: memory_sink
  rd_body :: memory_sink
  rd_one_time_definitions :: "string list"
  rd_includes :: "string list"
  rd_after_forward_declarations :: memory_sink

definition root_data_init :: root_data where
  "root_data_init = \<lparr>rd_header = MemoryCodeSink_init, rd_body = MemoryCodeSink_init, rd_one_time_definitions = [],
     rd_includes = [], rd_after_forward_declarations = MemoryCodeSink_init\<rparr>"

definition declare_one_time_definition :: "text_value \<Rightarrow> (root_data, unit) py" where
  "declare_one_time_definition definition_name =
     bnd (lift_res (ascii definition_name)) (\<lambda>name.
     bnd (gets rd_one_time_definitions) (\<lambda>declared.
       if opt_str name \<in> set declared then raise_py (KeyError (opt_str name))
       else upd (\<lambda>rd. rd\<lparr>rd_one_time_definitions := rd_one_time_definitions rd @ [opt_str name]\<rparr>)))"

text \<open>The two function names, for the \<open>ctype\<close> of a handler.\<close>

definition get_python_to_c_type_converter_function_name :: "string option \<Rightarrow> string res" where
  "get_python_to_c_type_converter_function_name ctype =
     (case ctype of None \<Rightarrow> Inl (AttributeError ''replace'') | Some s \<Rightarrow> Inr (''_wrap_convert_py2c__'' @ mangle_name s))"

definition get_c_to_python_type_converter_function_name :: "string option \<Rightarrow> string res" where
  "get_c_to_python_type_converter_function_name ctype =
     (case ctype of None \<Rightarrow> Inl (AttributeError ''replace'') | Some s \<Rightarrow> Inr (''_wrap_convert_c2py__'' @ mangle_name s))"

text \<open>
  A new converter: its prototype goes to the header, an empty line, the function and another empty line
  to the code sink.
\<close>

definition write_converter ::
  "'t sink_class \<Rightarrow> string \<Rightarrow> wrapper \<Rightarrow> (wrapper \<times> 't, unit) py \<Rightarrow> (root_data \<times> 't, unit) py" where
  "write_converter sk prototype w generate = (\<lambda>(rd, t).
     let rd = rd\<lparr>rd_header := mem_writeln (nl @ prototype @ '';'' @ nl) (rd_header rd)\<rparr> in
     case generate (w, s_writeln sk [] t) of
       (Inl e, (_, t')) \<Rightarrow> (Inl e, (rd, t'))
     | (Inr _, (_, t')) \<Rightarrow> (Inr (), (rd, s_writeln sk [] t')))"

definition generate_python_to_c_type_converter ::
  "'t sink_class \<Rightarrow> value_handler \<Rightarrow> root_data \<times> 't \<Rightarrow> (string res \<times> root_data \<times> 't) option" where
  "generate_python_to_c_type_converter sk value_type = (\<lambda>(rd, t).
     case get_python_to_c_type_converter_function_name (vh_ctype value_type) of
       Inl e \<Rightarrow> Some (Inl e, (rd, t))
     | Inr name \<Rightarrow>
     case declare_one_time_definition (Py_Value (PyStr name)) rd of
       (Inl (KeyError _), rd) \<Rightarrow> Some (Inr name, (rd, t))
     | (Inl e, rd) \<Rightarrow> Some (Inl e, (rd, t))
     | (Inr _, rd) \<Rightarrow>
         map_option (\<lambda>r. case r of
             Inl e \<Rightarrow> (Inl e, (rd, t))
           | Inr c \<Rightarrow> (case write_converter sk (PythonToCConverter_get_prototype c) (pc_wrapper c)
                  (PythonToCConverter_generate sk c name) (rd, t) of
                (Inl e, s) \<Rightarrow> (Inl e, s) | (Inr _, s) \<Rightarrow> (Inr name, s)))
           (PythonToCConverter_init value_type name))"

definition generate_c_to_python_type_converter ::
  "'t sink_class \<Rightarrow> value_handler \<Rightarrow> (root_data \<times> 't, string) py" where
  "generate_c_to_python_type_converter sk value_type = (\<lambda>(rd, t).
     case get_c_to_python_type_converter_function_name (vh_ctype value_type) of
       Inl e \<Rightarrow> (Inl e, (rd, t))
     | Inr name \<Rightarrow>
     case declare_one_time_definition (Py_Value (PyStr name)) rd of
       (Inl (KeyError _), rd) \<Rightarrow> (Inr name, (rd, t))
     | (Inl e, rd) \<Rightarrow> (Inl e, (rd, t))
     | (Inr _, rd) \<Rightarrow>
         (case CToPythonConverter_init value_type name of
            Inl e \<Rightarrow> (Inl e, (rd, t))
          | Inr c \<Rightarrow> (case write_converter sk (CToPythonConverter_get_prototype c) (cp_wrapper c)
                (CToPythonConverter_generate sk c) (rd, t) of
              (Inl e, s) \<Rightarrow> (Inl e, s) | (Inr _, s) \<Rightarrow> (Inr name, s))))"

end
