(* ===== verification/Container.thy ===== *)
theory Container
  imports Cpp_Laws Type_Object Converters
begin

text \<open>
  Containers of the C++ standard library (\<open>src/pybindgen/container.py\<close>): the state of a \<open>Container\<close>, its
  names and type handlers, and the code of its Python types.
\<close>

section \<open>State\<close>

record container_traits =
  tr_add_value_method :: string
  tr_is_mapping :: bool

definition container_traits_list :: "string \<rightharpoonup> container_traits" where
  "container_traits_list = map_of (
     map (\<lambda>(n, add). (n, \<lparr>tr_add_value_method = add, tr_is_mapping = False\<rparr>))
       [(''list'', ''push_back''), (''deque'', ''push_back''), (''queue'', ''push''), (''priority_queue'', ''push''),
        (''vector'', ''push_back''), (''stack'', ''push''), (''set'', ''insert''), (''multiset'', ''insert''),
        (''hash_set'', ''insert''), (''hash_multiset'', ''insert''), (''dequeue'', ''push_back'')] @
     [(''map'', \<lparr>tr_add_value_method = ''insert'', tr_is_mapping = True\<rparr>)])"

record container =
  ct_name :: string
  ct_full_name :: "string option"
  ct_full_name_is_definitive :: bool
  ct_outer_class :: "cpp_class option"
  ct_mangled_name :: "string option"
  ct_mangled_full_name :: "string option"
  ct_container_traits :: container_traits
  ct_custom_name :: "string option"
  ct_pystruct :: "string option"
  ct_pytypestruct :: string
  ct_pytype :: slots
  ct_iter_pystruct :: "string option"
  ct_iter_pytypestruct :: string
  ct_iter_pytype :: slots
  ct_key_type :: "value_handler option"
  ct_value_type :: value_handler
  ct_python_to_c_converter :: "string option"
  ct_have_handlers :: bool

text \<open>
  \<open>unpack\<close> is the tuple assignment \<open>(key_type, value_type) = value_type\<close> on the given object, \<open>eval_value\<close> is
  \<open>utils.eval_retval\<close> with the return value matcher.
\<close>

definition container_value_types ::
  "('s \<Rightarrow> ('s \<times> 's) res) \<Rightarrow> ('s \<Rightarrow> value_handler res option) \<Rightarrow> bool \<Rightarrow> 's \<Rightarrow> (value_handler option \<times> value_handler) res option" where
  "container_value_types unpack eval_value is_mapping value_type =
     (if is_mapping then
        bind_div (Some (unpack value_type)) (\<lambda>(key_spec, value_spec).
        bind_div (eval_value key_spec) (\<lambda>key. bind_div (eval_value value_spec) (\<lambda>value. Some (Inr (Some key, value)))))
      else bind_div (eval_value value_type) (\<lambda>value. Some (Inr (None, value))))"

definition Container_init ::
  "('s \<Rightarrow> ('s \<times> 's) res) \<Rightarrow> ('s \<Rightarrow> value_handler res option) \<Rightarrow>
   string \<Rightarrow> 's \<Rightarrow> string \<Rightarrow> cpp_class option \<Rightarrow> string option \<Rightarrow> container res option" where
  "Container_init unpack eval_value name value_type container_type outer_class custom_name =
     (let definitive = (occurs_in ''<'' name \<or> occurs_in ''::'' name) in
      case container_traits_list container_type of
        None \<Rightarrow> Some (Inl (KeyError container_type))
      | Some traits \<Rightarrow>
          bind_div (container_value_types unpack eval_value (tr_is_mapping traits) value_type) (\<lambda>(key, value).
          Some (Inr \<lparr>ct_name = (if definitive then mangle_name name else name),
            ct_full_name = (if definitive then Some name else None), ct_full_name_is_definitive = definitive,
            ct_outer_class = outer_class, ct_mangled_name = None, ct_mangled_full_name = None, ct_container_traits = traits,
            ct_custom_name = custom_name, ct_pystruct = None, ct_pytypestruct = ''***GIVE ME A NAME***'', ct_pytype = [],
            ct_iter_pystruct = None, ct_iter_pytypestruct = ''***GIVE ME A NAME***'', ct_iter_pytype = [],
            ct_key_type = key, ct_value_type = value, ct_python_to_c_converter = None, ct_have_handlers = (name \<noteq> ''dummy'')\<rparr>)))"

definition ct_get_pystruct :: "container \<Rightarrow> string res" where
  "ct_get_pystruct c = (case ct_pystruct c of None \<Rightarrow> Inl (ValueError []) | Some s \<Rightarrow> Inr s)"

definition ct_get_iter_pystruct :: "container \<Rightarrow> string res" where
  "ct_get_iter_pystruct c = (case ct_iter_pystruct c of None \<Rightarrow> Inl (ValueError []) | Some s \<Rightarrow> Inr s)"

section \<open>Type handlers\<close>

text \<open>A string attribute that is still \<open>None\<close> where a string is needed.\<close>

definition need_str :: "string option \<Rightarrow> string res" where
  "need_str s = (case s of None \<Rightarrow> Inl (TypeError ''NoneType'') | Some s \<Rightarrow> Inr s)"

text \<open>\<open>if ctype == self.container_type.name: ctype = self.container_type.full_name\<close>.\<close>

definition container_ctype :: "container \<Rightarrow> ctype_arg \<Rightarrow> ctype_arg" where
  "container_ctype c ctype =
     (if ctype = String_Arg (ct_name c) then (case ct_full_name c of None \<Rightarrow> No_Ctype | Some s \<Rightarrow> String_Arg s) else ctype)"

definition ContainerParameterBase_init ::
  "container \<Rightarrow> int list \<Rightarrow> ctype_arg \<Rightarrow> string \<Rightarrow> int \<Rightarrow> bool \<Rightarrow> pyval \<Rightarrow> param res option" where
  "ContainerParameterBase_init c DIRECTIONS ctype name direction is_const default_value =
     Parameter_init DIRECTIONS (container_ctype c ctype) name direction is_const default_value"

text \<open>The argument \<open>O&\<close> with the converter of the container.\<close>

definition parse_container :: "container \<Rightarrow> string \<Rightarrow> string option \<Rightarrow> bool \<Rightarrow> (wrapper, unit) py" where
  "parse_container c target name optional =
     bnd (lift_res (need_str (ct_python_to_c_converter c))) (\<lambda>converter.
       w_parse_add ''O&'' [converter, ''&'' @ target] name False optional)"

text \<open>A new Python wrapper of the container, and the C++ object it gets.\<close>

definition new_container :: "container \<Rightarrow> block_id \<Rightarrow> string \<Rightarrow> (wrapper, unit) py" where
  "new_container c block py_name =
     bnd (lift_res (ct_get_pystruct c)) (\<lambda>pystruct.
       w_write block (py_name @ '' = PyObject_New('' @ pystruct @ '', &'' @ ct_pytypestruct c @ '');''))"

definition declare_container_wrapper :: "container \<Rightarrow> (wrapper, string) py" where
  "declare_container_wrapper c =
     bnd (lift_res (ct_get_pystruct c)) (\<lambda>pystruct. declare_var (pystruct @ ''*'') (''py_'' @ ct_name c))"

definition assign_new :: "container \<Rightarrow> block_id \<Rightarrow> string \<Rightarrow> string \<Rightarrow> (wrapper, unit) py" where
  "assign_new c block py_name arguments =
     w_write block (py_name @ ''->obj = new '' @ opt_str (ct_full_name c) @ arguments @ '';'')"

definition declare_container_value :: "container \<Rightarrow> param \<Rightarrow> string \<Rightarrow> pyval \<Rightarrow> (wrapper, string) py" where
  "declare_container_value c p stars init =
     bnd (lift_res (need_str (ct_full_name c))) (\<lambda>full_name. declare_init (full_name @ stars) (p_name p @ ''_value'') init)"

definition ContainerParameter_convert_python_to_c :: "container \<Rightarrow> param \<Rightarrow> (wrapper, unit) py" where
  "ContainerParameter_convert_python_to_c c p = seqs [
     assert_kind Forward,
     assert_py (p_default_value p = PyNone),
     bnd (declare_container_value c p [] PyNone) (\<lambda>container_tmp_var. seqs [
       parse_container c container_tmp_var (Some (p_name p)) False,
       w_call_append container_tmp_var])]"

definition ContainerParameter_convert_c_to_python :: "container \<Rightarrow> param \<Rightarrow> (wrapper, unit) py" where
  "ContainerParameter_convert_c_to_python c p = seqs [
     assert_kind Reverse,
     bnd (declare_container_wrapper c) (\<lambda>py_name. seqs [
       new_container c Before_Call py_name,
       assign_new c Before_Call py_name (''('' @ p_value p @ '')''),
       w_build_add ''N'' [py_name] False])]"

definition ContainerRefParameter_convert_python_to_c :: "container \<Rightarrow> param \<Rightarrow> (wrapper, unit) py" where
  "ContainerRefParameter_convert_python_to_c c p = seqs [
     assert_kind Forward,
     bnd (declare_container_value c p [] (p_default_value p)) (\<lambda>container_tmp_var. seqs [
       when_py (dir_in p) (parse_container c container_tmp_var (Some (p_name p)) (p_default_value p \<noteq> PyNone)),
       w_call_append container_tmp_var,
       when_py (dir_out p) (bnd (declare_container_wrapper c) (\<lambda>py_name. seqs [
         new_container c After_Call py_name,
         assign_new c After_Call py_name (''('' @ container_tmp_var @ '')''),
         w_build_add ''N'' [py_name] False]))])]"

definition ContainerRefParameter_convert_c_to_python :: "container \<Rightarrow> param \<Rightarrow> (wrapper, unit) py" where
  "ContainerRefParameter_convert_c_to_python c p = seqs [
     assert_kind Reverse,
     bnd (declare_container_wrapper c) (\<lambda>py_name. seqs [
       new_container c Before_Call py_name,
       assign_new c Before_Call py_name (if dir_in p then ''('' @ p_name p @ '')'' else []),
       w_build_add ''N'' [py_name] False,
       when_py (dir_out p) (parse_container c (p_name p) (Some (p_name p)) False)])]"

definition ContainerPtrParameter_init ::
  "container \<Rightarrow> ctype_arg \<Rightarrow> string \<Rightarrow> int \<Rightarrow> bool \<Rightarrow> pyval \<Rightarrow> pyval \<Rightarrow> param res option" where
  "ContainerPtrParameter_init c ctype name direction is_const default_value transfer_ownership =
     bind_div (ContainerParameterBase_init c [DIRECTION_IN, DIRECTION_OUT, DIRECTION_INOUT] ctype name direction is_const default_value)
       (\<lambda>p. Some (
         if p_direction p = DIRECTION_OUT then
           if transfer_ownership \<noteq> PyNone \<and> \<not> truthy transfer_ownership
           then Inl (TypeConfigurationError ''with direction=out, transfer_ownership must be True or omitted'')
           else Inr (p\<lparr>p_transfer_ownership := PyBool True\<rparr>)
         else if transfer_ownership = PyNone
           then Inl (TypeConfigurationError ''transfer_ownership parameter was not given'')
           else Inr (p\<lparr>p_transfer_ownership := transfer_ownership\<rparr>)))"

definition ContainerPtrParameter_convert_python_to_c :: "container \<Rightarrow> param \<Rightarrow> (wrapper, unit) py" where
  "ContainerPtrParameter_convert_python_to_c c p = seqs [
     assert_kind Forward,
     assert_py (p_default_value p = PyNone),
     (if p_direction p = DIRECTION_IN then
        bnd (declare_container_value c p [] PyNone) (\<lambda>container_tmp_var. seqs [
          parse_container c container_tmp_var (Some (p_name p)) False,
          w_call_append (if truthy (p_transfer_ownership p)
            then ''new '' @ opt_str (ct_full_name c) @ ''('' @ container_tmp_var @ '')'' else ''&'' @ container_tmp_var)])
      else if p_direction p = DIRECTION_OUT then
        bnd (declare_container_value c p ''*'' (PyStr (''new '' @ opt_str (ct_full_name c)))) (\<lambda>container_tmp_var. seqs [
          w_call_append container_tmp_var,
          bnd (declare_container_wrapper c) (\<lambda>py_name. seqs [
            new_container c After_Call py_name,
            w_write After_Call (py_name @ ''->obj = '' @ container_tmp_var @ '';''),
            w_build_add ''N'' [py_name] False])])
      else raise_py (NotSupportedError ''inout not supported for container*''))]"

definition ContainerPtrParameter_convert_c_to_python :: "container \<Rightarrow> param \<Rightarrow> (wrapper, unit) py" where
  "ContainerPtrParameter_convert_c_to_python c p =
     raise_py (NotSupportedError ''container* reverse type handler not yet implemeneted'')"

definition ContainerReturnValue_init :: "container \<Rightarrow> ctype_arg \<Rightarrow> retval res option" where
  "ContainerReturnValue_init c ctype = ReturnValue_init (container_ctype c ctype) False"

definition ContainerReturnValue_get_c_error_return :: "container \<Rightarrow> string" where
  "ContainerReturnValue_get_c_error_return c = ''return '' @ opt_str (ct_full_name c) @ ''();''"

definition ContainerReturnValue_convert_c_to_python :: "container \<Rightarrow> retval \<Rightarrow> (wrapper, unit) py" where
  "ContainerReturnValue_convert_c_to_python c r =
     bnd (declare_container_wrapper c) (\<lambda>py_name. seqs [
       new_container c After_Call py_name,
       assign_new c After_Call py_name (''('' @ r_value r @ '')''),
       w_build_add ''N'' [py_name] True])"

definition ContainerReturnValue_convert_python_to_c :: "container \<Rightarrow> retval \<Rightarrow> (wrapper, unit) py" where
  "ContainerReturnValue_convert_python_to_c c r = parse_container c (r_value r) None False"

section \<open>Names\<close>

text \<open>
  The classes of the handlers, for the container with a given number.  The constructor registers the
  pointer parameter under the given name, \<open>register_alias\<close> does not; the second registration of the return
  handler always fails, with the first one's name.
\<close>

datatype this_container_handler =
    ThisContainerParameter nat | ThisContainerRefParameter nat | ThisContainerPtrParameter nat | ThisContainerReturn nat

definition container_param_names :: "nat \<Rightarrow> string \<Rightarrow> (string \<times> this_container_handler) list" where
  "container_param_names self name =
     [(name, ThisContainerParameter self), (name @ ''&'', ThisContainerRefParameter self)]"

definition register_container :: "(this_container_handler \<Rightarrow> 'h) \<Rightarrow> nat \<Rightarrow> string \<Rightarrow> ('h, 't) matchers \<Rightarrow> (unit res \<times> ('h, 't) matchers) option" where
  "register_container inject self name = (\<lambda>(params, returns).
     case register_all_or_pass (map (apsnd inject) (container_param_names self name @ [(name @ ''*'', ThisContainerPtrParameter self)])) params of
       None \<Rightarrow> None
     | Some (Inl e, params') \<Rightarrow> Some (Inl e, (params', returns))
     | Some (Inr _, params') \<Rightarrow>
         map_option (\<lambda>(r, returns'). (case r of Inl (ValueError _) \<Rightarrow> Inr () | _ \<Rightarrow> r, (params', returns')))
           (case register name (inject (ThisContainerReturn self)) returns of
              None \<Rightarrow> None
            | Some (Inl e, returns') \<Rightarrow> Some (Inl e, returns')
            | Some (Inr _, returns') \<Rightarrow> register name (inject (ThisContainerReturn self)) returns'))"

definition container_register_alias :: "(this_container_handler \<Rightarrow> 'h) \<Rightarrow> nat \<Rightarrow> string \<Rightarrow> ('h, 't) matchers \<Rightarrow> (unit res \<times> ('h, 't) matchers) option" where
  "container_register_alias inject self alias_name = (\<lambda>(params, returns).
     case register_all_or_pass (map (apsnd inject) (container_param_names self alias_name)) params of
       None \<Rightarrow> None
     | Some (Inl e, params') \<Rightarrow> Some (Inl e, (params', returns))
     | Some (Inr _, params') \<Rightarrow>
         map_option (\<lambda>(r, returns'). (r, (params', returns'))) (register_or_pass alias_name (inject (ThisContainerReturn self)) returns))"

text \<open>\<open>root.get_python_to_c_type_converter_function_name(self.ThisContainerReturn(self.full_name))\<close>.\<close>

definition container_converter_name :: "container \<Rightarrow> string res option" where
  "container_converter_name c =
     (if \<not> ct_have_handlers c then Some (Inl (AttributeError ''ThisContainerReturn''))
      else bind_div (ContainerReturnValue_init c (case ct_full_name c of None \<Rightarrow> No_Ctype | Some s \<Rightarrow> String_Arg s)) (\<lambda>r.
        Some (get_python_to_c_type_converter_function_name (th_ctype r))))"

text \<open>The part of \<open>_update_names\<close> before the registration of the full name.\<close>

definition container_names :: "settings \<Rightarrow> string \<Rightarrow> container \<Rightarrow> container" where
  "container_names st cpp_namespace_prefix c =
     (let name_prefix = capitalize (st_name_prefix st);
          full_name = (if ct_full_name_is_definitive c then opt_str (ct_full_name c)
            else case ct_outer_class c of
                None \<Rightarrow>
                  if cpp_namespace_prefix = [] then ct_name c
                  else if cpp_namespace_prefix = ''::'' then ''::'' @ ct_name c
                  else cpp_namespace_prefix @ ''::'' @ ct_name c
              | Some outer \<Rightarrow> cc_full_name outer @ ''::'' @ ct_name c);
          mangled_full_name = mangle_name full_name
      in c\<lparr>ct_full_name := Some full_name, ct_mangled_name := Some (flatten (ct_name c)),
           ct_mangled_full_name := Some mangled_full_name,
           ct_pystruct := Some (''Py'' @ name_prefix @ mangled_full_name),
           ct_pytypestruct := ''Py'' @ name_prefix @ mangled_full_name @ ''_Type'',
           ct_iter_pystruct := Some (''Py'' @ name_prefix @ mangled_full_name @ ''Iter''),
           ct_iter_pytypestruct := ''Py'' @ name_prefix @ mangled_full_name @ ''Iter_Type''\<rparr>)"

text \<open>
  \<open>set_module\<close>.  A container called \<open>dummy\<close> has no handler classes: its registration fails.  The entry
  of the alias in the dictionaries of the modules is made by the module.
\<close>

definition container_set_module ::
  "settings \<Rightarrow> (this_container_handler \<Rightarrow> 'h) \<Rightarrow> nat \<Rightarrow> string \<Rightarrow> container \<times> ('h, 't) matchers \<Rightarrow> (unit res \<times> container \<times> ('h, 't) matchers) option" where
  "container_set_module st inject self cpp_namespace_prefix = (\<lambda>(c, ms).
     let c = container_names st cpp_namespace_prefix c in
     if \<not> ct_have_handlers c then Some (Inl (AttributeError ''ThisContainerParameter''), c, ms)
     else case container_register_alias inject self (opt_str (ct_full_name c)) ms of
       None \<Rightarrow> None
     | Some (Inl e, ms') \<Rightarrow> Some (Inl e, c, ms')
     | Some (Inr _, ms') \<Rightarrow>
         map_option (\<lambda>r. case r of Inl e \<Rightarrow> (Inl e, c, ms') | Inr n \<Rightarrow> (Inr (), c\<lparr>ct_python_to_c_converter := Some n\<rparr>, ms'))
           (container_converter_name c))"

definition container_python_name :: "container \<Rightarrow> string option" where
  "container_python_name c = (case ct_custom_name c of None \<Rightarrow> ct_mangled_name c | Some n \<Rightarrow> Some n)"

text \<open>\<open>outer_tp_name\<close> is the \<open>tp_name\<close> slot of the outer class, if it has one.\<close>

definition container_python_full_name :: "string list \<Rightarrow> string option \<Rightarrow> container \<Rightarrow> string res" where
  "container_python_full_name module_path outer_tp_name c =
     (case ct_outer_class c of
        None \<Rightarrow> bind_res (need_str (container_python_name c)) (\<lambda>n. Inr (join ''.'' (module_path @ [n])))
      | Some _ \<Rightarrow> (case outer_tp_name of
          None \<Rightarrow> Inl (KeyError ''tp_name'')
        | Some s \<Rightarrow> Inr (s @ ''.'' @ opt_str (container_python_name c))))"

section \<open>Generation\<close>

text \<open>
  The state of the generation is the container and the code sink.
\<close>

type_synonym ('t, 'a) ct_gen = "(container \<times> 't, 'a) py"

definition ct_emit :: "'t sink_class \<Rightarrow> string \<Rightarrow> ('t, unit) ct_gen" where
  "ct_emit sk text = on_sink (run_cmd sk (Writeln text))"

definition ct_slot :: "string \<Rightarrow> string \<Rightarrow> ('t, unit) ct_gen" where
  "ct_slot k v = upd (\<lambda>(c, t). (c\<lparr>ct_pytype := setdefault (k, v) (ct_pytype c)\<rparr>, t))"

definition ct_iter_slot :: "string \<Rightarrow> string \<Rightarrow> ('t, unit) ct_gen" where
  "ct_iter_slot k v = upd (\<lambda>(c, t). (c\<lparr>ct_iter_pytype := setdefault (k, v) (ct_iter_pytype c)\<rparr>, t))"

text \<open>The two type structures of a container: their names, or \<open>ValueError\<close> when they are not set yet.\<close>

definition with_structs :: "(container \<Rightarrow> string \<Rightarrow> string \<Rightarrow> ('t, 'a) ct_gen) \<Rightarrow> ('t, 'a) ct_gen" where
  "with_structs f =
     bnd (gets fst) (\<lambda>c. bnd (lift_res (ct_get_pystruct c)) (\<lambda>pystruct.
     bnd (lift_res (ct_get_iter_pystruct c)) (\<lambda>iter_pystruct. f c pystruct iter_pystruct)))"


definition container_forward_struct :: "container \<Rightarrow> string \<Rightarrow> string" where
  "container_forward_struct c pystruct = join nl [
       [],
       ''typedef struct {'',
       ''    PyObject_HEAD'',
       ''    '' @ opt_str (ct_full_name c) @ '' *obj;'',
       ''} '' @ pystruct @ '';'',
       ''    '']"

definition container_iter_forward_struct :: "container \<Rightarrow> string \<Rightarrow> string \<Rightarrow> string" where
  "container_iter_forward_struct c pystruct iter_pystruct = join nl [
       [],
       ''typedef struct {'',
       ''    PyObject_HEAD'',
       ''    '' @ pystruct @ '' *container;'',
       ''    '' @ opt_str (ct_full_name c) @ ''::iterator *iterator;'',
       ''} '' @ iter_pystruct @ '';'',
       ''    '']"

text \<open>
  \<open>generate_forward_declarations\<close>; \<open>declare\<close> is \<open>declare_one_time_definition\<close> of the root module.
\<close>

definition container_generate_forward_declarations ::
  "'t sink_class \<Rightarrow> (string \<Rightarrow> ('t, unit) ct_gen) \<Rightarrow> container \<times> 't \<Rightarrow> (unit res \<times> container \<times> 't) option" where
  "container_generate_forward_declarations sk declare = (\<lambda>(c, t).
     map_option (\<lambda>converter. seqs [
       bnd (lift_res (ct_get_pystruct c)) (\<lambda>pystruct. ct_emit sk (container_forward_struct c pystruct)),
       with_structs (\<lambda>c pystruct iter_pystruct. ct_emit sk (container_iter_forward_struct c pystruct iter_pystruct)),
       ct_emit sk [],
       ct_emit sk (''extern PyTypeObject '' @ ct_pytypestruct c @ '';''),
       ct_emit sk (''extern PyTypeObject '' @ ct_iter_pytypestruct c @ '';''),
       ct_emit sk [],
       bnd (lift_res converter) (\<lambda>this_type_converter. seqs [
         declare this_type_converter,
         ct_emit sk (''int '' @ this_type_converter @ ''(PyObject *arg, '' @ opt_str (ct_full_name c) @ '' *container);''),
         upd (\<lambda>(c, t). (c\<lparr>ct_python_to_c_converter := Some this_type_converter\<rparr>, t))])] (c, t))
       (container_converter_name c))"


text \<open>The registration of the two types in the module, in its \<open>after_init\<close> block.\<close>

definition container_add_type :: "container \<Rightarrow> string \<Rightarrow> string \<Rightarrow> (code_block, unit) py" where
  "container_add_type c python_name typestruct =
     (case ct_outer_class c of
        None \<Rightarrow> cb_write_code (''PyModule_AddObject(m, (char *) '' @ dq @ python_name @ dq @ '', (PyObject *) &'' @ typestruct @ '');'')
      | Some outer \<Rightarrow> cb_write_code (''PyDict_SetItemString((PyObject*) '' @ cc_pytypestruct outer @ ''.tp_dict, (char *) '' @ dq @
          python_name @ dq @ '', (PyObject *) &'' @ typestruct @ '');''))"

definition container_registration :: "code_block list \<Rightarrow> container \<Rightarrow> (code_block, unit) py" where
  "container_registration preds c = seqs [
     cb_write_code (''/* Register the '' @ sq @ opt_str (ct_full_name c) @ sq @ '' class */''),
     write_error_check preds (''PyType_Ready(&'' @ ct_pytypestruct c @ '')'') None,
     write_error_check preds (''PyType_Ready(&'' @ ct_iter_pytypestruct c @ '')'') None,
     container_add_type c (opt_str (container_python_name c)) (ct_pytypestruct c),
     bnd (lift_res (need_str (container_python_name c))) (\<lambda>python_name.
       container_add_type c (python_name @ ''Iter'') (ct_iter_pytypestruct c))]"

definition iter_delete_code :: string where
  "iter_delete_code = ''delete self->iterator;'' @ nl @ ''    self->iterator = NULL;'' @ nl"

definition container_delete_code :: string where
  "container_delete_code = ''delete self->obj;'' @ nl @ ''    self->obj = NULL;'' @ nl"


definition container_generate_gc_methods :: "'t sink_class \<Rightarrow> ('t, unit) ct_gen" where
  "container_generate_gc_methods sk = with_structs (\<lambda>c pystruct iter_pystruct. seqs [
     ct_iter_slot ''tp_clear'' (iter_pystruct @ ''__tp_clear''),
     ct_emit sk (join nl [
         [],
         ''static void'',
         iter_pystruct @ ''__tp_clear'' @ ''('' @ iter_pystruct @ '' *self)'',
         ''{'',
         ''    Py_CLEAR(self->container);'',
         ''    '' @ iter_delete_code,
         ''}'',
         []]),
     ct_iter_slot ''tp_traverse'' (iter_pystruct @ ''__tp_traverse''),
     ct_emit sk (join nl [
         [],
         ''static int'',
         iter_pystruct @ ''__tp_traverse'' @ ''('' @ iter_pystruct @ '' *self, visitproc visit, void *arg)'',
         ''{'',
         ''    Py_VISIT((PyObject *) self->container);'',
         ''    return 0;'',
         ''}'',
         []])])"

definition container_generate_destructor :: "'t sink_class \<Rightarrow> ('t, unit) ct_gen" where
  "container_generate_destructor sk = with_structs (\<lambda>c pystruct iter_pystruct. seqs [
     ct_emit sk (join nl [
         [],
         ''static void'',
         ''_wrap_'' @ pystruct @ ''__tp_dealloc'' @ ''('' @ pystruct @ '' *self)'',
         ''{'',
         ''    '' @ container_delete_code,
         ''    self->ob_type->tp_free((PyObject*)self);'',
         ''}'',
         []]),
     ct_slot ''tp_dealloc'' (''_wrap_'' @ pystruct @ ''__tp_dealloc''),
     ct_emit sk (join nl [
         [],
         ''static void'',
         ''_wrap_'' @ iter_pystruct @ ''__tp_dealloc'' @ ''('' @ iter_pystruct @ '' *self)'',
         ''{'',
         ''    Py_CLEAR(self->container);'',
         ''    '' @ iter_delete_code,
         ''    self->ob_type->tp_free((PyObject*)self);'',
         ''}'',
         []]),
     ct_iter_slot ''tp_dealloc'' (''_wrap_'' @ iter_pystruct @ ''__tp_dealloc'')])"


subsection \<open>Iterators\<close>

text \<open>
  \<open>IterNextWrapper\<close>.  Its \<open>reset_code_generation_state\<close> declares the iterator variable again; the body is
  generated after the reset in the constructor, so the variable is the one declared there.  The key is
  converted after the value, and both are put in front of the arguments.
\<close>

definition iternext_call :: "value_handler option \<Rightarrow> value_handler \<Rightarrow> string \<Rightarrow> (wrapper, unit) py" where
  "iternext_call key_type value_type iter_variable_name = seqs [
     w_write Before_Call (iter_variable_name @ '' = *self->iterator;''),
     w_error_check Before_Call (iter_variable_name @ '' == self->container->obj->end()'') (Some ''PyErr_SetNone(PyExc_StopIteration);''),
     w_write Before_Call ''++(*self->iterator);'',
     (case key_type of
        None \<Rightarrow> ro_convert_c_to_python
          (vh_object value_type (''(*'' @ iter_variable_name @ '')'') (vh_requires_assignment_constructor value_type))
      | Some key \<Rightarrow> seqs [
          ro_convert_c_to_python
            (vh_object value_type (iter_variable_name @ ''->second'') (vh_requires_assignment_constructor value_type)),
          ro_convert_c_to_python (vh_object key (iter_variable_name @ ''->first'') (vh_requires_assignment_constructor key))])]"

definition iternext_class :: "value_handler option \<Rightarrow> value_handler \<Rightarrow> string \<Rightarrow> forward_class" where
  "iternext_class key_type value_type iter_variable_name = \<lparr>fc_return_value = None, fc_parameters = [],
     fc_parse_error_return = ''return NULL;'', fc_error_return = ''return NULL;'', fc_force_parse = None, fc_no_c_retval = True,
     fc_unblock_threads = False, fc_deprecated = PyBool False, fc_have_return_value = True,
     fc_before_call_hook = ret (), fc_generate_call = iternext_call key_type value_type iter_variable_name,
     fc_before_return_hook = ret ()\<rparr>"

text \<open>The constructor: the base class, then the reset and the declaration of the iterator variable.\<close>

definition IterNextWrapper_init :: "value_handler option \<Rightarrow> value_handler \<Rightarrow> string \<Rightarrow> (string \<times> wrapper) res" where
  "IterNextWrapper_init key_type value_type ctype =
     (let fc = iternext_class key_type value_type [] in
      bind_res (ForwardWrapperBase_init fc) (\<lambda>w.
        case bnd (reset_code_generation_state fc) (\<lambda>_. declare_var (ctype @ ''::iterator'') ''iter'') w of
          (Inl e, _) \<Rightarrow> Inl e | (Inr iter_variable_name, w') \<Rightarrow> Inr (iter_variable_name, w')))"

definition IterNextWrapper_body :: "value_handler option \<Rightarrow> value_handler \<Rightarrow> string \<Rightarrow> memory_sink res" where
  "IterNextWrapper_body key_type value_type ctype =
     bind_res (IterNextWrapper_init key_type value_type ctype) (\<lambda>(iter_variable_name, w).
       case generate_body memory_class (iternext_class key_type value_type iter_variable_name) (w, MemoryCodeSink_init) of
         (Inl e, _) \<Rightarrow> Inl e | (Inr _, (_, tmp_sink)) \<Rightarrow> Inr tmp_sink)"

definition container_generate_iternext :: "'t sink_class \<Rightarrow> ('t, unit) ct_gen" where
  "container_generate_iternext sk = with_structs (\<lambda>c pystruct iter_pystruct.
     bnd (lift_res (IterNextWrapper_body (ct_key_type c) (ct_value_type c) (opt_str (ct_full_name c)))) (\<lambda>tmp_sink. seqs [
       ct_emit sk (''static PyObject* _wrap_'' @ iter_pystruct @ ''__tp_iternext('' @ iter_pystruct @ '' *self)''),
       ct_emit sk ''{'',
       on_sink (run_cmd sk Indent),
       upd (\<lambda>(c, t). (c, snd (mem_flush_to (s_writeln sk) tmp_sink t))),
       on_sink (run_cmd sk Unindent),
       ct_emit sk ''}'',
       ct_iter_slot ''tp_iternext'' (''_wrap_'' @ iter_pystruct @ ''__tp_iternext'')]))"

definition container_generate_iter_methods :: "'t sink_class \<Rightarrow> ('t, unit) ct_gen" where
  "container_generate_iter_methods sk = with_structs (\<lambda>c pystruct iter_pystruct. seqs [
     ct_emit sk (join nl [
         [],
         ''static PyObject*'',
         ''_wrap_'' @ pystruct @ ''__tp_iter'' @ ''('' @ pystruct @ '' *self)'',
         ''{'',
         ''    '' @ iter_pystruct @ '' *iter = PyObject_GC_New('' @ iter_pystruct @ '', &'' @ ct_iter_pytypestruct c @ '');'',
         ''    Py_INCREF(self);'',
         ''    iter->container = self;'',
         ''    iter->iterator = new '' @ opt_str (ct_full_name c) @ ''::iterator(self->obj->begin());'',
         ''    return (PyObject*) iter;'',
         ''}'',
         []]),
     ct_slot ''tp_iter'' (''_wrap_'' @ pystruct @ ''__tp_iter''),
     ct_emit sk (join nl [
         [],
         ''static PyObject*'',
         ''_wrap_'' @ iter_pystruct @ ''__tp_iter'' @ ''('' @ iter_pystruct @ '' *self)'',
         ''{'',
         ''    Py_INCREF(self);'',
         ''    return (PyObject*) self;'',
         ''}'',
         []]),
     ct_iter_slot ''tp_iter'' (''_wrap_'' @ iter_pystruct @ ''__tp_iter''),
     container_generate_iternext sk])"


subsection \<open>Construction from Python lists\<close>

definition list_converter :: "container \<Rightarrow> string \<Rightarrow> string \<Rightarrow> string \<Rightarrow> string" where
  "list_converter c pystruct converter item_converter = join nl [
       [],
       ''int '' @ converter @ ''(PyObject *arg, '' @ opt_str (ct_full_name c) @ '' *container)'',
       ''{'',
       ''    if (PyObject_IsInstance(arg, (PyObject*) &'' @ ct_pytypestruct c @ '')) {'',
       ''        *container = *(('' @ pystruct @ ''*)arg)->obj;'',
       ''    } else if (PyList_Check(arg)) {'',
       ''        container->clear();'',
       ''        Py_ssize_t size = PyList_Size(arg);'',
       ''        for (Py_ssize_t i = 0; i < size; i++) {'',
       ''            '' @ opt_str (vh_ctype (ct_value_type c)) @ '' item;'',
       ''            if (!'' @ item_converter @ ''(PyList_GET_ITEM(arg, i), &item)) {'',
       ''                return 0;'',
       ''            }'',
       ''            container->'' @ tr_add_value_method (ct_container_traits c) @ ''(item);'',
       ''        }'',
       ''    } else {'',
       ''        PyErr_SetString(PyExc_TypeError, '' @ dq @ ''parameter must be None, a '' @ opt_str (container_python_name c) @ '' instance, or a list of '' @ opt_str (vh_ctype (ct_value_type c)) @ dq @ '');'',
       ''        return 0;'',
       ''    }'',
       ''    return 1;'',
       ''}'',
       []]"

definition mapping_converter :: "container \<Rightarrow> value_handler \<Rightarrow> string \<Rightarrow> string \<Rightarrow> string \<Rightarrow> string \<Rightarrow> string" where
  "mapping_converter c key pystruct converter item_converter key_converter = join nl [
       [],
       ''int '' @ converter @ ''(PyObject *arg, '' @ opt_str (ct_full_name c) @ '' *container)'',
       ''{'',
       ''    if (PyObject_IsInstance(arg, (PyObject*) &'' @ ct_pytypestruct c @ '')) {'',
       ''        *container = *(('' @ pystruct @ ''*)arg)->obj;'',
       ''    } else if (PyList_Check(arg)) {'',
       ''        container->clear();'',
       ''        Py_ssize_t size = PyList_Size(arg);'',
       ''        for (Py_ssize_t i = 0; i < size; i++) {'',
       ''            PyObject *tup = PyList_GET_ITEM(arg, i);'',
       ''            if (!PyTuple_Check(tup) || PyTuple_Size(tup) != 2) {'',
       ''                PyErr_SetString(PyExc_TypeError, '' @ dq @ ''items must be tuples with two elements'' @ dq @ '');'',
       ''                return 0;'',
       ''            }'',
       ''            std::pair< '' @ opt_str (vh_ctype key) @ '', '' @ opt_str (vh_ctype (ct_value_type c)) @ '' > item;'',
       ''            if (!'' @ key_converter @ ''(PyTuple_GET_ITEM(tup, 0), &item.first)) {'',
       ''                return 0;'',
       ''            }'',
       ''            if (!'' @ item_converter @ ''(PyTuple_GET_ITEM(tup, 1), &item.second)) {'',
       ''                return 0;'',
       ''            }'',
       ''            container->'' @ tr_add_value_method (ct_container_traits c) @ ''(item);'',
       ''        }'',
       ''    } else {'',
       ''        PyErr_SetString(PyExc_TypeError, '' @ dq @ ''parameter must be None, a '' @ opt_str (container_python_name c) @ '' instance, or a list of '' @ opt_str (vh_ctype (ct_value_type c)) @ dq @ '');'',
       ''        return 0;'',
       ''    }'',
       ''    return 1;'',
       ''}'',
       []]"

definition container_constructor :: "container \<Rightarrow> string \<Rightarrow> string \<Rightarrow> string" where
  "container_constructor c pystruct converter = join nl [
       [],
       ''static int'',
       ''_wrap_'' @ pystruct @ ''__tp_init'' @ ''('' @ pystruct @ '' *self, PyObject *args, PyObject *kwargs)'',
       ''{'',
       ''    const char *keywords[] = {'' @ dq @ ''arg'' @ dq @ '', NULL};'',
       ''    PyObject *arg = NULL;'',
       [],
       ''    if (!PyArg_ParseTupleAndKeywords(args, kwargs, (char *) '' @ dq @ ''|O'' @ dq @ '', (char **) keywords, &arg)) {'',
       ''        return -1;'',
       ''    }'',
       [],
       ''    self->obj = new '' @ opt_str (ct_full_name c) @ '';'',
       [],
       ''    if (arg == NULL)'',
       ''        return 0;'',
       [],
       ''    if (!'' @ converter @ ''(arg, self->obj)) {'',
       ''        delete self->obj;'',
       ''        self->obj = NULL;'',
       ''        return -1;'',
       ''    }'',
       ''    return 0;'',
       ''}'',
       []]"


text \<open>
  \<open>_generate_container_constructor\<close>; the state also has the data of the root module, where the item
  converters are registered.
\<close>

definition container_generate_constructor ::
  "'t sink_class \<Rightarrow> container \<times> root_data \<times> 't \<Rightarrow> (unit res \<times> container \<times> root_data \<times> 't) option" where
  "container_generate_constructor sk = (\<lambda>(c, s).
     case ct_get_pystruct c of
       Inl e \<Rightarrow> Some (Inl e, (c, s))
     | Inr pystruct \<Rightarrow>
     (case generate_python_to_c_type_converter sk (ct_value_type c) s of
        None \<Rightarrow> None
      | Some (Inl e, s) \<Rightarrow> Some (Inl e, (c, s))
      | Some (Inr item_converter, s) \<Rightarrow>
     (case (case ct_key_type c of None \<Rightarrow> Some (Inr [], s) | Some key \<Rightarrow> generate_python_to_c_type_converter sk key s) of
        None \<Rightarrow> None
      | Some (Inl e, s) \<Rightarrow> Some (Inl e, (c, s))
      | Some (Inr key_converter, (rd, t)) \<Rightarrow>
     map_option (\<lambda>r. case r of
         Inl e \<Rightarrow> (Inl e, (c, rd, t))
       | Inr converter \<Rightarrow>
           (Inr (), (c\<lparr>ct_pytype := setdefault (''tp_init'', ''_wrap_'' @ pystruct @ ''__tp_init'') (ct_pytype c)\<rparr>, rd,
             s_writeln sk (container_constructor c pystruct converter)
              (s_writeln sk (case ct_key_type c of
                  None \<Rightarrow> list_converter c pystruct converter item_converter
                | Some key \<Rightarrow> mapping_converter c key pystruct converter item_converter key_converter) t))))
       (container_converter_name c))))"

definition container_generate_type_structure :: "'t sink_class \<Rightarrow> string res \<Rightarrow> ('t, unit) ct_gen" where
  "container_generate_type_structure sk python_full_name = with_structs (\<lambda>c pystruct iter_pystruct. seqs [
     ct_slot ''tp_basicsize'' (''sizeof('' @ pystruct @ '')''),
     ct_slot ''tp_flags'' ''Py_TPFLAGS_DEFAULT'',
     ct_slot ''typestruct'' (ct_pytypestruct c),
     bnd (lift_res python_full_name) (\<lambda>name. ct_slot ''tp_name'' name),
     bnd (gets (\<lambda>(c, _). PyTypeObject_generate (ct_pytype c))) (\<lambda>r. bnd (lift_res r) (\<lambda>cmd. on_sink (run_cmd sk cmd))),
     ct_iter_slot ''tp_basicsize'' (''sizeof('' @ iter_pystruct @ '')''),
     ct_iter_slot ''tp_flags'' ''Py_TPFLAGS_DEFAULT|Py_TPFLAGS_HAVE_GC'',
     ct_iter_slot ''typestruct'' (ct_iter_pytypestruct c),
     bnd (lift_res python_full_name) (\<lambda>name. ct_iter_slot ''tp_name'' (name @ ''Iter'')),
     bnd (gets (\<lambda>(c, _). PyTypeObject_generate (ct_iter_pytype c))) (\<lambda>r. bnd (lift_res r) (\<lambda>cmd. on_sink (run_cmd sk cmd)))])"

text \<open>\<open>generate\<close>, after the registration in the module's \<open>after_init\<close> block.\<close>

definition on_ct_sink :: "('t, unit) ct_gen \<Rightarrow> (container \<times> root_data \<times> 't, unit) py" where
  "on_ct_sink m = (\<lambda>(c, rd, t). case m (c, t) of (r, (c', t')) \<Rightarrow> (r, (c', rd, t')))"

definition container_generate_code ::
  "'t sink_class \<Rightarrow> (container \<Rightarrow> string res) \<Rightarrow> container \<times> root_data \<times> 't \<Rightarrow> (unit res \<times> container \<times> root_data \<times> 't) option" where
  "container_generate_code sk python_full_name s0 =
     (case on_ct_sink (seqs [container_generate_gc_methods sk, container_generate_destructor sk, container_generate_iter_methods sk]) s0 of
        (Inl e, s) \<Rightarrow> Some (Inl e, s)
      | (Inr _, s) \<Rightarrow>
          map_option (\<lambda>(r, s). case r of
              Inl e \<Rightarrow> (Inl e, s)
            | Inr _ \<Rightarrow> on_ct_sink (container_generate_type_structure sk (python_full_name (fst s))) s)
            (container_generate_constructor sk s))"

section \<open>Parameter lists with containers\<close>

lemma unit_arity_converter: "unit_arity ''O&'' = Some 2"
  by code_simp

lemma container_pieces:
  "plain_code (new_container c b py_name)" "plain_code (declare_container_wrapper c)"
  "plain_code (assign_new c b py_name arguments)" "plain_code (declare_container_value c p stars init)"
  unfolding new_container_def declare_container_wrapper_def assign_new_def declare_container_value_def
  by (intro plain_rules)+

lemma parse_container_args: "arg_code 0 1 0 (parse_container c target (Some name) optional)"
  unfolding parse_container_def
  by (rule arg_eq, (rule arg_rules | simp add: unit_arity_converter; fail)+)

lemma arg_when: "arg_code c p b m \<Longrightarrow> arg_code (if x then c else 0) (if x then p else 0) (if x then b else 0) (when_py x m)"
  by (cases x) (simp_all add: plain_arg plain_prims del: ret_run)

lemmas container_arg_rules = parse_container_args container_pieces [THEN plain_arg] arg_when arg_rules

datatype container_kind = Container_Value | Container_Ref | Container_Ptr

fun container_python_to_c :: "container_kind \<Rightarrow> container \<Rightarrow> param \<Rightarrow> (wrapper, unit) py" where
  "container_python_to_c Container_Value = ContainerParameter_convert_python_to_c"
| "container_python_to_c Container_Ref = ContainerRefParameter_convert_python_to_c"
| "container_python_to_c Container_Ptr = ContainerPtrParameter_convert_python_to_c"

fun container_c_to_python :: "container_kind \<Rightarrow> container \<Rightarrow> param \<Rightarrow> (wrapper, unit) py" where
  "container_c_to_python Container_Value = ContainerParameter_convert_c_to_python"
| "container_c_to_python Container_Ref = ContainerRefParameter_convert_c_to_python"
| "container_c_to_python Container_Ptr = ContainerPtrParameter_convert_c_to_python"

fun container_directions :: "container_kind \<Rightarrow> int list" where
  "container_directions Container_Value = [DIRECTION_IN]"
| "container_directions _ = [DIRECTION_IN, DIRECTION_OUT, DIRECTION_INOUT]"

datatype mixed_param = Other_Param any_param | Container_Param container_kind container param

fun mixed_object :: "mixed_param \<Rightarrow> param_obj" where
  "mixed_object (Other_Param a) = any_object a"
| "mixed_object (Container_Param k c p) = \<lparr>po_ctype = opt_str (th_ctype p), po_name = p_name p,
     po_convert_python_to_c = container_python_to_c k c p, po_convert_c_to_python = container_c_to_python k c p\<rparr>"

fun mixed_ok :: "mixed_param \<Rightarrow> bool" where
  "mixed_ok (Other_Param a) = any_ok a"
| "mixed_ok (Container_Param k c p) = (p_direction p \<in> set (container_directions k))"

fun mixed_parses :: "mixed_param \<Rightarrow> nat" where
  "mixed_parses (Other_Param a) = any_parses a"
| "mixed_parses (Container_Param k c p) = (if dir_in p then 1 else 0)"

fun mixed_builds :: "mixed_param \<Rightarrow> nat" where
  "mixed_builds (Other_Param a) = any_builds a"
| "mixed_builds (Container_Param k c p) = (if dir_out p then 1 else 0)"

lemma dir_tests:
  "has_direction DIRECTION_IN DIRECTION_IN" "\<not> has_direction DIRECTION_IN DIRECTION_OUT"
  "\<not> has_direction DIRECTION_OUT DIRECTION_IN" "has_direction DIRECTION_OUT DIRECTION_OUT"
  by (simp_all add: has_direction_def DIRECTION_IN_def DIRECTION_OUT_def)

lemma container_value_args:
  "p_direction p = DIRECTION_IN \<Longrightarrow> arg_code 1 1 0 (ContainerParameter_convert_python_to_c c p)"
  unfolding ContainerParameter_convert_python_to_c_def
  by (rule arg_eq, (rule container_arg_rules)+) simp_all

lemma container_ref_args:
  "arg_code 1 (if dir_in p then 1 else 0) (if dir_out p then 1 else 0) (ContainerRefParameter_convert_python_to_c c p)"
  unfolding ContainerRefParameter_convert_python_to_c_def
  by (rule arg_eq, (rule container_arg_rules | simp add: unit_arities; fail)+)

lemma arg_raise: "arg_code c p b (raise_py e)"
  by (auto simp: arg_code_def keeps_def adds_def)

lemma container_ptr_args:
  assumes "p_direction p \<in> {DIRECTION_IN, DIRECTION_OUT, DIRECTION_INOUT}"
  shows "arg_code 1 (if dir_in p then 1 else 0) (if dir_out p then 1 else 0) (ContainerPtrParameter_convert_python_to_c c p)"
proof -
  consider "p_direction p = DIRECTION_IN" | "p_direction p = DIRECTION_OUT" | "p_direction p = DIRECTION_INOUT"
    using assms by blast
  then show ?thesis
  proof cases
    case 1
    then show ?thesis
      unfolding ContainerPtrParameter_convert_python_to_c_def
      by (simp only: if_True simp_thms) (rule arg_eq, (rule container_arg_rules)+, simp_all add: dir_tests)
  next
    case 2
    then have "p_direction p \<noteq> DIRECTION_IN" by (simp add: DIRECTION_IN_def DIRECTION_OUT_def)
    with 2 show ?thesis
      unfolding ContainerPtrParameter_convert_python_to_c_def
      by (simp only: if_True if_False simp_thms)
         (rule arg_eq, (rule container_arg_rules | simp add: unit_arities; fail)+, simp_all add: dir_tests)
  next
    case 3
    then have d: "p_direction p \<noteq> DIRECTION_IN" "p_direction p \<noteq> DIRECTION_OUT"
      by (simp_all add: DIRECTION_IN_def DIRECTION_OUT_def DIRECTION_INOUT_def)
    have "arg_code 0 0 0 (assert_kind Forward)" "arg_code 0 0 0 (assert_py x)" for x
      by (rule plain_prims [THEN plain_arg])+
    from arg_bnd [OF this(1) arg_bnd [OF this(2) arg_raise]]
    have "arg_code c' p' b' (bnd (assert_kind Forward) (\<lambda>_. bnd (assert_py x) (\<lambda>_. raise_py e :: (wrapper, unit) py)))"
      for c' p' b' x e by simp
    with d show ?thesis by (simp add: ContainerPtrParameter_convert_python_to_c_def del: assert_py_simps One_nat_def)
  qed
qed

lemma mixed_args:
  assumes "mixed_ok a"
  shows "arg_code 1 (mixed_parses a) (mixed_builds a) (convert_parameter (mixed_object a))"
proof (cases a)
  case (Other_Param a')
  with assms any_args show ?thesis by (simp del: One_nat_def)
next
  case (Container_Param k c p)
  with assms have "arg_code 1 (mixed_parses a) (mixed_builds a) (container_python_to_c k c p)"
    by (cases k) (simp_all add: container_value_args container_ref_args container_ptr_args dir_tests del: One_nat_def)
  with Container_Param show ?thesis by (simp add: convert_parameter_def arg_reraise del: One_nat_def)
qed

text \<open>
  C2. Containers may be mixed in as well, by value, by reference and by pointer: whenever the parameters
  of a wrapper are converted without an error, the C call gets one argument per parameter, a Python
  argument is parsed for every parameter that goes in and a value is built for every one that comes out,
  every parsed argument has its keyword, and the formats of the generated PyArg_ParseTuple and Py_BuildValue
  calls match their C arguments.
\<close>

theorem container_arguments_consistent:
  assumes "list_all mixed_ok ps" and "ForwardWrapperBase_init fc = Inr w0"
    and "for_each convert_parameter (map mixed_object ps) w0 = (Inr (), w)"
  shows "length (w_call_params w) = length ps \<and>
    length (w_parse_params w) = sum_list (map mixed_parses ps) \<and>
    length (w_build_params w) = sum_list (map mixed_builds ps) \<and>
    pt_get_keywords (w_parse_params w) =
      Inr (if w_parse_params w = [] then None else Some (map (the \<circ> pi_name) (w_parse_params w))) \<and>
    (\<forall>template args. pt_get_parameters (w_parse_params w) = Inr (template # args) \<longrightarrow>
      (\<exists>fmt. template = dq @ fmt @ dq \<and> fmt_arity fmt = Some (length args))) \<and>
    (\<exists>fmt args. bv_get_parameters False (w_build_params w) = (dq @ fmt @ dq) # args \<and>
      fmt_arity fmt = Some (length args))"
proof -
  have "for_each convert_parameter (map mixed_object ps) = for_each (\<lambda>a. convert_parameter (mixed_object a)) ps"
    by (induction ps) simp_all
  then have "arg_code (length ps) (sum_list (map mixed_parses ps)) (sum_list (map mixed_builds ps))
      (for_each convert_parameter (map mixed_object ps))"
    using assms(1) by (simp add: arg_for_each mixed_args list_all_iff del: One_nat_def)
  from arg_code_consistent [OF this assms(2,3)] show ?thesis .
qed

definition sample_value :: value_handler where
  "sample_value = \<lparr>vh_ctype = Some ''int'', vh_traits = None, vh_requires_assignment_constructor = False, vh_value = ''retval'',
     vh_object = (\<lambda>value requires. \<lparr>ro_ctype = ''int'', ro_ctype_no_const = ''int'', ro_requires_assignment_constructor = requires,
       ro_get_c_error_return = Inr ''return INT_MIN;'', ro_convert_python_to_c = parse_ret ''i'' [''&'' @ value] False,
       ro_convert_c_to_python = w_build_add ''i'' [value] True\<rparr>)\<rparr>"

definition sample_container :: container where
  "sample_container = (case Container_init (\<lambda>_. Inl (TypeError [])) (\<lambda>_. Some (Inr sample_value)) ''std::vector<int>'' () ''vector'' None None of
     Some (Inr c) \<Rightarrow> (container_names default_settings [] c)\<lparr>ct_python_to_c_converter := Some ''_wrap_convert_py2c__std__vector__lt__int__gt__''\<rparr>)"

definition sample_mixed :: "mixed_param list" where
  "sample_mixed = [Container_Param Container_Ref sample_container (sample_param ''v'' (plain_traits ''std::vector<int>'') DIRECTION_INOUT),
     Other_Param (Builtin IntParam (sample_param ''x'' (plain_traits ''int'') 1))]"

lemma sample_mixed_ok: "list_all mixed_ok sample_mixed"
proof -
  have "builtin_param (IntParam, sample_param ''x'' (plain_traits ''int'') 1)"
    using sample_params_builtin by (simp add: sample_params_def)
  then show ?thesis by (simp add: sample_mixed_def sample_param_def)
qed

lemma sample_mixed_run:
  "case ForwardWrapperBase_init (sample_class :: forward_class) of Inl e \<Rightarrow> False
   | Inr w \<Rightarrow> (case for_each convert_parameter (map mixed_object sample_mixed) w of
       (r, w') \<Rightarrow> r = Inr () \<and> w_call_params w' = [''v_value'', ''x''])"
  by code_simp

theorem container_arguments_consistent_witness:
  "\<exists>w0 w. ForwardWrapperBase_init sample_class = Inr w0 \<and>
     for_each convert_parameter (map mixed_object sample_mixed) w0 = (Inr (), w) \<and>
     length (w_call_params w) = 2 \<and> length (w_parse_params w) = 2 \<and> length (w_build_params w) = 1"
proof -
  obtain w0 where w0: "ForwardWrapperBase_init sample_class = Inr w0"
    using sample_mixed_run by (auto split: sum.splits)
  then obtain w where w: "for_each convert_parameter (map mixed_object sample_mixed) w0 = (Inr (), w)"
    using sample_mixed_run by (auto split: prod.splits)
  from container_arguments_consistent [OF sample_mixed_ok w0 w]
  have "length (w_call_params w) = 2 \<and> length (w_parse_params w) = 2 \<and> length (w_build_params w) = 1"
    by (simp add: sample_mixed_def sample_param_def has_direction_def DIRECTION_IN_def DIRECTION_OUT_def DIRECTION_INOUT_def)
  with w0 w show ?thesis by blast
qed

end
