(* ===== verification/Py_Partial.thy ===== *)
theory Py_Partial
  imports Py_Prelude
begin

text \<open>
  Methods that may not end: a state and exception monad whose value is \<open>None\<close> for a computation that
  runs forever.
\<close>

type_synonym ('s, 'a) pyd = "'s \<Rightarrow> ('a res \<times> 's) option"

definition total :: "('s, 'a) py \<Rightarrow> ('s, 'a) pyd" where [monad_defs]:
  "total m = (\<lambda>s. Some (m s))"

definition bndd :: "('s, 'a) pyd \<Rightarrow> ('a \<Rightarrow> ('s, 'b) pyd) \<Rightarrow> ('s, 'b) pyd" where [monad_defs]:
  "bndd m f = (\<lambda>s. case m s of None \<Rightarrow> None | Some (Inl e, s') \<Rightarrow> Some (Inl e, s') | Some (Inr a, s') \<Rightarrow> f a s')"

primrec seqsd :: "('s, unit) pyd list \<Rightarrow> ('s, unit) pyd" where
  "seqsd [] = total (ret ())"
| "seqsd (m # ms) = bndd m (\<lambda>_. seqsd ms)"

primrec for_eachd :: "('a \<Rightarrow> ('s, unit) pyd) \<Rightarrow> 'a list \<Rightarrow> ('s, unit) pyd" where
  "for_eachd f [] = total (ret ())"
| "for_eachd f (x # xs) = bndd (f x) (\<lambda>_. for_eachd f xs)"

definition try_exceptd :: "('s, 'a) pyd \<Rightarrow> (py_error \<Rightarrow> ('s, 'a) pyd) \<Rightarrow> ('s, 'a) pyd" where [monad_defs]:
  "try_exceptd m h = (\<lambda>s. case m s of None \<Rightarrow> None | Some (Inl e, s') \<Rightarrow> h e s' | Some (Inr a, s') \<Rightarrow> Some (Inr a, s'))"

lemma total_run [simp]: "total m s = Some (m s)"
  by (simp add: total_def)

lemma bndd_total [simp]: "bndd (total (ret a)) f = f a"
  by (simp add: bndd_def fun_eq_iff)

lemma bndd_run [simp]:
  "m s = Some (Inr a, s') \<Longrightarrow> bndd m f s = f a s'" "m s = Some (Inl e, s') \<Longrightarrow> bndd m f s = Some (Inl e, s')"
  by (simp_all add: bndd_def)

lemma bndd_InrE:
  assumes "bndd m f s = Some (Inr b, s'')"
  obtains a s' where "m s = Some (Inr a, s')" "f a s' = Some (Inr b, s'')"
  using assms by (auto simp: bndd_def split: option.splits prod.splits sum.splits)

end
