(* ===== verification/Module.thy ===== *)
theory Module
  imports Function Enumeration Container Py_Partial
begin

text \<open>
  Modules (\<open>src/pybindgen/module.py\<close>): the tree of a root module and its submodules, the C++ namespaces they
  stand for, the functions and types they hold and the dictionaries in which types are found.
\<close>

section \<open>State\<close>

text \<open>Types of every kind, by their number; and the handlers in the type matchers.\<close>

datatype type_wrapper = Class_Type nat | Enum_Type nat | Container_Type nat | Exception_Type nat

datatype any_handler =
    Builtin_Handler string
  | Class_Handler this_class_handler | Enum_Handler enum_handler | Container_Handler this_container_handler

text \<open>
  \<open>md_cpp_namespace\<close> is empty for \<open>None\<close>.  \<open>md_has_includes\<close> is false once the root module has set its attribute
  \<open>includes\<close> to \<open>None\<close>; the list itself is shared and stays with the submodules.
\<close>

record module_obj =
  md_name :: string
  md_parent :: "nat option"
  md_docstring :: "string option"
  md_submodules :: "nat list"
  md_enums :: "nat list"
  md_typedefs :: "(nat \<times> string) list"
  md_forward_declarations_declared :: bool
  md_cpp_namespace :: string
  md_prefix :: string
  md_init_function_name :: string
  md_cpp_namespace_prefix :: string
  md_declarations :: scope
  md_functions :: "(string \<times> func overload) list"
  md_classes :: "nat list"
  md_containers :: "nat list"
  md_exceptions :: "nat list"
  md_before_init :: code_block
  md_after_init :: code_block
  md_c_function_name_transformer :: "string \<Rightarrow> string"
  md_has_includes :: bool
  md_current_section :: string
  md_types :: "(string \<times> type_wrapper) list"

text \<open>
  One tree of modules: the root has number 0, a submodule is added after its parent.  The objects that
  modules hold are in stores; \<open>wd_sections\<close> has the attribute \<open>section\<close> of the types.
\<close>

record 't world =
  wd_modules :: "module_obj list"
  wd_root_data :: root_data
  wd_classes :: class_store
  wd_enums :: "nat \<Rightarrow> enum"
  wd_containers :: "nat \<Rightarrow> container"
  wd_exceptions :: "nat \<Rightarrow> cpp_exception"
  wd_sections :: "type_wrapper \<Rightarrow> string option"
  wd_matchers :: "(any_handler, 't) matchers"

definition upd_module :: "nat \<Rightarrow> (module_obj \<Rightarrow> module_obj) \<Rightarrow> 't world \<Rightarrow> 't world" where
  "upd_module i f wd = wd\<lparr>wd_modules := (wd_modules wd)[i := f (wd_modules wd ! i)]\<rparr>"

section \<open>The tree\<close>

text \<open>
  The loops over \<open>parent\<close>: a module with its parent, the parent of that, and so on.  A parent has a smaller
  number (\<open>tree_ok\<close>), so the test that ends the recursion is always true.
\<close>

function module_chain :: "module_obj list \<Rightarrow> nat \<Rightarrow> nat list" where
  "module_chain ms i = i # (case md_parent (ms ! i) of None \<Rightarrow> [] | Some p \<Rightarrow> if p < i then module_chain ms p else [])"
  by pat_completeness auto
termination by (relation "measure snd") auto

declare module_chain.simps [simp del]

definition get_root :: "module_obj list \<Rightarrow> nat \<Rightarrow> nat" where
  "get_root ms i = last (module_chain ms i)"

definition get_current_section :: "module_obj list \<Rightarrow> nat \<Rightarrow> string" where
  "get_current_section ms i = md_current_section (ms ! get_root ms i)"

definition get_module_path :: "module_obj list \<Rightarrow> nat \<Rightarrow> string list" where
  "get_module_path ms i = rev (map (\<lambda>j. md_name (ms ! j)) (module_chain ms i))"

text \<open>The components of one namespace; a leading \<open>::\<close> is dropped.\<close>

definition namespace_names :: "string \<Rightarrow> string list" where
  "namespace_names cpp_namespace =
     (if cpp_namespace = [] \<or> cpp_namespace = ''::'' then []
      else case split_str ''::'' cpp_namespace of [] \<Rightarrow> [] | n # names \<Rightarrow> if n = [] then names else n # names)"

definition get_namespace_path :: "module_obj list \<Rightarrow> nat \<Rightarrow> string list" where
  "get_namespace_path ms i = concat (rev (map (\<lambda>j. namespace_names (md_cpp_namespace (ms ! j))) (module_chain ms i)))"

section \<open>Creation\<close>

text \<open>\<open>set_name\<close>; the parent's prefix is given for a submodule.\<close>

definition module_set_name :: "string option \<Rightarrow> string \<Rightarrow> module_obj \<Rightarrow> module_obj" where
  "module_set_name parent_prefix name md =
     (case parent_prefix of
        None \<Rightarrow> md\<lparr>md_name := name, md_prefix := replace_char CHR ''.'' ''_'' name,
          md_init_function_name := ''init'' @ last (split_on CHR ''.'' name)\<rparr>
      | Some p \<Rightarrow> md\<lparr>md_name := name, md_prefix := p @ ''_'' @ name, md_init_function_name := ''init'' @ p @ ''_'' @ name\<rparr>)"

definition strip_prefix :: "string \<Rightarrow> string \<Rightarrow> string" where
  "strip_prefix name_prefix c_name = (if startswith c_name name_prefix then drop (length name_prefix) c_name else c_name)"

definition set_strip_prefix :: "string \<Rightarrow> module_obj \<Rightarrow> module_obj" where
  "set_strip_prefix name_prefix md = md\<lparr>md_c_function_name_transformer := strip_prefix name_prefix\<rparr>"

definition set_c_function_name_transformer :: "(string \<Rightarrow> string) \<Rightarrow> module_obj \<Rightarrow> module_obj" where
  "set_c_function_name_transformer transformer md = md\<lparr>md_c_function_name_transformer := transformer\<rparr>"

definition module_error_return :: "nat option \<Rightarrow> string" where
  "module_error_return parent = (if parent = None then ''return;'' else ''return NULL;'')"

text \<open>A module before its name and its namespace prefix are computed.\<close>

definition blank_module :: "nat option \<Rightarrow> string option \<Rightarrow> string \<Rightarrow> module_obj" where
  "blank_module parent docstring cpp_namespace = \<lparr>md_name = [], md_parent = parent, md_docstring = docstring, md_submodules = [],
     md_enums = [], md_typedefs = [], md_forward_declarations_declared = False, md_cpp_namespace = cpp_namespace,
     md_prefix = [], md_init_function_name = [], md_cpp_namespace_prefix = [], md_declarations = DeclarationsScope_init,
     md_functions = [], md_classes = [], md_containers = [], md_exceptions = [],
     md_before_init = CodeBlock_init (module_error_return parent), md_after_init = CodeBlock_init (module_error_return parent),
     md_c_function_name_transformer = (\<lambda>s. s), md_has_includes = True, md_current_section = ''__main__'', md_types = []\<rparr>"

text \<open>
  \<open>ModuleBase.__init__\<close>: the new module is the last of the list, and the last submodule of its parent.
\<close>

definition ModuleBase_init :: "string \<Rightarrow> nat option \<Rightarrow> string option \<Rightarrow> string \<Rightarrow> module_obj list \<Rightarrow> module_obj list" where
  "ModuleBase_init name parent docstring cpp_namespace ms =
     (let self = length ms;
          ms = (case parent of None \<Rightarrow> ms | Some p \<Rightarrow> ms[p := (ms ! p)\<lparr>md_submodules := md_submodules (ms ! p) @ [self]\<rparr>]);
          md = module_set_name (map_option (\<lambda>p. md_prefix (ms ! p)) parent) name (blank_module parent docstring cpp_namespace);
          ms = ms @ [md];
          path = get_namespace_path ms self;
          path = (case path of [] \<Rightarrow> [] | n # names \<Rightarrow> if n = ''::'' then names else n # names)
      in ms[self := set_strip_prefix (name @ ''_'') (md\<lparr>md_cpp_namespace_prefix := join ''::'' path\<rparr>)])"

definition Module_init ::
  "string \<Rightarrow> string option \<Rightarrow> string \<Rightarrow> class_store \<Rightarrow> (nat \<Rightarrow> enum) \<Rightarrow> (nat \<Rightarrow> container) \<Rightarrow> (nat \<Rightarrow> cpp_exception) \<Rightarrow>
   (any_handler, 't) matchers \<Rightarrow> 't world" where
  "Module_init name docstring cpp_namespace classes enums containers excs ms =
     \<lparr>wd_modules = ModuleBase_init name None docstring cpp_namespace [], wd_root_data = root_data_init, wd_classes = classes,
      wd_enums = enums, wd_containers = containers, wd_exceptions = excs, wd_sections = (\<lambda>_. None), wd_matchers = ms\<rparr>"

definition SubModule_init :: "string \<Rightarrow> nat \<Rightarrow> string option \<Rightarrow> string \<Rightarrow> ('t world, nat) py" where
  "SubModule_init name parent docstring cpp_namespace =
     bnd (gets (\<lambda>wd. length (wd_modules wd))) (\<lambda>self.
     bnd (upd (\<lambda>wd. wd\<lparr>wd_modules := ModuleBase_init name (Some parent) docstring cpp_namespace (wd_modules wd)\<rparr>)) (\<lambda>_.
     ret self))"

definition get_submodule :: "nat \<Rightarrow> string \<Rightarrow> ('t world, nat) py" where
  "get_submodule i submodule_name =
     bnd (gets wd_modules) (\<lambda>ms.
       case find (\<lambda>j. md_name (ms ! j) = submodule_name) (md_submodules (ms ! i)) of
         Some j \<Rightarrow> ret j
       | None \<Rightarrow> raise_py (ValueError (''submodule '' @ submodule_name @ '' not found'')))"

definition add_cpp_namespace :: "nat \<Rightarrow> string \<Rightarrow> ('t world, nat) py" where
  "add_cpp_namespace i name =
     try_except (get_submodule i name) (\<lambda>e.
       case e of ValueError _ \<Rightarrow> SubModule_init name i None name | _ \<Rightarrow> raise_py e)"

section \<open>Sections and includes\<close>

definition begin_section :: "nat \<Rightarrow> string \<Rightarrow> ('t world, unit) py" where
  "begin_section i section_name =
     bnd (gets wd_modules) (\<lambda>ms.
       if get_current_section ms i \<noteq> ''__main__'' then raise_py (ValueError ''begin_section called while current section not ended'')
       else if section_name = ''__main__'' then raise_py (ValueError ''__main__ not allowed as section name'')
       else bnd (assert_py (md_parent (ms ! i) = None)) (\<lambda>_.
         upd (upd_module i (\<lambda>md. md\<lparr>md_current_section := section_name\<rparr>))))"

definition end_section :: "nat \<Rightarrow> string \<Rightarrow> ('t world, unit) py" where
  "end_section i section_name =
     bnd (gets (\<lambda>wd. wd_modules wd ! i)) (\<lambda>md.
     bnd (assert_py (md_parent md = None)) (\<lambda>_.
       if md_current_section md \<noteq> section_name then raise_py (ValueError ''end_section called for wrong section'')
       else upd (upd_module i (\<lambda>md. md\<lparr>md_current_section := ''__main__''\<rparr>))))"

definition add_include :: "nat \<Rightarrow> text_value \<Rightarrow> ('t world, unit) py" where
  "add_include i include =
     bnd (lift_res (ascii include)) (\<lambda>text.
       case text of
         None \<Rightarrow> raise_py (AttributeError ''startswith'')
       | Some text \<Rightarrow> seqs [
           assert_py (startswith text dq \<or> startswith text ''<''),
           assert_py (endswith text dq \<or> endswith text ''>''),
           bnd (gets (\<lambda>wd. (md_has_includes (wd_modules wd ! i), rd_includes (wd_root_data wd)))) (\<lambda>(has_includes, includes).
             if \<not> has_includes then raise_py (TypeError ''NoneType'')
             else when_py (text \<notin> set includes)
               (upd (\<lambda>wd. wd\<lparr>wd_root_data := (wd_root_data wd)\<lparr>rd_includes := includes @ [text]\<rparr>\<rparr>)))])"

section \<open>Functions\<close>

text \<open>The Python name of a function.\<close>

definition function_python_name :: "module_obj \<Rightarrow> func \<Rightarrow> string res" where
  "function_python_name md f =
     (case f_custom_name f of
        Some n \<Rightarrow> Inr n
      | None \<Rightarrow> (case f_function_name f of
          None \<Rightarrow> Inl (AttributeError ''startswith'')
        | Some n \<Rightarrow> Inr (get_mangled_name (md_c_function_name_transformer md n) (f_template_parameters f))))"

text \<open>A function object is taken in by one module; its number in the overload is the next free one.\<close>

definition overload_add :: "func \<Rightarrow> func overload \<Rightarrow> func overload" where
  "overload_add f ov =
     (let i = length (ov_wrappers ov) in ov\<lparr>ov_objs := (ov_objs ov)(i := f), ov_wrappers := ov_wrappers ov @ [i]\<rparr>)"

definition add_function_obj :: "nat \<Rightarrow> func \<Rightarrow> ('t world, unit) py" where
  "add_function_obj i f =
     bnd (gets wd_modules) (\<lambda>ms. let md = ms ! i in
     bnd (lift_res (function_python_name md f)) (\<lambda>name.
       let f = (Function_set_module \<lparr>mi_prefix = md_prefix md, mi_cpp_namespace_prefix = md_cpp_namespace_prefix md\<rparr> f)
                 \<lparr>f_section := Some (get_current_section ms i)\<rparr>;
           ov = (case map_of (md_functions md) name of None \<Rightarrow> OverloadedWrapper_init (\<lambda>_. f) name | Some ov \<Rightarrow> ov)
       in upd (upd_module i (\<lambda>md. md\<lparr>md_functions := AList.update name (overload_add f ov) (md_functions md)\<rparr>))))"

text \<open>\<open>add_function\<close> and \<open>add_custom_function_wrapper\<close>, for the result of the constructor.\<close>

definition add_function :: "nat \<Rightarrow> func res \<Rightarrow> ('t world, func option) py" where
  "add_function i created =
     (case created of
        Inl SkipWrapper \<Rightarrow> ret None
      | Inl e \<Rightarrow> raise_py e
      | Inr f \<Rightarrow> bnd (add_function_obj i f) (\<lambda>_. ret (Some f)))"

section \<open>Types\<close>

definition register_type :: "nat \<Rightarrow> string \<Rightarrow> string \<Rightarrow> type_wrapper \<Rightarrow> 't world \<Rightarrow> 't world" where
  "register_type i name full_name w wd =
     (let put = (\<lambda>k md. md\<lparr>md_types := AList.update k w (md_types md)\<rparr>);
          wd = (if name = [] then wd else upd_module i (put name) wd)
      in if full_name = [] then wd else fold (\<lambda>j. upd_module j (put full_name)) (module_chain (wd_modules wd) i) wd)"

definition module_lookup :: "nat \<Rightarrow> string \<Rightarrow> 't world \<Rightarrow> type_wrapper option" where
  "module_lookup i key wd = map_of (md_types (wd_modules wd ! i)) key"

definition set_section :: "nat \<Rightarrow> type_wrapper \<Rightarrow> 't world \<Rightarrow> 't world" where
  "set_section i w wd = wd\<lparr>wd_sections := (wd_sections wd)(w \<mapsto> get_current_section (wd_modules wd) i)\<rparr>"

text \<open>\<open>CppClass.module = module\<close>: the names, then the registration of the full name.\<close>

definition class_set_module :: "settings \<Rightarrow> nat \<Rightarrow> nat \<Rightarrow> ('t world, unit) pyd" where
  "class_set_module st i c = (\<lambda>wd.
     case update_names st (md_cpp_namespace_prefix (wd_modules wd ! i)) c (wd_classes wd) of
       None \<Rightarrow> None
     | Some (Inl e) \<Rightarrow> Some (Inl e, wd)
     | Some (Inr cls) \<Rightarrow>
         let wd = register_type i [] (cc_full_name cls) (Class_Type c) (wd\<lparr>wd_classes := (wd_classes wd)(c := cls)\<rparr>) in
         map_option (\<lambda>(r, ms). (r, wd\<lparr>wd_matchers := ms\<rparr>)) (register_alias Class_Handler c (cc_full_name cls) (wd_matchers wd)))"

definition add_class_obj :: "settings \<Rightarrow> nat \<Rightarrow> nat \<Rightarrow> ('t world, unit) pyd" where
  "add_class_obj st i c =
     bndd (class_set_module st i c) (\<lambda>_. total (upd (\<lambda>wd.
       let wd = upd_module i (\<lambda>md. md\<lparr>md_classes := md_classes md @ [c]\<rparr>) (set_section i (Class_Type c) wd)
       in register_type i (cc_name (wd_classes wd c)) (cc_full_name (wd_classes wd c)) (Class_Type c) wd)))"

definition add_enum_obj :: "nat \<Rightarrow> nat \<Rightarrow> ('t world, unit) pyd" where
  "add_enum_obj i e = (\<lambda>wd.
     let wd = upd_module i (\<lambda>md. md\<lparr>md_enums := md_enums md @ [e]\<rparr>) wd in
     map_option (\<lambda>(r, en, ms).
         let wd = wd\<lparr>wd_enums := (wd_enums wd)(e := en), wd_matchers := ms\<rparr> in
         (r, case r of
           Inl _ \<Rightarrow> wd
         | Inr _ \<Rightarrow> register_type i (en_name en) (case en_full_name en of None \<Rightarrow> [] | Some n \<Rightarrow> n) (Enum_Type e)
             (set_section i (Enum_Type e) wd)))
       (enum_set_module Enum_Handler (md_cpp_namespace_prefix (wd_modules wd ! i)) (wd_enums wd e, wd_matchers wd)))"

definition add_container_obj :: "settings \<Rightarrow> nat \<Rightarrow> nat \<Rightarrow> ('t world, unit) pyd" where
  "add_container_obj st i c = (\<lambda>wd.
     map_option (\<lambda>(r, ct, ms).
         let wd = register_type i [] (opt_str (ct_full_name ct)) (Container_Type c)
               (wd\<lparr>wd_containers := (wd_containers wd)(c := ct), wd_matchers := ms\<rparr>) in
         (r, case r of
           Inl _ \<Rightarrow> wd
         | Inr _ \<Rightarrow> register_type i (ct_name ct) (opt_str (ct_full_name ct)) (Container_Type c)
             (upd_module i (\<lambda>md. md\<lparr>md_containers := md_containers md @ [c]\<rparr>) (set_section i (Container_Type c) wd))))
       (container_set_module st Container_Handler c (md_cpp_namespace_prefix (wd_modules wd ! i)) (wd_containers wd c, wd_matchers wd)))"

text \<open>\<open>add_container\<close>, for the result of the constructor: container \<open>c\<close> of the store.\<close>

definition add_container :: "settings \<Rightarrow> nat \<Rightarrow> nat \<Rightarrow> container res \<Rightarrow> ('t world, bool) pyd" where
  "add_container st i c created =
     (case created of
        Inl SkipWrapper \<Rightarrow> total (ret False)
      | Inl e \<Rightarrow> total (raise_py e)
      | Inr ct \<Rightarrow> bndd (total (upd (\<lambda>wd. wd\<lparr>wd_containers := (wd_containers wd)(c := ct)\<rparr>))) (\<lambda>_.
          bndd (add_container_obj st i c) (\<lambda>_. total (ret True))))"

definition add_exception_obj :: "settings \<Rightarrow> nat \<Rightarrow> nat \<Rightarrow> ('t world, unit) py" where
  "add_exception_obj st i x = (\<lambda>wd.
     case exc_update_names st (md_cpp_namespace_prefix (wd_modules wd ! i)) (wd_exceptions wd x) of
       (Inl e, _) \<Rightarrow> (Inl e, wd)
     | (Inr _, exc) \<Rightarrow>
         (Inr (), register_type i (ce_name exc) (opt_str (ce_full_name exc)) (Exception_Type x)
           (upd_module i (\<lambda>md. md\<lparr>md_exceptions := md_exceptions md @ [x]\<rparr>)
             (set_section i (Exception_Type x) (wd\<lparr>wd_exceptions := (wd_exceptions wd)(x := exc)\<rparr>)))))"

text \<open>\<open>CppClass.register_alias\<close> of a class that is in module \<open>j\<close>.\<close>

definition class_register_alias :: "nat \<Rightarrow> nat \<Rightarrow> string \<Rightarrow> ('t world, unit) pyd" where
  "class_register_alias j c alias_name = (\<lambda>wd.
     let wd = register_type j [] alias_name (Class_Type c) wd in
     map_option (\<lambda>(r, ms). (r, wd\<lparr>wd_matchers := ms\<rparr>)) (register_alias Class_Handler c alias_name (wd_matchers wd)))"

text \<open>\<open>add_typedef\<close>; \<open>j\<close> is the module of the class.\<close>

definition add_typedef :: "nat \<Rightarrow> nat \<Rightarrow> nat \<Rightarrow> string \<Rightarrow> ('t world, unit) pyd" where
  "add_typedef i j c alias_name = seqsd [
     total (upd (upd_module i (\<lambda>md. md\<lparr>md_typedefs := md_typedefs md @ [(c, alias_name)]\<rparr>))),
     total (upd (register_type i alias_name alias_name (Class_Type c))),
     class_register_alias j c alias_name,
     bndd (total (gets (\<lambda>wd. join ''::'' (get_namespace_path (wd_modules wd) i @ [alias_name])))) (class_register_alias j c)]"

section \<open>The tree is well formed\<close>

text \<open>What the shape of the tree and the namespaces depend on.\<close>

definition tree_view :: "module_obj \<Rightarrow> nat option \<times> nat list \<times> string \<times> string" where
  "tree_view md = (md_parent md, md_submodules md, md_cpp_namespace md, md_cpp_namespace_prefix md)"

definition tree_ok :: "module_obj list \<Rightarrow> bool" where
  "tree_ok ms \<longleftrightarrow> ms \<noteq> [] \<and>
     (\<forall>i < length ms. case md_parent (ms ! i) of None \<Rightarrow> i = 0 | Some p \<Rightarrow> p < i) \<and>
     (\<forall>i < length ms. \<forall>j. j \<in> set (md_submodules (ms ! i)) \<longleftrightarrow> j < length ms \<and> md_parent (ms ! j) = Some i) \<and>
     (\<forall>i < length ms. distinct (md_submodules (ms ! i))) \<and>
     (\<forall>i < length ms. md_cpp_namespace_prefix (ms ! i) = join ''::'' (get_namespace_path ms i))"

lemma tree_okD:
  assumes "tree_ok ms"
  shows "ms \<noteq> []" "i < length ms \<Longrightarrow> md_parent (ms ! i) = None \<Longrightarrow> i = 0"
    "i < length ms \<Longrightarrow> md_parent (ms ! i) = Some p \<Longrightarrow> p < i"
    "i < length ms \<Longrightarrow> j \<in> set (md_submodules (ms ! i)) \<longleftrightarrow> j < length ms \<and> md_parent (ms ! j) = Some i"
    "i < length ms \<Longrightarrow> distinct (md_submodules (ms ! i))"
    "i < length ms \<Longrightarrow> md_cpp_namespace_prefix (ms ! i) = join ''::'' (get_namespace_path ms i)"
  using assms by (auto simp: tree_ok_def split: option.splits)

text \<open>The recursion of the loops over \<open>parent\<close>, without the test.\<close>

lemma module_chain_step:
  assumes "tree_ok ms" "i < length ms"
  shows "module_chain ms i = i # (case md_parent (ms ! i) of None \<Rightarrow> [] | Some p \<Rightarrow> module_chain ms p)"
  by (subst module_chain.simps) (use tree_okD(3) [OF assms] in \<open>auto split: option.splits\<close>)

lemma module_chain_le: "j \<in> set (module_chain ms i) \<Longrightarrow> j \<le> i"
proof (induction ms i rule: module_chain.induct)
  case (1 ms i)
  show ?case
  proof (cases "j = i")
    case False
    have "j \<in> set (i # (case md_parent (ms ! i) of None \<Rightarrow> [] | Some p \<Rightarrow> if p < i then module_chain ms p else []))"
      using 1(2) by (simp add: module_chain.simps [of ms i])
    with False obtain p where "md_parent (ms ! i) = Some p" "p < i" "j \<in> set (module_chain ms p)"
      by (cases "md_parent (ms ! i)") (auto split: if_splits)
    with 1(1) show ?thesis by fastforce
  qed simp
qed

lemma module_chain_cong:
  "(\<And>j. j \<le> i \<Longrightarrow> md_parent (ms ! j) = md_parent (ms' ! j)) \<Longrightarrow> module_chain ms i = module_chain ms' i"
proof (induction ms i rule: module_chain.induct)
  case (1 ms i)
  have IH: "module_chain ms p = module_chain ms' p" if "md_parent (ms ! i) = Some p" "p < i" for p
    using 1 that by auto
  show ?case
    by (subst (1 2) module_chain.simps) (use IH 1(2) [of i] in \<open>auto split: option.splits\<close>)
qed

lemma namespace_path_cong:
  assumes "\<And>j. j \<le> i \<Longrightarrow> md_parent (ms ! j) = md_parent (ms' ! j) \<and> md_cpp_namespace (ms ! j) = md_cpp_namespace (ms' ! j)"
  shows "get_namespace_path ms i = get_namespace_path ms' i"
proof -
  have "module_chain ms i = module_chain ms' i" using assms by (intro module_chain_cong) blast
  moreover have "map (\<lambda>j. namespace_names (md_cpp_namespace (ms ! j))) (module_chain ms i) =
      map (\<lambda>j. namespace_names (md_cpp_namespace (ms' ! j))) (module_chain ms i)"
    using assms module_chain_le by (intro map_cong) auto
  ultimately show ?thesis unfolding get_namespace_path_def by metis
qed

lemma tree_ok_view:
  assumes "map tree_view ms = map tree_view ms'" "tree_ok ms"
  shows "tree_ok ms'"
proof -
  have len: "length ms = length ms'" using assms(1) by (metis length_map)
  have view: "tree_view (ms ! i) = tree_view (ms' ! i)" if "i < length ms" for i
    using arg_cong [OF assms(1), of "\<lambda>xs. xs ! i"] that len by simp
  then have v: "md_parent (ms' ! i) = md_parent (ms ! i)" "md_submodules (ms' ! i) = md_submodules (ms ! i)"
    "md_cpp_namespace (ms' ! i) = md_cpp_namespace (ms ! i)" "md_cpp_namespace_prefix (ms' ! i) = md_cpp_namespace_prefix (ms ! i)"
    if "i < length ms" for i
    using that by (simp_all add: tree_view_def)
  have path: "get_namespace_path ms' i = get_namespace_path ms i" if "i < length ms" for i
    by (rule namespace_path_cong) (use v that in auto)
  have "ms' \<noteq> []" using len tree_okD(1) [OF assms(2)] by auto
  then show ?thesis
    using tree_okD(2-) [OF assms(2)] by (auto simp: tree_ok_def len [symmetric] v path split: option.split)
qed

lemma upd_module_view:
  assumes "\<And>md. tree_view (f md) = tree_view md"
  shows "map tree_view (wd_modules (upd_module i f wd)) = map tree_view (wd_modules wd)"
proof (rule nth_equalityI)
  fix j
  assume "j < length (map tree_view (wd_modules (upd_module i f wd)))"
  then show "map tree_view (wd_modules (upd_module i f wd)) ! j = map tree_view (wd_modules wd) ! j"
    by (cases "j = i") (simp_all add: upd_module_def assms)
qed (simp add: upd_module_def)

text \<open>A component of a namespace is never the separator itself.\<close>

lemma split_colons:
  "x \<in> set (split_str_from ''::'' n acc s) \<Longrightarrow> acc \<noteq> ''::'' \<Longrightarrow> acc = '':'' \<longrightarrow> take 1 s \<noteq> '':'' \<Longrightarrow> n = 0 \<or> acc = [] \<Longrightarrow> x \<noteq> ''::''"
proof (induction "''::''" n acc s rule: split_str_from.induct)
  case (1 n acc)
  then show ?case by (auto simp: rev_swap)
next
  case (3 acc c s)
  show ?case
  proof (cases "take (length ''::'') (c # s) = ''::''")
    case True
    with 3(3) consider "x = rev acc" | "x \<in> set (split_str_from ''::'' (length ''::'' - 1) [] s)" by auto
    then show ?thesis
    proof cases
      case 1
      with 3(4) show ?thesis by (metis rev.simps rev_rev_ident append.simps)
    next
      case 2
      from 3(1) [OF True 2] show ?thesis by simp
    qed
  next
    case False
    with 3(3) have "x \<in> set (split_str_from ''::'' 0 (c # acc) s)" by (auto split: if_splits)
    from 3(2) [OF False this] show ?thesis using 3(4,5) False by (cases s) auto
  qed
qed auto

lemma namespace_names_sep: "''::'' \<notin> set (namespace_names ns)"
  using split_colons [of _ 0 "[]" ns]
  by (cases "split_str_from ''::'' 0 [] ns") (auto simp: namespace_names_def split_str_def)

lemma namespace_path_sep: "''::'' \<notin> set (get_namespace_path ms i)"
  by (auto simp: get_namespace_path_def namespace_names_sep)

text \<open>What a new module changes: the list grows by one, and only the parent's list of submodules changes.\<close>

lemma ModuleBase_init_view:
  fixes name cpp_namespace :: string and docstring :: "string option"
  assumes "\<And>p. parent = Some p \<Longrightarrow> p < length ms"
  defines "ms' \<equiv> ModuleBase_init name parent docstring cpp_namespace ms"
  shows "length ms' = Suc (length ms)"
    "md_parent (ms' ! length ms) = parent" "md_submodules (ms' ! length ms) = []"
    "md_cpp_namespace (ms' ! length ms) = cpp_namespace"
    "md_cpp_namespace_prefix (ms' ! length ms) = join ''::'' (get_namespace_path ms' (length ms))"
    "i < length ms \<Longrightarrow> tree_view (ms' ! i) =
       (md_parent (ms ! i), md_submodules (ms ! i) @ (if parent = Some i then [length ms] else []),
        md_cpp_namespace (ms ! i), md_cpp_namespace_prefix (ms ! i))"
proof -
  define ms1 where "ms1 = (case parent of None \<Rightarrow> ms | Some p \<Rightarrow> ms[p := (ms ! p)\<lparr>md_submodules := md_submodules (ms ! p) @ [length ms]\<rparr>])"
  define md where "md = module_set_name (map_option (\<lambda>p. md_prefix (ms1 ! p)) parent) name (blank_module parent docstring cpp_namespace)"
  define path where "path = get_namespace_path (ms1 @ [md]) (length ms)"
  have [simp]: "length ms1 = length ms" by (simp add: ms1_def split: option.split)
  have md: "md_parent md = parent" "md_submodules md = []" "md_cpp_namespace md = cpp_namespace"
    by (simp_all add: md_def module_set_name_def blank_module_def split: option.split)
  have "(case path of [] \<Rightarrow> [] | n # names \<Rightarrow> if n = ''::'' then names else n # names) = path"
    using namespace_path_sep [of "ms1 @ [md]" "length ms"] by (cases path) (auto simp: path_def)
  then have ms': "ms' = ms1 @ [set_strip_prefix (name @ ''_'') (md\<lparr>md_cpp_namespace_prefix := join ''::'' path\<rparr>)]"
    by (simp add: ms'_def ModuleBase_init_def Let_def ms1_def [symmetric] md_def [symmetric] path_def [symmetric] list_update_append)
  show "length ms' = Suc (length ms)" "md_parent (ms' ! length ms) = parent" "md_submodules (ms' ! length ms) = []"
    "md_cpp_namespace (ms' ! length ms) = cpp_namespace"
    using md by (simp_all add: ms' nth_append set_strip_prefix_def)
  have "get_namespace_path ms' (length ms) = path"
    unfolding path_def by (rule namespace_path_cong) (auto simp: ms' nth_append set_strip_prefix_def)
  then show "md_cpp_namespace_prefix (ms' ! length ms) = join ''::'' (get_namespace_path ms' (length ms))"
    by (simp add: ms' nth_append set_strip_prefix_def)
  show "tree_view (ms' ! i) = (md_parent (ms ! i), md_submodules (ms ! i) @ (if parent = Some i then [length ms] else []),
        md_cpp_namespace (ms ! i), md_cpp_namespace_prefix (ms ! i))" if "i < length ms"
    using that assms(1) by (auto simp: ms' nth_append ms1_def tree_view_def nth_list_update split: option.split)
qed

lemma tree_ok_root: "tree_ok (ModuleBase_init name None docstring cpp_namespace [])"
  using ModuleBase_init_view(1-5) [where parent = None and ms = "[]" and name = name and docstring = docstring and cpp_namespace = cpp_namespace] by (auto simp: tree_ok_def)

lemma tree_ok_submodule:
  assumes "tree_ok ms" "p < length ms"
  shows "tree_ok (ModuleBase_init name (Some p) docstring cpp_namespace ms)" (is "tree_ok ?ms")
proof -
  note new = ModuleBase_init_view [where parent = "Some p" and ms = ms and name = name and docstring = docstring and cpp_namespace = cpp_namespace,
      simplified, OF assms(2)]
  have old: "md_parent (?ms ! i) = md_parent (ms ! i)"
    "md_submodules (?ms ! i) = md_submodules (ms ! i) @ (if p = i then [length ms] else [])"
    "md_cpp_namespace (?ms ! i) = md_cpp_namespace (ms ! i)" "md_cpp_namespace_prefix (?ms ! i) = md_cpp_namespace_prefix (ms ! i)"
    if "i < length ms" for i
    using new(6) [OF that] by (simp_all add: tree_view_def)
  have path: "get_namespace_path ?ms i = get_namespace_path ms i" if "i < length ms" for i
    by (rule namespace_path_cong) (use old that in auto)
  have below: "md_parent (ms ! j) = Some i \<Longrightarrow> j < length ms \<Longrightarrow> i < length ms" for i j
    using tree_okD(3) [OF assms(1)] by fastforce
  show ?thesis
    unfolding tree_ok_def new(1)
  proof (intro conjI allI impI)
    fix i
    assume i: "i < Suc (length ms)"
    show "case md_parent (?ms ! i) of None \<Rightarrow> i = 0 | Some p \<Rightarrow> p < i"
      using i new(2) old tree_okD(2,3) [OF assms(1)] assms(2) by (cases "i = length ms") (auto split: option.split)
    show "(j \<in> set (md_submodules (?ms ! i))) = (j < Suc (length ms) \<and> md_parent (?ms ! j) = Some i)" for j
      using i new(2,3) old tree_okD(4) [OF assms(1)] below assms(2)
      by (cases "i = length ms"; cases "j = length ms") (auto simp: less_Suc_eq dest: below)
    show "distinct (md_submodules (?ms ! i))"
      using i new(3) old(2) tree_okD(4,5) [OF assms(1)] by (cases "i = length ms") auto
    show "md_cpp_namespace_prefix (?ms ! i) = join ''::'' (get_namespace_path ?ms i)"
      using i new(5) old(4) path tree_okD(6) [OF assms(1)] by (cases "i = length ms") auto
  qed (use new(1) in force)
qed

section \<open>Reachable trees\<close>

text \<open>
  An operation on one module of the tree: it may also fail, and then it leaves the state in which it
  failed.  The objects that are added and the user's name transformers are arbitrary.
\<close>

inductive module_op :: "settings \<Rightarrow> 't world \<Rightarrow> 't world \<Rightarrow> bool" for st where
  op_submodule: "i < length (wd_modules wd) \<Longrightarrow> SubModule_init name i docstring cpp_namespace wd = (r, wd') \<Longrightarrow> module_op st wd wd'"
| op_namespace: "i < length (wd_modules wd) \<Longrightarrow> add_cpp_namespace i name wd = (r, wd') \<Longrightarrow> module_op st wd wd'"
| op_begin_section: "begin_section i name wd = (u, wd') \<Longrightarrow> module_op st wd wd'"
| op_end_section: "end_section i name wd = (u, wd') \<Longrightarrow> module_op st wd wd'"
| op_include: "add_include i include wd = (u, wd') \<Longrightarrow> module_op st wd wd'"
| op_transformer: "module_op st wd (upd_module i (set_c_function_name_transformer transformer) wd)"
| op_function: "add_function i created wd = (f, wd') \<Longrightarrow> module_op st wd wd'"
| op_class: "add_class_obj st i c wd = Some (u, wd') \<Longrightarrow> module_op st wd wd'"
| op_enum: "add_enum_obj i e wd = Some (u, wd') \<Longrightarrow> module_op st wd wd'"
| op_container: "add_container st i c created wd = Some (b, wd') \<Longrightarrow> module_op st wd wd'"
| op_exception: "add_exception_obj st i x wd = (u, wd') \<Longrightarrow> module_op st wd wd'"
| op_typedef: "add_typedef i j c name wd = Some (u, wd') \<Longrightarrow> module_op st wd wd'"

inductive module_reachable :: "settings \<Rightarrow> 't world \<Rightarrow> bool" for st where
  reach_root: "module_reachable st (Module_init name docstring cpp_namespace classes enums containers excs ms)"
| reach_op: "module_reachable st wd \<Longrightarrow> module_op st wd wd' \<Longrightarrow> module_reachable st wd'"

text \<open>All operations but the creation of a submodule keep the shape of the tree.\<close>

definition tree_of :: "'t world \<Rightarrow> (nat option \<times> nat list \<times> string \<times> string) list" where
  "tree_of wd = map tree_view (wd_modules wd)"

lemma tree_of_stores [simp]:
  "tree_of (wd\<lparr>wd_classes := a\<rparr>) = tree_of wd" "tree_of (wd\<lparr>wd_enums := b\<rparr>) = tree_of wd"
  "tree_of (wd\<lparr>wd_containers := d\<rparr>) = tree_of wd" "tree_of (wd\<lparr>wd_exceptions := e\<rparr>) = tree_of wd"
  "tree_of (wd\<lparr>wd_matchers := f\<rparr>) = tree_of wd" "tree_of (wd\<lparr>wd_root_data := g\<rparr>) = tree_of wd"
  "tree_of (set_section i w wd) = tree_of wd"
  by (simp_all add: tree_of_def set_section_def)

lemma tree_of_upd: "(\<And>md. tree_view (f md) = tree_view md) \<Longrightarrow> tree_of (upd_module i f wd) = tree_of wd"
  by (simp add: tree_of_def upd_module_view)

lemma tree_of_module_fields [simp]:
  "tree_of (upd_module i (\<lambda>md. md\<lparr>md_current_section := a md\<rparr>) wd) = tree_of wd"
  "tree_of (upd_module i (\<lambda>md. md\<lparr>md_functions := b md\<rparr>) wd) = tree_of wd"
  "tree_of (upd_module i (\<lambda>md. md\<lparr>md_types := c md\<rparr>) wd) = tree_of wd"
  "tree_of (upd_module i (\<lambda>md. md\<lparr>md_classes := d md\<rparr>) wd) = tree_of wd"
  "tree_of (upd_module i (\<lambda>md. md\<lparr>md_enums := e md\<rparr>) wd) = tree_of wd"
  "tree_of (upd_module i (\<lambda>md. md\<lparr>md_containers := f md\<rparr>) wd) = tree_of wd"
  "tree_of (upd_module i (\<lambda>md. md\<lparr>md_exceptions := g md\<rparr>) wd) = tree_of wd"
  "tree_of (upd_module i (\<lambda>md. md\<lparr>md_typedefs := h md\<rparr>) wd) = tree_of wd"
  "tree_of (upd_module i (set_c_function_name_transformer t) wd) = tree_of wd"
  by (rule tree_of_upd, simp add: tree_view_def set_c_function_name_transformer_def)+

lemma tree_of_fold [simp]:
  "tree_of (fold (\<lambda>j. upd_module j (\<lambda>md. md\<lparr>md_types := c md\<rparr>)) js wd) = tree_of wd"
  by (induction js arbitrary: wd) simp_all

lemma tree_of_register [simp]: "tree_of (register_type i name full_name w wd) = tree_of wd"
  by (simp add: register_type_def Let_def)

lemma tree_of_class_set_module: "class_set_module st i c wd = Some (r, wd') \<Longrightarrow> tree_of wd' = tree_of wd"
  by (auto simp: class_set_module_def Let_def split: option.splits sum.splits)

lemma tree_of_class: "add_class_obj st i c wd = Some (r, wd') \<Longrightarrow> tree_of wd' = tree_of wd"
  by (auto simp: add_class_obj_def bndd_def Let_def dest!: tree_of_class_set_module split: option.splits sum.splits prod.splits)

lemma tree_of_enum: "add_enum_obj i e wd = Some (r, wd') \<Longrightarrow> tree_of wd' = tree_of wd"
  by (cases r) (auto simp: add_enum_obj_def Let_def)

lemma tree_of_container: "add_container_obj st i c wd = Some (r, wd') \<Longrightarrow> tree_of wd' = tree_of wd"
  by (cases r) (auto simp: add_container_obj_def Let_def)

lemma tree_of_alias: "class_register_alias j c alias_name wd = Some (r, wd') \<Longrightarrow> tree_of wd' = tree_of wd"
  by (auto simp: class_register_alias_def Let_def)

lemma tree_of_typedef: "add_typedef i j c name wd = Some (r, wd') \<Longrightarrow> tree_of wd' = tree_of wd"
  by (auto simp: add_typedef_def bndd_def split: option.splits sum.splits prod.splits dest!: tree_of_alias)

lemma tree_of_add_container: "add_container st i c created wd = Some (b, wd') \<Longrightarrow> tree_of wd' = tree_of wd"
  by (auto simp: add_container_def bndd_def split: sum.splits option.splits prod.splits py_error.splits dest!: tree_of_container)

lemma tree_of_exception: "add_exception_obj st i x wd = (u, wd') \<Longrightarrow> tree_of wd' = tree_of wd"
  by (auto simp: add_exception_obj_def split: prod.splits sum.splits)

lemma tree_of_function: "add_function i created wd = (f, wd') \<Longrightarrow> tree_of wd' = tree_of wd"
  by (auto simp: add_function_def add_function_obj_def bnd_def Let_def split: sum.splits py_error.splits prod.splits)

lemma tree_of_sections:
  "begin_section i name wd = (u, wd') \<Longrightarrow> tree_of wd' = tree_of wd" "end_section i name wd = (u, wd') \<Longrightarrow> tree_of wd' = tree_of wd"
  by (auto simp: begin_section_def end_section_def bnd_def assert_py_def split: if_splits)

lemma tree_of_include: "add_include i include wd = (u, wd') \<Longrightarrow> tree_of wd' = tree_of wd"
  by (auto simp: add_include_def bnd_def assert_py_def when_py_def split: sum.splits option.splits if_splits)

lemmas tree_of_ops = tree_of_class tree_of_enum tree_of_add_container tree_of_exception tree_of_typedef tree_of_function
  tree_of_sections tree_of_include

lemma tree_of_namespace:
  "add_cpp_namespace i name wd = (r, wd') \<Longrightarrow> wd' = wd \<or> SubModule_init name i None name wd = (r, wd')"
  by (auto simp: add_cpp_namespace_def try_except_def get_submodule_def split: option.splits)

lemma SubModule_init_tree:
  "SubModule_init name i docstring cpp_namespace wd = (r, wd') \<Longrightarrow> i < length (wd_modules wd) \<Longrightarrow>
     tree_ok (wd_modules wd) \<Longrightarrow> tree_ok (wd_modules wd')"
  by (auto simp: SubModule_init_def tree_ok_submodule)

lemma module_op_tree:
  assumes "module_op st wd wd'" "tree_ok (wd_modules wd)"
  shows "tree_ok (wd_modules wd')"
proof -
  have same: ?thesis if "tree_of wd' = tree_of wd"
    using that assms(2) tree_ok_view [of "wd_modules wd"] by (simp add: tree_of_def)
  from assms(1) show ?thesis
  proof cases
    case op_submodule
    with assms(2) SubModule_init_tree show ?thesis by blast
  next
    case op_namespace
    with assms(2) SubModule_init_tree tree_of_namespace show ?thesis by blast
  next
    case op_transformer
    then show ?thesis by (intro same) simp
  qed (auto intro!: same dest: tree_of_ops)
qed

lemma module_reachable_tree: "module_reachable st wd \<Longrightarrow> tree_ok (wd_modules wd)"
  by (induction rule: module_reachable.induct) (auto simp: Module_init_def tree_ok_root intro: module_op_tree)

lemma get_root_0:
  assumes "tree_ok ms"
  shows "i < length ms \<Longrightarrow> get_root ms i = 0"
proof (induction i rule: less_induct)
  case (less i)
  show ?case
  proof (cases "md_parent (ms ! i)")
    case None
    then have "i = 0" "module_chain ms i = [i]"
      using tree_okD(2) [OF assms less.prems] module_chain_step [OF assms less.prems] by simp_all
    then show ?thesis by (simp add: get_root_def)
  next
    case (Some p)
    then have "p < i" using tree_okD(3) [OF assms less.prems] by blast
    with less have "get_root ms p = 0" by simp
    moreover have "module_chain ms p \<noteq> []" by (simp add: module_chain.simps [of ms p])
    ultimately show ?thesis using Some by (simp add: get_root_def module_chain_step [OF assms less.prems])
  qed
qed

text \<open>
  C22. However a tree of modules is built and filled, also by operations that fail half way: the lists of
  submodules and the parent pointers describe the same tree with the first module at its root, the C++
  namespace and the path of a submodule extend those of its parent by the components it was created with, and
  the prefix that full type names start with is this namespace.
\<close>

theorem module_tree_invariant:
  assumes "module_reachable st wd" and "i < length (wd_modules wd)"
  shows "get_root (wd_modules wd) i = 0 \<and>
    {j. j \<in> set (md_submodules (wd_modules wd ! i))} = {j. j < length (wd_modules wd) \<and> md_parent (wd_modules wd ! j) = Some i} \<and>
    get_namespace_path (wd_modules wd) i =
      (case md_parent (wd_modules wd ! i) of None \<Rightarrow> [] | Some p \<Rightarrow> get_namespace_path (wd_modules wd) p) @
      namespace_names (md_cpp_namespace (wd_modules wd ! i)) \<and>
    get_module_path (wd_modules wd) i =
      (case md_parent (wd_modules wd ! i) of None \<Rightarrow> [] | Some p \<Rightarrow> get_module_path (wd_modules wd) p) @
      [md_name (wd_modules wd ! i)] \<and>
    md_cpp_namespace_prefix (wd_modules wd ! i) = join ''::'' (get_namespace_path (wd_modules wd) i)"
proof -
  note ok = module_reachable_tree [OF assms(1)]
  show ?thesis
    using get_root_0 [OF ok assms(2)] tree_okD(4,6) [OF ok assms(2)]
    by (auto simp: get_namespace_path_def get_module_path_def module_chain_step [OF ok assms(2)] split: option.split)
qed

text \<open>The tree of the documentation: a module \<open>foo\<close> with a namespace \<open>xpto\<close> in it.\<close>

definition sample_world :: "unit world" where
  "sample_world = Module_init ''foo'' None ''::foo'' (\<lambda>_. sample_root\<lparr>cc_name := ''Bar''\<rparr>) (\<lambda>_. undefined) (\<lambda>_. undefined) (\<lambda>_. undefined)
     (\<lparr>tm_types = [], tm_transformations = [], tm_aliases = [], tm_aliases_rev = []\<rparr>,
      \<lparr>tm_types = [], tm_transformations = [], tm_aliases = [], tm_aliases_rev = []\<rparr>)"

definition sample_tree :: "unit world" where
  "sample_tree = snd (add_cpp_namespace 0 ''xpto'' sample_world)"

lemma sample_tree_reachable: "module_reachable default_settings sample_tree"
proof -
  have "module_op default_settings sample_world sample_tree"
    by (rule op_namespace [of 0 _ "''xpto''" "fst (add_cpp_namespace 0 ''xpto'' sample_world)"])
       (simp_all add: sample_tree_def sample_world_def Module_init_def ModuleBase_init_def Let_def)
  then show ?thesis by (rule reach_op [rotated]) (simp add: sample_world_def reach_root)
qed

lemma sample_tree_modules: "length (wd_modules sample_tree) = 2" "md_parent (wd_modules sample_tree ! 1) = Some 0"
  "md_cpp_namespace (wd_modules sample_tree ! 0) = ''::foo''" "md_cpp_namespace (wd_modules sample_tree ! 1) = ''xpto''"
  "md_parent (wd_modules sample_tree ! 0) = None"
  by code_simp+

theorem module_tree_invariant_witness:
  "get_root (wd_modules sample_tree) 1 = 0 \<and> md_cpp_namespace_prefix (wd_modules sample_tree ! 1) = ''foo::xpto'' \<and>
   set (md_submodules (wd_modules sample_tree ! 1)) = {}"
proof -
  have names: "namespace_names ''::foo'' = [''foo'']" "namespace_names ''xpto'' = [''xpto'']" "join ''::'' [''foo'', ''xpto''] = ''foo::xpto''"
    by code_simp+
  from module_tree_invariant [OF sample_tree_reachable, of 0] have path: "get_namespace_path (wd_modules sample_tree) 0 = [''foo'']"
    by (simp add: sample_tree_modules names)
  have "md_parent (wd_modules sample_tree ! j) \<noteq> Some 1" if "j = 0 \<or> j = 1" for j
    using that sample_tree_modules by auto
  then have "{j. j < length (wd_modules sample_tree) \<and> md_parent (wd_modules sample_tree ! j) = Some 1} = {}"
    unfolding sample_tree_modules(1) by (metis (mono_tags, lifting) One_nat_def empty_Collect_eq less_2_cases)
  with module_tree_invariant [OF sample_tree_reachable, of 1] path show ?thesis
    by (simp add: sample_tree_modules names del: One_nat_def)
qed

section \<open>Types are found\<close>

lemma upd_module_nth: "j < length (wd_modules wd) \<Longrightarrow> wd_modules (upd_module i f wd) ! j = (if j = i then f (wd_modules wd ! j) else wd_modules wd ! j)"
  by (auto simp: upd_module_def nth_list_update)

lemma length_upd_module [simp]: "length (wd_modules (upd_module i f wd)) = length (wd_modules wd)"
  by (simp add: upd_module_def)

lemma module_chain_upd:
  assumes "\<And>md. md_parent (f md) = md_parent md"
  shows "module_chain (wd_modules (upd_module i f wd)) = module_chain (wd_modules wd)"
proof
  fix j
  have "md_parent (wd_modules (upd_module i f wd) ! k) = md_parent (wd_modules wd ! k)" for k
    using assms by (cases "k < length (wd_modules wd)"; cases "k = i") (auto simp: upd_module_def list_update_beyond nth_list_update)
  then show "module_chain (wd_modules (upd_module i f wd)) j = module_chain (wd_modules wd) j" by (intro module_chain_cong)
qed

lemma fold_put_lookup:
  "j < length (wd_modules wd) \<Longrightarrow>
   module_lookup j key (fold (\<lambda>i. upd_module i (\<lambda>md. md\<lparr>md_types := AList.update k w (md_types md)\<rparr>)) js wd) =
     (if j \<in> set js \<and> key = k then Some w else module_lookup j key wd)"
  by (induction js arbitrary: wd) (simp_all add: module_lookup_def upd_module_nth update_conv')

text \<open>A registered type is found under its name in its module, and under its full name in every enclosing one.\<close>

lemma module_lookup_register:
  assumes "j < length (wd_modules wd)"
  shows "module_lookup j key (register_type i name full_name w wd) =
    (if full_name \<noteq> [] \<and> key = full_name \<and> j \<in> set (module_chain (wd_modules wd) i) \<or> name \<noteq> [] \<and> key = name \<and> j = i
     then Some w else module_lookup j key wd)"
proof -
  let ?put = "\<lambda>md. md\<lparr>md_types := AList.update name w (md_types md)\<rparr>"
  have one: "module_lookup j key (upd_module i ?put wd) = (if key = name \<and> j = i then Some w else module_lookup j key wd)"
    using assms by (simp add: module_lookup_def upd_module_nth update_conv')
  have chain: "module_chain (wd_modules (upd_module i ?put wd)) = module_chain (wd_modules wd)" by (rule module_chain_upd) simp
  show ?thesis
    using assms one by (auto simp: register_type_def Let_def fold_put_lookup chain)
qed

definition encloses :: "module_obj list \<Rightarrow> nat \<Rightarrow> nat \<Rightarrow> bool" where
  "encloses ms = (\<lambda>i j. md_parent (ms ! i) = Some j)\<^sup>*\<^sup>*"

lemma module_chain_encloses:
  assumes "tree_ok ms"
  shows "i < length ms \<Longrightarrow> j \<in> set (module_chain ms i) \<longleftrightarrow> encloses ms i j"
proof (induction i rule: less_induct)
  case (less i)
  show ?case
  proof (cases "md_parent (ms ! i)")
    case None
    then have "encloses ms i j \<longleftrightarrow> j = i" by (auto simp: encloses_def elim: converse_rtranclpE)
    with None show ?thesis by (auto simp: module_chain_step [OF assms less.prems])
  next
    case (Some p)
    then have "p < i" using tree_okD(3) [OF assms less.prems] by blast
    moreover have "encloses ms i j \<longleftrightarrow> j = i \<or> encloses ms p j"
      using Some by (auto simp: encloses_def elim: converse_rtranclpE intro: converse_rtranclp_into_rtranclp)
    ultimately show ?thesis using less Some by (auto simp: module_chain_step [OF assms less.prems])
  qed
qed

lemma join_colons:
  assumes "[] \<notin> set path" "''::'' \<notin> set path"
  shows "join ''::'' path = [] \<longleftrightarrow> path = []" "join ''::'' path \<noteq> ''::''"
proof -
  show "join ''::'' path = [] \<longleftrightarrow> path = []" using assms(1) by (cases "(''::'', path)" rule: join.cases) auto
  show "join ''::'' path \<noteq> ''::''"
  proof (cases "(''::'', path)" rule: join.cases)
    case (3 s x y ys)
    then have "length x \<ge> 1" using assms(1) by (cases x) auto
    then have "length (join ''::'' path) \<ge> 3" using 3 by auto
    then show ?thesis by auto
  qed (use assms(2) in auto)
qed

lemma upd_module_classes [simp]: "upd_module i f (wd\<lparr>wd_classes := cs\<rparr>) = (upd_module i f wd)\<lparr>wd_classes := cs\<rparr>"
  by (simp add: upd_module_def)

lemma wd_classes_upd_module [simp]: "wd_classes (upd_module i f wd) = wd_classes wd"
  by (simp add: upd_module_def)

lemma fold_upd_classes [simp]:
  "fold (\<lambda>j. upd_module j f) js (wd\<lparr>wd_classes := cs\<rparr>) = (fold (\<lambda>j. upd_module j f) js wd)\<lparr>wd_classes := cs\<rparr>"
  "wd_classes (fold (\<lambda>j. upd_module j f) js wd) = wd_classes wd"
  by (induction js arbitrary: wd) simp_all

lemma register_type_classes [simp]:
  "register_type i name full_name w (wd\<lparr>wd_classes := cs\<rparr>) = (register_type i name full_name w wd)\<lparr>wd_classes := cs\<rparr>"
  "wd_classes (register_type i name full_name w wd) = wd_classes wd"
  by (simp_all add: register_type_def Let_def)

lemma class_set_module_Inr:
  assumes "class_set_module st i c wd = Some (Inr (), wd')"
  shows "\<exists>cls. update_names st (md_cpp_namespace_prefix (wd_modules wd ! i)) c (wd_classes wd) = Some (Inr cls) \<and>
    wd_classes wd' = (wd_classes wd)(c := cls) \<and>
    wd_modules wd' = wd_modules (register_type i [] (cc_full_name cls) (Class_Type c) wd)"
  using assms
  by (auto simp: class_set_module_def Let_def split: option.splits sum.splits)

lemma set_section_modules [simp]: "wd_modules (set_section i w wd) = wd_modules wd" "wd_classes (set_section i w wd) = wd_classes wd"
  by (simp_all add: set_section_def)

lemma register_type_length [simp]: "length (wd_modules (register_type i name full_name w wd)) = length (wd_modules wd)"
  using arg_cong [OF tree_of_register [of i name full_name w wd], of length] by (simp add: tree_of_def)

lemma tree_of_chain:
  assumes "tree_of wd' = tree_of wd" "i < length (wd_modules wd)"
  shows "module_chain (wd_modules wd') i = module_chain (wd_modules wd) i"
proof (rule module_chain_cong)
  fix j
  assume "j \<le> i"
  moreover have "length (wd_modules wd') = length (wd_modules wd)" using arg_cong [OF assms(1), of length] by (simp add: tree_of_def)
  ultimately show "md_parent (wd_modules wd' ! j) = md_parent (wd_modules wd ! j)"
    using arg_cong [OF assms(1), of "\<lambda>xs. xs ! j"] assms(2) by (simp add: tree_of_def tree_view_def)
qed

lemma add_class_obj_lookup:
  assumes "add_class_obj st i c wd = Some (Inr (), wd')" "i < length (wd_modules wd)" "j < length (wd_modules wd)"
  defines "cls \<equiv> wd_classes wd' c"
  shows "module_lookup j key wd' =
    (if cc_full_name cls \<noteq> [] \<and> key = cc_full_name cls \<and> j \<in> set (module_chain (wd_modules wd) i) \<or> cc_name cls \<noteq> [] \<and> key = cc_name cls \<and> j = i
     then Some (Class_Type c) else module_lookup j key wd)"
    and "update_names st (md_cpp_namespace_prefix (wd_modules wd ! i)) c (wd_classes wd) = Some (Inr cls)"
proof -
  obtain wd1 where 1: "class_set_module st i c wd = Some (Inr (), wd1)"
    and wd': "wd' = (let wd = upd_module i (\<lambda>md. md\<lparr>md_classes := md_classes md @ [c]\<rparr>) (set_section i (Class_Type c) wd1)
       in register_type i (cc_name (wd_classes wd c)) (cc_full_name (wd_classes wd c)) (Class_Type c) wd)"
    using assms(1) unfolding add_class_obj_def by (auto elim!: bndd_InrE)
  from class_set_module_Inr [OF 1] obtain cls' where
    cls': "update_names st (md_cpp_namespace_prefix (wd_modules wd ! i)) c (wd_classes wd) = Some (Inr cls')"
      "wd_classes wd1 = (wd_classes wd)(c := cls')"
      "wd_modules wd1 = wd_modules (register_type i [] (cc_full_name cls') (Class_Type c) wd)" by blast
  have [simp]: "cls = cls'" by (simp add: cls_def wd' Let_def cls'(2))
  show "update_names st (md_cpp_namespace_prefix (wd_modules wd ! i)) c (wd_classes wd) = Some (Inr cls)" using cls'(1) by simp
  have len: "length (wd_modules wd1) = length (wd_modules wd)" by (simp add: cls'(3))
  have "module_chain (wd_modules wd1) i = module_chain (wd_modules wd) i"
    by (rule tree_of_chain [OF tree_of_class_set_module [OF 1] assms(2)])
  moreover have "module_chain (wd_modules (upd_module i (\<lambda>md. md\<lparr>md_classes := md_classes md @ [c]\<rparr>) (set_section i (Class_Type c) wd1))) =
      module_chain (wd_modules wd1)"
    by (subst module_chain_upd) simp_all
  moreover have "module_lookup j key (upd_module i (\<lambda>md. md\<lparr>md_classes := md_classes md @ [c]\<rparr>) (set_section i (Class_Type c) wd1)) =
      module_lookup j key wd1"
    using assms(3) len by (simp add: module_lookup_def upd_module_nth)
  moreover have "module_lookup j key wd1 = module_lookup j key (register_type i [] (cc_full_name cls') (Class_Type c) wd)"
    by (simp add: module_lookup_def cls'(3))
  ultimately show "module_lookup j key wd' =
    (if cc_full_name cls \<noteq> [] \<and> key = cc_full_name cls \<and> j \<in> set (module_chain (wd_modules wd) i) \<or> cc_name cls \<noteq> [] \<and> key = cc_name cls \<and> j = i
     then Some (Class_Type c) else module_lookup j key wd)"
    using assms(3) len by (simp add: wd' Let_def module_lookup_register cls'(2))
qed

lemma update_names_full:
  assumes "update_names st ns c classes = Some (Inr cls)"
  shows "cc_name cls = cc_name (classes c)"
    "cc_full_name cls = (case cc_outer_class (classes c) of
         Some outer \<Rightarrow> cc_full_name (classes outer) @ ''::'' @ cc_name (classes c)
       | None \<Rightarrow> if cc_foreign_cpp_namespace (classes c) \<noteq> [] then cc_foreign_cpp_namespace (classes c) @ ''::'' @ cc_name (classes c)
           else (if ns = [] then [] else if ns = ''::'' then ns else ns @ ''::'') @ cc_name (classes c)) @
       (if cc_template_parameters (classes c) = [] then [] else ''< '' @ join '', '' (cc_template_parameters (classes c)) @ '' >'')"
    "cc_outer_class (classes c) \<noteq> None \<Longrightarrow> cc_foreign_cpp_namespace (classes c) = []"
  using assms by (auto simp: update_names_def qualified_name_def Let_def bind_div_Inr split: option.splits if_splits)

text \<open>
  C23. A class that is added to a module, with the full name that this gives it: a nested class that of its outer class and
  its own name; a class of a foreign namespace this namespace and its name; any other class the namespaces of
  the module and of those around it and its name, if none of these namespaces is empty; a template class has its parameters
  at the end.  The class is then found, as far as the names are not empty: under its name in the module, under its full
  name in the module and in every enclosing module, and under no other name or in no other module than before.
\<close>

theorem added_class_found:
  assumes "module_reachable st wd" and "i < length (wd_modules wd)" and "add_class_obj st i c wd = Some (Inr (), wd')"
  defines "cls \<equiv> wd_classes wd c" and "full_name \<equiv> cc_full_name (wd_classes wd' c)"
    and "args \<equiv> (if cc_template_parameters (wd_classes wd c) = [] then []
      else ''< '' @ join '', '' (cc_template_parameters (wd_classes wd c)) @ '' >'')"
  shows "(case cc_outer_class cls of
       Some outer \<Rightarrow> full_name = cc_full_name (wd_classes wd outer) @ ''::'' @ cc_name cls @ args
     | None \<Rightarrow>
         if cc_foreign_cpp_namespace cls \<noteq> [] then full_name = cc_foreign_cpp_namespace cls @ ''::'' @ cc_name cls @ args
         else [] \<notin> set (get_namespace_path (wd_modules wd) i) \<longrightarrow>
           full_name = join ''::'' (get_namespace_path (wd_modules wd) i @ [cc_name cls]) @ args) \<and>
    (\<forall>j key. j < length (wd_modules wd) \<longrightarrow> module_lookup j key wd' =
      (if full_name \<noteq> [] \<and> key = full_name \<and> encloses (wd_modules wd) i j \<or> cc_name cls \<noteq> [] \<and> key = cc_name cls \<and> j = i
       then Some (Class_Type c) else module_lookup j key wd))"
proof -
  note ok = module_reachable_tree [OF assms(1)]
  let ?path = "get_namespace_path (wd_modules wd) i"
  note names = update_names_full [OF add_class_obj_lookup(2) [OF assms(3,2,2)]]
  have "full_name = join ''::'' (?path @ [cc_name cls]) @ args"
    if "cc_outer_class cls = None" "cc_foreign_cpp_namespace cls = []" "[] \<notin> set ?path"
  proof -
    note j = join_colons [OF that(3) namespace_path_sep]
    have "full_name = ((if ?path = [] then [] else join ''::'' ?path @ ''::'') @ cc_name cls) @ args"
      using names(2) that(1,2) j tree_okD(6) [OF ok assms(2)] by (simp add: cls_def full_name_def args_def)
    also have "(if ?path = [] then [] else join ''::'' ?path @ ''::'') @ cc_name cls = join ''::'' (?path @ [cc_name cls])"
      by (cases "?path = []") (simp_all add: join_append)
    finally show ?thesis .
  qed
  moreover have "full_name = cc_full_name (wd_classes wd outer) @ ''::'' @ cc_name cls @ args" if "cc_outer_class cls = Some outer" for outer
    using names(2) that by (simp add: cls_def full_name_def args_def)
  moreover have "full_name = cc_foreign_cpp_namespace cls @ ''::'' @ cc_name cls @ args"
    if "cc_outer_class cls = None" "cc_foreign_cpp_namespace cls \<noteq> []"
    using names(2) that by (simp add: cls_def full_name_def args_def)
  moreover have "module_lookup j key wd' =
      (if full_name \<noteq> [] \<and> key = full_name \<and> encloses (wd_modules wd) i j \<or> cc_name cls \<noteq> [] \<and> key = cc_name cls \<and> j = i
       then Some (Class_Type c) else module_lookup j key wd)" if "j < length (wd_modules wd)" for j key
    using add_class_obj_lookup(1) [OF assms(3,2) that, of key] names(1)
    by (simp add: module_chain_encloses [OF ok assms(2)] cls_def full_name_def)
  ultimately show ?thesis by (auto split: option.split)
qed

lemma sample_class_added:
  "case add_class_obj default_settings 1 0 sample_tree of
     Some (Inr _, wd) \<Rightarrow> True | _ \<Rightarrow> False"
  by code_simp

lemma sample_class_plain: "cc_outer_class (wd_classes sample_tree 0) = None" "cc_foreign_cpp_namespace (wd_classes sample_tree 0) = []"
  "cc_template_parameters (wd_classes sample_tree 0) = []" "cc_name (wd_classes sample_tree 0) = ''Bar''"
  "get_namespace_path (wd_modules sample_tree) 1 = [''foo'', ''xpto'']" "join ''::'' [''foo'', ''xpto'', ''Bar''] = ''foo::xpto::Bar''"
  "(1 :: nat) < length (wd_modules sample_tree)" "(0 :: nat) < length (wd_modules sample_tree)"
  by code_simp+

theorem added_class_found_witness:
  "\<exists>wd'. add_class_obj default_settings 1 0 sample_tree = Some (Inr (), wd') \<and>
     module_lookup 0 ''foo::xpto::Bar'' wd' = Some (Class_Type 0) \<and> module_lookup 1 ''foo::xpto::Bar'' wd' = Some (Class_Type 0) \<and>
     module_lookup 1 ''Bar'' wd' = Some (Class_Type 0) \<and> module_lookup 0 ''Bar'' wd' = None"
proof -
  obtain wd' where r: "add_class_obj default_settings 1 0 sample_tree = Some (Inr (), wd')"
    using sample_class_added by (auto split: option.splits prod.splits sum.splits)
  note found = added_class_found [OF sample_tree_reachable sample_class_plain(7) r, unfolded sample_class_plain(1-5)]
  have full: "cc_full_name (wd_classes wd' 0) = ''foo::xpto::Bar''"
    using found [THEN conjunct1] sample_class_plain(6) by simp
  have "encloses (wd_modules sample_tree) 1 1" "encloses (wd_modules sample_tree) 1 0"
    using sample_tree_modules(2) by (auto simp: encloses_def)
  moreover have "module_lookup 0 ''Bar'' sample_tree = None" by code_simp
  ultimately show ?thesis
    using r found [THEN conjunct2] sample_class_plain(7,8) unfolding full by simp
qed

end
