(* ===== verification/Module_Code.thy ===== *)
theory Module_Code
  imports Module
begin

text \<open>
  The code of a module (\<open>src/pybindgen/module.py\<close>): the sink managers that distribute it over files, the
  forward declarations, and the generation of a module with all its submodules.
\<close>

section \<open>Sinks and sink managers\<close>

text \<open>
  The sink that a monolithic module is written to and its two intermediate sinks, the sink of the forward
  declarations, and the sinks of a \<open>MultiSectionFactory\<close>, by number.  A factory may give out one sink for
  several purposes.
\<close>

datatype sink_id = Final_Sink | Includes_Sink | Main_Sink | Forward_Sink | Factory_Sink nat

record section_factory =
  fa_section_code_sink :: "string \<Rightarrow> nat"
  fa_main_code_sink :: nat
  fa_common_header_code_sink :: nat
  fa_common_header_include :: string

datatype sink_manager = Monolithic | Multi_Section section_factory

record out_state =
  os_sinks :: "sink_id \<Rightarrow> memory_sink"
  os_have_written_preamble :: "sink_id \<Rightarrow> bool"
  os_already_initialized_sections :: "string list"

record 't gen_state =
  gs_world :: "'t world"
  gs_out :: out_state

definition on_world :: "('t world, 'a) py \<Rightarrow> ('t gen_state, 'a) py" where
  "on_world m = (\<lambda>gs. case m (gs_world gs) of (r, wd) \<Rightarrow> (r, gs\<lparr>gs_world := wd\<rparr>))"

definition on_out :: "(out_state, 'a) py \<Rightarrow> ('t gen_state, 'a) py" where
  "on_out m = (\<lambda>gs. case m (gs_out gs) of (r, out) \<Rightarrow> (r, gs\<lparr>gs_out := out\<rparr>))"

definition put_sink :: "sink_id \<Rightarrow> memory_sink \<Rightarrow> out_state \<Rightarrow> out_state" where
  "put_sink k t out = out\<lparr>os_sinks := (os_sinks out)(k := t)\<rparr>"

definition out_cmd :: "sink_id \<Rightarrow> sink_cmd \<Rightarrow> (out_state, unit) py" where
  "out_cmd k cmd = (\<lambda>out. case run_cmd memory_class cmd (os_sinks out k) of (r, t) \<Rightarrow> (r, put_sink k t out))"

definition writeln_to :: "sink_id \<Rightarrow> string \<Rightarrow> ('t gen_state, unit) py" where
  "writeln_to k text = on_out (out_cmd k (Writeln text))"

definition flush_sinks :: "sink_id \<Rightarrow> sink_id \<Rightarrow> (out_state, unit) py" where
  "flush_sinks from to = upd (\<lambda>out.
     case mem_flush_to mem_writeln (os_sinks out from) (os_sinks out to) of (s, t) \<Rightarrow> put_sink to t (put_sink from s out))"

definition preamble_to :: "settings \<Rightarrow> sink_id \<Rightarrow> (out_state, unit) py" where
  "preamble_to st k = (\<lambda>out.
     case write_preamble memory_class st None (os_have_written_preamble out k, os_sinks out k) of
       (r, (f, t)) \<Rightarrow> (r, put_sink k t (out\<lparr>os_have_written_preamble := (os_have_written_preamble out)(k := f)\<rparr>)))"

definition MultiSectionSinkManager_init :: "settings \<Rightarrow> section_factory \<Rightarrow> (out_state, unit) py" where
  "MultiSectionSinkManager_init st fa = seqs [
     preamble_to st (Factory_Sink (fa_common_header_code_sink fa)),
     out_cmd (Factory_Sink (fa_main_code_sink fa)) (Writeln (''#include '' @ fa_common_header_include fa)),
     upd (\<lambda>out. out\<lparr>os_already_initialized_sections := [''__main__'']\<rparr>)]"

definition MonolithicSinkManager_init :: "settings \<Rightarrow> (out_state, unit) py" where
  "MonolithicSinkManager_init st = seqs [
     upd (\<lambda>out. put_sink Includes_Sink MemoryCodeSink_init (put_sink Main_Sink MemoryCodeSink_init out)),
     preamble_to st Final_Sink]"

definition SinkManager_init :: "settings \<Rightarrow> sink_manager \<Rightarrow> (out_state, unit) py" where
  "SinkManager_init st sm =
     (case sm of Monolithic \<Rightarrow> MonolithicSinkManager_init st | Multi_Section fa \<Rightarrow> MultiSectionSinkManager_init st fa)"

text \<open>The sinks for the body and for the header of a wrapper with the given attribute \<open>section\<close>.\<close>

definition get_code_sink_for_wrapper :: "sink_manager \<Rightarrow> string option \<Rightarrow> (out_state, sink_id \<times> sink_id) py" where
  "get_code_sink_for_wrapper sm section =
     (case sm of
        Monolithic \<Rightarrow> ret (Main_Sink, Main_Sink)
      | Multi_Section fa \<Rightarrow>
          let header_sink = Factory_Sink (fa_common_header_code_sink fa) in
          (case section of
             None \<Rightarrow> ret (Factory_Sink (fa_main_code_sink fa), header_sink)
           | Some s \<Rightarrow>
               let section_sink = Factory_Sink (fa_section_code_sink fa s) in
               bnd (gets os_already_initialized_sections) (\<lambda>initialized.
               bnd (when_py (s \<notin> set initialized) (seqs [
                 upd (\<lambda>out. out\<lparr>os_already_initialized_sections := initialized @ [s]\<rparr>),
                 out_cmd section_sink (Writeln (''#include '' @ fa_common_header_include fa))])) (\<lambda>_.
               ret (section_sink, header_sink)))))"

definition get_includes_code_sink :: "sink_manager \<Rightarrow> sink_id" where
  "get_includes_code_sink sm = (case sm of Monolithic \<Rightarrow> Includes_Sink | Multi_Section fa \<Rightarrow> Factory_Sink (fa_common_header_code_sink fa))"

definition get_main_code_sink :: "sink_manager \<Rightarrow> sink_id" where
  "get_main_code_sink sm = (case sm of Monolithic \<Rightarrow> Main_Sink | Multi_Section fa \<Rightarrow> Factory_Sink (fa_main_code_sink fa))"

definition sink_manager_close :: "sink_manager \<Rightarrow> (out_state, unit) py" where
  "sink_manager_close sm =
     (case sm of
        Monolithic \<Rightarrow> seqs [flush_sinks Includes_Sink Final_Sink, flush_sinks Main_Sink Final_Sink]
      | Multi_Section _ \<Rightarrow> ret ())"

section \<open>Parts of the state\<close>

definition the_module :: "nat \<Rightarrow> ('t gen_state, module_obj) py" where
  "the_module i = gets (\<lambda>gs. wd_modules (gs_world gs) ! i)"

definition on_declarations :: "nat \<Rightarrow> (scope, 'a) py \<Rightarrow> ('t gen_state, 'a) py" where
  "on_declarations i m = on_world (\<lambda>wd. case m (md_declarations (wd_modules wd ! i)) of
     (r, sc) \<Rightarrow> (r, upd_module i (\<lambda>md. md\<lparr>md_declarations := sc\<rparr>) wd))"

definition on_before_init :: "nat \<Rightarrow> (code_block list \<Rightarrow> (code_block, 'a) py) \<Rightarrow> ('t gen_state, 'a) py" where
  "on_before_init i m = on_world (\<lambda>wd. case m [] (md_before_init (wd_modules wd ! i)) of
     (r, cb) \<Rightarrow> (r, upd_module i (\<lambda>md. md\<lparr>md_before_init := cb\<rparr>) wd))"

text \<open>The predecessor of \<open>after_init\<close> is \<open>before_init\<close>.\<close>

definition on_after_init :: "nat \<Rightarrow> (code_block list \<Rightarrow> (code_block, 'a) py) \<Rightarrow> ('t gen_state, 'a) py" where
  "on_after_init i m = on_world (\<lambda>wd. let md = wd_modules wd ! i in
     case m [md_before_init md] (md_after_init md) of
       (r, cb) \<Rightarrow> (r, upd_module i (\<lambda>md. md\<lparr>md_after_init := cb\<rparr>) wd))"

text \<open>A memory sink that belongs to a module is flushed to a sink of the output.\<close>

definition flush_from :: "('t world \<Rightarrow> memory_sink) \<Rightarrow> (memory_sink \<Rightarrow> 't world \<Rightarrow> 't world) \<Rightarrow> sink_id \<Rightarrow> ('t gen_state, unit) py" where
  "flush_from get put to = upd (\<lambda>gs.
     case mem_flush_to mem_writeln (get (gs_world gs)) (os_sinks (gs_out gs) to) of
       (s, t) \<Rightarrow> gs\<lparr>gs_world := put s (gs_world gs), gs_out := put_sink to t (gs_out gs)\<rparr>)"

definition flush_root :: "(root_data \<Rightarrow> memory_sink) \<Rightarrow> (memory_sink \<Rightarrow> root_data \<Rightarrow> root_data) \<Rightarrow> sink_id \<Rightarrow> ('t gen_state, unit) py" where
  "flush_root get put = flush_from (\<lambda>wd. get (wd_root_data wd)) (\<lambda>s wd. wd\<lparr>wd_root_data := put s (wd_root_data wd)\<rparr>)"

definition flush_module :: "nat \<Rightarrow> (module_obj \<Rightarrow> memory_sink) \<Rightarrow> (memory_sink \<Rightarrow> module_obj \<Rightarrow> module_obj) \<Rightarrow> sink_id \<Rightarrow> ('t gen_state, unit) py" where
  "flush_module i get put = flush_from (\<lambda>wd. get (wd_modules wd ! i)) (\<lambda>s. upd_module i (put s))"

section \<open>Contained objects\<close>

text \<open>
  The methods of the classes that the module calls, and the slot \<open>tp_name\<close> of a class.  They are arguments:
  a class writes to the given sink and changes the given module.
\<close>

record 't class_methods =
  cm_generate_forward_declarations :: "nat \<Rightarrow> sink_id \<Rightarrow> nat \<Rightarrow> ('t gen_state, unit) pyd"
  cm_generate :: "nat \<Rightarrow> sink_id \<Rightarrow> nat \<Rightarrow> ('t gen_state, unit) pyd"
  cm_generate_typedef :: "nat \<Rightarrow> nat \<Rightarrow> string \<Rightarrow> ('t gen_state, unit) pyd"
  cm_tp_name :: "'t world \<Rightarrow> cpp_class \<Rightarrow> string option"

text \<open>A sink together with the data of the root module.\<close>

definition root_sink_class :: "'s sink_class \<Rightarrow> (root_data \<times> 's) sink_class" where
  "root_sink_class sk = \<lparr>s_writeln = (\<lambda>l (rd, t). (rd, s_writeln sk l t)), s_indent = (\<lambda>n (rd, t). (rd, s_indent sk n t)),
     s_unindent = (\<lambda>(rd, t). map_sum id (Pair rd) (s_unindent sk t))\<rparr>"

definition on_container :: "nat \<Rightarrow> sink_id \<Rightarrow> (container \<times> root_data \<times> memory_sink, unit) pyd \<Rightarrow> ('t gen_state, unit) pyd" where
  "on_container c k m = (\<lambda>gs. let wd = gs_world gs in
     map_option (\<lambda>(r, (ct, rd, t)).
         (r, gs\<lparr>gs_world := wd\<lparr>wd_containers := (wd_containers wd)(c := ct), wd_root_data := rd\<rparr>, gs_out := put_sink k t (gs_out gs)\<rparr>))
       (m (wd_containers wd c, wd_root_data wd, os_sinks (gs_out gs) k)))"

definition declare_converter :: "string \<Rightarrow> (container \<times> root_data \<times> memory_sink, unit) py" where
  "declare_converter name = (\<lambda>(ct, rd, t).
     case declare_one_time_definition (Py_Value (PyStr name)) rd of (r, rd') \<Rightarrow> (r, (ct, rd', t)))"

definition container_forward :: "nat \<Rightarrow> sink_id \<Rightarrow> ('t gen_state, unit) pyd" where
  "container_forward c k = on_container c k (container_generate_forward_declarations (root_sink_class memory_class) declare_converter)"

text \<open>\<open>Container.generate\<close>: the registration in \<open>after_init\<close>, then the code.\<close>

definition container_generate :: "(cpp_class \<Rightarrow> string option) \<Rightarrow> nat \<Rightarrow> sink_id \<Rightarrow> nat \<Rightarrow> ('t gen_state, unit) pyd" where
  "container_generate tp_name c k i = (\<lambda>gs. let wd = gs_world gs in
     bndd (total (on_after_init i (\<lambda>preds. container_registration preds (wd_containers wd c)))) (\<lambda>_.
       on_container c k (container_generate_code memory_class
         (\<lambda>ct. container_python_full_name (get_module_path (wd_modules wd) i) (Option.bind (ct_outer_class ct) tp_name) ct))) gs)"

definition exception_generate :: "(cpp_class \<Rightarrow> string option) \<Rightarrow> nat \<Rightarrow> sink_id \<Rightarrow> nat \<Rightarrow> ('t gen_state, unit) py" where
  "exception_generate tp_name x k i =
     bnd (gets gs_world) (\<lambda>wd. let e = wd_exceptions wd x; path = get_module_path (wd_modules wd) i in
     bnd (lift_res (case ce_outer_class e of None \<Rightarrow> Inr []
         | Some outer \<Rightarrow> (case tp_name outer of None \<Rightarrow> Inl (KeyError ''tp_name'') | Some s \<Rightarrow> Inr s))) (\<lambda>outer_tp_name. seqs [
       for_each (\<lambda>cmd. on_out (out_cmd k cmd)) (fst (exc_generate [] path outer_tp_name None e)),
       on_after_init i (\<lambda>preds. snd (exc_generate preds path outer_tp_name None e))]))"

section \<open>Forward declarations\<close>

definition is_imported :: "'t world \<Rightarrow> nat \<Rightarrow> bool" where
  "is_imported wd c = (case cc_import_from_module (wd_classes wd c) of None \<Rightarrow> False | Some s \<Rightarrow> s \<noteq> [])"

text \<open>
  The recursion over submodules.  The first argument is the depth that is left before Python's recursion
  limit.
\<close>

fun generate_forward_declarations :: "'t class_methods \<Rightarrow> nat \<Rightarrow> sink_id \<Rightarrow> nat \<Rightarrow> ('t gen_state, unit) pyd" where
  "generate_forward_declarations cm 0 k i = total (raise_py (RuntimeError ''maximum recursion depth exceeded''))"
| "generate_forward_declarations cm (Suc depth) k i =
     bndd (total (the_module i)) (\<lambda>md.
     bndd (total (gets gs_world)) (\<lambda>wd. seqsd [
       total (assert_py (\<not> md_forward_declarations_declared md)),
       total (when_py (md_classes md \<noteq> [] \<or> md_containers md \<noteq> [] \<or> md_exceptions md \<noteq> []) (seqs [
         writeln_to k ''/* --- forward declarations --- */'', writeln_to k []])),
       for_eachd (\<lambda>c. cm_generate_forward_declarations cm c k i) (filter (is_imported wd) (md_classes md)),
       for_eachd (\<lambda>c. cm_generate_forward_declarations cm c k i) (filter (\<lambda>c. \<not> is_imported wd c) (md_classes md)),
       for_eachd (\<lambda>c. container_forward c k) (md_containers md),
       for_eachd (\<lambda>x. total (for_each (\<lambda>cmd. on_out (out_cmd k cmd)) (exc_generate_forward_declarations (wd_exceptions wd x))))
         (md_exceptions md),
       for_eachd (generate_forward_declarations cm depth k) (md_submodules md),
       total (on_world (upd (upd_module i (\<lambda>md. md\<lparr>md_forward_declarations_declared := True\<rparr>))))]))"

section \<open>Functions\<close>

definition on_function :: "nat \<Rightarrow> string \<Rightarrow> sink_id \<Rightarrow> (func overload \<times> memory_sink, 'a) py \<Rightarrow> ('t gen_state, 'a) py" where
  "on_function i name k m = (\<lambda>gs.
     case map_of (md_functions (wd_modules (gs_world gs) ! i)) name of
       None \<Rightarrow> (Inl (KeyError name), gs)
     | Some ov \<Rightarrow> (case m (ov, os_sinks (gs_out gs) k) of
         (r, (ov', t)) \<Rightarrow> (r, gs\<lparr>gs_world := upd_module i (\<lambda>md. md\<lparr>md_functions := AList.update name ov' (md_functions md)\<rparr>) (gs_world gs),
           gs_out := put_sink k t (gs_out gs)\<rparr>)))"

text \<open>
  One function: its entry for the method table, or nothing when its wrapper is skipped.  \<open>h\<close> and \<open>hov\<close> are the
  error handler, for functions and for overloads.
\<close>

definition generate_function ::
  "sink_manager \<Rightarrow> func error_handler option \<Rightarrow> func overload error_handler option \<Rightarrow> nat \<Rightarrow> string \<Rightarrow> ('t gen_state, string option) py" where
  "generate_function sm h hov i func_name =
     (let main_sink = get_main_code_sink sm in
      bnd (on_function i func_name main_sink (on_overload (ov_get_section (func_ops memory_class)))) (\<lambda>section.
      bnd (on_out (get_code_sink_for_wrapper sm section)) (\<lambda>(sink, header_sink).
      bnd (writeln_to sink []) (\<lambda>_.
      bnd (try_except
        (bnd (on_function i func_name sink
            (call_with_error_handling hov (ov_generate OverloadedFunction h memory_class (func_ops memory_class)) fst generation_error)) (\<lambda>_.
         bnd (on_function i func_name main_sink
            (call_with_error_handling hov (ov_generate_declaration OverloadedFunction h memory_class (func_ops null_class)) fst generation_error))
           (\<lambda>_. ret True)))
        (\<lambda>e. if e = SkipWrapper then ret False else raise_py e)) (\<lambda>generated.
      if \<not> generated then ret None
      else bnd (writeln_to sink []) (\<lambda>_.
        bnd (on_function i func_name main_sink (on_overload (ov_get_py_method_def (func_ops memory_class) h func_name))) (\<lambda>text.
        ret (Some text))))))))"

fun generate_functions ::
  "sink_manager \<Rightarrow> func error_handler option \<Rightarrow> func overload error_handler option \<Rightarrow> nat \<Rightarrow> string list \<Rightarrow> ('t gen_state, string list) py" where
  "generate_functions sm h hov i [] = ret []"
| "generate_functions sm h hov i (n # names) =
     bnd (generate_function sm h hov i n) (\<lambda>def.
     bnd (generate_functions sm h hov i names) (\<lambda>defs.
     ret (case def of None \<Rightarrow> defs | Some d \<Rightarrow> d # defs)))"

definition write_function_table :: "sink_id \<Rightarrow> string \<Rightarrow> string list \<Rightarrow> ('t gen_state, unit) py" where
  "write_function_table k name_prefix py_method_defs = seqs [
     writeln_to k (''static PyMethodDef '' @ name_prefix @ ''_functions[] = {''),
     on_out (out_cmd k Indent),
     for_each (writeln_to k) py_method_defs,
     writeln_to k ''{NULL, NULL, 0, NULL}'',
     on_out (out_cmd k Unindent),
     writeln_to k ''};'']"

section \<open>The module\<close>

text \<open>One contained object between two empty lines, in the sink of its section.\<close>

definition generate_object :: "sink_manager \<Rightarrow> type_wrapper \<Rightarrow> (sink_id \<Rightarrow> ('t gen_state, unit) pyd) \<Rightarrow> ('t gen_state, unit) pyd" where
  "generate_object sm w generate =
     bndd (total (gets (\<lambda>gs. wd_sections (gs_world gs) w))) (\<lambda>section.
     bndd (total (on_out (get_code_sink_for_wrapper sm section))) (\<lambda>(sink, header_sink). seqsd [
       total (writeln_to sink []),
       generate sink,
       total (writeln_to sink [])]))"

definition write_heading :: "sink_id \<Rightarrow> string \<Rightarrow> 'a list \<Rightarrow> ('t gen_state, unit) py" where
  "write_heading k title items = when_py (items \<noteq> []) (seqs [writeln_to k (''/* --- '' @ title @ '' --- */''), writeln_to k []])"

definition generate_types :: "'t class_methods \<Rightarrow> sink_manager \<Rightarrow> nat \<Rightarrow> module_obj \<Rightarrow> ('t gen_state, unit) pyd" where
  "generate_types cm sm i md =
     (let main_sink = get_main_code_sink sm;
          class_code = (\<lambda>c. generate_object sm (Class_Type c) (\<lambda>k. cm_generate cm c k i));
          tp_name = (\<lambda>f. bndd (total (gets (\<lambda>gs. cm_tp_name cm (gs_world gs)))) f)
      in bndd (total (gets gs_world)) (\<lambda>wd. seqsd [
        total (write_heading main_sink ''classes'' (md_classes md)),
        for_eachd class_code (filter (is_imported wd) (md_classes md)),
        for_eachd class_code (filter (\<lambda>c. \<not> is_imported wd c) (md_classes md)),
        total (write_heading main_sink ''containers'' (md_containers md)),
        for_eachd (\<lambda>c. generate_object sm (Container_Type c) (\<lambda>k. tp_name (\<lambda>tp. container_generate tp c k i))) (md_containers md),
        total (write_heading main_sink ''exceptions'' (md_exceptions md)),
        for_eachd (\<lambda>x. generate_object sm (Exception_Type x) (\<lambda>k. tp_name (\<lambda>tp. total (exception_generate tp x k i)))) (md_exceptions md),
        for_eachd (\<lambda>(c, alias_name). cm_generate_typedef cm c i alias_name) (md_typedefs md),
        total (write_heading main_sink ''enumerations'' (md_enums md)),
        for_eachd (\<lambda>e. generate_object sm (Enum_Type e) (\<lambda>k. total (on_after_init i (\<lambda>_. Enum_generate (wd_enums wd e))))) (md_enums md)]))"

text \<open>The code that registers a submodule in \<open>after_init\<close>; \<open>sub\<close> is the submodule object.\<close>

definition register_submodule :: "string \<Rightarrow> module_obj \<Rightarrow> code_block list \<Rightarrow> (code_block, unit) py" where
  "register_submodule submodule_var sub preds = seqs [
     cb_write_code (submodule_var @ '' = '' @ md_init_function_name sub @ ''();''),
     write_error_check preds (submodule_var @ '' == NULL'') None,
     cb_write_code (''Py_INCREF('' @ submodule_var @ '');''),
     cb_write_code (''PyModule_AddObject(m, (char *) '' @ dq @ md_name sub @ dq @ '', '' @ submodule_var @ '');'')]"

definition register_submodules :: "nat \<Rightarrow> nat list \<Rightarrow> ('t gen_state, unit) py" where
  "register_submodules i subs =
     (if subs = [] then ret ()
      else bnd (on_declarations i (declare_variable ''PyObject*'' ''submodule'' PyNone None)) (\<lambda>submodule_var.
        for_each (\<lambda>j. bnd (the_module j) (\<lambda>sub. on_after_init i (register_submodule submodule_var sub))) subs))"

definition root_init_prefix :: string where
  "root_init_prefix = join nl [
     [],
     ''PyMODINIT_FUNC'',
     ''#if defined(__GNUC__) && __GNUC__ >= 4'',
     ''__attribute__ ((visibility('' @ dq @ ''default'' @ dq @ '')))'',
     ''#endif'']"

definition write_init_function :: "sink_id \<Rightarrow> nat \<Rightarrow> string option \<Rightarrow> ('t gen_state, unit) py" where
  "write_init_function k i module_file_base_name =
     bnd (the_module i) (\<lambda>md. seqs [
       writeln_to k [],
       writeln_to k (if md_parent md = None then root_init_prefix else ''static PyObject *''),
       writeln_to k ((case module_file_base_name of None \<Rightarrow> md_init_function_name md | Some n \<Rightarrow> ''init'' @ n) @ ''(void)''),
       writeln_to k ''{'',
       on_out (out_cmd k Indent),
       flush_module i (\<lambda>md. sc_sink (md_declarations md)) (\<lambda>s md. md\<lparr>md_declarations := (md_declarations md)\<lparr>sc_sink := s\<rparr>\<rparr>) k,
       flush_module i (\<lambda>md. cb_sink (md_before_init md)) (\<lambda>s md. md\<lparr>md_before_init := (md_before_init md)\<lparr>cb_sink := s\<rparr>\<rparr>) k,
       on_after_init i write_cleanup,
       flush_module i (\<lambda>md. cb_sink (md_after_init md)) (\<lambda>s md. md\<lparr>md_after_init := (md_after_init md)\<lparr>cb_sink := s\<rparr>\<rparr>) k,
       when_py (md_parent md \<noteq> None) (writeln_to k ''return m;''),
       on_out (out_cmd k Unindent),
       writeln_to k ''}''])"

definition write_includes :: "sink_manager \<Rightarrow> nat \<Rightarrow> ('t gen_state, unit) py" where
  "write_includes sm i =
     bnd (the_module i) (\<lambda>md.
     if \<not> md_has_includes md then raise_py (TypeError ''NoneType'')
     else bnd (gets (\<lambda>gs. rd_includes (wd_root_data (gs_world gs)))) (\<lambda>includes. seqs [
       for_each (\<lambda>include. writeln_to (get_includes_code_sink sm) (''#include '' @ include)) includes,
       on_world (upd (upd_module i (\<lambda>md. md\<lparr>md_has_includes := False\<rparr>)))]))"

text \<open>What only the root module does: forward declarations and include directives.\<close>

definition generate_root_header :: "'t class_methods \<Rightarrow> nat \<Rightarrow> sink_manager \<Rightarrow> nat \<Rightarrow> ('t gen_state, unit) pyd" where
  "generate_root_header cm depth sm i =
     bndd (total (on_out (upd (put_sink Forward_Sink MemoryCodeSink_init)))) (\<lambda>_.
     bndd (total (the_module i)) (\<lambda>md. seqsd [
       (if md_forward_declarations_declared md then total (ret ())
        else seqsd [
          generate_forward_declarations cm depth Forward_Sink i,
          total (flush_root rd_after_forward_declarations (\<lambda>s rd. rd\<lparr>rd_after_forward_declarations := s\<rparr>) Forward_Sink)]),
       total (write_includes sm i),
       total (on_out (flush_sinks Forward_Sink (get_includes_code_sink sm)))]))"

definition write_module_creation :: "nat \<Rightarrow> string option \<Rightarrow> ('t gen_state, unit) py" where
  "write_module_creation i module_file_base_name =
     bnd (on_declarations i (declare_variable ''PyObject*'' ''m'' PyNone None)) (\<lambda>m.
     bnd (assert_py (m = ''m'')) (\<lambda>_.
     bnd (the_module i) (\<lambda>md.
     bnd (gets (\<lambda>gs. join ''.'' (get_module_path (wd_modules (gs_world gs)) i))) (\<lambda>path.
     let mod_init_name = (case module_file_base_name of None \<Rightarrow> path | Some n \<Rightarrow> n);
         docstring = (case md_docstring md of None \<Rightarrow> ''NULL'' | Some d \<Rightarrow> if d = [] then ''NULL'' else dq @ d @ dq)
     in on_before_init i (\<lambda>preds. seqs [
       cb_write_code (''m = Py_InitModule3((char *) '' @ dq @ mod_init_name @ dq @ '', '' @ md_prefix md @ ''_functions, '' @ docstring @ '');''),
       write_error_check preds ''m == NULL'' None])))))"

text \<open>
  \<open>do_generate\<close>.  The first number is again the depth of the recursion; the functions of a module are taken
  in the order in which they were added, which the source leaves open.
\<close>

fun do_generate ::
  "'t class_methods \<Rightarrow> func error_handler option \<Rightarrow> func overload error_handler option \<Rightarrow> sink_manager \<Rightarrow>
   nat \<Rightarrow> nat \<Rightarrow> string option \<Rightarrow> ('t gen_state, unit) pyd" where
  "do_generate cm h hov sm 0 i module_file_base_name = total (raise_py (RuntimeError ''maximum recursion depth exceeded''))"
| "do_generate cm h hov sm (Suc depth) i module_file_base_name =
     (let main_sink = get_main_code_sink sm in
      bndd (total (the_module i)) (\<lambda>md. seqsd [
        (if md_parent md = None then generate_root_header cm depth sm i
         else total (assert_py (module_file_base_name = None))),
        for_eachd (\<lambda>j. do_generate cm h hov sm depth j None) (md_submodules md),
        total (write_module_creation i module_file_base_name),
        total (write_heading main_sink ''module functions'' (md_functions md)),
        bndd (total (generate_functions sm h hov i (map fst (md_functions md)))) (\<lambda>py_method_defs.
          total (write_function_table main_sink (md_prefix md) py_method_defs)),
        generate_types cm sm i md,
        total (register_submodules i (md_submodules md)),
        total (flush_root rd_header (\<lambda>s rd. rd\<lparr>rd_header := s\<rparr>) (get_includes_code_sink sm)),
        total (flush_root rd_body (\<lambda>s rd. rd\<lparr>rd_body := s\<rparr>) main_sink),
        total (write_init_function main_sink i module_file_base_name)]))"

definition module_generate ::
  "settings \<Rightarrow> 't class_methods \<Rightarrow> func error_handler option \<Rightarrow> func overload error_handler option \<Rightarrow> sink_manager \<Rightarrow>
   nat \<Rightarrow> nat \<Rightarrow> string option \<Rightarrow> ('t gen_state, unit) pyd" where
  "module_generate st cm h hov sm depth i module_file_base_name = seqsd [
     total (on_out (SinkManager_init st sm)),
     do_generate cm h hov sm depth i module_file_base_name,
     total (on_out (sink_manager_close sm))]"

section \<open>Sections and repeated generation\<close>

text \<open>
  The common header is included when the first wrapper of a section is written, and never again in the same
  section.
\<close>

lemma section_included_once:
  assumes "get_code_sink_for_wrapper (Multi_Section fa) (Some s) out = (Inr ks, out')"
  shows "s \<in> set (os_already_initialized_sections out')"
    and "get_code_sink_for_wrapper (Multi_Section fa) (Some s) out' = (Inr ks, out')"
proof -
  show init: "s \<in> set (os_already_initialized_sections out')"
    using assms by (auto simp: get_code_sink_for_wrapper_def Let_def when_py_def out_cmd_def put_sink_def split: if_splits)
  then show "get_code_sink_for_wrapper (Multi_Section fa) (Some s) out' = (Inr ks, out')"
    using assms by (auto simp: get_code_sink_for_wrapper_def Let_def when_py_def out_cmd_def put_sink_def split: if_splits)
qed

text \<open>
  A wrapper that was added outside of any section has the section \<open>__main__\<close>; its code goes to the sink that
  the factory has for a section of this name, whatever the main sink is.
\<close>

lemma unsectioned_code_sink:
  "get_code_sink_for_wrapper (Multi_Section fa) (Some ''__main__'') out =
     (Inr (Factory_Sink (fa_section_code_sink fa ''__main__''), Factory_Sink (fa_common_header_code_sink fa)), out)"
  if "''__main__'' \<in> set (os_already_initialized_sections out)"
  using that by (simp add: get_code_sink_for_wrapper_def Let_def)

text \<open>A module can be generated only once: the variable of the second run gets another name.\<close>

lemma second_generation_fails:
  assumes "sc_vars (md_declarations (wd_modules (gs_world gs) ! i)) ''m'' = Some (Suc n)"
  shows "fst (write_module_creation i base gs) = Inl AssertionError"
proof -
  have len: "length (str_of_nat (Suc (Suc n))) > 0" by (metis length_greater_0_conv str_of_nat_neq_Nil(1))
  then have "var_name ''m'' (Suc (Suc n)) \<noteq> ''m''" by (simp add: var_name_def del: str_of_nat.simps)
  then show ?thesis
    using assms
    by (simp add: write_module_creation_def on_declarations_def on_world_def declare_variable_def next_num_def
        join_ctype_and_name_def add_initializer_def bnd_def)
qed

end
