(* ===== verification/Cpp_Method.thy ===== *)
theory Cpp_Method
  imports Function
begin

text \<open>
  Wrappers of methods and constructors of C++ classes (\<open>src/pybindgen/cppmethod.py\<close>), and the virtual methods
  of the helper classes that call into Python.  Classes are named by numbers; an operation that reads a class
  takes the classes, as their methods see them, as an argument.
\<close>

section \<open>Methods\<close>

record helper_ref =
  hr_name :: string
  hr_class :: nat

text \<open>
  \<open>Dummy_Method\<close>: a \<open>CppDummyMethod\<close>; \<open>Parent_Caller\<close>: a \<open>CppVirtualMethodParentCaller\<close>, with the class of the
  method that it calls; \<open>Custom_Method\<close>: a \<open>CustomCppMethodWrapper\<close>, with its body.
\<close>

datatype method_kind = Plain_Method | Dummy_Method | Parent_Caller "nat option" | Custom_Method "string option"

record meth =
  m_kind :: method_kind
  m_wrapper :: wrapper
  m_return_value :: retval_handler
  m_parameters :: "param_handler list"
  m_force_parse :: "int option"
  m_unblock_threads :: bool
  m_deprecated :: pyval
  m_visibility :: string
  m_method_name :: string
  m_is_static :: bool
  m_is_virtual :: bool
  m_is_pure_virtual :: bool
  m_is_const :: bool
  m_template_parameters :: "string list"
  m_mangled_name :: string
  m_own_class :: "nat option"
  m_helper_class :: "helper_ref option"
  m_docstring :: "string option"
  m_wrapper_base_name :: "string option"
  m_wrapper_actual_name :: "string option"
  m_wrapper_args :: "string list option"
  m_wrapper_return :: "string option"
  m_throw :: "cpp_exception list"
  m_custodians_and_wards :: "custody list"
  m_section :: "string option"

text \<open>The property \<open>class_\<close>, which a parent caller overrides.\<close>

definition m_class :: "meth \<Rightarrow> nat option" where
  "m_class m = (case m_kind m of Parent_Caller c \<Rightarrow> c | _ \<Rightarrow> m_own_class m)"

definition class_attr :: "(nat \<Rightarrow> class_info) \<Rightarrow> nat option \<Rightarrow> string \<Rightarrow> (class_info \<Rightarrow> 'a) \<Rightarrow> 'a res" where
  "class_attr cls c attr sel = (case c of None \<Rightarrow> Inl (AttributeError attr) | Some i \<Rightarrow> Inr (sel (cls i)))"

section \<open>The call\<close>

definition template_args :: "string list \<Rightarrow> string" where
  "template_args ps = (if ps \<noteq> [] then ''< '' @ join '', '' ps @ '' >'' else [])"

definition retval_assign :: "ret_obj \<Rightarrow> string" where
  "retval_assign rv =
     (if ro_ctype rv = ''void'' then []
      else if ro_requires_assignment_constructor rv then ro_ctype rv @ '' retval = '' else ''retval = '')"

text \<open>The variable with the helper class instance, for a virtual method that has a default implementation.\<close>

definition method_helper :: "settings \<Rightarrow> class_info \<Rightarrow> meth \<Rightarrow> (wrapper, string option) py" where
  "method_helper st ci m =
     (case ci_helper_class ci of
        Some helper \<Rightarrow>
          if m_is_virtual m \<and> \<not> m_is_pure_virtual m \<and> \<not> get_deprecated_virtuals st
          then bnd (declare_init (helper @ '' *'') ''helper_class'' (PyStr (''dynamic_cast<'' @ helper @ ''*> (self->obj)''))) (\<lambda>v. ret (Some v))
          else ret None
      | None \<Rightarrow> ret None)"

definition method_call :: "class_info \<Rightarrow> meth \<Rightarrow> string option \<Rightarrow> string list \<Rightarrow> string" where
  "method_call ci m helper call_params =
     (let call = m_method_name m @ template_args (m_template_parameters m) @ ''('' @ join '', '' call_params @ '')''
      in retval_assign (rh_object (m_return_value m)) @
        (if m_is_static m then ci_full_name ci @ ''::'' @ call @ '';''
         else case helper of
           None \<Rightarrow> ''self->obj->'' @ call @ '';''
         | Some h \<Rightarrow> ''('' @ h @ '' == NULL)? (self->obj->'' @ call @ '') : (self->obj->'' @ ci_full_name ci @ ''::'' @ call @ '');''))"

definition CppMethod_generate_call :: "settings \<Rightarrow> (nat \<Rightarrow> class_info) \<Rightarrow> meth \<Rightarrow> (wrapper, unit) py" where
  "CppMethod_generate_call st cls m =
     bnd (lift_res (class_attr cls (m_own_class m) ''helper_class'' id)) (\<lambda>ci.
     bnd (method_helper st ci m) (\<lambda>helper.
     call_in_try (m_throw m) ''return NULL;''
       (bnd (gets w_call_params) (\<lambda>call_params. w_write Before_Call (method_call ci m helper call_params)))))"

text \<open>The call of the parent's implementation goes through an instance method of the helper class.\<close>

definition ParentCaller_generate_call :: "(nat \<Rightarrow> class_info) \<Rightarrow> meth \<Rightarrow> (wrapper, unit) py" where
  "ParentCaller_generate_call cls m =
     bnd (lift_res (case m_helper_class m of None \<Rightarrow> Inl (AttributeError ''name'') | Some h \<Rightarrow> Inr (hr_name h))) (\<lambda>helper_name.
     bnd (declare_init (helper_name @ ''*'') ''helper'' (PyStr (''dynamic_cast< '' @ helper_name @ ''* >(self->obj)''))) (\<lambda>helper.
     bnd (lift_res (class_attr cls (m_class m) ''name'' ci_name)) (\<lambda>class_name. seqs [
       w_error_check Before_Call (helper @ '' == NULL'')
         (Some (''PyErr_SetString(PyExc_TypeError, '' @ dq @ ''Method '' @ m_method_name m @ '' of class '' @ class_name @
           '' is protected and can only be called by a subclass'' @ dq @ '');'')),
       bnd (gets w_call_params) (\<lambda>call_params.
         w_write Before_Call (retval_assign (rh_object (m_return_value m)) @
           helper @ ''->'' @ m_method_name m @ ''__parent_caller('' @ join '', '' call_params @ '');''))])))"

text \<open>What the base class sees of a method.\<close>

definition method_forward :: "settings \<Rightarrow> (nat \<Rightarrow> class_info) \<Rightarrow> meth \<Rightarrow> forward_class" where
  "method_forward st cls m = \<lparr>fc_return_value = Some (rh_object (m_return_value m)), fc_parameters = map ph_object (m_parameters m),
     fc_parse_error_return = ''return NULL;'', fc_error_return = ''return NULL;'', fc_force_parse = m_force_parse m,
     fc_no_c_retval = False, fc_unblock_threads = m_unblock_threads m, fc_deprecated = m_deprecated m,
     fc_have_return_value = False,
     fc_before_call_hook = implement_parameter_custodians_precall (m_custodians_and_wards m),
     fc_generate_call = (case m_kind m of
        Plain_Method \<Rightarrow> CppMethod_generate_call st cls m
      | Dummy_Method \<Rightarrow> CppMethod_generate_call st cls m
      | Parent_Caller _ \<Rightarrow> ParentCaller_generate_call cls m
      | Custom_Method _ \<Rightarrow> ret ()),
     fc_before_return_hook = implement_parameter_custodians_postcall (m_custodians_and_wards m)\<rparr>"

definition on_mw :: "(wrapper, 'a) py \<Rightarrow> (meth, 'a) py" where
  "on_mw f = (\<lambda>m. case f (m_wrapper m) of (r, w) \<Rightarrow> (r, m\<lparr>m_wrapper := w\<rparr>))"

definition method_reset :: "settings \<Rightarrow> (nat \<Rightarrow> class_info) \<Rightarrow> (meth, unit) py" where
  "method_reset st cls = (\<lambda>m. on_mw (reset_code_generation_state (method_forward st cls m)) m)"

definition method_get_flags :: "settings \<Rightarrow> (nat \<Rightarrow> class_info) \<Rightarrow> (meth, string list) py" where
  "method_get_flags st cls = (\<lambda>m.
     bnd (on_mw (get_py_method_def_flags (method_forward st cls m))) (\<lambda>flags.
       ret (flags @ (if m_is_static m then [''METH_STATIC''] else []))) m)"

section \<open>Construction of methods\<close>

record method_args =
  ma_is_static :: bool
  ma_template_parameters :: "string list"
  ma_is_virtual :: "bool option"
  ma_is_const :: bool
  ma_unblock_threads :: "bool option"
  ma_is_pure_virtual :: bool
  ma_custom_template_method_name :: "string option"
  ma_visibility :: string
  ma_custom_name :: "string option"
  ma_deprecated :: pyval
  ma_docstring :: "string option"
  ma_throw :: "cpp_exception list"

definition default_method_args :: method_args where
  "default_method_args = \<lparr>ma_is_static = False, ma_template_parameters = [], ma_is_virtual = None, ma_is_const = False,
     ma_unblock_threads = None, ma_is_pure_virtual = False, ma_custom_template_method_name = None, ma_visibility = ''public'',
     ma_custom_name = None, ma_deprecated = PyBool False, ma_docstring = None, ma_throw = []\<rparr>"

definition given_or :: "'a \<Rightarrow> 'a option \<Rightarrow> 'a" where
  "given_or d x = (case x of None \<Rightarrow> d | Some v \<Rightarrow> v)"

definition custom_or :: "string option \<Rightarrow> string option \<Rightarrow> string option" where
  "custom_or custom_name custom_template_method_name =
     (if custom_name = None \<or> custom_name = Some [] then custom_template_method_name else custom_name)"

definition mangled_method_name :: "string \<Rightarrow> string list \<Rightarrow> string option \<Rightarrow> string" where
  "mangled_method_name method_name template_parameters custom_name =
     (case custom_name of None \<Rightarrow> get_mangled_name method_name template_parameters | Some n \<Rightarrow> n)"

definition set_custom_name :: "string option \<Rightarrow> meth \<Rightarrow> meth" where
  "set_custom_name custom_name m =
     m\<lparr>m_mangled_name := mangled_method_name (m_method_name m) (m_template_parameters m) custom_name\<rparr>"

text \<open>
  The constructor from the evaluated handlers on.  A custody that is not possible raises
  \<open>TypeConfigurationError\<close>, a name that the module does not import.
\<close>

definition new_method :: "settings \<Rightarrow> method_args \<Rightarrow> string \<Rightarrow> retval_handler \<Rightarrow> param_handler list \<Rightarrow> meth res" where
  "new_method st a method_name return_value parameters =
     (let unblock_threads = given_or (st_unblock_threads st) (ma_unblock_threads a)
      in bind_res (ForwardWrapperBase_init (forward_for_init unblock_threads return_value parameters)) (\<lambda>w.
         case scan_custodians_and_wards (NameError ''TypeConfigurationError'') (map ph_custodian parameters)
            (rh_custodian return_value) (rh_return_internal_reference return_value) [] of
           (Inl e, _) \<Rightarrow> Inl e
         | (Inr _, custodies) \<Rightarrow>
             Inr \<lparr>m_kind = Plain_Method, m_wrapper = w, m_return_value = return_value, m_parameters = parameters,
               m_force_parse = None, m_unblock_threads = unblock_threads, m_deprecated = ma_deprecated a,
               m_visibility = ma_visibility a, m_method_name = method_name, m_is_static = ma_is_static a,
               m_is_virtual = given_or (ma_is_pure_virtual a) (ma_is_virtual a), m_is_pure_virtual = ma_is_pure_virtual a,
               m_is_const = ma_is_const a, m_template_parameters = ma_template_parameters a,
               m_mangled_name = mangled_method_name method_name (ma_template_parameters a)
                 (custom_or (ma_custom_name a) (ma_custom_template_method_name a)),
               m_own_class = None, m_helper_class = None, m_docstring = ma_docstring a, m_wrapper_base_name = None,
               m_wrapper_actual_name = None, m_wrapper_args = None, m_wrapper_return = None, m_throw = ma_throw a,
               m_custodians_and_wards = custodies, m_section = None\<rparr>))"

text \<open>
  The backward compatibility check.  A handler that is left in the place of the name fails when it
  is mangled, which it is only without a custom name; with one, the text of the object, \<open>str_of\<close>, stands where
  the name is printed.
\<close>

definition method_old_api ::
  "string + retval_handler \<Rightarrow> retval_handler spec option \<Rightarrow> (string + retval_handler) \<times> retval_handler spec option" where
  "method_old_api method_name return_value =
     (case (method_name, return_value) of
        (Inr handler, Some (Spec_Str s)) \<Rightarrow> (Inl s, Some (Handler_Obj handler))
      | (name, r) \<Rightarrow> (name, r))"

definition CppMethod_init ::
  "(retval_handler \<Rightarrow> string) \<Rightarrow> settings \<Rightarrow> 'w error_handler option \<Rightarrow> (call_args \<Rightarrow> param_handler res option) \<Rightarrow> (call_args \<Rightarrow> retval_handler res option) \<Rightarrow>
   'w \<Rightarrow> string + retval_handler \<Rightarrow> retval_handler spec option \<Rightarrow> param_handler spec list \<Rightarrow> method_args \<Rightarrow> meth res option" where
  "CppMethod_init str_of st h new_param new_retval self method_name return_value parameters a =
     (case method_old_api method_name return_value of (method_name, return_value) \<Rightarrow>
      bind_div (case return_value of None \<Rightarrow> map_option (map_sum id Handler_Obj) (new_retval ([Pos_Arg (PyStr ''void'')], []))
                | Some r \<Rightarrow> Some (Inr r)) (\<lambda>spec.
      if ma_visibility a \<notin> {''public'', ''protected'', ''private''} then Some (Inl AssertionError)
      else if \<not> isl method_name \<and> custom_or (ma_custom_name a) (ma_custom_template_method_name a) = None
      then Some (Inl (TypeError ''mangle_name''))
      else
          bind_div (eval_retval h new_retval self spec) (\<lambda>rv.
          bind_div (map_div (eval_param h new_param self) parameters) (\<lambda>ps.
          Some (new_method st a (case method_name of Inl name \<Rightarrow> name | Inr handler \<Rightarrow> str_of handler) rv ps)))))"

definition CppMethod_add_custodian_and_ward :: "int \<Rightarrow> int \<Rightarrow> bool option \<Rightarrow> (meth, unit) py" where
  "CppMethod_add_custodian_and_ward custodian ward postcall = (\<lambda>m.
     case add_custodian_and_ward (NameError ''TypeConfigurationError'') custodian ward postcall (m_custodians_and_wards m) of
       (r, l) \<Rightarrow> (r, m\<lparr>m_custodians_and_wards := l\<rparr>))"

definition set_helper_class :: "helper_ref \<Rightarrow> meth \<Rightarrow> meth" where
  "set_helper_class h m = m\<lparr>m_helper_class := Some h, m_wrapper_base_name := Some (hr_name h @ ''::_wrap_'' @ m_method_name m)\<rparr>"

text \<open>The class is given with its property \<open>pystruct\<close>, which raises an exception for a class without names.\<close>

definition set_class :: "nat \<Rightarrow> string res \<Rightarrow> (meth, unit) py" where
  "set_class c pystruct =
     bnd (upd (\<lambda>m. m\<lparr>m_own_class := Some c\<rparr>)) (\<lambda>_. bnd (lift_res pystruct) (\<lambda>p.
       upd (\<lambda>m. m\<lparr>m_wrapper_base_name := Some (''_wrap_'' @ p @ ''_'' @ m_mangled_name m)\<rparr>)))"

text \<open>
  \<open>clone\<close>: a custom name, exceptions, deprecation and the \<open>unblock_threads\<close> option are not passed on.
\<close>

definition CppMethod_clone :: "settings \<Rightarrow> meth \<Rightarrow> meth res" where
  "CppMethod_clone st m =
     bind_res (new_method st (default_method_args\<lparr>ma_is_static := m_is_static m, ma_template_parameters := m_template_parameters m,
         ma_is_virtual := Some (m_is_virtual m), ma_is_pure_virtual := m_is_pure_virtual m, ma_is_const := m_is_const m,
         ma_visibility := m_visibility m\<rparr>)
       (m_method_name m) (m_return_value m) (m_parameters m)) (\<lambda>c.
     Inr (c\<lparr>m_own_class := m_own_class m, m_docstring := m_docstring m, m_wrapper_base_name := m_wrapper_base_name m,
       m_wrapper_actual_name := m_wrapper_actual_name m\<rparr>))"

text \<open>What a class compares of its methods.\<close>

definition method_obj_of :: "meth \<Rightarrow> method_obj" where
  "method_obj_of m = \<lparr>mo_mangled_name = m_mangled_name m, mo_param_ctypes = map (\<lambda>p. po_ctype (ph_object p)) (m_parameters m),
     mo_is_const = m_is_const m, mo_is_virtual = m_is_virtual m, mo_is_pure_virtual = m_is_pure_virtual m, mo_is_cppmethod = True\<rparr>"

definition method_str :: "(nat \<Rightarrow> class_info) \<Rightarrow> meth \<Rightarrow> string" where
  "method_str cls m =
     m_visibility m @ '': '' @ (if m_is_virtual m then ''virtual '' else []) @ ro_ctype (rh_object (m_return_value m)) @ '' '' @
     (case m_class m of None \<Rightarrow> ''???'' | Some c \<Rightarrow> ci_full_name (cls c)) @ ''::'' @ m_method_name m @ '' ('' @
     join '', '' (map (\<lambda>p. po_ctype (ph_object p) @ '' '' @ po_name (ph_object p)) (m_parameters m)) @ '')'' @
     (if m_is_const m then '' const'' else []) @ (if m_is_pure_virtual m then '' = 0'' else []) @ '';''"

section \<open>Generation of methods\<close>

definition method_pystruct :: "(nat \<Rightarrow> class_info) \<Rightarrow> meth \<Rightarrow> string res" where
  "method_pystruct cls m =
     (case m_helper_class m of None \<Rightarrow> class_attr cls (m_class m) ''pystruct'' ci_pystruct | Some h \<Rightarrow> Inr (ci_pystruct (cls (hr_class h))))"

definition method_wrapper_args :: "(nat \<Rightarrow> class_info) \<Rightarrow> meth \<Rightarrow> string list \<Rightarrow> string list \<Rightarrow> string list res" where
  "method_wrapper_args cls m flags extra_wrapper_params =
     (let self_name = (if ''METH_STATIC'' \<in> set flags then ''PYBINDGEN_UNUSED(dummy)'' else ''self'');
          self_arg = bind_res (method_pystruct cls m) (\<lambda>p. Inr (p @ '' *'' @ self_name))
      in if ''METH_VARARGS'' \<in> set flags \<and> ''METH_KEYWORDS'' \<in> set flags
         then bind_res self_arg (\<lambda>s. Inr ([s, ''PyObject *args'', ''PyObject *kwargs''] @ extra_wrapper_params))
         else if extra_wrapper_params \<noteq> [] then Inl AssertionError
         else if ''METH_VARARGS'' \<in> set flags then bind_res self_arg (\<lambda>s. Inr [s, ''PyObject *args''])
         else if ''METH_STATIC'' \<in> set flags then Inr [''void'']
         else bind_res self_arg (\<lambda>s. Inr [s]))"

definition get_wrapper_signature ::
  "settings \<Rightarrow> (nat \<Rightarrow> class_info) \<Rightarrow> string option \<Rightarrow> string list \<Rightarrow> (meth, string \<times> string) py" where
  "get_wrapper_signature st cls wrapper_name extra_wrapper_params =
     bnd (method_get_flags st cls) (\<lambda>flags.
     bnd (upd (\<lambda>m. m\<lparr>m_wrapper_actual_name := wrapper_name, m_wrapper_return := Some ''PyObject *''\<rparr>)) (\<lambda>_.
     bnd (gets (\<lambda>m. m)) (\<lambda>m. bnd (lift_res (method_wrapper_args cls m flags extra_wrapper_params)) (\<lambda>args.
     bnd (upd (\<lambda>m. m\<lparr>m_wrapper_args := Some args\<rparr>)) (\<lambda>_.
     ret (''PyObject *'', opt_str wrapper_name @ ''('' @ join '', '' args @ '')''))))))"

text \<open>\<open>REQUIRES_ASSIGNMENT_CONSTRUCTOR\<close> is cleared on the return value of a method that may throw.\<close>

definition method_clear_assignment :: "settings \<Rightarrow> (nat \<Rightarrow> class_info) \<Rightarrow> (meth, unit) py" where
  "method_clear_assignment st cls =
     bnd (gets m_throw) (\<lambda>throw. when_py (throw \<noteq> [])
       (bnd (upd (\<lambda>m. m\<lparr>m_return_value := (m_return_value m)\<lparr>rh_object :=
          (rh_object (m_return_value m))\<lparr>ro_requires_assignment_constructor := False\<rparr>\<rparr>\<rparr>)) (\<lambda>_. method_reset st cls)))"

text \<open>The body of a wrapper is generated to a memory sink first.\<close>

definition body_to_memory :: "forward_class \<Rightarrow> (wrapper, memory_sink) py" where
  "body_to_memory fc = (\<lambda>w.
     case generate_body memory_class fc (w, MemoryCodeSink_init) of
       (Inl e, (w', _)) \<Rightarrow> (Inl e, w') | (Inr _, (w', tmp_sink)) \<Rightarrow> (Inr tmp_sink, w'))"

definition on_obj_state :: "('m, 'a) py \<Rightarrow> ('m \<times> 't, 'a) py" where
  "on_obj_state f = (\<lambda>(m, t). case f m of (r, m') \<Rightarrow> (r, (m', t)))"

definition on_meth_wrapper :: "(wrapper \<times> 't, 'a) py \<Rightarrow> (meth \<times> 't, 'a) py" where
  "on_meth_wrapper f = (\<lambda>(m, t). case f (m_wrapper m, t) of (r, (w, t')) \<Rightarrow> (r, (m\<lparr>m_wrapper := w\<rparr>, t')))"

definition CppMethod_generate ::
  "settings \<Rightarrow> (nat \<Rightarrow> class_info) \<Rightarrow> 't sink_class \<Rightarrow> string option \<Rightarrow> string list \<Rightarrow> (meth \<times> 't, unit) py" where
  "CppMethod_generate st cls sk wrapper_name extra_wrapper_params = seqs [
     on_obj_state (method_clear_assignment st cls),
     bnd (on_obj_state (\<lambda>m. on_mw (body_to_memory (method_forward st cls m)) m)) (\<lambda>tmp_sink. seqs [
       on_obj_state (upd (\<lambda>m. m\<lparr>m_wrapper_actual_name := (case wrapper_name of None \<Rightarrow> m_wrapper_base_name m | Some n \<Rightarrow> Some n)\<rparr>)),
       bnd (on_obj_state (gets m_wrapper_actual_name)) (\<lambda>name.
         on_obj_state (bnd (get_wrapper_signature st cls name extra_wrapper_params) (\<lambda>_. ret ()))),
       bnd (on_obj_state (gets (\<lambda>m. (m_wrapper_actual_name m, m_wrapper_return m, m_wrapper_args m)))) (\<lambda>(name, return, args).
         on_meth_wrapper (write_open_wrapper sk name return args False)),
       upd (\<lambda>(m, t). (m, snd (mem_flush_to (s_writeln sk) tmp_sink t))),
       on_meth_wrapper (write_close_wrapper sk)])]"

definition method_prototype :: "(meth, string \<times> string \<times> string list) py" where
  "method_prototype =
     bnd (gets (\<lambda>m. (m_wrapper_return m, m_wrapper_actual_name m, m_wrapper_args m))) (\<lambda>p.
       case p of (Some return, Some name, Some args) \<Rightarrow> ret (return, name, args) | _ \<Rightarrow> raise_py AssertionError)"

text \<open>\<open>CustomCppMethodWrapper\<close>: the given body, or a declaration.\<close>

definition CustomMethod_generate :: "(nat \<Rightarrow> class_info) \<Rightarrow> 't sink_class \<Rightarrow> string option \<Rightarrow> string list \<Rightarrow> (meth \<times> 't, unit) py" where
  "CustomMethod_generate cls sk wrapper_body extra_wrapper_params =
     bnd (assert_py (extra_wrapper_params = [''PyObject **return_exception''])) (\<lambda>_.
     bnd (on_obj_state (gets m_own_class)) (\<lambda>c.
     bnd (lift_res (class_attr cls c ''pystruct'' ci_pystruct)) (\<lambda>pystruct.
     bnd (on_obj_state (upd (\<lambda>m. m\<lparr>m_wrapper_args := Some [pystruct @ '' *self'', ''PyObject *args'', ''PyObject *kwargs'',
        ''PyObject **return_exception''], m_wrapper_return := Some ''PyObject *''\<rparr>))) (\<lambda>_.
     case wrapper_body of
       Some body \<Rightarrow> on_sink (run_cmd sk (Writeln body))
     | None \<Rightarrow> bnd (on_obj_state method_prototype) (\<lambda>(return, name, args).
         on_sink (run_cmd sk (Writeln (return @ '' '' @ name @ ''('' @ join '', '' args @ '');'')))) ))))"

definition method_generate ::
  "settings \<Rightarrow> (nat \<Rightarrow> class_info) \<Rightarrow> 't sink_class \<Rightarrow> string option \<Rightarrow> string list \<Rightarrow> (meth \<times> 't, unit) py" where
  "method_generate st cls sk wrapper_name extra_wrapper_params = (\<lambda>(m, t).
     case m_kind m of
       Custom_Method body \<Rightarrow> CustomMethod_generate cls sk body extra_wrapper_params (m, t)
     | _ \<Rightarrow> CppMethod_generate st cls sk wrapper_name extra_wrapper_params (m, t))"

text \<open>A parent caller checks first that it has the name that its helper class gave it.\<close>

definition method_get_py_method_def :: "settings \<Rightarrow> (nat \<Rightarrow> class_info) \<Rightarrow> string \<Rightarrow> (meth, string) py" where
  "method_get_py_method_def st cls method_name =
     bnd (gets (\<lambda>m. m)) (\<lambda>m.
     bnd (case m_kind m of
            Parent_Caller _ \<Rightarrow> assert_py (m_wrapper_actual_name m = m_wrapper_base_name m \<and> m_helper_class m \<noteq> None)
          | _ \<Rightarrow> ret ()) (\<lambda>_.
     bnd (method_get_flags st cls) (\<lambda>flags.
     ret (''{(char *) '' @ dq @ method_name @ dq @ '', (PyCFunction) '' @ opt_str (m_wrapper_actual_name m) @ '', '' @ join ''|'' flags @
       '', '' @ (case m_docstring m of None \<Rightarrow> ''NULL'' | Some d \<Rightarrow> dq @ d @ dq) @ '' },''))))"

section \<open>Calls of a parent's virtual method\<close>

definition ParentCaller_init :: "settings \<Rightarrow> meth \<Rightarrow> bool option \<Rightarrow> meth res" where
  "ParentCaller_init st method unblock_threads =
     bind_res (new_method st (default_method_args\<lparr>ma_unblock_threads := unblock_threads\<rparr>) (m_method_name method)
       (m_return_value method) (m_parameters method)) (\<lambda>m. Inr (m\<lparr>m_kind := Parent_Caller (m_class method)\<rparr>))"

text \<open>\<open>clone\<close> calls the constructor, which takes a method, with three arguments.\<close>

definition ParentCaller_clone :: "meth \<Rightarrow> meth res" where
  "ParentCaller_clone m = Inl (TypeError ''__init__() takes at most 3 arguments (4 given)'')"

definition method_generate_to_null :: "settings \<Rightarrow> (nat \<Rightarrow> class_info) \<Rightarrow> string list \<Rightarrow> (meth, unit) py" where
  "method_generate_to_null st cls extra_wrapper_params = (\<lambda>m.
     case method_generate st cls null_class None extra_wrapper_params (m, NullCodeSink_init) of (r, (m', _)) \<Rightarrow> (r, m'))"

text \<open>
  A declaration: the wrapper is generated to a null sink for its prototype.  \<open>declaration\<close> makes the line.
\<close>

definition method_declare ::
  "settings \<Rightarrow> (nat \<Rightarrow> class_info) \<Rightarrow> 't sink_class \<Rightarrow> (string \<Rightarrow> string \<Rightarrow> string list \<Rightarrow> string res) \<Rightarrow> string list \<Rightarrow> (meth \<times> 't, unit) py" where
  "method_declare st cls sk declaration extra_wrapper_parameters = seqs [
     on_obj_state (method_reset st cls),
     on_obj_state (method_generate_to_null st cls extra_wrapper_parameters),
     bnd (on_obj_state method_prototype) (\<lambda>(return, name, args). bnd (lift_res (declaration return name args)) (\<lambda>line.
       on_sink (run_cmd sk (Writeln line)))),
     on_obj_state (method_reset st cls)]"

definition ParentCaller_generate_declaration ::
  "settings \<Rightarrow> (nat \<Rightarrow> class_info) \<Rightarrow> 't sink_class \<Rightarrow> string list \<Rightarrow> (meth \<times> 't, unit) py" where
  "ParentCaller_generate_declaration st cls sk =
     method_declare st cls sk (\<lambda>return name args. Inr (return @ '' '' @ name @ ''('' @ join '', '' args @ '');''))"

text \<open>Inside the class the name has no qualifier; the unpacking needs exactly two components.\<close>

definition ParentCaller_generate_class_declaration ::
  "settings \<Rightarrow> (nat \<Rightarrow> class_info) \<Rightarrow> 't sink_class \<Rightarrow> string list \<Rightarrow> (meth \<times> 't, unit) py" where
  "ParentCaller_generate_class_declaration st cls sk =
     method_declare st cls sk (\<lambda>return wrapper_actual_name args.
       case split_str ''::'' wrapper_actual_name of
         [_, name] \<Rightarrow> Inr (''static '' @ return @ '' '' @ name @ ''('' @ join '', '' args @ '');'')
       | _ \<Rightarrow> Inl (ValueError ''unpack''))"

definition declared_parameters :: "param_handler list \<Rightarrow> string res" where
  "declared_parameters ps =
     bind_res (map_res (\<lambda>p. join_ctype_and_name (po_ctype (ph_object p)) (po_name (ph_object p))) ps) (\<lambda>l. Inr (join '', '' l))"

definition parameter_names :: "param_handler list \<Rightarrow> string" where
  "parameter_names ps = join '', '' (map (\<lambda>p. po_name (ph_object p)) ps)"

definition generate_parent_caller_method :: "(nat \<Rightarrow> class_info) \<Rightarrow> meth \<Rightarrow> 't sink_class \<Rightarrow> ('t, unit) py" where
  "generate_parent_caller_method cls m sk =
     (let ctype = ro_ctype (rh_object (m_return_value m)) in
      bnd (lift_res (declared_parameters (m_parameters m))) (\<lambda>params.
      bnd (run_cmd sk (Writeln (''inline '' @ ctype @ '' '' @ m_method_name m @ ''__parent_caller('' @ params @ '')''))) (\<lambda>_.
      bnd (lift_res (class_attr cls (m_class m) ''full_name'' ci_full_name)) (\<lambda>full_name.
      run_cmd sk (Writeln (''{ '' @ (if ctype = ''void'' then [] else ''return '') @ full_name @ ''::'' @ m_method_name m @
        ''('' @ parameter_names (m_parameters m) @ ''); }''))))))"

section \<open>Methods that cannot be generated\<close>

text \<open>The first argument of a specification as the type of the handler.\<close>

definition spec_ctype :: "spec_item \<Rightarrow> ctype_arg" where
  "spec_ctype i = (case i of Pos_Arg (PyStr s) \<Rightarrow> String_Arg s | Pos_Arg PyNone \<Rightarrow> No_Ctype | _ \<Rightarrow> Other_Arg)"

definition dummy_error :: "string \<Rightarrow> py_error" where
  "dummy_error cls = TypeError (''this is a '' @ cls)"

text \<open>A handler without a type fails when its wrapper declares \<open>retval\<close>; here it fails at once.\<close>

definition DummyReturnValue_init :: "retval_handler spec \<Rightarrow> retval_handler res option" where
  "DummyReturnValue_init arg =
     bind_div (case arg of
         Handler_Obj h \<Rightarrow> Some (Inr (String_Arg (ro_ctype (rh_object h))))
       | _ \<Rightarrow> Some (bind_res (parse_retval_spec arg) (\<lambda>(args, kwargs).
           case args of [] \<Rightarrow> Inl IndexError | a # _ \<Rightarrow> Inr (spec_ctype a)))) (\<lambda>ctype.
     bind_div (ReturnValue_init ctype False) (\<lambda>r.
     bind_div (Some (ctype_no_const r)) (\<lambda>no_const.
     Some (Inr \<lparr>rh_object = \<lparr>ro_ctype = opt_str (th_ctype r), ro_ctype_no_const = no_const,
         ro_requires_assignment_constructor = False, ro_get_c_error_return = Inr [],
         ro_convert_python_to_c = raise_py (dummy_error ''DummyReturnValue''),
         ro_convert_c_to_python = raise_py (dummy_error ''DummyReturnValue'')\<rparr>,
       rh_custodian = None, rh_return_internal_reference = False\<rparr>))))"

text \<open>
  \<open>DummyParameter\<close> tests for a \<open>ReturnValue\<close>: a \<open>Parameter\<close> object reaches \<open>parse_param_spec\<close>, which
  rejects it.
\<close>

definition spec_name :: "spec_item \<Rightarrow> string" where
  "spec_name i = (case i of Pos_Arg (PyStr s) \<Rightarrow> s | _ \<Rightarrow> [])"

definition DummyParameter_init :: "param_handler spec \<Rightarrow> param_handler res option" where
  "DummyParameter_init arg =
     bind_div (Some (bind_res (parse_param_spec arg) (\<lambda>(args, kwargs).
       case args of a # n # _ \<Rightarrow> Inr (spec_ctype a, spec_name n) | _ \<Rightarrow> Inl IndexError))) (\<lambda>(ctype, name).
     bind_div (Parameter_init [DIRECTION_IN, DIRECTION_OUT, DIRECTION_INOUT] ctype name DIRECTION_IN False PyNone) (\<lambda>p.
     Some (Inr \<lparr>ph_object = \<lparr>po_ctype = opt_str (th_ctype p), po_name = name,
         po_convert_python_to_c = raise_py (dummy_error ''DummyParameter''),
         po_convert_c_to_python = raise_py (dummy_error ''DummyParameter'')\<rparr>, ph_custodian = None\<rparr>)))"

definition CppDummyMethod_init ::
  "settings \<Rightarrow> string \<Rightarrow> retval_handler spec \<Rightarrow> param_handler spec list \<Rightarrow> method_args \<Rightarrow> meth res option" where
  "CppDummyMethod_init st method_name return_value parameters a =
     bind_div (DummyReturnValue_init return_value) (\<lambda>rv.
     bind_div (map_div DummyParameter_init parameters) (\<lambda>ps.
     bind_div (CppMethod_init (\<lambda>_. []) st None (\<lambda>_. Some (Inl AssertionError)) (\<lambda>_. Some (Inl AssertionError)) () (Inl method_name)
       (Some (Handler_Obj rv)) (map Handler_Obj ps) a) (\<lambda>m.
     Some (Inr (m\<lparr>m_kind := Dummy_Method\<rparr>)))))"

section \<open>Constructors\<close>

datatype ctor_kind = Plain_Constructor | Function_Constructor string | Custom_Constructor string

record ctor =
  k_kind :: ctor_kind
  k_wrapper :: wrapper
  k_parameters :: "param_handler list"
  k_force_parse :: "int option"
  k_unblock_threads :: bool
  k_deprecated :: pyval
  k_visibility :: string
  k_class :: "nat option"
  k_wrapper_base_name :: "string option"
  k_wrapper_actual_name :: "string option"
  k_wrapper_args :: "string list option"
  k_wrapper_return :: "string option"
  k_throw :: "cpp_exception list"
  k_custodians_and_wards :: "custody list"

record ctor_args =
  ka_unblock_threads :: "bool option"
  ka_visibility :: string
  ka_deprecated :: pyval
  ka_throw :: "cpp_exception list"

definition default_ctor_args :: ctor_args where
  "default_ctor_args = \<lparr>ka_unblock_threads = None, ka_visibility = ''public'', ka_deprecated = PyBool False, ka_throw = []\<rparr>"

definition ctor_forward_init :: "bool \<Rightarrow> param_handler list \<Rightarrow> forward_class" where
  "ctor_forward_init unblock_threads parameters = \<lparr>fc_return_value = None, fc_parameters = map ph_object parameters,
     fc_parse_error_return = ''return -1;'', fc_error_return = ''return -1;'', fc_force_parse = Some PARSE_TUPLE_AND_KEYWORDS,
     fc_no_c_retval = False, fc_unblock_threads = unblock_threads, fc_deprecated = PyBool False, fc_have_return_value = False,
     fc_before_call_hook = ret (), fc_generate_call = ret (), fc_before_return_hook = ret ()\<rparr>"

definition new_ctor :: "settings \<Rightarrow> ctor_args \<Rightarrow> param_handler list \<Rightarrow> ctor res" where
  "new_ctor st a parameters =
     (let unblock_threads = given_or (st_unblock_threads st) (ka_unblock_threads a)
      in bind_res (ForwardWrapperBase_init (ctor_forward_init unblock_threads parameters)) (\<lambda>w.
         if ka_visibility a \<notin> {''public'', ''protected'', ''private''} then Inl AssertionError
         else case scan_custodians_and_wards (NameError ''TypeConfigurationError'') (map ph_custodian parameters) None False [] of
           (Inl e, _) \<Rightarrow> Inl e
         | (Inr _, custodies) \<Rightarrow>
             Inr \<lparr>k_kind = Plain_Constructor, k_wrapper = w, k_parameters = parameters, k_force_parse = Some PARSE_TUPLE_AND_KEYWORDS,
               k_unblock_threads = unblock_threads, k_deprecated = ka_deprecated a, k_visibility = ka_visibility a, k_class = None,
               k_wrapper_base_name = None, k_wrapper_actual_name = None, k_wrapper_args = None, k_wrapper_return = None,
               k_throw = ka_throw a, k_custodians_and_wards = custodies\<rparr>))"

definition CppConstructor_init ::
  "settings \<Rightarrow> 'w error_handler option \<Rightarrow> (call_args \<Rightarrow> param_handler res option) \<Rightarrow> 'w \<Rightarrow> param_handler spec list \<Rightarrow> ctor_args \<Rightarrow>
   ctor res option" where
  "CppConstructor_init st h new_param self parameters a =
     bind_div (map_div (eval_param h new_param self) parameters) (\<lambda>ps. Some (new_ctor st a ps))"

definition CppConstructor_add_custodian_and_ward :: "int \<Rightarrow> int \<Rightarrow> bool option \<Rightarrow> (ctor, unit) py" where
  "CppConstructor_add_custodian_and_ward custodian ward postcall = (\<lambda>k.
     case add_custodian_and_ward (NameError ''TypeConfigurationError'') custodian ward postcall (k_custodians_and_wards k) of
       (r, l) \<Rightarrow> (r, k\<lparr>k_custodians_and_wards := l\<rparr>))"

text \<open>The argument \<open>unblock_threads\<close> of a function used as a constructor is not passed on.\<close>

definition CppFunctionAsConstructor_init ::
  "settings \<Rightarrow> 'w error_handler option \<Rightarrow> (call_args \<Rightarrow> param_handler res option) \<Rightarrow> 'w \<Rightarrow> string \<Rightarrow> param_handler spec list \<Rightarrow>
   ctor res option" where
  "CppFunctionAsConstructor_init st h new_param self c_function_name parameters =
     bind_div (CppConstructor_init st h new_param self parameters default_ctor_args) (\<lambda>k.
       Some (Inr (k\<lparr>k_kind := Function_Constructor c_function_name\<rparr>)))"

definition CustomCppConstructorWrapper_init :: "settings \<Rightarrow> string \<Rightarrow> string \<Rightarrow> ctor res" where
  "CustomCppConstructorWrapper_init st wrapper_name wrapper_body =
     bind_res (new_ctor st default_ctor_args []) (\<lambda>k. Inr (k\<lparr>k_kind := Custom_Constructor wrapper_body,
       k_wrapper_base_name := Some wrapper_name, k_wrapper_actual_name := Some wrapper_name\<rparr>))"

text \<open>\<open>type(self)(parameters)\<close>: the constructors of the subclasses need more arguments.\<close>

definition CppConstructor_clone :: "settings \<Rightarrow> ctor \<Rightarrow> ctor res" where
  "CppConstructor_clone st k =
     (if k_kind k \<noteq> Plain_Constructor then Inl (TypeError ''__init__'')
      else bind_res (new_ctor st default_ctor_args (k_parameters k)) (\<lambda>c.
        Inr (c\<lparr>k_class := k_class k, k_wrapper_base_name := k_wrapper_base_name k, k_wrapper_actual_name := k_wrapper_actual_name k\<rparr>)))"

definition ctor_set_class :: "nat \<Rightarrow> string res \<Rightarrow> (ctor, unit) py" where
  "ctor_set_class c pystruct =
     bnd (upd (\<lambda>k. k\<lparr>k_class := Some c\<rparr>)) (\<lambda>_. bnd (lift_res pystruct) (\<lambda>p.
       upd (\<lambda>k. k\<lparr>k_wrapper_base_name := Some (''_wrap_'' @ p @ ''__tp_init'')\<rparr>)))"

text \<open>The call of a constructor, with an explicit type name (the helper class) or the one of the class.\<close>

definition create_instance_as :: "class_info \<Rightarrow> string \<Rightarrow> string \<Rightarrow> (wrapper, unit) py" where
  "create_instance_as ci parameters construct_type_name =
     ci_creation_function ci Before_Call ''self->obj'' parameters construct_type_name"

definition post_creation_as :: "class_info \<Rightarrow> string \<Rightarrow> string \<Rightarrow> (wrapper, unit) py" where
  "post_creation_as ci parameters construct_type_name =
     (case ci_post_creation_function ci of None \<Rightarrow> ret () | Some f \<Rightarrow> f Before_Call ''self->obj'' parameters construct_type_name)"

definition write_flags_statement :: "(wrapper, unit) py" where
  "write_flags_statement = w_write Before_Call ''self->flags = PYBINDGEN_WRAPPER_FLAG_NONE;''"

text \<open>The branch for an instance of the class itself: the constructor must be public and the class constructible.\<close>

definition construct_plain :: "class_info \<Rightarrow> ctor \<Rightarrow> string \<Rightarrow> (wrapper, unit) py" where
  "construct_plain ci k parameters =
     (let refuse = seqs [
            w_write Before_Call (''PyErr_SetString(PyExc_TypeError, '' @ dq @ ''class '' @ sq @ ci_name ci @ sq @ '' cannot be constructed'' @ dq @ '');''),
            w_write Before_Call ''return -1;'']
      in if k_visibility k \<noteq> ''public'' then refuse
         else case ci_construct_name ci of
           Inl (CodeGenerationError _) \<Rightarrow> refuse
         | Inl e \<Rightarrow> raise_py e
         | Inr _ \<Rightarrow> seqs [
             write_create_instance ci Before_Call ''self->obj'' parameters,
             write_flags_statement,
             write_post_instance_creation_code ci Before_Call ''self->obj'' parameters])"

text \<open>With a helper class, an instance of it is created only for a Python subclass.\<close>

definition construct_call :: "class_info \<Rightarrow> ctor \<Rightarrow> string \<Rightarrow> (wrapper, unit) py" where
  "construct_call ci k parameters =
     (case ci_helper_class ci of
        None \<Rightarrow> seqs [
          write_create_instance ci Before_Call ''self->obj'' parameters,
          write_post_instance_creation_code ci Before_Call ''self->obj'' parameters,
          write_flags_statement]
      | Some helper \<Rightarrow> seqs [
          w_write Before_Call (''if (self->ob_type != &'' @ ci_pytypestruct ci @ '')''),
          w_write Before_Call ''{'',
          indented Before_Call (seqs [
            create_instance_as ci parameters helper,
            write_flags_statement,
            w_write Before_Call (''(('' @ helper @ ''*) self->obj)->set_pyobj((PyObject *)self);''),
            post_creation_as ci parameters helper]),
          w_write Before_Call ''} else {'',
          indented Before_Call (seqs [
            w_write Before_Call (''// visibility: '' @ sq @ k_visibility k @ sq),
            construct_plain ci k parameters]),
          w_write Before_Call ''}''])"

definition ctor_generate_call :: "(nat \<Rightarrow> class_info) \<Rightarrow> ctor \<Rightarrow> (wrapper, unit) py" where
  "ctor_generate_call cls k =
     (let with_class = (\<lambda>f. bnd (gets w_call_params) (\<lambda>call_params.
            bnd (lift_res (class_attr cls (k_class k) ''helper_class'' id)) (\<lambda>ci. f ci (join '', '' call_params))))
      in case k_kind k of
        Plain_Constructor \<Rightarrow> call_in_try (k_throw k) ''return -1;'' (with_class (\<lambda>ci params. construct_call ci k params))
      | Function_Constructor c_function_name \<Rightarrow> with_class (\<lambda>ci params. seqs [
          assert_py (ci_helper_class ci = None),
          w_write Before_Call (''self->obj = '' @ c_function_name @ ''('' @ params @ '');''),
          write_flags_statement])
      | Custom_Constructor _ \<Rightarrow> ret ())"

definition ctor_forward :: "(nat \<Rightarrow> class_info) \<Rightarrow> ctor \<Rightarrow> forward_class" where
  "ctor_forward cls k = (ctor_forward_init (k_unblock_threads k) (k_parameters k))\<lparr>fc_force_parse := k_force_parse k,
     fc_deprecated := k_deprecated k,
     fc_before_call_hook := implement_parameter_custodians_precall (k_custodians_and_wards k),
     fc_generate_call := ctor_generate_call cls k,
     fc_before_return_hook := implement_parameter_custodians_postcall (k_custodians_and_wards k)\<rparr>"

definition on_kw :: "(wrapper, 'a) py \<Rightarrow> (ctor, 'a) py" where
  "on_kw f = (\<lambda>k. case f (k_wrapper k) of (r, w) \<Rightarrow> (r, k\<lparr>k_wrapper := w\<rparr>))"

definition on_ctor_wrapper :: "(wrapper \<times> 't, 'a) py \<Rightarrow> (ctor \<times> 't, 'a) py" where
  "on_ctor_wrapper f = (\<lambda>(k, t). case f (k_wrapper k, t) of (r, (w, t')) \<Rightarrow> (r, (k\<lparr>k_wrapper := w\<rparr>, t')))"

definition ctor_get_flags :: "(nat \<Rightarrow> class_info) \<Rightarrow> (ctor, string list) py" where
  "ctor_get_flags cls = (\<lambda>k. on_kw (get_py_method_def_flags (ctor_forward cls k)) k)"

definition ctor_reset :: "(nat \<Rightarrow> class_info) \<Rightarrow> (ctor, unit) py" where
  "ctor_reset cls = (\<lambda>k. on_kw (reset_code_generation_state (ctor_forward cls k)) k)"

text \<open>A private constructor, and a protected one without a helper class, are skipped.\<close>

definition check_visibility :: "(nat \<Rightarrow> class_info) \<Rightarrow> ctor \<Rightarrow> unit res" where
  "check_visibility cls k =
     (if k_visibility k = ''private'' then bind_res (class_attr cls (k_class k) ''full_name'' id) (\<lambda>_. Inl SkipWrapper)
      else if k_visibility k = ''protected'' then bind_res (class_attr cls (k_class k) ''helper_class'' id) (\<lambda>ci.
        if ci_helper_class ci = None then Inl SkipWrapper else Inr ())
      else Inr ())"

text \<open>Constructors are called with keywords: every parameter needs a name.\<close>

definition check_parameter_names :: "(wrapper, unit) py" where
  "check_parameter_names =
     bnd (gets w_parse_params) (\<lambda>items. bnd (lift_res (pt_get_parameters items)) (\<lambda>params.
       if params = [dq @ dq] then ret ()
       else bnd (lift_res (pt_get_keywords items)) (\<lambda>keywords. assert_py (keywords \<noteq> None))))"

definition CppConstructor_generate ::
  "(nat \<Rightarrow> class_info) \<Rightarrow> 't sink_class \<Rightarrow> string option \<Rightarrow> string list \<Rightarrow> (ctor \<times> 't, unit) py" where
  "CppConstructor_generate cls sk wrapper_name extra_wrapper_params =
     bnd (on_obj_state (gets (\<lambda>k. k))) (\<lambda>k.
     bnd (lift_res (check_visibility cls k)) (\<lambda>_.
     bnd (assert_py (k_class k \<noteq> None)) (\<lambda>_.
     bnd (on_obj_state (on_kw (body_to_memory (ctor_forward cls k)))) (\<lambda>tmp_sink.
     bnd (on_obj_state (on_kw check_parameter_names)) (\<lambda>_.
     bnd (lift_res (class_attr cls (k_class k) ''pystruct'' ci_pystruct)) (\<lambda>pystruct.
     let name = (case wrapper_name of None \<Rightarrow> k_wrapper_base_name k | Some n \<Rightarrow> Some n);
         args = [pystruct @ '' *self'', ''PyObject *args'', ''PyObject *kwargs''] @ extra_wrapper_params
     in seqs [
       on_obj_state (upd (\<lambda>k. k\<lparr>k_wrapper_actual_name := name, k_wrapper_return := Some ''static int'', k_wrapper_args := Some args\<rparr>)),
       on_ctor_wrapper (write_open_wrapper sk name (Some ''static int'') (Some args) False),
       upd (\<lambda>(k, t). (k, snd (mem_flush_to (s_writeln sk) tmp_sink t))),
       on_sink (run_cmd sk (Writeln ''return 0;'')),
       on_ctor_wrapper (write_close_wrapper sk)]))))))"

text \<open>A custom constructor returns its prototype.\<close>

definition CustomConstructor_generate ::
  "(nat \<Rightarrow> class_info) \<Rightarrow> 't sink_class \<Rightarrow> string \<Rightarrow> string list \<Rightarrow> (ctor \<times> 't, string option) py" where
  "CustomConstructor_generate cls sk wrapper_body extra_wrapper_params =
     bnd (assert_py (extra_wrapper_params = [''PyObject **return_exception''])) (\<lambda>_.
     bnd (on_sink (run_cmd sk (Writeln wrapper_body))) (\<lambda>_.
     bnd (on_obj_state (gets (\<lambda>k. k))) (\<lambda>k.
     bnd (lift_res (class_attr cls (k_class k) ''pystruct'' ci_pystruct)) (\<lambda>pystruct.
     ret (Some (''int '' @ opt_str (k_wrapper_actual_name k) @ '' ('' @ pystruct @
       '' *self, PyObject *args, PyObject *kwargs, PyObject **return_exception)''))))))"

definition ctor_generate ::
  "(nat \<Rightarrow> class_info) \<Rightarrow> 't sink_class \<Rightarrow> string option \<Rightarrow> string list \<Rightarrow> (ctor \<times> 't, string option) py" where
  "ctor_generate cls sk wrapper_name extra_wrapper_params = (\<lambda>(k, t).
     case k_kind k of
       Custom_Constructor body \<Rightarrow> CustomConstructor_generate cls sk body extra_wrapper_params (k, t)
     | _ \<Rightarrow> bnd (CppConstructor_generate cls sk wrapper_name extra_wrapper_params) (\<lambda>_. ret None) (k, t))"

text \<open>\<open>str(constructor)\<close>: a constructor has no return value.\<close>

definition ctor_str :: "(nat \<Rightarrow> class_info) \<Rightarrow> ctor \<Rightarrow> string" where
  "ctor_str cls k =
     (let cls_name = (case k_class k of None \<Rightarrow> ''???'' | Some c \<Rightarrow> ci_full_name (cls c))
      in k_visibility k @ '': retval? '' @ cls_name @ ''::'' @ cls_name @ '' ('' @
         join '', '' (map (\<lambda>p. po_ctype (ph_object p) @ '' '' @ po_name (ph_object p)) (k_parameters k)) @ '');'')"

text \<open>\<open>CppNoConstructor\<close>: the constructor that raises an exception.\<close>

definition CppNoConstructor_generate :: "class_info \<Rightarrow> string \<Rightarrow> 't sink_class \<Rightarrow> (wrapper \<times> 't, string) py" where
  "CppNoConstructor_generate ci reason sk =
     (let name = ''_wrap_'' @ ci_pystruct ci @ ''__tp_init'' in
      bnd (seqs [
        write_open_wrapper sk (Some name) (Some ''static int'') (Some [''void'']) False,
        emit sk (''PyErr_SetString(PyExc_TypeError, '' @ dq @ ''class '' @ sq @ ci_name ci @ sq @ '' cannot be constructed ('' @ reason @ '')'' @ dq @ '');''),
        emit sk ''return -1;'',
        write_close_wrapper sk]) (\<lambda>_. ret name))"

section \<open>Virtual methods that call Python\<close>

record proxy =
  vp_wrapper :: wrapper
  vp_method :: meth
  vp_helper_class :: "helper_ref option"
  vp_wrapper_base_name :: "string option"

definition proxy_python_call :: "settings \<Rightarrow> string \<Rightarrow> (wrapper, unit) py" where
  "proxy_python_call st method_name =
     bnd (gets w_build_params) (\<lambda>items.
     let name = (if get_deprecated_virtuals st then ''_'' @ method_name else method_name);
         params = [''m_pyself'', ''(char *) '' @ dq @ name @ dq] @ char_cast_first (bv_get_parameters False items)
     in seqs [
       w_write Before_Call (''py_retval = PyObject_CallMethod('' @ join '', '' params @ '');''),
       w_error_check Before_Call ''py_retval == NULL'' (Some ''PyErr_Print();''),
       bnd (w_add_cleanup Before_Call ''Py_DECREF(py_retval);'') (\<lambda>_. ret ())])"

definition proxy_reverse :: "settings \<Rightarrow> meth \<Rightarrow> reverse_class" where
  "proxy_reverse st m = \<lparr>rc_return_value = rh_object (m_return_value m), rc_parameters = map ph_object (m_parameters m),
     rc_error_return = None, rc_no_gil_locking = False, rc_generate_python_call = proxy_python_call st (m_method_name m)\<rparr>"

definition CppVirtualMethodProxy_init :: "settings \<Rightarrow> meth \<Rightarrow> proxy res" where
  "CppVirtualMethodProxy_init st method =
     bind_res (ReverseWrapperBase_init (proxy_reverse st method)) (\<lambda>w.
       Inr \<lparr>vp_wrapper = w, vp_method = method, vp_helper_class = None, vp_wrapper_base_name = None\<rparr>)"

definition proxy_set_helper_class :: "helper_ref \<Rightarrow> proxy \<Rightarrow> proxy" where
  "proxy_set_helper_class h vp =
     vp\<lparr>vp_helper_class := Some h, vp_wrapper_base_name := Some (''_wrap_'' @ m_method_name (vp_method vp))\<rparr>"

definition throw_clause :: "meth \<Rightarrow> string list" where
  "throw_clause m = (if m_throw m = [] then [] else [''throw ('' @ join '', '' (map (\<lambda>e. opt_str (ce_full_name e)) (m_throw m)) @ '')''])"

definition proxy_generate_declaration :: "proxy \<Rightarrow> 't sink_class \<Rightarrow> ('t, unit) py" where
  "proxy_generate_declaration vp sk =
     (let m = vp_method vp in
      bnd (lift_res (declared_parameters (m_parameters m))) (\<lambda>params_list.
        run_cmd sk (Writeln (''virtual '' @ ro_ctype (rh_object (m_return_value m)) @ '' '' @ m_method_name m @ ''('' @ params_list @ '')'' @
          (if m_is_const m then '' const'' else []) @ concat (map (\<lambda>t. '' '' @ t) (throw_clause m)) @ '';''))))"

definition no_parent_text :: string where
  "no_parent_text = join nl [
     [],
     ''PyErr_Print();'',
     ''Py_FatalError('' @ dq @ ''Error detected, but parent virtual is pure virtual or private virtual, '' @ dq,
     ''              '' @ dq @ ''and return is a class without trival constructor'' @ dq @ '');'']"

text \<open>
  What the proxy does when the Python object has no such method: it calls the parent's method if there
  is one that it can call.  \<open>trivial\<close>: the return value is an instance of a class with a trivial constructor.
\<close>

definition chain_to_parent :: "(nat \<Rightarrow> class_info) \<Rightarrow> bool \<Rightarrow> meth \<Rightarrow> (wrapper, unit) py" where
  "chain_to_parent cls trivial m =
     (let no_parent = (m_is_pure_virtual m \<or> m_visibility m = ''private'');
          parent_call = bind_res (class_attr cls (m_class m) ''full_name'' ci_full_name) (\<lambda>full_name.
            Inr (full_name @ ''::'' @ m_method_name m @ ''('' @ parameter_names (m_parameters m) @ '');''))
      in if ro_ctype (rh_object (m_return_value m)) = ''void'' then seqs [
           when_py (\<not> no_parent) (bnd (lift_res parent_call) (\<lambda>call. w_write Before_Call (''    '' @ call))),
           w_write_cleanup Before_Call,
           w_write Before_Call ''    return;'']
         else seqs [
           (if no_parent then when_py (\<not> trivial) (rw_set_error_return no_parent_text)
            else bnd (lift_res parent_call) (\<lambda>call. rw_set_error_return (''return '' @ call))),
           indented Before_Call (seqs [
             w_write_cleanup Before_Call,
             bnd (gets (\<lambda>w. cb_error_return (w_before_call w))) (w_write Before_Call)])])"

text \<open>The Python object refers to this object during the call, and to what it was before after it.\<close>

definition point_to_this :: "(nat \<Rightarrow> class_info) \<Rightarrow> meth \<Rightarrow> (wrapper, unit) py" where
  "point_to_this cls m =
     bnd (lift_res (class_attr cls (m_class m) ''full_name'' (\<lambda>ci. (ci_full_name ci, ci_pystruct ci)))) (\<lambda>(full_name, pystruct).
     bnd (declare_var (full_name @ ''*'') ''self_obj_before'') (\<lambda>self_obj_before.
     let obj = ''reinterpret_cast< '' @ pystruct @ ''* >(m_pyself)->obj'';
         this_expression = (if m_is_const m then ''const_cast< '' @ full_name @ ''* >((const '' @ full_name @ ''*) this)''
           else ''('' @ full_name @ ''*) this'')
     in seqs [
       w_write Before_Call (self_obj_before @ '' = '' @ obj @ '';''),
       w_write Before_Call (obj @ '' = '' @ this_expression @ '';''),
       bnd (w_add_cleanup Before_Call (obj @ '' = '' @ self_obj_before @ '';'')) (\<lambda>_. ret ())]))"

definition proxy_before_call :: "settings \<Rightarrow> (nat \<Rightarrow> class_info) \<Rightarrow> bool \<Rightarrow> meth \<Rightarrow> (wrapper, unit) py" where
  "proxy_before_call st cls trivial m =
     bnd (declare_var ''PyObject*'' ''py_method'') (\<lambda>py_method. seqs [
       w_write Before_Call (py_method @ '' = PyObject_GetAttrString(m_pyself, (char *) '' @ dq @
         (if get_deprecated_virtuals st then ''_'' else []) @ m_method_name m @ dq @ ''); PyErr_Clear();''),
       bnd (w_add_cleanup Before_Call (''Py_XDECREF('' @ py_method @ '');'')) (\<lambda>_. ret ()),
       w_write Before_Call (''if ('' @ py_method @ '' == NULL || '' @ py_method @ ''->ob_type == &PyCFunction_Type) {''),
       chain_to_parent cls trivial m,
       w_write Before_Call ''}'',
       point_to_this cls m])"

definition proxy_generate ::
  "settings \<Rightarrow> (nat \<Rightarrow> class_info) \<Rightarrow> bool \<Rightarrow> 't sink_class \<Rightarrow> (proxy \<times> 't, unit) py" where
  "proxy_generate st cls trivial sk = (\<lambda>(vp, t).
     let m = vp_method vp in
     case bnd (on_wrapper (proxy_before_call st cls trivial m)) (\<lambda>_.
         bnd (lift_res (case vp_helper_class vp of None \<Rightarrow> Inl (AttributeError ''name'') | Some h \<Rightarrow> Inr (hr_name h))) (\<lambda>helper.
         rw_generate sk (proxy_reverse st m) (helper @ ''::'' @ m_method_name m) []
           ((if m_is_const m then [''const''] else []) @ throw_clause m))) (vp_wrapper vp, t) of
       (r, (w, t')) \<Rightarrow> (r, (vp\<lparr>vp_wrapper := w\<rparr>, t')))"

section \<open>Custom wrappers and overloading\<close>

definition CustomCppMethodWrapper_init ::
  "settings \<Rightarrow> (call_args \<Rightarrow> retval_handler res option) \<Rightarrow> string \<Rightarrow> string \<Rightarrow> string option \<Rightarrow> string list \<Rightarrow> meth res option" where
  "CustomCppMethodWrapper_init st new_retval method_name wrapper_name wrapper_body flags =
     bind_div (new_retval ([Pos_Arg (PyStr ''void'')], [])) (\<lambda>void.
     bind_div (Some (new_method st default_method_args method_name void [])) (\<lambda>m.
     Some (Inr (m\<lparr>m_kind := Custom_Method wrapper_body, m_wrapper_base_name := Some wrapper_name,
       m_wrapper_actual_name := Some wrapper_name, m_wrapper := (m_wrapper m)\<lparr>w_meth_flags := flags\<rparr>\<rparr>))))"

definition method_ops :: "settings \<Rightarrow> (nat \<Rightarrow> class_info) \<Rightarrow> 't sink_class \<Rightarrow> (meth, 't) wrapper_ops" where
  "method_ops st cls sk = \<lparr>wo_get_flags = method_get_flags st cls,
     wo_generate = (\<lambda>name extra. bnd (method_generate st cls sk name extra) (\<lambda>_. ret None)),
     wo_set_force_parse = (\<lambda>m. m\<lparr>m_force_parse := Some PARSE_TUPLE_AND_KEYWORDS\<rparr>),
     wo_set_parse_error_return = (\<lambda>e. on_mw (set_parse_error_return e)),
     wo_reset_code_generation_state = method_reset st cls,
     wo_get_py_method_def = method_get_py_method_def st cls,
     wo_wrapper_base_name = m_wrapper_base_name, wo_wrapper_actual_name = m_wrapper_actual_name,
     wo_wrapper_return = m_wrapper_return, wo_wrapper_args = m_wrapper_args,
     wo_needs_overloading_interface = (\<lambda>m. case m_kind m of Custom_Method _ \<Rightarrow> True | _ \<Rightarrow> False),
     wo_section = m_section\<rparr>"

definition ctor_ops :: "(nat \<Rightarrow> class_info) \<Rightarrow> 't sink_class \<Rightarrow> (ctor, 't) wrapper_ops" where
  "ctor_ops cls sk = \<lparr>wo_get_flags = ctor_get_flags cls,
     wo_generate = ctor_generate cls sk,
     wo_set_force_parse = (\<lambda>k. k\<lparr>k_force_parse := Some PARSE_TUPLE_AND_KEYWORDS\<rparr>),
     wo_set_parse_error_return = (\<lambda>e. on_kw (set_parse_error_return e)),
     wo_reset_code_generation_state = ctor_reset cls,
     wo_get_py_method_def = (\<lambda>_. raise_py (AttributeError ''get_py_method_def'')),
     wo_wrapper_base_name = k_wrapper_base_name, wo_wrapper_actual_name = k_wrapper_actual_name,
     wo_wrapper_return = k_wrapper_return, wo_wrapper_args = k_wrapper_args,
     wo_needs_overloading_interface = (\<lambda>k. case k_kind k of Custom_Constructor _ \<Rightarrow> True | _ \<Rightarrow> False),
     wo_section = (\<lambda>_. None)\<rparr>"

definition CppOverloadedMethod :: ov_class where
  "CppOverloadedMethod = \<lparr>RETURN_TYPE = ''PyObject *'', ERROR_RETURN = ''return NULL;''\<rparr>"

definition CppOverloadedConstructor :: ov_class where
  "CppOverloadedConstructor = \<lparr>RETURN_TYPE = ''int'', ERROR_RETURN = ''return -1;''\<rparr>"

section \<open>Methods meet the contract of the base class\<close>

lemma plain_method_call: "plain_code (CppMethod_generate_call st cls m)"
  unfolding CppMethod_generate_call_def method_helper_def
  by (auto intro!: plain_rules plain_call_in_try simp del: ret_run split: option.split)

lemma plain_parent_call: "plain_code (ParentCaller_generate_call cls m)"
  unfolding ParentCaller_generate_call_def
  by (auto intro!: plain_rules simp del: ret_run)

text \<open>The handlers of a method keep the contract of the wrappers.\<close>

definition method_ok :: "meth \<Rightarrow> bool" where
  "method_ok m \<longleftrightarrow> list_all (\<lambda>p. forward_param_ok (ph_object p)) (m_parameters m) \<and>
     keeps wrapper_grows (ro_convert_c_to_python (rh_object (m_return_value m)))"

lemma method_forward_ok: "method_ok m \<Longrightarrow> forward_class_ok (method_forward st cls m)"
  unfolding method_ok_def forward_class_ok_def method_forward_def implement_parameter_custodians_precall_def
    implement_parameter_custodians_postcall_def
  by (auto simp: list.pred_map comp_def plainD plain_custodians plain_method_call plain_parent_call plain_prims split: method_kind.split
      simp del: ret_run)

definition good_method :: "meth \<Rightarrow> bool" where
  "good_method m \<longleftrightarrow> method_ok m \<and> (w_meth_flags (m_wrapper m) = [] \<longrightarrow> m_force_parse m = Some PARSE_TUPLE_AND_KEYWORDS)"

definition method_flags :: "meth \<Rightarrow> string set" where
  "method_flags m = forced_flags (m_wrapper m) \<union> (if m_is_static m then {''METH_STATIC''} else {})"

interpretation meths: flag_source "method_get_flags st cls" good_method method_flags for st cls
proof
  fix m fl m'
  assume good: "good_method m" and run: "method_get_flags st cls m = (Inr fl, m')"
  then obtain w fl1 where w: "get_py_method_def_flags (method_forward st cls m) (m_wrapper m) = (Inr fl1, w)"
      and m': "m' = m\<lparr>m_wrapper := w\<rparr>" and fl: "fl = fl1 @ (if m_is_static m then [''METH_STATIC''] else [])"
    by (auto simp: method_get_flags_def on_mw_def elim!: bnd_eq_InrE split: prod.splits)
  from get_flags_forced [OF method_forward_ok _ w] good
  have "set fl1 = forced_flags (m_wrapper m) \<and> w_meth_flags w = w_meth_flags (m_wrapper m)"
    by (simp add: good_method_def method_forward_def)
  with good m' fl show "good_method m' \<and> set fl = method_flags m \<and> method_flags m' = method_flags m"
    by (simp add: good_method_def method_ok_def method_flags_def forced_flags_def)
qed

section \<open>Constructors meet the contract of the base class\<close>

lemma plain_construct:
  assumes "class_info_ok ci"
  shows "plain_code (construct_call ci k params)"
proof -
  have as: "plain_code (create_instance_as ci p n)" "plain_code (post_creation_as ci p n)" for p n
    using assms by (auto simp: create_instance_as_def post_creation_as_def class_info_ok_def plain_prims split: option.splits simp del: ret_run)
  have "plain_code (construct_plain ci k params)"
    unfolding construct_plain_def write_flags_statement_def Let_def
    by (auto intro!: plain_rules plain_create [OF assms] simp del: ret_run split: sum.split py_error.split)
  then show ?thesis
    unfolding construct_call_def write_flags_statement_def
    by (auto intro!: plain_rules plain_create [OF assms] as simp del: ret_run split: option.split)
qed

lemma plain_ctor_call:
  assumes "\<And>c. class_info_ok (cls c)"
  shows "plain_code (ctor_generate_call cls k)"
proof (cases "k_class k")
  case None
  then show ?thesis
    by (auto simp: ctor_generate_call_def class_attr_def intro!: plain_call_in_try plain_rules split: ctor_kind.split simp del: ret_run)
next
  case (Some c)
  then show ?thesis
    by (auto simp: ctor_generate_call_def class_attr_def write_flags_statement_def
        intro!: plain_call_in_try plain_rules plain_construct assms split: ctor_kind.split simp del: ret_run assert_py_simps)
qed

definition ctor_ok :: "ctor \<Rightarrow> bool" where
  "ctor_ok k \<longleftrightarrow> list_all (\<lambda>p. forward_param_ok (ph_object p)) (k_parameters k)"

lemma ctor_forward_ok:
  assumes "\<And>c. class_info_ok (cls c)" "ctor_ok k"
  shows "forward_class_ok (ctor_forward cls k)"
  using assms plain_ctor_call [OF assms(1)]
  unfolding ctor_ok_def forward_class_ok_def ctor_forward_def ctor_forward_init_def implement_parameter_custodians_precall_def
    implement_parameter_custodians_postcall_def
  by (auto simp: list.pred_map comp_def plainD plain_custodians simp del: ret_run)

text \<open>A copy of a method has its signature, unless the method has a custom name.\<close>

lemma clone_signature:
  assumes "CppMethod_clone st m = Inr c"
  shows "matches_signature (method_obj_of c) (method_obj_of m) \<longleftrightarrow>
    m_mangled_name m = get_mangled_name (m_method_name m) (m_template_parameters m)"
  using assms
  by (auto simp: CppMethod_clone_def new_method_def Let_def bind_res_def default_method_args_def custom_or_def mangled_method_name_def
      matches_signature_def method_obj_of_def split: sum.splits prod.splits)

section \<open>Properties\<close>

text \<open>
  C26. Overloads of a method do not mix static methods and instance methods.  When the flags of several
  methods have been normalised without an error, the methods that are left are some of the given ones in
  their order, they report the same set of method flags, and, where their flags are computed from their
  parameters, either all of them are static or none is.
\<close>

theorem method_overloads_agree:
  assumes "normalize_py_method_flags (method_ops st cls sk) h s = (Inr (), s')"
    and "length (ov_wrappers s) \<noteq> 1" and "distinct (ov_wrappers s)"
    and "\<forall>j \<in> set (ov_wrappers s). method_ok (ov_objs s j)"
  shows "subseq (ov_wrappers s') (ov_wrappers s) \<and>
    (\<exists>fs static. \<forall>j \<in> set (ov_wrappers s').
       (\<forall>fl m. method_get_flags st cls (ov_objs s' j) = (Inr fl, m) \<longrightarrow> set fl = fs) \<and>
       (''METH_STATIC'' \<notin> set (w_meth_flags (m_wrapper (ov_objs s' j))) \<longrightarrow> m_is_static (ov_objs s' j) = static))"
proof -
  have "subseq (ov_wrappers s') (ov_wrappers s) \<and> (\<exists>fs. \<forall>j \<in> set (ov_wrappers s'). meths.settled (ov_objs s' j) fs)"
    using meths.normalize_settles [OF assms(1) _ assms(2,3)] assms(4) by (simp add: method_ops_def good_method_def method_ok_def)
  then obtain fs where sub: "subseq (ov_wrappers s') (ov_wrappers s)"
      and fs: "\<And>j. j \<in> set (ov_wrappers s') \<Longrightarrow> good_method (ov_objs s' j) \<and> method_flags (ov_objs s' j) = fs"
    by (auto simp: meths.settled_def)
  have static: "m_is_static (ov_objs s' j) = (''METH_STATIC'' \<in> fs)"
    if "j \<in> set (ov_wrappers s')" "''METH_STATIC'' \<notin> set (w_meth_flags (m_wrapper (ov_objs s' j)))" for j
    using fs [OF that(1)] that(2) by (auto simp: method_flags_def forced_flags_def split: if_splits)
  have flags: "set fl = fs" if "j \<in> set (ov_wrappers s')" "method_get_flags st cls (ov_objs s' j) = (Inr fl, m)" for j fl m
    using fs [OF that(1)] meths.own_flags [OF _ that(2)] by auto
  show ?thesis
    by (rule conjI [OF sub], rule exI [of _ fs], rule exI [of _ "''METH_STATIC'' \<in> fs"]) (simp add: static flags)
qed

definition sample_method :: meth where
  "sample_method = \<lparr>m_kind = Plain_Method, m_wrapper = empty_wrapper Forward ''return NULL;'' ''return NULL;'',
     m_return_value = f_return_value sample_func, m_parameters = [], m_force_parse = None, m_unblock_threads = False,
     m_deprecated = PyBool False, m_visibility = ''public'', m_method_name = ''f'', m_is_static = True, m_is_virtual = False,
     m_is_pure_virtual = False, m_is_const = False, m_template_parameters = [], m_mangled_name = ''f'', m_own_class = Some 0,
     m_helper_class = None, m_docstring = None, m_wrapper_base_name = Some ''_wrap_PyC_f'', m_wrapper_actual_name = None,
     m_wrapper_args = None, m_wrapper_return = None, m_throw = [], m_custodians_and_wards = [], m_section = None\<rparr>"

definition sample_owner :: class_info where
  "sample_owner = \<lparr>ci_name = ''C'', ci_full_name = ''C'', ci_pystruct = ''PyC'', ci_pytypestruct = ''PyC_Type'',
     ci_allow_subclassing = False, ci_automatic_type_narrowing = False, ci_memory_policy = None, ci_has_copy_constructor = False,
     ci_helper_class = None, ci_wrapper_registry = NullWrapperRegistry ''C'', ci_typeid_map_name = [], ci_construct_name = Inr ''C'',
     ci_creation_function = (\<lambda>_ _ _ _. ret ()), ci_post_creation_function = None, ci_implicit_conversions = []\<rparr>"

definition sample_methods :: "meth overload" where
  "sample_methods = (OverloadedWrapper_init (\<lambda>_. sample_method) ''_wrap_PyC_f'')\<lparr>ov_wrappers := [0, 1]\<rparr>"

lemma sample_methods_run:
  "case normalize_py_method_flags (method_ops default_settings (\<lambda>_. sample_owner) null_class) None sample_methods of
     (r, s) \<Rightarrow> r = Inr () \<and> ov_wrappers s = [0, 1]"
  by code_simp

theorem method_overloads_agree_witness:
  "\<exists>s fs. normalize_py_method_flags (method_ops default_settings (\<lambda>_. sample_owner) null_class) None sample_methods =
       (Inr (), s) \<and> ov_wrappers s = [0, 1] \<and>
     {set fl |j fl m. j \<in> set (ov_wrappers s) \<and> method_get_flags default_settings (\<lambda>_. sample_owner) (ov_objs s j) = (Inr fl, m)} \<subseteq> {fs}"
proof -
  obtain s where s: "normalize_py_method_flags (method_ops default_settings (\<lambda>_. sample_owner) null_class) None
      sample_methods = (Inr (), s)" "ov_wrappers s = [0, 1]"
    using sample_methods_run by (auto split: prod.splits)
  have "\<forall>j \<in> set (ov_wrappers sample_methods). method_ok (ov_objs sample_methods j)"
    "length (ov_wrappers sample_methods) \<noteq> 1" "distinct (ov_wrappers sample_methods)"
    by (simp_all add: sample_methods_def OverloadedWrapper_init_def method_ok_def sample_method_def sample_func_def grows.keeps_ret
        del: ret_run)
  from method_overloads_agree [OF s(1) this(2,3,1)] obtain fs where
      "\<forall>j \<in> set (ov_wrappers s). \<forall>fl m. method_get_flags default_settings (\<lambda>_. sample_owner) (ov_objs s j) = (Inr fl, m) \<longrightarrow> set fl = fs"
    by meson
  then have "{set fl |j fl m. j \<in> set (ov_wrappers s) \<and>
      method_get_flags default_settings (\<lambda>_. sample_owner) (ov_objs s j) = (Inr fl, m)} \<subseteq> {fs}" by blast
  with s show ?thesis by blast
qed

end
