(* ===== verification/Helper_Class.thy ===== *)
theory Helper_Class
  imports Cpp_Method
begin

text \<open>
  The helper class of a C++ class (\<open>CppHelperClass\<close> of \<open>src/pybindgen/cppclass.py\<close>): a C++ subclass whose virtual
  methods call Python, with wrappers that call the methods of the parent.
\<close>

section \<open>State\<close>

text \<open>
  The overloads of the parent callers are keyed by method name and kept in the order in which they were
  added, which the source leaves open.
\<close>

record helper =
  h_class :: nat
  h_name :: string
  h_pystruct :: string
  h_parent_callers :: "(string \<times> meth overload) list"
  h_proxies :: "proxy list"
  h_cannot_be_constructed :: bool
  h_custom_methods :: "(string \<times> string option) list"
  h_post_generation_code :: "string list"
  h_virtual_methods :: "meth list"

definition CppHelperClass_init :: "nat \<Rightarrow> string res \<Rightarrow> helper res" where
  "CppHelperClass_init c pystruct =
     bind_res pystruct (\<lambda>p. Inr \<lparr>h_class = c, h_name = p @ ''__PythonHelper'', h_pystruct = p, h_parent_callers = [], h_proxies = [],
       h_cannot_be_constructed = False, h_custom_methods = [], h_post_generation_code = [], h_virtual_methods = []\<rparr>)"

definition helper_ref_of :: "helper \<Rightarrow> helper_ref" where
  "helper_ref_of h = \<lparr>hr_name = h_name h, hr_class = h_class h\<rparr>"

definition same_signature :: "meth \<Rightarrow> meth \<Rightarrow> bool" where
  "same_signature m n \<longleftrightarrow> matches_signature (method_obj_of m) (method_obj_of n)"

section \<open>Virtual methods\<close>

text \<open>\<open>overload.add(wrapper)\<close>: an object of its own, with a number that the overload does not use.\<close>

definition overload_put :: "'w \<Rightarrow> 'w overload \<Rightarrow> 'w overload" where
  "overload_put w ov =
     (let i = fold max (map Suc (ov_wrappers ov)) 0 in ov\<lparr>ov_objs := (ov_objs ov)(i := w), ov_wrappers := ov_wrappers ov @ [i]\<rparr>)"

definition overload_objs :: "'w overload \<Rightarrow> 'w list" where
  "overload_objs ov = map (ov_objs ov) (ov_wrappers ov)"

definition add_virtual_parent_caller :: "meth \<Rightarrow> helper \<Rightarrow> helper" where
  "add_virtual_parent_caller parent_caller h =
     (let name = m_method_name parent_caller;
          ov = (case map_of (h_parent_callers h) name of
            None \<Rightarrow> (OverloadedWrapper_init (\<lambda>_. parent_caller) name)\<lparr>ov_pystruct := h_pystruct h\<rparr>
          | Some ov \<Rightarrow> ov);
          ov' = (if list_ex (same_signature parent_caller) (overload_objs ov) then ov else overload_put parent_caller ov)
      in h\<lparr>h_parent_callers := AList.update name ov' (h_parent_callers h)\<rparr>)"

definition add_virtual_proxy :: "proxy \<Rightarrow> helper \<Rightarrow> helper" where
  "add_virtual_proxy vp h = h\<lparr>h_proxies := h_proxies h @ [vp]\<rparr>"

text \<open>The visibilities of methods that a Python subclass can only reach through a parent caller.\<close>

definition needs_parent_caller :: "settings \<Rightarrow> meth \<Rightarrow> bool" where
  "needs_parent_caller st m \<longleftrightarrow> \<not> m_is_pure_virtual m \<and>
     m_visibility m \<in> (if get_deprecated_virtuals st then {''public'', ''protected''} else {''protected''})"

definition new_parent_caller :: "settings \<Rightarrow> meth \<Rightarrow> (helper, unit) py" where
  "new_parent_caller st method =
     bnd (lift_res (ParentCaller_init st method None)) (\<lambda>pc.
       upd (\<lambda>h. add_virtual_parent_caller (set_helper_class (helper_ref_of h) pc) h))"

text \<open>A method that is not there yet, with its parent caller and its proxy.\<close>

definition append_virtual_method :: "settings \<Rightarrow> meth \<Rightarrow> (helper, unit) py" where
  "append_virtual_method st method = seqs [
     upd (\<lambda>h. h\<lparr>h_virtual_methods := h_virtual_methods h @ [method]\<rparr>),
     when_py (needs_parent_caller st method) (new_parent_caller st method),
     bnd (lift_res (CppVirtualMethodProxy_init st method)) (\<lambda>vp. upd (add_virtual_proxy vp))]"

definition add_virtual_method :: "settings \<Rightarrow> meth \<Rightarrow> (helper, unit) py" where
  "add_virtual_method st method = seqs [
     assert_py (m_is_virtual method),
     assert_py (m_class method \<noteq> None),
     bnd (gets h_virtual_methods) (\<lambda>existing.
       if list_ex (same_signature method) existing then ret ()
       else if m_kind method = Dummy_Method
         then when_py (m_is_pure_virtual method) (upd (\<lambda>h. h\<lparr>h_cannot_be_constructed := True\<rparr>))
       else append_virtual_method st method)]"

definition add_custom_method :: "string \<Rightarrow> string option \<Rightarrow> helper \<Rightarrow> helper" where
  "add_custom_method declaration body h = h\<lparr>h_custom_methods := h_custom_methods h @ [(declaration, body)]\<rparr>"

definition add_post_generation_code :: "string \<Rightarrow> helper \<Rightarrow> helper" where
  "add_post_generation_code code h = h\<lparr>h_post_generation_code := h_post_generation_code h @ [code]\<rparr>"

section \<open>Generation\<close>

text \<open>The error handler, for the objects it is called with.\<close>

record error_handlers =
  eh_method :: "meth error_handler option"
  eh_overload :: "meth overload error_handler option"
  eh_proxy :: "proxy error_handler option"

text \<open>What the generation reads: the settings, the classes, the handlers, and which return values have a trivial constructor.\<close>

record generation_env =
  ge_settings :: settings
  ge_classes :: "nat \<Rightarrow> class_info"
  ge_handlers :: error_handlers
  ge_trivial :: "meth \<Rightarrow> bool"

definition caller_ops :: "generation_env \<Rightarrow> 't sink_class \<Rightarrow> (meth, 't) wrapper_ops" where
  "caller_ops ge sk = method_ops (ge_settings ge) (ge_classes ge) sk"

definition helper_writeln :: "'t sink_class \<Rightarrow> string \<Rightarrow> (helper \<times> 't, unit) py" where
  "helper_writeln sk text = on_sink (run_cmd sk (Writeln text))"

definition on_parent_caller :: "string \<Rightarrow> (meth overload \<times> 't, 'a) py \<Rightarrow> (helper \<times> 't, 'a) py" where
  "on_parent_caller name f = (\<lambda>(h, t).
     case map_of (h_parent_callers h) name of
       None \<Rightarrow> (Inl (KeyError name), (h, t))
     | Some ov \<Rightarrow> (case f (ov, t) of (r, (ov', t')) \<Rightarrow> (r, (h\<lparr>h_parent_callers := AList.update name ov' (h_parent_callers h)\<rparr>, t'))))"

definition on_proxy :: "nat \<Rightarrow> (proxy \<times> 't, 'a) py \<Rightarrow> (helper \<times> 't, 'a) py" where
  "on_proxy i f = (\<lambda>(h, t). case f (h_proxies h ! i, t) of (r, (vp, t')) \<Rightarrow> (r, (h\<lparr>h_proxies := (h_proxies h)[i := vp]\<rparr>, t')))"

definition proxy_reset :: "generation_env \<Rightarrow> (proxy \<times> 't, unit) py" where
  "proxy_reset ge = (\<lambda>(vp, t).
     case rw_reset_code_generation_state (proxy_reverse (ge_settings ge) (vp_method vp)) (vp_wrapper vp) of
       (r, w) \<Rightarrow> (r, (vp\<lparr>vp_wrapper := w\<rparr>, t)))"

definition proxy_test_generate :: "generation_env \<Rightarrow> (proxy \<times> 't, unit) py" where
  "proxy_test_generate ge = (\<lambda>(vp, t).
     case proxy_generate (ge_settings ge) (ge_classes ge) (ge_trivial ge (vp_method vp)) null_class (vp, NullCodeSink_init) of
       (r, (vp', _)) \<Rightarrow> (r, (vp', t)))"

text \<open>The constructors of the parent class, one for each signature.\<close>

fun distinct_signatures :: "string list list \<Rightarrow> param_handler list list \<Rightarrow> param_handler list list" where
  "distinct_signatures seen [] = []"
| "distinct_signatures seen (ps # cs) =
     (let signature = map (\<lambda>p. po_ctype (ph_object p)) ps
      in if signature \<in> set seen then distinct_signatures seen cs
         else ps # distinct_signatures (seen @ [signature]) cs)"

definition write_constructor :: "'t sink_class \<Rightarrow> string \<Rightarrow> param_handler list \<Rightarrow> (helper \<times> 't, unit) py" where
  "write_constructor sk full_name ps =
     bnd (gets (\<lambda>(h, t). h_name h)) (\<lambda>name.
     bnd (lift_res (declared_parameters ps)) (\<lambda>params. seqs [
       helper_writeln sk (name @ ''('' @ params @ '')''),
       on_sink (run_cmd sk Indent),
       helper_writeln sk ('': '' @ full_name @ ''('' @ parameter_names ps @ ''), m_pyself(NULL)'' @ nl @ ''{}''),
       on_sink (run_cmd sk Unindent),
       helper_writeln sk []]))"

definition set_pyobj_text :: string where
  "set_pyobj_text = join nl [
     [],
     ''void set_pyobj(PyObject *pyobj)'',
     ''{'',
     ''    Py_XDECREF(m_pyself);'',
     ''    Py_INCREF(pyobj);'',
     ''    m_pyself = pyobj;'',
     ''}'',
     []]"

text \<open>
  One overload of parent callers: it is generated to a null sink first; when that is skipped, it is left out.
\<close>

definition declare_parent_caller :: "generation_env \<Rightarrow> 't sink_class \<Rightarrow> string \<Rightarrow> (helper \<times> 't, unit) py" where
  "declare_parent_caller ge sk name =
     (let ops0 = caller_ops ge null_class; h = eh_method (ge_handlers ge);
          reset = on_parent_caller name (on_overload (ov_reset_code_generation_state ops0))
      in bnd reset (\<lambda>_.
         bnd (try_finally
           (try_except
             (bnd (on_parent_caller name
               (call_with_error_handling (eh_overload (ge_handlers ge)) (on_overload (generate_to_null CppOverloadedMethod h ops0)) fst generation_error))
               (\<lambda>_. ret True))
             (\<lambda>e. if e = SkipWrapper then ret False else raise_py e)) reset) (\<lambda>ok.
         when_py ok (seqs [
           helper_writeln sk [],
           on_parent_caller name (ov_generate_class_declaration CppOverloadedMethod h sk ops0),
           bnd (on_parent_caller name (on_overload (gets overload_objs)))
             (for_each (\<lambda>m. on_sink (generate_parent_caller_method (ge_classes ge) m sk)))]))))"

text \<open>
  The virtual methods.  The result is \<open>False\<close> when a pure virtual method cannot be generated; nothing after it
  is written.
\<close>

fun declare_proxies :: "generation_env \<Rightarrow> 't sink_class \<Rightarrow> nat list \<Rightarrow> (helper \<times> 't, bool) py" where
  "declare_proxies ge sk [] = ret True"
| "declare_proxies ge sk (i # is) =
     bnd (gets (\<lambda>(h, t). helper_ref_of h)) (\<lambda>hr.
     bnd (on_proxy i (upd (\<lambda>(vp, t). (proxy_set_helper_class hr vp, t)))) (\<lambda>_.
     bnd (on_proxy i (proxy_reset ge)) (\<lambda>_.
     bnd (gets (\<lambda>(h, t). m_is_pure_virtual (vp_method (h_proxies h ! i)))) (\<lambda>pure.
     bnd (try_finally
       (try_except
         (bnd (on_proxy i (call_with_error_handling (eh_proxy (ge_handlers ge)) (proxy_test_generate ge) fst generation_error)) (\<lambda>_. ret True))
         (\<lambda>e. if e = SkipWrapper then ret False else raise_py e))
       (on_proxy i (proxy_reset ge))) (\<lambda>ok.
     if \<not> ok then (if pure then ret False else declare_proxies ge sk is)
     else bnd (helper_writeln sk []) (\<lambda>_.
       bnd (bnd (gets (\<lambda>(h, t). h_proxies h ! i)) (\<lambda>vp. on_sink (proxy_generate_declaration vp sk))) (\<lambda>_.
       declare_proxies ge sk is)))))))"

definition declare_members :: "generation_env \<Rightarrow> 't sink_class \<Rightarrow> (helper \<times> 't, bool) py" where
  "declare_members ge sk =
     bnd (gets fst) (\<lambda>h.
     bnd (for_each (declare_parent_caller ge sk) (map fst (h_parent_callers h))) (\<lambda>_.
     bnd (declare_proxies ge sk [0..<length (h_proxies h)]) (\<lambda>ok.
     if \<not> ok then ret False
     else bnd (for_each (\<lambda>(declaration, _). helper_writeln sk declaration) (h_custom_methods h)) (\<lambda>_. ret True))))"

text \<open>
  The declaration of the class; \<open>imported\<close>: the class comes from another module; \<open>constructors\<close>: the parameters of its
  constructors.
\<close>

definition declare_helper ::
  "generation_env \<Rightarrow> bool \<Rightarrow> param_handler list list \<Rightarrow> 't sink_class \<Rightarrow> (helper \<times> 't, bool) py" where
  "declare_helper ge imported constructors sk =
     bnd (gets fst) (\<lambda>h. let full_name = ci_full_name (ge_classes ge (h_class h)) in
     bnd (seqs [
       helper_writeln sk (''class '' @ h_name h @ '' : public '' @ full_name @ nl @ ''{'' @ nl @ ''public:''),
       on_sink (run_cmd sk Indent),
       helper_writeln sk ''PyObject *m_pyself;'',
       when_py (\<not> imported) (for_each (write_constructor sk full_name) (distinct_signatures [] constructors)),
       helper_writeln sk set_pyobj_text,
       helper_writeln sk (''virtual ~'' @ h_name h @ ''()'' @ nl @ ''{''),
       on_sink (run_cmd sk Indent),
       helper_writeln sk ''Py_CLEAR(m_pyself);'',
       on_sink (run_cmd sk Unindent),
       helper_writeln sk (''}'' @ nl)]) (\<lambda>_.
     bnd (if imported then ret True else declare_members ge sk) (\<lambda>ok.
     if \<not> ok then ret False
     else bnd (seqs [
       on_sink (run_cmd sk Unindent),
       helper_writeln sk (''};'' @ nl),
       when_py (\<not> imported) (for_each (\<lambda>code. seqs [helper_writeln sk code, helper_writeln sk []]) (h_post_generation_code h))]) (\<lambda>_.
       ret True))))"

text \<open>The declaration goes to a memory sink, which is dropped when a pure virtual method is missing.\<close>

definition helper_forward_declarations ::
  "generation_env \<Rightarrow> bool \<Rightarrow> param_handler list list \<Rightarrow> 't sink_class \<Rightarrow> (helper \<times> 't, unit) py" where
  "helper_forward_declarations ge imported constructors sk = (\<lambda>(h, t).
     case declare_helper ge imported constructors memory_class (h, MemoryCodeSink_init) of
       (Inl e, (h', _)) \<Rightarrow> (Inl e, (h', t))
     | (Inr True, (h', mem)) \<Rightarrow> (Inr (), (h', snd (mem_flush_to (s_writeln sk) mem t)))
     | (Inr False, (h', _)) \<Rightarrow> (Inr (), (h'\<lparr>h_cannot_be_constructed := True\<rparr>, t)))"

text \<open>The bodies; the result is the entries of the parent callers for the method table.\<close>

fun generate_parent_callers :: "generation_env \<Rightarrow> 't sink_class \<Rightarrow> string list \<Rightarrow> (helper \<times> 't, string list) py" where
  "generate_parent_callers ge sk [] = ret []"
| "generate_parent_callers ge sk (name # names) =
     bnd (helper_writeln sk []) (\<lambda>_.
     bnd (try_except
       (bnd (on_parent_caller name (call_with_error_handling (eh_overload (ge_handlers ge))
          (ov_generate CppOverloadedMethod (eh_method (ge_handlers ge)) sk (caller_ops ge sk)) fst generation_error)) (\<lambda>_. ret True))
       (\<lambda>e. if e = SkipWrapper then ret False else raise_py e)) (\<lambda>ok.
     bnd (if \<not> ok then ret []
          else bnd (on_parent_caller name (on_overload (ov_get_py_method_def (caller_ops ge sk) (eh_method (ge_handlers ge))
              (if get_deprecated_virtuals (ge_settings ge) then ''_'' @ name else name)))) (\<lambda>d. ret [d])) (\<lambda>d.
     bnd (generate_parent_callers ge sk names) (\<lambda>ds. ret (d @ ds)))))"

definition generate_proxy :: "generation_env \<Rightarrow> 't sink_class \<Rightarrow> nat \<Rightarrow> (helper \<times> 't, unit) py" where
  "generate_proxy ge sk i =
     bnd (gets (\<lambda>(h, t). helper_ref_of h)) (\<lambda>hr. seqs [
       on_proxy i (upd (\<lambda>(vp, t). (proxy_set_helper_class hr vp, t))),
       helper_writeln sk [],
       bnd (gets (\<lambda>(h, t). vp_method (h_proxies h ! i))) (\<lambda>m.
         try_except
           (on_proxy i (call_with_error_handling (eh_proxy (ge_handlers ge))
             (proxy_generate (ge_settings ge) (ge_classes ge) (ge_trivial ge m) sk) fst generation_error))
           (\<lambda>e. if e = SkipWrapper then assert_py (\<not> m_is_pure_virtual m) else raise_py e))])"

definition helper_generate :: "generation_env \<Rightarrow> bool \<Rightarrow> 't sink_class \<Rightarrow> (helper \<times> 't, string list option) py" where
  "helper_generate ge imported sk =
     (if imported then ret None
      else bnd (gets fst) (\<lambda>h.
        bnd (generate_parent_callers ge sk (map fst (h_parent_callers h))) (\<lambda>method_defs.
        bnd (for_each (generate_proxy ge sk) [0..<length (h_proxies h)]) (\<lambda>_.
        bnd (for_each (\<lambda>(_, body). case body of None \<Rightarrow> ret () | Some b \<Rightarrow> when_py (b \<noteq> []) (helper_writeln sk b)) (h_custom_methods h)) (\<lambda>_.
        ret (Some method_defs))))))"

section \<open>What a helper class covers\<close>

lemma same_signature_iff:
  "same_signature m n \<longleftrightarrow> m_mangled_name m = m_mangled_name n \<and>
     map (\<lambda>p. po_ctype (ph_object p)) (m_parameters m) = map (\<lambda>p. po_ctype (ph_object p)) (m_parameters n) \<and> m_is_const m = m_is_const n"
  by (simp add: same_signature_def matches_signature_def method_obj_of_def)

lemma same_signature_sym: "same_signature m n \<longleftrightarrow> same_signature n m"
  by (auto simp: same_signature_iff)

lemma fresh_number: "j \<in> set ws \<Longrightarrow> j < fold max (map Suc ws) (k :: nat)"
proof (induction ws arbitrary: k)
  case (Cons w ws)
  have mono: "k \<le> fold max xs k" for xs :: "nat list" and k
  proof (induction xs arbitrary: k)
    case (Cons a xs)
    from Cons [of "max a k"] show ?case by simp
  qed simp
  show ?case
  proof (cases "j = w")
    case True
    then show ?thesis using mono [of "max (Suc w) k" "map Suc ws"] by simp
  next
    case False
    then show ?thesis using Cons by simp
  qed
qed simp

lemma overload_put_objs [simp]: "overload_objs (overload_put w ov) = overload_objs ov @ [w]"
  using fresh_number [of _ "ov_wrappers ov" 0] by (auto simp: overload_objs_def overload_put_def Let_def)

definition callers :: "helper \<Rightarrow> string \<Rightarrow> meth list" where
  "callers h name = (case map_of (h_parent_callers h) name of None \<Rightarrow> [] | Some ov \<Rightarrow> overload_objs ov)"

lemma callers_add:
  "callers (add_virtual_parent_caller pc h) name =
     (if name \<noteq> m_method_name pc \<or> list_ex (same_signature pc) (callers h name) then callers h name else callers h name @ [pc])"
  by (auto simp: callers_def add_virtual_parent_caller_def Let_def update_conv' OverloadedWrapper_init_def overload_objs_def
      overload_put_objs [unfolded overload_objs_def] split: option.splits)

text \<open>A parent caller for a method: in the overload of its name, with its parameters, bound to the helper class.\<close>

definition calls_parent :: "helper \<Rightarrow> meth \<Rightarrow> meth \<Rightarrow> bool" where
  "calls_parent h pc m \<longleftrightarrow> pc \<in> set (callers h (m_method_name m)) \<and> m_method_name pc = m_method_name m \<and>
     map (\<lambda>p. po_ctype (ph_object p)) (m_parameters pc) = map (\<lambda>p. po_ctype (ph_object p)) (m_parameters m) \<and>
     m_helper_class pc = Some (helper_ref_of h)"

definition caller_ok :: "helper \<Rightarrow> string \<Rightarrow> meth \<Rightarrow> bool" where
  "caller_ok h name pc \<longleftrightarrow> m_method_name pc = name \<and> m_mangled_name pc = get_mangled_name name [] \<and> \<not> m_is_const pc \<and>
     m_helper_class pc = Some (helper_ref_of h)"

definition helper_inv :: "settings \<Rightarrow> helper \<Rightarrow> bool" where
  "helper_inv st h \<longleftrightarrow> map vp_method (h_proxies h) = h_virtual_methods h \<and>
     sorted_wrt (\<lambda>m n. \<not> same_signature m n) (h_virtual_methods h) \<and>
     (\<forall>name. sorted_wrt (\<lambda>m n. \<not> same_signature m n) (callers h name) \<and> list_all (caller_ok h name) (callers h name)) \<and>
     (\<forall>m \<in> set (h_virtual_methods h). m_is_virtual m \<and> m_kind m \<noteq> Dummy_Method \<and> m_class m \<noteq> None \<and>
        (needs_parent_caller st m \<longrightarrow> (\<exists>pc. calls_parent h pc m)))"

lemma new_caller_ok:
  assumes "ParentCaller_init st method u = Inr pc"
  shows "caller_ok h (m_method_name method) (set_helper_class (helper_ref_of h) pc)"
    "map (\<lambda>p. po_ctype (ph_object p)) (m_parameters pc) = map (\<lambda>p. po_ctype (ph_object p)) (m_parameters method)"
    "m_method_name pc = m_method_name method"
  using assms
  by (auto simp: ParentCaller_init_def new_method_def bind_res_def Let_def caller_ok_def set_helper_class_def default_method_args_def
      custom_or_def mangled_method_name_def split: sum.splits prod.splits)

lemma add_caller_frame [simp]:
  "h_proxies (add_virtual_parent_caller pc h) = h_proxies h" "h_virtual_methods (add_virtual_parent_caller pc h) = h_virtual_methods h"
  "helper_ref_of (add_virtual_parent_caller pc h) = helper_ref_of h"
  by (simp_all add: add_virtual_parent_caller_def Let_def helper_ref_of_def)

lemma calls_parent_mono:
  assumes "calls_parent h pc m" "set (callers h (m_method_name m)) \<subseteq> set (callers h' (m_method_name m))" "helper_ref_of h' = helper_ref_of h"
  shows "calls_parent h' pc m"
  using assms by (auto simp: calls_parent_def)

lemma add_caller_inv:
  assumes inv: "helper_inv st h" and ok: "caller_ok h (m_method_name pc) pc"
  shows "helper_inv st (add_virtual_parent_caller pc h)"
proof -
  let ?h = "add_virtual_parent_caller pc h"
  have more: "calls_parent ?h q m" if "calls_parent h q m" for q m
    using that by (rule calls_parent_mono) (auto simp: callers_add)
  have "sorted_wrt (\<lambda>m n. \<not> same_signature m n) (callers ?h name) \<and> list_all (caller_ok ?h name) (callers ?h name)" for name
    using inv ok by (auto simp: helper_inv_def callers_add sorted_wrt_append list_ex_iff list_all_iff caller_ok_def dest: same_signature_sym [THEN iffD1])
  with inv more show ?thesis unfolding helper_inv_def add_caller_frame by blast
qed

lemma added_caller_calls:
  assumes inv: "helper_inv st h" and pc: "ParentCaller_init st m u = Inr pc"
  shows "\<exists>q. calls_parent (add_virtual_parent_caller (set_helper_class (helper_ref_of h) pc) h) q m"
proof -
  let ?pc = "set_helper_class (helper_ref_of h) pc"
  note ok = new_caller_ok(1) [OF pc, of h] and new = new_caller_ok(2,3) [OF pc]
  have params: "m_parameters ?pc = m_parameters pc" by (simp add: set_helper_class_def)
  show ?thesis
  proof (cases "list_ex (same_signature ?pc) (callers h (m_method_name m))")
    case True
    then obtain q where q: "q \<in> set (callers h (m_method_name m))" "same_signature ?pc q" by (auto simp: list_ex_iff)
    with inv have "caller_ok h (m_method_name m) q" by (auto simp: helper_inv_def list_all_iff)
    with q ok True show ?thesis
      by (intro exI [of _ q]) (auto simp: calls_parent_def callers_add same_signature_iff params new caller_ok_def)
  next
    case False
    with ok show ?thesis
      by (intro exI [of _ ?pc]) (auto simp: calls_parent_def callers_add params new caller_ok_def)
  qed
qed

lemma new_parent_caller_Inr:
  assumes "new_parent_caller st m h = (Inr (), h')"
  obtains pc where "ParentCaller_init st m None = Inr pc" "h' = add_virtual_parent_caller (set_helper_class (helper_ref_of h) pc) h"
  using assms by (cases "ParentCaller_init st m None") (auto simp: new_parent_caller_def)

lemma new_parent_caller_inv:
  assumes "helper_inv st h" "new_parent_caller st m h = (Inr (), h')"
  shows "helper_inv st h'"
  using assms(2)
proof (rule new_parent_caller_Inr)
  fix pc assume pc: "ParentCaller_init st m None = Inr pc" and h': "h' = add_virtual_parent_caller (set_helper_class (helper_ref_of h) pc) h"
  have "m_method_name (set_helper_class (helper_ref_of h) pc) = m_method_name m"
    using new_caller_ok(1) [OF pc, of h] by (simp add: caller_ok_def)
  with h' add_caller_inv [OF assms(1)] new_caller_ok(1) [OF pc, of h] show ?thesis by simp
qed

lemma helper_inv_update [simp]:
  "helper_inv st (h\<lparr>h_cannot_be_constructed := b\<rparr>) = helper_inv st h" "helper_inv st (add_custom_method d body h) = helper_inv st h"
  "helper_inv st (add_post_generation_code code h) = helper_inv st h"
  by (simp_all add: helper_inv_def callers_def calls_parent_def caller_ok_def helper_ref_of_def add_custom_method_def
      add_post_generation_code_def cong: list.pred_cong)

text \<open>A method and its proxy, once its parent caller is there.\<close>

lemma add_method_inv:
  assumes "helper_inv st h" "\<not> list_ex (same_signature m) (h_virtual_methods h)"
    and "m_is_virtual m" "m_kind m \<noteq> Dummy_Method" "m_class m \<noteq> None" "needs_parent_caller st m \<longrightarrow> (\<exists>pc. calls_parent h pc m)"
    and "vp_method vp = m"
  shows "helper_inv st (h\<lparr>h_virtual_methods := h_virtual_methods h @ [m], h_proxies := h_proxies h @ [vp]\<rparr>)" (is "helper_inv st ?h")
proof -
  have frame: "callers ?h = callers h" "helper_ref_of ?h = helper_ref_of h" "calls_parent ?h = calls_parent h" "caller_ok ?h = caller_ok h"
    by (auto simp: callers_def helper_ref_of_def calls_parent_def caller_ok_def fun_eq_iff)
  show ?thesis
    unfolding helper_inv_def frame
    using assms by (auto simp: helper_inv_def sorted_wrt_append list_ex_iff dest: same_signature_sym [THEN iffD1])
qed

lemma proxy_of_method: "CppVirtualMethodProxy_init st m = Inr vp \<Longrightarrow> vp_method vp = m"
  by (auto simp: CppVirtualMethodProxy_init_def bind_res_def split: sum.splits)

lemma add_virtual_method_inv:
  assumes inv: "helper_inv st h" and run: "add_virtual_method st m h = (Inr (), h')"
  shows "helper_inv st h'"
proof -
  consider (known) "h' = h" | (dummy) b where "h' = h\<lparr>h_cannot_be_constructed := b\<rparr>"
    | (added) "\<not> list_ex (same_signature m) (h_virtual_methods h)" "m_kind m \<noteq> Dummy_Method"
        "append_virtual_method st m h = (Inr (), h')"
    using run by (auto simp: add_virtual_method_def assert_py_def when_py_def split: if_splits elim!: bnd_eq_InrE)
  then show ?thesis
  proof cases
    case added
    have m: "m_is_virtual m" "m_class m \<noteq> None" using run by (auto simp: add_virtual_method_def assert_py_def split: if_splits)
    obtain vp h1 where vp: "CppVirtualMethodProxy_init st m = Inr vp" and h': "h' = add_virtual_proxy vp h1"
        and h1: "when_py (needs_parent_caller st m) (new_parent_caller st m) (h\<lparr>h_virtual_methods := h_virtual_methods h @ [m]\<rparr>) = (Inr (), h1)"
      using added(3) by (cases "CppVirtualMethodProxy_init st m") (auto simp: append_virtual_method_def elim!: bnd_eq_InrE)
    let ?h0 = "h\<lparr>h_virtual_methods := h_virtual_methods h @ [m]\<rparr>"
    show ?thesis
    proof (cases "needs_parent_caller st m")
      case False
      with h1 h' have "h' = h\<lparr>h_virtual_methods := h_virtual_methods h @ [m], h_proxies := h_proxies h @ [vp]\<rparr>"
        by (auto simp: add_virtual_proxy_def)
      with False add_method_inv [OF inv added(1) m(1) added(2) m(2) _ proxy_of_method [OF vp]] show ?thesis by simp
    next
      case True
      then obtain pc where pc: "ParentCaller_init st m None = Inr pc" "h1 = add_virtual_parent_caller (set_helper_class (helper_ref_of ?h0) pc) ?h0"
        using h1 by (auto elim: new_parent_caller_Inr)
      have comm: "add_virtual_parent_caller q (h\<lparr>h_virtual_methods := ms\<rparr>) = (add_virtual_parent_caller q h)\<lparr>h_virtual_methods := ms\<rparr>" for q ms
        by (cases h) (simp add: add_virtual_parent_caller_def Let_def split: option.split)
      let ?h2 = "add_virtual_parent_caller (set_helper_class (helper_ref_of h) pc) h"
      have "new_parent_caller st m h = (Inr (), ?h2)" using pc(1) by (simp add: new_parent_caller_def)
      from new_parent_caller_inv [OF inv this] have inv2: "helper_inv st ?h2" .
      have "h' = ?h2\<lparr>h_virtual_methods := h_virtual_methods ?h2 @ [m], h_proxies := h_proxies ?h2 @ [vp]\<rparr>"
        using h' pc(2) by (simp add: add_virtual_proxy_def comm helper_ref_of_def)
      with add_method_inv [OF inv2 _ m(1) added(2) m(2) _ proxy_of_method [OF vp]] added(1) added_caller_calls [OF inv pc(1)]
      show ?thesis by simp
    qed
  qed (use inv in simp_all)
qed

text \<open>The helper classes that the code can build: the operations that end without an error.\<close>

inductive helper_built :: "settings \<Rightarrow> helper \<Rightarrow> bool" for st :: settings where
  created: "CppHelperClass_init c p = Inr h \<Longrightarrow> helper_built st h"
| virtual: "helper_built st h \<Longrightarrow> add_virtual_method st m h = (Inr (), h') \<Longrightarrow> helper_built st h'"
| caller: "helper_built st h \<Longrightarrow> new_parent_caller st m h = (Inr (), h') \<Longrightarrow> helper_built st h'"
| custom: "helper_built st h \<Longrightarrow> helper_built st (add_custom_method declaration body h)"
| code: "helper_built st h \<Longrightarrow> helper_built st (add_post_generation_code text h)"

lemma helper_built_inv: "helper_built st h \<Longrightarrow> helper_inv st h"
proof (induction rule: helper_built.induct)
  case (created c p h)
  then show ?case by (auto simp: CppHelperClass_init_def bind_res_def helper_inv_def callers_def split: sum.splits)
qed (auto intro: add_virtual_method_inv new_parent_caller_inv)

section \<open>Properties\<close>

text \<open>
  C6. What a helper class covers.  In every helper class that the code can build, no two virtual methods
  have the same signature, and there is exactly one proxy for each of them, in the same order.  Every method
  among them is virtual, belongs to a class and can be generated; if a Python subclass reaches it only
  through the helper class, because it is protected and not pure virtual, the helper class has a wrapper for
  the parent's implementation with the name and the parameter types of the method, bound to the helper class.
  The wrappers of one name have pairwise different signatures.
\<close>

theorem helper_class_covers:
  assumes "helper_built st h"
  shows "sorted_wrt (\<lambda>m n. \<not> same_signature m n) (h_virtual_methods h) \<and>
    map vp_method (h_proxies h) = h_virtual_methods h \<and>
    (\<forall>m \<in> set (h_virtual_methods h). m_is_virtual m \<and> m_kind m \<noteq> Dummy_Method \<and> m_class m \<noteq> None \<and>
       (needs_parent_caller st m \<longrightarrow> (\<exists>pc. calls_parent h pc m))) \<and>
    (\<forall>name. sorted_wrt (\<lambda>m n. \<not> same_signature m n) (callers h name))"
  using helper_built_inv [OF assms] by (simp add: helper_inv_def)

definition sample_helper :: helper where
  "sample_helper = \<lparr>h_class = 0, h_name = ''PyC__PythonHelper'', h_pystruct = ''PyC'', h_parent_callers = [], h_proxies = [],
     h_cannot_be_constructed = False, h_custom_methods = [], h_post_generation_code = [], h_virtual_methods = []\<rparr>"

definition sample_virtual :: meth where
  "sample_virtual = sample_method\<lparr>m_is_static := False, m_is_virtual := True, m_visibility := ''protected''\<rparr>"

lemma sample_helper_run:
  "case add_virtual_method default_settings sample_virtual sample_helper of
     (r, h) \<Rightarrow> r = Inr () \<and> map m_method_name (h_virtual_methods h) = [''f''] \<and> map m_method_name (callers h ''f'') = [''f'']"
  by code_simp

theorem helper_class_covers_witness:
  "\<exists>h m pc. helper_built default_settings h \<and> h_virtual_methods h = [m] \<and> m_method_name m = ''f'' \<and>
     needs_parent_caller default_settings m \<and> calls_parent h pc m \<and> length (h_proxies h) = 1"
proof -
  obtain h where run: "add_virtual_method default_settings sample_virtual sample_helper = (Inr (), h)"
    using sample_helper_run by (auto split: prod.splits)
  have "helper_built default_settings sample_helper"
    by (rule helper_built.created [of 0 "Inr ''PyC''"]) (simp add: CppHelperClass_init_def bind_res_def sample_helper_def)
  then have built: "helper_built default_settings h" using run by (rule helper_built.virtual)
  obtain m where m: "h_virtual_methods h = [m]" and fields: "m_method_name m = ''f''"
    using sample_helper_run run by (auto split: prod.splits simp: map_eq_Cons_conv)
  have "m = sample_virtual"
    using run m by (auto simp: add_virtual_method_def append_virtual_method_def sample_helper_def assert_py_def when_py_def
        add_virtual_proxy_def elim!: bnd_eq_InrE new_parent_caller_Inr split: if_splits)
  then have "needs_parent_caller default_settings m"
    by (simp add: needs_parent_caller_def sample_virtual_def sample_method_def)
  with helper_class_covers [OF built] m fields show ?thesis by (metis built length_map list.set_intros(1) length_0_conv length_Cons One_nat_def list.size(3))
qed

end
