(* ===== verification/Cpp_Attribute.thy ===== *)
theory Cpp_Attribute
  imports Converters Cpp_Class
begin

text \<open>
  Attributes of C++ classes (\<open>src/pybindgen/cppattribute.py\<close>): getters, setters, metaclasses and the tables
  of the attributes.
\<close>

section \<open>Getters and setters\<close>

text \<open>
  What an accessor uses of its class.  An accessor is a wrapper; the getter and the setter of an attribute share
  the handler of its type, and change its attributes \<open>value\<close> and \<open>REQUIRES_ASSIGNMENT_CONSTRUCTOR\<close>.  The method
  names are those of a getter or setter method.
\<close>

record accessor_class =
  ac_pystruct :: "string res"
  ac_full_name :: string

datatype accessor_kind = Instance_Getter | Static_Getter | Instance_Setter | Static_Setter

record accessor =
  as_kind :: accessor_kind
  as_class :: accessor_class
  as_attribute_name :: string
  as_method :: "string option"
  as_c_function_name :: string
  as_wrapper :: wrapper

definition getter_class :: "value_handler \<Rightarrow> forward_class" where
  "getter_class h = \<lparr>fc_return_value = Some (vh_current h), fc_parameters = [], fc_parse_error_return = ''return NULL;'',
     fc_error_return = ''return NULL;'', fc_force_parse = None, fc_no_c_retval = True, fc_unblock_threads = False,
     fc_deprecated = PyBool False, fc_have_return_value = False, fc_before_call_hook = ret (), fc_generate_call = ret (),
     fc_before_return_hook = ret ()\<rparr>"

definition setter_class :: "value_handler \<Rightarrow> reverse_class" where
  "setter_class h = \<lparr>rc_return_value = vh_current h, rc_parameters = [], rc_error_return = Some ''return -1;'',
     rc_no_gil_locking = True, rc_generate_python_call = raise_py AssertionError\<rparr>"

text \<open>The constructors give the accessor and the handler as they leave it.\<close>

definition new_accessor :: "accessor_kind \<Rightarrow> accessor_class \<Rightarrow> string \<Rightarrow> string option \<Rightarrow> string \<Rightarrow> wrapper \<Rightarrow> accessor res" where
  "new_accessor kind cls attribute_name method verb w =
     bind_res (ac_pystruct cls) (\<lambda>pystruct. Inr \<lparr>as_kind = kind, as_class = cls, as_attribute_name = attribute_name, as_method = method,
       as_c_function_name = ''_wrap_'' @ pystruct @ ''__'' @ verb @ ''_'' @ attribute_name, as_wrapper = w\<rparr>)"

definition CppInstanceAttributeGetter_init ::
  "value_handler \<Rightarrow> accessor_class \<Rightarrow> string \<Rightarrow> string option \<Rightarrow> (accessor \<times> value_handler) res" where
  "CppInstanceAttributeGetter_init value_type cls attribute_name getter =
     bind_res (ForwardWrapperBase_init (getter_class value_type)) (\<lambda>w.
     bind_res (new_accessor Instance_Getter cls attribute_name getter ''get'' w) (\<lambda>a.
     Inr (a, value_type\<lparr>vh_value := (case getter of
       None \<Rightarrow> ''self->obj->'' @ attribute_name | Some g \<Rightarrow> ''self->obj->'' @ g @ ''()'')\<rparr>)))"

definition CppStaticAttributeGetter_init ::
  "value_handler \<Rightarrow> accessor_class \<Rightarrow> string \<Rightarrow> (accessor \<times> value_handler) res" where
  "CppStaticAttributeGetter_init value_type cls attribute_name =
     bind_res (ForwardWrapperBase_init (getter_class value_type)) (\<lambda>w.
     bind_res (new_accessor Static_Getter cls attribute_name None ''get'' w) (\<lambda>a.
     Inr (a, value_type\<lparr>vh_value := ac_full_name cls @ ''::'' @ attribute_name\<rparr>)))"

definition CppInstanceAttributeSetter_init ::
  "value_handler \<Rightarrow> accessor_class \<Rightarrow> string \<Rightarrow> string option \<Rightarrow> (accessor \<times> value_handler) res" where
  "CppInstanceAttributeSetter_init value_type cls attribute_name setter =
     bind_res (ReverseWrapperBase_init (setter_class value_type)) (\<lambda>w.
     bind_res (new_accessor Instance_Setter cls attribute_name setter ''set'' w) (\<lambda>a. Inr (a, value_type)))"

definition CppStaticAttributeSetter_init ::
  "value_handler \<Rightarrow> accessor_class \<Rightarrow> string \<Rightarrow> (accessor \<times> value_handler) res" where
  "CppStaticAttributeSetter_init value_type cls attribute_name =
     bind_res (ReverseWrapperBase_init (setter_class value_type)) (\<lambda>w.
     bind_res (new_accessor Static_Setter cls attribute_name None ''set'' w) (\<lambda>a.
     Inr (a, value_type\<lparr>vh_value := ac_full_name cls @ ''::'' @ attribute_name, vh_requires_assignment_constructor := False\<rparr>)))"

section \<open>Generation\<close>

text \<open>The state is the accessor with the shared handler, and the code sink.\<close>

type_synonym ('t, 'a) acc_gen = "((accessor \<times> value_handler) \<times> 't, 'a) py"

definition on_accessor :: "(accessor \<times> value_handler, 'a) py \<Rightarrow> ('t, 'a) acc_gen" where
  "on_accessor m = (\<lambda>(s, t). case m s of (r, s') \<Rightarrow> (r, (s', t)))"

definition on_acc_wrapper :: "(wrapper, 'a) py \<Rightarrow> (accessor \<times> value_handler, 'a) py" where
  "on_acc_wrapper m = (\<lambda>(a, h). case m (as_wrapper a) of (r, w) \<Rightarrow> (r, (a\<lparr>as_wrapper := w\<rparr>, h)))"

definition acc_writeln :: "'t sink_class \<Rightarrow> string \<Rightarrow> ('t, unit) acc_gen" where
  "acc_writeln sk text = on_sink (run_cmd sk (Writeln text))"

text \<open>The body of a getter is generated to a memory sink first.\<close>

definition getter_body :: "(accessor \<times> value_handler, memory_sink) py" where
  "getter_body = (\<lambda>(a, h).
     case generate_body memory_class (getter_class h) (as_wrapper a, MemoryCodeSink_init) of
       (Inl e, (w, _)) \<Rightarrow> (Inl e, (a\<lparr>as_wrapper := w\<rparr>, h))
     | (Inr _, (w, tmp_sink)) \<Rightarrow> (Inr tmp_sink, (a\<lparr>as_wrapper := w\<rparr>, h)))"

definition generate_getter :: "'t sink_class \<Rightarrow> ('t, unit) acc_gen" where
  "generate_getter sk =
     bnd (on_accessor getter_body) (\<lambda>tmp_sink.
     bnd (on_accessor (gets fst)) (\<lambda>a.
     bnd (if as_kind a = Static_Getter then ret (''PyObject * PYBINDGEN_UNUSED(obj)'')
          else bnd (lift_res (ac_pystruct (as_class a))) (\<lambda>pystruct. ret (pystruct @ '' *self''))) (\<lambda>first_arg. seqs [
       acc_writeln sk (''static PyObject* '' @ as_c_function_name a @ ''('' @ first_arg @ '', void * PYBINDGEN_UNUSED(closure))''),
       acc_writeln sk ''{'',
       on_sink (run_cmd sk Indent),
       upd (\<lambda>(s, t). (s, snd (mem_flush_to (s_writeln sk) tmp_sink t))),
       on_sink (run_cmd sk Unindent),
       acc_writeln sk ''}''])))"

text \<open>Where the value of a setter goes; the name of the temporary variable if there is a setter method.\<close>

definition setter_target :: "(accessor \<times> value_handler, string option) py" where
  "setter_target = bnd (gets (\<lambda>s. s)) (\<lambda>(a, h).
     if as_kind a = Static_Setter then ret None
     else case as_method a of
       Some _ \<Rightarrow>
         bnd (on_acc_wrapper (if \<not> vh_requires_assignment_constructor h
              then bnd (lift_res (case vh_ctype h of None \<Rightarrow> Inl (TypeError ''NoneType'') | Some c \<Rightarrow> Inr c)) (\<lambda>ctype. declare_var ctype ''tmp_value'')
              else w_reserve ''tmp_value'')) (\<lambda>value_var.
         bnd (upd (\<lambda>(a, h). (a, h\<lparr>vh_value := value_var\<rparr>))) (\<lambda>_. ret (Some value_var)))
     | None \<Rightarrow>
         bnd (upd (\<lambda>(a, h). (a, h\<lparr>vh_value := ''self->obj->'' @ as_attribute_name a, vh_requires_assignment_constructor := False\<rparr>))) (\<lambda>_.
         ret None))"

definition fill_setter :: "(accessor \<times> value_handler, unit) py" where
  "fill_setter = seqs [
     on_acc_wrapper (seqs [
       bnd (declare_var ''PyObject*'' ''py_retval'') (\<lambda>_. ret ()),
       w_write Before_Call (''py_retval = Py_BuildValue((char *) '' @ dq @ ''(O)'' @ dq @ '', value);''),
       bnd (w_add_cleanup Before_Call ''Py_DECREF(py_retval);'') (\<lambda>_. ret ())]),
     bnd setter_target (\<lambda>value_var.
     bnd (gets (\<lambda>s. s)) (\<lambda>(a, h). on_acc_wrapper (seqs [
       ro_convert_python_to_c (vh_current h),
       bnd (gets w_parse_params) (\<lambda>items. bnd (lift_res (pt_get_parameters items)) (\<lambda>params.
         w_error_check Before_Call (''!PyArg_ParseTuple('' @ join '', '' (''py_retval'' # char_cast_first params) @ '')'') None)),
       (case value_var of None \<Rightarrow> ret ()
        | Some v \<Rightarrow> w_write After_Call (''self->obj->'' @ opt_str (as_method a) @ ''('' @ v @ '');'')),
       w_write_cleanup After_Call,
       w_write After_Call ''return 0;''])))]"

definition on_acc_sink :: "(wrapper \<times> 't, 'a) py \<Rightarrow> ('t, 'a) acc_gen" where
  "on_acc_sink m = (\<lambda>((a, h), t). case m (as_wrapper a, t) of (r, (w, t')) \<Rightarrow> (r, ((a\<lparr>as_wrapper := w\<rparr>, h), t')))"

definition generate_setter :: "'t sink_class \<Rightarrow> ('t, unit) acc_gen" where
  "generate_setter sk =
     bnd (on_accessor fill_setter) (\<lambda>_.
     bnd (on_accessor (gets fst)) (\<lambda>a.
     bnd (lift_res (ac_pystruct (as_class a))) (\<lambda>pystruct. seqs [
       acc_writeln sk (''static int '' @ as_c_function_name a @ ''('' @ pystruct @
         (if as_kind a = Static_Setter then '' * PYBINDGEN_UNUSED(dummy), '' else '' *self, '') @
         ''PyObject *value, void * PYBINDGEN_UNUSED(closure))''),
       acc_writeln sk ''{'',
       on_sink (run_cmd sk Indent),
       on_acc_sink (seqs [flush_declarations sk, emit sk [], flush_block sk Before_Call, flush_block sk After_Call]),
       on_sink (run_cmd sk Unindent),
       acc_writeln sk ''}''])))"

section \<open>Tables of attributes\<close>

record attribute =
  at_name :: string
  at_value_type :: value_handler
  at_getter :: "accessor option"
  at_setter :: "accessor option"

record getset_def =
  gsd_cname :: string
  gsd_attributes :: "attribute list"

definition PyGetSetDef_init :: "string \<Rightarrow> getset_def" where
  "PyGetSetDef_init cname = \<lparr>gsd_cname = cname, gsd_attributes = []\<rparr>"

definition getset_empty :: "getset_def \<Rightarrow> bool" where
  "getset_empty g \<longleftrightarrow> length (gsd_attributes g) = 0"

definition add_attribute :: "attribute \<Rightarrow> getset_def \<Rightarrow> getset_def" where
  "add_attribute a g = g\<lparr>gsd_attributes := gsd_attributes g @ [a]\<rparr>"

text \<open>
  One accessor of an attribute: its C name for the table, \<open>NULL\<close> if there is none or if its generation
  was skipped.
\<close>

definition accessor_entry ::
  "accessor error_handler option \<Rightarrow> ('t, unit) acc_gen \<Rightarrow> (attribute \<Rightarrow> accessor option) \<Rightarrow> (accessor \<Rightarrow> attribute \<Rightarrow> attribute) \<Rightarrow>
   (attribute \<times> 't, string) py" where
  "accessor_entry eh generate get put = (\<lambda>(at, t).
     case get at of
       None \<Rightarrow> (Inr ''NULL'', (at, t))
     | Some a \<Rightarrow>
         (case call_with_error_handling eh generate (\<lambda>((a, _), _). a) generation_error ((a, at_value_type at), t) of
            (r, ((a', h), t')) \<Rightarrow>
              (case r of Inl SkipWrapper \<Rightarrow> Inr ''NULL'' | Inl e \<Rightarrow> Inl e | Inr _ \<Rightarrow> Inr (as_c_function_name a'),
               (put a' (at\<lparr>at_value_type := h\<rparr>), t'))))"

definition attribute_entries :: "accessor error_handler option \<Rightarrow> 't sink_class \<Rightarrow> (attribute \<times> 't, string \<times> string) py" where
  "attribute_entries eh sk =
     bnd (accessor_entry eh (generate_getter sk) at_getter (\<lambda>a at. at\<lparr>at_getter := Some a\<rparr>)) (\<lambda>getter_name.
     bnd (accessor_entry eh (generate_setter sk) at_setter (\<lambda>a at. at\<lparr>at_setter := Some a\<rparr>)) (\<lambda>setter_name.
     ret (getter_name, setter_name)))"

definition on_attribute :: "nat \<Rightarrow> (attribute \<times> 't, 'a) py \<Rightarrow> (getset_def \<times> 't, 'a) py" where
  "on_attribute i m = (\<lambda>(g, t). case m (gsd_attributes g ! i, t) of
     (r, (at, t')) \<Rightarrow> (r, (g\<lparr>gsd_attributes := (gsd_attributes g)[i := at]\<rparr>, t')))"

fun getset_entries ::
  "accessor error_handler option \<Rightarrow> 't sink_class \<Rightarrow> nat list \<Rightarrow> (string \<times> string \<times> string) list \<Rightarrow>
   (getset_def \<times> 't, (string \<times> string \<times> string) list) py" where
  "getset_entries eh sk [] getsets = ret getsets"
| "getset_entries eh sk (i # is) getsets =
     bnd (on_attribute i (attribute_entries eh sk)) (\<lambda>(getter_name, setter_name).
     bnd (gets (\<lambda>(g, _). at_name (gsd_attributes g ! i))) (\<lambda>name.
     bnd (assert_py (name \<notin> fst ` set getsets)) (\<lambda>_.
     getset_entries eh sk is (getsets @ [(name, getter_name, setter_name)]))))"

definition getset_lines :: "string \<times> string \<times> string \<Rightarrow> sink_cmd list" where
  "getset_lines = (\<lambda>(name, getter_c_name, setter_c_name). [
     Writeln ''{'',
     Indent,
     Writeln (''(char*) '' @ dq @ name @ dq @ '', /* attribute name */''),
     Writeln (''(getter) '' @ getter_c_name @ '', /* C function to get the attribute */''),
     Writeln (''(setter) '' @ setter_c_name @ '', /* C function to set the attribute */''),
     Writeln ''NULL, /* optional doc string */'',
     Writeln ''NULL /* optional additional data for getter and setter */'',
     Unindent,
     Writeln ''},''])"

text \<open>
  The result is the C name of the table, or \<open>0\<close>.  The entries have the order in which the dictionary
  \<open>getsets\<close> is iterated, which is an argument.
\<close>

type_synonym getset_order = "(string \<times> string \<times> string) list \<Rightarrow> (string \<times> string \<times> string) list"

definition getset_generate :: "accessor error_handler option \<Rightarrow> getset_order \<Rightarrow> 't sink_class \<Rightarrow> (getset_def \<times> 't, string) py" where
  "getset_generate eh iteritems sk =
     bnd (gets fst) (\<lambda>g.
     if gsd_attributes g = [] then ret ''0''
     else bnd (getset_entries eh sk [0..<length (gsd_attributes g)] []) (\<lambda>getsets.
       bnd (for_each (\<lambda>cmd. on_sink (run_cmd sk cmd))
         ([Writeln (''static PyGetSetDef '' @ gsd_cname g @ ''[] = {''), Indent] @ concat (map getset_lines (iteritems getsets)) @
          [Writeln ''{ NULL, NULL, NULL, NULL, NULL }'', Unindent, Writeln ''};''])) (\<lambda>_.
       ret (gsd_cname g))))"

section \<open>Metaclasses\<close>

record py_metaclass =
  mt_name :: string
  mt_pytypestruct :: string
  mt_parent_metaclass_expr :: string
  mt_getsets :: "getset_def option"

definition PyMetaclass_init :: "settings \<Rightarrow> string \<Rightarrow> string \<Rightarrow> getset_def option \<Rightarrow> py_metaclass" where
  "PyMetaclass_init st name parent_metaclass_expr getsets =
     \<lparr>mt_name = name, mt_pytypestruct = ''Py'' @ capitalize (st_name_prefix st) @ name @ ''_Type'',
      mt_parent_metaclass_expr = parent_metaclass_expr, mt_getsets = getsets\<rparr>"

text \<open>\<open>self.getsets and self.getsets.cname or '0'\<close>.\<close>

definition metaclass_getset :: "py_metaclass \<Rightarrow> string" where
  "metaclass_getset mt = (case mt_getsets mt of None \<Rightarrow> ''0'' | Some g \<Rightarrow> if gsd_cname g = [] then ''0'' else gsd_cname g)"

definition metaclass_type :: "py_metaclass \<Rightarrow> string \<Rightarrow> string" where
  "metaclass_type mt getset = join nl [
     [],
     ''PyTypeObject '' @ mt_pytypestruct mt @ '' = {'',
     tab @ ''PyObject_HEAD_INIT(NULL)'',
     tab @ ''0,'' @ tab @ tab @ tab @ tab @ tab @ ''/* ob_size */'',
     tab @ ''(char *) '' @ dq @ mt_name mt @ dq @ '','' @ tab @ tab @ ''        /* tp_name */'',
     tab @ ''0,'' @ tab @ tab @ tab @ tab @ tab @ ''/* tp_basicsize */'',
     tab @ ''0,'' @ tab @ tab @ tab @ tab @ tab @ ''/* tp_itemsize */'',
     tab @ ''0,'' @ tab @ '' '' @ tab @ tab @ tab @ tab @ ''/* tp_dealloc */'',
     tab @ ''0,'' @ tab @ tab @ tab @ tab @ tab @ ''/* tp_print */'',
     tab @ ''0,'' @ tab @ tab @ tab @ tab @ tab @ ''/* tp_getattr */'',
     tab @ ''0,'' @ tab @ tab @ tab @ tab @ tab @ ''/* tp_setattr */'',
     tab @ ''0,'' @ tab @ tab @ tab @ tab @ tab @ ''/* tp_compare */'',
     tab @ ''0,'' @ tab @ tab @ tab @ tab @ tab @ ''/* tp_repr */'',
     tab @ ''0,'' @ tab @ tab @ tab @ tab @ tab @ ''/* tp_as_number */'',
     tab @ ''0,'' @ tab @ tab @ tab @ tab @ tab @ ''/* tp_as_sequence */'',
     tab @ ''0,'' @ tab @ tab @ ''       '' @ tab @ tab @ tab @ ''/* tp_as_mapping */'',
     tab @ ''0,'' @ tab @ tab @ tab @ tab @ tab @ ''/* tp_hash */'',
     tab @ ''0,'' @ tab @ tab @ tab @ tab @ tab @ ''/* tp_call */'',
     tab @ ''0,'' @ tab @ tab @ tab @ tab @ tab @ ''/* tp_str */'',
     tab @ ''0,'' @ tab @ tab @ tab @ tab @ tab @ ''/* tp_getattro */'',
     tab @ ''0,'' @ tab @ tab @ tab @ tab @ tab @ ''/* tp_setattro */'',
     tab @ ''0,'' @ tab @ tab @ tab @ tab @ tab @ ''/* tp_as_buffer */'',
     tab @ ''Py_TPFLAGS_DEFAULT|Py_TPFLAGS_HAVE_GC|Py_TPFLAGS_BASETYPE, /* tp_flags */'',
     '' '' @ tab @ ''0,'' @ tab @ tab @ tab @ tab @ tab @ ''/* tp_doc */'',
     tab @ ''0,'' @ tab @ tab @ tab @ tab @ tab @ ''/* tp_traverse */'',
     '' '' @ tab @ ''0,'' @ tab @ tab @ tab @ tab @ tab @ ''/* tp_clear */'',
     tab @ ''0,'' @ tab @ tab @ tab @ tab @ tab @ ''/* tp_richcompare */'',
     tab @ ''0,'' @ tab @ tab @ tab @ tab @ tab @ ''/* tp_weaklistoffset */'',
     tab @ ''0,'' @ tab @ tab @ tab @ tab @ tab @ ''/* tp_iter */'',
     tab @ ''0,'' @ tab @ tab @ tab @ tab @ tab @ ''/* tp_iternext */'',
     tab @ ''0,'' @ tab @ tab @ tab @ tab @ tab @ ''/* tp_methods */'',
     tab @ ''0,'' @ tab @ tab @ tab @ tab @ tab @ ''/* tp_members */'',
     tab @ getset @ '','' @ tab @ tab @ tab @ tab @ ''/* tp_getset */'',
     tab @ ''0,'' @ tab @ tab @ tab @ tab @ tab @ ''/* tp_base */'',
     tab @ ''0,'' @ tab @ tab @ tab @ tab @ tab @ ''/* tp_dict */'',
     tab @ ''0,'' @ tab @ ''                                /* tp_descr_get */'',
     tab @ ''0,  '' @ tab @ tab @ ''                        /* tp_descr_set */'',
     tab @ ''0,'' @ tab @ tab @ tab @ tab @ tab @ ''/* tp_dictoffset */'',
     tab @ ''0,'' @ tab @ tab @ tab @ tab @ tab @ ''/* tp_init */'',
     tab @ ''0,'' @ tab @ tab @ tab @ tab @ tab @ ''/* tp_alloc */'',
     tab @ ''0,'' @ tab @ tab @ tab @ tab @ tab @ ''/* tp_new */'',
     tab @ ''0,               '' @ tab @ tab @ tab @ ''/* tp_free */'',
     ''        0,                                      /* tp_is_gc */'',
     ''        0,                                      /* tp_bases */'',
     ''        0,                                      /* tp_mro */'',
     ''        0,                                      /* tp_cache */'',
     ''        0,                                      /* tp_subclasses */'',
     ''        0,                                      /* tp_weaklist */'',
     ''        0                                       /* tp_del */'',
     ''};'',
     []]"

definition metaclass_init_code :: "py_metaclass \<Rightarrow> string" where
  "metaclass_init_code mt = join nl [
     [],
     mt_pytypestruct mt @ ''.tp_base = '' @ mt_parent_metaclass_expr mt @ '';'',
     ''/* Some fields need to be manually inheritted from the parent metaclass */'',
     mt_pytypestruct mt @ ''.tp_traverse = '' @ mt_parent_metaclass_expr mt @ ''->tp_traverse;'',
     mt_pytypestruct mt @ ''.tp_clear = '' @ mt_parent_metaclass_expr mt @ ''->tp_clear;'',
     mt_pytypestruct mt @ ''.tp_is_gc = '' @ mt_parent_metaclass_expr mt @ ''->tp_is_gc;'',
     ''/* PyType tp_setattro is too restrictive */'',
     mt_pytypestruct mt @ ''.tp_setattro = PyObject_GenericSetAttr;'',
     ''PyType_Ready(&'' @ mt_pytypestruct mt @ '');'',
     []]"

text \<open>\<open>generate\<close>: the text for the code sink, and the code for the module's \<open>after_init\<close> block.\<close>

definition PyMetaclass_generate :: "py_metaclass \<Rightarrow> sink_cmd \<times> (code_block, unit) py" where
  "PyMetaclass_generate mt = (Writeln (metaclass_type mt (metaclass_getset mt)), cb_write_code (metaclass_init_code mt))"

section \<open>Every attribute has one entry\<close>

lemma accessor_entry_name:
  assumes "accessor_entry eh generate get put (at, t) = (r, (at', t'))" "\<And>a at. at_name (put a at) = at_name at"
  shows "at_name at' = at_name at"
  using assms by (auto simp: accessor_entry_def split: option.splits prod.splits)

lemma attribute_entries_name:
  "attribute_entries eh sk (at, t) = (r, (at', t')) \<Longrightarrow> at_name at' = at_name at"
  by (auto simp: attribute_entries_def bnd_def split: prod.splits sum.splits dest!: accessor_entry_name)

definition attribute_names :: "getset_def \<times> 't \<Rightarrow> string list" where
  "attribute_names = (\<lambda>(g, _). map at_name (gsd_attributes g))"

lemma on_attribute_names:
  assumes "on_attribute i (attribute_entries eh sk) s = (r, s')"
  shows "attribute_names s' = attribute_names s"
proof (cases s)
  case (Pair g t)
  with assms obtain at where "attribute_entries eh sk (gsd_attributes g ! i, t) = (r, (at, snd s'))"
      and g': "fst s' = g\<lparr>gsd_attributes := (gsd_attributes g)[i := at]\<rparr>"
    by (auto simp: on_attribute_def split: prod.splits)
  then have "at_name at = at_name (gsd_attributes g ! i)" by (auto dest: attribute_entries_name)
  then have "map at_name ((gsd_attributes g)[i := at]) = map at_name (gsd_attributes g)"
    by (cases "i < length (gsd_attributes g)") (auto simp: map_update list_update_beyond, metis length_map list_update_id nth_map)
  with g' Pair show ?thesis by (simp add: attribute_names_def case_prod_beta)
qed

lemma getset_entries_names:
  "getset_entries eh sk is getsets s = (Inr getsets', s') \<Longrightarrow> distinct (map fst getsets) \<Longrightarrow>
     list_all (\<lambda>i. i < length (attribute_names s)) is \<Longrightarrow>
     map fst getsets' = map fst getsets @ map (\<lambda>i. attribute_names s ! i) is \<and> distinct (map fst getsets')"
proof (induction "is" arbitrary: getsets s)
  case (Cons i "is")
  obtain r s1 where one: "on_attribute i (attribute_entries eh sk) s = (r, s1)"
    by (cases "on_attribute i (attribute_entries eh sk) s") blast
  with Cons.prems obtain gn sn where r: "r = Inr (gn, sn)" by (cases r) auto
  let ?name = "at_name (gsd_attributes (fst s1) ! i)"
  have rest: "?name \<notin> fst ` set getsets \<and> getset_entries eh sk is (getsets @ [(?name, gn, sn)]) s1 = (Inr getsets', s')"
    using Cons.prems(1) one r by (auto simp: assert_py_def bnd_def case_prod_beta split: if_splits)
  have names: "attribute_names s1 = attribute_names s" using on_attribute_names [OF one] .
  have "i < length (attribute_names s1)" using Cons.prems(3) names by simp
  then have n: "?name = attribute_names s ! i" using names by (metis attribute_names_def case_prod_beta length_map nth_map)
  have "distinct (map fst (getsets @ [(?name, gn, sn)]))" using Cons.prems(2) rest by simp
  moreover have "list_all (\<lambda>i. i < length (attribute_names s1)) is" using Cons.prems(3) names by simp
  ultimately have ih: "map fst getsets' = map fst (getsets @ [(?name, gn, sn)]) @ map (\<lambda>i. attribute_names s1 ! i) is \<and>
      distinct (map fst getsets')" using Cons.IH [OF conjunct2 [OF rest]] by blast
  from conjunct1 [OF this] have "map fst getsets' = map fst getsets @ map (\<lambda>i. attribute_names s ! i) (i # is)"
    using n names by simp
  with ih show ?case by blast
qed auto

text \<open>A table is generated only if the names of its attributes are pairwise different, with one entry for each.\<close>

lemma getset_generate_distinct:
  assumes "getset_generate eh iteritems sk (g, t) = (Inr c, s')"
  shows "distinct (map at_name (gsd_attributes g))"
proof (cases "gsd_attributes g = []")
  case False
  with assms obtain getsets s1 where "getset_entries eh sk [0..<length (gsd_attributes g)] [] (g, t) = (Inr getsets, s1)"
    by (auto simp: getset_generate_def bnd_def split: prod.splits sum.splits)
  from getset_entries_names [OF this]
  have "distinct (map (\<lambda>i. map at_name (gsd_attributes g) ! i) [0..<length (map at_name (gsd_attributes g))])"
    by (auto simp: attribute_names_def list_all_iff)
  then show ?thesis unfolding map_nth .
qed auto

end
