(* ===== verification/Class_Container.thy ===== *)
theory Class_Container
  imports Container
begin

text \<open>
  Iteration over wrapped classes that are containers (\<open>src/pybindgen/cppclass_container.py\<close>): the iterator type
  of such a class, and its code.
\<close>

section \<open>State\<close>

record class_container =
  xt_begin_method :: string
  xt_end_method :: string
  xt_iterator_type :: string
  xt_iter_pytype :: slots
  xt_key_type :: "value_handler option"
  xt_value_type :: value_handler

definition CppClassContainerTraits_init ::
  "('s \<Rightarrow> ('s \<times> 's) res) \<Rightarrow> ('s \<Rightarrow> value_handler res option) \<Rightarrow> 's \<Rightarrow> string \<Rightarrow> string \<Rightarrow> string \<Rightarrow> bool \<Rightarrow> class_container res option" where
  "CppClassContainerTraits_init unpack eval_value value_type begin_method end_method iterator_type is_mapping =
     bind_div (container_value_types unpack eval_value is_mapping value_type) (\<lambda>(key, value).
       Some (Inr \<lparr>xt_begin_method = begin_method, xt_end_method = end_method, xt_iterator_type = iterator_type, xt_iter_pytype = [],
         xt_key_type = key, xt_value_type = value\<rparr>))"

text \<open>The names of the iterator, for the name \<open>p\<close> of the structure of the class.\<close>

definition iter_pystruct :: "string \<Rightarrow> string" where
  "iter_pystruct p = p @ ''_Iter''"

definition iter_pytypestruct :: "string \<Rightarrow> string" where
  "iter_pytypestruct p = p @ ''_IterType''"

definition get_python_name :: "cpp_class \<Rightarrow> string" where
  "get_python_name c =
     (case cc_custom_name c of Some n \<Rightarrow> n | None \<Rightarrow> if cc_template_parameters c \<noteq> [] then cc_mangled_name c else cc_name c)"

definition get_iter_python_name :: "cpp_class \<Rightarrow> string" where
  "get_iter_python_name c = get_python_name c @ ''Iter''"

text \<open>\<open>outer_tp_name\<close> is the slot \<open>tp_name\<close> of the outer class, if it has one.\<close>

definition get_iter_python_full_name :: "string list \<Rightarrow> string option \<Rightarrow> cpp_class \<Rightarrow> string res" where
  "get_iter_python_full_name module_path outer_tp_name c =
     (case cc_outer_class c of
        None \<Rightarrow> Inr (join ''.'' (module_path @ [get_iter_python_name c]))
      | Some _ \<Rightarrow> (case outer_tp_name of
          None \<Rightarrow> Inl (KeyError ''tp_name'')
        | Some s \<Rightarrow> Inr (s @ ''.'' @ get_iter_python_name c)))"

section \<open>Generation\<close>

definition traits_forward_declarations :: "cpp_class \<Rightarrow> string \<Rightarrow> class_container \<Rightarrow> sink_cmd list" where
  "traits_forward_declarations c p xt = [
     Writeln (join nl [
         [],
         ''typedef struct {'',
         ''    PyObject_HEAD'',
         ''    '' @ p @ '' *container;'',
         ''    '' @ cc_full_name c @ ''::'' @ xt_iterator_type xt @ '' *iterator;'',
         ''} '' @ iter_pystruct p @ '';'',
         ''    '']),
     Writeln [],
     Writeln (''extern PyTypeObject '' @ iter_pytypestruct p @ '';''),
     Writeln []]"

text \<open>
  The registration in the module.  For a class within another class, the code asks the class itself for
  the name of the iterator, which classes do not have.
\<close>

definition traits_registration :: "code_block list \<Rightarrow> cpp_class \<Rightarrow> string \<Rightarrow> (code_block, unit) py" where
  "traits_registration preds c p = seqs [
     cb_write_code (''/* Register the '' @ sq @ cc_full_name c @ sq @ '' class iterator*/''),
     write_error_check preds (''PyType_Ready(&'' @ iter_pytypestruct p @ '')'') None,
     (case cc_outer_class c of
        None \<Rightarrow> cb_write_code (''PyModule_AddObject(m, (char *) '' @ dq @ get_iter_python_name c @ dq @ '', (PyObject *) &'' @ iter_pytypestruct p @ '');'')
      | Some _ \<Rightarrow> raise_py (AttributeError ''get_iter_python_name''))]"

text \<open>The state of the generation: the traits, the slots of the type of the class, and the code sink.\<close>

type_synonym ('t, 'a) xt_gen = "((class_container \<times> slots) \<times> 't, 'a) py"

definition xt_emit :: "'t sink_class \<Rightarrow> string \<Rightarrow> ('t, unit) xt_gen" where
  "xt_emit sk text = on_sink (run_cmd sk (Writeln text))"

definition xt_iter_slot :: "string \<Rightarrow> string \<Rightarrow> ('t, unit) xt_gen" where
  "xt_iter_slot k v = upd (\<lambda>((xt, slots), t). ((xt\<lparr>xt_iter_pytype := setdefault (k, v) (xt_iter_pytype xt)\<rparr>, slots), t))"

definition xt_class_slot :: "string \<Rightarrow> string \<Rightarrow> ('t, unit) xt_gen" where
  "xt_class_slot k v = upd (\<lambda>((xt, slots), t). ((xt, setdefault (k, v) slots), t))"

definition traits_generate_gc_methods :: "'t sink_class \<Rightarrow> string \<Rightarrow> ('t, unit) xt_gen" where
  "traits_generate_gc_methods sk p = seqs [
     xt_iter_slot ''tp_clear'' (iter_pystruct p @ ''__tp_clear''),
     xt_emit sk (join nl [
         [],
         ''static void'',
         iter_pystruct p @ ''__tp_clear'' @ ''('' @ iter_pystruct p @ '' *self)'',
         ''{'',
         ''    Py_CLEAR(self->container);'',
         ''    '' @ iter_delete_code,
         ''}'',
         []]),
     xt_iter_slot ''tp_traverse'' (iter_pystruct p @ ''__tp_traverse''),
     xt_emit sk (join nl [
         [],
         ''static int'',
         iter_pystruct p @ ''__tp_traverse'' @ ''('' @ iter_pystruct p @ '' *self, visitproc visit, void *arg)'',
         ''{'',
         ''    Py_VISIT((PyObject *) self->container);'',
         ''    return 0;'',
         ''}'',
         []])]"

definition traits_generate_destructor :: "'t sink_class \<Rightarrow> string \<Rightarrow> ('t, unit) xt_gen" where
  "traits_generate_destructor sk p = seqs [
     xt_emit sk (join nl [
         [],
         ''static void'',
         ''_wrap_'' @ iter_pystruct p @ ''__tp_dealloc'' @ ''('' @ iter_pystruct p @ '' *self)'',
         ''{'',
         ''    Py_CLEAR(self->container);'',
         ''    '' @ iter_delete_code,
         ''    self->ob_type->tp_free((PyObject*)self);'',
         ''}'',
         []]),
     xt_iter_slot ''tp_dealloc'' (''_wrap_'' @ iter_pystruct p @ ''__tp_dealloc'')]"

text \<open>
  \<open>IterNextWrapper\<close>: the next element, or \<open>StopIteration\<close>.  The iterator variable is declared by the reset in the
  constructor.
\<close>

definition class_iternext_call :: "class_container \<Rightarrow> string \<Rightarrow> (wrapper, unit) py" where
  "class_iternext_call xt iter_variable_name = (let value_type = xt_value_type xt in seqs [
     w_write Before_Call (iter_variable_name @ '' = *self->iterator;''),
     w_error_check Before_Call (iter_variable_name @ '' == self->container->obj->'' @ xt_end_method xt @ ''()'')
       (Some ''PyErr_SetNone(PyExc_StopIteration);''),
     w_write Before_Call ''++(*self->iterator);'',
     (case xt_key_type xt of
        None \<Rightarrow> ro_convert_c_to_python
          (vh_object value_type (''(*'' @ iter_variable_name @ '')'') (vh_requires_assignment_constructor value_type))
      | Some key \<Rightarrow> seqs [
          ro_convert_c_to_python
            (vh_object value_type (iter_variable_name @ ''->second'') (vh_requires_assignment_constructor value_type)),
          ro_convert_c_to_python (vh_object key (iter_variable_name @ ''->first'') (vh_requires_assignment_constructor key))])])"

definition class_iternext_class :: "class_container \<Rightarrow> string \<Rightarrow> forward_class" where
  "class_iternext_class xt iter_variable_name = \<lparr>fc_return_value = None, fc_parameters = [],
     fc_parse_error_return = ''return NULL;'', fc_error_return = ''return NULL;'', fc_force_parse = None, fc_no_c_retval = True,
     fc_unblock_threads = False, fc_deprecated = PyBool False, fc_have_return_value = True,
     fc_before_call_hook = ret (), fc_generate_call = class_iternext_call xt iter_variable_name,
     fc_before_return_hook = ret ()\<rparr>"

definition class_iternext_init :: "class_container \<Rightarrow> cpp_class \<Rightarrow> (string \<times> wrapper) res" where
  "class_iternext_init xt c =
     (let fc = class_iternext_class xt [] in
      bind_res (ForwardWrapperBase_init fc) (\<lambda>w.
        case bnd (reset_code_generation_state fc) (\<lambda>_. declare_var (cc_full_name c @ ''::'' @ xt_iterator_type xt) ''iter'') w of
          (Inl e, _) \<Rightarrow> Inl e | (Inr iter_variable_name, w') \<Rightarrow> Inr (iter_variable_name, w')))"

definition class_iternext_body :: "class_container \<Rightarrow> cpp_class \<Rightarrow> memory_sink res" where
  "class_iternext_body xt c =
     bind_res (class_iternext_init xt c) (\<lambda>(iter_variable_name, w).
       case generate_body memory_class (class_iternext_class xt iter_variable_name) (w, MemoryCodeSink_init) of
         (Inl e, _) \<Rightarrow> Inl e | (Inr _, (_, tmp_sink)) \<Rightarrow> Inr tmp_sink)"

definition traits_generate_iternext :: "'t sink_class \<Rightarrow> cpp_class \<Rightarrow> string \<Rightarrow> ('t, unit) xt_gen" where
  "traits_generate_iternext sk c p =
     bnd (gets (\<lambda>((xt, _), _). class_iternext_body xt c)) (\<lambda>r.
     bnd (lift_res r) (\<lambda>tmp_sink. seqs [
       xt_emit sk (''static PyObject* _wrap_'' @ iter_pystruct p @ ''__tp_iternext('' @ iter_pystruct p @ '' *self)''),
       xt_emit sk ''{'',
       on_sink (run_cmd sk Indent),
       on_sink (upd (\<lambda>t. snd (mem_flush_to (s_writeln sk) tmp_sink t))),
       on_sink (run_cmd sk Unindent),
       xt_emit sk ''}'',
       xt_iter_slot ''tp_iternext'' (''_wrap_'' @ iter_pystruct p @ ''__tp_iternext'')]))"

definition class_iter_text :: "cpp_class \<Rightarrow> string \<Rightarrow> class_container \<Rightarrow> string" where
  "class_iter_text c p xt = join nl [
       [],
       ''static PyObject*'',
       ''_wrap_'' @ p @ ''__tp_iter'' @ ''('' @ p @ '' *self)'',
       ''{'',
       ''    '' @ iter_pystruct p @ '' *iter = PyObject_GC_New('' @ iter_pystruct p @ '', &'' @ iter_pytypestruct p @ '');'',
       ''    Py_INCREF(self);'',
       ''    iter->container = self;'',
       ''    iter->iterator = new '' @ cc_full_name c @ ''::'' @ xt_iterator_type xt @ ''(self->obj->'' @ xt_begin_method xt @ ''());'',
       ''    return (PyObject*) iter;'',
       ''}'',
       []]"

definition traits_generate_iter_methods :: "'t sink_class \<Rightarrow> cpp_class \<Rightarrow> string \<Rightarrow> ('t, unit) xt_gen" where
  "traits_generate_iter_methods sk c p = seqs [
     bnd (gets (\<lambda>((xt, _), _). xt)) (\<lambda>xt. xt_emit sk (class_iter_text c p xt)),
     xt_class_slot ''tp_iter'' (''_wrap_'' @ p @ ''__tp_iter''),
     xt_emit sk (join nl [
         [],
         ''static PyObject*'',
         ''_wrap_'' @ iter_pystruct p @ ''__tp_iter'' @ ''('' @ iter_pystruct p @ '' *self)'',
         ''{'',
         ''    Py_INCREF(self);'',
         ''    return (PyObject*) self;'',
         ''}'',
         []]),
     xt_iter_slot ''tp_iter'' (''_wrap_'' @ iter_pystruct p @ ''__tp_iter''),
     traits_generate_iternext sk c p]"

definition traits_generate_type_structure :: "'t sink_class \<Rightarrow> string res \<Rightarrow> string option \<Rightarrow> string \<Rightarrow> ('t, unit) xt_gen" where
  "traits_generate_type_structure sk full_name docstring p = seqs [
     xt_iter_slot ''tp_basicsize'' (''sizeof('' @ iter_pystruct p @ '')''),
     xt_iter_slot ''tp_flags'' ''Py_TPFLAGS_DEFAULT|Py_TPFLAGS_HAVE_GC'',
     xt_iter_slot ''typestruct'' (iter_pytypestruct p),
     bnd (lift_res full_name) (xt_iter_slot ''tp_name''),
     (case docstring of None \<Rightarrow> ret () | Some d \<Rightarrow> when_py (d \<noteq> []) (xt_iter_slot ''tp_doc'' (dq @ d @ dq))),
     bnd (gets (\<lambda>((xt, _), _). PyTypeObject_generate (xt_iter_pytype xt))) (\<lambda>r. bnd (lift_res r) (\<lambda>cmd. on_sink (run_cmd sk cmd))),
     upd (\<lambda>((xt, slots), t). ((xt\<lparr>xt_iter_pytype := fold setdefault PyTypeObject_defaults (xt_iter_pytype xt)\<rparr>, slots), t))]"

text \<open>\<open>generate\<close>, after the registration; the class calls it without a docstring.\<close>

definition traits_generate_code :: "'t sink_class \<Rightarrow> string res \<Rightarrow> string option \<Rightarrow> cpp_class \<Rightarrow> string \<Rightarrow> ('t, unit) xt_gen" where
  "traits_generate_code sk full_name docstring c p = seqs [
     traits_generate_gc_methods sk p,
     traits_generate_destructor sk p,
     traits_generate_iter_methods sk c p,
     traits_generate_type_structure sk full_name docstring p]"

end
