(* ===== verification/Class_Body.thy ===== *)
theory Class_Body
  imports Helper_Class Cpp_Attribute Class_Container Py_Partial
begin

text \<open>
  What a C++ class holds besides its description: methods, constructors, attributes, slots and the helper class
  (\<open>src/pybindgen/cppclass.py\<close>), and the methods of \<open>CppClass\<close> that add to them.
\<close>

section \<open>State\<close>

text \<open>A method of a class is a \<open>CppMethod\<close>, or a function that takes the object as its first parameter.\<close>

datatype class_method = Cpp_Meth meth | Func_Meth func

text \<open>
  Hooks change a helper class before it is generated.  \<open>b_slots\<close> are the slots that are set so far.
\<close>

record class_body =
  b_methods :: "(string \<times> class_method overload) list"
  b_nonpublic_methods :: "meth list"
  b_dummy_methods :: "meth list"
  b_constructors :: "ctor list"
  b_static_attributes :: getset_def
  b_instance_attributes :: getset_def
  b_helper_class :: "helper option"
  b_helper_class_hooks :: "(helper, unit) py list"
  b_slots :: slots
  b_docstring :: "string option"
  b_has_output_stream_operator :: bool
  b_container_traits :: "class_container option"

record class_state =
  cs_classes :: class_store
  cs_bodies :: "nat \<Rightarrow> class_body"
  cs_includes :: "string list"

definition class_body_init :: "string option \<Rightarrow> class_body" where
  "class_body_init docstring = \<lparr>b_methods = [], b_nonpublic_methods = [], b_dummy_methods = [], b_constructors = [],
     b_static_attributes = PyGetSetDef_init (nameless @ ''__getsets''), b_instance_attributes = PyGetSetDef_init ''None__getsets'',
     b_helper_class = None, b_helper_class_hooks = [], b_slots = [], b_docstring = docstring, b_has_output_stream_operator = False,
     b_container_traits = None\<rparr>"

text \<open>The part of \<open>_update_names\<close> that renames the tables of attributes.\<close>

definition rename_attribute_tables :: "cpp_class \<Rightarrow> class_body \<Rightarrow> class_body" where
  "rename_attribute_tables c b = b\<lparr>
     b_instance_attributes := (b_instance_attributes b)\<lparr>gsd_cname := opt_str (cc_pystruct c) @ ''__getsets''\<rparr>,
     b_static_attributes := (b_static_attributes b)\<lparr>gsd_cname := cc_metaclass_name c @ ''__getsets''\<rparr>\<rparr>"

definition upd_body :: "nat \<Rightarrow> (class_body \<Rightarrow> class_body) \<Rightarrow> class_state \<Rightarrow> class_state" where
  "upd_body c f s = s\<lparr>cs_bodies := (cs_bodies s)(c := f (cs_bodies s c))\<rparr>"

definition upd_class :: "nat \<Rightarrow> (cpp_class \<Rightarrow> cpp_class) \<Rightarrow> class_state \<Rightarrow> class_state" where
  "upd_class c f s = s\<lparr>cs_classes := (cs_classes s)(c := f (cs_classes s c))\<rparr>"

definition class_pystruct :: "cpp_class \<Rightarrow> string res" where
  "class_pystruct c = (case cc_pystruct c of None \<Rightarrow> Inl (ValueError []) | Some p \<Rightarrow> Inr p)"

text \<open>
  What the description of a class shows of its methods.  The source has one table only; the description repeats it
  for the components that know nothing of wrappers.
\<close>

definition class_method_obj :: "class_method \<Rightarrow> method_obj" where
  "class_method_obj cm = (case cm of
     Cpp_Meth m \<Rightarrow> method_obj_of m
   | Func_Meth f \<Rightarrow> \<lparr>mo_mangled_name = f_mangled_name f, mo_param_ctypes = map (\<lambda>p. po_ctype (ph_object p)) (f_parameters f),
       mo_is_const = False, mo_is_virtual = False, mo_is_pure_virtual = False, mo_is_cppmethod = False\<rparr>)"

definition show_methods :: "nat \<Rightarrow> class_state \<Rightarrow> class_state" where
  "show_methods c s = (let b = cs_bodies s c in
     upd_class c (\<lambda>k. k\<lparr>cc_methods := map (\<lambda>(n, ov). (n, map class_method_obj (overload_objs ov))) (b_methods b),
       cc_nonpublic_methods := map method_obj_of (b_nonpublic_methods b), cc_dummy_methods := map method_obj_of (b_dummy_methods b)\<rparr>) s)"

section \<open>The helper class\<close>

text \<open>
  \<open>get_helper_class\<close> on both parts of a class.  A new helper class makes the module include \<open><typeinfo>\<close>.
\<close>

definition body_get_helper_class :: "nat \<Rightarrow> (class_state, bool) pyd" where
  "body_get_helper_class c = (\<lambda>s.
     case get_helper_class c (cs_classes s) of
       None \<Rightarrow> None
     | Some (None, classes) \<Rightarrow> Some (Inr False, s)
     | Some (Some name, classes) \<Rightarrow>
         (case b_helper_class (cs_bodies s c) of
            Some _ \<Rightarrow> Some (Inr True, s)
          | None \<Rightarrow> (case CppHelperClass_init c (class_pystruct (cs_classes s c)) of
              Inl e \<Rightarrow> Some (Inl e, s)
            | Inr h \<Rightarrow> Some (Inr True, (upd_body c (\<lambda>b. b\<lparr>b_helper_class := Some h\<rparr>)
                (s\<lparr>cs_classes := classes, cs_includes := List.insert ''<typeinfo>'' (cs_includes s)\<rparr>)))))) "

definition on_helper :: "nat \<Rightarrow> (helper, 'a) py \<Rightarrow> (class_state, 'a) py" where
  "on_helper c f = (\<lambda>s.
     case b_helper_class (cs_bodies s c) of
       None \<Rightarrow> (Inl (AttributeError ''helper_class''), s)
     | Some h \<Rightarrow> (case f h of (r, h') \<Rightarrow> (r, upd_body c (\<lambda>b. b\<lparr>b_helper_class := Some h'\<rparr>) s)))"

definition with_helper_class :: "nat \<Rightarrow> (helper, unit) py \<Rightarrow> (class_state, unit) pyd" where
  "with_helper_class c f = bndd (body_get_helper_class c) (\<lambda>there. total (when_py there (on_helper c f)))"

text \<open>The helper class is given up: \<open>helper_class = None\<close> and \<open>helper_class_disabled = True\<close>.\<close>

definition disable_helper_class :: "nat \<Rightarrow> class_state \<Rightarrow> class_state" where
  "disable_helper_class c s =
     upd_body c (\<lambda>b. b\<lparr>b_helper_class := None\<rparr>) (upd_class c (Cpp_Class.set_helper_class_disabled True) s)"

definition body_set_helper_class_disabled :: "nat \<Rightarrow> bool \<Rightarrow> class_state \<Rightarrow> class_state" where
  "body_set_helper_class_disabled c flag s =
     (if flag then disable_helper_class c s else upd_class c (Cpp_Class.set_helper_class_disabled False) s)"

definition add_helper_class_hook :: "nat \<Rightarrow> (helper, unit) py \<Rightarrow> class_state \<Rightarrow> class_state" where
  "add_helper_class_hook c hook = upd_body c (\<lambda>b. b\<lparr>b_helper_class_hooks := b_helper_class_hooks b @ [hook]\<rparr>)"

definition get_all_helper_class_hooks :: "class_state \<Rightarrow> nat \<Rightarrow> (helper, unit) py list option" where
  "get_all_helper_class_hooks s c =
     map_option (\<lambda>mro. foldl (\<lambda>l k. b_helper_class_hooks (cs_bodies s k) @ l) [] mro) (get_mro (cs_classes s) c)"

section \<open>Methods\<close>

text \<open>
  What a class asks of the handlers of its methods' parameters: the class of a handler for a class type, the
  class if the parameter is passed by value or by reference, the class if it is passed by reference, and the
  handler that takes its value from \<open>self\<close>.
  \<open>pe_module\<close> is the module of a class.
\<close>

record param_env =
  pe_class :: "param_handler \<Rightarrow> nat option"
  pe_copied_class :: "param_handler \<Rightarrow> nat option"
  pe_ref_class :: "param_handler \<Rightarrow> nat option"
  pe_take_self :: "param_handler \<Rightarrow> param_handler"
  pe_module :: "nat \<Rightarrow> module_info"

text \<open>A method joins the class: its name in the table, and the method with the attributes that the class sets.\<close>

definition adopt_function :: "param_env \<Rightarrow> nat \<Rightarrow> string res \<Rightarrow> func \<Rightarrow> func res" where
  "adopt_function pe c pystruct f =
     (case f_parameters f of
        [] \<Rightarrow> Inl IndexError
      | p # ps \<Rightarrow>
          if pe_class pe p \<noteq> Some c then Inl AssertionError
          else bind_res pystruct (\<lambda>ps_name. Inr ((Function_set_module (pe_module pe c) f)\<lparr>f_parameters := pe_take_self pe p # ps,
            f_self_parameter_pystruct := Some ps_name, f_force_parse := Some PARSE_TUPLE_AND_KEYWORDS\<rparr>)))"

definition adopt_method :: "nat \<Rightarrow> string res \<Rightarrow> meth \<Rightarrow> meth res" where
  "adopt_method c pystruct m = (case set_class c pystruct m of (Inl e, _) \<Rightarrow> Inl e | (Inr _, m') \<Rightarrow> Inr m')"

definition force_keywords :: "class_method \<Rightarrow> class_method" where
  "force_keywords cm = (case cm of
     Cpp_Meth m \<Rightarrow> Cpp_Meth (m\<lparr>m_force_parse := Some PARSE_TUPLE_AND_KEYWORDS\<rparr>)
   | Func_Meth f \<Rightarrow> Func_Meth (f\<lparr>f_force_parse := Some PARSE_TUPLE_AND_KEYWORDS\<rparr>))"

definition add_public_method :: "nat \<Rightarrow> string \<Rightarrow> class_method \<Rightarrow> (class_state, unit) py" where
  "add_public_method c name cm =
     bnd (gets (\<lambda>s. (class_pystruct (cs_classes s c), map_of (b_methods (cs_bodies s c)) name))) (\<lambda>(pystruct, known).
     let cm = (if name = ''__call__'' then force_keywords cm else cm) in
     bnd (case known of
            Some ov \<Rightarrow> ret ov
          | None \<Rightarrow> bnd (lift_res pystruct) (\<lambda>p. ret ((OverloadedWrapper_init (\<lambda>_. cm) name)\<lparr>ov_pystruct := p\<rparr>))) (\<lambda>ov.
     upd (upd_body c (\<lambda>b. b\<lparr>b_methods := AList.update name (overload_put cm ov) (b_methods b)\<rparr>))))"

text \<open>The helper class gets a virtual method; what the class knows of pure virtual methods is computed anew.\<close>

definition add_virtual :: "settings \<Rightarrow> nat \<Rightarrow> meth \<Rightarrow> (class_state, unit) pyd" where
  "add_virtual st c m =
     bndd (total (upd (upd_class c (\<lambda>k. k\<lparr>cc_have_pure_virtual_methods := None\<rparr>)))) (\<lambda>_.
       with_helper_class c (add_virtual_method st m))"

definition add_method_obj :: "settings \<Rightarrow> param_env \<Rightarrow> nat \<Rightarrow> class_method \<Rightarrow> (class_state, unit) pyd" where
  "add_method_obj st pe c cm =
     bndd (total (gets (\<lambda>s. class_pystruct (cs_classes s c)))) (\<lambda>pystruct.
     bndd (case cm of
       Func_Meth f \<Rightarrow>
         bndd (total (lift_res (adopt_function pe c pystruct f))) (\<lambda>f'. total (add_public_method c (opt_str (f_custom_name f)) (Func_Meth f')))
     | Cpp_Meth m \<Rightarrow>
         bndd (total (lift_res (adopt_method c pystruct m))) (\<lambda>m'.
         bndd (if m_visibility m' = ''protected'' \<and> \<not> m_is_virtual m' then with_helper_class c (new_parent_caller st m')
               else if m_visibility m' = ''public'' then total (add_public_method c (m_mangled_name m') (Cpp_Meth m'))
               else total (upd (upd_body c (\<lambda>b. b\<lparr>b_nonpublic_methods := b_nonpublic_methods b @ [m']\<rparr>)))) (\<lambda>_.
         if m_is_virtual m' then add_virtual st c m' else total (ret ())))) (\<lambda>_.
     total (upd (show_methods c))))"

text \<open>
  \<open>add_method\<close>, for the results of the constructors of \<open>CppMethod\<close> and \<open>CppDummyMethod\<close>.  A virtual method that cannot
  be wrapped is recorded; \<open>virtual_given\<close> is the keyword argument \<open>is_virtual\<close>.
\<close>

definition add_dummy_method :: "settings \<Rightarrow> nat \<Rightarrow> meth \<Rightarrow> (class_state, unit) pyd" where
  "add_dummy_method st c m =
     bndd (total (gets (\<lambda>s. class_pystruct (cs_classes s c)))) (\<lambda>pystruct.
     bndd (total (lift_res (adopt_method c pystruct m))) (\<lambda>m'. seqsd [
       total (upd (upd_body c (\<lambda>b. b\<lparr>b_dummy_methods := b_dummy_methods b @ [m']\<rparr>))),
       add_virtual st c m',
       bndd (body_get_helper_class c) (\<lambda>there. total (when_py there
         (bnd (on_helper c (gets h_cannot_be_constructed)) (\<lambda>impossible. when_py impossible (upd (disable_helper_class c)))))),
       total (upd (show_methods c))]))"

definition add_method :: "settings \<Rightarrow> param_env \<Rightarrow> nat \<Rightarrow> meth res \<Rightarrow> bool \<Rightarrow> meth res \<Rightarrow> (class_state, bool) pyd" where
  "add_method st pe c created virtual_given dummy =
     (case created of
        Inr m \<Rightarrow> bndd (add_method_obj st pe c (Cpp_Meth m)) (\<lambda>_. total (ret True))
      | Inl SkipWrapper \<Rightarrow>
          if virtual_given
          then bndd (total (lift_res dummy)) (\<lambda>m. bndd (add_dummy_method st c m) (\<lambda>_. total (ret False)))
          else total (ret False)
      | Inl e \<Rightarrow> total (raise_py e))"

text \<open>
  The old way to call \<open>add_method\<close>, with a method object and perhaps a name.  The object is a value: another class to which it
  was added before keeps it unchanged.
\<close>

definition add_given_method :: "settings \<Rightarrow> param_env \<Rightarrow> nat \<Rightarrow> class_method \<Rightarrow> string option option \<Rightarrow> (class_state, unit) pyd" where
  "add_given_method st pe c cm custom_name =
     add_method_obj st pe c (case custom_name of None \<Rightarrow> cm
       | Some n \<Rightarrow> (case cm of Cpp_Meth m \<Rightarrow> Cpp_Meth (set_custom_name n m) | Func_Meth f \<Rightarrow> Func_Meth (f\<lparr>f_custom_name := n\<rparr>)))"

text \<open>\<open>add_function_as_method\<close> and \<open>add_custom_method_wrapper\<close>.\<close>

definition add_created_method :: "settings \<Rightarrow> param_env \<Rightarrow> nat \<Rightarrow> class_method res \<Rightarrow> (class_state, bool) pyd" where
  "add_created_method st pe c created =
     (case created of
        Inr cm \<Rightarrow> bndd (add_method_obj st pe c cm) (\<lambda>_. total (ret True))
      | Inl SkipWrapper \<Rightarrow> total (ret False)
      | Inl e \<Rightarrow> total (raise_py e))"

definition body_methods :: "class_body \<Rightarrow> class_method list" where
  "body_methods b = concat (map (\<lambda>(n, ov). overload_objs ov) (b_methods b)) @ map Cpp_Meth (b_nonpublic_methods b)"

text \<open>The virtual methods of the parent classes: copies go to the helper class.\<close>

definition inherit_virtual :: "settings \<Rightarrow> nat \<Rightarrow> class_method \<Rightarrow> (class_state, unit) py" where
  "inherit_virtual st c cm =
     (case cm of
        Cpp_Meth m \<Rightarrow> when_py (m_is_virtual m)
          (bnd (lift_res (CppMethod_clone st m)) (\<lambda>m'. on_helper c (add_virtual_method st m')))
      | Func_Meth _ \<Rightarrow> ret ())"

definition inherit_helper_class_parent_virtuals :: "settings \<Rightarrow> nat \<Rightarrow> (class_state, unit) pyd" where
  "inherit_helper_class_parent_virtuals st c = (\<lambda>s.
     case get_mro (cs_classes s) c of
       None \<Rightarrow> None
     | Some mro \<Rightarrow> total (for_each (inherit_virtual st c) (concat (map (\<lambda>k. body_methods (cs_bodies s k)) (tl mro)))) s)"

section \<open>Constructors\<close>

definition add_constructor_obj :: "param_env \<Rightarrow> nat \<Rightarrow> ctor \<Rightarrow> (class_state, unit) py" where
  "add_constructor_obj pe c k =
     bnd (gets (\<lambda>s. class_pystruct (cs_classes s c))) (\<lambda>pystruct.
     case ctor_set_class c pystruct k of
       (Inl e, _) \<Rightarrow> raise_py e
     | (Inr _, k') \<Rightarrow> seqs [
         upd (upd_body c (\<lambda>b. b\<lparr>b_constructors := b_constructors b @ [k']\<rparr>)),
         when_py (k_parameters k' = []) (upd (upd_class c (\<lambda>x. x\<lparr>cc_has_trivial_constructor := True\<rparr>))),
         (case k_parameters k' of
            [p] \<Rightarrow> when_py (pe_copied_class pe p = Some c \<and> k_visibility k' = ''public'')
              (upd (upd_class c (\<lambda>x. x\<lparr>cc_has_copy_constructor := True\<rparr>)))
          | _ \<Rightarrow> ret ())])"

text \<open>
  \<open>add_constructor\<close>, \<open>add_copy_constructor\<close> and \<open>add_function_as_constructor\<close>, for the result of the constructor of the wrapper.
\<close>

definition add_constructor :: "param_env \<Rightarrow> nat \<Rightarrow> ctor res \<Rightarrow> (class_state, bool) py" where
  "add_constructor pe c created =
     (case created of
        Inr k \<Rightarrow> bnd (add_constructor_obj pe c k) (\<lambda>_. ret True)
      | Inl SkipWrapper \<Rightarrow> ret False
      | Inl e \<Rightarrow> raise_py e)"

text \<open>The old way to give a function: \<open>CppFunctionAsConstructor\<close> is called with one argument too few.\<close>

definition add_function_given_as_constructor :: "func \<Rightarrow> (class_state, unit) py" where
  "add_function_given_as_constructor f = raise_py (TypeError ''__init__() takes at least 4 arguments (3 given)'')"

text \<open>
  The constructors without parameters of the base classes.  For a copy constructor of the parent, the handler
  class is called without its arguments.
\<close>

definition inherit_constructor :: "settings \<Rightarrow> param_env \<Rightarrow> nat \<Rightarrow> nat option \<Rightarrow> ctor \<Rightarrow> (class_state, unit) py" where
  "inherit_constructor st pe c parent k =
     (case k_parameters k of
        [] \<Rightarrow> bnd (add_constructor pe c (new_ctor st (default_ctor_args\<lparr>ka_visibility := k_visibility k\<rparr>) [])) (\<lambda>_. ret ())
      | [p] \<Rightarrow> when_py (parent \<noteq> None \<and> pe_ref_class pe p = parent) (raise_py (TypeError ''__init__() takes at least 3 arguments (1 given)''))
      | _ \<Rightarrow> ret ())"

definition inherit_default_constructors :: "settings \<Rightarrow> param_env \<Rightarrow> nat \<Rightarrow> (class_state, unit) py" where
  "inherit_default_constructors st pe c =
     bnd (gets (\<lambda>s. (cc_parent (cs_classes s c), concat (map (\<lambda>k. b_constructors (cs_bodies s k)) (cc_bases (cs_classes s c))))))
       (\<lambda>(parent, constructors). for_each (inherit_constructor st pe c parent) constructors)"

definition add_output_stream_operator :: "nat \<Rightarrow> class_state \<Rightarrow> class_state" where
  "add_output_stream_operator c s =
     upd_body c (\<lambda>b. b\<lparr>b_has_output_stream_operator := True\<rparr>)
       (s\<lparr>cs_includes := List.insert ''<sstream>'' (List.insert ''<ostream>'' (cs_includes s))\<rparr>)"

text \<open>\<open>add_container_traits\<close>, for the result of the constructor of \<open>CppClassContainerTraits\<close>.\<close>

definition add_container_traits :: "nat \<Rightarrow> class_container res \<Rightarrow> (class_state, unit) py" where
  "add_container_traits c created =
     bnd (gets (\<lambda>s. b_container_traits (cs_bodies s c))) (\<lambda>traits. seqs [
       assert_py (traits = None),
       bnd (lift_res created) (\<lambda>xt. upd (upd_body c (\<lambda>b. b\<lparr>b_container_traits := Some xt\<rparr>)))])"

text \<open>Functions of the user that write the code for the creation of instances, and code after it.\<close>

definition set_instance_creation_function :: "nat \<Rightarrow> creation_function option \<Rightarrow> class_state \<Rightarrow> class_state" where
  "set_instance_creation_function c f = upd_class c (\<lambda>k. k\<lparr>cc_instance_creation_function := f\<rparr>)"

definition set_post_instance_creation_function :: "nat \<Rightarrow> creation_function option \<Rightarrow> class_state \<Rightarrow> class_state" where
  "set_post_instance_creation_function c f = upd_class c (\<lambda>k. k\<lparr>cc_post_instance_creation_function := f\<rparr>)"

section \<open>Attributes\<close>

definition class_accessors :: "cpp_class \<Rightarrow> accessor_class" where
  "class_accessors c = \<lparr>ac_pystruct = class_pystruct c, ac_full_name = cc_full_name c\<rparr>"

text \<open>The handler of the type is evaluated first; an attribute with a type that is skipped is left out.\<close>

definition add_static_attribute :: "nat \<Rightarrow> string \<Rightarrow> value_handler res \<Rightarrow> bool \<Rightarrow> (class_state, unit) py" where
  "add_static_attribute c name value_type is_const =
     (case value_type of
        Inl SkipWrapper \<Rightarrow> ret ()
      | Inl e \<Rightarrow> raise_py e
      | Inr h \<Rightarrow>
          bnd (gets (\<lambda>s. class_accessors (cs_classes s c))) (\<lambda>ac.
          bnd (lift_res (CppStaticAttributeGetter_init h ac name)) (\<lambda>(getter, h1).
          bnd (if is_const then ret (None, h1)
               else bnd (lift_res (CppStaticAttributeSetter_init h1 ac name)) (\<lambda>(setter, h2). ret (Some setter, h2))) (\<lambda>(setter, h2).
          upd (upd_body c (\<lambda>b. b\<lparr>b_static_attributes :=
            add_attribute \<lparr>at_name = name, at_value_type = h2, at_getter = Some getter, at_setter = setter\<rparr> (b_static_attributes b)\<rparr>))))))"

definition add_instance_attribute ::
  "nat \<Rightarrow> string \<Rightarrow> value_handler res \<Rightarrow> bool \<Rightarrow> string option \<Rightarrow> string option \<Rightarrow> (class_state, unit) py" where
  "add_instance_attribute c name value_type is_const getter setter =
     (case value_type of
        Inl SkipWrapper \<Rightarrow> ret ()
      | Inl e \<Rightarrow> raise_py e
      | Inr h \<Rightarrow>
          bnd (gets (\<lambda>s. class_accessors (cs_classes s c))) (\<lambda>ac.
          bnd (lift_res (CppInstanceAttributeGetter_init h ac name getter)) (\<lambda>(getter_wrapper, h1).
          bnd (if is_const then bnd (assert_py (setter = None)) (\<lambda>_. ret (None, h1))
               else bnd (lift_res (CppInstanceAttributeSetter_init h1 ac name setter)) (\<lambda>(w, h2). ret (Some w, h2))) (\<lambda>(setter_wrapper, h2).
          upd (upd_body c (\<lambda>b. b\<lparr>b_instance_attributes :=
            add_attribute \<lparr>at_name = name, at_value_type = h2, at_getter = Some getter_wrapper, at_setter = setter_wrapper\<rparr>
              (b_instance_attributes b)\<rparr>))))))"

section \<open>The tables of a class\<close>

text \<open>Actions that may not end, and respect a relation when they end without an error.\<close>

definition keepsd :: "('s \<Rightarrow> 's \<Rightarrow> bool) \<Rightarrow> ('s, 'a) pyd \<Rightarrow> bool" where
  "keepsd R m \<longleftrightarrow> (\<forall>s a s'. m s = Some (Inr a, s') \<longrightarrow> R s s')"

lemma keepsdI: "(\<And>s a s'. m s = Some (Inr a, s') \<Longrightarrow> R s s') \<Longrightarrow> keepsd R m"
  by (simp add: keepsd_def)

lemma keepsdD: "keepsd R m \<Longrightarrow> m s = Some (Inr a, s') \<Longrightarrow> R s s'"
  by (simp add: keepsd_def)

lemma keepsd_total: "keeps R m \<Longrightarrow> keepsd R (total m)"
  by (auto simp: keepsd_def dest: keepsD)

context step_relation
begin

lemma keepsd_bndd: "keepsd R m \<Longrightarrow> (\<And>a. keepsd R (f a)) \<Longrightarrow> keepsd R (bndd m f)"
  by (rule keepsdI, erule bndd_InrE) (blast dest: keepsdD intro: trans)

lemma keepsd_seqsd: "list_all (keepsd R) ms \<Longrightarrow> keepsd R (seqsd ms)"
  by (induction ms) (simp_all add: keepsd_bndd keepsd_total keeps_ret)

end

text \<open>
  The methods of a table have the name under which they are filed and belong to the class, the others are
  not public, and the helper class is one for this class.
\<close>

definition filed_under :: "nat \<Rightarrow> string \<Rightarrow> class_method \<Rightarrow> bool" where
  "filed_under c n cm = (case cm of
     Cpp_Meth m \<Rightarrow> m_mangled_name m = n \<and> m_visibility m = ''public'' \<and> m_own_class m = Some c
   | Func_Meth f \<Rightarrow> opt_str (f_custom_name f) = n)"

definition body_ok :: "settings \<Rightarrow> nat \<Rightarrow> class_body \<Rightarrow> bool" where
  "body_ok st c b \<longleftrightarrow>
     (\<forall>n ov. map_of (b_methods b) n = Some ov \<longrightarrow> list_all (filed_under c n) (overload_objs ov)) \<and>
     list_all (\<lambda>m. m_visibility m \<noteq> ''public'' \<and> m_own_class m = Some c) (b_nonpublic_methods b) \<and>
     (case b_helper_class b of None \<Rightarrow> True | Some h \<Rightarrow> helper_built st h \<and> h_class h = c)"

text \<open>The description of a class shows its methods.\<close>

definition shown :: "class_state \<Rightarrow> nat \<Rightarrow> bool" where
  "shown s c \<longleftrightarrow>
     cc_methods (cs_classes s c) = map (\<lambda>(n, ov). (n, map class_method_obj (overload_objs ov))) (b_methods (cs_bodies s c)) \<and>
     cc_nonpublic_methods (cs_classes s c) = map method_obj_of (b_nonpublic_methods (cs_bodies s c)) \<and>
     cc_dummy_methods (cs_classes s c) = map method_obj_of (b_dummy_methods (cs_bodies s c))"

definition class_step :: "settings \<Rightarrow> nat \<Rightarrow> class_state \<Rightarrow> class_state \<Rightarrow> bool" where
  "class_step st c s s' \<longleftrightarrow> (\<forall>d. d \<noteq> c \<longrightarrow> cs_bodies s' d = cs_bodies s d \<and> cs_classes s' d = cs_classes s d) \<and>
     (body_ok st c (cs_bodies s c) \<longrightarrow> body_ok st c (cs_bodies s' c))"

interpretation cstep: step_relation "class_step st c" for st c
  by unfold_locales (auto simp: class_step_def)

text \<open>Updates that leave the tables and the helper class alone.\<close>

definition tables :: "class_body \<Rightarrow> (string \<times> class_method overload) list \<times> meth list \<times> helper option" where
  "tables b = (b_methods b, b_nonpublic_methods b, b_helper_class b)"

lemma body_ok_tables: "tables b = tables b' \<Longrightarrow> body_ok st c b = body_ok st c b'"
  by (simp add: tables_def body_ok_def)

lemma keeps_upd_body: "(\<And>b. body_ok st c b \<Longrightarrow> body_ok st c (f b)) \<Longrightarrow> keeps (class_step st c) (upd (upd_body c f))"
  by (rule keepsI) (auto simp: class_step_def upd_body_def)

lemma keeps_upd_tables: "(\<And>b. tables (f b) = tables b) \<Longrightarrow> keeps (class_step st c) (upd (upd_body c f))"
  by (rule keeps_upd_body) (metis body_ok_tables)

lemma keeps_upd_class: "keeps (class_step st c) (upd (upd_class c f))"
  by (rule keepsI) (auto simp: class_step_def upd_class_def)

lemma keeps_show: "keeps (class_step st c) (upd (show_methods c))"
  by (rule keepsI) (auto simp: class_step_def show_methods_def upd_class_def Let_def)

lemma keeps_on_helper:
  assumes "\<And>h a h'. f h = (Inr a, h') \<Longrightarrow> helper_built st h \<Longrightarrow> helper_built st h' \<and> h_class h' = h_class h"
  shows "keeps (class_step st c) (on_helper c f)"
  by (rule keepsI) (auto simp: class_step_def on_helper_def upd_body_def body_ok_def dest: assms split: option.splits prod.splits)

lemma add_caller_class [simp]: "h_class (add_virtual_parent_caller pc h) = h_class h"
  by (simp add: add_virtual_parent_caller_def Let_def)

lemma new_parent_caller_step:
  "new_parent_caller st m h = (Inr (), h') \<Longrightarrow> helper_built st h \<Longrightarrow> helper_built st h' \<and> h_class h' = h_class h"
  by (auto intro: helper_built.caller elim: new_parent_caller_Inr)

lemma add_virtual_method_class: "add_virtual_method st m h = (Inr (), h') \<Longrightarrow> h_class h' = h_class h"
  by (auto simp: add_virtual_method_def append_virtual_method_def assert_py_def when_py_def add_virtual_proxy_def
      elim!: bnd_eq_InrE new_parent_caller_Inr split: if_splits)

lemma add_virtual_method_step:
  "add_virtual_method st m h = (Inr (), h') \<Longrightarrow> helper_built st h \<Longrightarrow> helper_built st h' \<and> h_class h' = h_class h"
  using helper_built.virtual add_virtual_method_class by blast

lemma get_helper_cases:
  assumes "body_get_helper_class c s = Some (Inr a, s')"
  shows "s' = s \<or> (\<exists>name classes h. get_helper_class c (cs_classes s) = Some (Some name, classes) \<and>
    CppHelperClass_init c (class_pystruct (cs_classes s c)) = Inr h \<and>
    s' = upd_body c (\<lambda>b. b\<lparr>b_helper_class := Some h\<rparr>)
      (s\<lparr>cs_classes := classes, cs_includes := List.insert ''<typeinfo>'' (cs_includes s)\<rparr>))"
  using assms unfolding body_get_helper_class_def
  by (simp split: option.split_asm prod.split_asm sum.split_asm)

lemma get_helper_other: "get_helper_class c classes = Some (r, classes') \<Longrightarrow> d \<noteq> c \<Longrightarrow> classes' d = classes d"
  by (simp add: get_helper_class_def Let_def split: if_split_asm option.split_asm) auto

lemma helper_init_built:
  assumes "CppHelperClass_init c r = Inr h"
  shows "helper_built st h" "h_class h = c"
  using assms by (auto simp: CppHelperClass_init_def bind_res_def intro: helper_built.created split: sum.splits)

lemma keeps_get_helper: "keepsd (class_step st c) (body_get_helper_class c)"
proof (rule keepsdI, drule get_helper_cases, elim disjE exE conjE)
  fix s a s' name classes h
  assume got: "get_helper_class c (cs_classes s) = Some (Some name, classes)"
    and h: "CppHelperClass_init c (class_pystruct (cs_classes s c)) = Inr h"
    and s': "s' = upd_body c (\<lambda>b. b\<lparr>b_helper_class := Some h\<rparr>)
      (s\<lparr>cs_classes := classes, cs_includes := List.insert ''<typeinfo>'' (cs_includes s)\<rparr>)"
  show "class_step st c s s'"
    using s' helper_init_built [OF h] get_helper_other [OF got] by (simp add: class_step_def upd_body_def body_ok_def)
qed (simp add: cstep.refl)

lemmas class_keeps = keepsd_total cstep.keepsd_bndd cstep.keepsd_seqsd cstep.keeps_rules cstep.keeps_seqs keeps_upd_class keeps_show
  keeps_get_helper

lemma keeps_with_helper:
  assumes "\<And>h a h'. f h = (Inr a, h') \<Longrightarrow> helper_built st h \<Longrightarrow> helper_built st h' \<and> h_class h' = h_class h"
  shows "keepsd (class_step st c) (with_helper_class c f)"
  unfolding with_helper_class_def using keeps_on_helper [of f st c, OF assms] by (auto intro!: class_keeps simp del: ret_run)

lemma keeps_add_virtual: "keepsd (class_step st c) (add_virtual st c m)"
  unfolding add_virtual_def
  by (intro class_keeps keeps_with_helper) (auto dest: add_virtual_method_step)

lemma keeps_public:
  assumes "filed_under c n cm"
  shows "keeps (class_step st c) (add_public_method c n cm)"
proof (rule keepsI)
  fix s a s'
  assume run: "add_public_method c n cm s = (Inr a, s')"
  define cm' where "cm' = (if n = ''__call__'' then force_keywords cm else cm)"
  have filed: "filed_under c n cm'"
    using assms by (auto simp: cm'_def filed_under_def force_keywords_def split: class_method.splits)
  obtain ov where ov: "map_of (b_methods (cs_bodies s c)) n = Some ov \<or> overload_objs ov = []"
      and s': "s' = upd_body c (\<lambda>b. b\<lparr>b_methods := AList.update n (overload_put cm' ov) (b_methods b)\<rparr>) s"
  proof (cases "map_of (b_methods (cs_bodies s c)) n")
    case None
    with run obtain p where "s' = upd_body c (\<lambda>b. b\<lparr>b_methods := AList.update n
        (overload_put cm' ((OverloadedWrapper_init (\<lambda>_. cm') n)\<lparr>ov_pystruct := p\<rparr>)) (b_methods b)\<rparr>) s"
      by (cases "class_pystruct (cs_classes s c)") (auto simp: add_public_method_def cm'_def Let_def)
    then show ?thesis by (intro that) (auto simp: overload_objs_def OverloadedWrapper_init_def)
  next
    case (Some ov)
    with run have "s' = upd_body c (\<lambda>b. b\<lparr>b_methods := AList.update n (overload_put cm' ov) (b_methods b)\<rparr>) s"
      by (auto simp: add_public_method_def cm'_def Let_def)
    with Some show ?thesis by (intro that) auto
  qed
  have "body_ok st c (cs_bodies s c) \<Longrightarrow> list_all (filed_under c n) (overload_objs ov)"
    using ov by (auto simp: body_ok_def)
  then have "body_ok st c (cs_bodies s c) \<Longrightarrow>
      body_ok st c ((cs_bodies s c)\<lparr>b_methods := AList.update n (overload_put cm' ov) (b_methods (cs_bodies s c))\<rparr>)"
    using filed unfolding body_ok_def by (simp add: update_conv')
  then show "class_step st c s s'" using s' by (simp add: class_step_def upd_body_def)
qed

lemma adopted:
  "adopt_method c pystruct m = Inr m' \<Longrightarrow> m_own_class m' = Some c \<and> m_visibility m' = m_visibility m \<and> m_mangled_name m' = m_mangled_name m"
  "adopt_function pe c pystruct f = Inr f' \<Longrightarrow> f_custom_name f' = f_custom_name f"
  by (auto simp: adopt_method_def set_class_def adopt_function_def Function_set_module_def bind_res_def
      split: prod.splits sum.splits list.splits if_splits elim!: bnd_eq_InrE)

lemma keeps_nonpublic:
  assumes "m_visibility m \<noteq> ''public''" "m_own_class m = Some c"
  shows "keeps (class_step st c) (upd (upd_body c (\<lambda>b. b\<lparr>b_nonpublic_methods := b_nonpublic_methods b @ [m]\<rparr>)))"
  by (rule keeps_upd_body) (use assms in \<open>simp add: body_ok_def\<close>)

lemma keepsd_lift: "(\<And>a. r = Inr a \<Longrightarrow> keepsd (class_step st c) (f a)) \<Longrightarrow> keepsd (class_step st c) (bndd (total (lift_res r)) f)"
  by (cases r) (auto simp: keepsd_def bndd_def)

lemma keeps_filing:
  assumes m: "m_own_class m = Some c"
  shows "keepsd (class_step st c)
     (if m_visibility m = ''protected'' \<and> \<not> m_is_virtual m then with_helper_class c (new_parent_caller st m)
      else if m_visibility m = ''public'' then total (add_public_method c (m_mangled_name m) (Cpp_Meth m))
      else total (upd (upd_body c (\<lambda>b. b\<lparr>b_nonpublic_methods := b_nonpublic_methods b @ [m]\<rparr>))))"
proof -
  have "filed_under c (m_mangled_name m) (Cpp_Meth m)" if "m_visibility m = ''public''"
    using m that by (simp add: filed_under_def)
  then show ?thesis
    using m by (auto intro!: keepsd_total keeps_with_helper keeps_public keeps_nonpublic dest: new_parent_caller_step)
qed

lemma keepsd_if: "keepsd R m \<Longrightarrow> keepsd R n \<Longrightarrow> keepsd R (if b then m else n)"
  by simp

lemma keeps_add_method_obj: "keepsd (class_step st c) (add_method_obj st pe c cm)"
proof (cases cm)
  case (Func_Meth f)
  have filed: "keeps (class_step st c) (add_public_method c (opt_str (f_custom_name f)) (Func_Meth f'))"
    if "adopt_function pe c p f = Inr f'" for p f'
    using adopted(2) [OF that] by (intro keeps_public) (simp add: filed_under_def)
  show ?thesis
    unfolding add_method_obj_def Func_Meth class_method.case by (intro keepsd_lift class_keeps) (rule filed)
next
  case (Cpp_Meth m)
  have filing: "m_own_class m' = Some c" if "adopt_method c p m = Inr m'" for p m'
    using adopted(1) [OF that] by simp
  show ?thesis
    unfolding add_method_obj_def Cpp_Meth class_method.case
    by (intro keepsd_lift keeps_filing keeps_add_virtual keepsd_if class_keeps) (erule filing)
qed

lemma keeps_disable: "keeps (class_step st c) (upd (disable_helper_class c))"
  by (rule keepsI) (auto simp: class_step_def disable_helper_class_def upd_body_def upd_class_def body_ok_def)

lemma keeps_read_helper: "keeps (class_step st c) (on_helper c (gets f))"
  by (rule keeps_on_helper) simp

lemma keeps_add_dummy: "keepsd (class_step st c) (add_dummy_method st c m)"
  unfolding add_dummy_method_def
  by (intro keepsd_lift class_keeps)
    (auto intro!: class_keeps keeps_upd_tables keeps_add_virtual keeps_disable keeps_read_helper simp: tables_def simp del: ret_run)

lemma keeps_inherit: "keepsd (class_step st c) (inherit_helper_class_parent_virtuals st c)"
proof -
  have "keeps (class_step st c) (inherit_virtual st c cm)" for cm
    by (cases cm) (auto simp: inherit_virtual_def intro!: cstep.keeps_rules keeps_on_helper dest: add_virtual_method_step simp del: ret_run)
  then have "keeps (class_step st c) (for_each (inherit_virtual st c) cms)" for cms
    by (intro cstep.keeps_for_each)
  then show ?thesis
    by (auto simp: keepsd_def inherit_helper_class_parent_virtuals_def dest: keepsD split: option.splits)
qed

section \<open>States that a description of classes reaches\<close>

text \<open>Operations that leave the methods of every class, and what is shown of them, as they are.\<close>

definition method_tables :: "class_state \<Rightarrow> nat \<Rightarrow>
    ((string \<times> class_method overload) list \<times> meth list \<times> meth list) \<times> (string \<times> method_obj list) list \<times> method_obj list \<times> method_obj list" where
  "method_tables s d = ((b_methods (cs_bodies s d), b_nonpublic_methods (cs_bodies s d), b_dummy_methods (cs_bodies s d)),
     cc_methods (cs_classes s d), cc_nonpublic_methods (cs_classes s d), cc_dummy_methods (cs_classes s d))"

definition quiet :: "settings \<Rightarrow> nat \<Rightarrow> class_state \<Rightarrow> class_state \<Rightarrow> bool" where
  "quiet st c s s' \<longleftrightarrow> class_step st c s s' \<and> (\<forall>d. method_tables s' d = method_tables s d)"

interpretation quiet: step_relation "quiet st c" for st c
  by unfold_locales (auto simp: quiet_def intro: cstep.refl cstep.trans)

lemma shown_tables: "method_tables s' d = method_tables s d \<Longrightarrow> shown s' d = shown s d"
  by (simp add: method_tables_def shown_def)

lemma quiet_body:
  "(\<And>b. tables (f b) = tables b \<and> b_dummy_methods (f b) = b_dummy_methods b) \<Longrightarrow> keeps (quiet st c) (upd (upd_body c f))"
  using keeps_upd_tables [of f st c] by (auto simp: quiet_def keeps_def method_tables_def upd_body_def tables_def)

lemma quiet_class:
  "(\<And>k. (cc_methods (f k), cc_nonpublic_methods (f k), cc_dummy_methods (f k)) =
     (cc_methods k, cc_nonpublic_methods k, cc_dummy_methods k)) \<Longrightarrow> keeps (quiet st c) (upd (upd_class c f))"
  using keeps_upd_class [of st c f] by (auto simp: quiet_def keeps_def method_tables_def upd_class_def)

lemmas quiet_rules = quiet.keeps_rules quiet.keeps_seqs quiet_body quiet_class

lemma quiet_attributes:
  "keeps (quiet st c) (add_static_attribute c n vt k)" "keeps (quiet st c) (add_instance_attribute c n vt k g w)"
  unfolding add_static_attribute_def add_instance_attribute_def
  by (auto simp: tables_def simp del: ret_run intro!: quiet_rules split: sum.split py_error.split)

lemma quiet_constructor_obj: "keeps (quiet st c) (add_constructor_obj pe c k)"
  unfolding add_constructor_obj_def
  by (auto simp: tables_def simp del: ret_run intro!: quiet_rules split: sum.split prod.split list.split)

lemma quiet_constructor: "keeps (quiet st c) (add_constructor pe c created)"
  unfolding add_constructor_def
  by (auto simp del: ret_run intro!: quiet_rules quiet_constructor_obj split: sum.split py_error.split)

lemma quiet_inherit_constructors: "keeps (quiet st c) (inherit_default_constructors st' pe c)"
  unfolding inherit_default_constructors_def inherit_constructor_def
  by (auto simp del: ret_run intro!: quiet_rules quiet.keeps_for_each quiet_constructor split: list.split)

lemma quiet_traits: "keeps (quiet st c) (add_container_traits c created)"
  unfolding add_container_traits_def by (auto simp: tables_def simp del: ret_run intro!: quiet_rules)

lemma quiet_others:
  "quiet st c s (add_helper_class_hook c hook s)" "quiet st c s (add_output_stream_operator c s)"
  "quiet st c s (body_set_helper_class_disabled c flag s)" "quiet st c s (set_instance_creation_function c create s)"
  "quiet st c s (set_post_instance_creation_function c create s)"
  by (auto simp: quiet_def class_step_def method_tables_def add_helper_class_hook_def add_output_stream_operator_def
      body_set_helper_class_disabled_def disable_helper_class_def set_instance_creation_function_def
      set_post_instance_creation_function_def Cpp_Class.set_helper_class_disabled_def
      upd_body_def upd_class_def body_ok_def)

text \<open>The virtual methods of the parents go to the helper class only.\<close>

lemma on_helper_tables: "on_helper c f s = (r, s') \<Longrightarrow> method_tables s' d = method_tables s d"
  by (auto simp: on_helper_def method_tables_def upd_body_def split: option.splits prod.splits)

lemma quiet_inherit: "keepsd (quiet st c) (inherit_helper_class_parent_virtuals st c)"
proof -
  have "keeps (\<lambda>s s'. \<forall>d. method_tables s' d = method_tables s d) (inherit_virtual st c cm)" for cm
    by (rule keepsI) (auto simp: inherit_virtual_def when_py_def elim!: bnd_eq_InrE dest: on_helper_tables
        split: class_method.splits if_splits)
  moreover have "step_relation (\<lambda>s s'. \<forall>d. method_tables s' d = method_tables s d)"
    by unfold_locales auto
  ultimately have "keeps (\<lambda>s s'. \<forall>d. method_tables s' d = method_tables s d) (for_each (inherit_virtual st c) cms)" for cms
    by (intro step_relation.keeps_for_each)
  then have "keepsd (\<lambda>s s'. \<forall>d. method_tables s' d = method_tables s d) (inherit_helper_class_parent_virtuals st c)"
    by (auto simp: keepsd_def inherit_helper_class_parent_virtuals_def dest: keepsD split: option.splits)
  then show ?thesis using keeps_inherit [of st c] by (simp add: quiet_def keepsd_def)
qed

text \<open>Adding a method ends with the description brought up to date.\<close>

lemma ends_with_show:
  assumes "bndd m (\<lambda>_. total (upd (show_methods c))) s = Some (Inr a, s')"
  shows "shown s' c"
  using assms by (auto elim!: bndd_InrE simp: shown_def show_methods_def upd_class_def Let_def)

lemma shown_method_obj: "add_method_obj st pe c cm s = Some (Inr a, s') \<Longrightarrow> shown s' c"
  unfolding add_method_obj_def by (erule bndd_InrE) (erule ends_with_show)

lemma shown_dummy: "add_dummy_method st c m s = Some (Inr a, s') \<Longrightarrow> shown s' c"
  unfolding add_dummy_method_def
  by (auto elim!: bndd_InrE simp: shown_def show_methods_def upd_class_def Let_def)

text \<open>
  The states in which only the methods of \<open>CppClass\<close> changed the classes, each without an exception.
\<close>

inductive class_reached :: "settings \<Rightarrow> param_env \<Rightarrow> class_state \<Rightarrow> bool" for st pe where
  start: "(\<And>c. \<exists>doc. cs_bodies s c = class_body_init doc \<and> cc_methods (cs_classes s c) = [] \<and>
      cc_nonpublic_methods (cs_classes s c) = [] \<and> cc_dummy_methods (cs_classes s c) = []) \<Longrightarrow> class_reached st pe s"
| added_method: "class_reached st pe s \<Longrightarrow> add_method st pe c created virtual_given dummy s = Some (Inr r, s') \<Longrightarrow> class_reached st pe s'"
| given_method: "class_reached st pe s \<Longrightarrow> add_given_method st pe c cm name s = Some (Inr u, s') \<Longrightarrow> class_reached st pe s'"
| created_method: "class_reached st pe s \<Longrightarrow> add_created_method st pe c made s = Some (Inr r, s') \<Longrightarrow> class_reached st pe s'"
| inherit: "class_reached st pe s \<Longrightarrow> inherit_helper_class_parent_virtuals st c s = Some (Inr u, s') \<Longrightarrow> class_reached st pe s'"
| constructor: "class_reached st pe s \<Longrightarrow> add_constructor pe c made_ctor s = (Inr r, s') \<Longrightarrow> class_reached st pe s'"
| inherit_ctors: "class_reached st pe s \<Longrightarrow> inherit_default_constructors st pe c s = (Inr u, s') \<Longrightarrow> class_reached st pe s'"
| static_attribute: "class_reached st pe s \<Longrightarrow> add_static_attribute c n vt k s = (Inr u, s') \<Longrightarrow> class_reached st pe s'"
| instance_attribute: "class_reached st pe s \<Longrightarrow> add_instance_attribute c n vt k g w s = (Inr u, s') \<Longrightarrow> class_reached st pe s'"
| traits: "class_reached st pe s \<Longrightarrow> add_container_traits c made_traits s = (Inr u, s') \<Longrightarrow> class_reached st pe s'"
| hook: "class_reached st pe s \<Longrightarrow> class_reached st pe (add_helper_class_hook c f s)"
| stream: "class_reached st pe s \<Longrightarrow> class_reached st pe (add_output_stream_operator c s)"
| disabled: "class_reached st pe s \<Longrightarrow> class_reached st pe (body_set_helper_class_disabled c flag s)"
| creation: "class_reached st pe s \<Longrightarrow> class_reached st pe (set_instance_creation_function c create s)"
| post_creation: "class_reached st pe s \<Longrightarrow> class_reached st pe (set_post_instance_creation_function c create s)"

definition class_inv :: "settings \<Rightarrow> class_state \<Rightarrow> bool" where
  "class_inv st s \<longleftrightarrow> (\<forall>c. shown s c \<and> body_ok st c (cs_bodies s c))"

lemma class_inv_quiet: "class_inv st s \<Longrightarrow> quiet st c s s' \<Longrightarrow> class_inv st s'"
  unfolding class_inv_def quiet_def class_step_def using shown_tables by metis

lemma class_inv_shown:
  assumes inv: "class_inv st s" and step: "class_step st c s s'" and c: "shown s' c"
  shows "class_inv st s'"
proof -
  have "shown s' d" for d
    using inv step c by (cases "d = c") (auto simp: class_inv_def class_step_def shown_def)
  moreover have "body_ok st d (cs_bodies s' d)" for d
    using inv step by (cases "d = c") (auto simp: class_inv_def class_step_def)
  ultimately show ?thesis by (simp add: class_inv_def)
qed

lemma class_inv_method_obj: "class_inv st s \<Longrightarrow> add_method_obj st pe c cm s = Some (Inr u, s') \<Longrightarrow> class_inv st s'"
  using class_inv_shown keepsdD [OF keeps_add_method_obj] shown_method_obj by blast

lemma class_inv_dummy: "class_inv st s \<Longrightarrow> add_dummy_method st c m s = Some (Inr u, s') \<Longrightarrow> class_inv st s'"
  using class_inv_shown keepsdD [OF keeps_add_dummy] shown_dummy by blast

lemma class_inv_created: "class_inv st s \<Longrightarrow> add_created_method st pe c made s = Some (Inr r, s') \<Longrightarrow> class_inv st s'"
  unfolding add_created_method_def
  by (auto split: sum.split_asm py_error.split_asm elim!: bndd_InrE intro: class_inv_method_obj)

lemma class_inv_method:
  "class_inv st s \<Longrightarrow> add_method st pe c created virtual_given dummy s = Some (Inr r, s') \<Longrightarrow> class_inv st s'"
  unfolding add_method_def
  by (auto split: sum.split_asm py_error.split_asm if_split_asm elim!: bndd_InrE intro: class_inv_method_obj class_inv_dummy)

lemma class_reached_inv: "class_reached st pe s \<Longrightarrow> class_inv st s"
proof (induction rule: class_reached.induct)
  case (start s)
  show ?case unfolding class_inv_def
  proof
    fix c
    obtain doc where "cs_bodies s c = class_body_init doc" "cc_methods (cs_classes s c) = []"
        "cc_nonpublic_methods (cs_classes s c) = []" "cc_dummy_methods (cs_classes s c) = []"
      using start by metis
    then show "shown s c \<and> body_ok st c (cs_bodies s c)" by (simp add: shown_def body_ok_def class_body_init_def)
  qed
next
  case (given_method s c cm name u s')
  then show ?case unfolding add_given_method_def by (elim class_inv_method_obj)
qed (blast intro: class_inv_method class_inv_created class_inv_quiet quiet_others
    dest: keepsD [OF quiet_constructor] keepsD [OF quiet_traits] keepsD [OF quiet_inherit_constructors] keepsD [OF quiet_attributes(1)] keepsD [OF quiet_attributes(2)] keepsdD [OF quiet_inherit])+

text \<open>
  C5. Whatever methods, constructors and attributes were added to the classes: every table of overloads holds
  only public methods that belong to the class and have the name of the table, the methods kept apart are not
  public, a helper class stands for the class itself and was built by its own operations, and the description
  that other classes and the type handlers read lists exactly these methods.
\<close>

theorem class_tables_invariant:
  assumes reached: "class_reached st pe s"
  shows "(\<forall>n ov m. map_of (b_methods (cs_bodies s c)) n = Some ov \<and> Cpp_Meth m \<in> set (overload_objs ov) \<longrightarrow>
      m_mangled_name m = n \<and> m_visibility m = ''public'' \<and> m_own_class m = Some c) \<and>
    (\<forall>m \<in> set (b_nonpublic_methods (cs_bodies s c)). m_visibility m \<noteq> ''public'' \<and> m_own_class m = Some c) \<and>
    (\<forall>h. b_helper_class (cs_bodies s c) = Some h \<longrightarrow> helper_built st h \<and> h_class h = c) \<and>
    cc_methods (cs_classes s c) = map (\<lambda>(n, ov). (n, map class_method_obj (overload_objs ov))) (b_methods (cs_bodies s c)) \<and>
    cc_nonpublic_methods (cs_classes s c) = map method_obj_of (b_nonpublic_methods (cs_bodies s c))"
proof -
  have shown: "shown s c" and ok: "body_ok st c (cs_bodies s c)"
    using class_reached_inv [OF reached] by (simp_all add: class_inv_def)
  have "list_all (filed_under c n) (overload_objs ov)" if "map_of (b_methods (cs_bodies s c)) n = Some ov" for n ov
    using ok that by (simp add: body_ok_def)
  then have "m_mangled_name m = n \<and> m_visibility m = ''public'' \<and> m_own_class m = Some c"
    if "map_of (b_methods (cs_bodies s c)) n = Some ov" "Cpp_Meth m \<in> set (overload_objs ov)" for n ov m
    using that by (force simp: list_all_iff filed_under_def)
  then show ?thesis using shown ok by (auto simp: shown_def body_ok_def list_all_iff split: option.splits)
qed

definition sample_state :: class_state where
  "sample_state = \<lparr>cs_classes = (\<lambda>_. sample_root\<lparr>cc_pystruct := Some ''PyA''\<rparr>), cs_bodies = (\<lambda>_. class_body_init None), cs_includes = []\<rparr>"

definition sample_params :: param_env where
  "sample_params = \<lparr>pe_class = (\<lambda>_. None), pe_copied_class = (\<lambda>_. None), pe_ref_class = (\<lambda>_. None), pe_take_self = (\<lambda>p. p), pe_module = (\<lambda>_. \<lparr>mi_prefix = ''m'', mi_cpp_namespace_prefix = ''::''\<rparr>)\<rparr>"

lemma sample_root_methods: "cc_methods sample_root = []" "cc_nonpublic_methods sample_root = []" "cc_dummy_methods sample_root = []"
  by code_simp+

lemma sample_state_run:
  "case add_given_method default_settings sample_params 0 (Cpp_Meth sample_method) None sample_state of
     None \<Rightarrow> False
   | Some (r, s) \<Rightarrow> r = Inr () \<and> map fst (b_methods (cs_bodies s 0)) = [''f''] \<and> map (length \<circ> snd) (cc_methods (cs_classes s 0)) = [1]"
  by code_simp

theorem class_tables_invariant_witness:
  "\<exists>s. class_reached default_settings sample_params s \<and> map fst (b_methods (cs_bodies s 0)) = [''f''] \<and>
     map fst (cc_methods (cs_classes s 0)) = [''f''] \<and> cc_methods (cs_classes s 1) = []"
proof -
  obtain s where run: "add_given_method default_settings sample_params 0 (Cpp_Meth sample_method) None sample_state = Some (Inr (), s)"
      and names: "map fst (b_methods (cs_bodies s 0)) = [''f'']"
    using sample_state_run by (auto split: option.splits prod.splits)
  have "class_reached default_settings sample_params sample_state"
    by (rule class_reached.start) (auto simp: sample_state_def sample_root_methods)
  then have reached: "class_reached default_settings sample_params s" using run by (rule class_reached.given_method)
  have "map fst (cc_methods (cs_classes s 0)) = [''f'']"
    using class_tables_invariant [OF reached, of 0] names by (simp add: comp_def case_prod_beta)
  moreover have "cc_methods (cs_classes s 1) = cc_methods (cs_classes sample_state 1)"
    using keepsdD [OF keeps_add_method_obj run [unfolded add_given_method_def]] by (simp add: class_step_def)
  ultimately show ?thesis using reached names by (auto simp: sample_state_def sample_root_methods)
qed

end
