(* ===== verification/Class_Text.thy ===== *)
theory Class_Text
  imports Class_Container
begin

text \<open>
  The C++ texts that a class writes (\<open>src/pybindgen/cppclass.py\<close>), for its description \<open>c\<close> and the name \<open>p\<close> of its
  instance structure.
\<close>

section \<open>Declarations\<close>

definition class_struct_text :: "cpp_class \<Rightarrow> string \<Rightarrow> string" where
  "class_struct_text c p = (if cc_allow_subclassing c then
     join nl [
       [],
       ''typedef struct {'',
       ''    PyObject_HEAD'',
       ''    '' @ cc_full_name c @ '' *obj;'',
       ''    PyObject *inst_dict;'',
       ''    PyBindGenWrapperFlags flags:8;'',
       ''} '' @ p @ '';'',
       ''    '']
   else
     join nl [
       [],
       ''typedef struct {'',
       ''    PyObject_HEAD'',
       ''    '' @ cc_full_name c @ '' *obj;'',
       ''    PyBindGenWrapperFlags flags:8;'',
       ''} '' @ p @ '';'',
       ''    ''])"

definition is_imported_class :: "cpp_class \<Rightarrow> bool" where
  "is_imported_class c = (case cc_import_from_module c of None \<Rightarrow> False | Some s \<Rightarrow> s \<noteq> [])"

definition type_declarations :: "cpp_class \<Rightarrow> bool \<Rightarrow> sink_cmd list" where
  "type_declarations c no_static_attributes =
     (if is_imported_class c then [
        Writeln (''extern PyTypeObject *_'' @ cc_pytypestruct c @ '';''),
        Writeln (''#define '' @ cc_pytypestruct c @ '' (*_'' @ cc_pytypestruct c @ '')'')]
      else Writeln (''extern PyTypeObject '' @ cc_pytypestruct c @ '';'') #
        (if no_static_attributes then [] else [Writeln (''extern PyTypeObject Py'' @ cc_metaclass_name c @ ''_Type;'')]))"

definition type_map_class :: string where
  "type_map_class = join nl [
       [],
       [],
       ''#include <map>'',
       ''#include <string>'',
       ''#include <typeinfo>'',
       ''#if defined(__GNUC__) && __GNUC__ >= 3'',
       ''# include <cxxabi.h>'',
       ''#endif'',
       [],
       ''#define PBG_TYPEMAP_DEBUG 0'',
       [],
       ''namespace pybindgen {'',
       [],
       ''class TypeMap'',
       ''{'',
       ''   std::map<std::string, PyTypeObject *> m_map;'',
       [],
       ''public:'',
       [],
       ''   TypeMap() {}'',
       [],
       ''   void register_wrapper(const std::type_info &cpp_type_info, PyTypeObject *python_wrapper)'',
       ''   {'',
       [],
       ''#if PBG_TYPEMAP_DEBUG'',
       ''   std::cerr << '' @ dq @ ''register_wrapper(this='' @ dq @ '' << this << '' @ dq @ '', type_name='' @ dq @ '' << cpp_type_info.name()'',
       ''             << '' @ dq @ '', python_wrapper='' @ dq @ '' << python_wrapper->tp_name << '' @ dq @ '')'' @ dq @ '' << std::endl;'',
       ''#endif'',
       [],
       ''       m_map[std::string(cpp_type_info.name())] = python_wrapper;'',
       ''   }'',
       [],
       []]"

definition type_map_lookup_gcc :: string where
  "type_map_lookup_gcc = join nl [
       [],
       ''   PyTypeObject * lookup_wrapper(const std::type_info &cpp_type_info, PyTypeObject *fallback_wrapper)'',
       ''   {'',
       [],
       ''#if PBG_TYPEMAP_DEBUG'',
       ''   std::cerr << '' @ dq @ ''lookup_wrapper(this='' @ dq @ '' << this << '' @ dq @ '', type_name='' @ dq @ '' << cpp_type_info.name() << '' @ dq @ '')'' @ dq @ '' << std::endl;'',
       ''#endif'',
       [],
       ''       PyTypeObject *python_wrapper = m_map[cpp_type_info.name()];'',
       ''       if (python_wrapper)'',
       ''           return python_wrapper;'',
       ''       else {'',
       ''#if defined(__GNUC__) && __GNUC__ >= 3'',
       [],
       ''           // Get closest (in the single inheritance tree provided by cxxabi.h)'',
       ''           // registered python wrapper.'',
       ''           const abi::__si_class_type_info *_typeinfo ='',
       ''               dynamic_cast<const abi::__si_class_type_info*> (&cpp_type_info);'',
       ''#if PBG_TYPEMAP_DEBUG'',
       ''          std::cerr << '' @ dq @ ''  -> looking at C++ type '' @ dq @ '' << _typeinfo->name() << std::endl;'',
       ''#endif'',
       ''           while (_typeinfo && (python_wrapper = m_map[std::string(_typeinfo->name())]) == 0) {'',
       ''               _typeinfo = dynamic_cast<const abi::__si_class_type_info*> (_typeinfo->__base_type);'',
       ''#if PBG_TYPEMAP_DEBUG'',
       ''               std::cerr << '' @ dq @ ''  -> looking at C++ type '' @ dq @ '' << _typeinfo->name() << std::endl;'',
       ''#endif'',
       ''           }'',
       [],
       ''#if PBG_TYPEMAP_DEBUG'',
       ''          if (python_wrapper) {'',
       ''              std::cerr << '' @ dq @ ''  -> found match '' @ dq @ '' << std::endl;'',
       ''          } else {'',
       ''              std::cerr << '' @ dq @ ''  -> return fallback wrapper'' @ dq @ '' << std::endl;'',
       ''          }'',
       ''#endif'',
       [],
       ''           return python_wrapper? python_wrapper : fallback_wrapper;'',
       [],
       ''#else // non gcc 3+ compilers can only match against explicitly registered classes, not hidden subclasses'',
       ''           return fallback_wrapper;'',
       ''#endif'',
       ''       }'',
       ''   }'',
       ''};'',
       [],
       ''}'',
       []]"

definition type_map_lookup :: string where
  "type_map_lookup = join nl [
       [],
       ''   PyTypeObject * lookup_wrapper(const std::type_info &cpp_type_info, PyTypeObject *fallback_wrapper)'',
       ''   {'',
       [],
       ''#if PBG_TYPEMAP_DEBUG'',
       ''   std::cerr << '' @ dq @ ''lookup_wrapper(this='' @ dq @ '' << this << '' @ dq @ '', type_name='' @ dq @ '' << cpp_type_info.name() << '' @ dq @ '')'' @ dq @ '' << std::endl;'',
       ''#endif'',
       [],
       ''       PyTypeObject *python_wrapper = m_map[cpp_type_info.name()];'',
       ''       return python_wrapper? python_wrapper : fallback_wrapper;'',
       ''   }'',
       ''};'',
       [],
       ''}'',
       []]"

text \<open>The class of type maps, once per module, and the map of this class.\<close>

definition type_map_cmds :: "settings \<Rightarrow> sink_cmd list" where
  "type_map_cmds st = [Writeln type_map_class, Writeln (if st_gcc_rtti_abi_complete st then type_map_lookup_gcc else type_map_lookup)]"

definition type_map_declaration :: "cpp_class \<Rightarrow> string \<Rightarrow> sink_cmd list" where
  "type_map_declaration c typeid_map_name =
     (if is_imported_class c then [
        Writeln (nl @ ''extern pybindgen::TypeMap *_'' @ typeid_map_name @ '';'' @ nl),
        Writeln (''#define '' @ typeid_map_name @ '' (*_'' @ typeid_map_name @ '')'' @ nl)]
      else [Writeln (nl @ ''extern pybindgen::TypeMap '' @ typeid_map_name @ '';'' @ nl)])"

section \<open>Import from another module\<close>

text \<open>
  \<open>module_name, type_name = import_from_module.split(" named ")\<close>.  The type name is not used.
\<close>

definition import_module_name :: "string \<Rightarrow> string res" where
  "import_module_name import_from_module =
     (if occurs_in '' named '' import_from_module
      then case split_str '' named '' import_from_module of
          [module_name, type_name] \<Rightarrow> Inr module_name
        | _ \<Rightarrow> Inl (ValueError ''too many values to unpack'')
      else Inr import_from_module)"

definition import_type_map_text :: "string \<Rightarrow> string" where
  "import_type_map_text typeid_map_name = join nl [
     ''if (_cobj == NULL) {'',
     ''    _'' @ typeid_map_name @ '' = new pybindgen::TypeMap;'',
     ''    PyErr_Clear();'',
     ''} else {'',
     ''    _'' @ typeid_map_name @ '' = reinterpret_cast<pybindgen::TypeMap*> (PyCObject_AsVoidPtr (_cobj));'',
     ''    Py_DECREF(_cobj);'',
     ''}'']"

text \<open>\<open>%r\<close> of a text without quotes or other special characters.\<close>

definition quoted :: "string \<Rightarrow> string" where
  "quoted s = sq @ s @ sq"

section \<open>Destruction and garbage collection\<close>

definition get_delete_code :: "cpp_class \<Rightarrow> string res" where
  "get_delete_code c =
     (if cc_is_singleton c then Inr []
      else case cc_memory_policy c of
        Some policy \<Rightarrow> Inr (join nl [
          ''if (self->obj) {'',
          ''    '' @ cc_full_name c @ '' *tmp = self->obj;'',
          ''    self->obj = NULL;'',
          ''    '' @ get_free_code policy ''tmp'',
          ''}''])
      | None \<Rightarrow>
          if cc_incomplete_type c
          then Inl (CodeGenerationError (''Cannot finish generating class '' @ cc_full_name c @
            '': type is incomplete, but no free/unref_function defined''))
          else if cc_destructor_visibility c = ''public''
          then Inr (join nl [
            ''    '' @ cc_full_name c @ '' *tmp = self->obj;'',
            ''    self->obj = NULL;'',
            ''    if (!(self->flags&PYBINDGEN_WRAPPER_FLAG_OBJECT_NOT_OWNED)) {'',
            ''        delete tmp;'',
            ''    }''])
          else Inr (''    self->obj = NULL;'' @ nl))"

definition tp_clear_text :: "string \<Rightarrow> string \<Rightarrow> string" where
  "tp_clear_text p delete_code = join nl [
       [],
       ''static void'',
       p @ ''__tp_clear'' @ ''('' @ p @ '' *self)'',
       ''{'',
       ''    Py_CLEAR(self->inst_dict);'',
       ''    '' @ delete_code,
       ''}'',
       []]"

definition peekref_code :: "cpp_class \<Rightarrow> string" where
  "peekref_code c = (case cc_memory_policy c of
     Some (ReferenceCountingMethodsPolicy _ _ (Some peekref)) \<Rightarrow> '' && self->obj->'' @ peekref @ ''() == 1''
   | _ \<Rightarrow> [])"

definition visit_self_text :: "cpp_class \<Rightarrow> string option \<Rightarrow> string" where
  "visit_self_text c helper_name = (case helper_name of
     None \<Rightarrow> []
   | Some h \<Rightarrow> join nl [
       [],
       ''    if (self->obj && typeid(*self->obj).name() == typeid('' @ h @ '').name() '' @ peekref_code c @ '')'',
       ''        Py_VISIT((PyObject *) self);'',
       []])"

definition tp_traverse_text :: "cpp_class \<Rightarrow> string \<Rightarrow> string option \<Rightarrow> string" where
  "tp_traverse_text c p helper_name = join nl [
       [],
       ''static int'',
       p @ ''__tp_traverse'' @ ''('' @ p @ '' *self, visitproc visit, void *arg)'',
       ''{'',
       ''    Py_VISIT(self->inst_dict);'',
       ''    '' @ visit_self_text c helper_name,
       ''    return 0;'',
       ''}'',
       []]"

definition tp_dealloc_head :: "string \<Rightarrow> string" where
  "tp_dealloc_head p = join nl [
       [],
       ''static void'',
       ''_wrap_'' @ p @ ''__tp_dealloc'' @ ''('' @ p @ '' *self)'',
       ''{'']"

section \<open>Text, hash and comparison\<close>

definition tp_str_text :: "string \<Rightarrow> string" where
  "tp_str_text p = join nl [
       [],
       [],
       ''static PyObject *'',
       ''_wrap_'' @ p @ ''__tp_str'' @ ''('' @ p @ '' *self)'',
       ''{'',
       ''    std::ostringstream oss;'',
       ''    oss << *self->obj;'',
       ''    return PyString_FromString(oss.str ().c_str ());'',
       ''}'',
       [],
       []]"

definition tp_hash_text :: "string \<Rightarrow> string" where
  "tp_hash_text p = join nl [
       [],
       [],
       ''static long'',
       ''_wrap_'' @ p @ ''__tp_hash'' @ ''('' @ p @ '' *self)'',
       ''{'',
       ''    return (long) self->obj;'',
       ''}'',
       [],
       []]"

definition tp_compare_text :: "string \<Rightarrow> string" where
  "tp_compare_text p = join nl [
       [],
       [],
       ''static int'',
       ''_wrap_'' @ p @ ''__tp_compare'' @ ''('' @ p @ '' *self, '' @ p @ '' *other)'',
       ''{'',
       ''    if (self->obj == other->obj) return 0;'',
       ''    if (self->obj > other->obj)  return -1;'',
       ''    return 1;'',
       ''}'',
       [],
       []]"

definition not_implemented_text :: string where
  "not_implemented_text = ''Py_INCREF(Py_NotImplemented);'' @ nl @ ''return Py_NotImplemented;''"

text \<open>One case of the switch over the operation: a comparison in C++, or \<open>NotImplemented\<close>.\<close>

definition compare_text :: "string \<Rightarrow> string" where
  "compare_text operator = join nl [
     ''if (*self->obj '' @ operator @ '' *other->obj) {'',
     ''    Py_INCREF(Py_True);'',
     ''    return Py_True;'',
     ''} else {'',
     ''    Py_INCREF(Py_False);'',
     ''    return Py_False;'',
     ''}'']"

definition wrap_comparison :: "string list \<Rightarrow> string \<times> string \<Rightarrow> sink_cmd list" where
  "wrap_comparison operators = (\<lambda>(name, opid_code). [
     Writeln (''case '' @ opid_code @ '':''),
     Indent,
     Writeln (if name \<in> set operators then compare_text name else not_implemented_text),
     Unindent])"

definition rich_comparisons :: "(string \<times> string) list" where
  "rich_comparisons = [(''<'', ''Py_LT''), (''<='', ''Py_LE''), (''=='', ''Py_EQ''), (''!='', ''Py_NE''), (''>='', ''Py_GE''), (''>'', ''Py_GT'')]"

definition tp_richcompare_cmds :: "cpp_class \<Rightarrow> string \<Rightarrow> sink_cmd list" where
  "tp_richcompare_cmds c p =
     [Writeln (''static PyObject*'' @ nl @ ''_wrap_'' @ p @ ''__tp_richcompare ('' @ p @ '' *PYBINDGEN_UNUSED(self), '' @ p @ '' *other, int opid)''),
      Writeln ''{'',
      Indent,
      Writeln (join nl [
         [],
         ''if (!PyObject_IsInstance((PyObject*) other, (PyObject*) &'' @ cc_pytypestruct c @ '')) {'',
         ''    Py_INCREF(Py_NotImplemented);'',
         ''    return Py_NotImplemented;'',
         ''}'']),
      Writeln (''switch (opid)'' @ nl @ ''{'')] @
     concat (map (wrap_comparison (cc_binary_comparison_operators c)) rich_comparisons) @
     [Writeln ''} /* closes switch (opid) */'',
      Writeln not_implemented_text,
      Unindent,
      Writeln (''}'' @ nl)]"

section \<open>Operators\<close>

text \<open>One overload of an operator: the operands are converted; when that fails, the next overload is tried.\<close>

definition binary_case :: "string \<Rightarrow> string \<times> string \<Rightarrow> string \<times> string \<Rightarrow> string \<times> string \<Rightarrow> sink_cmd list" where
  "binary_case op_symbol retval left right = [
     Writeln ''{'',
     Indent,
     Writeln (snd left @ '' left;''),
     Writeln (snd right @ '' right;''),
     Writeln (''if ('' @ fst left @ ''(py_left, &left) && '' @ fst right @ ''(py_right, &right)) {''),
     Indent,
     Writeln (snd retval @ '' result = (left '' @ op_symbol @ '' right);''),
     Writeln (''return '' @ fst retval @ ''(&result);''),
     Unindent,
     Writeln ''}'',
     Writeln ''PyErr_Clear();'',
     Unindent,
     Writeln ''}'']"

definition unary_case :: "string \<Rightarrow> string \<times> string \<Rightarrow> string \<times> string \<Rightarrow> sink_cmd list" where
  "unary_case op_symbol retval left = [
     Writeln ''{'',
     Indent,
     Writeln (snd left @ '' self;''),
     Writeln (''if ('' @ fst left @ ''(py_self, &self)) {''),
     Indent,
     Writeln (snd retval @ '' result = '' @ op_symbol @ ''(self);''),
     Writeln (''return '' @ fst retval @ ''(&result);''),
     Unindent,
     Writeln ''}'',
     Writeln ''PyErr_Clear();'',
     Unindent,
     Writeln ''}'']"

definition operator_end :: "sink_cmd list" where
  "operator_end = [Writeln ''Py_INCREF(Py_NotImplemented);'', Writeln ''return Py_NotImplemented;'', Unindent, Writeln ''}'']"

definition method_table_cmds :: "string \<Rightarrow> string list \<Rightarrow> sink_cmd list" where
  "method_table_cmds p method_defs =
     [Writeln (''static PyMethodDef '' @ p @ ''_methods[] = {''), Indent] @ map Writeln method_defs @
     [Writeln ''{NULL, NULL, 0, NULL}'', Unindent, Writeln ''};'']"

definition copy_head_text :: "string \<Rightarrow> string" where
  "copy_head_text p = join nl [
       [],
       ''static PyObject*'',
       ''_wrap_'' @ p @ ''__copy__'' @ ''('' @ p @ '' *self)'',
       ''{'',
       []]"

end
