(* ===== verification/Class_Code.thy ===== *)
theory Class_Code
  imports Class_Body Class_Text
begin

text \<open>
  The generation of a C++ class (\<open>src/pybindgen/cppclass.py\<close>): forward declarations, the import from another module,
  operators, sequence methods, constructors, methods, garbage collection, comparison and the type structure.
\<close>

section \<open>State\<close>

text \<open>
  The classes, the data of the root module, the block \<open>after_init\<close> of the module and the code sink.
\<close>

record class_gen =
  cg_state :: class_state
  cg_root :: root_data
  cg_after_init :: code_block
  cg_sink :: memory_sink

text \<open>What the generation reads of the module: whether it has no parent, its path, and the block before \<open>after_init\<close>.\<close>

record module_env =
  me_is_root :: bool
  me_path :: "string list"
  me_before_init :: "code_block list"

text \<open>
  The error handler, for the objects it is called with; the handlers of values: \<open>ThisClassReturn(full_name)\<close> of a
  class and \<open>ReturnValue.new(ctype)\<close>; \<open>settings.wrapper_registry\<close>; and the order in which the entries of a table of
  attributes are iterated.
\<close>

record class_env =
  ve_generation :: generation_env
  ve_method_handler :: "class_method error_handler option"
  ve_overload_handler :: "class_method overload error_handler option"
  ve_ctor_handler :: "ctor error_handler option"
  ve_accessor_handler :: "accessor error_handler option"
  ve_class_handler :: "nat error_handler option"
  ve_class_return :: "nat \<Rightarrow> value_handler res"
  ve_return_value :: "string \<Rightarrow> value_handler res option"
  ve_new_registry :: "string \<Rightarrow> registry"
  ve_iteritems :: getset_order

definition ve_settings :: "class_env \<Rightarrow> settings" where
  "ve_settings ve = ge_settings (ve_generation ve)"

section \<open>Parts of the state\<close>

definition cg_cmd :: "sink_cmd \<Rightarrow> (class_gen, unit) py" where
  "cg_cmd cmd = (\<lambda>g. case run_cmd memory_class cmd (cg_sink g) of (r, t) \<Rightarrow> (r, g\<lparr>cg_sink := t\<rparr>))"

definition cg_writeln :: "string \<Rightarrow> (class_gen, unit) py" where
  "cg_writeln text = cg_cmd (Writeln text)"

definition cg_cmds :: "sink_cmd list \<Rightarrow> (class_gen, unit) py" where
  "cg_cmds = for_each cg_cmd"

definition on_after :: "(code_block, 'a) py \<Rightarrow> (class_gen, 'a) py" where
  "on_after m = (\<lambda>g. case m (cg_after_init g) of (r, cb) \<Rightarrow> (r, g\<lparr>cg_after_init := cb\<rparr>))"

definition after_code :: "string \<Rightarrow> (class_gen, unit) py" where
  "after_code text = on_after (cb_write_code text)"

definition the_class :: "nat \<Rightarrow> (class_gen, cpp_class) py" where
  "the_class c = gets (\<lambda>g. cs_classes (cg_state g) c)"

definition the_body :: "nat \<Rightarrow> (class_gen, class_body) py" where
  "the_body c = gets (\<lambda>g. cs_bodies (cg_state g) c)"

definition upd_cg :: "(class_state \<Rightarrow> class_state) \<Rightarrow> (class_gen, unit) py" where
  "upd_cg f = upd (\<lambda>g. g\<lparr>cg_state := f (cg_state g)\<rparr>)"

definition on_state :: "(class_state, 'a) py \<Rightarrow> (class_gen, 'a) py" where
  "on_state m = (\<lambda>g. case m (cg_state g) of (r, s) \<Rightarrow> (r, g\<lparr>cg_state := s\<rparr>))"

definition on_stated :: "(class_state, 'a) pyd \<Rightarrow> (class_gen, 'a) pyd" where
  "on_stated m = (\<lambda>g. map_option (\<lambda>(r, s). (r, g\<lparr>cg_state := s\<rparr>)) (m (cg_state g)))"

text \<open>A question to the store of classes, which may not end and may change a cached answer.\<close>

definition ask_classes :: "(class_store \<Rightarrow> ('a \<times> class_store) option) \<Rightarrow> (class_gen, 'a) pyd" where
  "ask_classes f = on_stated (\<lambda>s. map_option (\<lambda>(a, cl). (Inr a, s\<lparr>cs_classes := cl\<rparr>)) (f (cs_classes s)))"

definition cg_pystruct :: "nat \<Rightarrow> (class_gen, string) py" where
  "cg_pystruct c = bnd (the_class c) (\<lambda>k. lift_res (class_pystruct k))"

definition get_registry :: "class_env \<Rightarrow> nat \<Rightarrow> (class_gen, registry) pyd" where
  "get_registry ve c = bndd (ask_classes (get_wrapper_registry (ve_new_registry ve) c)) (\<lambda>r. total (lift_res r))"

text \<open>The slots of the type of a class.\<close>

definition slot_default :: "nat \<Rightarrow> string \<Rightarrow> string \<Rightarrow> (class_gen, unit) py" where
  "slot_default c k v = upd_cg (upd_body c (\<lambda>b. b\<lparr>b_slots := setdefault (k, v) (b_slots b)\<rparr>))"

definition slot_put :: "nat \<Rightarrow> string \<Rightarrow> string \<Rightarrow> (class_gen, unit) py" where
  "slot_put c k v = upd_cg (upd_body c (\<lambda>b. b\<lparr>b_slots := AList.update k v (b_slots b)\<rparr>))"

text \<open>An action on a part of a body together with the code sink.\<close>

definition on_body_part ::
  "nat \<Rightarrow> (class_body \<Rightarrow> 'b) \<Rightarrow> ('b \<Rightarrow> class_body \<Rightarrow> class_body) \<Rightarrow> ('b \<times> memory_sink, 'a) py \<Rightarrow> (class_gen, 'a) py" where
  "on_body_part c get put m = (\<lambda>g.
     case m (get (cs_bodies (cg_state g) c), cg_sink g) of
       (r, (x, t)) \<Rightarrow> (r, g\<lparr>cg_state := upd_body c (put x) (cg_state g), cg_sink := t\<rparr>))"

definition on_class_helper :: "nat \<Rightarrow> (helper \<times> memory_sink, 'a) py \<Rightarrow> (class_gen, 'a) py" where
  "on_class_helper c m = (\<lambda>g.
     case b_helper_class (cs_bodies (cg_state g) c) of
       None \<Rightarrow> (Inl (AttributeError ''helper_class''), g)
     | Some h \<Rightarrow> (case m (h, cg_sink g) of
         (r, (h', t)) \<Rightarrow> (r, g\<lparr>cg_state := upd_body c (\<lambda>b. b\<lparr>b_helper_class := Some h'\<rparr>) (cg_state g), cg_sink := t\<rparr>)))"

text \<open>An action on the data of the root module together with the code sink.\<close>

definition on_rootd :: "(root_data \<times> memory_sink, 'a) pyd \<Rightarrow> (class_gen, 'a) pyd" where
  "on_rootd m = (\<lambda>g. map_option (\<lambda>(r, (rd, t)). (r, g\<lparr>cg_root := rd, cg_sink := t\<rparr>)) (m (cg_root g, cg_sink g)))"

section \<open>Methods of both kinds\<close>

definition method_case :: "(meth, 'a) py \<Rightarrow> (func, 'a) py \<Rightarrow> (class_method, 'a) py" where
  "method_case f g = (\<lambda>cm. case cm of
     Cpp_Meth m \<Rightarrow> (case f m of (r, m') \<Rightarrow> (r, Cpp_Meth m'))
   | Func_Meth k \<Rightarrow> (case g k of (r, k') \<Rightarrow> (r, Func_Meth k')))"

definition method_case_sink :: "(meth \<times> 't, 'a) py \<Rightarrow> (func \<times> 't, 'a) py \<Rightarrow> (class_method \<times> 't, 'a) py" where
  "method_case_sink f g = (\<lambda>(cm, t). case cm of
     Cpp_Meth m \<Rightarrow> (case f (m, t) of (r, (m', t')) \<Rightarrow> (r, (Cpp_Meth m', t')))
   | Func_Meth k \<Rightarrow> (case g (k, t) of (r, (k', t')) \<Rightarrow> (r, (Func_Meth k', t'))))"

definition class_method_ops :: "generation_env \<Rightarrow> 't sink_class \<Rightarrow> (class_method, 't) wrapper_ops" where
  "class_method_ops ge sk = (let mo = method_ops (ge_settings ge) (ge_classes ge) sk; fo = func_ops sk in
     \<lparr>wo_get_flags = method_case (wo_get_flags mo) (wo_get_flags fo),
      wo_generate = (\<lambda>name extra. method_case_sink (wo_generate mo name extra) (wo_generate fo name extra)),
      wo_set_force_parse = case_class_method (\<lambda>m. Cpp_Meth (wo_set_force_parse mo m)) (\<lambda>k. Func_Meth (wo_set_force_parse fo k)),
      wo_set_parse_error_return = (\<lambda>e. method_case (wo_set_parse_error_return mo e) (wo_set_parse_error_return fo e)),
      wo_reset_code_generation_state = method_case (wo_reset_code_generation_state mo) (wo_reset_code_generation_state fo),
      wo_get_py_method_def = (\<lambda>n. method_case (wo_get_py_method_def mo n) (wo_get_py_method_def fo n)),
      wo_wrapper_base_name = case_class_method (wo_wrapper_base_name mo) (wo_wrapper_base_name fo),
      wo_wrapper_actual_name = case_class_method (wo_wrapper_actual_name mo) (wo_wrapper_actual_name fo),
      wo_wrapper_return = case_class_method (wo_wrapper_return mo) (wo_wrapper_return fo),
      wo_wrapper_args = case_class_method (wo_wrapper_args mo) (wo_wrapper_args fo),
      wo_needs_overloading_interface = case_class_method (wo_needs_overloading_interface mo) (wo_needs_overloading_interface fo),
      wo_section = case_class_method (wo_section mo) (wo_section fo)\<rparr>)"

section \<open>Forward declarations\<close>

text \<open>The typeid map: the class of type maps is written once per module.\<close>

definition generate_typeid_map :: "settings \<Rightarrow> nat \<Rightarrow> string \<Rightarrow> (class_gen, unit) py" where
  "generate_typeid_map st c typeid_map_name =
     bnd (the_class c) (\<lambda>k. seqs [
       (\<lambda>g. case declare_one_time_definition (Py_Value (PyStr ''TypeIDMap'')) (cg_root g) of
          (Inl (KeyError _), rd) \<Rightarrow> (Inr (), g)
        | (Inl e, rd) \<Rightarrow> (Inl e, g)
        | (Inr _, rd) \<Rightarrow> cg_cmds (type_map_cmds st) (g\<lparr>cg_root := rd\<rparr>)),
       cg_cmds (type_map_declaration k typeid_map_name)])"

text \<open>
  The helper class: the virtual methods of the parents and the hooks come first.  When it turns out that it
  cannot be constructed, it is given up.
\<close>

definition forward_helper :: "class_env \<Rightarrow> nat \<Rightarrow> (class_gen, unit) pyd" where
  "forward_helper ve c = (let st = ve_settings ve in seqsd [
     on_stated (inherit_helper_class_parent_virtuals st c),
     bndd (on_stated (\<lambda>s. map_option (\<lambda>hooks. (Inr hooks, s)) (get_all_helper_class_hooks s c)))
       (\<lambda>hooks. total (for_each (\<lambda>hook. on_state (on_helper c hook)) hooks)),
     total (bnd (the_class c) (\<lambda>k. bnd (the_body c) (\<lambda>b.
       on_class_helper c (helper_forward_declarations (ve_generation ve) (is_imported_class k) (map k_parameters (b_constructors b)) memory_class)))),
     total (bnd (on_state (on_helper c (gets h_cannot_be_constructed))) (\<lambda>impossible.
       when_py impossible (upd_cg (disable_helper_class c))))])"

definition registry_forward :: "class_env \<Rightarrow> nat \<Rightarrow> bool \<Rightarrow> (class_gen, unit) pyd" where
  "registry_forward ve c imported =
     bndd (get_registry ve c) (\<lambda>reg. case registry_forward_declarations reg imported of
       (includes, cmds) \<Rightarrow> total (seqs [
         upd_cg (\<lambda>s. s\<lparr>cs_includes := fold List.insert includes (cs_includes s)\<rparr>),
         cg_cmds cmds]))"

definition class_forward_declarations :: "class_env \<Rightarrow> nat \<Rightarrow> (class_gen, unit) pyd" where
  "class_forward_declarations ve c =
     bndd (total (the_class c)) (\<lambda>k.
     bndd (total (the_body c)) (\<lambda>b.
     bndd (total (cg_pystruct c)) (\<lambda>p. seqsd [
       total (seqs [
         cg_writeln (class_struct_text k p),
         cg_writeln [],
         cg_cmds (type_declarations k (getset_empty (b_static_attributes b))),
         cg_writeln []]),
       (if b_helper_class b \<noteq> None then forward_helper ve c else total (ret ())),
       bndd (ask_classes (get_have_pure_virtual_methods c)) (\<lambda>pure. total (bnd (the_body c) (\<lambda>b.
         when_py (pure \<and> b_helper_class b = None)
           (upd_cg (upd_class c (set_cannot_be_constructed ''have pure virtual methods but no helper class'')))))),
       (case cc_typeid_map_name k of
          None \<Rightarrow> total (ret ())
        | Some n \<Rightarrow> total (generate_typeid_map (ve_settings ve) c n)),
       (case b_container_traits b of
          None \<Rightarrow> total (ret ())
        | Some xt \<Rightarrow> total (cg_cmds (traits_forward_declarations k p xt))),
       (if cc_parent k = None then registry_forward ve c (is_imported_class k) else total (ret ()))])))"

section \<open>Import from another module\<close>

definition import_type_map :: "cpp_class \<Rightarrow> string \<Rightarrow> string \<Rightarrow> (class_gen, unit) py" where
  "import_type_map k import_from_module typeid_map_name = seqs [
     cg_writeln (''pybindgen::TypeMap *_'' @ typeid_map_name @ '';''),
     after_code (''/* Import the '' @ quoted (cc_full_name k) @ '' class type map from module '' @ quoted import_from_module @ '' */''),
     after_code (''PyObject *_cobj = PyObject_GetAttrString(module, (char*) '' @ dq @ ''_'' @ typeid_map_name @ dq @ '');''),
     after_code (import_type_map_text typeid_map_name)]"

definition import_registry :: "class_env \<Rightarrow> nat \<Rightarrow> (class_gen, unit) pyd" where
  "import_registry ve c =
     bndd (get_registry ve c) (\<lambda>reg. case registry_generate_import reg ''module'' of
       (cmds, codes) \<Rightarrow> total (seqs [cg_cmds cmds, for_each after_code codes]))"

definition generate_class_helper :: "class_env \<Rightarrow> nat \<Rightarrow> (class_gen, string list option) py" where
  "generate_class_helper ve c =
     bnd (the_class c) (\<lambda>k. on_class_helper c (helper_generate (ve_generation ve) (is_imported_class k) memory_class))"

definition generate_import_from_module :: "class_env \<Rightarrow> module_env \<Rightarrow> nat \<Rightarrow> string \<Rightarrow> (class_gen, unit) pyd" where
  "generate_import_from_module ve me c import_from_module =
     bndd (total (the_class c)) (\<lambda>k.
     bndd (total (lift_res (import_module_name import_from_module))) (\<lambda>module_name. seqsd [
       total (seqs [
         cg_writeln (''PyTypeObject *_'' @ cc_pytypestruct k @ '';''),
         after_code (''/* Import the '' @ quoted (cc_full_name k) @ '' class from module '' @ quoted import_from_module @ '' */''),
         after_code ''{'',
         on_after (cb_indent 4),
         after_code (''PyObject *module = PyImport_ImportModule((char*) '' @ dq @ module_name @ dq @ '');''),
         after_code (''if (module == NULL) {'' @ nl @ ''    return '' @ (if me_is_root me then [] else ''NULL'') @ '';'' @ nl @ ''}''),
         after_code (''_'' @ cc_pytypestruct k @ '' = (PyTypeObject*) PyObject_GetAttrString(module, (char*) '' @ dq @ get_python_name k @ dq @ '');'' @ nl),
         after_code ''if (PyErr_Occurred()) PyErr_Clear();'',
         (case cc_typeid_map_name k of None \<Rightarrow> ret () | Some n \<Rightarrow> import_type_map k import_from_module n)]),
       (if cc_parent k = None then import_registry ve c else total (ret ())),
       total (seqs [
         on_after cb_unindent,
         after_code ''}'',
         bnd (the_body c) (\<lambda>b. when_py (b_helper_class b \<noteq> None) (bnd (generate_class_helper ve c) (\<lambda>_. ret ())))])]))"

section \<open>Numeric operators\<close>

text \<open>\<open>_type_no_ref\<close>.\<close>

definition type_no_ref :: "type_traits \<Rightarrow> string" where
  "type_no_ref t =
     (if tt_is_reference t then (case tt_target t of None \<Rightarrow> ''None'' | Some target \<Rightarrow> ctype_str target)
      else ctype_str (tt_ctype_no_modifiers t))"

text \<open>
  The converter of an operand, and the C++ name of its type.  An operand that is a parameter is converted by the
  return value handler of its type.
\<close>

definition operand_handler :: "class_env \<Rightarrow> operand \<Rightarrow> (class_gen, value_handler \<times> string) pyd" where
  "operand_handler ve operand = (case operand of
     Class_Operand k \<Rightarrow> total (bnd (lift_res (ve_class_return ve k)) (\<lambda>h. bnd (the_class k) (\<lambda>cls. ret (h, cc_full_name cls))))
   | Param_Operand ctype \<Rightarrow> (\<lambda>g. map_option (\<lambda>r. (r, g))
       (bind_div (ve_return_value ve ctype) (\<lambda>h. bind_div (TypeTraits ctype) (\<lambda>t. Some (Inr (h, type_no_ref t)))))))"

definition get_python_to_c_converter :: "class_env \<Rightarrow> operand \<Rightarrow> (class_gen, string \<times> string) pyd" where
  "get_python_to_c_converter ve operand =
     bndd (operand_handler ve operand) (\<lambda>(h, val_name).
     bndd (on_rootd (generate_python_to_c_type_converter memory_class h)) (\<lambda>val_converter.
     total (ret (val_converter, val_name))))"

definition get_c_to_python_converter :: "class_env \<Rightarrow> operand \<Rightarrow> (class_gen, string \<times> string) pyd" where
  "get_c_to_python_converter ve operand =
     bndd (operand_handler ve operand) (\<lambda>(h, val_name).
     bndd (on_rootd (total (generate_c_to_python_type_converter memory_class h))) (\<lambda>val_converter.
     total (ret (val_converter, val_name))))"

text \<open>The converters are requested first, so that they are not generated in the middle of a wrapper.\<close>

definition dropd :: "('s, 'a) pyd \<Rightarrow> ('s, unit) pyd" where
  "dropd m = bndd m (\<lambda>_. total (ret ()))"

definition request_converters :: "class_env \<Rightarrow> cpp_class \<Rightarrow> (class_gen, unit) pyd" where
  "request_converters ve k = (let c2py = (\<lambda>x. dropd (get_c_to_python_converter ve x)); py2c = (\<lambda>x. dropd (get_python_to_c_converter ve x)) in seqsd [
     for_eachd (\<lambda>(retval, left, right). seqsd [c2py (Class_Operand retval), py2c (Class_Operand left), py2c right])
       (concat (map snd (cc_binary_numeric_operators k))),
     for_eachd (\<lambda>(retval, left, right). seqsd [py2c (Class_Operand left), py2c right, c2py (Class_Operand retval)])
       (concat (map snd (cc_inplace_numeric_operators k))),
     for_eachd (\<lambda>(retval, left). seqsd [c2py (Class_Operand retval), py2c (Class_Operand left)])
       (concat (map snd (cc_unary_numeric_operators k)))])"

definition wrap_binary_case :: "class_env \<Rightarrow> string \<Rightarrow> nat \<times> nat \<times> operand \<Rightarrow> (class_gen, unit) pyd" where
  "wrap_binary_case ve op_symbol = (\<lambda>(retval, left, right).
     bndd (get_c_to_python_converter ve (Class_Operand retval)) (\<lambda>retval_conv.
     bndd (get_python_to_c_converter ve (Class_Operand left)) (\<lambda>left_conv.
     bndd (get_python_to_c_converter ve right) (\<lambda>right_conv.
     total (cg_cmds (binary_case op_symbol retval_conv left_conv right_conv))))))"

definition operator_types :: "cpp_class \<Rightarrow> string \<Rightarrow> (nat \<times> nat \<times> operand) list option" where
  "operator_types k op_symbol =
     (case map_of (cc_binary_numeric_operators k) op_symbol of
        Some ts \<Rightarrow> Some ts
      | None \<Rightarrow> map_of (cc_inplace_numeric_operators k) op_symbol)"

definition try_wrap_operator :: "class_env \<Rightarrow> cpp_class \<Rightarrow> string \<times> string \<Rightarrow> slots \<Rightarrow> (class_gen, slots) pyd" where
  "try_wrap_operator ve k = (\<lambda>(op_symbol, slot_name) slots.
     case operator_types k op_symbol of
       None \<Rightarrow> total (ret slots)
     | Some op_types \<Rightarrow>
         let wrapper_name = cc_mangled_full_name k @ ''__'' @ slot_name in
         bndd (seqsd [
           total (cg_cmds [Writeln (''static PyObject*'' @ nl @ wrapper_name @ '' (PyObject *py_left, PyObject *py_right)'' @ nl @ ''{''), Indent]),
           for_eachd (wrap_binary_case ve op_symbol) op_types,
           total (cg_cmds operator_end)]) (\<lambda>_.
         total (ret (AList.update slot_name wrapper_name slots))))"

definition wrap_unary_case :: "class_env \<Rightarrow> string \<Rightarrow> nat \<times> nat \<Rightarrow> (class_gen, unit) pyd" where
  "wrap_unary_case ve op_symbol = (\<lambda>(retval, left).
     bndd (get_c_to_python_converter ve (Class_Operand retval)) (\<lambda>retval_conv.
     bndd (get_python_to_c_converter ve (Class_Operand left)) (\<lambda>left_conv.
     total (cg_cmds (unary_case op_symbol retval_conv left_conv)))))"

definition try_wrap_unary_operator :: "class_env \<Rightarrow> cpp_class \<Rightarrow> string \<times> string \<Rightarrow> slots \<Rightarrow> (class_gen, slots) pyd" where
  "try_wrap_unary_operator ve k = (\<lambda>(op_symbol, slot_name) slots.
     case map_of (cc_unary_numeric_operators k) op_symbol of
       None \<Rightarrow> total (ret slots)
     | Some op_types \<Rightarrow>
         let wrapper_name = cc_mangled_full_name k @ ''__'' @ slot_name in
         bndd (seqsd [
           total (cg_cmds [Writeln (''static PyObject*'' @ nl @ wrapper_name @ '' (PyObject *py_self)'' @ nl @ ''{''), Indent]),
           for_eachd (wrap_unary_case ve op_symbol) op_types,
           total (cg_cmds operator_end)]) (\<lambda>_.
         total (ret (AList.update slot_name wrapper_name slots))))"

definition number_operators :: "(string \<times> string) list" where
  "number_operators = [(''+'', ''nb_add''), (''-'', ''nb_subtract''), (''*'', ''nb_multiply''), (''/'', ''nb_divide''),
     (''+='', ''nb_inplace_add''), (''-='', ''nb_inplace_subtract''), (''*='', ''nb_inplace_multiply''), (''/='', ''nb_inplace_divide'')]"

primrec fold_slots :: "('a \<Rightarrow> slots \<Rightarrow> ('s, slots) pyd) \<Rightarrow> 'a list \<Rightarrow> slots \<Rightarrow> ('s, slots) pyd" where
  "fold_slots f [] slots = total (ret slots)"
| "fold_slots f (x # xs) slots = bndd (f x slots) (fold_slots f xs)"

definition generate_number_methods :: "class_env \<Rightarrow> nat \<Rightarrow> (class_gen, string) pyd" where
  "generate_number_methods ve c =
     bndd (total (the_class c)) (\<lambda>k. let name = cc_mangled_full_name k @ ''__py_number_methods'' in
     bndd (request_converters ve k) (\<lambda>_.
     bndd (fold_slots (try_wrap_operator ve k) number_operators [(''variable'', name)]) (\<lambda>slots.
     bndd (try_wrap_unary_operator ve k (''-'', ''nb_negative'') slots) (\<lambda>slots.
     bndd (total (bnd (lift_res (PyNumberMethods_generate slots)) cg_cmd)) (\<lambda>_.
     total (ret (''&'' @ name)))))))"

section \<open>Sequence methods\<close>

definition have_sequence_methods :: "class_body \<Rightarrow> bool" where
  "have_sequence_methods b \<longleftrightarrow> (\<exists>x \<in> {''__len__'', ''__getitem__'', ''__setitem__''}. map_of (b_methods b) x \<noteq> None)"

text \<open>\<open>max\<close> of the empty list is an error; the wrappers of an overload may all have been skipped.\<close>

definition sequence_template :: "class_method overload \<Rightarrow> string \<Rightarrow> string \<Rightarrow> piece list res" where
  "sequence_template ov py_name slot_name =
     (if overload_objs ov = [] then Inl (ValueError ''max() arg is an empty sequence'')
      else let some_wrapper_is_function = list_ex (\<lambda>cm. case cm of Func_Meth _ \<Rightarrow> True | Cpp_Meth _ \<Rightarrow> False) (overload_objs ov);
               key = (if py_name = ''__len__'' \<and> (length (overload_objs ov) > 1 \<or> some_wrapper_is_function) then slot_name @ ''_ARGS'' else slot_name)
           in case FUNCTION_TEMPLATES key of None \<Rightarrow> Inl (KeyError key) | Some t \<Rightarrow> Inr t)"

definition try_wrap_sequence_method :: "nat \<Rightarrow> string \<times> string \<Rightarrow> slots \<Rightarrow> (class_gen, slots) py" where
  "try_wrap_sequence_method c = (\<lambda>(py_name, slot_name) slots.
     bnd (the_class c) (\<lambda>k. bnd (the_body c) (\<lambda>b.
     case map_of (b_methods b) py_name of
       None \<Rightarrow> ret slots
     | Some ov \<Rightarrow>
         let wrapper_name = cc_mangled_full_name k @ ''__'' @ slot_name in
         bnd (lift_res (bind_res (sequence_template ov py_name slot_name) (\<lambda>t.
           percent_format (map_of [(''wrapper_name'', wrapper_name), (''py_struct'', opt_str (cc_pystruct k)),
             (''method_name'', opt_str (ov_wrapper_actual_name ov))]) (template t)))) (\<lambda>text.
         bnd (cg_writeln text) (\<lambda>_. ret (AList.update slot_name wrapper_name slots))))))"

definition generate_sequence_methods :: "class_env \<Rightarrow> nat \<Rightarrow> (class_gen, string) pyd" where
  "generate_sequence_methods ve c =
     bndd (total (the_class c)) (\<lambda>k. let name = cc_mangled_full_name k @ ''__py_sequence_methods'' in
     bndd (total (lift_res (ve_class_return ve c))) (\<lambda>h.
     bndd (on_rootd (generate_python_to_c_type_converter memory_class h)) (\<lambda>_.
     bndd (fold_slots (\<lambda>x slots. total (try_wrap_sequence_method c x slots))
         [(''__len__'', ''sq_length''), (''__getitem__'', ''sq_item''), (''__setitem__'', ''sq_ass_item'')] [(''variable'', name)]) (\<lambda>slots.
     bndd (total (bnd (lift_res (PySequenceMethods_generate slots)) cg_cmd)) (\<lambda>_.
     total (ret (''&'' @ name)))))))"

section \<open>Constructors\<close>

text \<open>The overload of all constructors; the constructor objects are shared with the class.\<close>

definition constructor_overload :: "string \<Rightarrow> ctor list \<Rightarrow> ctor overload" where
  "constructor_overload p ctors =
     (OverloadedWrapper_init (\<lambda>i. ctors ! i) ''None'')\<lparr>ov_pystruct := p, ov_wrappers := [0..<length ctors]\<rparr>"

definition generate_constructor_overload :: "class_env \<Rightarrow> nat \<Rightarrow> string \<Rightarrow> (class_gen, string option) py" where
  "generate_constructor_overload ve c p = on_body_part c b_constructors (\<lambda>ks b. b\<lparr>b_constructors := ks\<rparr>) (\<lambda>(ctors, t).
     case ov_generate CppOverloadedConstructor (ve_ctor_handler ve) memory_class (ctor_ops (ge_classes (ve_generation ve)) memory_class)
         (constructor_overload p ctors, t) of
       (r, (ov, t')) \<Rightarrow>
         (case r of Inl e \<Rightarrow> Inl e | Inr _ \<Rightarrow> Inr (ov_wrapper_actual_name ov), (map (ov_objs ov) [0..<length ctors], t')))"

definition generate_no_constructor :: "class_env \<Rightarrow> nat \<Rightarrow> (class_gen, string) py" where
  "generate_no_constructor ve c =
     bnd (the_class c) (\<lambda>k. (\<lambda>g.
       case CppNoConstructor_generate (ge_classes (ve_generation ve) c) (cc_cannot_be_constructed k) memory_class
           (empty_wrapper Forward ''return -1;'' ''return -1;'', cg_sink g) of
         (r, (_, t)) \<Rightarrow> (r, g\<lparr>cg_sink := t\<rparr>)))"

definition can_be_constructed :: "cpp_class \<Rightarrow> class_body \<Rightarrow> bool" where
  "can_be_constructed k b \<longleftrightarrow> b_constructors b \<noteq> [] \<and>
     (cc_cannot_be_constructed k = [] \<or> (case b_helper_class b of None \<Rightarrow> False | Some h \<Rightarrow> \<not> h_cannot_be_constructed h))"

definition generate_constructor :: "class_env \<Rightarrow> nat \<Rightarrow> (class_gen, bool) py" where
  "generate_constructor ve c =
     bnd (the_class c) (\<lambda>k. bnd (the_body c) (\<lambda>b. bnd (cg_writeln []) (\<lambda>_.
     bnd (if can_be_constructed k b
          then bnd (cg_pystruct c) (\<lambda>p.
            try_except
              (bnd (generate_constructor_overload ve c p) (\<lambda>name. bnd (cg_writeln []) (\<lambda>_. ret (name, True))))
              (\<lambda>e. if e = SkipWrapper then ret (None, False) else raise_py e))
          else bnd (generate_no_constructor ve c) (\<lambda>name. bnd (cg_writeln []) (\<lambda>_. ret (Some name, False)))) (\<lambda>(constructor, have_constructor).
     bnd (slot_default c ''tp_init'' (case constructor of None \<Rightarrow> ''NULL'' | Some n \<Rightarrow> n)) (\<lambda>_.
     ret have_constructor)))))"

section \<open>Methods\<close>

definition on_method :: "nat \<Rightarrow> string \<Rightarrow> (class_method overload \<times> memory_sink, 'a) py \<Rightarrow> (class_gen, 'a) py" where
  "on_method c name m = (\<lambda>g.
     case map_of (b_methods (cs_bodies (cg_state g) c)) name of
       None \<Rightarrow> (Inl (KeyError name), g)
     | Some ov \<Rightarrow> on_body_part c (\<lambda>_. ov) (\<lambda>ov' b. b\<lparr>b_methods := AList.update name ov' (b_methods b)\<rparr>) m g)"

definition generate_overload :: "class_env \<Rightarrow> (class_method overload \<times> memory_sink, string option) py" where
  "generate_overload ve = call_with_error_handling (ve_overload_handler ve)
     (ov_generate CppOverloadedMethod (ve_method_handler ve) memory_class (class_method_ops (ve_generation ve) memory_class)) fst generation_error"

definition overload_method_def :: "class_env \<Rightarrow> string \<Rightarrow> (class_method overload \<times> memory_sink, string) py" where
  "overload_method_def ve name = on_overload (ov_get_py_method_def (class_method_ops (ve_generation ve) memory_class) (ve_method_handler ve) name)"

text \<open>\<open>True\<close> if an action ends, \<open>False\<close> if it is skipped.\<close>

definition unless_skipped :: "('s, 'a) py \<Rightarrow> ('s, bool) py" where
  "unless_skipped m = try_except (bnd m (\<lambda>_. ret True)) (\<lambda>e. if e = SkipWrapper then ret False else raise_py e)"

text \<open>Methods that are registered in slots of the type and not in the method table.\<close>

definition slot_methods :: "string list" where
  "slot_methods = [''__call__'', ''__len__'', ''__getitem__'', ''__setitem__'']"

fun generate_own_methods :: "class_env \<Rightarrow> nat \<Rightarrow> string list \<Rightarrow> (class_gen, string list) py" where
  "generate_own_methods ve c [] = ret []"
| "generate_own_methods ve c (name # names) =
     bnd (cg_writeln []) (\<lambda>_.
     bnd (unless_skipped (on_method c name (generate_overload ve))) (\<lambda>ok.
     bnd (if \<not> ok then ret []
          else bnd (if name \<in> set slot_methods then ret [] else bnd (on_method c name (overload_method_def ve name)) (\<lambda>d. ret [d])) (\<lambda>ds.
            bnd (cg_writeln []) (\<lambda>_. ret ds))) (\<lambda>ds.
     bnd (generate_own_methods ve c names) (\<lambda>rest. ret (ds @ rest)))))"

subsection \<open>Methods of several base classes\<close>

text \<open>\<open>leaf.matches_signature(parent)\<close>: functions have no such method and no attribute \<open>is_const\<close>.\<close>

definition class_method_matches :: "class_method \<Rightarrow> class_method \<Rightarrow> bool res" where
  "class_method_matches leaf parent = (case leaf of
     Func_Meth _ \<Rightarrow> Inl (AttributeError ''matches_signature'')
   | Cpp_Meth m \<Rightarrow>
       let m = method_obj_of m; other = class_method_obj parent in
       if mo_mangled_name m \<noteq> mo_mangled_name other \<or> mo_param_ctypes m \<noteq> mo_param_ctypes other then Inr False
       else case parent of Cpp_Meth _ \<Rightarrow> Inr (mo_is_const m = mo_is_const other) | Func_Meth _ \<Rightarrow> Inl (AttributeError ''is_const''))"

primrec any_matches :: "class_method list \<Rightarrow> class_method \<Rightarrow> bool res" where
  "any_matches [] parent = Inr False"
| "any_matches (leaf # leaves) parent =
     bind_res (class_method_matches leaf parent) (\<lambda>b. if b then Inr True else any_matches leaves parent)"

definition class_method_clone :: "settings \<Rightarrow> class_method \<Rightarrow> class_method res" where
  "class_method_clone st cm = (case cm of
     Cpp_Meth m \<Rightarrow> map_sum id Cpp_Meth (CppMethod_clone st m)
   | Func_Meth f \<Rightarrow> map_sum id Func_Meth (Function_clone st f))"

definition is_public :: "class_method \<Rightarrow> bool" where
  "is_public cm = (case cm of Cpp_Meth m \<Rightarrow> m_visibility m = ''public'' | Func_Meth _ \<Rightarrow> True)"

text \<open>
  The overloads that are collected, each with the classes of its wrappers.  When the class has a table for the
  name, the local variable \<open>overload\<close> is bound to that table and the copy goes there instead.
\<close>

type_synonym inherited = "(string \<times> class_method overload \<times> nat list) list"

definition adopt_clone :: "nat \<Rightarrow> string res \<Rightarrow> class_method \<Rightarrow> class_method res" where
  "adopt_clone c pystruct cm = (case cm of Cpp_Meth m \<Rightarrow> map_sum id Cpp_Meth (adopt_method c pystruct m) | Func_Meth f \<Rightarrow> Inr (Func_Meth f))"

definition inherit_wrapper :: "settings \<Rightarrow> nat \<Rightarrow> nat \<Rightarrow> string \<Rightarrow> inherited \<Rightarrow> class_method \<Rightarrow> (class_gen, inherited) py" where
  "inherit_wrapper st c base name inh parent =
     (if \<not> is_public parent then ret inh
      else bnd (the_body c) (\<lambda>b.
        bnd (lift_res (any_matches (map Cpp_Meth (b_nonpublic_methods b)) parent)) (\<lambda>private.
        if private then ret inh
        else let own = map_of (b_methods b) name in
          bnd (lift_res (any_matches (case own of None \<Rightarrow> [] | Some ov \<Rightarrow> overload_objs ov) parent)) (\<lambda>already_wrapped.
          if already_wrapped then ret inh
          else bnd (the_class c) (\<lambda>k.
            bnd (lift_res (bind_res (class_method_clone st parent) (adopt_clone c (class_pystruct k)))) (\<lambda>copy.
            case own of
              Some ov \<Rightarrow> bnd (upd_cg (upd_body c (\<lambda>b. b\<lparr>b_methods := AList.update name (overload_put copy ov) (b_methods b)\<rparr>))) (\<lambda>_. ret inh)
            | None \<Rightarrow> ret (case map_of inh name of
                None \<Rightarrow> inh
              | Some (ov, classes) \<Rightarrow> AList.update name (overload_put copy ov, classes @ [base]) inh)))))))"

fun inherit_wrappers :: "settings \<Rightarrow> nat \<Rightarrow> nat \<Rightarrow> string \<Rightarrow> inherited \<Rightarrow> class_method list \<Rightarrow> (class_gen, inherited) py" where
  "inherit_wrappers st c base name inh [] = ret inh"
| "inherit_wrappers st c base name inh (cm # cms) =
     bnd (inherit_wrapper st c base name inh cm) (\<lambda>inh. inherit_wrappers st c base name inh cms)"

text \<open>The object of a new overload before its first wrapper is never read.\<close>

definition new_inherited :: "class_method \<Rightarrow> string \<Rightarrow> string \<Rightarrow> inherited \<Rightarrow> inherited" where
  "new_inherited cm p name inh =
     (if map_of inh name = None then inh @ [(name, (OverloadedWrapper_init (\<lambda>_. cm) name)\<lparr>ov_pystruct := p\<rparr>, [])] else inh)"

fun inherit_overloads ::
  "settings \<Rightarrow> nat \<Rightarrow> string \<Rightarrow> inherited \<Rightarrow> (nat \<times> string \<times> class_method overload) list \<Rightarrow> (class_gen, inherited) py" where
  "inherit_overloads st c p inh [] = ret inh"
| "inherit_overloads st c p inh ((base, name, ov) # rest) =
     (if name \<in> set slot_methods then inherit_overloads st c p inh rest
      else bnd (inherit_wrappers st c base name (new_inherited (ov_objs ov 0) p name inh) (overload_objs ov))
        (\<lambda>inh. inherit_overloads st c p inh rest))"

definition on_inherited :: "class_method overload \<Rightarrow> (class_method overload \<times> memory_sink, 'a) py \<Rightarrow> (class_gen, 'a) py" where
  "on_inherited ov m = (\<lambda>g. case m (ov, cg_sink g) of (r, (_, t)) \<Rightarrow> (r, g\<lparr>cg_sink := t\<rparr>))"

text \<open>An overload with methods of several classes is left out.\<close>

fun generate_inherited :: "class_env \<Rightarrow> inherited \<Rightarrow> (class_gen, string list) py" where
  "generate_inherited ve [] = ret []"
| "generate_inherited ve ((name, ov, classes) # rest) =
     (if ov_wrappers ov = [] \<or> length (remdups classes) > 1 then generate_inherited ve rest
      else bnd (on_inherited ov (bnd (unless_skipped (generate_overload ve)) (\<lambda>ok.
            if \<not> ok then ret []
            else bnd (on_sink (run_cmd memory_class (Writeln []))) (\<lambda>_. bnd (overload_method_def ve name) (\<lambda>d. ret [d]))))) (\<lambda>ds.
        bnd (generate_inherited ve rest) (\<lambda>defs. ret (ds @ defs))))"

definition generate_MI_parent_methods :: "class_env \<Rightarrow> nat \<Rightarrow> (class_gen, string list) pyd" where
  "generate_MI_parent_methods ve c =
     bndd (ask_classes (\<lambda>cl. map_option (\<lambda>mro. (tl mro, cl)) (get_mro cl c))) (\<lambda>bases.
     bndd (total (gets (\<lambda>g. concat (map (\<lambda>base. map (Pair base) (b_methods (cs_bodies (cg_state g) base))) bases)))) (\<lambda>overloads.
     bndd (total (cg_pystruct c)) (\<lambda>p.
     total (bnd (inherit_overloads (ve_settings ve) c p [] overloads) (generate_inherited ve)))))"

subsection \<open>Copying\<close>

text \<open>The copy is written to a block of its own with its own declarations.\<close>

definition copy_code :: "cpp_class \<Rightarrow> registry \<Rightarrow> string \<Rightarrow> string \<Rightarrow> (wrapper, unit) py" where
  "copy_code k reg p construct_name =
     bnd (declare_var (p @ ''*'') ''py_copy'') (\<lambda>py_copy. seqs [
       w_write Before_Parse (py_copy @ '' = '' @ (if cc_allow_subclassing k then ''PyObject_GC_New'' else ''PyObject_New'') @
         ''('' @ p @ '', &'' @ cc_pytypestruct k @ '');''),
       w_write Before_Parse (py_copy @ ''->obj = new '' @ construct_name @ ''(*self->obj);''),
       when_py (cc_allow_subclassing k) (w_write Before_Parse (py_copy @ ''->inst_dict = NULL;'')),
       w_write Before_Parse (py_copy @ ''->flags = PYBINDGEN_WRAPPER_FLAG_NONE;''),
       write_register_new_wrapper reg Before_Parse py_copy (py_copy @ ''->obj''),
       w_write Before_Parse (''return (PyObject*) '' @ py_copy @ '';'')])"

text \<open>The declarations and the code of one block are flushed to the code sink, with the cleanup code at the end.\<close>

definition emit_block :: "string \<Rightarrow> (wrapper, unit) py \<Rightarrow> (class_gen, unit) py" where
  "emit_block error_return code = (\<lambda>g.
     case seqs [on_wrapper code, on_wrapper (on_block Before_Parse write_cleanup), flush_declarations memory_class,
         flush_block memory_class Before_Parse] (empty_wrapper Forward error_return error_return, cg_sink g) of
       (r, (_, t)) \<Rightarrow> (r, g\<lparr>cg_sink := t\<rparr>))"

definition generate_copy_method :: "class_env \<Rightarrow> nat \<Rightarrow> string res \<Rightarrow> registry res \<Rightarrow> (class_gen, string) py" where
  "generate_copy_method ve c construct_name registry =
     bnd (lift_res construct_name) (\<lambda>construct_name.
     bnd (the_class c) (\<lambda>k. bnd (cg_pystruct c) (\<lambda>p.
     bnd (seqs [
       cg_writeln (copy_head_text p),
       cg_cmd Indent,
       bnd (lift_res registry) (\<lambda>reg. emit_block ''return NULL;'' (copy_code k reg p construct_name)),
       cg_cmd Unindent,
       cg_writeln ''}'',
       cg_writeln []]) (\<lambda>_.
     ret (''_wrap_'' @ p @ ''__copy__'')))))"

definition generate_copy_entry :: "class_env \<Rightarrow> nat \<Rightarrow> (class_gen, string list) pyd" where
  "generate_copy_entry ve c =
     bndd (ask_classes (\<lambda>cl. map_option (\<lambda>r. (r, cl)) (get_construct_name c cl))) (\<lambda>construct_name.
     bndd (ask_classes (get_wrapper_registry (ve_new_registry ve) c)) (\<lambda>registry.
     total (try_except
       (bnd (call_with_error_handling (ve_class_handler ve) (generate_copy_method ve c construct_name registry) (\<lambda>_. c) generation_error)
         (\<lambda>name. ret [''{(char *) '' @ dq @ ''__copy__'' @ dq @ '', (PyCFunction) '' @ name @ '', METH_NOARGS, NULL},'']))
       (\<lambda>e. if e = SkipWrapper then ret [] else raise_py e))))"

definition generate_methods :: "class_env \<Rightarrow> nat \<Rightarrow> string list \<Rightarrow> (class_gen, unit) pyd" where
  "generate_methods ve c parent_caller_methods =
     bndd (total (the_class c)) (\<lambda>k.
     bndd (total (bnd (the_body c) (\<lambda>b. generate_own_methods ve c (map fst (b_methods b))))) (\<lambda>own.
     bndd (if length (cc_bases k) > 1 then generate_MI_parent_methods ve c else total (ret [])) (\<lambda>inherited.
     bndd (if cc_has_copy_constructor k then generate_copy_entry ve c else total (ret [])) (\<lambda>copy.
     total (bnd (cg_pystruct c) (\<lambda>p. seqs [
       cg_cmds (method_table_cmds p (own @ parent_caller_methods @ inherited @ copy)),
       slot_default c ''tp_methods'' (p @ ''_methods'')]))))))"

section \<open>Type slots\<close>

definition generate_gc_methods :: "nat \<Rightarrow> (class_gen, unit) py" where
  "generate_gc_methods c =
     bnd (the_class c) (\<lambda>k. bnd (cg_pystruct c) (\<lambda>p. seqs [
       slot_default c ''tp_clear'' (p @ ''__tp_clear''),
       bnd (lift_res (get_delete_code k)) (\<lambda>delete_code. cg_writeln (tp_clear_text p delete_code)),
       slot_default c ''tp_traverse'' (p @ ''__tp_traverse''),
       bnd (the_body c) (\<lambda>b. cg_writeln (tp_traverse_text k p (map_option h_name (b_helper_class b))))]))"

definition generate_str :: "nat \<Rightarrow> (class_gen, unit) py" where
  "generate_str c = bnd (cg_pystruct c) (\<lambda>p. seqs [
     slot_default c ''tp_str'' (''_wrap_'' @ p @ ''__tp_str''), cg_writeln (tp_str_text p)])"

definition generate_tp_hash :: "nat \<Rightarrow> (class_gen, unit) py" where
  "generate_tp_hash c = bnd (cg_pystruct c) (\<lambda>p. seqs [
     slot_default c ''tp_hash'' (''_wrap_'' @ p @ ''__tp_hash''), cg_writeln (tp_hash_text p)])"

definition generate_tp_compare :: "nat \<Rightarrow> (class_gen, unit) py" where
  "generate_tp_compare c = bnd (cg_pystruct c) (\<lambda>p. seqs [
     slot_default c ''tp_compare'' (''_wrap_'' @ p @ ''__tp_compare''), cg_writeln (tp_compare_text p)])"

text \<open>The destructor: the wrapper is unregistered, the object is released, and the memory is freed.\<close>

definition destructor_code :: "cpp_class \<Rightarrow> slots \<Rightarrow> registry \<Rightarrow> (wrapper, unit) py" where
  "destructor_code k slots reg = seqs [
     write_unregister_wrapper reg Before_Parse ''self'' ''self->obj'',
     (if cc_allow_subclassing k
      then (case map_of slots ''tp_clear'' of None \<Rightarrow> raise_py (KeyError ''tp_clear'') | Some f \<Rightarrow> w_write Before_Parse (f @ ''(self);''))
      else bnd (lift_res (get_delete_code k)) (w_write Before_Parse)),
     w_write Before_Parse ''self->ob_type->tp_free((PyObject*)self);'']"

definition generate_destructor :: "class_env \<Rightarrow> nat \<Rightarrow> (class_gen, unit) pyd" where
  "generate_destructor ve c =
     bndd (total (the_class c)) (\<lambda>k.
     bndd (total (the_body c)) (\<lambda>b.
     if map_of (b_slots b) ''tp_dealloc'' \<noteq> None then total (ret ())
     else bndd (total (cg_pystruct c)) (\<lambda>p. seqsd [
       total (seqs [cg_writeln (tp_dealloc_head p), cg_cmd Indent]),
       bndd (get_registry ve c) (\<lambda>reg. total (emit_block ''PyErr_Print(); return;'' (destructor_code k (b_slots b) reg))),
       total (seqs [
         cg_cmd Unindent,
         cg_writeln (''}'' @ nl),
         slot_default c ''tp_dealloc'' (''_wrap_'' @ p @ ''__tp_dealloc'')])])))"

definition generate_tp_richcompare :: "nat \<Rightarrow> (class_gen, string) py" where
  "generate_tp_richcompare c =
     bnd (the_class c) (\<lambda>k. bnd (cg_pystruct c) (\<lambda>p.
     bnd (cg_cmds (tp_richcompare_cmds k p)) (\<lambda>_. ret (''_wrap_'' @ p @ ''__tp_richcompare''))))"

text \<open>The flags are a set; they are joined in the order in which they were added, which the source leaves open.\<close>

definition type_flags :: "cpp_class \<Rightarrow> string list" where
  "type_flags k = [''Py_TPFLAGS_DEFAULT''] @
     (if cc_allow_subclassing k then [''Py_TPFLAGS_HAVE_GC'', ''Py_TPFLAGS_BASETYPE''] else []) @
     (if cc_binary_numeric_operators k \<noteq> [] then [''Py_TPFLAGS_CHECKTYPES''] else [])"

definition class_tp_name :: "module_env \<Rightarrow> cpp_class \<Rightarrow> slots option \<Rightarrow> string res" where
  "class_tp_name me k outer_slots = (case outer_slots of
     None \<Rightarrow> Inr (join ''.'' (me_path me @ [cc_mangled_name k]))
   | Some slots \<Rightarrow> (case map_of slots ''tp_name'' of None \<Rightarrow> Inl (KeyError ''tp_name'') | Some s \<Rightarrow> Inr (s @ ''.'' @ cc_name k)))"

definition generate_type_structure :: "module_env \<Rightarrow> nat \<Rightarrow> (class_gen, unit) py" where
  "generate_type_structure me c =
     bnd (the_class c) (\<lambda>k. bnd (the_body c) (\<lambda>b. bnd (cg_pystruct c) (\<lambda>p. seqs [
       slot_default c ''tp_basicsize'' (''sizeof('' @ p @ '')''),
       slot_default c ''tp_dictoffset'' (if cc_allow_subclassing k then ''offsetof('' @ p @ '', inst_dict)'' else ''0''),
       slot_default c ''tp_flags'' (join ''|'' (type_flags k)),
       slot_default c ''tp_doc'' (case b_docstring b of None \<Rightarrow> ''NULL'' | Some d \<Rightarrow> dq @ d @ dq),
       slot_default c ''typestruct'' (cc_pytypestruct k),
       bnd (gets (\<lambda>g. class_tp_name me k (map_option (\<lambda>outer. b_slots (cs_bodies (cg_state g) outer)) (cc_outer_class k)))) (\<lambda>r.
         bnd (lift_res r) (slot_default c ''tp_name'')),
       bnd (the_body c) (\<lambda>b. case map_of (b_methods b) ''__call__'' of
         None \<Rightarrow> ret ()
       | Some ov \<Rightarrow> slot_default c ''tp_call'' (opt_str (ov_wrapper_actual_name ov))),
       bnd (the_body c) (\<lambda>b. bnd (lift_res (PyTypeObject_generate (b_slots b))) cg_cmd),
       upd_cg (upd_body c (\<lambda>b. b\<lparr>b_slots := fold setdefault PyTypeObject_defaults (b_slots b)\<rparr>))])))"

section \<open>The class\<close>

text \<open>The typeid map of the class, and its entry in the map of the root of the narrowing tree.\<close>

definition define_typeid_map :: "string \<Rightarrow> (class_gen, unit) py" where
  "define_typeid_map n = seqs [
     cg_writeln (nl @ ''pybindgen::TypeMap '' @ n @ '';'' @ nl),
     after_code (''PyModule_AddObject(m, (char *) '' @ dq @ ''_'' @ n @ dq @ '', PyCObject_FromVoidPtr(&'' @ n @ '', NULL));'')]"

definition register_typeid :: "nat \<Rightarrow> (class_gen, unit) pyd" where
  "register_typeid c =
     bndd (total (the_class c)) (\<lambda>k.
     bndd (ask_classes (\<lambda>cl. map_option (\<lambda>root. (map_option cl root, cl)) (get_type_narrowing_root cl c))) (\<lambda>root.
     total (case root of
       None \<Rightarrow> raise_py (AttributeError ''typeid_map_name'')
     | Some r \<Rightarrow> after_code (opt_str (cc_typeid_map_name r) @ ''.register_wrapper(typeid('' @ cc_full_name k @ ''), &'' @ cc_pytypestruct k @ '');''))))"

definition define_registry :: "class_env \<Rightarrow> nat \<Rightarrow> (class_gen, unit) pyd" where
  "define_registry ve c =
     bndd (get_registry ve c) (\<lambda>reg. case registry_generate reg of
       (cmds, codes) \<Rightarrow> total (seqs [cg_cmds cmds, for_each after_code codes]))"

definition generate_parent_caller_methods :: "class_env \<Rightarrow> nat \<Rightarrow> (class_gen, string list) py" where
  "generate_parent_caller_methods ve c =
     bnd (the_body c) (\<lambda>b. case b_helper_class b of
       None \<Rightarrow> ret []
     | Some _ \<Rightarrow> bnd (generate_class_helper ve c) (\<lambda>r. case r of None \<Rightarrow> raise_py (TypeError ''NoneType'') | Some ds \<Rightarrow> ret ds))"

text \<open>The tables of attributes; a table of static attributes needs a metaclass.\<close>

definition generate_getsets :: "class_env \<Rightarrow> nat \<Rightarrow> (class_gen, string) py" where
  "generate_getsets ve c =
     bnd (on_body_part c b_instance_attributes (\<lambda>a b. b\<lparr>b_instance_attributes := a\<rparr>)
       (getset_generate (ve_accessor_handler ve) (ve_iteritems ve) memory_class)) (\<lambda>instance_getsets.
     bnd (slot_default c ''tp_getset'' instance_getsets) (\<lambda>_.
     on_body_part c b_static_attributes (\<lambda>a b. b\<lparr>b_static_attributes := a\<rparr>)
       (getset_generate (ve_accessor_handler ve) (ve_iteritems ve) memory_class)))"

definition generate_metaclass :: "class_env \<Rightarrow> nat \<Rightarrow> (class_gen, py_metaclass) py" where
  "generate_metaclass ve c =
     bnd (the_class c) (\<lambda>k. bnd (the_body c) (\<lambda>b.
     bnd (case cc_parent k of None \<Rightarrow> ret ''PyBaseObject_Type'' | Some parent \<Rightarrow> bnd (the_class parent) (\<lambda>pk. ret (cc_pytypestruct pk)))
       (\<lambda>parent_typestruct.
     let mt = PyMetaclass_init (ve_settings ve) (cc_metaclass_name k) (parent_typestruct @ ''.ob_type'') (Some (b_static_attributes b)) in
     case PyMetaclass_generate mt of (cmd, code) \<Rightarrow> bnd (seqs [cg_cmd cmd, on_after code]) (\<lambda>_. ret mt))))"

definition base_code :: "class_store \<Rightarrow> cpp_class \<Rightarrow> string list" where
  "base_code cl k = (case cc_parent k of
     None \<Rightarrow> []
   | Some parent \<Rightarrow>
       (cc_pytypestruct k @ ''.tp_base = &'' @ cc_pytypestruct (cl parent) @ '';'') #
       (if length (cc_bases k) > 1 then
          (cc_pytypestruct k @ ''.tp_bases = PyTuple_New('' @ str_of_nat (length (cc_bases k)) @ '');'') #
          concat (map (\<lambda>(basenum, base). [
            ''    Py_INCREF((PyObject *) &'' @ cc_pytypestruct (cl base) @ '');'',
            ''    PyTuple_SET_ITEM('' @ cc_pytypestruct k @ ''.tp_bases, '' @ str_of_nat basenum @ '', (PyObject *) &'' @ cc_pytypestruct (cl base) @ '');''])
            (List.enumerate 0 (cc_bases k)))
        else []))"

definition add_type_code :: "class_store \<Rightarrow> cpp_class \<Rightarrow> string" where
  "add_type_code cl k = (case cc_outer_class k of
     None \<Rightarrow> ''PyModule_AddObject(m, (char *) '' @ dq @ get_python_name k @ dq @ '', (PyObject *) &'' @ cc_pytypestruct k @ '');''
   | Some outer \<Rightarrow> ''PyDict_SetItemString((PyObject*) '' @ cc_pytypestruct (cl outer) @ ''.tp_dict, (char *) '' @ dq @ get_python_name k @ dq @
       '', (PyObject *) &'' @ cc_pytypestruct k @ '');'')"

definition register_class_type :: "class_env \<Rightarrow> module_env \<Rightarrow> nat \<Rightarrow> string \<Rightarrow> (class_gen, unit) py" where
  "register_class_type ve me c static_getsets =
     bnd (the_class c) (\<lambda>k. bnd (gets (\<lambda>g. cs_classes (cg_state g))) (\<lambda>cl. seqs [
       after_code (''/* Register the '' @ quoted (cc_full_name k) @ '' class */''),
       bnd (if static_getsets = ''0'' then ret None else bnd (generate_metaclass ve c) (\<lambda>mt. ret (Some mt))) (\<lambda>metaclass. seqs [
         for_each after_code (base_code cl k),
         (case metaclass of None \<Rightarrow> ret () | Some mt \<Rightarrow> after_code (cc_pytypestruct k @ ''.ob_type = &'' @ mt_pytypestruct mt @ '';''))]),
       on_after (write_error_check (me_before_init me) (''PyType_Ready(&'' @ cc_pytypestruct k @ '')'') None),
       after_code (add_type_code cl k)]))"

definition generate_container_traits :: "module_env \<Rightarrow> nat \<Rightarrow> (class_gen, unit) py" where
  "generate_container_traits me c =
     bnd (the_class c) (\<lambda>k. bnd (the_body c) (\<lambda>b. case b_container_traits b of
       None \<Rightarrow> ret ()
     | Some xt \<Rightarrow> bnd (cg_pystruct c) (\<lambda>p.
         bnd (gets (\<lambda>g. Option.bind (cc_outer_class k) (\<lambda>outer. map_of (b_slots (cs_bodies (cg_state g) outer)) ''tp_name''))) (\<lambda>outer_tp_name. seqs [
           on_after (traits_registration (me_before_init me) k p),
           on_body_part c (\<lambda>b. (xt, b_slots b)) (\<lambda>(xt', slots) b. b\<lparr>b_container_traits := Some xt', b_slots := slots\<rparr>)
             (traits_generate_code memory_class (get_iter_python_full_name (me_path me) outer_tp_name k) None k p)]))))"

text \<open>The number methods are generated for binary and in-place operators; unary operators alone do not count.\<close>

definition generate_operators :: "class_env \<Rightarrow> nat \<Rightarrow> (class_gen, unit) pyd" where
  "generate_operators ve c =
     bndd (total (the_class c)) (\<lambda>k. bndd (total (the_body c)) (\<lambda>b. seqsd [
       (if (case map_of (b_slots b) ''tp_richcompare'' of None \<Rightarrow> True | Some v \<Rightarrow> v = ''NULL'')
        then total (bnd (generate_tp_richcompare c) (slot_put c ''tp_richcompare'')) else total (ret ())),
       (if cc_binary_numeric_operators k \<noteq> [] \<or> cc_inplace_numeric_operators k \<noteq> []
        then bndd (generate_number_methods ve c) (\<lambda>v. total (slot_put c ''tp_as_number'' v)) else total (ret ())),
       (if have_sequence_methods b
        then bndd (generate_sequence_methods ve c) (\<lambda>v. total (slot_put c ''tp_as_sequence'' v)) else total (ret ()))]))"

definition class_prologue :: "class_env \<Rightarrow> module_env \<Rightarrow> nat \<Rightarrow> cpp_class \<Rightarrow> (class_gen, string list) pyd" where
  "class_prologue ve me c k =
     bndd (seqsd [
       (case cc_typeid_map_name k of None \<Rightarrow> total (ret ()) | Some n \<Rightarrow> total (define_typeid_map n)),
       (if cc_automatic_type_narrowing k then register_typeid c else total (ret ())),
       (if cc_parent k = None then define_registry ve c else total (ret ()))]) (\<lambda>_.
     bndd (total (generate_parent_caller_methods ve c)) (\<lambda>parent_caller_methods.
     bndd (total (bnd (generate_getsets ve c) (register_class_type ve me c))) (\<lambda>_.
     bndd (total (generate_constructor ve c)) (\<lambda>have_constructor.
     total (ret parent_caller_methods)))))"

definition generate_own_class :: "class_env \<Rightarrow> module_env \<Rightarrow> nat \<Rightarrow> cpp_class \<Rightarrow> (class_gen, unit) pyd" where
  "generate_own_class ve me c k =
     bndd (class_prologue ve me c k) (\<lambda>parent_caller_methods. seqsd [
       generate_methods ve c parent_caller_methods,
       total (when_py (cc_allow_subclassing k) (generate_gc_methods c)),
       generate_destructor ve c,
       total (bnd (the_body c) (\<lambda>b. when_py (b_has_output_stream_operator b) (generate_str c))),
       generate_operators ve c,
       total (generate_container_traits me c),
       total (generate_type_structure me c)])"

definition class_generate :: "class_env \<Rightarrow> module_env \<Rightarrow> nat \<Rightarrow> (class_gen, unit) pyd" where
  "class_generate ve me c =
     bndd (total (the_class c)) (\<lambda>k.
       if is_imported_class k then generate_import_from_module ve me c (opt_str (cc_import_from_module k))
       else generate_own_class ve me c k)"

definition generate_typedef :: "nat \<Rightarrow> string \<Rightarrow> (class_gen, unit) py" where
  "generate_typedef c alias_name = bnd (the_class c) (\<lambda>k.
     after_code (''PyModule_AddObject(m, (char *) '' @ dq @ alias_name @ dq @ '', (PyObject *) &'' @ cc_pytypestruct k @ '');''))"

section \<open>The slots of a generated type\<close>

text \<open>Actions that respect a relation whatever their outcome, so that a handler may follow.\<close>

definition always :: "('s \<Rightarrow> 's \<Rightarrow> bool) \<Rightarrow> ('s, 'a) py \<Rightarrow> bool" where
  "always R m \<longleftrightarrow> (\<forall>s r s'. m s = (r, s') \<longrightarrow> R s s')"

lemma alwaysI: "(\<And>s r s'. m s = (r, s') \<Longrightarrow> R s s') \<Longrightarrow> always R m"
  by (simp add: always_def)

lemma alwaysD: "always R m \<Longrightarrow> m s = (r, s') \<Longrightarrow> R s s'"
  by (simp add: always_def)

lemma always_keeps: "always R m \<Longrightarrow> keeps R m"
  by (simp add: always_def keeps_def)

lemma always_total: "always R m \<Longrightarrow> keepsd R (total m)"
  by (intro keepsd_total always_keeps)

lemma always_option: "always R m \<Longrightarrow> (\<And>a. always R (f a)) \<Longrightarrow> always R (case x of None \<Rightarrow> m | Some a \<Rightarrow> f a)"
  by (cases x) auto

context step_relation
begin

lemma always_prims:
  "always R (ret a)" "always R (raise_py e)" "always R (gets f)" "always R (lift_res r)"
  by (simp_all add: always_def refl lift_res_def split: sum.splits)

lemma always_bnd: "always R m \<Longrightarrow> (\<And>a. always R (f a)) \<Longrightarrow> always R (bnd m f)"
  by (rule alwaysI) (auto simp: bnd_def split: prod.splits sum.splits dest: alwaysD intro: trans)

lemma always_seqs: "list_all (always R) ms \<Longrightarrow> always R (seqs ms)"
  by (induction ms) (simp_all add: always_prims always_bnd)

lemma always_when: "always R m \<Longrightarrow> always R (when_py b m)"
  by (cases b) (simp_all add: always_prims del: ret_run)

lemma always_if: "always R m \<Longrightarrow> always R n \<Longrightarrow> always R (if b then m else n)"
  by simp

lemma always_for_each: "(\<And>x. always R (f x)) \<Longrightarrow> always R (for_each f xs)"
  by (induction xs) (simp_all add: always_prims always_bnd)

lemma always_try: "always R m \<Longrightarrow> (\<And>e. always R (h e)) \<Longrightarrow> always R (try_except m h)"
  by (rule alwaysI) (auto simp: try_except_def split: prod.splits sum.splits dest: alwaysD intro: trans)

lemma always_handling:
  assumes "always R m"
  shows "always R (call_with_error_handling h m w p)"
proof -
  have "always R (\<lambda>s. (f s, s))" for f :: "_ \<Rightarrow> bool res"
    by (simp add: always_def refl)
  then show ?thesis
    unfolding call_with_error_handling_def
    by (intro always_option assms always_try always_if always_bnd always_prims)
qed

lemmas always_rules = always_option always_prims always_bnd always_when always_if

lemma keepsd_for_eachd: "(\<And>x. x \<in> set xs \<Longrightarrow> keepsd R (f x)) \<Longrightarrow> keepsd R (for_eachd f xs)"
  by (induction xs) (simp_all add: keepsd_bndd keepsd_total keeps_ret)

lemma keepsd_fold_slots: "(\<And>x slots. keepsd R (f x slots)) \<Longrightarrow> keepsd R (fold_slots f xs slots)"
  by (induction xs arbitrary: slots) (simp_all add: keepsd_bndd keepsd_total keeps_ret)

end

text \<open>
  The generation changes only the slots in \<open>K\<close>, and of those that are set already only the ones in \<open>P\<close>; the names
  of the class stay.
\<close>

abbreviation class_slots :: "class_gen \<Rightarrow> nat \<Rightarrow> slots" where
  "class_slots g c \<equiv> b_slots (cs_bodies (cg_state g) c)"

definition class_names :: "cpp_class \<Rightarrow> string option \<times> string \<times> bool" where
  "class_names k = (cc_pystruct k, cc_pytypestruct k, cc_allow_subclassing k)"

definition slots_kept :: "string set \<Rightarrow> string set \<Rightarrow> nat \<Rightarrow> class_gen \<Rightarrow> class_gen \<Rightarrow> bool" where
  "slots_kept K P c g g' \<longleftrightarrow> class_names (cs_classes (cg_state g') c) = class_names (cs_classes (cg_state g) c) \<and>
     (\<forall>k. k \<notin> K \<or> k \<notin> P \<and> map_of (class_slots g c) k \<noteq> None \<longrightarrow>
       map_of (class_slots g' c) k = map_of (class_slots g c) k)"

interpretation kept: step_relation "slots_kept K P c" for K P c
  by unfold_locales (auto simp: slots_kept_def)

lemma same_slots:
  "class_slots g' c = class_slots g c \<Longrightarrow> cs_classes (cg_state g') = cs_classes (cg_state g) \<Longrightarrow> slots_kept K P c g g'"
  by (simp add: slots_kept_def)

lemma kept_state: "(\<And>g r g'. m g = (r, g') \<Longrightarrow> cg_state g' = cg_state g) \<Longrightarrow> always (slots_kept K P c) m"
  by (rule alwaysI) (auto intro: same_slots)

lemma kept_emit:
  "always (slots_kept K P c) (cg_cmd cmd)" "always (slots_kept K P c) (cg_writeln text)" "always (slots_kept K P c) (on_after mcb)"
  "always (slots_kept K P c) (after_code text)" "always (slots_kept K P c) (emit_block er code)"
  by (rule kept_state; auto simp: cg_cmd_def cg_writeln_def on_after_def after_code_def emit_block_def split: prod.splits)+

lemma kept_cmds: "always (slots_kept K P c) (cg_cmds cmds)"
  unfolding cg_cmds_def by (intro kept.always_for_each kept_emit)

lemma kept_reads:
  "always (slots_kept K P c) (the_class d)" "always (slots_kept K P c) (the_body d)" "always (slots_kept K P c) (cg_pystruct d)"
  unfolding the_class_def the_body_def cg_pystruct_def by (intro kept.always_rules)+

lemma setdefault_other: "map_of slots k \<noteq> None \<or> k \<noteq> fst kv \<Longrightarrow> map_of (setdefault kv slots) k = map_of slots k"
  by (auto simp: setdefault_def map_of_append map_add_def split: option.splits)

lemma kept_slot_default: "k \<in> K \<Longrightarrow> always (slots_kept K P c) (slot_default d k v)"
  by (rule alwaysI) (auto simp: slot_default_def upd_cg_def upd_body_def slots_kept_def intro!: setdefault_other)

lemma kept_slot_put: "k \<in> K \<Longrightarrow> k \<in> P \<Longrightarrow> always (slots_kept K P c) (slot_put d k v)"
  by (rule alwaysI) (auto simp: slot_put_def upd_cg_def upd_body_def slots_kept_def update_conv')

lemma kept_upd: "(\<And>b. b_slots (f b) = b_slots b) \<Longrightarrow> always (slots_kept K P c) (upd_cg (upd_body d f))"
  by (rule alwaysI) (auto simp: upd_cg_def upd_body_def intro: same_slots)

lemma kept_body_part: "(\<And>x b. b_slots (put x b) = b_slots b) \<Longrightarrow> always (slots_kept K P c) (on_body_part d get put m)"
  by (rule alwaysI) (auto simp: on_body_part_def upd_body_def intro!: same_slots split: prod.splits)

lemma kept_helper: "always (slots_kept K P c) (on_class_helper d m)"
  by (rule alwaysI) (auto simp: on_class_helper_def upd_body_def intro!: same_slots split: option.splits prod.splits)

lemma kept_method: "always (slots_kept K P c) (on_method d n m)"
  by (rule alwaysI) (auto simp: on_method_def on_body_part_def upd_body_def intro!: same_slots split: option.splits prod.splits)

lemma kept_ask:
  assumes "\<And>cl a cl'. f cl = Some (a, cl') \<Longrightarrow> class_names (cl' c) = class_names (cl c)"
  shows "keepsd (slots_kept K P c) (ask_classes f)"
  using assms by (auto simp: keepsd_def ask_classes_def on_stated_def slots_kept_def)

lemma kept_rootd: "keepsd (slots_kept K P c) (on_rootd m)"
  by (auto simp: keepsd_def on_rootd_def intro!: same_slots)

lemma registry_names:
  assumes run: "get_wrapper_registry new d cl = Some x"
  shows "class_names (snd x c) = class_names (cl c)"
  by (rule get_wrapper_registry.raw_induct [OF _ run]) (auto simp: class_names_def split: option.splits if_splits)

lemma kept_registry: "keepsd (slots_kept K P c) (get_registry ve d)" "keepsd (slots_kept K P c) (ask_classes (get_wrapper_registry new d))"
  unfolding get_registry_def by (auto intro!: kept.keepsd_bndd kept_ask always_total kept.always_prims dest!: registry_names)

lemma kept_reading: "keepsd (slots_kept K P c) (ask_classes (\<lambda>cl. map_option (\<lambda>x. (h x cl, cl)) (f cl)))"
  by (rule kept_ask) auto
lemmas kept_py = kept.always_rules kept.always_seqs kept.always_for_each kept_emit kept_cmds kept_reads kept_slot_default kept_slot_put kept_upd
  kept_body_part kept_helper kept_method
lemmas kept_pyd = always_total kept.keepsd_bndd kept.keepsd_seqsd kept.keepsd_for_eachd kept.keepsd_fold_slots kept_rootd kept_registry kept_reading

lemma kept_operand: "keepsd (slots_kept K P c) (operand_handler ve x)"
proof (cases x)
  case (Param_Operand ct)
  then show ?thesis by (auto simp: operand_handler_def keepsd_def slots_kept_def)
qed (auto simp: operand_handler_def simp del: ret_run intro!: kept_pyd kept_py)

lemma kept_converters:
  "keepsd (slots_kept K P c) (get_python_to_c_converter ve x)" "keepsd (slots_kept K P c) (get_c_to_python_converter ve x)"
  unfolding get_python_to_c_converter_def get_c_to_python_converter_def
  by (auto simp del: ret_run intro!: kept_pyd kept_py kept_operand)

lemma kept_dropd: "keepsd (slots_kept K P c) m \<Longrightarrow> keepsd (slots_kept K P c) (dropd m)"
  unfolding dropd_def by (intro kept_pyd kept_py)

lemma kept_requests: "keepsd (slots_kept K P c) (request_converters ve k)"
  unfolding request_converters_def
  by (auto simp: Let_def simp del: ret_run intro!: kept_pyd kept_py kept_dropd kept_converters split: prod.split)

lemma kept_binary: "keepsd (slots_kept K P c) (try_wrap_operator ve k x slots)"
  unfolding try_wrap_operator_def wrap_binary_case_def
  by (auto simp: Let_def simp del: ret_run intro!: kept_pyd kept_py kept_converters split: prod.split option.split)

lemma kept_unary: "keepsd (slots_kept K P c) (try_wrap_unary_operator ve k x slots)"
  unfolding try_wrap_unary_operator_def wrap_unary_case_def
  by (auto simp: Let_def simp del: ret_run intro!: kept_pyd kept_py kept_converters split: prod.split option.split)

lemma kept_numbers: "keepsd (slots_kept K P c) (generate_number_methods ve d)"
  unfolding generate_number_methods_def
  by (auto simp: Let_def simp del: ret_run intro!: kept_pyd kept_py kept_requests kept_binary kept_unary)

lemma kept_sequence: "keepsd (slots_kept K P c) (generate_sequence_methods ve d)"
  unfolding generate_sequence_methods_def try_wrap_sequence_method_def
  by (auto simp: Let_def simp del: ret_run intro!: kept_pyd kept_py split: prod.split option.split)

lemma kept_constructor:
  assumes "''tp_init'' \<in> K"
  shows "always (slots_kept K P c) (generate_constructor ve d)"
proof -
  have "always (slots_kept K P c) (generate_constructor_overload ve d p)" for p
    unfolding generate_constructor_overload_def by (rule kept_body_part) simp
  moreover have "always (slots_kept K P c) (generate_no_constructor ve d)"
    unfolding generate_no_constructor_def
    by (intro kept_py kept_state) (auto split: prod.splits)
  ultimately show ?thesis
    unfolding generate_constructor_def using assms
    by (auto simp del: ret_run intro!: kept_py kept.always_try split: prod.split)
qed

lemma kept_skip: "always (slots_kept K P c) m \<Longrightarrow> always (slots_kept K P c) (unless_skipped m)"
  unfolding unless_skipped_def by (intro kept.always_try kept_py)

lemma kept_own: "always (slots_kept K P c) (generate_own_methods ve d names)"
  by (induction names) (auto simp del: ret_run intro!: kept_py kept_skip)

lemma kept_inherit_wrapper: "always (slots_kept K P c) (inherit_wrapper st d base name inh cm)"
  unfolding inherit_wrapper_def
  by (auto simp: Let_def simp del: ret_run intro!: kept_py split: option.split)

lemma kept_inherit: "always (slots_kept K P c) (inherit_wrappers st d base name inh cms)"
  by (induction cms arbitrary: inh) (auto simp del: ret_run intro!: kept_py kept_inherit_wrapper)

lemma kept_overloads: "always (slots_kept K P c) (inherit_overloads st d p inh ovs)"
  by (induction st d p inh ovs rule: inherit_overloads.induct) (auto simp del: ret_run intro!: kept_py kept_inherit)

lemma kept_on_inherited: "always (slots_kept K P c) (on_inherited ov m)"
  by (rule kept_state) (auto simp: on_inherited_def split: prod.splits)

lemma kept_inherited: "always (slots_kept K P c) (generate_inherited ve inh)"
  by (induction ve inh rule: generate_inherited.induct)
    (auto simp del: ret_run intro!: kept_py kept_on_inherited)

lemma kept_MI: "keepsd (slots_kept K P c) (generate_MI_parent_methods ve d)"
  unfolding generate_MI_parent_methods_def by (intro kept_pyd kept_py kept_overloads kept_inherited)

lemma kept_copy: "keepsd (slots_kept K P c) (generate_copy_entry ve d)"
  unfolding generate_copy_entry_def generate_copy_method_def
  by (auto simp del: ret_run intro!: kept_pyd kept_py kept.always_try kept.always_handling)

lemma keepsd_option: "keepsd R m \<Longrightarrow> (\<And>a. keepsd R (f a)) \<Longrightarrow> keepsd R (case x of None \<Rightarrow> m | Some a \<Rightarrow> f a)"
  by (cases x) auto

lemma kept_methods: "''tp_methods'' \<in> K \<Longrightarrow> keepsd (slots_kept K P c) (generate_methods ve d pcs)"
  unfolding generate_methods_def
  by (auto simp del: ret_run intro!: kept_pyd kept_py keepsd_if kept_own kept_MI kept_copy)

lemma kept_gc: "''tp_clear'' \<in> K \<Longrightarrow> ''tp_traverse'' \<in> K \<Longrightarrow> always (slots_kept K P c) (generate_gc_methods d)"
  unfolding generate_gc_methods_def by (auto simp del: ret_run intro!: kept_py)

lemma kept_str: "''tp_str'' \<in> K \<Longrightarrow> always (slots_kept K P c) (generate_str d)"
  unfolding generate_str_def by (auto simp del: ret_run intro!: kept_py)

lemma kept_destructor: "''tp_dealloc'' \<in> K \<Longrightarrow> keepsd (slots_kept K P c) (generate_destructor ve d)"
  unfolding generate_destructor_def by (auto simp del: ret_run intro!: kept_pyd kept_py)

lemma kept_operators:
  assumes "{''tp_richcompare'', ''tp_as_number'', ''tp_as_sequence''} \<subseteq> K \<inter> P"
  shows "keepsd (slots_kept K P c) (generate_operators ve d)"
  unfolding generate_operators_def generate_tp_richcompare_def using assms
  by (auto simp del: ret_run intro!: kept_pyd kept_py keepsd_if kept_numbers kept_sequence)


lemma kept_type_structure:
  assumes "{''tp_basicsize'', ''tp_dictoffset'', ''tp_flags'', ''tp_doc'', ''typestruct'', ''tp_name'', ''tp_call''} \<union> fst ` set PyTypeObject_defaults \<subseteq> K"
  shows "always (slots_kept K P c) (generate_type_structure me d)"
proof -
  have defaults: "map_of s k \<noteq> None \<or> k \<notin> fst ` set ds \<Longrightarrow> map_of (fold setdefault ds s) k = map_of s k" for s ds and k :: string
    using map_of_eq_None_iff [of ds k] by (auto simp: map_of_setdefaults slot_env_def split: option.splits)
  have "always (slots_kept K P c) (upd_cg (upd_body d (\<lambda>b. b\<lparr>b_slots := fold setdefault PyTypeObject_defaults (b_slots b)\<rparr>)))"
    using assms by (intro alwaysI) (auto simp: upd_cg_def upd_body_def slots_kept_def intro!: defaults)
  then show ?thesis
    unfolding generate_type_structure_def using assms
    by (auto simp del: ret_run intro!: kept_py split: option.split)
qed

text \<open>The rest of the generation, before the constructor and after the methods.\<close>

lemma kept_prologue:
  "keepsd (slots_kept K P c) (total (define_typeid_map n))" "keepsd (slots_kept K P c) (register_typeid d)"
  "keepsd (slots_kept K P c) (define_registry ve d)" "always (slots_kept K P c) (generate_parent_caller_methods ve d)"
  "always (slots_kept K P c) (register_class_type ve me d sg)"
  unfolding define_typeid_map_def register_typeid_def define_registry_def generate_parent_caller_methods_def generate_class_helper_def
    register_class_type_def generate_metaclass_def
  by (auto simp: Let_def simp del: ret_run intro!: kept_pyd kept_py split: option.split prod.split)

lemma kept_getsets: "''tp_getset'' \<in> K \<Longrightarrow> always (slots_kept K P c) (generate_getsets ve d)"
  unfolding generate_getsets_def by (auto simp del: ret_run intro!: kept_py)

text \<open>The iterator of a container class gives the class a slot \<open>tp_iter\<close>.\<close>

definition traits_slots_kept :: "(class_container \<times> slots) \<times> memory_sink \<Rightarrow> (class_container \<times> slots) \<times> memory_sink \<Rightarrow> bool" where
  "traits_slots_kept s s' \<longleftrightarrow> (\<forall>k. k \<noteq> ''tp_iter'' \<or> map_of (snd (fst s)) k \<noteq> None \<longrightarrow> map_of (snd (fst s')) k = map_of (snd (fst s)) k)"

interpretation traits: step_relation traits_slots_kept
  by unfold_locales (auto simp: traits_slots_kept_def)

lemma traits_prims:
  "always traits_slots_kept (on_sink m)" "always traits_slots_kept (xt_emit sk text)" "always traits_slots_kept (xt_iter_slot k v)"
  "always traits_slots_kept (xt_class_slot ''tp_iter'' v)"
  "always traits_slots_kept (upd (\<lambda>((xt, slots), t). ((f xt, slots), t)))"
  by (rule alwaysI; auto simp: on_sink_def xt_emit_def xt_iter_slot_def xt_class_slot_def traits_slots_kept_def setdefault_def
      map_of_append map_add_def split: prod.splits option.splits if_splits)+

lemma traits_code: "always traits_slots_kept (traits_generate_code memory_class full_name doc k p)"
  unfolding traits_generate_code_def traits_generate_gc_methods_def traits_generate_destructor_def traits_generate_iter_methods_def
    traits_generate_iternext_def traits_generate_type_structure_def
  by (auto simp del: ret_run intro!: traits.always_rules traits_prims split: option.split)

lemma kept_traits:
  assumes "''tp_iter'' \<in> K"
  shows "always (slots_kept K P c) (generate_container_traits me d)"
proof -
  have "always (slots_kept K P c) (on_body_part d (\<lambda>b. (xt, b_slots b)) (\<lambda>(xt', slots) b. b\<lparr>b_container_traits := Some xt', b_slots := slots\<rparr>)
      (traits_generate_code memory_class full_name None k p))" for xt full_name k p
  proof (rule alwaysI)
    fix g r g'
    assume run: "on_body_part d (\<lambda>b. (xt, b_slots b)) (\<lambda>(xt', slots) b. b\<lparr>b_container_traits := Some xt', b_slots := slots\<rparr>)
        (traits_generate_code memory_class full_name None k p) g = (r, g')"
    obtain r0 xt' slots' t' where code: "traits_generate_code memory_class full_name None k p ((xt, class_slots g d), cg_sink g) =
        (r0, ((xt', slots'), t'))"
      by (metis prod.exhaust)
    have same: "map_of slots' n = map_of (class_slots g d) n" if "n \<notin> K \<or> n \<notin> P \<and> map_of (class_slots g d) n \<noteq> None" for n
      using alwaysD [OF traits_code code] that assms unfolding traits_slots_kept_def by (cases "n = ''tp_iter''") auto
    have "g' = g\<lparr>cg_state := upd_body d (\<lambda>b. b\<lparr>b_container_traits := Some xt', b_slots := slots'\<rparr>) (cg_state g), cg_sink := t'\<rparr>"
      using run code by (auto simp: on_body_part_def)
    then show "slots_kept K P c g g'"
      using same unfolding slots_kept_def by (cases "c = d") (simp_all add: upd_body_def)
  qed
  then show ?thesis
    unfolding generate_container_traits_def by (auto simp del: ret_run intro!: kept_py split: option.split)
qed

text \<open>
  An action installs a value in a slot: \<open>F\<close> computes it from the names of the class and the slot before the action.
\<close>

definition installs :: "nat \<Rightarrow> string \<Rightarrow> (string option \<times> string \<times> bool \<Rightarrow> string option \<Rightarrow> string option) \<Rightarrow> (class_gen, 'a) pyd \<Rightarrow> bool" where
  "installs c n F m \<longleftrightarrow> keepsd (\<lambda>g g'. class_names (cs_classes (cg_state g') c) = class_names (cs_classes (cg_state g) c) \<and>
     map_of (class_slots g' c) n = F (class_names (cs_classes (cg_state g) c)) (map_of (class_slots g c) n)) m"

lemma slots_keptD:
  assumes "slots_kept K P c g g'"
  shows "class_names (cs_classes (cg_state g') c) = class_names (cs_classes (cg_state g) c)"
    "n \<notin> K \<or> n \<notin> P \<and> map_of (class_slots g c) n \<noteq> None \<Longrightarrow> map_of (class_slots g' c) n = map_of (class_slots g c) n"
  using assms unfolding slots_kept_def by blast+

lemma installsI:
  assumes "\<And>g a g'. m g = Some (Inr a, g') \<Longrightarrow> class_names (cs_classes (cg_state g') c) = class_names (cs_classes (cg_state g) c) \<and>
    map_of (class_slots g' c) n = F (class_names (cs_classes (cg_state g) c)) (map_of (class_slots g c) n)"
  shows "installs c n F m"
  unfolding installs_def by (rule keepsdI) (rule assms)

lemma installsD:
  assumes "installs c n F m" "m g = Some (Inr a, g')"
  shows "class_names (cs_classes (cg_state g') c) = class_names (cs_classes (cg_state g) c)"
    "map_of (class_slots g' c) n = F (class_names (cs_classes (cg_state g) c)) (map_of (class_slots g c) n)"
  using keepsdD [OF assms(1) [unfolded installs_def] assms(2)] by simp_all

lemma installs_first:
  assumes m: "installs c n F m" and f: "\<And>a. keepsd (slots_kept K P c) (f a)"
    and n: "n \<notin> K \<or> n \<notin> P \<and> (\<forall>nm old. F nm old \<noteq> None)"
  shows "installs c n F (bndd m f)"
proof (rule installsI, elim bndd_InrE)
  fix g b g' a h
  assume run: "m g = Some (Inr a, h)" "f a h = Some (Inr b, g')"
  note 1 = installsD [OF m run(1)] and 2 = slots_keptD [OF keepsdD [OF f run(2)]]
  have "map_of (class_slots g' c) n = map_of (class_slots h c) n" using n 1(2) 2(2) by metis
  then show "class_names (cs_classes (cg_state g') c) = class_names (cs_classes (cg_state g) c) \<and>
      map_of (class_slots g' c) n = F (class_names (cs_classes (cg_state g) c)) (map_of (class_slots g c) n)"
    using 1 2(1) by simp
qed

lemma installs_later:
  assumes m: "keepsd (slots_kept (- {n}) P c) m" and f: "\<And>a. installs c n F (f a)"
  shows "installs c n F (bndd m f)"
proof (rule installsI, elim bndd_InrE)
  fix g b g' a h
  assume run: "m g = Some (Inr a, h)" "f a h = Some (Inr b, g')"
  note 1 = slots_keptD [OF keepsdD [OF m run(1)]] and 2 = installsD [OF f run(2)]
  show "class_names (cs_classes (cg_state g') c) = class_names (cs_classes (cg_state g) c) \<and>
      map_of (class_slots g' c) n = F (class_names (cs_classes (cg_state g) c)) (map_of (class_slots g c) n)"
    using 1(1) 1(2) [of n] 2 by simp
qed
text \<open>A slot that is not set gets the value of the generation, one that is set keeps its value.\<close>

definition default_slot :: "string \<Rightarrow> string option \<Rightarrow> string option" where
  "default_slot v old = Some (case old of None \<Rightarrow> v | Some u \<Rightarrow> u)"

lemma default_slot_Some [simp]: "\<exists>u. default_slot v old = Some u"
  by (simp add: default_slot_def)

lemma total_bnd: "total (bnd m f) = bndd (total m) (\<lambda>a. total (f a))"
  by (auto simp: total_def bnd_def bndd_def fun_eq_iff split: prod.split sum.split)

lemma total_seqs: "total (seqs ms) = seqsd (map total ms)"
  by (induction ms) (simp_all add: total_bnd del: total_run ret_run)

lemma installs_slot: "installs c n (\<lambda>_. default_slot v) (total (slot_default c n v))"
  by (rule installsI) (auto simp: slot_default_def upd_cg_def upd_body_def default_slot_def setdefault_def map_of_append map_add_def
      split: option.splits)

lemma installs_pystruct:
  assumes "\<And>p. installs c n (\<lambda>_. G p) (f p)"
  shows "installs c n (\<lambda>nm. G (opt_str (fst nm))) (bndd (total (cg_pystruct c)) f)"
proof (rule installsI, elim bndd_InrE)
  fix g a g' p h
  assume run: "total (cg_pystruct c) g = Some (Inr p, h)" "f p h = Some (Inr a, g')"
  then have "h = g" "p = opt_str (fst (class_names (cs_classes (cg_state g) c)))"
    by (auto simp: cg_pystruct_def the_class_def class_pystruct_def class_names_def opt_str_def split: option.splits)
  with installsD [OF assms run(2)] show "class_names (cs_classes (cg_state g') c) = class_names (cs_classes (cg_state g) c) \<and>
      map_of (class_slots g' c) n = G (opt_str (fst (class_names (cs_classes (cg_state g) c)))) (map_of (class_slots g c) n)"
    by simp
qed

lemma kept_prologue_all: "{''tp_getset'', ''tp_init''} \<subseteq> K \<Longrightarrow> keepsd (slots_kept K P c) (class_prologue ve me d k)"
  unfolding class_prologue_def
  by (auto simp del: ret_run total_run intro!: kept_pyd kept_py keepsd_option keepsd_if kept_prologue kept_getsets kept_constructor)

lemma installs_seqsd:
  assumes m: "installs c n (\<lambda>nm. default_slot (v nm)) m"
    and pre: "list_all (keepsd (slots_kept (- {n}) P c)) pre" and post: "list_all (keepsd (slots_kept UNIV (- {n}) c)) post"
  shows "installs c n (\<lambda>nm. default_slot (v nm)) (seqsd (pre @ m # post))"
  using pre
proof (induction pre)
  case Nil
  show ?case
    using post by (auto intro!: installs_first [OF m, where K = UNIV and P = "- {n}"] kept.keepsd_seqsd)
next
  case (Cons a pre)
  then show ?case by (auto intro!: installs_later)
qed

lemma installs_in:
  assumes "ms = pre @ total (slot_default c n v) # post" "list_all (keepsd (slots_kept (- {n}) {} c)) pre"
    "list_all (keepsd (slots_kept UNIV (- {n}) c)) post"
  shows "installs c n (\<lambda>_. default_slot v) (seqsd ms)"
  using installs_seqsd [OF installs_slot assms(2,3)] assms(1) by simp

lemma installs_methods: "installs c ''tp_methods'' (\<lambda>nm. default_slot (opt_str (fst nm) @ ''_methods'')) (generate_methods ve c pcs)"
proof -
  have "installs c ''tp_methods'' (\<lambda>_. default_slot (p @ ''_methods''))
      (seqsd (map total [cg_cmds (method_table_cmds p defs), slot_default c ''tp_methods'' (p @ ''_methods'')]))" for p defs
    by (rule installs_in [where pre = "[total (cg_cmds (method_table_cmds p defs))]" and post = "[]"]) (auto intro!: kept_pyd kept_py)
  then have "installs c ''tp_methods'' (\<lambda>nm. default_slot (opt_str (fst nm) @ ''_methods'')) (total (bnd (cg_pystruct c) (\<lambda>p. seqs [
       cg_cmds (method_table_cmds p defs), slot_default c ''tp_methods'' (p @ ''_methods'')])))" for defs
    unfolding total_bnd total_seqs by (rule installs_pystruct)
  then show ?thesis
    unfolding generate_methods_def
    by (intro installs_later [where P = "{}"]) (auto simp del: ret_run intro!: kept_pyd kept_py kept_own keepsd_if kept_MI kept_copy)
qed

lemma installs_destructor:
  "installs c ''tp_dealloc'' (\<lambda>nm. default_slot (''_wrap_'' @ opt_str (fst nm) @ ''__tp_dealloc'')) (generate_destructor ve c)"
proof (rule installsI)
  fix g a g'
  assume run: "generate_destructor ve c g = Some (Inr a, g')"
  let ?F = "\<lambda>nm. default_slot (''_wrap_'' @ opt_str (fst nm) @ ''__tp_dealloc'')"
  show "class_names (cs_classes (cg_state g') c) = class_names (cs_classes (cg_state g) c) \<and>
      map_of (class_slots g' c) ''tp_dealloc'' = ?F (class_names (cs_classes (cg_state g) c)) (map_of (class_slots g c) ''tp_dealloc'')"
  proof (cases "map_of (class_slots g c) ''tp_dealloc''")
    case None
    define code where "code = (\<lambda>p. seqsd [
       total (seqs [cg_writeln (tp_dealloc_head p), cg_cmd Indent]),
       bndd (get_registry ve c) (\<lambda>reg. total (emit_block ''PyErr_Print(); return;''
         (destructor_code (cs_classes (cg_state g) c) (class_slots g c) reg))),
       total (seqs [cg_cmd Unindent, cg_writeln (''}'' @ nl), slot_default c ''tp_dealloc'' (''_wrap_'' @ p @ ''__tp_dealloc'')])])"
    have "installs c ''tp_dealloc'' (\<lambda>_. default_slot (''_wrap_'' @ p @ ''__tp_dealloc''))
        (seqsd (map total [cg_cmd Unindent, cg_writeln (''}'' @ nl), slot_default c ''tp_dealloc'' (''_wrap_'' @ p @ ''__tp_dealloc'')]))" for p
      by (rule installs_in [where pre = "[total (cg_cmd Unindent), total (cg_writeln (''}'' @ nl))]" and post = "[]"]) (auto intro!: kept_pyd kept_py)
    then have "installs c ''tp_dealloc'' (\<lambda>_. default_slot (''_wrap_'' @ p @ ''__tp_dealloc'')) (seqsd ([
        total (seqs [cg_writeln (tp_dealloc_head p), cg_cmd Indent]),
        bndd (get_registry ve c) (\<lambda>reg. total (emit_block ''PyErr_Print(); return;''
          (destructor_code (cs_classes (cg_state g) c) (class_slots g c) reg)))] @
        total (seqs [cg_cmd Unindent, cg_writeln (''}'' @ nl), slot_default c ''tp_dealloc'' (''_wrap_'' @ p @ ''__tp_dealloc'')]) # []))" for p
      unfolding total_seqs [symmetric] by (rule installs_seqsd [where P = "{}"]) (auto simp del: ret_run intro!: kept_pyd kept_py)
    then have "installs c ''tp_dealloc'' (\<lambda>_. default_slot (''_wrap_'' @ p @ ''__tp_dealloc'')) (code p)" for p
      by (simp only: code_def append.simps)
    then have "installs c ''tp_dealloc'' ?F (bndd (total (cg_pystruct c)) code)"
      by (rule installs_pystruct [where G = "\<lambda>p. default_slot (''_wrap_'' @ p @ ''__tp_dealloc'')"])
    moreover have "bndd (total (cg_pystruct c)) code g = Some (Inr a, g')"
      using run None by (simp add: generate_destructor_def the_class_def the_body_def code_def bndd_def)
    ultimately show ?thesis by (auto dest: installsD)
  next
    case (Some u)
    with run have "g' = g" by (simp add: generate_destructor_def the_class_def the_body_def bndd_def)
    with Some show ?thesis by (simp add: default_slot_def)
  qed
qed
lemma installs_gc:
  "installs c ''tp_clear'' (\<lambda>nm. default_slot (opt_str (fst nm) @ ''__tp_clear'')) (total (generate_gc_methods c))"
  "installs c ''tp_traverse'' (\<lambda>nm. default_slot (opt_str (fst nm) @ ''__tp_traverse'')) (total (generate_gc_methods c))"
proof -
  let ?clear = "\<lambda>p. slot_default c ''tp_clear'' (p @ ''__tp_clear'')" and ?traverse = "\<lambda>p. slot_default c ''tp_traverse'' (p @ ''__tp_traverse'')"
  let ?free = "\<lambda>k p. bnd (lift_res (get_delete_code k)) (\<lambda>code. cg_writeln (tp_clear_text p code))"
  let ?visit = "\<lambda>k p. bnd (the_body c) (\<lambda>b. cg_writeln (tp_traverse_text k p (map_option h_name (b_helper_class b))))"
  let ?code = "\<lambda>k p. seqsd [total (?clear p), total (?free k p), total (?traverse p), total (?visit k p)]"
  have gc: "total (generate_gc_methods c) = bndd (total (the_class c)) (\<lambda>k. bndd (total (cg_pystruct c)) (\<lambda>p. ?code k p))"
    by (simp only: generate_gc_methods_def total_bnd total_seqs list.map)
  have "installs c ''tp_clear'' (\<lambda>_. default_slot (p @ ''__tp_clear'')) (?code k p)" for k p
    by (rule installs_in [where pre = "[]" and post = "[total (?free k p), total (?traverse p), total (?visit k p)]"])
      (auto simp del: ret_run intro!: kept_pyd kept_py)
  then show "installs c ''tp_clear'' (\<lambda>nm. default_slot (opt_str (fst nm) @ ''__tp_clear'')) (total (generate_gc_methods c))"
    unfolding gc by (intro installs_later [where P = "{}"] installs_pystruct [where G = "\<lambda>p. default_slot (p @ ''__tp_clear'')"] kept_pyd kept_py)
  have "installs c ''tp_traverse'' (\<lambda>_. default_slot (p @ ''__tp_traverse'')) (?code k p)" for k p
    by (rule installs_in [where pre = "[total (?clear p), total (?free k p)]" and post = "[total (?visit k p)]"])
      (auto simp del: ret_run intro!: kept_pyd kept_py)
  then show "installs c ''tp_traverse'' (\<lambda>nm. default_slot (opt_str (fst nm) @ ''__tp_traverse'')) (total (generate_gc_methods c))"
    unfolding gc by (intro installs_later [where P = "{}"] installs_pystruct [where G = "\<lambda>p. default_slot (p @ ''__tp_traverse'')"] kept_pyd kept_py)
qed

definition operator_slots :: "string set" where
  "operator_slots = {''tp_richcompare'', ''tp_as_number'', ''tp_as_sequence''}"

lemma kept_all:
  assumes "operator_slots \<subseteq> P"
  shows "keepsd (slots_kept UNIV P c) (class_prologue ve me c k)" "keepsd (slots_kept UNIV P c) (generate_methods ve c pcs)"
    "keepsd (slots_kept UNIV P c) (total (when_py b (generate_gc_methods c)))" "keepsd (slots_kept UNIV P c) (generate_destructor ve c)"
    "keepsd (slots_kept UNIV P c) (total (bnd (the_body c) (\<lambda>b. when_py (b_has_output_stream_operator b) (generate_str c))))"
    "keepsd (slots_kept UNIV P c) (generate_operators ve c)" "keepsd (slots_kept UNIV P c) (total (generate_container_traits me c))"
    "keepsd (slots_kept UNIV P c) (total (generate_type_structure me c))"
  using assms unfolding operator_slots_def
  by (auto intro!: kept_prologue_all kept_methods kept_pyd kept_py kept_gc kept_destructor kept_str kept_operators kept_traits kept_type_structure)

lemma kept_class: "keepsd (slots_kept UNIV operator_slots c) (generate_own_class ve me c k)"
  unfolding generate_own_class_def
  by (intro kept.keepsd_bndd kept.keepsd_seqsd) (simp_all add: kept_all del: total_run)

abbreviation class_tail :: "class_env \<Rightarrow> module_env \<Rightarrow> nat \<Rightarrow> cpp_class \<Rightarrow> string list \<Rightarrow> (class_gen, unit) pyd list" where
  "class_tail ve me c k pcs \<equiv> [generate_methods ve c pcs, total (when_py (cc_allow_subclassing k) (generate_gc_methods c)),
     generate_destructor ve c, total (bnd (the_body c) (\<lambda>b. when_py (b_has_output_stream_operator b) (generate_str c))),
     generate_operators ve c, total (generate_container_traits me c), total (generate_type_structure me c)]"

lemma class_installs:
  assumes n: "n \<notin> operator_slots \<union> {''tp_getset'', ''tp_init''}"
    and split: "\<And>pcs. \<exists>pre m post. class_tail ve me c k pcs = pre @ m # post \<and> installs c n (\<lambda>nm. default_slot (v nm)) m \<and>
      list_all (keepsd (slots_kept (- {n}) {} c)) pre"
  shows "installs c n (\<lambda>nm. default_slot (v nm)) (generate_own_class ve me c k)"
  unfolding generate_own_class_def
proof (rule installs_later [where P = "{}"])
  show "keepsd (slots_kept (- {n}) {} c) (class_prologue ve me c k)" using n by (intro kept_prologue_all) auto
  fix pcs
  have "operator_slots \<subseteq> - {n}" using n by auto
  then have "list_all (keepsd (slots_kept UNIV (- {n}) c)) (class_tail ve me c k pcs)"
    by (simp add: kept_all del: total_run)
  then show "installs c n (\<lambda>nm. default_slot (v nm)) (seqsd (class_tail ve me c k pcs))"
    using split [of pcs] by (elim exE conjE) (simp only: list_all_append list.pred_inject installs_seqsd)
qed

lemma own_installs:
  "installs c ''tp_methods'' (\<lambda>nm. default_slot (opt_str (fst nm) @ ''_methods'')) (generate_own_class ve me c k)"
  "installs c ''tp_dealloc'' (\<lambda>nm. default_slot (''_wrap_'' @ opt_str (fst nm) @ ''__tp_dealloc'')) (generate_own_class ve me c k)"
  "cc_allow_subclassing k \<Longrightarrow> installs c ''tp_clear'' (\<lambda>nm. default_slot (opt_str (fst nm) @ ''__tp_clear'')) (generate_own_class ve me c k)"
  "cc_allow_subclassing k \<Longrightarrow> installs c ''tp_traverse'' (\<lambda>nm. default_slot (opt_str (fst nm) @ ''__tp_traverse'')) (generate_own_class ve me c k)"
proof -
  have methods: "keepsd (slots_kept (- {n}) {} c) (generate_methods ve c pcs)" if "n \<noteq> ''tp_methods''" for n pcs
    using that by (intro kept_methods) auto
  have gc: "keepsd (slots_kept (- {''tp_dealloc''}) {} c) (total (when_py b (generate_gc_methods c)))" for b
    by (intro kept_pyd kept_py kept_gc) auto
  show "installs c ''tp_methods'' (\<lambda>nm. default_slot (opt_str (fst nm) @ ''_methods'')) (generate_own_class ve me c k)"
    by (rule class_installs, simp add: operator_slots_def, rule exI [of _ "[]"]) (auto simp: installs_methods)
  show "installs c ''tp_dealloc'' (\<lambda>nm. default_slot (''_wrap_'' @ opt_str (fst nm) @ ''__tp_dealloc'')) (generate_own_class ve me c k)"
  proof (rule class_installs, simp add: operator_slots_def)
    fix pcs
    let ?pre = "[generate_methods ve c pcs, total (when_py (cc_allow_subclassing k) (generate_gc_methods c))]"
    have "list_all (keepsd (slots_kept (- {''tp_dealloc''}) {} c)) ?pre" using methods gc by (simp del: total_run)
    then show "\<exists>pre m post. class_tail ve me c k pcs = pre @ m # post \<and>
        installs c ''tp_dealloc'' (\<lambda>nm. default_slot (''_wrap_'' @ opt_str (fst nm) @ ''__tp_dealloc'')) m \<and>
        list_all (keepsd (slots_kept (- {''tp_dealloc''}) {} c)) pre"
      using installs_destructor by (intro exI [of _ ?pre]) (simp del: total_run)
  qed
  show "cc_allow_subclassing k \<Longrightarrow> installs c ''tp_clear'' (\<lambda>nm. default_slot (opt_str (fst nm) @ ''__tp_clear'')) (generate_own_class ve me c k)"
    by (rule class_installs, simp add: operator_slots_def, rule exI [of _ "[generate_methods ve c pcs]" for pcs])
      (simp add: installs_gc methods del: total_run)
  show "cc_allow_subclassing k \<Longrightarrow> installs c ''tp_traverse'' (\<lambda>nm. default_slot (opt_str (fst nm) @ ''__tp_traverse'')) (generate_own_class ve me c k)"
    by (rule class_installs, simp add: operator_slots_def, rule exI [of _ "[generate_methods ve c pcs]" for pcs])
      (simp add: installs_gc methods del: total_run)
qed

section \<open>A run of the generation\<close>

text \<open>A class with a registry that keeps nothing, for which the generation is followed step by step.\<close>

definition sample_env :: class_env where
  "sample_env = \<lparr>ve_generation = \<lparr>ge_settings = default_settings, ge_classes = (\<lambda>_. sample_owner),
       ge_handlers = \<lparr>eh_method = None, eh_overload = None, eh_proxy = None\<rparr>, ge_trivial = (\<lambda>_. True)\<rparr>,
     ve_method_handler = None, ve_overload_handler = None, ve_ctor_handler = None, ve_accessor_handler = None, ve_class_handler = None,
     ve_class_return = (\<lambda>_. Inl NotImplementedError), ve_return_value = (\<lambda>_. None), ve_new_registry = NullWrapperRegistry,
     ve_iteritems = (\<lambda>l. l)\<rparr>"

definition sample_module_env :: module_env where
  "sample_module_env = \<lparr>me_is_root = True, me_path = [''m''], me_before_init = []\<rparr>"

definition registered_class :: cpp_class where
  "registered_class = sample_root\<lparr>cc_pystruct := Some ''PyA'', cc_wrapper_registry := Some (NullWrapperRegistry ''PyA'')\<rparr>"

definition sample_gen :: class_gen where
  "sample_gen = \<lparr>cg_state = \<lparr>cs_classes = (\<lambda>_. registered_class),
       cs_bodies = (\<lambda>_. (class_body_init None)\<lparr>b_slots := [(''tp_doc'', ''doc'')]\<rparr>), cs_includes = []\<rparr>,
     cg_root = root_data_init, cg_after_init = CodeBlock_init ''return;'', cg_sink = MemoryCodeSink_init\<rparr>"

lemma registered_class_fields:
  "cc_pystruct registered_class = Some ''PyA''" "cc_wrapper_registry registered_class = Some (NullWrapperRegistry ''PyA'')"
  "cc_parent registered_class = None" "cc_bases registered_class = []" "cc_outer_class registered_class = None"
  "cc_import_from_module registered_class = None" "cc_typeid_map_name registered_class = None"
  "cc_automatic_type_narrowing registered_class = False" "cc_allow_subclassing registered_class = False"
  "cc_has_copy_constructor registered_class = False" "cc_is_singleton registered_class = False"
  "cc_memory_policy registered_class = None" "cc_incomplete_type registered_class = False"
  "cc_destructor_visibility registered_class = ''public''" "cc_binary_numeric_operators registered_class = []"
  "cc_inplace_numeric_operators registered_class = []"
  by code_simp+

lemma indent_stack_writeln [simp]: "indent_stack (mem_writeln line t) = indent_stack t"
  by (simp add: mem_writeln_def)

lemma indent_stack_flush [simp]: "indent_stack (snd (mem_flush_to mem_writeln s t)) = indent_stack t"
proof -
  have "indent_stack (fold (\<lambda>line. mem_writeln (rstrip line)) ls t) = indent_stack t" for ls
    by (induction ls arbitrary: t) simp_all
  then show ?thesis by (simp add: mem_flush_to_def)
qed

lemma indent_stack_indent [simp]: "indent_stack (sink_indent n t) = indent_stack t @ [indent_level t]"
  by (simp add: sink_indent_def)

lemma sink_unindent_Inr: "indent_stack t \<noteq> [] \<Longrightarrow>
  sink_unindent t = Inr (t\<lparr>indent_level := last (indent_stack t), indent_stack := butlast (indent_stack t)\<rparr>)"
  by (simp add: sink_unindent_def)

lemma cg_cmd_run:
  "cg_cmd (Writeln text) g = (Inr (), g\<lparr>cg_sink := mem_writeln text (cg_sink g)\<rparr>)"
  "cg_cmd Indent g = (Inr (), g\<lparr>cg_sink := sink_indent 4 (cg_sink g)\<rparr>)"
  "indent_stack (cg_sink g) \<noteq> [] \<Longrightarrow> cg_cmd Unindent g =
     (Inr (), g\<lparr>cg_sink := (cg_sink g)\<lparr>indent_level := last (indent_stack (cg_sink g)), indent_stack := butlast (indent_stack (cg_sink g))\<rparr>\<rparr>)"
  "cg_writeln text g = (Inr (), g\<lparr>cg_sink := mem_writeln text (cg_sink g)\<rparr>)"
  by (simp_all add: cg_cmd_def cg_writeln_def memory_class_def sink_unindent_Inr)

text \<open>
  The states of the generation of this class, and runs of it that end without an error: \<open>plain_run d e\<close> starts at the
  depth \<open>d\<close> of indentation and ends at \<open>e\<close>.
\<close>

definition plain_gen :: "nat \<Rightarrow> class_gen \<Rightarrow> bool" where
  "plain_gen d g \<longleftrightarrow> cs_classes (cg_state g) = (\<lambda>_. registered_class) \<and>
     (\<exists>slots. cs_bodies (cg_state g) 0 = (class_body_init None)\<lparr>b_slots := slots\<rparr>) \<and> length (indent_stack (cg_sink g)) = d"

definition plain_run :: "nat \<Rightarrow> nat \<Rightarrow> (class_gen, 'a) pyd \<Rightarrow> bool" where
  "plain_run d e m \<longleftrightarrow> (\<forall>g. plain_gen d g \<longrightarrow> (\<exists>a g'. m g = Some (Inr a, g') \<and> plain_gen e g'))"

lemma plain_bndd: "plain_run d e m \<Longrightarrow> (\<And>a. plain_run e i (f a)) \<Longrightarrow> plain_run d i (bndd m f)"
  unfolding plain_run_def by (metis bndd_run(1))

lemma plain_ret: "plain_run d d (total (ret a))" "plain_run d d (total (gets h))"
  by (simp_all add: plain_run_def)

lemma plain_seqsd:
  "plain_run d d (seqsd [])"
  "plain_run d e m \<Longrightarrow> plain_run e i (seqsd ms) \<Longrightarrow> plain_run d i (seqsd (m # ms))"
  by (simp_all add: plain_bndd plain_run_def [of d d])

lemma plain_reads:
  "plain_run d e (f registered_class) \<Longrightarrow> plain_run d e (bndd (total (the_class 0)) f)"
  "plain_run d e (h ''PyA'') \<Longrightarrow> plain_run d e (bndd (total (cg_pystruct 0)) h)"
  "plain_run d e (r (NullWrapperRegistry ''PyA'')) \<Longrightarrow> plain_run d e (bndd (get_registry sample_env 0) r)"
  by (auto simp: plain_run_def plain_gen_def bndd_def the_class_def cg_pystruct_def class_pystruct_def registered_class_fields
      get_registry_def ask_classes_def on_stated_def sample_env_def get_wrapper_registry.simps)

lemma plain_body:
  assumes "\<And>slots. plain_run d e (f ((class_body_init None)\<lparr>b_slots := slots\<rparr>))"
  shows "plain_run d e (bndd (total (the_body 0)) f)"
  unfolding plain_run_def
proof (intro allI impI)
  fix g assume g: "plain_gen d g"
  then obtain slots where "cs_bodies (cg_state g) 0 = (class_body_init None)\<lparr>b_slots := slots\<rparr>" by (auto simp: plain_gen_def)
  then have "bndd (total (the_body 0)) f g = f ((class_body_init None)\<lparr>b_slots := slots\<rparr>) g" by (simp add: bndd_def the_body_def)
  then show "\<exists>a g'. bndd (total (the_body 0)) f g = Some (Inr a, g') \<and> plain_gen e g'"
    using assms [of slots] g by (simp add: plain_run_def)
qed

lemma plain_writes:
  "plain_run d d (total (cg_writeln text))" "plain_run d d (total (cg_cmd (Writeln text)))" "plain_run d (Suc d) (total (cg_cmd Indent))"
  "plain_run d d (total (after_code text))" "plain_run d d (total (on_after (write_error_check preds expr failure)))"
  "plain_run d d (total (slot_default 0 k v))" "plain_run d d (total (slot_put 0 k v))"
  by (auto simp: plain_run_def plain_gen_def cg_cmd_run after_code_def on_after_def cb_write_code_def write_error_check_run slot_default_def
      slot_put_def upd_cg_def upd_body_def)

lemma plain_unindent: "plain_run (Suc d) d (total (cg_cmd Unindent))"
  unfolding plain_run_def
proof (intro allI impI)
  fix g assume g: "plain_gen (Suc d) g"
  then have "indent_stack (cg_sink g) \<noteq> []" by (auto simp: plain_gen_def)
  then show "\<exists>a g'. total (cg_cmd Unindent) g = Some (Inr a, g') \<and> plain_gen d g'"
    using g by (simp add: cg_cmd_run plain_gen_def)
qed

lemma plain_run_for_each:
  "plain_run d d (total (for_each f []))"
  "plain_run d e (total (f x)) \<Longrightarrow> plain_run e i (total (for_each f xs)) \<Longrightarrow> plain_run d i (total (for_each f (x # xs)))"
  by (simp_all add: total_bnd plain_bndd plain_run_def [of d d])

lemmas plain_rules = plain_ret plain_seqsd plain_reads plain_body plain_writes plain_unindent plain_run_for_each plain_bndd

lemmas own_class = registered_class_fields class_body_init_def PyGetSetDef_init_def sample_module_env_def

lemma plain_constructor: "plain_run d d (total (generate_constructor sample_env 0))"
  by (auto simp: plain_run_def plain_gen_def own_class the_class_def the_body_def cg_pystruct_def class_pystruct_def slot_default_def upd_cg_def upd_body_def generate_constructor_def can_be_constructed_def generate_no_constructor_def CppNoConstructor_generate_def
      write_open_wrapper_def write_close_wrapper_def emit_def emit_indent_def emit_unindent_def memory_class_def sink_unindent_Inr cg_cmd_run)

lemma plain_getsets:
  "plain_run d d (total (on_body_part 0 b_instance_attributes (\<lambda>a b. b\<lparr>b_instance_attributes := a\<rparr>) (getset_generate eh iter memory_class)))"
  "plain_run d e (f ''0'') \<Longrightarrow>
    plain_run d e (bndd (total (on_body_part 0 b_static_attributes (\<lambda>a b. b\<lparr>b_static_attributes := a\<rparr>) (getset_generate eh iter memory_class))) f)"
  by (auto simp: plain_run_def plain_gen_def own_class upd_body_def on_body_part_def getset_generate_def bndd_def)

lemma bndd_assoc: "bndd (bndd m f) h = bndd m (\<lambda>a. bndd (f a) h)"
  by (auto simp: bndd_def fun_eq_iff split: option.split prod.split sum.split)

lemma plain_register: "plain_run d d (total (bnd (generate_getsets sample_env 0) (register_class_type sample_env sample_module_env 0)))"
proof -
  have "plain_run d d (total (register_class_type sample_env sample_module_env 0 ''0''))" for d
    unfolding register_class_type_def total_bnd total_seqs list.map
    by (rule plain_reads(1)) (simp add: registered_class_fields base_code_def total_bnd total_seqs del: total_run ret_run gets_run seqsd.simps, (rule plain_rules)+)
  then show ?thesis
    unfolding generate_getsets_def total_bnd bndd_assoc by - (rule plain_getsets plain_rules | assumption)+
qed

lemma plain_define_registry: "plain_run d d (define_registry sample_env 0)"
  unfolding define_registry_def
  by (rule plain_reads(3)) (simp only: registry_generate.simps prod.case total_seqs list.map cg_cmds_def, (rule plain_rules)+)

lemma plain_parent_callers: "plain_run d d (total (generate_parent_caller_methods sample_env 0))"
  unfolding generate_parent_caller_methods_def total_bnd
  by (rule plain_body) (simp add: class_body_init_def plain_ret del: total_run ret_run)

lemma plain_prologue: "plain_run d d (class_prologue sample_env sample_module_env 0 registered_class)"
  unfolding class_prologue_def
  by (simp add: registered_class_fields del: total_run ret_run seqsd.simps,
    (rule plain_constructor plain_register plain_parent_callers plain_define_registry plain_rules)+)

lemma plain_lines: "plain_run d e (total (for_each cg_cmd cs)) \<Longrightarrow> plain_run d e (total (for_each cg_cmd (map Writeln ls @ cs)))"
  by (induction ls) (auto simp del: total_run ret_run for_each.simps intro: plain_run_for_each(2) plain_writes(2))

lemma plain_methods: "plain_run d d (generate_methods sample_env 0 pcs)"
  unfolding generate_methods_def total_bnd bndd_assoc total_seqs list.map
  by ((rule plain_reads(1) plain_body)+, simp add: registered_class_fields class_body_init_def cg_cmds_def method_table_cmds_def total_seqs
      del: total_run ret_run seqsd.simps for_each.simps, (rule plain_lines plain_rules)+)

lemma indent_stack_flushD: "mem_flush_to mem_writeln s t = (s', t') \<Longrightarrow> indent_stack t' = indent_stack t"
  using indent_stack_flush by (metis snd_conv)

lemma plain_emit_block:
  assumes "code (empty_wrapper Forward error_return error_return) = (Inr (), w)" and "w_kind w = Forward"
  shows "plain_run d d (total (emit_block error_return code))"
  using assms by (auto simp: plain_run_def plain_gen_def emit_block_def flush_declarations_def flush_block_def on_wrapper_def on_block_def
   memory_class_def dest!: indent_stack_flushD split: prod.split)

lemma plain_destructor: "plain_run d d (generate_destructor sample_env 0)"
proof -
  have free: "\<exists>code. get_delete_code registered_class = Inr code" by (simp add: get_delete_code_def own_class)
  have "\<exists>w. destructor_code registered_class slots (NullWrapperRegistry ''PyA'') (empty_wrapper Forward e e) = (Inr (), w) \<and> w_kind w = Forward" for slots e
   using free by (auto simp: destructor_code_def registered_class_fields w_write_def on_block_def cb_write_code_def empty_wrapper_def)
  then have "plain_run d d (total (emit_block e (destructor_code registered_class slots (NullWrapperRegistry ''PyA''))))" for d e slots
    using plain_emit_block by metis
  then show ?thesis
    unfolding generate_destructor_def total_bnd bndd_assoc total_seqs list.map
    by - ((rule plain_reads plain_body)+, simp add: class_body_init_def total_seqs del: total_run ret_run seqsd.simps for_each.simps,
      intro conjI impI, (assumption | rule plain_rules)+)
qed

lemma plain_operators: "plain_run d d (generate_operators sample_env 0)"
  unfolding generate_operators_def generate_tp_richcompare_def total_bnd bndd_assoc
  by ((rule plain_reads plain_body)+, simp add: own_class have_sequence_methods_def cg_cmds_def tp_richcompare_cmds_def rich_comparisons_def
      wrap_comparison_def del: total_run ret_run seqsd.simps for_each.simps, intro conjI impI, (rule plain_rules)+)
lemma setdefault_keys: "fst ` set (setdefault kv slots) = insert (fst kv) (fst ` set slots)"
  by (auto simp: setdefault_def map_of_eq_None_iff)

lemma type_object_complete:
  assumes "{''tp_name'', ''typestruct'', ''tp_basicsize''} \<subseteq> fst ` set slots"
  shows "\<exists>text. PyTypeObject_generate slots = Inr (Writeln text)"
  using assms unfolding PyTypeObject_generate_def generate_slots_iff [OF templates_ok(1)] required by simp

lemma plain_type_structure: "plain_run d d (total (generate_type_structure sample_module_env 0))"
  unfolding plain_run_def
proof (intro allI impI)
  fix g assume g: "plain_gen d g"
  then obtain slots where slots: "cs_bodies (cg_state g) 0 = (class_body_init None)\<lparr>b_slots := slots\<rparr>" by (auto simp: plain_gen_def)
  obtain name where tp: "class_tp_name sample_module_env registered_class None = Inr name" by (simp add: class_tp_name_def)
  define full where "full = fold setdefault [(''tp_basicsize'', ''sizeof(PyA)''), (''tp_dictoffset'', ''0''),
     (''tp_flags'', join ''|'' (type_flags registered_class)), (''tp_doc'', ''NULL''), (''typestruct'', cc_pytypestruct registered_class),
     (''tp_name'', name)] slots"
  have "\<exists>text. PyTypeObject_generate full = Inr (Writeln text)"
    by (rule type_object_complete) (auto simp: full_def setdefault_keys)
  then obtain code where "PyTypeObject_generate full = Inr (Writeln code)" by blast
  then show "\<exists>a g'. total (generate_type_structure sample_module_env 0) g = Some (Inr a, g') \<and> plain_gen d g'"
    using g slots unfolding full_def
    by (auto simp: generate_type_structure_def plain_gen_def the_class_def the_body_def cg_pystruct_def class_pystruct_def
        registered_class_fields slot_default_def upd_cg_def upd_body_def class_body_init_def cg_cmd_run tp)
qed

lemma plain_traits: "plain_run d d (total (generate_container_traits sample_module_env 0))"
  unfolding generate_container_traits_def total_bnd
  by (rule plain_reads(1), rule plain_body) (simp add: class_body_init_def plain_ret del: total_run ret_run)

lemma plain_str: "plain_run d d (total (bnd (the_body 0) (\<lambda>b. when_py (b_has_output_stream_operator b) (generate_str 0))))"
  unfolding total_bnd by (rule plain_body) (simp add: class_body_init_def plain_ret del: total_run ret_run)

lemma plain_class: "plain_run d d (class_generate sample_env sample_module_env 0)"
  unfolding class_generate_def generate_own_class_def
  by (rule plain_reads(1), simp add: is_imported_class_def registered_class_fields del: total_run ret_run seqsd.simps,
    (rule plain_prologue plain_methods plain_destructor plain_str plain_operators plain_traits plain_type_structure plain_rules)+)

text \<open>
  C7. The type of a generated class.  Whatever slots the user has set before, the generation keeps their values,
  except for the slots of operators, which it computes; a class that is not imported and whose generation ends
  without an error gets its method table and its destructor, and a class that Python can subclass the functions
  for the garbage collector, where the user has not set other ones.
\<close>

theorem class_type_slots:
  assumes run: "class_generate ve me c g = Some (Inr (), g')" and own: "\<not> is_imported_class (cs_classes (cg_state g) c)"
    and p: "cc_pystruct (cs_classes (cg_state g) c) = Some p"
  shows "(\<forall>n u. n \<notin> {''tp_richcompare'', ''tp_as_number'', ''tp_as_sequence''} \<and> map_of (class_slots g c) n = Some u \<longrightarrow>
      map_of (class_slots g' c) n = Some u) \<and>
    map_of (class_slots g' c) ''tp_methods'' = default_slot (p @ ''_methods'') (map_of (class_slots g c) ''tp_methods'') \<and>
    map_of (class_slots g' c) ''tp_dealloc'' = default_slot (''_wrap_'' @ p @ ''__tp_dealloc'') (map_of (class_slots g c) ''tp_dealloc'') \<and>
    (cc_allow_subclassing (cs_classes (cg_state g) c) \<longrightarrow>
      map_of (class_slots g' c) ''tp_clear'' = default_slot (p @ ''__tp_clear'') (map_of (class_slots g c) ''tp_clear'') \<and>
      map_of (class_slots g' c) ''tp_traverse'' = default_slot (p @ ''__tp_traverse'') (map_of (class_slots g c) ''tp_traverse''))"
proof -
  let ?k = "cs_classes (cg_state g) c"
  have gen: "generate_own_class ve me c ?k g = Some (Inr (), g')"
    using run own by (simp add: class_generate_def the_class_def bndd_def)
  have names: "opt_str (fst (class_names ?k)) = p" using p by (simp add: class_names_def opt_str_def)
  have kept: "slots_kept UNIV operator_slots c g g'" using kept_class gen by (rule keepsdD)
  have "map_of (class_slots g' c) n = Some u"
    if "n \<notin> {''tp_richcompare'', ''tp_as_number'', ''tp_as_sequence''}" "map_of (class_slots g c) n = Some u" for n u
    using slots_keptD(2) [OF kept, of n] that by (simp add: operator_slots_def)
  then show ?thesis
    using installsD(2) [OF own_installs(1) gen] installsD(2) [OF own_installs(2) gen] installsD(2) [OF own_installs(3) gen]
      installsD(2) [OF own_installs(4) gen] names by auto
qed

theorem class_type_slots_witness:
  "\<exists>g. class_generate sample_env sample_module_env 0 sample_gen = Some (Inr (), g) \<and>
     map_of (class_slots g 0) ''tp_doc'' = Some ''doc'' \<and> map_of (class_slots g 0) ''tp_methods'' = Some ''PyA_methods'' \<and>
     map_of (class_slots g 0) ''tp_dealloc'' = Some ''_wrap_PyA__tp_dealloc''"
proof -
  have "plain_gen 0 sample_gen" by (auto simp: plain_gen_def sample_gen_def MemoryCodeSink_init_def)
  then obtain g where run: "class_generate sample_env sample_module_env 0 sample_gen = Some (Inr (), g)"
    using plain_class [of 0] by (auto simp: plain_run_def)
  have own: "\<not> is_imported_class (cs_classes (cg_state sample_gen) 0)" "cc_pystruct (cs_classes (cg_state sample_gen) 0) = Some ''PyA''"
    and slots: "class_slots sample_gen 0 = [(''tp_doc'', ''doc'')]"
    by (simp_all add: sample_gen_def is_imported_class_def registered_class_fields)
  from class_type_slots [OF run own] run show ?thesis by (auto simp: slots default_slot_def)
qed

end
