(* ===== verification/Annotations.thy ===== *)
theory Annotations
  imports Cpp_Class
begin

text \<open>
  Annotations in the comments of C++ header files (\<open>AnnotationsScanner\<close> and the functions that read annotations in
  \<open>src/pybindgen/gccxmlparser.py\<close>).  The declarations come from pygccxml; of a declaration only the data that the
  code reads are modelled.
\<close>

section \<open>Regular expressions\<close>

text \<open>\<open>\w\<close>; \<open>\s\<close> is \<open>isspace_char\<close>.\<close>

definition word_char :: "char \<Rightarrow> bool" where
  "word_char c \<longleftrightarrow> isdigit_char c \<or> islower_char c \<or> islower_char (lower_char c) \<or> c = CHR ''_''"

text \<open>\<open>C*\<close> before \<open>P\<close>: the longest text of characters in \<open>C\<close> that leaves a rest which \<open>P\<close> accepts.\<close>

fun greedy :: "(char \<Rightarrow> bool) \<Rightarrow> (string \<Rightarrow> bool) \<Rightarrow> string \<Rightarrow> string option" where
  "greedy C P [] = (if P [] then Some [] else None)"
| "greedy C P (c # s) = (case (if C c then greedy C P s else None) of
     Some p \<Rightarrow> Some (c # p)
   | None \<Rightarrow> if P (c # s) then Some [] else None)"

definition strip :: "string \<Rightarrow> string" where
  "strip s = rstrip (lstrip s)"

definition annotation_mark :: string where
  "annotation_mark = ''-#-''"

text \<open>After the opening of a comment: \<open>\s+-#-(.*)\<close> before an end.\<close>

definition annotation_text :: "(string \<Rightarrow> bool) \<Rightarrow> string \<Rightarrow> string option" where
  "annotation_text end_ok s =
     (if s \<noteq> [] \<and> isspace_char (hd s) \<and> startswith (lstrip s) annotation_mark
      then greedy (\<lambda>c. c \<noteq> CHR 0x0A) end_ok (drop (length annotation_mark) (lstrip s)) else None)"

definition annotation1 :: "string \<Rightarrow> string option" where
  "annotation1 s = (let t = lstrip s in
     if startswith t ''//'' then annotation_text (\<lambda>r. startswith r annotation_mark) (drop 2 t) else None)"

definition annotation2 :: "string \<Rightarrow> string option" where
  "annotation2 s =
     (if startswith s ''/*''
      then annotation_text (\<lambda>r. startswith r annotation_mark \<and> startswith (lstrip (drop (length annotation_mark) r)) ''*/'') (drop 2 s)
      else None)"

text \<open>\<open>_comment_rx\<close>.  The spaces at the beginning belong to the first alternative only.\<close>

definition comment_rx :: "string \<Rightarrow> string option" where
  "comment_rx line = (case annotation1 line of Some s \<Rightarrow> Some s | None \<Rightarrow> annotation2 line)"

text \<open>\<open>_global_annotation_rx\<close>\<close>

definition global_annotation_rx :: "string \<Rightarrow> (string \<times> string option) option" where
  "global_annotation_rx s =
     (let name = takeWhile word_char s; rest = dropWhile word_char s;
          val = (if startswith rest ''='' then takeWhile (\<lambda>c. \<not> isspace_char c \<and> c \<noteq> CHR '';'') (tl rest) else [])
      in if name = [] then None else Some (name, if val = [] then None else Some val))"

text \<open>\<open>_param_annotation_rx\<close>\<close>

definition param_annotation_rx :: "string \<Rightarrow> (string \<times> string) option" where
  "param_annotation_rx s =
     (if startswith s ''@'' then
        let name = takeWhile word_char (tl s); rest = dropWhile word_char (tl s) in
        if name \<noteq> [] \<and> startswith rest ''('' then
          (case tl rest of
             [] \<Rightarrow> None
           | c # cs \<Rightarrow> if c = CHR '';'' then None
               else map_option (\<lambda>p. (name, c # p)) (greedy (\<lambda>c. c \<noteq> CHR '';'') (\<lambda>r. startswith r '')'') cs))
        else None
      else None)"

section \<open>The scanner\<close>

type_synonym annotation_dict = "(string \<times> string option) list"

record annotations =
  an_global :: annotation_dict
  an_parameter :: "(string \<times> annotation_dict) list"

definition no_annotations :: annotations where
  "no_annotations = \<lparr>an_global = [], an_parameter = []\<rparr>"

text \<open>The warnings are recorded with file name, line number and text.\<close>

record scanner =
  sn_files :: "(string \<times> string list) list"
  sn_used_annotations :: "(string \<times> int list) list"
  sn_warnings :: "(string \<times> int \<times> string) list"

definition AnnotationsScanner_init :: scanner where
  "AnnotationsScanner_init = \<lparr>sn_files = [], sn_used_annotations = [], sn_warnings = []\<rparr>"

definition declare_used_annotation :: "string \<Rightarrow> int \<Rightarrow> scanner \<Rightarrow> scanner" where
  "declare_used_annotation file_name line_number sn =
     (let l = (case map_of (sn_used_annotations sn) file_name of None \<Rightarrow> [] | Some l \<Rightarrow> l)
      in sn\<lparr>sn_used_annotations := AList.update file_name (l @ [line_number]) (sn_used_annotations sn)\<rparr>)"

definition warn_explicit :: "string \<Rightarrow> string \<Rightarrow> int \<Rightarrow> scanner \<Rightarrow> scanner" where
  "warn_explicit message file_name line_number sn = sn\<lparr>sn_warnings := sn_warnings sn @ [(file_name, line_number, message)]\<rparr>"

definition param_element :: "string \<Rightarrow> int \<Rightarrow> string \<Rightarrow> annotation_dict \<times> scanner \<Rightarrow> annotation_dict \<times> scanner" where
  "param_element file_name line_number param = (\<lambda>(d, sn).
     case global_annotation_rx (strip param) of
       Some (name, val) \<Rightarrow> (AList.update name val d, sn)
     | None \<Rightarrow> (d, warn_explicit (''could not parse '' @ strip param @ '' as parameter annotation element'') file_name line_number sn))"

definition annotation_piece :: "string \<Rightarrow> int \<Rightarrow> string \<Rightarrow> annotations \<times> scanner \<Rightarrow> annotations \<times> scanner" where
  "annotation_piece file_name line_number annotation_str = (\<lambda>(an, sn).
     let s = strip annotation_str in
     case global_annotation_rx s of
       Some (name, val) \<Rightarrow> (an\<lparr>an_global := AList.update name val (an_global an)\<rparr>, sn)
     | None \<Rightarrow> (case param_annotation_rx s of
         Some (name, params) \<Rightarrow>
           (case fold (param_element file_name line_number) (split_on (CHR '','') params) ([], sn) of
             (d, sn') \<Rightarrow> (an\<lparr>an_parameter := AList.update name d (an_parameter an)\<rparr>, sn'))
       | None \<Rightarrow> (an, warn_explicit (''could not parse '' @ s) file_name line_number sn)))"

definition annotation_line :: "string \<Rightarrow> int \<Rightarrow> string \<Rightarrow> annotations \<times> scanner \<Rightarrow> annotations \<times> scanner" where
  "annotation_line file_name line_number s = fold (annotation_piece file_name line_number) (split_on (CHR '';'') (strip s))"

text \<open>
  The loop walks upwards from a line while the lines are annotations.  The index is a Python index: after the
  first line of the file comes the last one.
\<close>

function scan_up :: "string \<Rightarrow> string list \<Rightarrow> int \<Rightarrow> annotations \<times> scanner \<Rightarrow> annotations res \<times> scanner" where
  "scan_up file_name lines line_number (an, sn) =
     (case py_index lines line_number of
        Inl e \<Rightarrow> (Inl e, sn)
      | Inr line \<Rightarrow> (case comment_rx line of
          None \<Rightarrow> (Inr an, sn)
        | Some s \<Rightarrow> scan_up file_name lines (line_number - 1)
            (annotation_line file_name (line_number - 1) s (an, declare_used_annotation file_name (line_number + 1) sn))))"
  by pat_completeness auto

termination
  by (relation "measure (\<lambda>(_, lines, i, _). nat (i + int (length lines) + 1))")
    (auto simp: py_index_def Let_def split: if_splits)

declare scan_up.simps [simp del]

text \<open>A declaration: whether it is an artificial \<open>calldef_t\<close>, and its location.\<close>

record decl_info =
  de_is_artificial :: bool
  de_file_name :: string
  de_line :: int

text \<open>\<open>read_lines\<close> reads a file of the operating system; every line but perhaps the last one ends with a newline.\<close>

definition get_annotations :: "(string \<Rightarrow> string list res) \<Rightarrow> decl_info \<Rightarrow> (scanner, annotations) py" where
  "get_annotations read_lines decl =
     (if de_is_artificial decl then ret no_annotations
      else let file_name = de_file_name decl in
        bnd (gets (\<lambda>sn. map_of (sn_files sn) file_name)) (\<lambda>known.
        bnd (case known of
               Some lines \<Rightarrow> ret lines
             | None \<Rightarrow> bnd (lift_res (read_lines file_name)) (\<lambda>lines.
                 bnd (upd (\<lambda>sn. sn\<lparr>sn_files := AList.update file_name lines (sn_files sn)\<rparr>)) (\<lambda>_. ret lines))) (\<lambda>lines.
        (\<lambda>sn. scan_up file_name lines (de_line decl - 2) (no_annotations, sn)))))"

definition unused_annotations :: "scanner \<Rightarrow> string \<times> string list \<Rightarrow> (string \<times> int \<times> string) list" where
  "unused_annotations sn = (\<lambda>(file_name, lines).
     let used = (case map_of (sn_used_annotations sn) file_name of None \<Rightarrow> [] | Some l \<Rightarrow> l) in
     map (\<lambda>(line_number, _). (file_name, int line_number + 1, ''unused annotation''))
       (filter (\<lambda>(line_number, line). comment_rx line \<noteq> None \<and> int line_number + 1 \<notin> set used) (List.enumerate 0 lines)))"

definition warn_unused_annotations :: "scanner \<Rightarrow> scanner" where
  "warn_unused_annotations sn = sn\<lparr>sn_warnings := sn_warnings sn @ concat (map (unused_annotations sn) (sn_files sn))\<rparr>"

section \<open>Values of annotations\<close>

text \<open>An annotation without a value has the value \<open>None\<close>, which has no \<open>lower\<close>.\<close>

definition parse_boolean :: "string option \<Rightarrow> bool res" where
  "parse_boolean v = (case v of
     None \<Rightarrow> Inl (AttributeError ''lower'')
   | Some s \<Rightarrow> let l = map lower_char s in
       if l \<in> {''false'', ''off''} then Inr False
       else if l \<in> {''true'', ''on''} then Inr True
       else Inl (ValueError ''bad boolean value''))"

text \<open>\<open>int(value)\<close>\<close>

definition parse_int :: "string option \<Rightarrow> int res" where
  "parse_int v = (case v of
     None \<Rightarrow> Inl (TypeError ''int() argument must be a string or a number'')
   | Some s \<Rightarrow>
       let t = strip s; digits = (if startswith t ''-'' \<or> startswith t ''+'' then tl t else t) in
       if digits \<noteq> [] \<and> list_all isdigit_char digits
       then Inr (if startswith t ''-'' then - int (nat_of_digits 0 digits) else int (nat_of_digits 0 digits))
       else Inl (ValueError ''invalid literal for int()''))"

text \<open>Keyword arguments for the constructors of PyBindGen.\<close>

datatype kwarg =
    Kw_Value pyval
  | Kw_Methods_Policy "string option" "string option" "string option"
  | Kw_Functions_Policy "string option" "string option"
  | Kw_Free_Policy "string option"
  | Kw_Object string
  | Kw_Objects "string list"
  | Kw_Texts "string list"

type_synonym kwargs = "(string \<times> kwarg) list"

definition opt_val :: "string option \<Rightarrow> pyval" where
  "opt_val v = (case v of None \<Rightarrow> PyNone | Some s \<Rightarrow> PyStr s)"

definition put_bool :: "string \<Rightarrow> string option \<Rightarrow> kwargs \<Rightarrow> kwargs res" where
  "put_bool name v kwargs = bind_res (parse_boolean v) (\<lambda>b. Inr (AList.update name (Kw_Value (PyBool b)) kwargs))"

definition put_int :: "string \<Rightarrow> string option \<Rightarrow> kwargs \<Rightarrow> kwargs res" where
  "put_int name v kwargs = bind_res (parse_int v) (\<lambda>i. Inr (AList.update name (Kw_Value (PyInt i)) kwargs))"

text \<open>One annotation of a return value; an unknown name is a warning only.\<close>

definition return_annotation :: "string \<times> string option \<Rightarrow> kwargs \<Rightarrow> kwargs res" where
  "return_annotation = (\<lambda>(name, v) kwargs.
     if name \<in> {''caller_owns_return'', ''reference_existing_object'', ''return_internal_reference''} then put_bool name v kwargs
     else if name = ''custodian'' then put_int name v kwargs
     else Inr kwargs)"

primrec fold_res :: "('a \<Rightarrow> 'b \<Rightarrow> 'b res) \<Rightarrow> 'a list \<Rightarrow> 'b \<Rightarrow> 'b res" where
  "fold_res f [] b = Inr b"
| "fold_res f (x # xs) b = bind_res (f x b) (fold_res f xs)"

definition normalize_name :: "string \<Rightarrow> string res option" where
  "normalize_name decl_string = normalize_type_string decl_string"

definition normalize_class_name :: "string \<Rightarrow> string \<Rightarrow> string res option" where
  "normalize_class_name class_name module_namespace =
     normalize_name (if startswith class_name module_namespace then class_name else module_namespace @ class_name)"

text \<open>A declared type is given by its \<open>partial_decl_string\<close>.  The result is the specification of a return value.\<close>

definition lookup_return :: "string \<Rightarrow> annotation_dict \<Rightarrow> (string list \<times> kwargs) res option" where
  "lookup_return decl_string annotations =
     bind_div (Some (fold_res return_annotation annotations [])) (\<lambda>kwargs.
     bind_div (normalize_name decl_string) (\<lambda>cpp_type. Some (Inr ([cpp_type], kwargs))))"

definition put_direction :: "string option \<Rightarrow> kwargs \<Rightarrow> kwargs res" where
  "put_direction v kwargs = (case v of
     None \<Rightarrow> Inl (AttributeError ''lower'')
   | Some s \<Rightarrow>
       let l = map lower_char s; put = (\<lambda>d. Inr (AList.update ''direction'' (Kw_Value (PyInt d)) kwargs)) in
       if l = ''in'' then put DIRECTION_IN
       else if l = ''out'' then put DIRECTION_OUT
       else if l = ''inout'' then put DIRECTION_INOUT
       else Inr kwargs)"

definition parameter_annotation :: "string \<times> string option \<Rightarrow> kwargs \<Rightarrow> kwargs res" where
  "parameter_annotation = (\<lambda>(name, v) kwargs.
     if name \<in> {''transfer_ownership'', ''null_ok''} then put_bool name v kwargs
     else if name = ''direction'' then put_direction v kwargs
     else if name \<in> {''custodian'', ''array_length''} then put_int name v kwargs
     else if name = ''default_value'' then Inr (AList.update name (Kw_Value (opt_val v)) kwargs)
     else Inr kwargs)"

definition lookup_parameter :: "string \<Rightarrow> string \<Rightarrow> annotation_dict \<Rightarrow> string option \<Rightarrow> (string list \<times> kwargs) res option" where
  "lookup_parameter decl_string param_name annotations default_value =
     bind_div (Some (fold_res parameter_annotation annotations [])) (\<lambda>kwargs.
     let kwargs' = (case default_value of
           Some v \<Rightarrow> if v \<noteq> [] then AList.update ''default_value'' (Kw_Value (PyStr v)) kwargs else kwargs
         | None \<Rightarrow> kwargs) in
     bind_div (normalize_name decl_string) (\<lambda>cpp_type. Some (Inr ([cpp_type, param_name], kwargs'))))"

section \<open>Annotations of classes\<close>

text \<open>The members of a class, as far as the code tells them apart.\<close>

datatype class_member = Destructor string | Member_Function bool | Other_Member

record class_decl =
  cd_is_class_t :: bool
  cd_members :: "class_member list"
  cd_has_bases :: bool

definition class_has_virtual_methods :: "class_decl \<Rightarrow> bool" where
  "class_has_virtual_methods cls = list_ex (\<lambda>m. case m of Member_Function virtual \<Rightarrow> virtual | _ \<Rightarrow> False) (cd_members cls)"

fun get_destructor_visibility :: "class_member list \<Rightarrow> string option" where
  "get_destructor_visibility [] = None"
| "get_destructor_visibility (Destructor access_type # ms) = Some access_type"
| "get_destructor_visibility (_ # ms) = get_destructor_visibility ms"

definition has_public_destructor :: "class_decl \<Rightarrow> bool" where
  "has_public_destructor cls = list_all (\<lambda>m. case m of Destructor access_type \<Rightarrow> access_type = ''public'' | _ \<Rightarrow> True) (cd_members cls)"

definition setdefault_kw :: "string \<Rightarrow> kwarg \<Rightarrow> kwargs \<Rightarrow> kwargs" where
  "setdefault_kw k v kwargs = (if map_of kwargs k = None then kwargs @ [(k, v)] else kwargs)"

definition annotation_get :: "annotation_dict \<Rightarrow> string \<Rightarrow> string option" where
  "annotation_get annotations name = (case map_of annotations name of None \<Rightarrow> None | Some v \<Rightarrow> v)"

text \<open>One annotation of a class, with the dictionary of all of them.\<close>

definition class_annotation :: "annotation_dict \<Rightarrow> string \<times> string option \<Rightarrow> bool \<times> kwargs \<Rightarrow> (bool \<times> kwargs) res" where
  "class_annotation annotations = (\<lambda>(name, v) (is_exception, kwargs).
     if name \<in> {''allow_subclassing'', ''is_singleton'', ''automatic_type_narrowing''}
     then bind_res (parse_boolean v) (\<lambda>b. Inr (is_exception, setdefault_kw name (Kw_Value (PyBool b)) kwargs))
     else if name = ''incref_method'' then
       Inr (is_exception, setdefault_kw ''memory_policy''
         (Kw_Methods_Policy v (annotation_get annotations ''decref_method'') (annotation_get annotations ''peekref_method'')) kwargs)
     else if name = ''free_function'' then Inr (is_exception, setdefault_kw ''memory_policy'' (Kw_Free_Policy v) kwargs)
     else if name = ''incref_function'' then
       Inr (is_exception, setdefault_kw ''memory_policy'' (Kw_Functions_Policy v (annotation_get annotations ''decref_function'')) kwargs)
     else if name \<in> {''python_name'', ''custom_name''} then Inr (is_exception, setdefault_kw ''custom_name'' (Kw_Value (opt_val v)) kwargs)
     else if name = ''exception'' then Inr (True, kwargs)
     else if name = ''import_from_module'' then Inr (is_exception, setdefault_kw name (Kw_Value (opt_val v)) kwargs)
     else Inr (is_exception, kwargs))"

definition apply_class_annotations :: "class_decl \<Rightarrow> annotation_dict \<Rightarrow> kwargs \<Rightarrow> (bool \<times> kwargs) res" where
  "apply_class_annotations cls annotations kwargs =
     bind_res (fold_res (class_annotation annotations) annotations (False, kwargs)) (\<lambda>(is_exception, kwargs).
     if cd_is_class_t cls then
       let kwargs = (if class_has_virtual_methods cls \<and> \<not> cd_has_bases cls
             then setdefault_kw ''allow_subclassing'' (Kw_Value (PyBool True)) kwargs else kwargs);
           des = get_destructor_visibility (cd_members cls)
       in Inr (is_exception,
         if des \<noteq> Some ''public'' then setdefault_kw ''destructor_visibility'' (Kw_Value (opt_val des)) kwargs else kwargs)
     else Inr (is_exception, kwargs))"

section \<open>The block of annotations above a line\<close>

definition is_annotation :: "string \<Rightarrow> bool" where
  "is_annotation line \<longleftrightarrow> comment_rx line \<noteq> None"

text \<open>The lines in the order in which the loop visits them, from an index on.\<close>

definition upwards :: "'a list \<Rightarrow> int \<Rightarrow> 'a list" where
  "upwards lines i = (if 0 \<le> i then rev (take (nat (i + 1)) lines) @ rev lines else rev (take (nat (i + 1 + int (length lines))) lines))"

text \<open>Reading annotation lines one after the other, the first one at an index.\<close>

fun read_up :: "string \<Rightarrow> int \<Rightarrow> string list \<Rightarrow> annotations \<times> scanner \<Rightarrow> annotations \<times> scanner" where
  "read_up file_name i [] st = st"
| "read_up file_name i (l # ls) (an, sn) =
     read_up file_name (i - 1) ls
       (annotation_line file_name (i - 1) (the (comment_rx l)) (an, declare_used_annotation file_name (i + 1) sn))"

lemma upwards_step:
  assumes "- int (length lines) \<le> i" "i < int (length lines)"
  obtains line where "py_index lines i = Inr line" "upwards lines i = line # upwards lines (i - 1)"
proof -
  let ?j = "nat (if i < 0 then int (length lines) + i else i)"
  have j: "?j < length lines" using assms by auto
  have step: "rev (take (Suc ?j) lines) = lines ! ?j # rev (take ?j lines)"
    using j by (simp add: take_Suc_conv_app_nth)
  have "upwards lines i = lines ! ?j # upwards lines (i - 1)"
  proof (cases "0 \<le> i")
    case True
    then have "nat (i + 1) = Suc ?j" by simp
    then show ?thesis using True step by (auto simp: upwards_def)
  next
    case False
    then have "nat (i + 1 + int (length lines)) = Suc ?j" "nat (i + int (length lines)) = ?j" using assms by auto
    then show ?thesis using False step by (simp add: upwards_def)
  qed
  moreover have "py_index lines i = Inr (lines ! ?j)" using assms by (auto simp: py_index_def Let_def)
  ultimately show ?thesis using that by blast
qed

lemma scan_up_read:
  assumes "- int (length lines) - 1 \<le> i" "i < int (length lines)"
  shows "scan_up file_name lines i st =
    (let block = takeWhile is_annotation (upwards lines i); (an, sn) = read_up file_name i block st
     in (if list_all is_annotation (upwards lines i) then Inl IndexError else Inr an, sn))"
  using assms
proof (induction "nat (i + int (length lines) + 1)" arbitrary: i st)
  case 0
  then have i: "i = - int (length lines) - 1" by simp
  obtain an sn where st: "st = (an, sn)" by (cases st)
  have "py_index lines i = Inl IndexError" "upwards lines i = []"
    by (auto simp: i py_index_def upwards_def Let_def)
  then show ?case by (simp add: st scan_up.simps [of file_name lines i])
next
  case (Suc n)
  obtain an sn where st: "st = (an, sn)" by (cases st)
  have bound: "- int (length lines) \<le> i" using Suc.hyps(2) by linarith
  obtain line where line: "py_index lines i = Inr line" "upwards lines i = line # upwards lines (i - 1)"
    using upwards_step [of lines i] Suc.prems bound by blast
  show ?case
  proof (cases "comment_rx line")
    case None
    then have "\<not> is_annotation line" by (simp add: is_annotation_def)
    then show ?thesis using None by (simp add: st line scan_up.simps [of file_name lines i])
  next
    case (Some s)
    then have "is_annotation line" by (simp add: is_annotation_def)
    moreover have "n = nat (i - 1 + int (length lines) + 1)" "- int (length lines) - 1 \<le> i - 1" "i - 1 < int (length lines)"
      using Suc.hyps(2) Suc.prems by auto
    ultimately show ?thesis using Some Suc.hyps(1) [of "i - 1"] by (simp add: st line scan_up.simps [of file_name lines i])
  qed
qed

lemma fold_keeps: "(\<And>x s. g (f x s) = g s) \<Longrightarrow> g (fold f xs s) = g s"
  by (induction xs arbitrary: s) simp_all

lemma annotation_line_frame:
  "sn_used_annotations (snd (annotation_line f i s st)) = sn_used_annotations (snd st) \<and> sn_files (snd (annotation_line f i s st)) = sn_files (snd st)"
proof -
  let ?frame = "\<lambda>sn. (sn_used_annotations sn, sn_files sn)"
  have element: "?frame (snd (param_element f i x st)) = ?frame (snd st)" for x st
    by (auto simp: param_element_def warn_explicit_def split: prod.split option.split)
  have "?frame (snd (annotation_piece f i x st)) = ?frame (snd st)" for x st
  proof -
    have "?frame (snd (fold (param_element f i) xs ([], snd st))) = ?frame (snd st)" for xs
      using fold_keeps [of "\<lambda>st. ?frame (snd st)" "param_element f i" xs, OF element] by simp
    then show ?thesis
      by (auto simp: annotation_piece_def warn_explicit_def Let_def split: prod.splits option.split) (metis prod.inject snd_conv)+
  qed
  then have "?frame (snd (annotation_line f i s st)) = ?frame (snd st)"
    unfolding annotation_line_def by (intro fold_keeps [of "\<lambda>st. ?frame (snd st)"])
  then show ?thesis by simp
qed

definition used_lines :: "string \<Rightarrow> scanner \<Rightarrow> int list" where
  "used_lines file_name sn = (case map_of (sn_used_annotations sn) file_name of None \<Rightarrow> [] | Some l \<Rightarrow> l)"

lemma used_lines_declare: "used_lines f (declare_used_annotation f i sn) = used_lines f sn @ [i]"
  by (simp add: used_lines_def declare_used_annotation_def update_conv)

lemma read_up_used: "used_lines f (snd (read_up f i ls st)) = used_lines f (snd st) @ map (\<lambda>k. i + 1 - int k) [0..<length ls]"
proof (induction ls arbitrary: i st)
  case (Cons l ls)
  obtain an sn where st: "st = (an, sn)" by (cases st)
  have "used_lines f (snd (annotation_line f j s (an, sn'))) = used_lines f sn'" for j s sn'
    using annotation_line_frame [of f j s "(an, sn')"] by (simp add: used_lines_def)
  then show ?case by (simp add: Cons.IH st used_lines_declare map_upt_Suc del: upt_Suc)
qed simp

lemma takeWhile_append_stops: "\<not> list_all P xs \<Longrightarrow> takeWhile P (xs @ ys) = takeWhile P xs"
  by (auto simp: list_all_iff takeWhile_append1)

text \<open>
  C18. The annotations of a declaration.  In a file that was read, \<open>get_annotations\<close> reads the lines above the
  declaration upwards as long as they are annotations, the nearest one first, and goes on at the end of the file after its
  first line; it fails, with an IndexError, exactly when every line of the file is an annotation.  It marks
  the lines that it read as used.  When some line above the declaration is no annotation, only the block of
  annotations directly above it is read.
\<close>

theorem annotations_above:
  assumes decl: "\<not> de_is_artificial decl" "map_of (sn_files sn) (de_file_name decl) = Some lines"
    and line: "1 \<le> de_line decl" "de_line decl \<le> int (length lines) + 1"
    and above: "upper = rev (take (nat (de_line decl - 1)) lines)"
    and block: "block = takeWhile is_annotation (upper @ rev lines)"
  shows "get_annotations read_lines decl sn =
      (if list_all is_annotation lines then Inl IndexError
       else Inr (fst (read_up (de_file_name decl) (de_line decl - 2) block (no_annotations, sn))),
       snd (read_up (de_file_name decl) (de_line decl - 2) block (no_annotations, sn))) \<and>
    used_lines (de_file_name decl) (snd (get_annotations read_lines decl sn)) =
      used_lines (de_file_name decl) sn @ map (\<lambda>k. de_line decl - 1 - int k) [0..<length block] \<and>
    (\<not> list_all is_annotation upper \<longrightarrow> block = takeWhile is_annotation upper)"
proof -
  let ?i = "de_line decl - 2"
  have up: "upwards lines ?i = upper @ rev lines"
  proof (cases "0 \<le> ?i")
    case True
    then show ?thesis by (simp add: upwards_def above)
  next
    case False
    then have "?i = - 1" using line by simp
    then show ?thesis by (simp add: upwards_def above)
  qed
  have all: "list_all is_annotation (upper @ rev lines) = list_all is_annotation lines"
    by (auto simp: list_all_iff above dest: in_set_takeD)
  have "scan_up (de_file_name decl) lines ?i (no_annotations, sn) =
      (if list_all is_annotation lines then Inl IndexError else Inr (fst (read_up (de_file_name decl) ?i block (no_annotations, sn))),
       snd (read_up (de_file_name decl) ?i block (no_annotations, sn)))"
    using line by (subst scan_up_read) (auto simp: up all block simp del: list_all_append split: prod.split)
  then have run: "get_annotations read_lines decl sn =
      (if list_all is_annotation lines then Inl IndexError else Inr (fst (read_up (de_file_name decl) ?i block (no_annotations, sn))),
       snd (read_up (de_file_name decl) ?i block (no_annotations, sn)))"
    using decl by (simp add: get_annotations_def Let_def)
  show ?thesis
    using run takeWhile_append_stops [of is_annotation upper] by (simp add: read_up_used block)
qed

definition sample_lines :: "string list" where
  "sample_lines = [''int f ();'' @ nl, ''// -#- name=old;exception -#-'' @ nl, ''  // -#- name=g;@x(direction=out,null_ok) -#-'' @ nl, ''int h (int *x);'' @ nl]"

theorem annotations_above_witness:
  "fst (get_annotations (\<lambda>_. Inl IndexError) \<lparr>de_is_artificial = False, de_file_name = ''a.h'', de_line = 4\<rparr>
     (AnnotationsScanner_init\<lparr>sn_files := [(''a.h'', sample_lines)]\<rparr>)) =
   Inr \<lparr>an_global = [(''name'', Some ''old''), (''exception'', None)],
     an_parameter = [(''x'', [(''direction'', Some ''out''), (''null_ok'', None)])]\<rparr>"
proof -
  have "length sample_lines = 4" "\<not> list_all is_annotation sample_lines" by code_simp+
  moreover have "fst (read_up ''a.h'' 2 (takeWhile is_annotation (rev (take 3 sample_lines) @ rev sample_lines))
      (no_annotations, AnnotationsScanner_init\<lparr>sn_files := [(''a.h'', sample_lines)]\<rparr>)) =
    \<lparr>an_global = [(''name'', Some ''old''), (''exception'', None)],
     an_parameter = [(''x'', [(''direction'', Some ''out''), (''null_ok'', None)])]\<rparr>" by code_simp
  ultimately show ?thesis
    using annotations_above [of "\<lparr>de_is_artificial = False, de_file_name = ''a.h'', de_line = 4\<rparr>"
      "AnnotationsScanner_init\<lparr>sn_files := [(''a.h'', sample_lines)]\<rparr>" sample_lines] by simp
qed

text \<open>The wrap-around: the annotation in the last line of a file reaches a declaration below an annotation in its first line.\<close>

lemma annotations_wrap_around:
  "map_prod (map_sum id an_global) (used_lines ''a.h'') (get_annotations
     (\<lambda>_. Inr [''// -#- name=g -#-'' @ nl, ''int f ();'' @ nl, ''// -#- exception -#-'' @ nl])
     \<lparr>de_is_artificial = False, de_file_name = ''a.h'', de_line = 2\<rparr> AnnotationsScanner_init) =
   (Inr [(''name'', Some ''g''), (''exception'', None)], [1, 0])"
  by code_simp

text \<open>A block comment is an annotation only when it starts the line.\<close>

lemma indented_block_comment:
  "comment_rx ''/* -#- exception -#- */'' = Some '' exception ''" "comment_rx ''  /* -#- exception -#- */'' = None"
  by code_simp+

section \<open>Writing annotations\<close>

definition print_annotation :: "string \<times> string option \<Rightarrow> string" where
  "print_annotation = (\<lambda>(name, v). name @ (case v of None \<Rightarrow> [] | Some s \<Rightarrow> ''='' @ s))"

definition print_parameter :: "string \<times> annotation_dict \<Rightarrow> string" where
  "print_parameter = (\<lambda>(name, d). ''@'' @ name @ ''('' @ join '','' (map print_annotation d) @ '')'')"

definition annotation_pieces :: "annotations \<Rightarrow> string list" where
  "annotation_pieces an = map print_annotation (an_global an) @ map print_parameter (an_parameter an)"

definition print_comment :: "annotations \<Rightarrow> string" where
  "print_comment an = ''// -#- '' @ join ''; '' (annotation_pieces an) @ '' -#-''"

text \<open>Annotations that can be written: names are words, values have no spaces and no separators.\<close>

definition ok_annotation :: "string \<Rightarrow> string \<times> string option \<Rightarrow> bool" where
  "ok_annotation separators = (\<lambda>(name, v). name \<noteq> [] \<and> list_all word_char name \<and>
     (case v of None \<Rightarrow> True | Some s \<Rightarrow> s \<noteq> [] \<and> list_all (\<lambda>c. \<not> isspace_char c \<and> c \<notin> set separators) s))"

definition ok_annotations :: "annotations \<Rightarrow> bool" where
  "ok_annotations an \<longleftrightarrow> annotation_pieces an \<noteq> [] \<and>
     list_all (ok_annotation '';'') (an_global an) \<and> distinct (map fst (an_global an)) \<and> distinct (map fst (an_parameter an)) \<and>
     list_all (\<lambda>(name, d). name \<noteq> [] \<and> list_all word_char name \<and> d \<noteq> [] \<and> distinct (map fst d) \<and> list_all (ok_annotation '';,'') d)
       (an_parameter an)"

lemma greedy_exact: "list_all C u \<Longrightarrow> greedy C P v = Some [] \<Longrightarrow> greedy C P (u @ v) = Some u"
  by (induction u) simp_all

lemma word_char_class: "word_char c \<Longrightarrow> \<not> isspace_char c \<and> c \<notin> set ''=@();,''"
proof -
  have "list_all (\<lambda>c. \<not> word_char c) ([CHR '' '', CHR 0x09, CHR 0x0A, CHR 0x0B, CHR 0x0C, CHR 0x0D] @ ''=@();,'')" by code_simp
  then show "word_char c \<Longrightarrow> \<not> isspace_char c \<and> c \<notin> set ''=@();,''" by (auto simp: isspace_char_def)
qed

lemma span_all: "list_all P v \<Longrightarrow> dropWhile P (v @ w) = dropWhile P w" "list_all P v \<Longrightarrow> takeWhile P (v @ w) = v @ takeWhile P w"
  by (induction v) simp_all

lemma strip_exact:
  assumes "t \<noteq> []" "\<not> isspace_char (hd t)" "\<not> isspace_char (last t)" "list_all isspace_char u" "list_all isspace_char v"
  shows "strip (u @ t @ v) = t"
proof -
  have "lstrip (u @ t @ v) = t @ v"
    using assms by (cases t) (simp_all add: lstrip_def span_all)
  moreover have "dropWhile isspace_char (rev v @ rev t) = rev t"
    using assms by (cases t rule: rev_cases) (simp_all add: span_all list_all_rev)
  ultimately show ?thesis by (simp add: strip_def rstrip_def)
qed

text \<open>A piece: neither its ends are spaces, nor does it have a semicolon or a newline.\<close>

definition solid :: "string \<Rightarrow> bool" where
  "solid t \<longleftrightarrow> t \<noteq> [] \<and> list_all (\<lambda>c. \<not> isspace_char c \<and> c \<noteq> CHR '';'') t"

lemma solid_strip: "solid t \<Longrightarrow> list_all isspace_char u \<Longrightarrow> list_all isspace_char v \<Longrightarrow> strip (u @ t @ v) = t"
  by (rule strip_exact) (auto simp: solid_def list_all_iff dest: last_in_set hd_in_set)

lemma solid_annotation: "ok_annotation seps a \<Longrightarrow> CHR '';'' \<in> set seps \<Longrightarrow> solid (print_annotation a)"
  using word_char_class
  by (fastforce simp: solid_def ok_annotation_def print_annotation_def list_all_iff isspace_char_def split: prod.splits option.splits)

lemma global_annotation_print: "ok_annotation seps a \<Longrightarrow> CHR '';'' \<in> set seps \<Longrightarrow> global_annotation_rx (print_annotation a) = Some a"
proof -
  assume ok: "ok_annotation seps a" and semi: "CHR '';'' \<in> set seps"
  obtain name v where a: "a = (name, v)" by (cases a)
  have name: "name \<noteq> []" "list_all word_char name" using ok by (auto simp: a ok_annotation_def)
  have eq: "\<not> word_char (CHR ''='')" by code_simp
  show ?thesis
  proof (cases v)
    case None
    have all: "dropWhile word_char name = []" "takeWhile word_char name = name"
      using name(2) by (simp_all add: list_all_iff takeWhile_eq_all_conv)
    show ?thesis
      using name(1) by (simp add: a None print_annotation_def global_annotation_rx_def startswith_def all)
  next
    case (Some s)
    have all: "takeWhile (\<lambda>c. \<not> isspace_char c \<and> c \<noteq> CHR '';'') s = s" and s: "s \<noteq> []"
      using ok semi by (auto simp: a Some ok_annotation_def list_all_iff takeWhile_eq_all_conv)
    show ?thesis
      using name eq s by (simp add: a Some print_annotation_def global_annotation_rx_def startswith_def span_all all)
  qed
qed

lemma dict_fold:
  assumes "distinct (map fst d)" and "\<And>a. a \<in> set d \<Longrightarrow> step a = (\<lambda>(d, sn). (AList.update (fst a) (snd a) d, sn))"
    and "fst ` set d \<inter> fst ` set acc = {}"
  shows "fold step d (acc, sn) = (acc @ d, sn)"
  using assms
proof (induction d arbitrary: acc)
  case (Cons a d)
  then have "step a (acc, sn) = (acc @ [a], sn)" by (simp add: update_new)
  moreover have "fold step d (acc @ [a], sn) = ((acc @ [a]) @ d, sn)"
    using Cons.prems by (intro Cons.IH) auto
  ultimately show ?case by simp
qed simp

lemma param_annotation_print:
  assumes "name \<noteq> []" "list_all word_char name" "d \<noteq> []" "list_all (ok_annotation '';,'') d"
  shows "global_annotation_rx (print_parameter (name, d)) = None"
    "param_annotation_rx (print_parameter (name, d)) = Some (name, join '','' (map print_annotation d))"
    "split_on (CHR '','') (join '','' (map print_annotation d)) = map print_annotation d"
    "solid (print_parameter (name, d))"
proof -
  have no_word: "\<not> word_char (CHR ''@'')" "\<not> word_char (CHR ''('')" by code_simp+
  have elements: "solid (print_annotation a)" "CHR '','' \<notin> set (print_annotation a)" if "a \<in> set d" for a
  proof -
    have ok: "ok_annotation '';,'' a" using assms(4) that by (simp add: list_all_iff)
    then show "solid (print_annotation a)" by (rule solid_annotation) simp
    show "CHR '','' \<notin> set (print_annotation a)"
      using ok word_char_class by (fastforce simp: ok_annotation_def print_annotation_def list_all_iff split: prod.splits option.splits)
  qed
  let ?body = "join '','' (map print_annotation d)"
  have body: "list_all (\<lambda>c. \<not> isspace_char c \<and> c \<noteq> CHR '';'') ?body" "?body \<noteq> []"
  proof -
    show "list_all (\<lambda>c. \<not> isspace_char c \<and> c \<noteq> CHR '';'') ?body"
      using elements(1) by (intro list_all_join) (auto simp: solid_def list_all_iff isspace_char_def)
    obtain a as where "d = a # as" using assms(3) by (cases d) auto
    then show "?body \<noteq> []" using elements(1) [of a] by (cases as) (auto simp: solid_def)
  qed
  show "split_on (CHR '','') ?body = map print_annotation d"
    using elements(2) assms(3) by (intro split_on_join) auto
  show "global_annotation_rx (print_parameter (name, d)) = None"
    using no_word by (simp add: print_parameter_def global_annotation_rx_def)
  show "solid (print_parameter (name, d))"
    using body assms(2) word_char_class by (fastforce simp: solid_def print_parameter_def list_all_iff isspace_char_def)
  obtain c cs where cs: "?body = c # cs" using body(2) by (auto simp: neq_Nil_conv)
  have "greedy (\<lambda>c. c \<noteq> CHR '';'') (\<lambda>r. startswith r '')'') (cs @ '')'') = Some cs"
    using body(1) by (intro greedy_exact) (auto simp: cs list_all_iff startswith_def)
  then show "param_annotation_rx (print_parameter (name, d)) = Some (name, ?body)"
    using assms(1,2) no_word body(1) by (simp add: param_annotation_rx_def print_parameter_def startswith_def span_all cs)
qed

text \<open>What the loop over the pieces of a comment makes of a printed piece.\<close>

lemma piece_global:
  assumes "ok_annotation '';'' a" and "list_all isspace_char u"
  shows "annotation_piece f i (u @ print_annotation a) (an, sn) = (an\<lparr>an_global := AList.update (fst a) (snd a) (an_global an)\<rparr>, sn)"
  using assms solid_strip [OF solid_annotation, of "'';''" a u "[]"] global_annotation_print [of "'';''" a]
  by (cases a) (simp add: annotation_piece_def)

lemma piece_parameter:
  assumes "name \<noteq> []" "list_all word_char name" "d \<noteq> []" "list_all (ok_annotation '';,'') d" "distinct (map fst d)" and "list_all isspace_char u"
  shows "annotation_piece f i (u @ print_parameter (name, d)) (an, sn) = (an\<lparr>an_parameter := AList.update name d (an_parameter an)\<rparr>, sn)"
proof -
  note print = param_annotation_print [OF assms(1-4)]
  have "param_element f i (print_annotation a) = (\<lambda>(d, sn). (AList.update (fst a) (snd a) d, sn))" if "a \<in> set d" for a
    using solid_strip [OF solid_annotation, of "'';,''" a "[]" "[]"] global_annotation_print [of "'';,''" a] assms(4) that
    by (cases a) (auto simp: param_element_def list_all_iff fun_eq_iff)
  then have "fold (\<lambda>a. param_element f i (print_annotation a)) d ([], sn) = ([] @ d, sn)"
    using assms(5) by (intro dict_fold) auto
  then have "fold (param_element f i) (map print_annotation d) ([], sn) = (d, sn)" by (simp add: fold_map comp_def)
  then show ?thesis
    using solid_strip [OF print(4) assms(6), of "[]"] by (simp add: annotation_piece_def print(1-3))
qed

lemma fold_globals:
  assumes "list_all (ok_annotation '';'') gs" "distinct (map fst gs)" "fst ` set gs \<inter> fst ` set (an_global an) = {}"
  shows "fold (annotation_piece f i) (map print_annotation gs) (an, sn) = (an\<lparr>an_global := an_global an @ gs\<rparr>, sn)"
  using assms
proof (induction gs arbitrary: an)
  case (Cons a gs)
  have "annotation_piece f i (print_annotation a) (an, sn) = (an\<lparr>an_global := an_global an @ [a]\<rparr>, sn)"
    using piece_global [of a "[]"] Cons.prems by (simp add: update_new)
  moreover have "fst ` set gs \<inter> fst ` set (an_global (an\<lparr>an_global := an_global an @ [a]\<rparr>)) = {}" using Cons.prems by auto
  ultimately show ?case using Cons.IH [of "an\<lparr>an_global := an_global an @ [a]\<rparr>"] Cons.prems by simp
qed simp

lemma fold_parameters:
  assumes "list_all (\<lambda>(name, d). name \<noteq> [] \<and> list_all word_char name \<and> d \<noteq> [] \<and> distinct (map fst d) \<and> list_all (ok_annotation '';,'') d) ps"
    "distinct (map fst ps)" "fst ` set ps \<inter> fst ` set (an_parameter an) = {}"
  shows "fold (annotation_piece f i) (map print_parameter ps) (an, sn) = (an\<lparr>an_parameter := an_parameter an @ ps\<rparr>, sn)"
  using assms
proof (induction ps arbitrary: an)
  case (Cons a ps)
  obtain name d where a: "a = (name, d)" by (cases a)
  have "annotation_piece f i (print_parameter a) (an, sn) = (an\<lparr>an_parameter := an_parameter an @ [a]\<rparr>, sn)"
    using piece_parameter [of name d "[]"] Cons.prems by (auto simp: a update_new)
  moreover have "fst ` set ps \<inter> fst ` set (an_parameter (an\<lparr>an_parameter := an_parameter an @ [a]\<rparr>)) = {}" using Cons.prems by auto
  ultimately show ?case using Cons.IH [of "an\<lparr>an_parameter := an_parameter an @ [a]\<rparr>"] Cons.prems by simp
qed simp

lemma join_semi: "join ''; '' (p # ps) = join '';'' (p # map ((#) (CHR '' '')) ps)"
proof (induction ps arbitrary: p)
  case (Cons q ps)
  have "join '';'' ((c # x) # ys) = c # join '';'' (x # ys)" for c x ys by (cases ys) simp_all
  with Cons show ?case by simp
qed simp

lemma join_ends:
  "p \<noteq> [] \<Longrightarrow> hd (join sep (p # ps)) = hd p \<and> join sep (p # ps) \<noteq> []"
  "list_all (\<lambda>t. t \<noteq> []) (p # ps) \<Longrightarrow> last (join sep (p # ps)) = last (last (p # ps))"
proof -
  show first: "p \<noteq> [] \<Longrightarrow> hd (join sep (p # ps)) = hd p \<and> join sep (p # ps) \<noteq> []" for p ps
    by (cases ps) auto
  show "list_all (\<lambda>t. t \<noteq> []) (p # ps) \<Longrightarrow> last (join sep (p # ps)) = last (last (p # ps))"
    by (induction ps arbitrary: p) (use first in auto)
qed

lemma annotation_piece_space: "annotation_piece f i (CHR '' '' # s) = annotation_piece f i s"
  by (simp add: annotation_piece_def strip_def lstrip_def isspace_char_def)

lemma pieces_solid: "ok_annotations an \<Longrightarrow> t \<in> set (annotation_pieces an) \<Longrightarrow> solid t"
  by (auto simp: ok_annotations_def annotation_pieces_def list_all_iff intro!: param_annotation_print(4) solid_annotation)

lemma comment_print:
  assumes "list_all (\<lambda>c. c \<noteq> CHR 0x0A) body" "list_all isspace_char indent"
  shows "comment_rx (indent @ ''// -#- '' @ body @ '' -#-'' @ nl) = Some ('' '' @ body @ '' '')"
proof -
  have "greedy (\<lambda>c. c \<noteq> CHR 0x0A) (\<lambda>r. startswith r annotation_mark) (('' '' @ body @ '' '') @ ''-#-'' @ nl) = Some ('' '' @ body @ '' '')"
    using assms(1) by (intro greedy_exact) (simp_all add: startswith_def annotation_mark_def nl_def)
  then show ?thesis
    using assms(2)
    by (simp add: comment_rx_def annotation1_def annotation_text_def lstrip_def span_all isspace_char_def startswith_def annotation_mark_def)
qed

text \<open>
  C19. Annotations that are written as a \<open>//\<close> comment above a declaration are read back: for names that are words and values
  without spaces and separators, the scanner recognises the line with any indentation, and gets exactly the annotations of the
  declaration and of its parameters that were written, without a warning.
\<close>

theorem annotations_roundtrip:
  assumes ok: "ok_annotations an" and indent: "list_all isspace_char indent"
  shows "\<exists>s. comment_rx (indent @ print_comment an @ nl) = Some s \<and>
    annotation_line file_name line_number s (no_annotations, sn) = (an, sn)"
proof -
  obtain p ps where pieces: "annotation_pieces an = p # ps" using ok by (auto simp: ok_annotations_def neq_Nil_conv)
  let ?body = "join ''; '' (annotation_pieces an)"
  have solid: "solid t" if "t \<in> set (p # ps)" for t using pieces_solid [OF ok] that by (simp add: pieces)
  have "list_all (\<lambda>c. c \<noteq> CHR 0x0A) ?body"
    using pieces_solid [OF ok] by (intro list_all_join) (auto simp: solid_def list_all_iff isspace_char_def)
  then have read: "comment_rx (indent @ print_comment an @ nl) = Some ('' '' @ ?body @ '' '')"
    using comment_print [OF _ indent, of ?body] by (simp add: print_comment_def)
  have "?body \<noteq> []" "\<not> isspace_char (hd ?body)"
    using join_ends(1) [of p "''; ''" ps] solid [of p] by (auto simp: pieces solid_def list_all_iff)
  moreover have "\<not> isspace_char (last ?body)"
  proof -
    have "last (p # ps) \<in> set (p # ps)" by (rule last_in_set) simp
    then show ?thesis
      using join_ends(2) [of p ps "''; ''"] solid by (auto simp: pieces solid_def list_all_iff)
  qed
  ultimately have "strip ('' '' @ ?body @ '' '') = ?body" by (intro strip_exact) (simp_all add: isspace_char_def)
  moreover have "split_on (CHR '';'') ?body = p # map ((#) (CHR '' '')) ps"
  proof -
    have "CHR '';'' \<notin> set t" if "solid t" for t using that by (auto simp: solid_def list_all_iff)
    then have "CHR '';'' \<notin> set t" if "t \<in> set (p # map ((#) (CHR '' '')) ps)" for t using solid that by fastforce
    then show ?thesis unfolding pieces join_semi by (intro split_on_join) blast+
  qed
  ultimately have "annotation_line file_name line_number ('' '' @ ?body @ '' '') (no_annotations, sn) =
      fold (annotation_piece file_name line_number) (annotation_pieces an) (no_annotations, sn)"
    by (simp add: annotation_line_def pieces fold_map comp_def annotation_piece_space)
  also have "\<dots> = (an, sn)"
    using ok fold_globals [of "an_global an" no_annotations] fold_parameters [of "an_parameter an" "no_annotations\<lparr>an_global := an_global an\<rparr>"]
    by (simp add: ok_annotations_def annotation_pieces_def no_annotations_def)
  finally show ?thesis using read by blast
qed

theorem annotations_roundtrip_witness:
  "\<exists>s. comment_rx (''  // -#- name=g; exception; @x(direction=out,null_ok) -#-'' @ nl) = Some s \<and>
    annotation_line ''a.h'' 3 s (no_annotations, AnnotationsScanner_init) =
      (\<lparr>an_global = [(''name'', Some ''g''), (''exception'', None)],
        an_parameter = [(''x'', [(''direction'', Some ''out''), (''null_ok'', None)])]\<rparr>, AnnotationsScanner_init)"
proof -
  let ?an = "\<lparr>an_global = [(''name'', Some ''g''), (''exception'', None)],
    an_parameter = [(''x'', [(''direction'', Some ''out''), (''null_ok'', None)])]\<rparr>"
  have "ok_annotations ?an" "list_all isspace_char ''  ''" "print_comment ?an = ''// -#- name=g; exception; @x(direction=out,null_ok) -#-''"
    by code_simp+
  then show ?thesis using annotations_roundtrip [of ?an "''  ''" "''a.h''" 3 AnnotationsScanner_init] by simp
qed

end
