(* ===== verification/Class_Scan.thy ===== *)
theory Class_Scan
  imports Annotations
begin

text \<open>
  The order in which the classes of a namespace are registered (the loop over \<open>unregistered_classes\<close> in
  \<open>ModuleParser._scan_namespace_types\<close> of \<open>src/pybindgen/gccxmlparser.py\<close>).  A class waits until its base classes,
  and the classes that it converts to, are registered.
\<close>

section \<open>The loop\<close>

text \<open>
  What the loop asks about the classes.  \<open>cq_skipped\<close>: the class is ignored by annotation, or anonymous;
  \<open>cq_private_argument\<close>: a template argument is a private class; \<open>cq_targets\<close>: the classes of the casting
  operators; \<open>cq_known\<close>: the class can be found in the root module although this scan has not registered it;
  \<open>cq_nested\<close>: the scan of the nested types, from the classes registered before it to those after it.
\<close>

record 'c class_query =
  cq_skipped :: "'c \<Rightarrow> bool"
  cq_bases :: "'c \<Rightarrow> 'c list"
  cq_targets :: "'c \<Rightarrow> 'c list"
  cq_known :: "'c \<Rightarrow> bool"
  cq_private_argument :: "'c \<Rightarrow> bool"
  cq_nested :: "'c \<Rightarrow> 'c list \<Rightarrow> 'c list res"

text \<open>The first base class that is not registered decides: \<open>Some True\<close> to wait for it, \<open>Some False\<close> to give up.\<close>

definition missing_base :: "'c class_query \<Rightarrow> 'c list \<Rightarrow> 'c list \<Rightarrow> 'c \<Rightarrow> bool option" where
  "missing_base cq registered unregistered cls =
     map_option (\<lambda>base_cls. base_cls \<in> set unregistered) (find (\<lambda>b. b \<notin> set registered) (cq_bases cq cls))"

text \<open>The first target that is not in the root module decides alone whether the class waits.\<close>

definition waits_for_target :: "'c class_query \<Rightarrow> 'c list \<Rightarrow> 'c list \<Rightarrow> 'c \<Rightarrow> bool" where
  "waits_for_target cq registered unregistered cls =
     (case find (\<lambda>t. t \<notin> set registered \<and> \<not> cq_known cq t) (cq_targets cq cls) of
        None \<Rightarrow> False
      | Some t \<Rightarrow> t \<in> set unregistered)"

text \<open>A class that is postponed for the tenth time is taken for an endless loop.\<close>

definition postpone_limit :: nat where
  "postpone_limit = 10"

definition postpone_class :: "'c \<Rightarrow> ('c \<Rightarrow> nat) \<Rightarrow> ('c \<Rightarrow> nat) res" where
  "postpone_class cls postponed =
     (if postponed cls + 1 \<ge> postpone_limit then Inl AssertionError else Inr (postponed(cls := postponed cls + 1)))"

text \<open>What the loop does with a class: leave it out, put it back, or register it.\<close>

datatype verdict = Leave_Out | Put_Back | Register

definition class_verdict :: "'c class_query \<Rightarrow> 'c list \<Rightarrow> 'c list \<Rightarrow> 'c \<Rightarrow> verdict" where
  "class_verdict cq registered unregistered cls =
     (if cq_skipped cq cls then Leave_Out
      else case missing_base cq registered unregistered cls of
        Some wait \<Rightarrow> if wait then Put_Back else Leave_Out
      | None \<Rightarrow>
          if waits_for_target cq registered unregistered cls then Put_Back
          else if cq_private_argument cq cls then Leave_Out
          else Register)"

text \<open>The postponements that the classes of a queue have left.\<close>

definition postpones_left :: "('c \<Rightarrow> nat) \<Rightarrow> 'c list \<Rightarrow> nat" where
  "postpones_left postponed queue = (\<Sum>c\<leftarrow>queue. postpone_limit + 1 - postponed c)"

lemma postpones_left_postpone:
  assumes "postpone_class cls postponed = Inr postponed'"
  shows "postpones_left postponed' (queue @ [cls]) < postpones_left postponed (cls # queue)"
proof -
  have cls: "postponed cls + 1 < postpone_limit" "postponed' = postponed(cls := postponed cls + 1)"
    using assms by (auto simp: postpone_class_def split: if_splits)
  have "(\<Sum>c\<leftarrow>queue. postpone_limit + 1 - postponed' c) \<le> (\<Sum>c\<leftarrow>queue. postpone_limit + 1 - postponed c)"
    by (rule sum_list_mono) (auto simp: cls(2))
  then show ?thesis using cls by (simp add: postpones_left_def)
qed

lemma postpones_left_drop: "postpones_left postponed queue < postpones_left postponed (cls # queue) \<or>
    postpones_left postponed queue = postpones_left postponed (cls # queue)"
  by (auto simp: postpones_left_def)

text \<open>The classes are given in the order of the queue; the result lists the registered classes in the order of registration.\<close>

function scan_classes :: "'c class_query \<Rightarrow> ('c \<Rightarrow> nat) \<Rightarrow> 'c list \<Rightarrow> 'c list \<Rightarrow> 'c list res" where
  "scan_classes cq postponed registered [] = Inr registered"
| "scan_classes cq postponed registered (cls # queue) =
     (case class_verdict cq registered queue cls of
        Leave_Out \<Rightarrow> scan_classes cq postponed registered queue
      | Put_Back \<Rightarrow> (case postpone_class cls postponed of
          Inl e \<Rightarrow> Inl e
        | Inr postponed' \<Rightarrow> scan_classes cq postponed' registered (queue @ [cls]))
      | Register \<Rightarrow> (case cq_nested cq cls (registered @ [cls]) of
          Inl e \<Rightarrow> Inl e
        | Inr registered' \<Rightarrow> scan_classes cq postponed registered' queue))"
  by pat_completeness auto

termination
proof (relation "measures [\<lambda>(_, postponed, _, queue). postpones_left postponed queue, \<lambda>(_, _, _, queue). length queue]", goal_cases)
  case 1
  show ?case by simp
qed (simp_all add: postpones_left_postpone postpones_left_drop)

declare scan_classes.simps(2) [simp del]

section \<open>Base classes come first\<close>

text \<open>Every new class comes after its base classes, and has no reason of its own to be left out.\<close>

definition after_bases :: "'c class_query \<Rightarrow> 'c list \<Rightarrow> 'c list \<Rightarrow> bool" where
  "after_bases cq before new \<longleftrightarrow>
     (\<forall>i < length new. set (cq_bases cq (new ! i)) \<subseteq> set (before @ take i new) \<and>
        \<not> cq_skipped cq (new ! i) \<and> \<not> cq_private_argument cq (new ! i))"

lemma after_bases_append:
  "after_bases cq before xs \<Longrightarrow> after_bases cq (before @ xs) ys \<Longrightarrow> after_bases cq before (xs @ ys)"
  unfolding after_bases_def
proof (intro allI impI)
  fix i assume a: "\<forall>i<length xs. set (cq_bases cq (xs ! i)) \<subseteq> set (before @ take i xs) \<and> \<not> cq_skipped cq (xs ! i) \<and> \<not> cq_private_argument cq (xs ! i)"
    "\<forall>i<length ys. set (cq_bases cq (ys ! i)) \<subseteq> set ((before @ xs) @ take i ys) \<and> \<not> cq_skipped cq (ys ! i) \<and> \<not> cq_private_argument cq (ys ! i)"
    "i < length (xs @ ys)"
  show "set (cq_bases cq ((xs @ ys) ! i)) \<subseteq> set (before @ take i (xs @ ys)) \<and>
      \<not> cq_skipped cq ((xs @ ys) ! i) \<and> \<not> cq_private_argument cq ((xs @ ys) ! i)"
  proof (cases "i < length xs")
    case True
    then show ?thesis using a(1) by (simp add: nth_append)
  next
    case False
    then have "i - length xs < length ys" using a(3) by simp
    then show ?thesis using a(2) False by (auto simp: nth_append)
  qed
qed

lemma missing_base_None: "missing_base cq registered queue cls = None \<Longrightarrow> set (cq_bases cq cls) \<subseteq> set registered"
  by (auto simp: missing_base_def find_None_iff)

definition keeps_order :: "'c class_query \<Rightarrow> ('c list \<Rightarrow> 'c list res) \<Rightarrow> bool" where
  "keeps_order cq scan \<longleftrightarrow>
     (\<forall>registered result. scan registered = Inr result \<longrightarrow> (\<exists>new. result = registered @ new \<and> after_bases cq registered new))"

lemma scan_classes_order:
  assumes nested: "\<And>c. keeps_order cq (cq_nested cq c)"
  shows "keeps_order cq (\<lambda>registered. scan_classes cq postponed registered queue)"
  unfolding keeps_order_def
proof (intro allI impI)
  fix registered result
  assume "scan_classes cq postponed registered queue = Inr result"
  then show "\<exists>new. result = registered @ new \<and> after_bases cq registered new"
    using nested
  proof (induction cq postponed registered queue arbitrary: result rule: scan_classes.induct)
    case (1 cq postponed registered)
    then show ?case by (simp add: after_bases_def)
  next
    case (2 cq postponed registered cls queue)
    show ?case
    proof (cases "class_verdict cq registered queue cls")
      case Register
      then obtain registered' where nested: "cq_nested cq cls (registered @ [cls]) = Inr registered'"
          and rest: "scan_classes cq postponed registered' queue = Inr result"
        using "2.prems"(1) by (auto simp: scan_classes.simps(2) split: sum.splits)
      obtain inner where inner: "registered' = (registered @ [cls]) @ inner" "after_bases cq (registered @ [cls]) inner"
        using nested "2.prems"(2) [of cls] unfolding keeps_order_def by blast
      obtain new where new: "result = registered' @ new" "after_bases cq registered' new"
        using "2.IH"(3) [of registered' result] Register nested rest "2.prems"(2) by auto
      have "after_bases cq registered [cls]"
        using Register by (auto simp: after_bases_def class_verdict_def dest!: missing_base_None split: if_splits option.splits)
      then have "after_bases cq registered ([cls] @ inner @ new)"
        using inner new by (intro after_bases_append) auto
      then show ?thesis using inner(1) new(1) by auto
    qed (use "2.prems" "2.IH"(1,2) in \<open>auto simp: scan_classes.simps(2) split: sum.splits\<close>)
  qed
qed

section \<open>No class is lost\<close>

text \<open>
  The reasons for which a class of a queue may be missing in the end: its own, a base class that is neither registered nor
  another class of the queue, or a base class of the queue that is missing for one of these reasons.
\<close>

inductive left_out :: "'c class_query \<Rightarrow> 'c list \<Rightarrow> 'c list \<Rightarrow> 'c \<Rightarrow> bool" for cq registered queue where
  own_annotation: "cq_skipped cq c \<Longrightarrow> left_out cq registered queue c"
| own_argument: "cq_private_argument cq c \<Longrightarrow> left_out cq registered queue c"
| base_undeclared: "b \<in> set (cq_bases cq c) \<Longrightarrow> b \<notin> set registered \<Longrightarrow> b \<notin> set queue - {c} \<Longrightarrow> left_out cq registered queue c"
| base_left_out: "b \<in> set (cq_bases cq c) \<Longrightarrow> b \<notin> set registered \<Longrightarrow> left_out cq registered queue b \<Longrightarrow> left_out cq registered queue c"

text \<open>The classes of the first queue are registered, still in the queue, or left out for a reason.\<close>

definition accounted :: "'c class_query \<Rightarrow> 'c list \<Rightarrow> 'c list \<Rightarrow> 'c list \<Rightarrow> 'c list \<Rightarrow> bool" where
  "accounted cq registered0 queue0 registered queue \<longleftrightarrow>
     set registered0 \<subseteq> set registered \<and> set queue \<subseteq> set queue0 \<and>
     (\<forall>c. c \<in> set queue0 \<longrightarrow> c \<in> set registered \<or> c \<in> set queue \<or> left_out cq registered0 queue0 c)"

lemma leave_out_reason:
  assumes acc: "accounted cq registered0 queue0 registered (cls # queue)" and v: "class_verdict cq registered queue cls = Leave_Out"
  shows "left_out cq registered0 queue0 cls"
proof (cases "cq_skipped cq cls \<or> cq_private_argument cq cls")
  case True
  then show ?thesis by (auto intro: own_annotation own_argument)
next
  case False
  then obtain b where "find (\<lambda>b. b \<notin> set registered) (cq_bases cq cls) = Some b" "b \<notin> set queue"
    using v by (auto simp: class_verdict_def missing_base_def split: if_splits option.splits)
  then have b: "b \<in> set (cq_bases cq cls)" "b \<notin> set registered" "b \<notin> set queue" by (auto simp: find_Some_iff)
  have b0: "b \<notin> set registered0" using b(2) acc by (auto simp: accounted_def)
  show ?thesis
  proof (cases "b \<in> set queue0 - {cls}")
    case True
    then have "left_out cq registered0 queue0 b" using acc b(2,3) by (auto simp: accounted_def)
    then show ?thesis by (rule base_left_out [OF b(1) b0])
  qed (rule base_undeclared [OF b(1) b0])
qed

lemma scan_classes_complete:
  assumes "scan_classes cq postponed registered queue = Inr result" "\<And>c. keeps_order cq (cq_nested cq c)"
    "accounted cq registered0 queue0 registered queue"
  shows "accounted cq registered0 queue0 result []"
  using assms
proof (induction cq postponed registered queue arbitrary: result rule: scan_classes.induct)
  case (1 cq postponed registered)
  then show ?case by simp
next
  case (2 cq postponed registered cls queue)
  show ?case
  proof (cases "class_verdict cq registered queue cls")
    case Leave_Out
    then have "accounted cq registered0 queue0 registered queue"
      using leave_out_reason [OF "2.prems"(3) Leave_Out] "2.prems"(3) by (auto simp: accounted_def)
    then show ?thesis using "2.IH"(1) [OF Leave_Out] "2.prems"(1,2) Leave_Out by (simp add: scan_classes.simps(2))
  next
    case Put_Back
    then obtain postponed' where "postpone_class cls postponed = Inr postponed'" "scan_classes cq postponed' registered (queue @ [cls]) = Inr result"
      using "2.prems"(1) by (auto simp: scan_classes.simps(2) split: sum.splits)
    moreover have "accounted cq registered0 queue0 registered (queue @ [cls])" using "2.prems"(3) by (auto simp: accounted_def)
    ultimately show ?thesis using "2.IH"(2) [OF Put_Back] "2.prems"(2) by auto
  next
    case Register
    then obtain registered' where nested: "cq_nested cq cls (registered @ [cls]) = Inr registered'"
        and rest: "scan_classes cq postponed registered' queue = Inr result"
      using "2.prems"(1) by (auto simp: scan_classes.simps(2) split: sum.splits)
    have "set registered \<union> {cls} \<subseteq> set registered'"
      using nested "2.prems"(2) [of cls] unfolding keeps_order_def by fastforce
    then have "accounted cq registered0 queue0 registered' queue" using "2.prems"(3) unfolding accounted_def by auto
    then show ?thesis using "2.IH"(3) [OF Register nested rest] "2.prems"(2) by auto
  qed
qed

section \<open>Nested classes\<close>

text \<open>
  The classes inside a class are scanned by the same method, with a queue of their own.  \<open>depth\<close> is the depth of
  recursion that Python still allows.
\<close>

primrec scan_types :: "'c class_query \<Rightarrow> ('c \<Rightarrow> 'c list) \<Rightarrow> nat \<Rightarrow> 'c list \<Rightarrow> 'c list \<Rightarrow> 'c list res" where
  "scan_types cq inner 0 queue registered = Inl (RuntimeError ''maximum recursion depth exceeded'')"
| "scan_types cq inner (Suc depth) queue registered =
     scan_classes (cq\<lparr>cq_nested := \<lambda>c. scan_types cq inner depth (inner c)\<rparr>) (\<lambda>_. 0) registered queue"

lemma keeps_order_nested: "keeps_order (cq\<lparr>cq_nested := f\<rparr>) = keeps_order cq"
  by (simp add: keeps_order_def after_bases_def fun_eq_iff)

lemma scan_types_order: "keeps_order cq (scan_types cq inner depth queue)"
proof (induction depth arbitrary: queue)
  case 0
  show ?case by (simp add: keeps_order_def)
next
  case (Suc depth)
  have "keeps_order (cq\<lparr>cq_nested := \<lambda>c. scan_types cq inner depth (inner c)\<rparr>) (\<lambda>registered.
      scan_classes (cq\<lparr>cq_nested := \<lambda>c. scan_types cq inner depth (inner c)\<rparr>) (\<lambda>_. 0) registered queue)"
    by (rule scan_classes_order) (simp add: keeps_order_nested Suc.IH)
  then show ?case by (simp add: keeps_order_nested)
qed

lemma left_out_nested: "left_out (cq\<lparr>cq_nested := f\<rparr>) registered queue c \<longleftrightarrow> left_out cq registered queue c"
proof
  show "left_out (cq\<lparr>cq_nested := f\<rparr>) registered queue c \<Longrightarrow> left_out cq registered queue c"
    by (induction rule: left_out.induct) (auto intro: left_out.intros)
  show "left_out cq registered queue c \<Longrightarrow> left_out (cq\<lparr>cq_nested := f\<rparr>) registered queue c"
    by (induction rule: left_out.induct) (auto intro: left_out.intros)
qed

lemma scan_types_complete:
  assumes "scan_types cq inner depth queue registered = Inr result" "c \<in> set queue"
  shows "c \<in> set result \<or> left_out cq registered queue c"
proof (cases depth)
  case (Suc d)
  let ?cq = "cq\<lparr>cq_nested := \<lambda>c. scan_types cq inner d (inner c)\<rparr>"
  have "keeps_order ?cq (cq_nested ?cq c)" for c by (simp add: keeps_order_nested scan_types_order)
  moreover have "accounted ?cq registered queue registered queue" by (simp add: accounted_def)
  ultimately have "accounted ?cq registered queue result []"
    using scan_classes_complete [of ?cq "\<lambda>_. 0" registered queue result] assms(1) Suc by simp
  then show ?thesis using assms(2) by (auto simp: accounted_def left_out_nested)
qed (use assms(1) in simp)

text \<open>
  C8. The order of registration.  The scan of the classes of a namespace ends for every class hierarchy, also a cyclic
  one.  When it ends without an error, it has added classes to those registered before in an order in which
  every class comes after all its base classes, nested classes included; none of them is ignored or has a private
  template argument.  Every class of the namespace has been added, except for those that have a reason to be left out:
  the class is ignored or anonymous, has a private template argument, or has a base class that is neither registered
  nor another class of the namespace, or is left out itself.
\<close>

theorem classes_after_bases:
  "(\<exists>e. scan_types cq inner depth queue registered = Inl e) \<or>
   (\<exists>new. scan_types cq inner depth queue registered = Inr (registered @ new) \<and>
      (\<forall>i < length new. (\<forall>b. b \<in> set (cq_bases cq (new ! i)) \<longrightarrow> b \<in> set (registered @ take i new)) \<and>
         \<not> cq_skipped cq (new ! i) \<and> \<not> cq_private_argument cq (new ! i)) \<and>
      (\<forall>c. c \<in> set queue \<longrightarrow> c \<in> set (registered @ new) \<or> left_out cq registered queue c))"
proof (cases "scan_types cq inner depth queue registered")
  case (Inr result)
  then obtain new where new: "result = registered @ new" "after_bases cq registered new"
    using scan_types_order [of cq inner depth queue] by (auto simp: keeps_order_def)
  have "\<forall>c. c \<in> set queue \<longrightarrow> c \<in> set (registered @ new) \<or> left_out cq registered queue c"
    using scan_types_complete [OF Inr] unfolding new(1) by blast
  moreover have "\<forall>i < length new. (\<forall>b. b \<in> set (cq_bases cq (new ! i)) \<longrightarrow> b \<in> set (registered @ take i new)) \<and>
      \<not> cq_skipped cq (new ! i) \<and> \<not> cq_private_argument cq (new ! i)"
    using new(2) unfolding after_bases_def by blast
  ultimately show ?thesis using Inr new(1) by blast
qed simp

text \<open>Class \<open>c\<close> is derived from class \<open>c + 1\<close>.  In the witness, class 4 is ignored, so that class 3 is left out as well.\<close>

definition chain_query :: "nat class_query" where
  "chain_query = \<lparr>cq_skipped = (\<lambda>_. False), cq_bases = (\<lambda>c. if c < 10 then [c + 1] else []), cq_targets = (\<lambda>_. []),
     cq_known = (\<lambda>_. False), cq_private_argument = (\<lambda>_. False), cq_nested = (\<lambda>_. Inr)\<rparr>"

theorem classes_after_bases_witness:
  "let cq = chain_query\<lparr>cq_skipped := (\<lambda>c. c = 4)\<rparr> in
   scan_types cq (\<lambda>_. []) 2 [3, 4, 5, 6, 7, 8, 9, 10] [] = Inr [10, 9, 8, 7, 6, 5] \<and>
   (\<forall>i < length [10, 9, 8, 7, 6, 5 :: nat]. (\<forall>b. b \<in> set (cq_bases cq ([10, 9, 8, 7, 6, 5] ! i)) \<longrightarrow> b \<in> set ([] @ take i [10, 9, 8, 7, 6, 5])) \<and>
      \<not> cq_skipped cq ([10, 9, 8, 7, 6, 5] ! i)) \<and>
   left_out cq [] [3, 4, 5, 6, 7, 8, 9, 10] 3"
proof -
  let ?cq = "chain_query\<lparr>cq_skipped := (\<lambda>c. c = 4)\<rparr>"
  have run: "scan_types ?cq (\<lambda>_. []) 2 [3, 4, 5, 6, 7, 8, 9, 10] [] = Inr [10, 9, 8, 7, 6, 5]" by code_simp
  obtain new where "Inr [10, 9, 8, 7, 6, 5] = (Inr ([] @ new) :: nat list res)"
      "\<forall>i < length new. (\<forall>b. b \<in> set (cq_bases ?cq (new ! i)) \<longrightarrow> b \<in> set ([] @ take i new)) \<and>
         \<not> cq_skipped ?cq (new ! i) \<and> \<not> cq_private_argument ?cq (new ! i)"
      "\<forall>c. c \<in> set [3, 4, 5, 6, 7, 8, 9, 10] \<longrightarrow> c \<in> set ([] @ new) \<or> left_out ?cq [] [3, 4, 5, 6, 7, 8, 9, 10] c"
    using classes_after_bases [of ?cq "\<lambda>_. []" 2 "[3, 4, 5, 6, 7, 8, 9, 10]" "[]"] unfolding run by blast
  then have "\<forall>i < length [10, 9, 8, 7, 6, 5 :: nat]. (\<forall>b. b \<in> set (cq_bases ?cq ([10, 9, 8, 7, 6, 5] ! i)) \<longrightarrow> b \<in> set ([] @ take i [10, 9, 8, 7, 6, 5])) \<and>
      \<not> cq_skipped ?cq ([10, 9, 8, 7, 6, 5] ! i)" "left_out ?cq [] [3, 4, 5, 6, 7, 8, 9, 10] 3"
    by auto
  then show ?thesis using run unfolding Let_def by blast
qed

section \<open>The limit on postponements\<close>













text \<open>
  The limit on postponements: a chain of eleven classes, each the base class of the one before it in the queue, is refused
  although there is no cycle.
\<close>

lemma long_chain_refused:
  "scan_types chain_query (\<lambda>_. []) 2 [0, 1, 2, 3, 4, 5, 6, 7, 8, 9, 10] [] = Inl AssertionError"
  "scan_types chain_query (\<lambda>_. []) 2 (rev [0, 1, 2, 3, 4, 5, 6, 7, 8, 9, 10]) [] = Inr (rev [0, 1, 2, 3, 4, 5, 6, 7, 8, 9, 10])"
  by code_simp+

end
