(* ===== verification/Pygen.thy ===== *)
theory Pygen
  imports Class_Scan Class_Text
begin

text \<open>
  The Python script that \<open>ModuleParser\<close> writes next to building the module (\<open>src/pybindgen/gccxmlparser.py\<close>): texts of
  arguments, sections of the script, and its frame.  A code sink is named by a number; the output is a list of commands with
  the sink that they go to.
\<close>

section \<open>Texts of arguments\<close>

text \<open>\<open>repr\<close>, for texts without quotes and special characters.\<close>

fun repr_value :: "pyval \<Rightarrow> string" where
  "repr_value PyNone = ''None''"
| "repr_value (PyBool b) = (if b then ''True'' else ''False'')"
| "repr_value (PyInt i) = str_of_int i"
| "repr_value (PyStr s) = quoted s"

definition in_root_module :: "string \<Rightarrow> string" where
  "in_root_module full_name = ''root_module['' @ quoted full_name @ '']''"

text \<open>The representation of a keyword argument, with the policies of \<open>src/pybindgen/cppclass.py\<close>.\<close>

fun repr_kwarg :: "kwarg \<Rightarrow> string" where
  "repr_kwarg (Kw_Value v) = repr_value v"
| "repr_kwarg (Kw_Methods_Policy incref decref peekref) =
     ''cppclass.ReferenceCountingMethodsPolicy(incref_method='' @ repr_value (opt_val incref) @ '', decref_method='' @
       repr_value (opt_val decref) @ '', peekref_method='' @ repr_value (opt_val peekref) @ '')''"
| "repr_kwarg (Kw_Functions_Policy incref decref) =
     ''cppclass.ReferenceCountingFunctionsPolicy(incref_function='' @ repr_value (opt_val incref) @ '', decref_function='' @
       repr_value (opt_val decref) @ '', peekref_function=None)''"
| "repr_kwarg (Kw_Free_Policy free) = ''cppclass.FreeFunctionPolicy('' @ repr_value (opt_val free) @ '')''"
| "repr_kwarg (Kw_Object full_name) = in_root_module full_name"
| "repr_kwarg (Kw_Objects full_names) = ''['' @ join '', '' (map in_root_module full_names) @ '']''"
| "repr_kwarg (Kw_Texts texts) = ''['' @ join '', '' (map quoted texts) @ '']''"

text \<open>The lists of objects are those of \<open>throw\<close> and \<open>parent\<close>.\<close>

definition pygen_kwargs :: "kwargs \<Rightarrow> string list" where
  "pygen_kwargs kwargs = map (\<lambda>(key, val). key @ ''='' @ repr_kwarg val) kwargs"

definition pygen_args_kwargs :: "string list \<Rightarrow> kwargs \<Rightarrow> string" where
  "pygen_args_kwargs args kwargs = join '', '' (map quoted args @ pygen_kwargs kwargs)"

definition pygen_args_kwargs_dict :: "string list \<Rightarrow> kwargs \<Rightarrow> string" where
  "pygen_args_kwargs_dict args kwargs =
     join '', '' (map quoted args @ (if kwargs \<noteq> [] then [''dict('' @ join '', '' (pygen_kwargs kwargs) @ '')''] else []))"

definition pygen_retval :: "string list \<Rightarrow> kwargs \<Rightarrow> string" where
  "pygen_retval args kwargs =
     (case args of
        [arg] \<Rightarrow> if kwargs = [] then quoted arg else ''retval('' @ pygen_args_kwargs args kwargs @ '')''
      | _ \<Rightarrow> ''retval('' @ pygen_args_kwargs args kwargs @ '')'')"

definition pygen_param :: "string list \<Rightarrow> kwargs \<Rightarrow> string" where
  "pygen_param args kwargs = ''param('' @ pygen_args_kwargs args kwargs @ '')''"

section \<open>Sections\<close>

record pygen_section =
  ps_name :: string
  ps_code_sink :: nat
  ps_local_customizations :: "string option"

datatype pygen = No_Pygen | Pygen_Sink nat | Pygen_Sections "pygen_section list"

definition main_section :: string where
  "main_section = ''__main__''"

text \<open>The checks of \<open>parse_init\<close>: a list of sections needs a classifier and a main section.\<close>

definition check_pygen :: "pygen \<Rightarrow> bool \<Rightarrow> unit res" where
  "check_pygen pygen have_classifier = (case pygen of
     Pygen_Sections sections \<Rightarrow>
       if \<not> have_classifier then Inl AssertionError
       else if list_ex (\<lambda>sect. ps_name sect = main_section) sections then Inr ()
       else Inl (ValueError ''missing __main__ section'')
   | _ \<Rightarrow> Inr ())"

definition get_main_pygen_sink :: "pygen \<Rightarrow> nat option" where
  "get_main_pygen_sink pygen = (case pygen of
     Pygen_Sink k \<Rightarrow> Some k
   | Pygen_Sections sections \<Rightarrow> map_option ps_code_sink (find (\<lambda>sect. ps_name sect = main_section) sections)
   | No_Pygen \<Rightarrow> None)"

definition get_all_pygen_sinks :: "pygen \<Rightarrow> nat list" where
  "get_all_pygen_sinks pygen = (case pygen of
     Pygen_Sink k \<Rightarrow> [k]
   | Pygen_Sections sections \<Rightarrow> map ps_code_sink sections
   | No_Pygen \<Rightarrow> [])"

text \<open>
  The sink for a definition, with the precedence of its section.  A classifier has the methods \<open>classify\<close>, of
  pygccxml declarations, and \<open>get_section_precedence\<close>; it comes with a list of sections.
\<close>

record 'd classifier =
  cl_classify :: "'d \<Rightarrow> string res"
  cl_precedence :: "string \<Rightarrow> int res"

definition section_of_definition :: "'d classifier \<Rightarrow> pygen \<Rightarrow> 'd option \<Rightarrow> (string \<times> nat option) res" where
  "section_of_definition classifier pygen decl = (case decl of
     None \<Rightarrow> Inr (main_section, get_main_pygen_sink pygen)
   | Some d \<Rightarrow> bind_res (cl_classify classifier d) (\<lambda>section.
       case pygen of
         Pygen_Sections sections \<Rightarrow>
           (case find (\<lambda>sect. ps_name sect = section) sections of
              Some sect \<Rightarrow> Inr (section, Some (ps_code_sink sect))
            | None \<Rightarrow> Inl (ValueError (''CodeSink for section '' @ quoted section @ '' not available'')))
       | _ \<Rightarrow> Inl (TypeError ''object is not iterable'')))"

text \<open>Without a classifier there are no sections, as \<open>check_pygen\<close> has made sure.\<close>

definition get_pygen_sink_for_definition :: "'d classifier option \<Rightarrow> pygen \<Rightarrow> 'd option \<Rightarrow> nat option res" where
  "get_pygen_sink_for_definition classifier pygen decl = (case classifier of
     None \<Rightarrow> Inr (get_main_pygen_sink pygen)
   | Some cl \<Rightarrow> bind_res (section_of_definition cl pygen decl) (\<lambda>(_, sink). Inr sink))"

definition get_pygen_sink_with_precedence :: "'d classifier option \<Rightarrow> pygen \<Rightarrow> 'd option \<Rightarrow> (int \<times> nat option) res" where
  "get_pygen_sink_with_precedence classifier pygen decl = (case classifier of
     None \<Rightarrow> Inr (0, get_main_pygen_sink pygen)
   | Some cl \<Rightarrow> bind_res (section_of_definition cl pygen decl) (\<lambda>(section, sink).
       case cl_precedence cl section of
         Inr prec \<Rightarrow> Inr (prec, sink)
       | Inl e \<Rightarrow> if e = NotImplementedError then Inr (0, sink) else Inl e))"

section \<open>The frame of the script\<close>

type_synonym script = "(nat \<times> sink_cmd) list"

definition to_sink :: "sink_cmd list \<Rightarrow> nat \<Rightarrow> script" where
  "to_sink cmds k = map (Pair k) cmds"

definition to_all :: "pygen \<Rightarrow> sink_cmd list \<Rightarrow> script" where
  "to_all pygen cmds = concat (map (to_sink cmds) (get_all_pygen_sinks pygen))"

definition to_main :: "pygen \<Rightarrow> sink_cmd list \<Rightarrow> script" where
  "to_main pygen cmds = (case get_main_pygen_sink pygen of None \<Rightarrow> [] | Some k \<Rightarrow> to_sink cmds k)"

text \<open>The main section calls a function of every other section, and of its module of customizations if there is one.\<close>

definition section_call :: "string \<Rightarrow> string \<Rightarrow> pygen_section \<Rightarrow> sink_cmd list" where
  "section_call function arg sect =
     [Writeln (''root_module.begin_section('' @ quoted (ps_name sect) @ '')''),
      Writeln (ps_name sect @ ''.'' @ function @ ''('' @ arg @ '')'')] @
     (case ps_local_customizations sect of
        None \<Rightarrow> []
      | Some m \<Rightarrow> if m = [] then [] else [Writeln (join nl [
          [],
          ''try:'',
          ''    import '' @ m,
          ''except ImportError:'',
          ''    pass'',
          ''else:'',
          ''    '' @ m @ ''.'' @ function @ ''('' @ arg @ '')'',
          []])]) @
     [Writeln (''root_module.end_section('' @ quoted (ps_name sect) @ '')'')]"

definition section_calls :: "string \<Rightarrow> string \<Rightarrow> pygen \<Rightarrow> nat \<Rightarrow> sink_cmd list" where
  "section_calls function arg pygen k = (case pygen of
     Pygen_Sections sections \<Rightarrow>
       if get_main_pygen_sink pygen = Some k
       then concat (map (section_call function arg) (filter (\<lambda>sect. ps_name sect \<noteq> main_section) sections)) else []
   | _ \<Rightarrow> [])"

definition init_script :: "pygen \<Rightarrow> string \<Rightarrow> string \<Rightarrow> string list \<Rightarrow> script" where
  "init_script pygen module_name namespace_decl includes =
     to_all pygen [Writeln ''from pybindgen import Module, FileCodeSink, param, retval, cppclass, typehandlers'', Writeln []] @
     to_main pygen ([
       Writeln (join nl [
         [],
         ''import pybindgen.settings'',
         ''import warnings'',
         [],
         ''class ErrorHandler(pybindgen.settings.ErrorHandler):'',
         ''    def handle_error(self, wrapper, exception, traceback_):'',
         ''        warnings.warn('' @ dq @ ''exception %r in wrapper %s'' @ dq @ '' % (exception, wrapper))'',
         ''        return True'',
         ''pybindgen.settings.error_handler = ErrorHandler()'',
         [],
         []]),
       Writeln ''import sys''] @
       (case pygen of
          Pygen_Sections sections \<Rightarrow> map (\<lambda>sect. Writeln (''import '' @ ps_name sect)) (filter (\<lambda>sect. ps_name sect \<noteq> main_section) sections)
        | _ \<Rightarrow> []) @
       [Writeln [], Writeln ''def module_init():'', Indent,
        Writeln (''root_module = Module('' @ quoted module_name @ '', cpp_namespace='' @ quoted namespace_decl @ '')'')] @
       map (\<lambda>inc. Writeln (''root_module.add_include('' @ quoted inc @ '')'')) includes @
       [Writeln ''return root_module'', Unindent, Writeln []])"

text \<open>The heading of the functions that register types, in a module and in its nested modules.\<close>

definition types_heading :: "pygen \<Rightarrow> string \<Rightarrow> script" where
  "types_heading pygen function = concat (map (\<lambda>k. to_sink (
     [Writeln (''def '' @ function @ ''(module):''), Indent, Writeln ''root_module = module.get_root()'', Writeln []] @
     (if function = ''register_types'' then section_calls function ''module'' pygen k else [])) k) (get_all_pygen_sinks pygen))"

text \<open>A class of the type registry: its names, its definition, and whether it has methods to scan.\<close>

record 'd scanned_class =
  sd_mangled_full_name :: string
  sd_full_name :: string
  sd_definition :: 'd
  sd_declared_only :: bool
  sd_exception :: bool

definition has_methods :: "'d scanned_class \<Rightarrow> bool" where
  "has_methods c \<longleftrightarrow> \<not> sd_declared_only c \<and> \<not> sd_exception c"

definition register_methods_func :: "'d scanned_class \<Rightarrow> string" where
  "register_methods_func c = ''register_'' @ sd_mangled_full_name c @ ''_methods''"

text \<open>
  The function of one class; \<open>body\<close> is the script of \<open>_scan_class_methods\<close> for the class and its anonymous structures.  Of a
  scan that fails, only the error is modelled, not the script so far.
\<close>

definition class_methods_script :: "('d scanned_class \<Rightarrow> nat option \<Rightarrow> script res) \<Rightarrow> 'd scanned_class \<times> nat option \<Rightarrow> script res" where
  "class_methods_script body = (\<lambda>(c, sink).
     bind_res (body c sink) (\<lambda>methods. Inr (case sink of
       None \<Rightarrow> methods
     | Some k \<Rightarrow>
         to_sink [Writeln (''def '' @ register_methods_func c @ ''(root_module, cls):''), Indent] k @
         methods @ to_sink [Writeln ''return'', Unindent, Writeln []] k)))"

definition scan_methods ::
  "'d classifier option \<Rightarrow> pygen \<Rightarrow> ('d scanned_class \<Rightarrow> nat option \<Rightarrow> script res) \<Rightarrow> bool \<Rightarrow> 'd scanned_class list \<Rightarrow> script res" where
  "scan_methods classifier pygen body types_scanned ordered_classes =
     (if \<not> types_scanned then Inl AssertionError
      else bind_res (map_res (\<lambda>c. bind_res (get_pygen_sink_for_definition classifier pygen (Some (sd_definition c))) (\<lambda>sink. Inr (c, sink)))
          (filter has_methods ordered_classes)) (\<lambda>classes.
        bind_res (map_res (class_methods_script body) classes) (\<lambda>functions. Inr (
          to_all pygen [Writeln ''def register_methods(root_module):'', Indent] @
          concat (map (\<lambda>(c, sink). case sink of
            None \<Rightarrow> []
          | Some k \<Rightarrow> to_sink [Writeln (register_methods_func c @ ''(root_module, '' @ in_root_module (sd_full_name c) @ '')'')] k) classes) @
          concat (map (\<lambda>k. to_sink (section_calls ''register_methods'' ''root_module'' pygen k @ [Writeln ''return'', Unindent, Writeln []]) k)
            (get_all_pygen_sinks pygen)) @
          concat functions))))"

definition functions_heading :: "pygen \<Rightarrow> script" where
  "functions_heading pygen = concat (map (\<lambda>k. to_sink (
     [Writeln ''def register_functions(root_module):'', Indent, Writeln ''module = root_module''] @
     section_calls ''register_functions'' ''root_module'' pygen k) k) (get_all_pygen_sinks pygen))"

definition finalize_script :: "pygen \<Rightarrow> script" where
  "finalize_script pygen = to_main pygen [
     Writeln ''def main():'',
     Indent,
     Writeln ''out = FileCodeSink(sys.stdout)'',
     Writeln ''root_module = module_init()'',
     Writeln ''register_types(root_module)'',
     Writeln ''register_methods(root_module)'',
     Writeln ''register_functions(root_module)'',
     Writeln ''root_module.generate(out)'',
     Unindent,
     Writeln [],
     Writeln (''if __name__ == '' @ sq @ ''__main__'' @ sq @ '':'' @ nl @ ''    main()''),
     Writeln []]"

section \<open>Exceptions of a function\<close>

text \<open>
  The name under which a thrown type is looked up, and the exceptions among the types.  \<open>root_module.get\<close> finds an
  exception or something else.
\<close>

definition exception_name :: "string \<Rightarrow> string res option" where
  "exception_name decl_string =
     bind_div (normalize_name decl_string) (\<lambda>name.
     bind_div (TypeTraits name) (\<lambda>traits. Some (
       if tt_is_reference traits then (case tt_target traits of None \<Rightarrow> Inr ''None'' | Some t \<Rightarrow> Inr (ctype_str t))
       else Inr (ctype_str (tt_ctype traits)))))"

text \<open>A type that is no exception is left out, with a warning.\<close>

fun get_calldef_exceptions :: "(string \<Rightarrow> 'x option) \<Rightarrow> string list \<Rightarrow> 'x list res option" where
  "get_calldef_exceptions find_exception [] = Some (Inr [])"
| "get_calldef_exceptions find_exception (decl_string # ds) =
     bind_div (exception_name decl_string) (\<lambda>name.
     bind_div (get_calldef_exceptions find_exception ds) (\<lambda>rest. Some (Inr (
       case find_exception name of None \<Rightarrow> rest | Some x \<Rightarrow> x # rest))))"

text \<open>In the names of an annotation, such a type is an error: the warning refers to variables that do not exist.\<close>

fun annotation_exceptions :: "(string \<Rightarrow> 'x option) \<Rightarrow> string list \<Rightarrow> 'x list res option" where
  "annotation_exceptions find_exception [] = Some (Inr [])"
| "annotation_exceptions find_exception (exc_name # ns) =
     bind_div (exception_name exc_name) (\<lambda>name.
     case find_exception name of
       None \<Rightarrow> Some (Inl (NameError ''decl''))
     | Some x \<Rightarrow> bind_div (annotation_exceptions find_exception ns) (\<lambda>rest. Some (Inr (x # rest))))"

definition get_annotation_exceptions :: "(string \<Rightarrow> 'x option) \<Rightarrow> string option \<Rightarrow> 'x list res option" where
  "get_annotation_exceptions find_exception annotation = (case annotation of
     None \<Rightarrow> Some (Inl (AttributeError ''split''))
   | Some s \<Rightarrow> annotation_exceptions find_exception (split_on (CHR '','') s))"

section \<open>Indentation\<close>

text \<open>How far the commands for a sink indent it in the end.\<close>

definition depth_change :: "nat \<Rightarrow> script \<Rightarrow> int" where
  "depth_change k cmds = (\<Sum>(j, cmd)\<leftarrow>cmds. if j = k then (case cmd of Indent \<Rightarrow> 1 | Unindent \<Rightarrow> - 1 | Writeln _ \<Rightarrow> 0) else 0)"

lemma depth_change_Nil [simp]: "depth_change k [] = 0"
  by (simp add: depth_change_def)

lemma depth_change_append [simp]: "depth_change k (xs @ ys) = depth_change k xs + depth_change k ys"
  by (simp add: depth_change_def)

lemma depth_change_concat: "depth_change k (concat xss) = (\<Sum>xs\<leftarrow>xss. depth_change k xs)"
  by (induction xss) simp_all

definition cmds_depth :: "sink_cmd list \<Rightarrow> int" where
  "cmds_depth cmds = (\<Sum>cmd\<leftarrow>cmds. case cmd of Indent \<Rightarrow> 1 | Unindent \<Rightarrow> - 1 | Writeln _ \<Rightarrow> 0)"

lemma depth_change_to_sink: "depth_change k (to_sink cmds j) = (if j = k then cmds_depth cmds else 0)"
  by (induction cmds) (simp_all add: depth_change_def to_sink_def cmds_depth_def)

lemma cmds_depth_simps [simp]:
  "cmds_depth [] = 0" "cmds_depth (Writeln line # cmds) = cmds_depth cmds" "cmds_depth (Indent # cmds) = 1 + cmds_depth cmds"
  "cmds_depth (Unindent # cmds) = cmds_depth cmds - 1" "cmds_depth (xs @ ys) = cmds_depth xs + cmds_depth ys"
  by (simp_all add: cmds_depth_def)

lemma section_calls_depth [simp]: "cmds_depth (section_calls function arg pygen k) = 0"
proof -
  have "cmds_depth (section_call function arg sect) = 0" for sect by (simp add: section_call_def split: option.split)
  then have "cmds_depth (concat (map (section_call function arg) sections)) = 0" for sections
    by (induction sections) simp_all
  then show ?thesis by (simp add: section_calls_def split: pygen.split)
qed

text \<open>Every function that the scan of the methods opens in the script, it closes.\<close>

lemma map_res_Inr: "map_res f xs = Inr ys \<Longrightarrow> list_all2 (\<lambda>x y. f x = Inr y) xs ys"
  by (induction xs arbitrary: ys) (auto simp: bind_res_Inr)

lemma class_methods_balanced:
  assumes "\<And>c sink cmds. body c sink = Inr cmds \<Longrightarrow> depth_change k cmds = 0" "class_methods_script body x = Inr cmds"
  shows "depth_change k cmds = 0"
  using assms(2) by (cases x) (auto simp: class_methods_script_def bind_res_Inr depth_change_to_sink assms(1) split: option.splits)

lemma sum_map_zero: "(\<And>x. x \<in> set xs \<Longrightarrow> f x = (0 :: int)) \<Longrightarrow> sum_list (map f xs) = 0"
  by (induction xs) auto

lemma scan_methods_balanced:
  assumes body: "\<And>c sink cmds. body c sink = Inr cmds \<Longrightarrow> depth_change k cmds = 0"
    and run: "scan_methods classifier pygen body types_scanned classes = Inr cmds"
  shows "depth_change k cmds = 0"
proof -
  obtain named codes where codes: "map_res (class_methods_script body) named = Inr codes" and cmds: "cmds =
      to_all pygen [Writeln ''def register_methods(root_module):'', Indent] @
      concat (map (\<lambda>(c, sink). case sink of
        None \<Rightarrow> []
      | Some k \<Rightarrow> to_sink [Writeln (register_methods_func c @ ''(root_module, '' @ in_root_module (sd_full_name c) @ '')'')] k) named) @
      concat (map (\<lambda>k. to_sink (section_calls ''register_methods'' ''root_module'' pygen k @ [Writeln ''return'', Unindent, Writeln []]) k)
        (get_all_pygen_sinks pygen)) @
      concat codes"
    using run by (auto simp: scan_methods_def bind_res_Inr split: if_splits)
  have "depth_change k c = 0" if c: "c \<in> set codes" for c
  proof -
    obtain x where "class_methods_script body x = Inr c"
      using c map_res_Inr [OF codes] unfolding list_all2_conv_all_nth in_set_conv_nth by metis
    then show ?thesis using class_methods_balanced [of body k x c] body by blast
  qed
  then have "depth_change k (concat codes) = 0" by (simp add: depth_change_concat sum_map_zero)
  moreover have "(\<Sum>x\<leftarrow>named. depth_change k (case x of (c, sink) \<Rightarrow> case sink of None \<Rightarrow> []
      | Some k \<Rightarrow> to_sink [Writeln (register_methods_func c @ ''(root_module, '' @ in_root_module (sd_full_name c) @ '')'')] k)) = 0"
    by (rule sum_map_zero) (auto simp: depth_change_to_sink split: option.split)
  moreover have "(\<Sum>j\<leftarrow>ks. if j = k then (1 :: int) else 0) + (\<Sum>j\<leftarrow>ks. if j = k then - 1 else 0) = 0" for ks by (induction ks) simp_all
  ultimately show ?thesis
    by (simp add: cmds to_all_def depth_change_concat comp_def depth_change_to_sink cong: if_cong)
qed

end
