(* ===== verification/Member_Scan.thy ===== *)
theory Member_Scan
  imports Pygen
begin

text \<open>
  The scan of the members of a class (\<open>_scan_class_methods\<close> of \<open>src/pybindgen/gccxmlparser.py\<close>, after the operators): what
  the parser tells PyBindGen about a member, and writes to the script.
\<close>

section \<open>Template instances\<close>

text \<open>
  \<open>template_instance_names\<close> maps lists of types to names: \<open>int,float=>name1|double=>name2\<close>.  The first entry for the
  parameters counts; an entry before it that is no pair is an error.
\<close>

fun find_instance_name :: "string list \<Rightarrow> string list \<Rightarrow> string option res" where
  "find_instance_name template_parameters [] = Inr None"
| "find_instance_name template_parameters (mapping # ms) = (case split_str ''=>'' mapping of
     [type_names, name] \<Rightarrow>
       if split_on (CHR '','') type_names = template_parameters then Inr (Some name) else find_instance_name template_parameters ms
   | _ \<Rightarrow> Inl (ValueError ''unpack''))"

definition template_instance_name :: "annotation_dict \<Rightarrow> string list \<Rightarrow> string option res" where
  "template_instance_name global_annotations template_parameters =
     (case annotation_get global_annotations ''template_instance_names'' of
        None \<Rightarrow> Inr None
      | Some s \<Rightarrow> if s = [] then Inr None else find_instance_name template_parameters (split_on (CHR ''|'') s))"

section \<open>Members\<close>

datatype virtuality = Not_Virtual | Virtual | Pure_Virtual

record argument_info =
  ai_type :: string
  ai_name :: string
  ai_default_value :: "string option"

text \<open>
  A member function or operator: \<open>mi_operator\<close> is the symbol of an operator, \<open>mi_template\<close> the arguments of a template
  instance, \<open>mi_exceptions\<close> the exceptions that the declaration names.
\<close>

record member_info =
  mi_name :: string
  mi_operator :: "string option"
  mi_virtuality :: virtuality
  mi_has_const :: bool
  mi_has_static :: bool
  mi_access_type :: string
  mi_deprecated :: bool
  mi_template :: "string list option"
  mi_return_type :: string
  mi_arguments :: "argument_info list"
  mi_exceptions :: "string list"

text \<open>The exceptions are known by their full names; \<open>root_module.get\<close> is a function from names.\<close>

type_synonym find_exception = "string \<Rightarrow> string option"

definition put_throw :: "find_exception \<Rightarrow> string option \<Rightarrow> kwargs \<Rightarrow> kwargs res option" where
  "put_throw find_exc v kwargs =
     bind_div (get_annotation_exceptions find_exc v) (\<lambda>xs. Some (Inr (AList.update ''throw'' (Kw_Objects xs) kwargs)))"

fun method_annotations :: "find_exception \<Rightarrow> annotation_dict \<Rightarrow> kwargs \<Rightarrow> kwargs res option" where
  "method_annotations find_exc [] kwargs = Some (Inr kwargs)"
| "method_annotations find_exc ((key, v) # as) kwargs =
     bind_div
       (if key = ''unblock_threads'' then Some (put_bool key v kwargs)
        else if key = ''name'' then Some (Inr (AList.update ''custom_name'' (Kw_Value (opt_val v)) kwargs))
        else if key = ''throw'' then put_throw find_exc v kwargs
        else Some (Inr kwargs))
       (method_annotations find_exc as)"

text \<open>\<open>None\<close> as a result: the operator is not wrapped.\<close>

definition operator_name :: "member_info \<Rightarrow> kwargs \<Rightarrow> kwargs option" where
  "operator_name m kwargs = (case mi_operator m of
     None \<Rightarrow> Some kwargs
   | Some symbol \<Rightarrow> if symbol = ''()'' then Some (AList.update ''custom_name'' (Kw_Value (PyStr ''__call__'')) kwargs) else None)"

definition declared_throw :: "find_exception \<Rightarrow> string list \<Rightarrow> kwargs \<Rightarrow> kwargs res option" where
  "declared_throw find_exc exceptions kwargs =
     bind_div (get_calldef_exceptions find_exc exceptions) (\<lambda>throw.
       Some (Inr (if throw \<noteq> [] then AList.update ''throw'' (Kw_Objects throw) kwargs else kwargs)))"

type_synonym type_spec = "string list \<times> kwargs"

fun argument_specs :: "(string \<times> annotation_dict) list \<Rightarrow> argument_info list \<Rightarrow> type_spec list res option" where
  "argument_specs parameter_annotations [] = Some (Inr [])"
| "argument_specs parameter_annotations (arg # args) =
     bind_div (lookup_parameter (ai_type arg) (ai_name arg)
       (case map_of parameter_annotations (ai_name arg) of None \<Rightarrow> [] | Some d \<Rightarrow> d) (ai_default_value arg)) (\<lambda>spec.
     bind_div (argument_specs parameter_annotations args) (\<lambda>specs. Some (Inr (spec # specs))))"

definition return_spec :: "(string \<times> annotation_dict) list \<Rightarrow> string \<Rightarrow> type_spec res option" where
  "return_spec parameter_annotations return_type =
     lookup_return return_type (case map_of parameter_annotations ''return'' of None \<Rightarrow> [] | Some d \<Rightarrow> d)"

definition put_flag :: "bool \<Rightarrow> string \<Rightarrow> kwargs \<Rightarrow> kwargs" where
  "put_flag b name kwargs = (if b then AList.update name (Kw_Value (PyBool True)) kwargs else kwargs)"

definition member_flags :: "member_info \<Rightarrow> string option \<Rightarrow> kwargs \<Rightarrow> kwargs" where
  "member_flags m custom_template_method_name kwargs = (let
     kwargs = put_flag (mi_has_const m) ''is_const'' kwargs;
     kwargs = put_flag (mi_has_static m) ''is_static'' kwargs;
     kwargs = put_flag (mi_virtuality m \<noteq> Not_Virtual) ''is_virtual'' kwargs;
     kwargs = put_flag (mi_virtuality m = Pure_Virtual) ''is_pure_virtual'' kwargs;
     kwargs = (case mi_template m of None \<Rightarrow> kwargs
       | Some ts \<Rightarrow> if ts \<noteq> [] then AList.update ''template_parameters'' (Kw_Texts ts) kwargs else kwargs);
     kwargs = (case custom_template_method_name of None \<Rightarrow> kwargs
       | Some n \<Rightarrow> if n \<noteq> [] then AList.update ''custom_template_method_name'' (Kw_Value (PyStr n)) kwargs else kwargs)
     in if mi_access_type m \<noteq> ''public'' then AList.update ''visibility'' (Kw_Value (PyStr (mi_access_type m))) kwargs else kwargs)"

text \<open>Private methods that are not virtual do not affect the bindings.\<close>

definition is_irrelevant :: "member_info \<Rightarrow> bool" where
  "is_irrelevant m \<longleftrightarrow> mi_access_type m = ''private'' \<and> mi_virtuality m = Not_Virtual"

definition spaces_15 :: string where
  "spaces_15 = nl @ replicate 15 (CHR '' '')"

definition specs_text :: "type_spec list \<Rightarrow> string" where
  "specs_text specs = ''['' @ join '', '' (map (\<lambda>(args, kwargs). pygen_param args kwargs) specs) @ '']''"

definition first_on_new_line :: "string \<Rightarrow> string list \<Rightarrow> string list" where
  "first_on_new_line indent texts = (case texts of [] \<Rightarrow> [] | t # ts \<Rightarrow> (indent @ t) # ts)"

definition comment_cmds :: "annotation_dict \<Rightarrow> sink_cmd list res" where
  "comment_cmds global_annotations = (case map_of global_annotations ''pygen_comment'' of
     None \<Rightarrow> Inr []
   | Some None \<Rightarrow> Inl (TypeError ''cannot concatenate str and NoneType objects'')
   | Some (Some c) \<Rightarrow> Inr [Writeln (''## '' @ c)])"

definition add_method_text :: "string \<Rightarrow> type_spec \<Rightarrow> type_spec list \<Rightarrow> kwargs \<Rightarrow> string" where
  "add_method_text name return_type_spec specs kwargs =
     ''cls.add_method('' @ join '', '' ([quoted name, spaces_15 @ pygen_retval (fst return_type_spec) (snd return_type_spec),
       spaces_15 @ specs_text specs] @ first_on_new_line spaces_15 (pygen_kwargs kwargs)) @ '')''"

section \<open>The scan of a method\<close>

text \<open>What is done to the class wrapper.\<close>

datatype class_action =
    Set_Cannot_Be_Constructed string
  | Set_Helper_Class_Disabled
  | Add_Method string type_spec "type_spec list" kwargs
  | Add_Constructor "type_spec list" kwargs
  | Add_Copy_Constructor
  | Add_Attribute bool string type_spec bool

definition is_lookup_error :: "py_error \<Rightarrow> bool" where
  "is_lookup_error e = (case e of TypeLookupError _ \<Rightarrow> True | TypeConfigurationError _ \<Rightarrow> True | _ \<Rightarrow> False)"

text \<open>
  The operations of PyBindGen that the scan calls: \<open>ReturnValue.new\<close> and \<open>Parameter.new\<close> for a specification, and
  \<open>add_method\<close> and \<open>add_constructor\<close> of the class, which return a wrapper (\<open>True\<close>) or \<open>None\<close>; and whether a parameter is a
  reference to the class.
\<close>

record realize_ops =
  ro_return :: "type_spec \<Rightarrow> unit res"
  ro_parameter :: "type_spec \<Rightarrow> unit res"
  ro_add_method :: "string \<Rightarrow> type_spec \<Rightarrow> type_spec list \<Rightarrow> kwargs \<Rightarrow> bool res"
  ro_add_constructor :: "type_spec list \<Rightarrow> kwargs \<Rightarrow> bool res"
  ro_is_this_ref :: "type_spec \<Rightarrow> bool"

text \<open>Every parameter is tried; errors of type lookup are warnings, other ones end the scan.\<close>

fun realize_all :: "(type_spec \<Rightarrow> unit res) \<Rightarrow> type_spec list \<Rightarrow> bool res" where
  "realize_all new [] = Inr True"
| "realize_all new (spec # specs) = (case new spec of
     Inr _ \<Rightarrow> realize_all new specs
   | Inl e \<Rightarrow> if is_lookup_error e then bind_res (realize_all new specs) (\<lambda>_. Inr False) else Inl e)"

definition not_wrapped :: "bool \<Rightarrow> class_action list" where
  "not_wrapped pure_virtual =
     (if pure_virtual then [Set_Cannot_Be_Constructed ''pure virtual method not wrapped'', Set_Helper_Class_Disabled] else [])"

definition realize_types :: "realize_ops \<Rightarrow> type_spec \<Rightarrow> type_spec list \<Rightarrow> bool res" where
  "realize_types ops return_type_spec specs = (case ro_return ops return_type_spec of
     Inl e \<Rightarrow> if is_lookup_error e then Inr False else Inl e
   | Inr _ \<Rightarrow> realize_all (ro_parameter ops) specs)"

definition realize_method :: "realize_ops \<Rightarrow> bool \<Rightarrow> string \<Rightarrow> type_spec \<Rightarrow> type_spec list \<Rightarrow> kwargs \<Rightarrow> (sink_cmd list \<times> class_action list) res" where
  "realize_method ops pure_virtual name return_type_spec specs kwargs =
     bind_res (realize_types ops return_type_spec specs) (\<lambda>ok.
     if \<not> ok then Inr ([], not_wrapped pure_virtual)
     else case ro_add_method ops name return_type_spec specs kwargs of
       Inr True \<Rightarrow> Inr ([], [Add_Method name return_type_spec specs kwargs])
     | Inr False \<Rightarrow> Inl (AttributeError ''gccxml_definition'')
     | Inl (NotSupportedError _) \<Rightarrow> Inr (
         if pure_virtual then
           ([Writeln (''cls.set_cannot_be_constructed('' @ dq @ ''pure virtual method %r not wrapped'' @ dq @ '' % '' @ quoted name @ '')''),
             Writeln ''cls.set_helper_class_disabled(True)''],
            [Set_Cannot_Be_Constructed (''pure virtual method '' @ quoted name @ '' not wrapped''), Set_Helper_Class_Disabled])
         else ([], []))
     | Inl e \<Rightarrow> Inl e)"

text \<open>
  A method or operator that is not ignored, of a class that can be subclassed or not: the commands for the script and the
  actions on the class.
\<close>

definition scan_method ::
  "realize_ops \<Rightarrow> find_exception \<Rightarrow> bool \<Rightarrow> annotations \<Rightarrow> member_info \<Rightarrow> (sink_cmd list \<times> class_action list) res option" where
  "scan_method ops find_exc allow_subclassing an m =
     bind_div (method_annotations find_exc (an_global an) []) (\<lambda>annotated.
     case operator_name m annotated of
       None \<Rightarrow> Some (Inr ([], []))
     | Some named \<Rightarrow>
         bind_div (declared_throw find_exc (mi_exceptions m) named) (\<lambda>kwargs.
         bind_div (return_spec (an_parameter an) (mi_return_type m)) (\<lambda>return_type_spec.
         bind_div (argument_specs (an_parameter an) (mi_arguments m)) (\<lambda>specs.
         let pure_virtual = (mi_virtuality m = Pure_Virtual);
             abstract = (if pure_virtual \<and> \<not> allow_subclassing
               then [Set_Cannot_Be_Constructed ''pure virtual method and subclassing disabled''] else []) in
         bind_div (Some (case mi_template m of None \<Rightarrow> Inr None | Some ts \<Rightarrow> template_instance_name (an_global an) ts)) (\<lambda>instance_name.
         let kwargs = put_flag (mi_deprecated m) ''deprecated'' (member_flags m instance_name kwargs) in
         if is_irrelevant m then Some (Inr ([], abstract))
         else bind_div (Some (comment_cmds (an_global an))) (\<lambda>comment.
           bind_div (Some (realize_method ops pure_virtual (mi_name m) return_type_spec specs kwargs)) (\<lambda>(cmds, actions).
           Some (Inr (comment @ [Writeln (add_method_text (mi_name m) return_type_spec specs kwargs)] @ cmds, abstract @ actions)))))))))"

section \<open>Constructors and attributes\<close>

record ctor_info =
  ki_access_type :: string
  ki_deprecated :: bool
  ki_arguments :: "argument_info list"
  ki_exceptions :: "string list"

definition spaces_20 :: string where
  "spaces_20 = nl @ replicate 20 (CHR '' '')"

definition ctor_kwargs :: "find_exception \<Rightarrow> ctor_info \<Rightarrow> kwargs res option" where
  "ctor_kwargs find_exc k =
     declared_throw find_exc (ki_exceptions k)
       (let kwargs = put_flag (ki_deprecated k) ''deprecated'' []
        in if ki_access_type k \<noteq> ''public'' then AList.update ''visibility'' (Kw_Value (PyStr (ki_access_type k))) kwargs else kwargs)"

text \<open>The first parameter that cannot be realized ends the loop.\<close>

fun realize_until :: "(type_spec \<Rightarrow> unit res) \<Rightarrow> type_spec list \<Rightarrow> bool res" where
  "realize_until new [] = Inr True"
| "realize_until new (spec # specs) = (case new spec of
     Inr _ \<Rightarrow> realize_until new specs
   | Inl e \<Rightarrow> if is_lookup_error e then Inr False else Inl e)"

text \<open>The result tells also whether the constructor was added, and is a copy constructor.\<close>

definition scan_constructor ::
  "realize_ops \<Rightarrow> find_exception \<Rightarrow> annotations \<Rightarrow> ctor_info \<Rightarrow> (sink_cmd list \<times> class_action list \<times> bool) res option" where
  "scan_constructor ops find_exc an k =
     (if ki_access_type k \<notin> {''public'', ''protected''} then Some (Inr ([], [], False))
      else bind_div (argument_specs [] (ki_arguments k)) (\<lambda>specs.
        bind_div (Some (comment_cmds (an_global an))) (\<lambda>comment.
        bind_div (ctor_kwargs find_exc k) (\<lambda>kwargs.
        let cmds = comment @ [Writeln (''cls.add_constructor('' @
              join '', '' (specs_text specs # first_on_new_line spaces_20 (pygen_kwargs kwargs)) @ '')'')] in
        Some (bind_res (realize_until (ro_parameter ops) specs) (\<lambda>ok.
          if \<not> ok then Inr (cmds, [], False)
          else bind_res (ro_add_constructor ops specs kwargs) (\<lambda>added.
            if added then Inr (cmds, [Add_Constructor specs kwargs], (case specs of [spec] \<Rightarrow> ro_is_this_ref ops spec | _ \<Rightarrow> False))
            else Inl (AttributeError ''gccxml_definition''))))))))"

record attribute_info =
  at_variable :: string
  at_access_type :: string
  at_anonymous_type :: bool
  at_type :: string
  at_static :: bool
  at_const :: bool

definition attribute_text :: "attribute_info \<Rightarrow> type_spec \<Rightarrow> string" where
  "attribute_text a spec =
     ''cls.'' @ (if at_static a then ''add_static_attribute('' else ''add_instance_attribute('') @ quoted (at_variable a) @ '', '' @
       pygen_retval (fst spec) (snd spec) @ '', is_const='' @ repr_value (PyBool (at_const a)) @ '')''"

definition scan_attribute :: "realize_ops \<Rightarrow> annotations \<Rightarrow> attribute_info \<Rightarrow> (sink_cmd list \<times> class_action list) res option" where
  "scan_attribute ops an a =
     (if at_variable a = [] \<or> at_access_type a \<in> {''protected'', ''private''} \<or> at_anonymous_type a then Some (Inr ([], []))
      else bind_div (lookup_return (at_type a) (an_global an)) (\<lambda>spec.
        bind_div (Some (comment_cmds (an_global an))) (\<lambda>comment.
        let cmds = comment @ [Writeln (attribute_text a spec)] in
        Some (case ro_return ops spec of
          Inr _ \<Rightarrow> Inr (cmds, [Add_Attribute (at_static a) (at_variable a) spec (at_const a)])
        | Inl e \<Rightarrow> if is_lookup_error e then Inr (cmds, []) else Inl e))))"

section \<open>The members of a class\<close>

datatype member = Method_Member member_info | Ctor_Member ctor_info | Attribute_Member attribute_info | Other_Kind

text \<open>
  A member with its name and its annotations, as \<open>get_annotations\<close> and the hooks of the user leave them; only members that are not
  ignored get annotations.
\<close>

record scanned_member =
  sm_name :: string
  sm_member :: member
  sm_annotations :: annotations

text \<open>The flags: a constructor without parameters, and a copy constructor, have been seen.\<close>

type_synonym member_state = "sink_cmd list \<times> class_action list \<times> bool \<times> bool"

definition is_ignored :: "string list \<Rightarrow> scanned_member \<Rightarrow> bool" where
  "is_ignored methods_to_ignore sm \<longleftrightarrow>
     sm_name sm \<in> set methods_to_ignore \<or> map_of (an_global (sm_annotations sm)) ''ignore'' \<noteq> None"

definition scan_member :: "realize_ops \<Rightarrow> find_exception \<Rightarrow> bool \<Rightarrow> string list \<Rightarrow> scanned_member \<Rightarrow> member_state \<Rightarrow> member_state res option" where
  "scan_member ops find_exc allow_subclassing methods_to_ignore sm = (\<lambda>(cmds, actions, trivial, copy).
     if is_ignored methods_to_ignore sm then Some (Inr (cmds, actions, trivial, copy))
     else case sm_member sm of
       Method_Member m \<Rightarrow> bind_div (scan_method ops find_exc allow_subclassing (sm_annotations sm) m) (\<lambda>(cs, as).
         Some (Inr (cmds @ cs, actions @ as, trivial, copy)))
     | Ctor_Member k \<Rightarrow> bind_div (scan_constructor ops find_exc (sm_annotations sm) k) (\<lambda>(cs, as, is_copy).
         Some (Inr (cmds @ cs, actions @ as,
           trivial \<or> (ki_access_type k \<in> {''public'', ''protected''} \<and> ki_arguments k = []), copy \<or> is_copy)))
     | Attribute_Member a \<Rightarrow> bind_div (scan_attribute ops (sm_annotations sm) a) (\<lambda>(cs, as).
         Some (Inr (cmds @ cs, actions @ as, trivial, copy)))
     | Other_Kind \<Rightarrow> Some (Inr (cmds, actions, trivial, copy)))"

fun scan_members :: "realize_ops \<Rightarrow> find_exception \<Rightarrow> bool \<Rightarrow> string list \<Rightarrow> scanned_member list \<Rightarrow> member_state \<Rightarrow> member_state res option" where
  "scan_members ops find_exc allow_subclassing methods_to_ignore [] st = Some (Inr st)"
| "scan_members ops find_exc allow_subclassing methods_to_ignore (sm # sms) st =
     bind_div (scan_member ops find_exc allow_subclassing methods_to_ignore sm st)
       (scan_members ops find_exc allow_subclassing methods_to_ignore sms)"

text \<open>
  The constructors that are not public, in a first pass: they tell that the compiler does not supply one.
  \<open>refers_to_class\<close>: the type is a reference to the class.
\<close>

definition hidden_constructors :: "(string \<Rightarrow> bool) \<Rightarrow> scanned_member list \<Rightarrow> bool \<times> bool" where
  "hidden_constructors refers_to_class sms =
     (let hidden = [k. Ctor_Member k \<leftarrow> map sm_member sms, ki_access_type k \<in> {''protected'', ''private''}]
      in (list_ex (\<lambda>k. ki_arguments k = []) hidden,
          list_ex (\<lambda>k. case ki_arguments k of [arg] \<Rightarrow> refers_to_class (ai_type arg) | _ \<Rightarrow> False) hidden))"

definition methods_to_ignore :: "memory_policy option \<Rightarrow> string list" where
  "methods_to_ignore policy = (case policy of
     Some (ReferenceCountingMethodsPolicy incref decref peekref) \<Rightarrow> [incref, decref] @ (case peekref of None \<Rightarrow> [] | Some p \<Rightarrow> [p])
   | _ \<Rightarrow> [])"

text \<open>
  The whole scan, after the operators.  \<open>trivial_ctor\<close> and \<open>copy_ctor\<close> are the answers of pygccxml whether the class has such
  constructors.
\<close>

definition scan_class_methods ::
  "realize_ops \<Rightarrow> find_exception \<Rightarrow> (string \<Rightarrow> bool) \<Rightarrow> bool \<Rightarrow> memory_policy option \<Rightarrow> bool \<Rightarrow> bool \<Rightarrow> scanned_member list \<Rightarrow>
    (sink_cmd list \<times> class_action list) res option" where
  "scan_class_methods ops find_exc refers_to_class allow_subclassing policy trivial_ctor copy_ctor sms =
     (case hidden_constructors refers_to_class sms of (trivial, copy) \<Rightarrow>
       bind_div (scan_members ops find_exc allow_subclassing (methods_to_ignore policy) sms ([], [], trivial, copy))
         (\<lambda>(cmds, actions, trivial, copy). Some (Inr (
            cmds @ (if \<not> trivial \<and> trivial_ctor then [Writeln ''cls.add_constructor([])''] else []) @
              (if \<not> copy \<and> copy_ctor then [Writeln ''cls.add_copy_constructor()''] else []),
            actions @ (if \<not> trivial \<and> trivial_ctor then [Add_Constructor [] []] else []) @
              (if \<not> copy \<and> copy_ctor then [Add_Copy_Constructor] else [])))))"

section \<open>Pure virtual methods\<close>

text \<open>
  The actions for a pure virtual method either say that the class cannot be constructed, or add the method: under its name,
  with the specifications of its own return value and parameters, and as a pure virtual method.
\<close>

definition accounts_for :: "annotations \<Rightarrow> member_info \<Rightarrow> class_action list \<Rightarrow> bool" where
  "accounts_for an m actions \<longleftrightarrow>
     (\<exists>reason. Set_Cannot_Be_Constructed reason \<in> set actions) \<or>
     (\<exists>spec specs kwargs. return_spec (an_parameter an) (mi_return_type m) = Some (Inr spec) \<and>
        argument_specs (an_parameter an) (mi_arguments m) = Some (Inr specs) \<and>
        map_of kwargs ''is_pure_virtual'' = Some (Kw_Value (PyBool True)) \<and>
        Add_Method (mi_name m) spec specs kwargs \<in> set actions)"

lemma realize_method_actions:
  "realize_method ops True name spec specs kwargs = Inr (cs, as) \<Longrightarrow>
     (\<exists>reason. Set_Cannot_Be_Constructed reason \<in> set as) \<or> Add_Method name spec specs kwargs \<in> set as"
  by (cases spec) (auto simp: realize_method_def bind_res_Inr not_wrapped_def
      split: if_splits sum.splits bool.splits py_error.splits)

lemma map_of_put_flag: "map_of (put_flag b n kwargs) k = (if b \<and> k = n then Some (Kw_Value (PyBool True)) else map_of kwargs k)"
  by (simp add: put_flag_def update_conv')

lemma pure_virtual_flag:
  "mi_virtuality m = Pure_Virtual \<Longrightarrow>
     map_of (put_flag b ''deprecated'' (member_flags m n kwargs)) ''is_pure_virtual'' = Some (Kw_Value (PyBool True))"
  by (simp add: map_of_put_flag member_flags_def Let_def update_conv' split: option.split)

lemma scan_method_accounts:
  assumes "scan_method ops find_exc allow an m = Some (Inr (cs, as))" "mi_virtuality m = Pure_Virtual" "mi_operator m \<in> {None, Some ''()''}"
  shows "accounts_for an m as"
proof -
  obtain annotated where annotated: "method_annotations find_exc (an_global an) [] = Some (Inr annotated)"
    using assms(1) by (auto simp: scan_method_def bind_div_Inr)
  obtain named where "operator_name m annotated = Some named" using assms(3) by (auto simp: operator_name_def)
  moreover have "\<not> is_irrelevant m" using assms(2) by (simp add: is_irrelevant_def)
  ultimately have "\<exists>spec specs kwargs n cmds actions.
      return_spec (an_parameter an) (mi_return_type m) = Some (Inr spec) \<and> argument_specs (an_parameter an) (mi_arguments m) = Some (Inr specs) \<and>
      realize_method ops True (mi_name m) spec specs (put_flag (mi_deprecated m) ''deprecated'' (member_flags m n kwargs)) = Inr (cmds, actions) \<and>
      set actions \<subseteq> set as"
    using assms(1,2) unfolding scan_method_def
    by (auto simp: annotated bind_div_Inr Let_def simp del: split_paired_Ex split: prod.splits) blast+
  then obtain spec specs kwargs n cmds actions where spec: "return_spec (an_parameter an) (mi_return_type m) = Some (Inr spec)"
      and specs: "argument_specs (an_parameter an) (mi_arguments m) = Some (Inr specs)"
      and run: "realize_method ops True (mi_name m) spec specs (put_flag (mi_deprecated m) ''deprecated'' (member_flags m n kwargs)) = Inr (cmds, actions)"
      and sub: "set actions \<subseteq> set as"
    by (elim exE conjE)
  show ?thesis
    unfolding accounts_for_def using realize_method_actions [OF run] sub spec specs pure_virtual_flag [OF assms(2)] by blast
qed

lemma scan_method_operator:
  "scan_method ops find_exc allow an m = Some (Inr (cs, as)) \<Longrightarrow> mi_operator m \<notin> {None, Some ''()''} \<Longrightarrow> as = []"
  by (auto simp: scan_method_def bind_div_Inr operator_name_def split: option.splits)

text \<open>What a member of the class may do to the class wrapper, as far as pure virtual methods are concerned.\<close>

definition member_actions :: "string list \<Rightarrow> scanned_member \<Rightarrow> class_action list \<Rightarrow> bool" where
  "member_actions ignored sm as \<longleftrightarrow>
     (\<forall>m. sm_member sm = Method_Member m \<longrightarrow> mi_virtuality m = Pure_Virtual \<longrightarrow> \<not> is_ignored ignored sm \<longrightarrow>
       (if mi_operator m \<in> {None, Some ''()''} then accounts_for (sm_annotations sm) m as else as = []))"

lemma scan_member_actions:
  assumes "scan_member ops find_exc allow ignored sm (cmds, actions, flags) = Some (Inr (cmds', actions', flags'))"
  shows "\<exists>as. actions' = actions @ as \<and> member_actions ignored sm as"
proof (cases "is_ignored ignored sm")
  case True
  then show ?thesis using assms by (cases flags) (auto simp: scan_member_def member_actions_def)
next
  case False
  show ?thesis
  proof (cases "sm_member sm")
    case (Method_Member m)
    then obtain cs as where run: "scan_method ops find_exc allow (sm_annotations sm) m = Some (Inr (cs, as))" "actions' = actions @ as"
      using assms False by (cases flags) (auto simp: scan_member_def bind_div_Inr)
    then have "member_actions ignored sm as"
      using Method_Member by (auto simp: member_actions_def dest: scan_method_accounts scan_method_operator)
    then show ?thesis using run(2) by blast
  qed (use assms False in \<open>cases flags; auto simp: scan_member_def member_actions_def bind_div_Inr\<close>)+
qed

lemma scan_members_actions:
  assumes "scan_members ops find_exc allow ignored sms (cmds, actions, flags) = Some (Inr (cmds', actions', flags'))"
  shows "\<exists>parts. actions' = actions @ concat parts \<and> list_all2 (member_actions ignored) sms parts"
  using assms
proof (induction sms arbitrary: cmds actions flags)
  case (Cons sm sms)
  then obtain c a f where first: "scan_member ops find_exc allow ignored sm (cmds, actions, flags) = Some (Inr (c, a, f))"
      and rest: "scan_members ops find_exc allow ignored sms (c, a, f) = Some (Inr (cmds', actions', flags'))"
    by (auto simp: bind_div_Inr)
  obtain as where "a = actions @ as" "member_actions ignored sm as" using scan_member_actions [OF first] by blast
  moreover obtain parts where "actions' = a @ concat parts" "list_all2 (member_actions ignored) sms parts" using Cons.IH [OF rest] by blast
  ultimately show ?case by (intro exI [of _ "as # parts"]) simp
qed simp

text \<open>
  C10. Pure virtual methods.  When the scan of the members of a class ends without an error, the actions on the class are
  those for each member in turn, and some for constructors that the compiler supplies.  For every pure virtual method that
  is not ignored, each overload by itself, the actions of this member mark the class as one that cannot be constructed,
  or add the method as a pure virtual one, with the specifications of its own return value and parameters.  The call
  operator is treated in the same way.  The other operators are the exception: a pure virtual one leaves no trace, so
  that the class stays constructible.
\<close>

theorem pure_virtual_accounted:
  assumes "scan_class_methods ops find_exc refers allow policy trivial_ctor copy_ctor sms = Some (Inr (cmds, actions))"
  shows "\<exists>parts rest. actions = concat parts @ rest \<and> length parts = length sms \<and>
    (\<forall>i m. i < length sms \<longrightarrow> sm_member (sms ! i) = Method_Member m \<longrightarrow> mi_virtuality m = Pure_Virtual \<longrightarrow>
       \<not> is_ignored (methods_to_ignore policy) (sms ! i) \<longrightarrow>
       (if mi_operator m \<in> {None, Some ''()''} then
          (\<exists>reason. Set_Cannot_Be_Constructed reason \<in> set (parts ! i)) \<or>
          (\<exists>spec specs kwargs. return_spec (an_parameter (sm_annotations (sms ! i))) (mi_return_type m) = Some (Inr spec) \<and>
             argument_specs (an_parameter (sm_annotations (sms ! i))) (mi_arguments m) = Some (Inr specs) \<and>
             map_of kwargs ''is_pure_virtual'' = Some (Kw_Value (PyBool True)) \<and>
             Add_Method (mi_name m) spec specs kwargs \<in> set (parts ! i))
        else parts ! i = []))"
proof -
  obtain trivial copy where hidden: "hidden_constructors refers sms = (trivial, copy)" by (cases "hidden_constructors refers sms")
  obtain cs as flags rest where run: "scan_members ops find_exc allow (methods_to_ignore policy) sms ([], [], trivial, copy) = Some (Inr (cs, as, flags))"
      and actions: "actions = as @ rest"
    using assms by (auto simp: scan_class_methods_def hidden bind_div_Inr)
  obtain parts where parts: "actions = concat parts @ rest" "list_all2 (member_actions (methods_to_ignore policy)) sms parts"
    using scan_members_actions [OF run] actions by auto
  show ?thesis
  proof (rule exI [of _ parts], rule exI [of _ rest], intro conjI allI impI)
    fix i m
    assume "i < length sms" "sm_member (sms ! i) = Method_Member m" "mi_virtuality m = Pure_Virtual" "\<not> is_ignored (methods_to_ignore policy) (sms ! i)"
    with list_all2_nthD [OF parts(2)] show "if mi_operator m \<in> {None, Some ''()''} then
          (\<exists>reason. Set_Cannot_Be_Constructed reason \<in> set (parts ! i)) \<or>
          (\<exists>spec specs kwargs. return_spec (an_parameter (sm_annotations (sms ! i))) (mi_return_type m) = Some (Inr spec) \<and>
             argument_specs (an_parameter (sm_annotations (sms ! i))) (mi_arguments m) = Some (Inr specs) \<and>
             map_of kwargs ''is_pure_virtual'' = Some (Kw_Value (PyBool True)) \<and>
             Add_Method (mi_name m) spec specs kwargs \<in> set (parts ! i))
        else parts ! i = []"
      unfolding member_actions_def accounts_for_def by blast
  qed (use parts in \<open>simp_all add: list_all2_lengthD\<close>)
qed

definition sample_method :: member_info where
  "sample_method = \<lparr>mi_name = ''f'', mi_operator = None, mi_virtuality = Pure_Virtual, mi_has_const = True, mi_has_static = False,
     mi_access_type = ''public'', mi_deprecated = False, mi_template = None, mi_return_type = ''int'', mi_arguments = [], mi_exceptions = []\<rparr>"

definition sample_ops :: realize_ops where
  "sample_ops = \<lparr>ro_return = (\<lambda>_. Inl (TypeLookupError [])), ro_parameter = (\<lambda>_. Inr ()), ro_add_method = (\<lambda>_ _ _ _. Inr True),
     ro_add_constructor = (\<lambda>_ _. Inr True), ro_is_this_ref = (\<lambda>_. False)\<rparr>"

definition sample_members :: "scanned_member list" where
  "sample_members = map (\<lambda>args. \<lparr>sm_name = ''f'', sm_member = Method_Member (sample_method\<lparr>mi_arguments := args\<rparr>), sm_annotations = no_annotations\<rparr>)
     [[], [\<lparr>ai_type = ''int'', ai_name = ''x'', ai_default_value = None\<rparr>]]"

text \<open>Two overloads of a method: the actions for each of them mark the class or add the method.\<close>

theorem pure_virtual_accounted_witness:
  "\<exists>cmds actions parts rest. scan_class_methods sample_ops (\<lambda>_. None) (\<lambda>_. False) True None True True sample_members = Some (Inr (cmds, actions)) \<and>
    actions = concat parts @ rest \<and> length parts = 2 \<and>
    (\<forall>i < 2. (\<exists>reason. Set_Cannot_Be_Constructed reason \<in> set (parts ! i)) \<or>
       (\<exists>spec specs kwargs. Add_Method ''f'' spec specs kwargs \<in> set (parts ! i)))"
proof -
  have "case scan_class_methods sample_ops (\<lambda>_. None) (\<lambda>_. False) True None True True sample_members of
      Some (Inr _) \<Rightarrow> True | _ \<Rightarrow> False" by code_simp
  then obtain cmds actions where run: "scan_class_methods sample_ops (\<lambda>_. None) (\<lambda>_. False) True None True True sample_members = Some (Inr (cmds, actions))"
    by (auto split: option.splits sum.splits)
  have n: "length sample_members = 2" by (simp add: sample_members_def)
  have member: "\<exists>m. sm_member (sample_members ! i) = Method_Member m \<and> mi_virtuality m = Pure_Virtual \<and> mi_operator m = None \<and>
      mi_name m = ''f'' \<and> \<not> is_ignored (methods_to_ignore None) (sample_members ! i)" if "i < 2" for i
  proof -
    have "i = 0 \<or> i = 1" using that by auto
    then show ?thesis
      by (elim disjE) (simp_all add: is_ignored_def sample_members_def sample_method_def no_annotations_def methods_to_ignore_def)
  qed
  show ?thesis using pure_virtual_accounted [OF run] run member unfolding n by (metis insertI1)
qed

end
