(* ===== verification/Epoll.thy ===== *)
theory Epoll
  imports Py_Prelude
begin

unbundle bit_operations_syntax

text \<open>
  \<open>epoll.py\<close>: the event loop of the test server.  Its state is the interest list kept by the kernel
  and the dictionary \<open>connections\<close>; one pass of the loop handles the batch of events that
  \<open>epoll.poll\<close> returns.  The kernel is the environment: an event carries the answers that the socket
  calls made while handling it get, and \<open>kernel_answer\<close> states what \<open>epoll(7)\<close> and \<open>accept(2)\<close>
  promise about them.
\<close>

section \<open>State and events\<close>

definition EPOLLIN :: int where "EPOLLIN = 1"
definition EPOLLOUT :: int where "EPOLLOUT = 4"
definition EPOLLERR :: int where "EPOLLERR = 8"
definition EPOLLHUP :: int where "EPOLLHUP = 16"

text \<open>
  \<open>registered\<close> maps a descriptor to its event mask, \<open>connections\<close> a descriptor to its socket (named by
  the descriptor it was accepted with), \<open>sent\<close> is what has been written to the clients.
\<close>

record server =
  serversocket :: int
  registered :: "int \<rightharpoonup> int"
  connections :: "int \<rightharpoonup> int"
  sent :: "(int \<times> string) list"

record event =
  fileno :: int
  event_mask :: int
  accept_answer :: "int res"
  recv_answer :: "string res"
  send_answer :: "int res"

definition server_init :: "int \<Rightarrow> server" where
  "server_init fd = \<lparr>serversocket = fd, registered = [fd \<mapsto> EPOLLIN], connections = Map.empty, sent = []\<rparr>"

section \<open>Operations\<close>

definition epoll_register :: "int \<Rightarrow> int \<Rightarrow> (server, unit) py" where
  "epoll_register fd events = (\<lambda>s.
     if registered s fd \<noteq> None then (Inl (IOError ''EEXIST''), s)
     else (Inr (), s\<lparr>registered := (registered s)(fd \<mapsto> events)\<rparr>))"

definition epoll_unregister :: "int \<Rightarrow> (server, unit) py" where
  "epoll_unregister fd = (\<lambda>s.
     if registered s fd = None then (Inl (IOError ''ENOENT''), s)
     else (Inr (), s\<lparr>registered := (registered s)(fd := None)\<rparr>))"

definition epoll_modify :: "int \<Rightarrow> int \<Rightarrow> (server, unit) py" where
  "epoll_modify fd events = (\<lambda>s.
     if registered s fd = None then (Inl (IOError ''ENOENT''), s)
     else (Inr (), s\<lparr>registered := (registered s)(fd \<mapsto> events)\<rparr>))"

definition get_connection :: "int \<Rightarrow> (server, int) py" where
  "get_connection fd = (\<lambda>s. case connections s fd of None \<Rightarrow> (Inl (KeyError ''connections''), s) | Some c \<Rightarrow> (Inr c, s))"

definition accept_connection :: "event \<Rightarrow> (server, unit) py" where
  "accept_connection ev =
     bnd (lift_res (accept_answer ev)) (\<lambda>connection. seqs [
       epoll_register connection EPOLLIN,
       upd (\<lambda>s. s\<lparr>connections := (connections s)(connection \<mapsto> connection)\<rparr>)])"

definition receive :: "event \<Rightarrow> (server, unit) py" where
  "receive ev =
     bnd (get_connection (fileno ev)) (\<lambda>_.
     bnd (lift_res (recv_answer ev)) (\<lambda>received.
       when_py (received = []) (epoll_unregister (fileno ev))))"

definition send_ack :: "event \<Rightarrow> (server, unit) py" where
  "send_ack ev =
     bnd (get_connection (fileno ev)) (\<lambda>connection.
     bnd (lift_res (send_answer ev)) (\<lambda>written. seqs [
       upd (\<lambda>s. s\<lparr>sent := sent s @ [(connection, take (nat written) ''ack'')]\<rparr>),
       epoll_modify (fileno ev) EPOLLIN]))"

definition hang_up :: "event \<Rightarrow> (server, unit) py" where
  "hang_up ev = seqs [
     epoll_unregister (fileno ev),
     bnd (get_connection (fileno ev)) (\<lambda>_. ret ()),
     upd (\<lambda>s. s\<lparr>connections := (connections s)(fileno ev := None)\<rparr>)]"

definition handle_event :: "event \<Rightarrow> (server, unit) py" where
  "handle_event ev =
     bnd (gets serversocket) (\<lambda>server_fd.
       if fileno ev = server_fd then accept_connection ev
       else if event_mask ev AND EPOLLIN \<noteq> 0 then receive ev
       else if event_mask ev AND EPOLLOUT \<noteq> 0 then send_ack ev
       else if event_mask ev AND EPOLLHUP \<noteq> 0 then hang_up ev
       else ret ())"

text \<open>The loop on the batches that \<open>epoll.poll\<close> returned so far, and the final block.\<close>

definition main_loop :: "event list list \<Rightarrow> (server, unit) py" where
  "main_loop batches = for_each (for_each handle_event) batches"

definition serve :: "event list list \<Rightarrow> (server, unit) py" where
  "serve batches = try_finally (main_loop batches) (bnd (gets serversocket) epoll_unregister)"

section \<open>The kernel\<close>

text \<open>
  A batch names registered descriptors, each at most once, and reports events of the mask or the
  two that are always reported; \<open>accept\<close> returns a descriptor that is not open.  The descriptors of
  the listening socket and of the sockets held in \<open>connections\<close> are open.
\<close>

definition kernel_poll :: "server \<Rightarrow> event list \<Rightarrow> bool" where
  "kernel_poll s evs \<longleftrightarrow> distinct (map fileno evs) \<and>
     list_all (\<lambda>ev. case registered s (fileno ev) of None \<Rightarrow> False
       | Some m \<Rightarrow> event_mask ev AND NOT (m OR EPOLLERR OR EPOLLHUP) = 0) evs"

definition kernel_accept :: "server \<Rightarrow> event \<Rightarrow> bool" where
  "kernel_accept s ev \<longleftrightarrow>
     (case accept_answer ev of Inl _ \<Rightarrow> True | Inr fd \<Rightarrow> fd \<noteq> serversocket s \<and> connections s fd = None)"

text \<open>One pass of the loop that raises nothing, under a kernel that keeps its promises.\<close>

inductive handles :: "server \<Rightarrow> event list \<Rightarrow> server \<Rightarrow> bool" where
  handles_Nil: "handles s [] s"
| handles_Cons: "kernel_accept s ev \<Longrightarrow> handle_event ev s = (Inr (), s') \<Longrightarrow> handles s' evs s'' \<Longrightarrow> handles s (ev # evs) s''"

definition batch :: "server \<Rightarrow> server \<Rightarrow> bool" where
  "batch s s' \<longleftrightarrow> (\<exists>evs. kernel_poll s evs \<and> handles s evs s')"

abbreviation reachable :: "int \<Rightarrow> server \<Rightarrow> bool" where
  "reachable fd s \<equiv> batch\<^sup>*\<^sup>* (server_init fd) s"

inductive_cases handles_ConsE: "handles s (ev # evs) s''"
inductive_cases handles_NilE: "handles s [] s'"

section \<open>The invariant\<close>

lemmas server_ops = epoll_register_def epoll_unregister_def epoll_modify_def get_connection_def
  accept_connection_def receive_def send_ack_def hang_up_def handle_event_def

text \<open>
  The listening socket stays registered; every other registered descriptor has its socket in
  \<open>connections\<close>; the server waits for input only and has never written.
\<close>

definition server_inv :: "server \<Rightarrow> bool" where
  "server_inv s \<longleftrightarrow>
     registered s (serversocket s) = Some EPOLLIN \<and> connections s (serversocket s) = None \<and> sent s = [] \<and>
     (\<forall>fd m. registered s fd = Some m \<longrightarrow> m = EPOLLIN \<and> (fd = serversocket s \<or> connections s fd = Some fd)) \<and>
     (\<forall>fd c. connections s fd = Some c \<longrightarrow> c = fd)"

text \<open>The events of a batch that are still to be handled.\<close>

definition pending :: "server \<Rightarrow> event list \<Rightarrow> bool" where
  "pending s evs \<longleftrightarrow> distinct (map fileno evs) \<and>
     (\<forall>ev \<in> set evs. registered s (fileno ev) \<noteq> None \<and> event_mask ev AND EPOLLOUT = 0)"

lemma mask_no_out:
  assumes "ev AND NOT (EPOLLIN OR EPOLLERR OR EPOLLHUP) = 0"
  shows "ev AND EPOLLOUT = 0"
proof -
  have "ev AND EPOLLOUT = (ev AND NOT (EPOLLIN OR EPOLLERR OR EPOLLHUP)) AND EPOLLOUT"
    by (simp add: and.assoc EPOLLIN_def EPOLLOUT_def EPOLLERR_def EPOLLHUP_def)
  with assms show ?thesis by simp
qed

lemma server_inv_init [simp]: "server_inv (server_init fd)"
  by (simp add: server_inv_def server_init_def)

lemma kernel_poll_pending: "server_inv s \<Longrightarrow> kernel_poll s evs \<Longrightarrow> pending s evs"
  by (fastforce simp: kernel_poll_def pending_def server_inv_def list_all_iff split: option.splits
      intro: mask_no_out)

text \<open>What handling an event does in such a state: no branch can fail by itself.\<close>

lemma handle_event_run:
  assumes inv: "server_inv s" and pend: "pending s (ev # evs)" and acc: "kernel_accept s ev"
  shows "handle_event ev s =
    (if fileno ev = serversocket s then
       case accept_answer ev of Inl e \<Rightarrow> (Inl e, s)
       | Inr c \<Rightarrow> (Inr (), s\<lparr>registered := (registered s)(c \<mapsto> EPOLLIN), connections := (connections s)(c \<mapsto> c)\<rparr>)
     else if event_mask ev AND EPOLLIN \<noteq> 0 then
       case recv_answer ev of Inl e \<Rightarrow> (Inl e, s)
       | Inr d \<Rightarrow> (Inr (), if d = [] then s\<lparr>registered := (registered s)(fileno ev := None)\<rparr> else s)
     else if event_mask ev AND EPOLLHUP \<noteq> 0 then
       (Inr (), s\<lparr>registered := (registered s)(fileno ev := None), connections := (connections s)(fileno ev := None)\<rparr>)
     else (Inr (), s))"
proof -
  obtain m where out: "event_mask ev AND EPOLLOUT = 0" and reg: "registered s (fileno ev) = Some m"
    using pend by (auto simp: pending_def)
  have conn: "connections s (fileno ev) = Some (fileno ev)" if "fileno ev \<noteq> serversocket s"
    using inv reg that by (auto simp: server_inv_def)
  have new: "registered s c = None" if "accept_answer ev = Inr c" for c
  proof (rule ccontr)
    assume "registered s c \<noteq> None"
    with inv have "c = serversocket s \<or> connections s c = Some c" by (auto simp: server_inv_def)
    with acc that show False by (auto simp: kernel_accept_def)
  qed
  show ?thesis
    using out reg conn new
    by (cases "accept_answer ev"; cases "recv_answer ev") (simp_all add: server_ops bnd_def when_py_def)
qed

lemma server_inv_accept:
  "server_inv s \<Longrightarrow> c \<noteq> serversocket s \<Longrightarrow> pending s evs \<Longrightarrow>
   (let s' = s\<lparr>registered := (registered s)(c \<mapsto> EPOLLIN), connections := (connections s)(c \<mapsto> c)\<rparr>
    in server_inv s' \<and> pending s' evs)"
  by (simp add: server_inv_def pending_def)

lemma server_inv_unregister:
  "server_inv s \<Longrightarrow> fd \<noteq> serversocket s \<Longrightarrow> pending s evs \<Longrightarrow> fd \<notin> fileno ` set evs \<Longrightarrow>
   (let s' = s\<lparr>registered := (registered s)(fd := None)\<rparr> in server_inv s' \<and> pending s' evs)"
  by (auto simp: server_inv_def pending_def)

lemma server_inv_delete:
  "server_inv s \<Longrightarrow> registered s fd = None \<Longrightarrow> server_inv (s\<lparr>connections := (connections s)(fd := None)\<rparr>)"
  by (auto simp: server_inv_def)

lemma handle_event_inv:
  assumes "server_inv s" "pending s (ev # evs)" "kernel_accept s ev" "handle_event ev s = (Inr (), s')"
  shows "server_inv s' \<and> pending s' evs \<and> serversocket s' = serversocket s"
proof -
  have p: "pending s evs" and d: "fileno ev \<notin> fileno ` set evs" using assms(2) by (auto simp: pending_def)
  have gone: "server_inv (s\<lparr>registered := (registered s)(fileno ev := None)\<rparr>)"
      "pending (s\<lparr>registered := (registered s)(fileno ev := None)\<rparr>) evs" if "fileno ev \<noteq> serversocket s"
    using server_inv_unregister [OF assms(1) that p d] by (simp_all add: Let_def)
  have hup: "server_inv (s\<lparr>registered := (registered s)(fileno ev := None), connections := (connections s)(fileno ev := None)\<rparr>)"
      "pending (s\<lparr>registered := (registered s)(fileno ev := None), connections := (connections s)(fileno ev := None)\<rparr>) evs"
    if "fileno ev \<noteq> serversocket s"
    using server_inv_delete [OF gone(1) [OF that], of "fileno ev"] gone(2) [OF that] by (simp_all add: pending_def)
  have new: "server_inv (s\<lparr>registered := (registered s)(c \<mapsto> EPOLLIN), connections := (connections s)(c \<mapsto> c)\<rparr>)"
      "pending (s\<lparr>registered := (registered s)(c \<mapsto> EPOLLIN), connections := (connections s)(c \<mapsto> c)\<rparr>) evs"
    if "accept_answer ev = Inr c" for c
    using server_inv_accept [OF assms(1) _ p, of c] assms(3) that by (simp_all add: Let_def kernel_accept_def)
  show ?thesis
    using assms(4) gone hup new assms(1) p unfolding handle_event_run [OF assms(1-3)]
    by (auto split: if_split_asm sum.split_asm)
qed

lemma handle_event_error:
  assumes "server_inv s" "pending s (ev # evs)" "kernel_accept s ev" "handle_event ev s = (Inl e, s')"
  shows "accept_answer ev = Inl e \<or> recv_answer ev = Inl e \<or> send_answer ev = Inl e"
  using assms(4) [unfolded handle_event_run [OF assms(1-3)]] by (auto split: if_splits sum.splits)

lemma handles_inv:
  "handles s evs s' \<Longrightarrow> server_inv s \<Longrightarrow> pending s (evs @ rest) \<Longrightarrow>
     server_inv s' \<and> pending s' rest \<and> serversocket s' = serversocket s"
proof (induction rule: handles.induct)
  case (handles_Cons s ev s' evs s'')
  then show ?case using handle_event_inv [of s ev "evs @ rest" s'] by simp
qed simp

lemma batch_inv: "batch s s' \<Longrightarrow> server_inv s \<Longrightarrow> server_inv s' \<and> serversocket s' = serversocket s"
  using handles_inv [where rest = "[]"] kernel_poll_pending by (auto simp: batch_def)

lemma reachable_inv: "reachable fd s \<Longrightarrow> server_inv s \<and> serversocket s = fd"
  by (induction rule: rtranclp_induct) (auto dest: batch_inv simp: server_inv_init [unfolded server_init_def] server_init_def)

section \<open>Properties\<close>

text \<open>
  C17. In every reachable state of the server, whatever batch the kernel delivers and whichever of
  its events comes next, handling it raises no exception of the server's own (no \<open>KeyError\<close> of
  \<open>connections\<close>, no \<open>IOError\<close> of the interest list): an exception is the answer of a socket call.  The
  registered descriptors are the listening socket and descriptors with a stored connection.
\<close>

theorem handle_event_safe:
  assumes "reachable fd s" and "kernel_poll s (evs @ ev # rest)" and "handles s evs s'" and "kernel_accept s' ev"
  shows "server_inv s' \<and>
    (\<forall>e. fst (handle_event ev s') = Inl e \<longrightarrow>
       accept_answer ev = Inl e \<or> recv_answer ev = Inl e \<or> send_answer ev = Inl e)"
proof -
  from assms(1) have "server_inv s" by (simp add: reachable_inv)
  then have "server_inv s'" "pending s' (ev # rest)"
    using handles_inv [OF assms(3) _ kernel_poll_pending [OF _ assms(2)]] by blast+
  then show ?thesis using handle_event_error [OF _ _ assms(4)] by (metis prod.collapse)
qed

definition sample_event :: "int \<Rightarrow> int \<Rightarrow> int \<Rightarrow> event" where
  "sample_event fd m conn = \<lparr>fileno = fd, event_mask = m, accept_answer = Inr conn, recv_answer = Inr [],
     send_answer = Inl (IOError ''EPIPE'')\<rparr>"

lemma sample_accept:
  "handle_event (sample_event 3 1 4) (server_init 3) =
     (Inr (), (server_init 3)\<lparr>registered := [3 \<mapsto> EPOLLIN, 4 \<mapsto> EPOLLIN], connections := [4 \<mapsto> 4]\<rparr>)"
  by (simp add: server_ops sample_event_def server_init_def bnd_def)

definition sample_server :: server where
  "sample_server = (server_init 3)\<lparr>registered := [3 \<mapsto> EPOLLIN, 4 \<mapsto> EPOLLIN], connections := [4 \<mapsto> 4]\<rparr>"

lemma sample_reachable: "reachable 3 sample_server"
proof -
  have "handles (server_init 3) [sample_event 3 1 4] sample_server"
    using handles_Cons [OF _ _ handles_Nil, of "server_init 3" "sample_event 3 1 4" sample_server] sample_accept
    by (simp add: kernel_accept_def sample_server_def) (simp add: sample_event_def server_init_def)
  moreover have "kernel_poll (server_init 3) [sample_event 3 1 4]"
    by (simp add: kernel_poll_def sample_event_def server_init_def EPOLLIN_def EPOLLERR_def EPOLLHUP_def)
  ultimately have "batch (server_init 3) sample_server" by (auto simp: batch_def)
  then show ?thesis by (rule r_into_rtranclp)
qed

theorem handle_event_safe_witness:
  "server_inv sample_server"
  using handle_event_safe [OF sample_reachable, of "[]" "sample_event 4 17 9" "[]"]
  by (simp add: kernel_poll_def kernel_accept_def sample_event_def sample_server_def server_init_def handles_Nil EPOLLIN_def EPOLLERR_def EPOLLHUP_def)

lemma handle_event_unregistered:
  assumes "connections s c \<noteq> None" "registered s c = None" "serversocket s \<noteq> c" "fileno ev \<noteq> c"
    "kernel_accept s ev" "handle_event ev s = (Inr (), s')"
  shows "connections s' c = connections s c \<and> registered s' c = None \<and> serversocket s' \<noteq> c"
  using assms
  by (auto simp: server_ops kernel_accept_def bnd_def when_py_def split: if_splits option.splits sum.splits)

lemma handles_unregistered:
  "handles s evs s' \<Longrightarrow> connections s c \<noteq> None \<Longrightarrow> registered s c = None \<Longrightarrow> serversocket s \<noteq> c \<Longrightarrow>
     c \<notin> fileno ` set evs \<Longrightarrow> connections s' c = connections s c \<and> registered s' c = None \<and> serversocket s' \<noteq> c"
proof (induction rule: handles.induct)
  case (handles_Cons s ev s' evs s'')
  then show ?case using handle_event_unregistered [of s c ev s'] by simp
qed simp

lemma batch_unregistered:
  assumes "batch s s'" "connections s c \<noteq> None" "registered s c = None" "serversocket s \<noteq> c"
  shows "connections s' c = connections s c \<and> registered s' c = None \<and> serversocket s' \<noteq> c"
proof -
  from assms(1) obtain evs where evs: "kernel_poll s evs" "handles s evs s'" by (auto simp: batch_def)
  have "c \<notin> fileno ` set evs" using evs(1) assms(3) by (auto simp: kernel_poll_def list_all_iff)
  with handles_unregistered [OF evs(2)] assms(2-4) show ?thesis by blast
qed

text \<open>
  C38. A connection is never released after its client has closed it: once the end of the stream has
  been received on a descriptor, its socket stays in \<open>connections\<close> in every later state, with no
  event that could remove it.
\<close>

theorem closed_connection_leaks:
  assumes "reachable fd s" and "kernel_poll s [ev]" and "fileno ev \<noteq> fd"
    and "event_mask ev AND EPOLLIN \<noteq> 0" and "recv_answer ev = Inr []"
  shows "\<exists>s'. handle_event ev s = (Inr (), s') \<and>
    (\<forall>s''. batch\<^sup>*\<^sup>* s' s'' \<longrightarrow> connections s'' (fileno ev) = Some (fileno ev) \<and> registered s'' (fileno ev) = None)"
proof -
  have inv: "server_inv s" and fd: "serversocket s = fd" using reachable_inv [OF assms(1)] by auto
  have c: "connections s (fileno ev) = Some (fileno ev)" and r: "registered s (fileno ev) \<noteq> None"
    using inv assms(2,3) fd by (auto simp: server_inv_def kernel_poll_def split: option.splits)
  let ?s' = "s\<lparr>registered := (registered s)(fileno ev := None)\<rparr>"
  have run: "handle_event ev s = (Inr (), ?s')"
    using assms(3-5) fd c r by (simp add: server_ops bnd_def when_py_def)
  have "connections s'' (fileno ev) = Some (fileno ev) \<and> registered s'' (fileno ev) = None \<and> serversocket s'' \<noteq> fileno ev"
    if "batch\<^sup>*\<^sup>* ?s' s''" for s''
    using that by (induction rule: rtranclp_induct) (use c fd assms(3) batch_unregistered in auto)
  with run show ?thesis by blast
qed

theorem closed_connection_leaks_witness:
  "\<exists>s'. handle_event (sample_event 4 17 9) sample_server = (Inr (), s') \<and>
    connections s' 4 = Some 4 \<and> registered s' 4 = None"
proof -
  have "\<exists>s'. handle_event (sample_event 4 17 9) sample_server = (Inr (), s') \<and>
    (\<forall>s''. batch\<^sup>*\<^sup>* s' s'' \<longrightarrow> connections s'' (fileno (sample_event 4 17 9)) = Some (fileno (sample_event 4 17 9)) \<and>
       registered s'' (fileno (sample_event 4 17 9)) = None)"
    by (rule closed_connection_leaks [OF sample_reachable])
      (simp_all add: sample_event_def kernel_poll_def sample_server_def server_init_def EPOLLIN_def EPOLLERR_def EPOLLHUP_def)
  then show ?thesis by (auto simp: sample_event_def)
qed

end
