(* ===== verification/Spec2Isabelle.thy ===== *)
theory Spec2Isabelle
  imports Module_Code Class_Code Member_Scan Epoll
begin

text \<open>
  \<^bold>\<open>The program.\<close>  The repository holds a memcache router in C++, the benchmark scripts around it, and a
  copy of PyBindGen, the Python program that generates the router's Python bindings.  This library
  verifies the Python part.  PyBindGen takes a description of C++ functions and classes and writes a
  Python extension module in C++: it parses C type names, looks up a type handler for each parameter
  and return value, lets the handlers write conversion code into the code blocks of a wrapper, and
  writes the blocks out through code sinks.

  \<^bold>\<open>How Python is modelled.\<close>  A method is a function in a state and exception monad \<open>('s, 'a) py\<close>: it
  returns a result or a Python exception (\<open>py_error\<close>) and the new state, so that the effects of a
  method that raises are kept (\<open>Py_Prelude\<close>).  \<open>'a res\<close> is a result or an exception without state;
  \<open>'a res option\<close> adds the loops that do not end, as \<open>None\<close>.  Objects are records; objects that are shared
  are numbers into a store.  Strings are lists of characters (\<open>Py_String\<close>); \<open>text % dict\<close> is
  \<open>percent_format\<close> (\<open>Template\<close>).  The error handler, user-supplied creation functions, type
  transformations and the operating system are arguments.

  \<^bold>\<open>The theories and what they show.\<close>
  \<^item> \<open>Code_Sink\<close> (\<open>typehandlers/codesink.py\<close>): memory, file and null sinks.  Flushing keeps every line in
    order with its indentation, also through intermediate sinks.
  \<^item> \<open>Tokenizer\<close>, \<open>C_Type\<close> (\<open>typehandlers/ctypeparser\<close>): tokens and type traits.  Plain text is covered by
    its tokens; parsing conserves tokens; the traits are those of the declarative reading of a type.
    Unterminated comments, \<open>**\<close> and nested templates are mishandled.
  \<^item> \<open>Code_Block\<close>, \<open>Params\<close>, \<open>Wrapper\<close>, \<open>Wrapper_Laws\<close>, \<open>Type_Matcher\<close>, \<open>Type_Handler\<close> (\<open>typehandlers/base.py\<close>):
    declaration scopes, code blocks with cleanup stacks, the arguments of PyArg_ParseTuple and
    Py_BuildValue, forward and reverse wrappers, the type matcher, the handler base classes.  Formats
    match their arguments; a dry run leaves no trace; a body is written completely or not at all; lookup
    is sound.  The locales \<open>step_relation\<close> and \<open>args_count\<close> are the calculus in which the handlers are proved.
  \<^item> \<open>Int_Types\<close>, \<open>String_Types\<close>, \<open>Simple_Types\<close>, \<open>Handlers\<close> (the other files of \<open>typehandlers\<close>): every built-in
    handler.  Whatever the parameters, the generated calls are consistent; the generated range checks
    are related to the machine words they protect.
  \<^item> \<open>Utils\<close> (\<open>utils.py\<close>, \<open>settings.py\<close>): mangled names are identifiers; error handling; specifications.
  \<^item> \<open>Overloading\<close>, \<open>Dispatch\<close> (\<open>overloading.py\<close>): the aggregator of overloaded wrappers, as text and as a C
    program that refines first-match dispatch and releases every exception.  The locale \<open>flag_source\<close> states
    what normalisation needs of a wrapper class; \<open>Function\<close> interprets it.
  \<^item> \<open>Wrapper_Registry\<close> (\<open>wrapper_registry.py\<close>): the declarations and statements that the two registries of
    wrappers write.
  \<^item> \<open>Cpp_Class\<close>, \<open>Cpp_Handlers\<close>, \<open>Cpp_Laws\<close> (\<open>cppclass.py\<close>, \<open>cppclass_typehandlers.py\<close>): classes, their resolution
    order, names and handlers; class parameters keep the generated calls consistent.
  \<^item> \<open>Cpp_Exception\<close> (\<open>cppexception.py\<close>), \<open>Function\<close> (\<open>function.py\<close>): exceptions and function wrappers; overloads
    end up with one calling convention.
  \<^item> \<open>Type_Object\<close> (\<open>pytypeobject.py\<close>), \<open>Converters\<close> (\<open>converter_functions.py\<close>): type structures and single value
    converters.
  \<^item> \<open>Enumeration\<close> (\<open>enum.py\<close>), \<open>Container\<close> (\<open>container.py\<close>): enumerations and standard containers with their
    handlers; a mix of built-in, class and container parameters keeps the generated calls consistent.
  \<^item> \<open>Py_Partial\<close>: actions that may raise, change the state and not end (\<open>('s, 'a) pyd\<close>).
  \<^item> \<open>Module\<close>, \<open>Module_Code\<close> (\<open>module.py\<close>): the tree of modules and namespaces, the sink managers, the forward
    declarations and the code of a module.  The tree is consistent in every reachable state; a class that was
    added is found.  The methods of classes that the generation of a module calls are arguments of these
    definitions; \<open>Class_Code\<close> defines them.
  \<^item> \<open>Cpp_Attribute\<close> (\<open>cppattribute.py\<close>), \<open>Cpp_Method\<close> (\<open>cppmethod.py\<close>): getters, setters and metaclasses; wrappers of
    methods and constructors, parent callers and proxies.  Overloads of a method agree on their flags.
  \<^item> \<open>Helper_Class\<close>, \<open>Class_Body\<close> (\<open>CppHelperClass\<close> and the \<open>add_\<close> methods of \<open>CppClass\<close> in \<open>cppclass.py\<close>): the subclass
    that forwards virtual methods to Python, and the tables of a class.  Invariants of both by rule induction
    over the operations.
  \<^item> \<open>Class_Container\<close> (\<open>cppclass_container.py\<close>), \<open>Class_Text\<close>, \<open>Class_Code\<close> (the generating methods of \<open>CppClass\<close>): the
    code of a class.  The generation keeps the type slots of the user and fills in the others; a generation is
    followed step by step to its end for a small class.
  \<^item> \<open>Annotations\<close>, \<open>Class_Scan\<close>, \<open>Pygen\<close>, \<open>Member_Scan\<close> (\<open>gccxmlparser.py\<close>): annotations in C++ header files, the order
    in which scanned classes are registered, the frame of the script that the parser writes, and the scan of the
    members of a class.  Annotations read back what was written; classes come after their base classes, none is
    left out without a reason, and sensible hierarchies are scanned to the end; no pure virtual method is overlooked,
    except for operators.  What the code asks of a declaration is a field of a record.
  \<^item> \<open>Epoll\<close> (\<open>epoll.py\<close>): the benchmark server; its tables stay consistent on every event sequence, and closed
    connections leak.

  \<^bold>\<open>Bounds and choices.\<close>  The recursions of \<open>generate_forward_declarations\<close> and \<open>do_generate\<close> over submodules, and
  of \<open>scan_types\<close> over nested classes, carry the depth of recursion that Python still allows: at 0 they raise
  Python's \<open>RuntimeError\<close>, and a tree of modules is no deeper than the number of its modules.  Loops that may not end (aliases, the resolution order, the tokenizer) are partial functions.  A
  dictionary or a set that the source iterates over in an unspecified order is a list in insertion order, or the
  order is an argument.  Warnings and the stack traces kept for messages have no counterpart,
  except for the warnings of the annotation scanner.  Wrapper objects are values: that one method object is added to two
  classes, which then share it, is not seen.  The description of a class that other components read repeats the table of
  its methods; \<open>show_methods\<close> brings it up to date after each change.

  \<^bold>\<open>Not modelled.\<close>  The rest of \<open>gccxmlparser.py\<close>, the scans of enumerations, typedefs, operators, containers
  and free functions, walks the declarations of the third-party library pygccxml at every step, and is left out, as
  are the hooks of the user.  \<open>add_struct\<close> of a module, which adds a class and then default
  constructors to it, spans the states of \<open>Module\<close> and of \<open>Class_Body\<close> and is left out.  \<open>modulegen.py\<close> is a list of
  calls of modelled operations; the remaining scripts drive the C++ client through sockets and the compiled
  extension module, and have no state of their own.
\<close>

end
